(* ===== verification/Valv_Prelude.thy ===== *)
theory Valv_Prelude
  imports Complex_Main "HOL-Library.List_Lexorder" "HOL-Library.Char_ord" "HOL-Library.Word"
begin

text \<open>
  Shared vocabulary of the development.  Rust strings are byte lists (\<open>string\<close>), so the
  lexicographic order of HOL-Library.List_Lexorder is the order Rust and SQLite (BINARY
  collation) use.  The theory holds the few \<open>str\<close> and slice operations the sources call,
  decimal printing, and the generic lemmas on association lists and keyed rows the components
  share, collected in \<open>named_theorems\<close>.
\<close>

named_theorems table_simps \<open>lookup-after-update laws of the keyed tables\<close>
named_theorems run_simps \<open>unfolding equations of the fallible-computation combinators\<close>

section \<open>Strings\<close>

definition starts_with :: "string \<Rightarrow> string \<Rightarrow> bool" where
  "starts_with s pre = (take (length pre) s = pre)"

definition ends_with :: "string \<Rightarrow> string \<Rightarrow> bool" where
  "ends_with s suf = (length suf \<le> length s \<and> drop (length s - length suf) s = suf)"

definition strip_prefix :: "string \<Rightarrow> string \<Rightarrow> string option" where
  "strip_prefix s pre = (if starts_with s pre then Some (drop (length pre) s) else None)"

definition strip_suffix :: "string \<Rightarrow> string \<Rightarrow> string option" where
  "strip_suffix s suf = (if ends_with s suf then Some (take (length s - length suf) s) else None)"

definition trim_end_char :: "char \<Rightarrow> string \<Rightarrow> string" where
  "trim_end_char c s = rev (dropWhile ((=) c) (rev s))"

definition trim_start_char :: "char \<Rightarrow> string \<Rightarrow> string" where
  "trim_start_char c s = dropWhile ((=) c) s"

definition is_ascii_ws :: "char \<Rightarrow> bool" where
  "is_ascii_ws c = (of_char c \<in> {9::nat, 10, 11, 12, 13, 32})"

definition trim_ws :: "string \<Rightarrow> string" where
  "trim_ws s = rev (dropWhile is_ascii_ws (rev (dropWhile is_ascii_ws s)))"

fun split_char :: "char \<Rightarrow> string \<Rightarrow> string list" where
  "split_char c [] = [[]]"
| "split_char c (x # xs) =
     (if x = c then [] # split_char c xs
      else (case split_char c xs of [] \<Rightarrow> [[x]] | p # ps \<Rightarrow> (x # p) # ps))"

fun is_infix :: "string \<Rightarrow> string \<Rightarrow> bool" where
  "is_infix pat [] = (pat = [])"
| "is_infix pat (x # xs) = (starts_with (x # xs) pat \<or> is_infix pat xs)"

fun intercalate :: "string \<Rightarrow> string list \<Rightarrow> string" where
  "intercalate sep [] = []"
| "intercalate sep [x] = x"
| "intercalate sep (x # y # ys) = x @ sep @ intercalate sep (y # ys)"

definition digit_char :: "nat \<Rightarrow> char" where
  "digit_char d = char_of (48 + d)"

fun string_of_nat :: "nat \<Rightarrow> string" where
  "string_of_nat n = (if n < 10 then [digit_char n]
     else string_of_nat (n div 10) @ [digit_char (n mod 10)])"

declare string_of_nat.simps [simp del]

definition string_of_int :: "int \<Rightarrow> string" where
  "string_of_int i = (if i < 0 then ''-'' @ string_of_nat (nat (- i)) else string_of_nat (nat i))"

definition is_digit :: "char \<Rightarrow> bool" where
  "is_digit c = (48 \<le> (of_char c :: nat) \<and> (of_char c :: nat) \<le> 57)"

definition digits_value :: "string \<Rightarrow> nat" where
  "digits_value s = foldl (\<lambda>n c. 10 * n + (of_char c - 48)) 0 s"

text \<open>\<open>str::parse::<u64>\<close>: an optional plus sign, digits only, no overflow.\<close>

definition parse_u64 :: "string \<Rightarrow> nat option" where
  "parse_u64 s =
     (let ds = (case s of [] \<Rightarrow> [] | c # cs \<Rightarrow> if c = CHR ''+'' then cs else s) in
      if ds \<noteq> [] \<and> list_all is_digit ds \<and> digits_value ds < 2 ^ 64 then Some (digits_value ds) else None)"

lemma starts_with_append [simp]: "starts_with (p @ s) p"
  by (simp add: starts_with_def)

lemma starts_with_iff: "starts_with s p \<longleftrightarrow> (\<exists>t. s = p @ t)"
  unfolding starts_with_def by (metis append_eq_conv_conj append_take_drop_id)

lemma ends_with_iff: "ends_with s p \<longleftrightarrow> (\<exists>t. s = t @ p)"
proof
  assume "ends_with s p"
  then have "s = take (length s - length p) s @ p"
    unfolding ends_with_def by (metis append_take_drop_id)
  then show "\<exists>t. s = t @ p" by blast
qed (auto simp: ends_with_def)

lemma is_infix_iff: "is_infix p s \<longleftrightarrow> (\<exists>a b. s = a @ p @ b)"
proof (induction s)
  case (Cons x xs)
  show ?case
    by (auto simp: Cons.IH starts_with_iff) (metis append_Cons append_self_conv2 neq_Nil_conv list.inject)+
qed auto

lemma is_infixI [intro]: "is_infix p (a @ p @ b)"
  by (auto simp: is_infix_iff)

lemma digit_char_is_digit: "d < 10 \<Longrightarrow> is_digit (digit_char d)"
  by (simp add: is_digit_def digit_char_def)

lemma of_char_digit_char: "d < 10 \<Longrightarrow> of_char (digit_char d) = 48 + d"
  by (simp add: digit_char_def)

lemma string_of_nat_digits: "list_all is_digit (string_of_nat n)"
  by (induction n rule: string_of_nat.induct)
     (subst string_of_nat.simps, auto simp: digit_char_is_digit)

lemma string_of_nat_nonempty [simp]: "string_of_nat n \<noteq> []"
  by (subst string_of_nat.simps) auto

lemma digits_value_string_of_nat [simp]: "digits_value (string_of_nat n) = n"
  by (induction n rule: string_of_nat.induct)
     (subst string_of_nat.simps, auto simp: digits_value_def of_char_digit_char)

lemma string_of_nat_inj [simp]: "string_of_nat m = string_of_nat n \<longleftrightarrow> m = n"
  by (metis digits_value_string_of_nat)

end
