(* ===== verification/Text_Ops.thy ===== *)
theory Text_Ops
  imports Valv_Prelude
begin

text \<open>
  The searches and replacements of \<open>str\<close> that the service files and the command line use: \<open>find\<close>,
  \<open>replace\<close> with a string and with a character pattern, with the lemmas that carry them over
  concatenations.
\<close>

section \<open>Searching\<close>

fun find_str :: "string \<Rightarrow> string \<Rightarrow> nat option" where
  "find_str pat [] = (if pat = [] then Some 0 else None)"
| "find_str pat (c # cs) = (if starts_with (c # cs) pat then Some 0 else map_option Suc (find_str pat cs))"

lemma starts_with_Cons [simp]:
  "starts_with (c # cs) (p # ps) \<longleftrightarrow> c = p \<and> starts_with cs ps"
  by (auto simp: starts_with_def)

lemma starts_with_Nil [simp]: "starts_with s []"
  by (simp add: starts_with_def)

lemma starts_with_Nil_iff [simp]: "starts_with [] (p # ps) = False"
  by (simp add: starts_with_def)

text \<open>A prefix without the first character of the pattern is skipped.\<close>

lemma find_str_skip:
  "p \<notin> set v \<Longrightarrow> find_str (p # ps) (v @ s) = map_option ((+) (length v)) (find_str (p # ps) s)"
  by (cases "find_str (p # ps) s") (induction v; auto)+

text \<open>A first occurrence found at the end of a text is the first in any continuation.\<close>

lemma starts_with_extend: "length p \<le> length s \<Longrightarrow> starts_with (s @ t) p = starts_with s p"
  by (simp add: starts_with_def)

lemma find_str_here [simp]: "find_str pat (pat @ t) = Some 0"
  by (cases "pat @ t"; metis append_is_Nil_conv find_str.simps starts_with_append)

lemma find_str_at:
  "find_str pat (a @ pat) = Some (length a) \<Longrightarrow> find_str pat (a @ pat @ t) = Some (length a)"
proof (induction a)
  case (Cons c a)
  have "starts_with ((c # a @ pat) @ t) pat = starts_with (c # a @ pat) pat" by (rule starts_with_extend) simp
  then show ?case using Cons by (auto split: if_splits)
qed simp

lemma find_str_Some_append:
  "find_str pat s = Some i \<Longrightarrow> \<exists>t. drop i s = pat @ t"
proof (induction pat s arbitrary: i rule: find_str.induct)
  case (2 pat c cs)
  then show ?case
    by (cases "starts_with (c # cs) pat") (auto simp: starts_with_iff)
qed (auto split: if_splits)

section \<open>Replacing\<close>

text \<open>\<open>str::replace\<close> with a character: every occurrence at once.\<close>

definition replace_char :: "char \<Rightarrow> string \<Rightarrow> string \<Rightarrow> string" where
  "replace_char c r s = concat (map (\<lambda>x. if x = c then r else [x]) s)"

text \<open>\<open>str::replace\<close> with a string: the occurrences from left to right, none overlapping another.
  The sources use non-empty patterns only.\<close>

function replace_str :: "string \<Rightarrow> string \<Rightarrow> string \<Rightarrow> string" where
  "replace_str pat r [] = []"
| "replace_str pat r (c # cs) =
     (if pat \<noteq> [] \<and> starts_with (c # cs) pat then r @ replace_str pat r (drop (length pat) (c # cs))
      else c # replace_str pat r cs)"
  by pat_completeness auto
termination
  by (relation "measure (\<lambda>(pat, r, s). length s)") auto

declare replace_str.simps(2) [simp del]

lemma replace_str_hit [simp]:
  "replace_str (p # ps) r ((p # ps) @ s) = r @ replace_str (p # ps) r s"
  by (simp add: replace_str.simps(2))

lemma replace_str_skip:
  "p \<notin> set v \<Longrightarrow> replace_str (p # ps) r (v @ s) = v @ replace_str (p # ps) r s"
  by (induction v) (auto simp: replace_str.simps(2))

lemma replace_str_miss:
  "\<not> starts_with (c # cs) (p # ps) \<Longrightarrow> replace_str (p # ps) r (c # cs) = c # replace_str (p # ps) r cs"
  by (auto simp: replace_str.simps(2))

lemma replace_char_append [simp]: "replace_char c r (s @ t) = replace_char c r s @ replace_char c r t"
  by (simp add: replace_char_def)

lemma replace_char_Nil [simp]: "replace_char c r [] = []"
  by (simp add: replace_char_def)

lemma replace_char_Cons [simp]: "replace_char c r (x # s) = (if x = c then r else [x]) @ replace_char c r s"
  by (simp add: replace_char_def)

lemma replace_char_same: "c \<notin> set s \<Longrightarrow> replace_char c r s = s"
  by (induction s) auto

end
