(* ===== verification/Json.thy ===== *)
theory Json
  imports Valv_Prelude
begin

text \<open>
  JSON values (\<open>serde_json::Value\<close>) as far as the sources inspect them: \<open>get\<close>, \<open>as_str\<close>,
  \<open>as_bool\<close>, and the field decoding that \<open>#[derive(Deserialize)]\<close> produces for the payload
  structs.  A derived struct is read from an object (unknown fields ignored) or from an array of
  its fields in declaration order; an \<open>Option\<close> field may be missing or null.
\<close>

datatype json =
    JNull
  | JBool bool
  | JInt int
  | JFloat string
  | JStr string
  | JArr "json list"
  | JObj "(string \<times> json) list"

fun json_get :: "json \<Rightarrow> string \<Rightarrow> json option" where
  "json_get (JObj kvs) k = map_of kvs k"
| "json_get _ _ = None"

fun json_as_str :: "json \<Rightarrow> string option" where
  "json_as_str (JStr s) = Some s"
| "json_as_str _ = None"

fun json_as_bool :: "json \<Rightarrow> bool option" where
  "json_as_bool (JBool b) = Some b"
| "json_as_bool _ = None"

text \<open>Scalars as the derived decoders read them; \<open>None\<close> is a decode error.\<close>

fun dec_string :: "json \<Rightarrow> string option" where
  "dec_string (JStr s) = Some s"
| "dec_string _ = None"

fun dec_u64 :: "json \<Rightarrow> nat option" where
  "dec_u64 (JInt i) = (if 0 \<le> i \<and> i < 2 ^ 64 then Some (nat i) else None)"
| "dec_u64 _ = None"

fun dec_i64 :: "json \<Rightarrow> int option" where
  "dec_i64 (JInt i) = (if - (2 ^ 63) \<le> i \<and> i < 2 ^ 63 then Some i else None)"
| "dec_i64 _ = None"

fun dec_bool :: "json \<Rightarrow> bool option" where
  "dec_bool (JBool b) = Some b"
| "dec_bool _ = None"

fun dec_option :: "(json \<Rightarrow> 'a option) \<Rightarrow> json \<Rightarrow> 'a option option" where
  "dec_option d JNull = Some None"
| "dec_option d v = (case d v of None \<Rightarrow> None | Some x \<Rightarrow> Some (Some x))"

fun those_list :: "'a option list \<Rightarrow> 'a list option" where
  "those_list [] = Some []"
| "those_list (None # _) = None"
| "those_list (Some x # xs) = (case those_list xs of None \<Rightarrow> None | Some ys \<Rightarrow> Some (x # ys))"

fun dec_list :: "(json \<Rightarrow> 'a option) \<Rightarrow> json \<Rightarrow> 'a list option" where
  "dec_list d (JArr vs) = those_list (map d vs)"
| "dec_list d _ = None"

text \<open>The fields of a derived struct: by name from an object, by position from an array that has
  at least the required fields and no more than all of them.\<close>

fun struct_fields :: "string list \<Rightarrow> nat \<Rightarrow> json \<Rightarrow> (string \<Rightarrow> json option) option" where
  "struct_fields names required (JObj kvs) = Some (map_of kvs)"
| "struct_fields names required (JArr vs) =
     (if required \<le> length vs \<and> length vs \<le> length names
      then Some (map_of (zip names vs)) else None)"
| "struct_fields names required _ = None"

definition req_field :: "(json \<Rightarrow> 'a option) \<Rightarrow> (string \<Rightarrow> json option) \<Rightarrow> string \<Rightarrow> 'a option" where
  "req_field d fs k = (case fs k of None \<Rightarrow> None | Some v \<Rightarrow> d v)"

definition opt_field :: "(json \<Rightarrow> 'a option) \<Rightarrow> (string \<Rightarrow> json option) \<Rightarrow> string \<Rightarrow> 'a option option" where
  "opt_field d fs k = (case fs k of None \<Rightarrow> Some None | Some v \<Rightarrow> dec_option d v)"

text \<open>A unit enum variant is its name, or an object holding only that name with a null value.\<close>

fun variant_name :: "json \<Rightarrow> string option" where
  "variant_name (JStr s) = Some s"
| "variant_name (JObj [(k, JNull)]) = Some k"
| "variant_name _ = None"

lemma those_list_Some_iff: "those_list xs = Some ys \<longleftrightarrow> xs = map Some ys"
proof (induction xs arbitrary: ys)
  case (Cons a xs)
  show ?case
  proof (cases a)
    case (Some z)
    then show ?thesis using Cons.IH by (cases "those_list xs") (auto simp: Cons_eq_map_conv)
  qed auto
qed auto

end
