(* ===== verification/Protocol.thy ===== *)
theory Protocol
  imports Json
begin

text \<open>
  The wire types of \<open>valv-sync/src/protocol/sync.rs\<close> and \<open>http.rs\<close>: operations a client submits,
  the replies, op-log entries, delta pages and tree snapshots, and the object-batch messages.
  \<open>i64\<close> sequence numbers are \<open>int\<close>, \<open>u64\<close> sizes \<open>nat\<close>.  SHA-256 (the \<open>sha2\<close> and \<open>hex\<close>
  crates) is the argument \<open>sha\<close> of the definitions that hash.
\<close>

definition PROTOCOL_VERSION :: int where "PROTOCOL_VERSION = 1"

definition PROTOCOL_HEADER :: string where "PROTOCOL_HEADER = ''X-Valv-Protocol''"

datatype node_type = NFile | NFolder

record create_payload =
  cp_node_id :: string
  cp_parent_id :: string
  cp_name :: string
  cp_node_type :: node_type

record chunk_ref =
  cr_hash :: string
  cr_offset :: nat
  cr_length :: nat

definition manifest_content_hash :: "(string \<Rightarrow> string) \<Rightarrow> chunk_ref list \<Rightarrow> string" where
  "manifest_content_hash sha manifest = sha (concat (map cr_hash manifest))"

record new_version_payload =
  nv_version_id :: string
  nv_content_hash :: string
  nv_size_bytes :: nat
  nv_manifest :: "chunk_ref list"
  nv_force_conflict_copy :: bool

record conflict_manifest =
  cm_version_id :: string
  cm_content_hash :: string
  cm_size_bytes :: nat
  cm_manifest :: "chunk_ref list"

datatype submit_op_request =
    CreateOp create_payload
  | RenameOp string int string
  | MoveOp string int string
  | DeleteOp string int
  | NewVersionOp string int new_version_payload

datatype submit_op_response =
    Applied int string
  | ConflictCopy int string string
  | Superseded int
  | Conflict string int "conflict_manifest option" conflict_manifest

fun result_str :: "submit_op_response \<Rightarrow> string" where
  "result_str (Applied _ _) = ''applied''"
| "result_str (ConflictCopy _ _ _) = ''conflict_copy''"
| "result_str (Superseded _) = ''superseded''"
| "result_str (Conflict _ _ _ _) = ''conflict''"

record op_log_entry =
  op_server_seq :: int
  op_node_id :: string
  op_type :: string
  op_payload :: json
  op_actor_device_id :: string
  op_applied_at :: string

record delta_pull_response =
  dp_ops :: "op_log_entry list"
  dp_up_to_seq :: int

record node_snapshot =
  ns_node_id :: string
  ns_parent_id :: "string option"
  ns_name :: string
  ns_node_type :: node_type
  ns_current_version_id :: "string option"
  ns_server_seq :: int
  ns_deleted_at :: "string option"

record folder_tree_response =
  ft_nodes :: "node_snapshot list"
  ft_up_to_seq :: int

section \<open>Object batch messages\<close>

datatype batch_operation = Upload | Download

record batch_request_object =
  bo_oid :: string
  bo_size :: nat

record batch_request =
  br_operation :: batch_operation
  br_transfer :: string
  br_objects :: "batch_request_object list"

definition new_batch_request :: "batch_operation \<Rightarrow> batch_request_object list \<Rightarrow> batch_request" where
  "new_batch_request operation objects =
     \<lparr> br_operation = operation, br_transfer = ''basic'', br_objects = objects \<rparr>"

record batch_action =
  ba_href :: string
  ba_header :: "(string \<times> string) list option"
  ba_expires_in :: "nat option"

record batch_actions =
  bas_upload :: "batch_action option"
  bas_download :: "batch_action option"

record batch_object_error =
  be_code :: nat
  be_message :: string

record batch_response_object =
  bp_oid :: string
  bp_size :: nat
  bp_actions :: "batch_actions option"
  bp_error :: "batch_object_error option"

record batch_response =
  bs_transfer :: string
  bs_objects :: "batch_response_object list"

section \<open>Decoding replies\<close>

definition dec_node_type :: "json \<Rightarrow> node_type option" where
  "dec_node_type v = (case variant_name v of
       None \<Rightarrow> None
     | Some s \<Rightarrow> if s = ''file'' then Some NFile else if s = ''folder'' then Some NFolder else None)"

definition dec_chunk_ref :: "json \<Rightarrow> chunk_ref option" where
  "dec_chunk_ref v = (case struct_fields [''chunk_hash'', ''offset'', ''length''] 3 v of
       None \<Rightarrow> None
     | Some fs \<Rightarrow> (case (req_field dec_string fs ''chunk_hash'', req_field dec_u64 fs ''offset'',
                         req_field dec_u64 fs ''length'') of
           (Some h, Some off, Some len) \<Rightarrow> Some \<lparr> cr_hash = h, cr_offset = off, cr_length = len \<rparr>
         | _ \<Rightarrow> None))"

definition dec_conflict_manifest :: "json \<Rightarrow> conflict_manifest option" where
  "dec_conflict_manifest v =
     (case struct_fields [''version_id'', ''content_hash'', ''size_bytes'', ''manifest''] 4 v of
       None \<Rightarrow> None
     | Some fs \<Rightarrow> (case (req_field dec_string fs ''version_id'', req_field dec_string fs ''content_hash'',
                         req_field dec_u64 fs ''size_bytes'', req_field (dec_list dec_chunk_ref) fs ''manifest'') of
           (Some v, Some h, Some s, Some m) \<Rightarrow>
             Some \<lparr> cm_version_id = v, cm_content_hash = h, cm_size_bytes = s, cm_manifest = m \<rparr>
         | _ \<Rightarrow> None))"

text \<open>The internally tagged reply enum: the tag selects the variant, whose fields are then read
  from the same object.\<close>

definition dec_submit_op_response :: "json \<Rightarrow> submit_op_response option" where
  "dec_submit_op_response v = (case v of
     JObj kvs \<Rightarrow>
      (let fs = map_of kvs in
       case req_field dec_string fs ''result'' of
         None \<Rightarrow> None
       | Some tag \<Rightarrow>
         if tag = ''applied'' then
           (case (req_field dec_i64 fs ''server_seq'', req_field dec_string fs ''node_id'') of
              (Some q, Some n) \<Rightarrow> Some (Applied q n) | _ \<Rightarrow> None)
         else if tag = ''conflict_copy'' then
           (case (req_field dec_i64 fs ''server_seq'', req_field dec_string fs ''node_id'',
                  req_field dec_string fs ''conflict_version_id'') of
              (Some q, Some n, Some c) \<Rightarrow> Some (ConflictCopy q n c) | _ \<Rightarrow> None)
         else if tag = ''superseded'' then
           (case req_field dec_i64 fs ''current_seq'' of
              Some q \<Rightarrow> Some (Superseded q) | None \<Rightarrow> None)
         else if tag = ''conflict'' then
           (case (req_field dec_string fs ''node_id'', req_field dec_i64 fs ''current_server_seq'',
                  opt_field dec_conflict_manifest fs ''base'',
                  req_field dec_conflict_manifest fs ''current'') of
              (Some n, Some q, Some b, Some c) \<Rightarrow> Some (Conflict n q b c) | _ \<Rightarrow> None)
         else None)
   | _ \<Rightarrow> None)"

lemma dec_submit_op_response_tag:
  assumes "dec_submit_op_response v = Some r"
  shows "json_get v ''result'' = Some (JStr (result_str r))"
proof -
  obtain kvs where v: "v = JObj kvs"
    using assms by (auto simp: dec_submit_op_response_def split: json.splits)
  obtain tag where tag: "req_field dec_string (map_of kvs) ''result'' = Some tag"
    using assms by (cases "req_field dec_string (map_of kvs) ''result''")
      (auto simp: dec_submit_op_response_def v Let_def)
  then have get: "map_of kvs ''result'' = Some (JStr tag)"
    by (auto simp: req_field_def split: option.splits elim: dec_string.elims)
  have "tag = result_str r"
    using assms tag by (auto simp: dec_submit_op_response_def v Let_def split: option.splits if_splits)
  then show ?thesis using get v by simp
qed

end
