(* ===== verification/Errors.thy ===== *)
theory Errors
  imports Protocol
begin

text \<open>
  The errors the sync engine distinguishes (\<open>anyhow::Error\<close> with the types the sources
  downcast to, \<open>UpdateRequired\<close>, \<open>OpForbidden\<close> and the command line's \<open>CliError\<close>) and fallible computations over a state:
  a computation returns \<open>Inl\<close> the error or \<open>Inr\<close> the value, together with the state reached, so
  effects that happen before an error stay visible, as in the program.  \<open>try_op\<close> is Rust's \<open>?\<close>.
\<close>

section \<open>Error values\<close>

record update_required =
  ur_min_protocol :: "int option"
  ur_message :: string

text \<open>The command line's error (\<open>CliError\<close> with its \<open>ErrorPayload\<close> in \<open>valv-cli/src/error.rs\<close>).\<close>

record cli_error =
  cl_exit_code :: nat
  cl_code :: string
  cl_message :: string
  cl_hint :: "string option"
  cl_scope :: "string option"

datatype io_kind = NotFound | AlreadyExists | PermissionDenied | IoOther

datatype error =
    EUpdateRequired update_required
  | EOpForbidden string
  | EStatus nat
  | ETransport
  | EDecode
  | EIo io_kind
  | EDb string
  | EMsg string
  | EBadRequest string
  | EMissing string
  | EConflict string
  | EBackend nat "string option"
  | EInternal error
  | ECli cli_error
  | ENoFuel

text \<open>\<open>EBadRequest\<close>, \<open>EMissing\<close> (\<open>NotFound\<close>), \<open>EConflict\<close> and \<open>EBackend\<close> are the variants of the daemon's
  \<open>DaemonError\<close> that its handlers raise directly; of the JSON bodies of the last two the code under
  \<open>error\<close> is kept.  \<open>EInternal\<close> is its \<open>Internal\<close> where a handler builds it from an error's text.  \<open>ENoFuel\<close> is not an error of the program: a loop the program runs without bound
  answers it when the model was given too few rounds.  The loops come with lemmas giving rounds that
  suffice.\<close>

definition unrecognized_submit_result :: "string option \<Rightarrow> update_required" where
  "unrecognized_submit_result result =
     (let detail = (case result of
          Some r \<Rightarrow> ''unrecognized op submission result `'' @ r @ ''`''
        | None \<Rightarrow> ''missing op submission result'')
      in \<lparr> ur_min_protocol = None, ur_message = detail @ ''; update Valv to keep syncing'' \<rparr>)"

definition unrecognized_op_type :: "string \<Rightarrow> update_required" where
  "unrecognized_op_type t =
     \<lparr> ur_min_protocol = None,
       ur_message = ''unrecognized op type `'' @ t @ ''`; update Valv to keep syncing'' \<rparr>"

definition protocol_too_old :: "int option \<Rightarrow> string option \<Rightarrow> update_required" where
  "protocol_too_old min_protocol message =
     \<lparr> ur_min_protocol = min_protocol,
       ur_message = (case message of Some m \<Rightarrow> m | None \<Rightarrow> ''Update Valv to keep syncing.'') \<rparr>"

definition mount_already_halted :: update_required where
  "mount_already_halted =
     \<lparr> ur_min_protocol = None, ur_message = ''Update Valv to keep syncing.'' \<rparr>"

fun is_update_required :: "error \<Rightarrow> update_required option" where
  "is_update_required (EUpdateRequired u) = Some u"
| "is_update_required _ = None"

fun is_op_forbidden :: "error \<Rightarrow> bool" where
  "is_op_forbidden (EOpForbidden _) = True"
| "is_op_forbidden _ = False"

section \<open>Fallible computations\<close>

type_synonym ('s, 'a) comp = "'s \<Rightarrow> (error + 'a) \<times> 's"

definition ret :: "'a \<Rightarrow> ('s, 'a) comp" where
  "ret x s = (Inr x, s)"

definition fail :: "error \<Rightarrow> ('s, 'a) comp" where
  "fail e s = (Inl e, s)"

definition try_op :: "('s, 'a) comp \<Rightarrow> ('a \<Rightarrow> ('s, 'b) comp) \<Rightarrow> ('s, 'b) comp" where
  "try_op m f s = (case m s of (Inl e, s') \<Rightarrow> (Inl e, s') | (Inr x, s') \<Rightarrow> f x s')"

text \<open>\<open>match m { Ok(x) => f x, Err(e) => h e }\<close>.\<close>

definition match_op :: "('s, 'a) comp \<Rightarrow> ('a \<Rightarrow> ('s, 'b) comp) \<Rightarrow> (error \<Rightarrow> ('s, 'b) comp) \<Rightarrow> ('s, 'b) comp" where
  "match_op m f h s = (case m s of (Inl e, s') \<Rightarrow> h e s' | (Inr x, s') \<Rightarrow> f x s')"

definition reads :: "('s \<Rightarrow> 'a) \<Rightarrow> ('s, 'a) comp" where
  "reads f s = (Inr (f s), s)"

definition writes :: "('s \<Rightarrow> 's) \<Rightarrow> ('s, unit) comp" where
  "writes f s = (Inr (), f s)"

definition lift_result :: "error + 'a \<Rightarrow> ('s, 'a) comp" where
  "lift_result r s = (r, s)"

text \<open>A computation on the state that first inspects it.\<close>

definition with_state :: "('s \<Rightarrow> ('s, 'a) comp) \<Rightarrow> ('s, 'a) comp" where
  "with_state f s = f s s"

text \<open>A \<open>for\<close> loop whose body may leave the function with \<open>?\<close>.\<close>

primrec for_each :: "'a list \<Rightarrow> ('a \<Rightarrow> 'b \<Rightarrow> ('s, 'b) comp) \<Rightarrow> 'b \<Rightarrow> ('s, 'b) comp" where
  "for_each [] body acc = ret acc"
| "for_each (x # xs) body acc = try_op (body x acc) (\<lambda>acc'. for_each xs body acc')"

lemmas comp_defs = ret_def fail_def try_op_def match_op_def reads_def writes_def lift_result_def
  with_state_def

declare comp_defs [run_simps]

lemma try_op_Inr: "m s = (Inr x, s') \<Longrightarrow> try_op m f s = f x s'"
  by (simp add: try_op_def)

lemma try_op_Inl: "m s = (Inl e, s') \<Longrightarrow> try_op m f s = (Inl e, s')"
  by (simp add: try_op_def)

lemma try_op_InrE:
  assumes "try_op m f s = (Inr y, s'')"
  obtains x s' where "m s = (Inr x, s')" "f x s' = (Inr y, s'')"
  using assms by (auto simp: try_op_def split: prod.splits sum.splits)

lemma try_op_cases:
  assumes "try_op m f s = (r, s'')"
  obtains (err) e where "m s = (Inl e, s'')" "r = Inl e"
    | (ok) x s' where "m s = (Inr x, s')" "f x s' = (r, s'')"
  using assms by (auto simp: try_op_def split: prod.splits sum.splits)

section \<open>What every run of a computation respects\<close>

text \<open>
  \<open>obeys R m\<close>: each run of \<open>m\<close> relates its start state to the state it reaches by \<open>R\<close>, whether it
  succeeds or fails.  For a preorder \<open>R\<close> the combinators preserve it, so that frame conditions
  (the database is untouched, the request log only grows by requests of a given kind) are
  proved once per primitive and carried through every caller.
\<close>

definition obeys :: "('s \<Rightarrow> 's \<Rightarrow> bool) \<Rightarrow> ('s, 'a) comp \<Rightarrow> bool" where
  "obeys R m = (\<forall>s. R s (snd (m s)))"

locale state_preorder =
  fixes R :: "'s \<Rightarrow> 's \<Rightarrow> bool"
  assumes refl: "R s s"
    and trans: "R s t \<Longrightarrow> R t u \<Longrightarrow> R s u"
begin

lemma obeys_ret: "obeys R (ret x)"
  by (simp add: obeys_def ret_def refl)

lemma obeys_fail: "obeys R (fail e)"
  by (simp add: obeys_def fail_def refl)

lemma obeys_reads: "obeys R (reads f)"
  by (simp add: obeys_def reads_def refl)

lemma obeys_lift: "obeys R (lift_result r)"
  by (simp add: obeys_def lift_result_def refl)

lemma obeys_writes: "(\<And>s. R s (f s)) \<Longrightarrow> obeys R (writes f)"
  by (simp add: obeys_def writes_def)

lemma obeys_with_state: "(\<And>s. obeys R (f s)) \<Longrightarrow> obeys R (with_state f)"
  by (simp add: obeys_def with_state_def)

lemma obeys_match:
  assumes "obeys R m" "\<And>x. obeys R (f x)" "\<And>e. obeys R (h e)"
  shows "obeys R (match_op m f h)"
  unfolding obeys_def
proof
  fix s
  obtain r s' where m: "m s = (r, s')" by (cases "m s")
  then have 1: "R s s'" using assms(1) unfolding obeys_def by (metis snd_conv)
  show "R s (snd (match_op m f h s))"
  proof (cases r)
    case (Inl e)
    then show ?thesis using m trans [OF 1] assms(3) by (simp add: match_op_def obeys_def)
  next
    case (Inr x)
    then show ?thesis using m trans [OF 1] assms(2) by (simp add: match_op_def obeys_def)
  qed
qed

lemma obeys_try:
  assumes "obeys R m" "\<And>x. obeys R (f x)"
  shows "obeys R (try_op m f)"
proof -
  have "try_op m f = match_op m f fail"
    by (rule ext) (simp add: try_op_def match_op_def fail_def split: prod.splits sum.splits)
  then show ?thesis using assms by (simp add: obeys_match obeys_fail)
qed

lemma obeys_for_each: "(\<And>x acc. obeys R (body x acc)) \<Longrightarrow> obeys R (for_each xs body acc)"
  by (induction xs arbitrary: acc) (simp_all add: obeys_ret obeys_try)

lemmas obeys_rules = obeys_ret obeys_fail obeys_reads obeys_lift obeys_with_state obeys_match
  obeys_try obeys_for_each

end

lemma obeys_run: "obeys R m \<Longrightarrow> m s = (r, s') \<Longrightarrow> R s s'"
  unfolding obeys_def by (metis snd_conv)

lemma obeys_weaken: "obeys R m \<Longrightarrow> (\<And>s s'. R s s' \<Longrightarrow> Q s s') \<Longrightarrow> obeys Q m"
  by (simp add: obeys_def)

section \<open>Computations that never run out of rounds\<close>

definition answers :: "('s, 'a) comp \<Rightarrow> bool" where
  "answers m = (\<forall>s. fst (m s) \<noteq> Inl ENoFuel)"

lemma answers_ret: "answers (ret x)"
  by (simp add: answers_def ret_def)

lemma answers_fail: "e \<noteq> ENoFuel \<Longrightarrow> answers (fail e)"
  by (simp add: answers_def fail_def)

lemma answers_reads: "answers (reads f)"
  by (simp add: answers_def reads_def)

lemma answers_writes: "answers (writes f)"
  by (simp add: answers_def writes_def)

lemma answers_lift: "r \<noteq> Inl ENoFuel \<Longrightarrow> answers (lift_result r)"
  by (simp add: answers_def lift_result_def)

lemma answers_with_state: "(\<And>s. answers (f s)) \<Longrightarrow> answers (with_state f)"
  by (simp add: answers_def with_state_def)

lemma answers_match:
  assumes "answers m" "\<And>x. answers (f x)" "\<And>e. e \<noteq> ENoFuel \<Longrightarrow> answers (h e)"
  shows "answers (match_op m f h)"
  unfolding answers_def
proof
  fix s
  show "fst (match_op m f h s) \<noteq> Inl ENoFuel"
  proof (cases "m s")
    case (Pair r s')
    then have "r \<noteq> Inl ENoFuel" using assms(1) unfolding answers_def by (metis fst_conv)
    then show ?thesis using Pair assms(2,3) by (cases r) (auto simp: match_op_def answers_def)
  qed
qed

lemma answers_try:
  assumes "answers m" "\<And>x. answers (f x)"
  shows "answers (try_op m f)"
proof -
  have "try_op m f = match_op m f fail"
    by (rule ext) (simp add: try_op_def match_op_def fail_def split: prod.splits sum.splits)
  then show ?thesis using assms by (simp add: answers_match answers_fail)
qed

lemma answers_for_each: "(\<And>x acc. answers (body x acc)) \<Longrightarrow> answers (for_each xs body acc)"
  by (induction xs arbitrary: acc) (simp_all add: answers_ret answers_try)

lemmas answers_rules = answers_ret answers_fail answers_reads answers_writes answers_lift answers_with_state
  answers_match answers_try answers_for_each

lemma answersD: "answers m \<Longrightarrow> m s = (r, s') \<Longrightarrow> r \<noteq> Inl ENoFuel"
  unfolding answers_def by (metis fst_conv)

section \<open>Triples\<close>

text \<open>\<open>triple P m Q E\<close>: from a state in \<open>P\<close>, \<open>m\<close> ends with a value and a state in \<open>Q\<close>, or with an
  error and a state in \<open>E\<close>.\<close>

fun outcome :: "('a \<Rightarrow> 's \<Rightarrow> bool) \<Rightarrow> ('s \<Rightarrow> bool) \<Rightarrow> (error + 'a) \<times> 's \<Rightarrow> bool" where
  "outcome Q E (Inl e, s) = E s"
| "outcome Q E (Inr x, s) = Q x s"

definition triple :: "('s \<Rightarrow> bool) \<Rightarrow> ('s, 'a) comp \<Rightarrow> ('a \<Rightarrow> 's \<Rightarrow> bool) \<Rightarrow> ('s \<Rightarrow> bool) \<Rightarrow> bool" where
  "triple P m Q E = (\<forall>s. P s \<longrightarrow> outcome Q E (m s))"

lemma tripleI:
  assumes "\<And>s e s'. P s \<Longrightarrow> m s = (Inl e, s') \<Longrightarrow> E s'" "\<And>s x s'. P s \<Longrightarrow> m s = (Inr x, s') \<Longrightarrow> Q x s'"
  shows "triple P m Q E"
  unfolding triple_def
proof (intro allI impI)
  fix s
  assume "P s"
  then show "outcome Q E (m s)"
    using assms by (cases "m s"; cases "fst (m s)") auto
qed

lemma triple_InlD: "triple P m Q E \<Longrightarrow> P s \<Longrightarrow> m s = (Inl e, s') \<Longrightarrow> E s'"
  unfolding triple_def by fastforce

lemma triple_InrD: "triple P m Q E \<Longrightarrow> P s \<Longrightarrow> m s = (Inr x, s') \<Longrightarrow> Q x s'"
  unfolding triple_def by fastforce

lemma triple_ret: "(\<And>s. P s \<Longrightarrow> Q x s) \<Longrightarrow> triple P (ret x) Q E"
  by (simp add: triple_def ret_def)

lemma triple_fail: "(\<And>s. P s \<Longrightarrow> E s) \<Longrightarrow> triple P (fail e) Q E"
  by (simp add: triple_def fail_def)

lemma triple_try:
  assumes "triple P m R E" "\<And>x. triple (R x) (f x) Q E"
  shows "triple P (try_op m f) Q E"
proof (rule tripleI)
  fix s e s'
  assume P: "P s" and run: "try_op m f s = (Inl e, s')"
  from run show "E s'"
    by (cases rule: try_op_cases) (use assms P in \<open>blast dest: triple_InlD triple_InrD\<close>)+
next
  fix s x s'
  assume P: "P s" and run: "try_op m f s = (Inr x, s')"
  from run show "Q x s'" by (rule try_op_InrE) (use assms P in \<open>blast dest: triple_InrD\<close>)
qed

lemma triple_match:
  assumes "triple P m R H" "\<And>x. triple (R x) (f x) Q E" "\<And>e. triple H (h e) Q E"
  shows "triple P (match_op m f h) Q E"
  unfolding triple_def
proof (intro allI impI)
  fix s
  assume P: "P s"
  obtain r s1 where m: "m s = (r, s1)" by fastforce
  show "outcome Q E (match_op m f h s)"
  proof (cases r)
    case (Inl e)
    then have "H s1" using assms(1) P m triple_InlD by fastforce
    then show ?thesis using m Inl assms(3) by (simp add: match_op_def triple_def)
  next
    case (Inr x)
    then have "R x s1" using assms(1) P m triple_InrD by fastforce
    then show ?thesis using m Inr assms(2) by (simp add: match_op_def triple_def)
  qed
qed

lemma triple_with_state: "(\<And>s. P s \<Longrightarrow> triple (\<lambda>t. t = s) (f s) Q E) \<Longrightarrow> triple P (with_state f) Q E"
  by (simp add: triple_def with_state_def)

lemma triple_lift: "(\<And>s x. P s \<Longrightarrow> r = Inr x \<Longrightarrow> Q x s) \<Longrightarrow> (\<And>s e. P s \<Longrightarrow> r = Inl e \<Longrightarrow> E s) \<Longrightarrow> triple P (lift_result r) Q E"
  by (cases r) (auto simp: triple_def lift_result_def)

lemma triple_writes: "(\<And>s. P s \<Longrightarrow> Q () (f s)) \<Longrightarrow> triple P (writes f) Q E"
  by (simp add: triple_def writes_def)

lemma triple_for_each:
  assumes "\<And>x acc. x \<in> set xs \<Longrightarrow> triple (I acc) (body x acc) I E"
  shows "triple (I acc) (for_each xs body acc) I E"
  using assms by (induction xs arbitrary: acc) (auto intro: triple_ret intro!: triple_try)

lemma triple_pre: "triple P m Q E \<Longrightarrow> (\<And>s. P' s \<Longrightarrow> P s) \<Longrightarrow> triple P' m Q E"
  by (simp add: triple_def)

lemma triple_post:
  assumes "triple P m Q E" "\<And>x s. Q x s \<Longrightarrow> Q' x s" "\<And>s. E s \<Longrightarrow> E' s"
  shows "triple P m Q' E'"
  by (rule tripleI) (use assms in \<open>blast dest: triple_InlD triple_InrD\<close>)+

lemma triple_obeys:
  assumes "obeys R m" "\<And>s s'. P s \<Longrightarrow> R s s' \<Longrightarrow> I s'"
  shows "triple P m (\<lambda>_. I) I"
proof (rule tripleI)
  fix s e s'
  assume "P s" "m s = (Inl e, s')"
  then show "I s'" using assms(2) obeys_run [OF assms(1)] by blast
next
  fix s x s'
  assume "P s" "m s = (Inr x, s')"
  then show "I s'" using assms(2) obeys_run [OF assms(1)] by blast
qed

end
