(* ===== verification/File_System.thy ===== *)
theory File_System
  imports Errors
begin

text \<open>
  The part of \<open>std::path\<close> and \<open>std::fs\<close> the sources use.  A path is the list of its components
  after the root.  The file system maps canonical paths to directories, files (content and signed
  modification time in nanoseconds), symbolic links (to an absolute path) and other entries;
  paths are resolved through links and \<open>..\<close>, at most 40 links, \<open>fs_denied\<close> lists the entries
  whose content the process may not read or change, and \<open>fs_faults\<close> the places where the device
  fails a write part-way or fails to flush it.  Every operation is total: what the kernel would
  refuse is an \<open>EIo\<close> error, and a failed write leaves the file it created with the bytes it took.
\<close>

type_synonym path = "string list"

section \<open>Paths\<close>

text \<open>\<open>Path::components\<close> of a string: separators collapse and \<open>.\<close> vanishes.\<close>

definition components :: "string \<Rightarrow> path" where
  "components s = filter (\<lambda>c. c \<noteq> [] \<and> c \<noteq> ''.'') (split_char CHR ''/'' s)"

definition is_absolute :: "string \<Rightarrow> bool" where
  "is_absolute s = starts_with s ''/''"

definition path_string :: "path \<Rightarrow> string" where
  "path_string p = (if p = [] then ''/'' else concat (map (\<lambda>c. CHR ''/'' # c) p))"

text \<open>\<open>Path::join\<close>: an absolute name replaces the path.\<close>

definition path_join :: "path \<Rightarrow> string \<Rightarrow> path" where
  "path_join p name = (if is_absolute name then components name else p @ components name)"

definition path_parent :: "path \<Rightarrow> path option" where
  "path_parent p = (if p = [] then None else Some (butlast p))"

definition path_file_name :: "path \<Rightarrow> string option" where
  "path_file_name p = (if p = [] \<or> last p = ''..'' then None else Some (last p))"

definition with_file_name :: "path \<Rightarrow> string \<Rightarrow> path" where
  "with_file_name p name = path_join (if path_file_name p = None then p else butlast p) name"

text \<open>\<open>rsplit_file_at_dot\<close>: the stem and extension of a file name.\<close>

definition split_at_dot :: "string \<Rightarrow> string option \<times> string option" where
  "split_at_dot name =
     (if name = ''..'' then (Some name, None)
      else (let ext = takeWhile (\<lambda>c. c \<noteq> CHR ''.'') (rev name);
                before = drop (length ext + 1) (rev name) in
        if length ext = length name then (Some name, None)
        else if before = [] then (Some name, None)
        else (Some (rev before), Some (rev ext))))"

definition file_stem_of :: "string \<Rightarrow> string option" where
  "file_stem_of name = fst (split_at_dot name)"

definition extension_of :: "string \<Rightarrow> string option" where
  "extension_of name = snd (split_at_dot name)"

definition strip_path_prefix :: "path \<Rightarrow> path \<Rightarrow> path option" where
  "strip_path_prefix p base = (if take (length base) p = base then Some (drop (length base) p) else None)"

text \<open>\<open>OsStr::to_str\<close> succeeds on valid UTF-8 only.\<close>

fun utf8_tail :: "nat \<Rightarrow> nat \<Rightarrow> nat \<Rightarrow> nat list \<Rightarrow> nat list option" where
  "utf8_tail 0 lo hi bs = Some bs"
| "utf8_tail (Suc n) lo hi [] = None"
| "utf8_tail (Suc n) lo hi (b # bs) = (if lo \<le> b \<and> b \<le> hi then utf8_tail n 128 191 bs else None)"

lemma utf8_tail_shorter: "utf8_tail n lo hi bs = Some cs \<Longrightarrow> length cs \<le> length bs"
  by (induction n lo hi bs rule: utf8_tail.induct) (auto split: if_splits)

function utf8_ok :: "nat list \<Rightarrow> bool" where
  "utf8_ok [] = True"
| "utf8_ok (b # bs) =
    (let rest = (if b < 128 then Some bs
        else if 194 \<le> b \<and> b \<le> 223 then utf8_tail 1 128 191 bs
        else if b = 224 then utf8_tail 2 160 191 bs
        else if b = 237 then utf8_tail 2 128 159 bs
        else if 225 \<le> b \<and> b \<le> 239 then utf8_tail 2 128 191 bs
        else if b = 240 then utf8_tail 3 144 191 bs
        else if 241 \<le> b \<and> b \<le> 243 then utf8_tail 3 128 191 bs
        else if b = 244 then utf8_tail 3 128 143 bs
        else None)
     in case rest of None \<Rightarrow> False | Some cs \<Rightarrow> utf8_ok cs)"
  by pat_completeness auto
termination
  by (relation "measure length") (auto split: if_splits dest!: utf8_tail_shorter [OF sym])

definition valid_utf8 :: "string \<Rightarrow> bool" where
  "valid_utf8 s = utf8_ok (map of_char s)"

definition to_str :: "string \<Rightarrow> string option" where
  "to_str s = (if valid_utf8 s then Some s else None)"

lemma utf8_ok_ascii: "(\<And>b. b \<in> set bs \<Longrightarrow> b < 128) \<Longrightarrow> utf8_ok (bs @ cs) = utf8_ok cs"
  by (induction bs) auto

section \<open>Entries and resolution\<close>

datatype fs_node = Dir | File string int | Symlink path | Special

text \<open>What the device does to a write: take a bounded number of bytes (it is full, it fails), or take
  them all and fail to flush them.\<close>

datatype write_fault = TakesOnly nat | NotSynced

record fs =
  fs_nodes :: "(path \<times> fs_node) list"
  fs_denied :: "path list"
  fs_faults :: "(path \<times> write_fault) list"

definition fs_entry :: "fs \<Rightarrow> path \<Rightarrow> fs_node option" where
  "fs_entry fs p = (if p = [] then Some Dir else map_of (fs_nodes fs) p)"

function resolve_from :: "fs \<Rightarrow> bool \<Rightarrow> nat \<Rightarrow> path \<Rightarrow> path \<Rightarrow> error + path" where
  "resolve_from fs create links base [] = Inr base"
| "resolve_from fs create links base (c # cs) =
     (if c = ''..'' then resolve_from fs create links (butlast base) cs
      else (case fs_entry fs (base @ [c]) of
          None \<Rightarrow> if create \<and> cs = [] then Inr (base @ [c]) else Inl (EIo NotFound)
        | Some (Symlink t) \<Rightarrow> (case links of 0 \<Rightarrow> Inl (EIo IoOther)
            | Suc n \<Rightarrow> resolve_from fs create n [] (t @ cs))
        | Some Dir \<Rightarrow> resolve_from fs create links (base @ [c]) cs
        | Some _ \<Rightarrow> if cs = [] then Inr (base @ [c]) else Inl (EIo IoOther)))"
  by pat_completeness auto
termination
  by (relation "measures [\<lambda>(fs, create, links, base, cs). links, \<lambda>(fs, create, links, base, cs). length cs]") auto

text \<open>With \<open>create\<close> the last component may be missing: the place where opening the path for writing
  would create a file, also behind a dangling link.\<close>

text \<open>\<open>fs::canonicalize\<close>; following every link, the last one too.\<close>

definition canonicalize :: "fs \<Rightarrow> path \<Rightarrow> error + path" where
  "canonicalize fs p = resolve_from fs False 40 [] p"

text \<open>The place a path names without following a final link: the resolved parent and the name.\<close>

definition resolve_parent :: "fs \<Rightarrow> path \<Rightarrow> error + path" where
  "resolve_parent fs p =
     (if p = [] then Inr []
      else if last p = ''..'' then canonicalize fs p
      else (case canonicalize fs (butlast p) of
          Inl e \<Rightarrow> Inl e
        | Inr d \<Rightarrow> if fs_entry fs d = Some Dir then Inr (d @ [last p]) else Inl (EIo IoOther)))"

definition symlink_metadata :: "fs \<Rightarrow> path \<Rightarrow> error + fs_node" where
  "symlink_metadata fs p = (case resolve_parent fs p of
      Inl e \<Rightarrow> Inl e
    | Inr q \<Rightarrow> (case fs_entry fs q of None \<Rightarrow> Inl (EIo NotFound) | Some n \<Rightarrow> Inr n))"

definition metadata :: "fs \<Rightarrow> path \<Rightarrow> error + fs_node" where
  "metadata fs p = (case canonicalize fs p of
      Inl e \<Rightarrow> Inl e
    | Inr q \<Rightarrow> (case fs_entry fs q of None \<Rightarrow> Inl (EIo NotFound) | Some n \<Rightarrow> Inr n))"

definition path_exists :: "fs \<Rightarrow> path \<Rightarrow> bool" where
  "path_exists fs p = (case metadata fs p of Inl _ \<Rightarrow> False | Inr _ \<Rightarrow> True)"

definition is_dir_path :: "fs \<Rightarrow> path \<Rightarrow> bool" where
  "is_dir_path fs p = (metadata fs p = Inr Dir)"

fun node_len :: "fs_node \<Rightarrow> nat" where
  "node_len (File c _) = length c"
| "node_len _ = 0"

fun node_mtime :: "fs_node \<Rightarrow> int" where
  "node_mtime (File _ t) = t"
| "node_mtime _ = 0"

section \<open>Reading\<close>

definition fs_read :: "fs \<Rightarrow> path \<Rightarrow> error + string" where
  "fs_read fs p = (case canonicalize fs p of
      Inl e \<Rightarrow> Inl e
    | Inr q \<Rightarrow> if q \<in> set (fs_denied fs) then Inl (EIo PermissionDenied)
       else (case fs_entry fs q of Some (File c _) \<Rightarrow> Inr c | _ \<Rightarrow> Inl (EIo IoOther)))"

definition child_names :: "fs \<Rightarrow> path \<Rightarrow> string list" where
  "child_names fs d = remdups (map last (filter (\<lambda>q. q \<noteq> [] \<and> butlast q = d) (map fst (fs_nodes fs))))"

definition fs_read_dir :: "fs \<Rightarrow> path \<Rightarrow> error + path list" where
  "fs_read_dir fs p = (case canonicalize fs p of
      Inl e \<Rightarrow> Inl e
    | Inr q \<Rightarrow> if q \<in> set (fs_denied fs) then Inl (EIo PermissionDenied)
       else if fs_entry fs q = Some Dir then Inr (map (\<lambda>c. p @ [c]) (child_names fs q))
       else Inl (EIo IoOther))"

section \<open>Writing\<close>

definition put_entry :: "path \<Rightarrow> fs_node \<Rightarrow> fs \<Rightarrow> fs" where
  "put_entry q n fs = fs \<lparr> fs_nodes := (q, n) # filter (\<lambda>e. fst e \<noteq> q) (fs_nodes fs) \<rparr>"

definition is_under :: "path \<Rightarrow> path \<Rightarrow> bool" where
  "is_under q d = (take (length d) q = d)"

definition drop_tree :: "path \<Rightarrow> fs \<Rightarrow> fs" where
  "drop_tree q fs = fs \<lparr> fs_nodes := filter (\<lambda>e. \<not> is_under (fst e) q) (fs_nodes fs) \<rparr>"

text \<open>\<open>write_all\<close> into a file just created or truncated: when the device takes fewer bytes, the call
  fails and the file holds those bytes.\<close>

definition write_bytes :: "path \<Rightarrow> string \<Rightarrow> int \<Rightarrow> (fs, unit) comp" where
  "write_bytes q content mtime fs = (case map_of (fs_faults fs) q of
      Some (TakesOnly n) \<Rightarrow> (if n < length content then Inl (EIo IoOther) else Inr (),
        put_entry q (File (take n content) mtime) fs)
    | _ \<Rightarrow> (Inr (), put_entry q (File content mtime) fs))"

text \<open>\<open>fs::write\<close>, that is \<open>File::create\<close> and \<open>write_all\<close>: the file is created in an existing
  directory or truncated, then written.\<close>

definition fs_write :: "path \<Rightarrow> string \<Rightarrow> int \<Rightarrow> (fs, unit) comp" where
  "fs_write p content mtime fs =
     (case resolve_from fs True 40 [] p of
        Inl e \<Rightarrow> (Inl e, fs)
      | Inr q \<Rightarrow> (case fs_entry fs q of
            None \<Rightarrow> if butlast q \<in> set (fs_denied fs) then (Inl (EIo PermissionDenied), fs)
                     else write_bytes q content mtime fs
          | Some (File _ _) \<Rightarrow> if q \<in> set (fs_denied fs) then (Inl (EIo PermissionDenied), fs)
                     else write_bytes q content mtime fs
          | Some _ \<Rightarrow> (Inl (EIo IoOther), fs)))"

text \<open>\<open>sync_all\<close> on the file just written at the path.\<close>

definition fs_sync :: "path \<Rightarrow> (fs, unit) comp" where
  "fs_sync p fs = (case canonicalize fs p of
      Inl e \<Rightarrow> (Inl e, fs)
    | Inr q \<Rightarrow> (if map_of (fs_faults fs) q = Some NotSynced then Inl (EIo IoOther) else Inr (), fs))"

fun create_dirs :: "path \<Rightarrow> path \<Rightarrow> (fs, unit) comp" where
  "create_dirs base [] fs = (Inr (), fs)"
| "create_dirs base (c # cs) fs =
    (case canonicalize fs (base @ [c]) of
        Inr q \<Rightarrow> if fs_entry fs q = Some Dir then create_dirs (base @ [c]) cs fs
                 else (Inl (EIo AlreadyExists), fs)
      | Inl _ \<Rightarrow> (case resolve_parent fs (base @ [c]) of
            Inl e \<Rightarrow> (Inl e, fs)
          | Inr q \<Rightarrow> if fs_entry fs q \<noteq> None then (Inl (EIo AlreadyExists), fs)
                     else if butlast q \<in> set (fs_denied fs) then (Inl (EIo PermissionDenied), fs)
                     else create_dirs (base @ [c]) cs (put_entry q Dir fs)))"

definition fs_create_dir_all :: "path \<Rightarrow> (fs, unit) comp" where
  "fs_create_dir_all p = create_dirs [] p"

definition move_tree :: "path \<Rightarrow> path \<Rightarrow> fs \<Rightarrow> fs" where
  "move_tree old new fs =
     (let moved = filter (\<lambda>e. is_under (fst e) old) (fs_nodes fs);
          others = filter (\<lambda>e. \<not> is_under (fst e) old \<and> \<not> is_under (fst e) new) (fs_nodes fs) in
      fs \<lparr> fs_nodes := map (\<lambda>(q, n). (new @ drop (length old) q, n)) moved @ others \<rparr>)"

definition fs_rename :: "path \<Rightarrow> path \<Rightarrow> (fs, unit) comp" where
  "fs_rename old new fs =
    (case (resolve_parent fs old, resolve_parent fs new) of
       (Inl e, _) \<Rightarrow> (Inl e, fs)
     | (_, Inl e) \<Rightarrow> (Inl e, fs)
     | (Inr a, Inr b) \<Rightarrow>
        (case fs_entry fs a of
           None \<Rightarrow> (Inl (EIo NotFound), fs)
         | Some n \<Rightarrow>
            if butlast a \<in> set (fs_denied fs) \<or> butlast b \<in> set (fs_denied fs)
            then (Inl (EIo PermissionDenied), fs)
            else if a = b then (Inr (), fs)
            else if is_under b a then (Inl (EIo IoOther), fs)
            else (case fs_entry fs b of
                None \<Rightarrow> (Inr (), move_tree a b fs)
              | Some Dir \<Rightarrow> if n = Dir \<and> child_names fs b = [] then (Inr (), move_tree a b fs)
                            else (Inl (EIo IoOther), fs)
              | Some _ \<Rightarrow> if n = Dir then (Inl (EIo IoOther), fs) else (Inr (), move_tree a b fs))))"

definition fs_remove_file :: "path \<Rightarrow> (fs, unit) comp" where
  "fs_remove_file p fs = (case resolve_parent fs p of
      Inl e \<Rightarrow> (Inl e, fs)
    | Inr q \<Rightarrow> (case fs_entry fs q of
          None \<Rightarrow> (Inl (EIo NotFound), fs)
        | Some Dir \<Rightarrow> (Inl (EIo IoOther), fs)
        | Some _ \<Rightarrow> if butlast q \<in> set (fs_denied fs) then (Inl (EIo PermissionDenied), fs)
                    else (Inr (), drop_tree q fs)))"

definition fs_remove_dir_all :: "path \<Rightarrow> (fs, unit) comp" where
  "fs_remove_dir_all p fs = (case resolve_parent fs p of
      Inl e \<Rightarrow> (Inl e, fs)
    | Inr q \<Rightarrow> (case fs_entry fs q of
          None \<Rightarrow> (Inl (EIo NotFound), fs)
        | Some (File _ _) \<Rightarrow> (Inl (EIo IoOther), fs)
        | Some Special \<Rightarrow> (Inl (EIo IoOther), fs)
        | Some _ \<Rightarrow> if q = [] \<or> butlast q \<in> set (fs_denied fs) \<or> list_ex (\<lambda>d. is_under d q) (fs_denied fs)
                    then (Inl (EIo PermissionDenied), fs)
                    else (Inr (), drop_tree q fs)))"

text \<open>\<open>fs::copy\<close>: the source is read through links, then the destination is written.\<close>

definition fs_copy :: "path \<Rightarrow> path \<Rightarrow> int \<Rightarrow> (fs, unit) comp" where
  "fs_copy src dst mtime fs = (case fs_read fs src of
      Inl e \<Rightarrow> (Inl e, fs) | Inr content \<Rightarrow> fs_write dst content mtime fs)"

section \<open>Frame lemmas\<close>

lemma fs_entry_root [simp]: "fs_entry fs [] = Some Dir"
  by (simp add: fs_entry_def)

lemma fs_entry_put [simp]:
  "fs_entry (put_entry q n fs) p = (if p = [] then Some Dir else if p = q then Some n else fs_entry fs p)"
proof -
  have "map_of (filter (\<lambda>e. fst e \<noteq> q) xs) p = (if p = q then None else map_of xs p)" for xs :: "(path \<times> fs_node) list"
    by (induction xs) auto
  then show ?thesis by (simp add: fs_entry_def put_entry_def)
qed

lemma fs_denied_put [simp]: "fs_denied (put_entry q n fs) = fs_denied fs"
  by (simp add: put_entry_def)

text \<open>Creating an entry where there was none disturbs no resolution that succeeded.\<close>

lemma resolve_from_put_new:
  assumes "resolve_from fs False links base cs = Inr r" "fs_entry fs q = None"
  shows "resolve_from (put_entry q n fs) False links base cs = Inr r"
  using assms
proof (induction fs "False" links base cs rule: resolve_from.induct)
  case (2 fs links base c cs)
  show ?case
  proof (cases "c = ''..''")
    case True
    then show ?thesis using 2 by simp
  next
    case False
    then obtain e where e: "fs_entry fs (base @ [c]) = Some e"
      using 2(4) by (cases "fs_entry fs (base @ [c])") auto
    then have e': "fs_entry (put_entry q n fs) (base @ [c]) = Some e" using 2(5) by auto
    show ?thesis
    proof (cases e)
      case (Symlink t)
      then show ?thesis using 2 False e e' by (cases links) auto
    qed (use 2 False e e' in \<open>auto split: if_splits\<close>)
  qed
qed simp

lemma resolve_from_put_file:
  assumes "resolve_from fs False links base cs = Inr r" "fs_entry fs q = Some (File c0 t0)"
  shows "resolve_from (put_entry q (File c1 t1) fs) False links base cs = Inr r"
  using assms
proof (induction fs "False" links base cs rule: resolve_from.induct)
  case (2 fs links base c cs)
  show ?case
  proof (cases "c = ''..''")
    case True
    then show ?thesis using 2 by simp
  next
    case False
    then obtain e where e: "fs_entry fs (base @ [c]) = Some e"
      using 2(4) by (cases "fs_entry fs (base @ [c])") auto
    show ?thesis
    proof (cases "base @ [c] = q")
      case True
      then show ?thesis using 2 False e by (auto split: if_splits)
    next
      case other: False
      then have e': "fs_entry (put_entry q (File c1 t1) fs) (base @ [c]) = Some e" using e by auto
      show ?thesis
      proof (cases e)
        case (Symlink t)
        then show ?thesis using 2 False e e' by (cases links) auto
      qed (use 2 False e e' in \<open>auto split: if_splits\<close>)
    qed
  qed
qed simp

lemma resolve_from_entry:
  "resolve_from fs False links base cs = Inr r \<Longrightarrow> fs_entry fs base \<noteq> None \<Longrightarrow>
   (\<And>p. fs_entry fs p \<noteq> None \<Longrightarrow> fs_entry fs (butlast p) \<noteq> None) \<Longrightarrow> fs_entry fs r \<noteq> None"
proof (induction fs "False" links base cs rule: resolve_from.induct)
  case (2 fs links base c cs)
  show ?case
  proof (cases "c = ''..''")
    case True
    then show ?thesis using 2 by auto
  next
    case False
    then obtain e where e: "fs_entry fs (base @ [c]) = Some e"
      using 2(4) by (cases "fs_entry fs (base @ [c])") auto
    show ?thesis
    proof (cases e)
      case (Symlink t)
      then show ?thesis using 2 False e by (cases links) (auto simp: fs_entry_def)
    qed (use 2 False e in \<open>auto split: if_splits\<close>)
  qed
qed simp

lemma fs_read_put_new:
  assumes "fs_read fs p = Inr c" "fs_entry fs q = None"
  shows "fs_read (put_entry q n fs) p = Inr c"
proof -
  obtain r where r: "canonicalize fs p = Inr r" using assms(1) by (auto simp: fs_read_def split: sum.splits)
  then have "canonicalize (put_entry q n fs) p = Inr r"
    using resolve_from_put_new assms(2) unfolding canonicalize_def by blast
  then show ?thesis using assms r by (auto simp: fs_read_def split: if_splits option.splits fs_node.splits)
qed

lemma path_exists_canonical: "path_exists fs p \<Longrightarrow> \<exists>q. canonicalize fs p = Inr q \<and> fs_entry fs q \<noteq> None"
  by (auto simp: path_exists_def metadata_def split: sum.splits option.splits)

lemma fs_read_exists: "fs_read fs p = Inr c \<Longrightarrow> path_exists fs p"
  by (auto simp: fs_read_def path_exists_def metadata_def split: sum.splits option.splits if_splits fs_node.splits)

lemma resolve_create:
  "resolve_from fs True links base cs = Inr q \<Longrightarrow> resolve_from fs False links base cs = Inr q \<or> fs_entry fs q = None"
proof (induction fs "True" links base cs rule: resolve_from.induct)
  case (2 fs links base c cs)
  show ?case
  proof (cases "c = ''..''")
    case True
    then show ?thesis using 2 by simp
  next
    case False
    show ?thesis
    proof (cases "fs_entry fs (base @ [c])")
      case None
      then show ?thesis using 2(4) False by (auto split: if_splits)
    next
      case (Some e)
      show ?thesis
      proof (cases e)
        case (Symlink t)
        then show ?thesis using 2 False Some by (cases links) auto
      qed (use 2 False Some in \<open>auto split: if_splits\<close>)
    qed
  qed
qed simp

lemma write_bytes_cases:
  assumes "write_bytes q content mtime fs = (r, fs')"
  shows "(r = Inr () \<and> fs' = put_entry q (File content mtime) fs) \<or>
    (r = Inl (EIo IoOther) \<and> (\<exists>n < length content. fs' = put_entry q (File (take n content) mtime) fs))"
  using assms by (auto simp: write_bytes_def split: option.splits write_fault.splits if_splits)

lemma write_bytes_ok: "write_bytes q content mtime fs = (Inr (), fs') \<Longrightarrow> fs' = put_entry q (File content mtime) fs"
  by (auto dest: write_bytes_cases)

text \<open>Writing to a path that does not exist, if it succeeds, creates a new entry and nothing else.\<close>

lemma fs_write_new:
  assumes "fs_write p content mtime fs = (Inr (), fs')" "\<not> path_exists fs p"
  obtains q where "fs_entry fs q = None" "fs' = put_entry q (File content mtime) fs"
    "resolve_from fs True 40 [] p = Inr q"
proof -
  obtain q where q: "resolve_from fs True 40 [] p = Inr q" "fs' = put_entry q (File content mtime) fs"
    using assms(1)
    by (auto simp: fs_write_def split: sum.splits option.splits fs_node.splits if_splits dest: write_bytes_ok)
  have "fs_entry fs q = None"
  proof (rule ccontr)
    assume some: "fs_entry fs q \<noteq> None"
    then have "canonicalize fs p = Inr q" using resolve_create [OF q(1)] by (auto simp: canonicalize_def)
    then show False using assms(2) some by (auto simp: path_exists_def metadata_def)
  qed
  then show thesis using q that by blast
qed

text \<open>A write to a path that does not exist, failed ones too, leaves what was there as it was and at
  most creates one file with a beginning of the content.\<close>

lemma fs_write_fresh:
  assumes "fs_write p content mtime fs = (r, fs')" "\<not> path_exists fs p"
  shows "fs' = fs \<or> (\<exists>q c. fs_entry fs q = None \<and> fs' = put_entry q (File c mtime) fs)"
proof (cases "resolve_from fs True 40 [] p")
  case (Inl e)
  then show ?thesis using assms(1) by (simp add: fs_write_def)
next
  case (Inr q)
  have none: "fs_entry fs q = None"
  proof (rule ccontr)
    assume some: "fs_entry fs q \<noteq> None"
    then have "canonicalize fs p = Inr q" using resolve_create [OF Inr] by (auto simp: canonicalize_def)
    then show False using assms(2) some by (auto simp: path_exists_def metadata_def)
  qed
  then show ?thesis
    using assms(1) Inr by (auto simp: fs_write_def split: if_splits dest!: write_bytes_cases)
qed

lemma resolve_create_put:
  assumes "resolve_from fs True links base cs = Inr q" "fs_entry fs q = None" "q \<noteq> []"
  shows "resolve_from (put_entry q (File c0 t0) fs) False links base cs = Inr q \<or>
    resolve_from fs False links base cs = Inr q"
  using assms
proof (induction fs "True" links base cs rule: resolve_from.induct)
  case (2 fs links base c cs)
  show ?case
  proof (cases "c = ''..''")
    case True
    then show ?thesis using 2 by simp
  next
    case False
    show ?thesis
    proof (cases "fs_entry fs (base @ [c])")
      case None
      then have "q = base @ [c]" "cs = []" using 2(4) False by (auto split: if_splits)
      then show ?thesis using False by simp
    next
      case (Some e)
      then have other: "base @ [c] \<noteq> q" using 2(5) by auto
      show ?thesis
      proof (cases e)
        case (Symlink t)
        then show ?thesis using 2 False Some other by (cases links) auto
      qed (use 2 False Some other in \<open>auto split: if_splits\<close>)
    qed
  qed
qed simp

section \<open>Removing\<close>

text \<open>\<open>fs_sub a b\<close>: every entry of \<open>a\<close> is in \<open>b\<close>.  What resolves in the smaller resolves to the same
  place in the larger.\<close>

definition fs_sub :: "fs \<Rightarrow> fs \<Rightarrow> bool" where
  "fs_sub a b = (\<forall>q n. fs_entry a q = Some n \<longrightarrow> fs_entry b q = Some n)"

lemma fs_sub_refl [simp]: "fs_sub a a"
  by (simp add: fs_sub_def)

lemma fs_sub_trans: "fs_sub a b \<Longrightarrow> fs_sub b c \<Longrightarrow> fs_sub a c"
  by (simp add: fs_sub_def)

lemma resolve_from_sub:
  assumes "fs_sub a b" "resolve_from a False links base cs = Inr r"
  shows "resolve_from b False links base cs = Inr r"
  using assms
proof (induction a "False" links base cs rule: resolve_from.induct)
  case (2 a links base c cs)
  show ?case
  proof (cases "c = ''..''")
    case True
    then show ?thesis using 2 by simp
  next
    case False
    then obtain n where n: "fs_entry a (base @ [c]) = Some n"
      using 2(5) by (cases "fs_entry a (base @ [c])") auto
    then have n': "fs_entry b (base @ [c]) = Some n" using 2(4) by (simp add: fs_sub_def)
    show ?thesis
    proof (cases n)
      case (Symlink t)
      then show ?thesis using 2 False n n' by (cases links) auto
    qed (use 2 False n n' in \<open>auto split: if_splits\<close>)
  qed
qed simp

lemma canonicalize_sub: "fs_sub a b \<Longrightarrow> canonicalize a p = Inr r \<Longrightarrow> canonicalize b p = Inr r"
  unfolding canonicalize_def by (rule resolve_from_sub)

lemma path_exists_sub:
  assumes "fs_sub a b" "path_exists a p"
  shows "path_exists b p"
proof -
  obtain q n where "canonicalize a p = Inr q" "fs_entry a q = Some n" using path_exists_canonical [OF assms(2)] by blast
  then have "canonicalize b p = Inr q" "fs_entry b q = Some n"
    using canonicalize_sub [OF assms(1)] assms(1) by (simp_all add: fs_sub_def)
  then show ?thesis by (simp add: path_exists_def metadata_def)
qed

lemma resolve_parent_sub:
  assumes "fs_sub a b" "resolve_parent a p = Inr q"
  shows "resolve_parent b p = Inr q"
  using assms canonicalize_sub [OF assms(1)]
  by (auto simp: resolve_parent_def fs_sub_def split: if_splits sum.splits)

lemma resolve_last:
  assumes "resolve_from fs False links base (cs @ [c]) = Inr r" "c \<noteq> ''..''"
  shows "\<exists>d. resolve_from fs False links base cs = Inr d \<and> fs_entry fs (d @ [c]) \<noteq> None"
  using assms
proof (induction fs "False" links base cs rule: resolve_from.induct)
  case (1 fs links base)
  then show ?case by (cases "fs_entry fs (base @ [c])") auto
next
  case (2 fs links base d cs)
  show ?case
  proof (cases "d = ''..''")
    case True
    then show ?thesis using 2 by simp
  next
    case False
    then obtain n where n: "fs_entry fs (base @ [d]) = Some n"
      using 2(4) by (cases "fs_entry fs (base @ [d])") auto
    show ?thesis
    proof (cases n)
      case (Symlink t)
      then show ?thesis using 2 False n by (cases links) auto
    qed (use 2 False n in auto)
  qed
qed

lemma path_exists_last:
  assumes "path_exists fs p" "p \<noteq> []" "last p \<noteq> ''..''"
  shows "\<exists>d. canonicalize fs (butlast p) = Inr d \<and> fs_entry fs (d @ [last p]) \<noteq> None"
proof -
  obtain r where "canonicalize fs (butlast p @ [last p]) = Inr r"
    using assms path_exists_canonical by fastforce
  then show ?thesis using resolve_last assms(3) unfolding canonicalize_def by blast
qed

lemma resolve_parent_exists:
  assumes "path_exists fs p"
  shows "(\<exists>q. resolve_parent fs p = Inr q \<and> fs_entry fs q \<noteq> None) \<or>
    (\<exists>d. canonicalize fs (butlast p) = Inr d \<and> fs_entry fs d \<noteq> Some Dir \<and> fs_entry fs (d @ [last p]) \<noteq> None)"
proof (cases "p = [] \<or> last p = ''..''")
  case True
  then show ?thesis using path_exists_canonical [OF assms] by (auto simp: resolve_parent_def)
next
  case False
  then show ?thesis using path_exists_last [OF assms] by (auto simp: resolve_parent_def)
qed

lemma drop_tree_entry [simp]:
  "fs_entry (drop_tree q fs) p = (if p = [] then Some Dir else if is_under p q then None else fs_entry fs p)"
proof -
  have "map_of (filter (\<lambda>e. \<not> is_under (fst e) q) xs) p = (if is_under p q then None else map_of xs p)"
    for xs :: "(path \<times> fs_node) list"
    by (induction xs) auto
  then show ?thesis by (simp add: fs_entry_def drop_tree_def)
qed

lemma drop_tree_sub: "q \<noteq> [] \<Longrightarrow> fs_sub (drop_tree q fs) fs"
  by (auto simp: fs_sub_def)

lemma is_under_refl [simp]: "is_under q q"
  by (simp add: is_under_def)

lemma dropped_is_gone:
  assumes "resolve_parent fs p = Inr q" "q \<noteq> []"
  shows "\<not> path_exists (drop_tree q fs) p"
proof
  let ?fs = "drop_tree q fs"
  assume ex: "path_exists ?fs p"
  note sub = drop_tree_sub [OF assms(2), of fs]
  consider "p = []" | "p \<noteq> []" "last p = ''..''" | "p \<noteq> []" "last p \<noteq> ''..''" by blast
  then show False
  proof cases
    case 1
    then show ?thesis using assms by (simp add: resolve_parent_def)
  next
    case 2
    then obtain r where "canonicalize ?fs p = Inr r" "fs_entry ?fs r \<noteq> None" using path_exists_canonical [OF ex] by blast
    then show ?thesis using canonicalize_sub [OF sub] assms 2 by (fastforce simp: resolve_parent_def)
  next
    case 3
    then obtain d where "canonicalize ?fs (butlast p) = Inr d" "fs_entry ?fs (d @ [last p]) \<noteq> None"
      using path_exists_last [OF ex] by blast
    then show ?thesis using canonicalize_sub [OF sub] assms 3
      by (fastforce simp: resolve_parent_def split: if_splits)
  qed
qed

text \<open>Removing a file or a directory: success drops what the path names, and only that; an error
  changes nothing, and the error \<open>NotFound\<close> means that there was nothing.\<close>

definition remove_path :: "bool \<Rightarrow> path \<Rightarrow> (fs, unit) comp" where
  "remove_path is_dir p = (if is_dir then fs_remove_dir_all p else fs_remove_file p)"

lemma remove_path_cases:
  assumes "remove_path is_dir p fs = (r, fs')"
  obtains (removed) q where "resolve_parent fs p = Inr q" "q \<noteq> []" "r = Inr ()" "fs' = drop_tree q fs"
    | (failed) e where "r = Inl e" "fs' = fs"
  using assms by (cases is_dir) (fastforce simp: remove_path_def fs_remove_file_def fs_remove_dir_all_def
      split: sum.splits option.splits fs_node.splits if_splits)+

lemma remove_path_NotFound:
  assumes "remove_path is_dir p fs = (Inl (EIo NotFound), fs')"
  shows "\<not> path_exists fs p"
proof
  assume "path_exists fs p"
  from resolve_parent_exists [OF this] show False
  proof (elim disjE exE conjE)
    fix q
    assume "resolve_parent fs p = Inr q" "fs_entry fs q \<noteq> None"
    then show False using assms
      by (cases is_dir) (auto simp: remove_path_def fs_remove_file_def fs_remove_dir_all_def
        split: option.splits fs_node.splits if_splits)
  next
    fix d
    assume d: "canonicalize fs (butlast p) = Inr d" "fs_entry fs d \<noteq> Some Dir" "fs_entry fs (d @ [last p]) \<noteq> None"
    show False
    proof (cases "p = [] \<or> last p = ''..''")
      case True
      then show ?thesis using \<open>path_exists fs p\<close> path_exists_canonical [of fs p] assms
        by (cases is_dir) (auto simp: remove_path_def fs_remove_file_def fs_remove_dir_all_def resolve_parent_def
          split: sum.splits option.splits fs_node.splits if_splits)
    next
      case False
      then have "resolve_parent fs p = Inl (EIo IoOther)" using d by (simp add: resolve_parent_def)
      then show ?thesis using assms
        by (cases is_dir) (auto simp: remove_path_def fs_remove_file_def fs_remove_dir_all_def)
    qed
  qed
qed

end
