(* ===== verification/Service_Files.thy ===== *)
theory Service_Files
  imports Text_Ops File_System
begin

text \<open>
  The files the daemon writes for the service managers and for itself: the launch agent
  (\<open>valvd/src/launchd.rs\<close>), the systemd unit (\<open>systemd.rs\<close>) and the template of \<open>config.toml\<close>
  (\<open>config.rs\<close>, \<open>valv-sync/src/config.rs\<close>); and the command line's reader of the launch agent
  (\<open>parse_first_program_argument\<close> of \<open>valv-cli/src/update.rs\<close>).  Paths are given as the strings
  \<open>display\<close> prints for UTF-8 paths.
\<close>

section \<open>XML\<close>

definition xml_escape :: "string \<Rightarrow> string" where
  "xml_escape s =
     replace_char (CHR 0x27) ''&apos;''
       (replace_char (CHR 0x22) ''&quot;''
         (replace_char CHR ''>'' ''&gt;''
           (replace_char CHR ''<'' ''&lt;'' (replace_char CHR ''&'' ''&amp;'' s))))"

definition xml_unescape :: "string \<Rightarrow> string" where
  "xml_unescape s =
     replace_str ''&amp;'' ''&''
       (replace_str ''&apos;'' [CHR 0x27]
         (replace_str ''&quot;'' [CHR 0x22]
           (replace_str ''&gt;'' ''>'' (replace_str ''&lt;'' ''<'' s))))"

text \<open>The escape of a character, and what is left of it after the first \<open>k\<close> replacements.\<close>

definition esc_char :: "nat \<Rightarrow> char \<Rightarrow> string" where
  "esc_char k c =
     (if c = CHR ''&'' then ''&amp;''
      else if c = CHR ''<'' \<and> k < 1 then ''&lt;''
      else if c = CHR ''>'' \<and> k < 2 then ''&gt;''
      else if c = CHR 0x22 \<and> k < 3 then ''&quot;''
      else if c = CHR 0x27 \<and> k < 4 then ''&apos;''
      else [c])"

lemma xml_escape_chars: "xml_escape s = concat (map (esc_char 0) s)"
  by (induction s) (auto simp: xml_escape_def esc_char_def)

lemma unescape_step:
  assumes "\<And>c t. replace_str pat r (esc_char k c @ t) = esc_char (Suc k) c @ replace_str pat r t"
  shows "replace_str pat r (concat (map (esc_char k) s)) = concat (map (esc_char (Suc k)) s)"
  by (induction s) (simp_all add: assms)

lemma unescape_lt: "replace_str ''&lt;'' ''<'' (concat (map (esc_char 0) s)) = concat (map (esc_char (Suc 0)) s)"
  by (rule unescape_step) (auto simp: esc_char_def replace_str.simps(2))

lemma unescape_gt:
  "replace_str ''&gt;'' ''>'' (concat (map (esc_char (Suc 0)) s)) = concat (map (esc_char (Suc (Suc 0))) s)"
  by (rule unescape_step) (auto simp: esc_char_def replace_str.simps(2))

lemma unescape_quot:
  "replace_str ''&quot;'' [CHR 0x22] (concat (map (esc_char (Suc (Suc 0))) s)) = concat (map (esc_char (Suc (Suc (Suc 0)))) s)"
  by (rule unescape_step) (auto simp: esc_char_def replace_str.simps(2))

lemma unescape_apos:
  "replace_str ''&apos;'' [CHR 0x27] (concat (map (esc_char (Suc (Suc (Suc 0)))) s)) =
   concat (map (esc_char (Suc (Suc (Suc (Suc 0))))) s)"
  by (rule unescape_step) (auto simp: esc_char_def replace_str.simps(2))

lemma unescape_amp: "replace_str ''&amp;'' ''&'' (concat (map (esc_char (Suc (Suc (Suc (Suc 0))))) s)) = s"
  by (induction s) (auto simp: esc_char_def replace_str.simps(2))

lemma xml_unescape_escape [simp]: "xml_unescape (xml_escape s) = s"
  by (simp only: xml_unescape_def xml_escape_chars unescape_lt unescape_gt unescape_quot unescape_apos unescape_amp)

lemma xml_escape_no_markup: "CHR ''<'' \<notin> set (xml_escape s)" "CHR ''>'' \<notin> set (xml_escape s)"
  by (auto simp: xml_escape_chars esc_char_def split: if_splits)

section \<open>The launch agent\<close>

definition LAUNCH_AGENT_LABEL :: string where "LAUNCH_AGENT_LABEL = ''dev.drnkn.valvd''"

definition quoted :: "string \<Rightarrow> string" where
  "quoted s = CHR 0x22 # s @ [CHR 0x22]"

definition nl :: string where "nl = [CHR 0x0A]"

definition launch_agent_plist :: "string \<Rightarrow> string \<Rightarrow> string \<Rightarrow> string" where
  "launch_agent_plist valvd_path stdout_path stderr_path =
     ''<?xml version='' @ quoted ''1.0'' @ '' encoding='' @ quoted ''UTF-8'' @ ''?>'' @ nl
     @ ''<!DOCTYPE plist PUBLIC '' @ quoted ''-//Apple//DTD PLIST 1.0//EN'' @ '' ''
     @ quoted ''http://www.apple.com/DTDs/PropertyList-1.0.dtd'' @ ''>'' @ nl
     @ ''<plist version='' @ quoted ''1.0'' @ ''>'' @ nl
     @ ''<dict>'' @ nl
     @ ''  <key>Label</key>'' @ nl
     @ ''  <string>'' @ LAUNCH_AGENT_LABEL @ ''</string>'' @ nl
     @ ''  <key>ProgramArguments</key>'' @ nl
     @ ''  <array>'' @ nl
     @ ''    <string>'' @ xml_escape valvd_path @ ''</string>'' @ nl
     @ ''    <string>run</string>'' @ nl
     @ ''  </array>'' @ nl
     @ ''  <key>RunAtLoad</key>'' @ nl
     @ ''  <true/>'' @ nl
     @ ''  <key>KeepAlive</key>'' @ nl
     @ ''  <true/>'' @ nl
     @ ''  <key>StandardOutPath</key>'' @ nl
     @ ''  <string>'' @ xml_escape stdout_path @ ''</string>'' @ nl
     @ ''  <key>StandardErrorPath</key>'' @ nl
     @ ''  <string>'' @ xml_escape stderr_path @ ''</string>'' @ nl
     @ ''</dict>'' @ nl
     @ ''</plist>'' @ nl"

definition launch_agent_path :: "path \<Rightarrow> path" where
  "launch_agent_path home = path_join (path_join home ''Library/LaunchAgents'') (LAUNCH_AGENT_LABEL @ ''.plist'')"

text \<open>The reader: the text between two markers, searched from the left.\<close>

definition parse_first_program_argument :: "string \<Rightarrow> string option" where
  "parse_first_program_argument plist_contents =
     (let key_marker = ''<key>ProgramArguments</key>'' in
      Option.bind (find_str key_marker plist_contents) (\<lambda>key_index.
      let after_key = drop (key_index + length key_marker) plist_contents in
      Option.bind (find_str ''<array>'' after_key) (\<lambda>a.
      let array_start = a + length ''<array>'' in
      Option.bind (find_str ''</array>'' after_key) (\<lambda>array_end.
      if array_end < array_start then None
      else
        let array_contents = drop array_start (take array_end after_key) in
        Option.bind (find_str ''<string>'' array_contents) (\<lambda>b.
        let string_start = b + length ''<string>'' in
        Option.bind (find_str ''</string>'' array_contents) (\<lambda>string_end.
        if string_end < string_start then None
        else Some (xml_unescape (drop string_start (take string_end array_contents)))))))))"

text \<open>The path of \<open>valvd\<close> that the command line reads back from the launch agent the daemon wrote is the path
  that was written, whatever characters it holds.\<close>

lemma agent_reads_back: "parse_first_program_argument (launch_agent_plist v out err) = Some v"
proof -
  let ?key = "''<key>ProgramArguments</key>''"
  let ?head = "''<?xml version='' @ quoted ''1.0'' @ '' encoding='' @ quoted ''UTF-8'' @ ''?>'' @ nl
     @ ''<!DOCTYPE plist PUBLIC '' @ quoted ''-//Apple//DTD PLIST 1.0//EN'' @ '' ''
     @ quoted ''http://www.apple.com/DTDs/PropertyList-1.0.dtd'' @ ''>'' @ nl
     @ ''<plist version='' @ quoted ''1.0'' @ ''>'' @ nl @ ''<dict>'' @ nl @ ''  <key>Label</key>'' @ nl
     @ ''  <string>'' @ LAUNCH_AGENT_LABEL @ ''</string>'' @ nl @ ''  ''"
  let ?array = "nl @ ''    <string>'' @ xml_escape v @ ''</string>'' @ nl @ ''    <string>run</string>'' @ nl @ ''  ''"
  obtain tail where plist: "launch_agent_plist v out err = ?head @ ?key @ nl @ ''  <array>'' @ ?array @ ''</array>'' @ tail"
    unfolding launch_agent_plist_def by (simp add: nl_def)
  have "find_str ?key (?head @ ?key) = Some (length ?head)"
    unfolding quoted_def nl_def LAUNCH_AGENT_LABEL_def by code_simp
  from find_str_at [OF this] have key: "find_str ?key (launch_agent_plist v out err) = Some (length ?head)"
    unfolding plist by simp
  have after: "drop (length ?head + length ?key) (launch_agent_plist v out err) = nl @ ''  <array>'' @ ?array @ ''</array>'' @ tail"
    unfolding plist by (simp add: nl_def quoted_def LAUNCH_AGENT_LABEL_def)
  show ?thesis
    unfolding parse_first_program_argument_def Let_def key Option.bind.bind_lunit after
    by (simp add: nl_def find_str_skip xml_escape_no_markup)
qed

section \<open>The systemd unit\<close>

definition unit_file_content :: "string \<Rightarrow> string" where
  "unit_file_content valvd_path =
     ''[Unit]'' @ nl @ ''Description=Valv sync daemon'' @ nl @ ''After=network.target'' @ nl @ nl
     @ ''[Service]'' @ nl @ ''Type=simple'' @ nl @ ''ExecStart='' @ valvd_path @ '' run'' @ nl
     @ ''Restart=on-failure'' @ nl @ ''RestartSec=5s'' @ nl @ nl
     @ ''[Install]'' @ nl @ ''WantedBy=default.target'' @ nl"

section \<open>The template of config.toml\<close>

definition toml_escape :: "string \<Rightarrow> string" where
  "toml_escape s = replace_char (CHR 0x22) [CHR 0x5C, CHR 0x22] (replace_char (CHR 0x5C) [CHR 0x5C, CHR 0x5C] s)"

definition config_template :: "string \<Rightarrow> string \<Rightarrow> string" where
  "config_template backend_url device_name =
     ''backend_url = '' @ quoted (toml_escape backend_url) @ nl
     @ ''device_name = '' @ quoted (toml_escape device_name) @ nl
     @ ''mounts = []'' @ nl"

text \<open>An answer typed at the prompt: \<open>read_line\<close> gave \<open>input\<close>.\<close>

definition prompt_value :: "string \<Rightarrow> string \<Rightarrow> string" where
  "prompt_value input preset = (let v = trim_ws input in if v = [] then preset else v)"

text \<open>How TOML reads a basic string, from behind its opening quote: up to the closing quote, with the
  escapes of backslash and quote; a control character other than a tab is an error.  The other
  escapes of TOML are not needed to read what \<open>toml_escape\<close> writes.\<close>

definition toml_char :: "char \<Rightarrow> bool" where
  "toml_char c = (of_char c = (9 :: nat) \<or> 32 \<le> (of_char c :: nat) \<and> of_char c \<noteq> (127 :: nat))"

fun toml_basic :: "string \<Rightarrow> (string \<times> string) option" where
  "toml_basic [] = None"
| "toml_basic (c # cs) =
     (if c = CHR 0x22 then Some ([], cs)
      else if c = CHR 0x5C then
        (case cs of
           [] \<Rightarrow> None
         | d # ds \<Rightarrow> if d = CHR 0x22 \<or> d = CHR 0x5C then map_option (apfst (Cons d)) (toml_basic ds) else None)
      else if toml_char c then map_option (apfst (Cons c)) (toml_basic cs)
      else None)"

lemma toml_escape_Nil [simp]: "toml_escape [] = []"
  by (simp add: toml_escape_def)

lemma toml_escape_Cons [simp]:
  "toml_escape (c # s) = (if c = CHR 0x22 \<or> c = CHR 0x5C then [CHR 0x5C, c] else [c]) @ toml_escape s"
  by (simp add: toml_escape_def)

lemma toml_basic_escape:
  "toml_basic (toml_escape v @ CHR 0x22 # rest) = (if list_all toml_char v then Some (v, rest) else None)"
  by (induction v) (auto simp: toml_char_def)

end
