(* ===== verification/Cli_Errors.thy ===== *)
theory Cli_Errors
  imports Service_Files
begin

text \<open>
  The errors of the command line (\<open>valv-cli/src/error.rs\<close>): the constructors with their exit codes,
  stable codes, messages and hints, how an error is printed, and which one is reported for a failed
  command.  A \<open>context\<close> the sources attach to an error changes neither the \<open>CliError\<close> found in its
  chain nor the exit code, so it is left out; the text of an error that is no \<open>CliError\<close> is the
  parameter \<open>render\<close>.
\<close>

definition EX_FAILURE :: nat where "EX_FAILURE = 1"
definition EX_USAGE :: nat where "EX_USAGE = 2"
definition EX_TEMPFAIL :: nat where "EX_TEMPFAIL = 75"
definition EX_NOPERM :: nat where "EX_NOPERM = 77"

definition ellipsis :: string where "ellipsis = [CHR 0xE2, CHR 0x80, CHR 0xA6]"

definition cli_new :: "nat \<Rightarrow> string \<Rightarrow> string \<Rightarrow> cli_error" where
  "cli_new exit_code code message =
     \<lparr> cl_exit_code = exit_code, cl_code = code, cl_message = message, cl_hint = None, cl_scope = None \<rparr>"

definition with_hint :: "string \<Rightarrow> cli_error \<Rightarrow> cli_error" where
  "with_hint hint e = e \<lparr> cl_hint := Some hint \<rparr>"

definition with_scope :: "string \<Rightarrow> cli_error \<Rightarrow> cli_error" where
  "with_scope scope e = e \<lparr> cl_scope := Some scope \<rparr>"

definition cli_usage :: "string \<Rightarrow> string \<Rightarrow> cli_error" where
  "cli_usage code message = cli_new EX_USAGE code message"

definition cli_refused :: "string \<Rightarrow> string \<Rightarrow> cli_error" where
  "cli_refused code message = cli_new EX_NOPERM code message"

section \<open>The errors\<close>

definition mount_source_required :: "cli_error" where
  "mount_source_required =
     with_hint (''--folder <id|name>  attach a folder you can reach'' @ nl
         @ ''--key <token>       redeem an access key'' @ nl
         @ ''--new               create one from this path'')
       (cli_usage ''mount_source_required'' (''mount needs exactly one source.''))"

definition share_read_only_requires_target :: "cli_error" where
  "share_read_only_requires_target =
     with_hint (''share <path> with no flags lists existing grants; --read-only only makes sense when granting access with --to or --key.'')
       (cli_usage ''share_read_only_requires_target'' (''--read-only requires a target: pass --to <email> or --key <name>.''))"

definition handle_requires_pinned_id :: "cli_error" where
  "handle_requires_pinned_id =
     cli_usage ''handle_requires_pinned_id'' (''--json requires --id for a destructive command; a handle is a query, not a pinned reference.'')"

definition daemon_not_running :: "cli_error" where
  "daemon_not_running =
     with_hint (''Run any valv command to start it, or run `valv daemon restart`.'')
       (cli_new EX_TEMPFAIL ''daemon_not_running'' (''The Valv daemon is not running.''))"

definition daemon_failed_to_start :: "string \<Rightarrow> cli_error" where
  "daemon_failed_to_start detail =
     cli_new EX_FAILURE ''daemon_failed_to_start'' detail"

definition not_configured :: "cli_error" where
  "not_configured =
     cli_new EX_FAILURE ''not_configured'' (''Not configured. Run: valv login, or valv mount <path> --key <token> if you were given an access key.'')"

definition cli_no_credential :: "cli_error" where
  "cli_no_credential =
     cli_new EX_FAILURE ''no_credential'' (''This machine has no Valv credential. Run: valv login, or valv mount <path> --key <token>.'')"

definition backend_unreachable :: "string \<Rightarrow> cli_error" where
  "backend_unreachable detail =
     cli_new EX_TEMPFAIL ''backend_unreachable'' detail"

definition path_not_mounted :: "string \<Rightarrow> cli_error" where
  "path_not_mounted path =
     cli_new EX_FAILURE ''path_not_mounted'' (path @ '' is not inside any mounted folder.'')"

definition path_not_in_mirror :: "string \<Rightarrow> cli_error" where
  "path_not_in_mirror path =
     cli_new EX_FAILURE ''path_not_in_mirror'' (path @ '' is not present in the local mirror.'')"

definition folder_not_found :: "string \<Rightarrow> cli_error" where
  "folder_not_found handle =
     cli_new EX_FAILURE ''folder_not_found'' (''Folder not found: '' @ handle @ ''.'')"

definition grant_not_found :: "string \<Rightarrow> cli_error" where
  "grant_not_found handle =
     cli_new EX_FAILURE ''grant_not_found'' (''No matching grant for '' @ handle @ ''.'')"

definition ambiguous_grant_handle :: "string \<Rightarrow> cli_error" where
  "ambiguous_grant_handle matches_description =
     with_hint (''Pass --id <id> to choose one.'')
       (cli_new EX_FAILURE ''ambiguous_grant_handle'' matches_description)"

definition access_key_cannot_create_folder :: "cli_error" where
  "access_key_cannot_create_folder =
     with_hint (''Ask the folder owner to create it, or attach a folder they already shared with `valv mount <path> --key <token>`.'')
       (cli_refused ''access_key_cannot_create_folder'' (''An access key cannot create a folder.''))"

definition access_key_cannot_mount_folder :: "cli_error" where
  "access_key_cannot_mount_folder =
     with_hint (''Ask the folder owner for an access key, then run `valv mount <path> --key <token>`.'')
       (cli_refused ''access_key_cannot_mount_folder'' (''An access key cannot mount a folder by id.''))"

definition access_key_cannot_issue_keys :: "cli_error" where
  "access_key_cannot_issue_keys =
     with_hint (''Ask the folder owner to create it with `valv share <path> --key <name>`.'')
       (cli_refused ''access_key_cannot_issue_keys'' (''An access key cannot issue another access key.''))"

definition access_key_cannot_invite_people :: "cli_error" where
  "access_key_cannot_invite_people =
     with_hint (''Ask the folder owner to invite them with `valv share <path> --to <email>`.'')
       (cli_refused ''access_key_cannot_invite_people'' (''An access key cannot invite people to a folder.''))"

definition access_key_cannot_revoke :: "cli_error" where
  "access_key_cannot_revoke =
     with_hint (''Ask the folder owner to revoke it with `valv unshare <path> '' @ ellipsis @ ''`.'')
       (cli_refused ''access_key_cannot_revoke'' (''An access key cannot revoke access, including its own.''))"

definition access_key_is_read_only :: "string \<Rightarrow> cli_error" where
  "access_key_is_read_only folder =
     with_hint (''Ask the folder owner for a read/write key, or ask them to restore it.'')
       (cli_refused ''access_key_is_read_only'' (''This access key is read-only for '' @ folder @ '' and cannot restore a version.''))"

definition sync_timed_out :: "string \<Rightarrow> cli_error" where
  "sync_timed_out detail =
     cli_new EX_TEMPFAIL ''sync_timed_out'' detail"

definition sync_mount_error :: "string \<Rightarrow> string \<Rightarrow> cli_error" where
  "sync_mount_error m detail =
     cli_new EX_FAILURE ''sync_mount_error'' (m @ '': '' @ detail)"

section \<open>Printing\<close>

definition display_error :: "cli_error \<Rightarrow> string" where
  "display_error e = ''error: '' @ cl_message e
     @ (case cl_hint e of
          None \<Rightarrow> []
        | Some hint \<Rightarrow> (case split_char (CHR 0x0A) hint of
              [] \<Rightarrow> []
            | first # others \<Rightarrow> nl @ ''hint:  '' @ first @ concat (map (\<lambda>line. nl @ ''       '' @ line) others)))"

definition resolve_error :: "(error \<Rightarrow> string) \<Rightarrow> error \<Rightarrow> cli_error" where
  "resolve_error render e = (case e of
       ECli c \<Rightarrow> c
     | _ \<Rightarrow> cli_new EX_FAILURE ''internal_error'' (render e))"

text \<open>What goes to standard error, and the exit code.  \<open>to_json\<close> prints the payload.\<close>

definition report_error ::
    "(error \<Rightarrow> string) \<Rightarrow> (cli_error \<Rightarrow> string) \<Rightarrow> error \<Rightarrow> bool \<Rightarrow> string \<times> nat" where
  "report_error render to_json e json =
     (let c = resolve_error render e in
      (if json then to_json c else display_error c, cl_exit_code c))"

text \<open>\<open>terminal\<close>: standard input is a terminal; \<open>input\<close> is the line read, \<open>None\<close> when reading fails.\<close>

definition ascii_lower :: "char \<Rightarrow> char" where
  "ascii_lower c = (let n = of_char c :: nat in if 65 \<le> n \<and> n \<le> 90 then char_of (n + 32) else c)"

definition confirm :: "bool \<Rightarrow> string option \<Rightarrow> bool \<Rightarrow> error + unit" where
  "confirm terminal input assume_yes =
     (if assume_yes then Inr ()
      else if \<not> terminal
      then Inl (ECli (cli_new EX_FAILURE ''confirmation_required''
             ''Refusing a destructive action without --yes in a non-interactive session.''))
      else (case input of
          None \<Rightarrow> Inl (ECli (cli_new EX_FAILURE ''confirmation_required'' ''Failed to read the confirmation prompt.''))
        | Some line \<Rightarrow>
            if map ascii_lower (trim_ws line) = ''y'' then Inr ()
            else Inl (ECli (cli_new EX_FAILURE ''confirmation_declined'' ''Cancelled; nothing changed.''))))"

lemma confirm_InrD: "confirm terminal input yes = Inr () \<Longrightarrow> yes \<or> terminal \<and> (\<exists>line. input = Some line \<and> map ascii_lower (trim_ws line) = ''y'')"
  by (auto simp: confirm_def split: if_splits option.splits)

end
