(* ===== verification/Keyed_Table.thy ===== *)
theory Keyed_Table
  imports Valv_Prelude
begin

text \<open>
  Rows in rowid order with a primary key, the shape every SQLite table of the sources has, and
  the interface the components rely on: what a lookup returns after an upsert (\<open>keyed_table\<close>)
  and after deletions (\<open>deletable_table\<close>).  \<open>find_row\<close> is SELECT by key, \<open>upsert_row\<close> is
  INSERT ... ON CONFLICT(key) DO UPDATE (an existing row is merged in place, a new one gets the
  next rowid), \<open>update_rows\<close> is UPDATE ... WHERE and \<open>delete_rows\<close> is DELETE ... WHERE.
\<close>

definition find_row :: "('r \<Rightarrow> 'k) \<Rightarrow> 'k \<Rightarrow> 'r list \<Rightarrow> 'r option" where
  "find_row key k rows = find (\<lambda>r. key r = k) rows"

definition update_rows :: "('r \<Rightarrow> bool) \<Rightarrow> ('r \<Rightarrow> 'r) \<Rightarrow> 'r list \<Rightarrow> 'r list" where
  "update_rows P f rows = map (\<lambda>r. if P r then f r else r) rows"

definition delete_rows :: "('r \<Rightarrow> bool) \<Rightarrow> 'r list \<Rightarrow> 'r list" where
  "delete_rows P rows = filter (\<lambda>r. \<not> P r) rows"

definition upsert_row :: "('r \<Rightarrow> 'k) \<Rightarrow> ('r \<Rightarrow> 'r \<Rightarrow> 'r) \<Rightarrow> 'r \<Rightarrow> 'r list \<Rightarrow> 'r list" where
  "upsert_row key merge new rows =
     (case find_row key (key new) rows of
        None \<Rightarrow> rows @ [new]
      | Some _ \<Rightarrow> update_rows (\<lambda>r. key r = key new) (\<lambda>old. merge old new) rows)"

lemma find_row_key: "find_row key k rows = Some r \<Longrightarrow> key r = k \<and> r \<in> set rows"
  by (auto simp: find_row_def find_Some_iff)

lemma find_row_None: "find_row key k rows = None \<longleftrightarrow> k \<notin> key ` set rows"
  by (auto simp: find_row_def find_None_iff)

lemma find_row_Nil [simp]: "find_row key k [] = None"
  by (simp add: find_row_def)

lemma find_row_Cons [simp]: "find_row key k (r # rs) = (if key r = k then Some r else find_row key k rs)"
  by (simp add: find_row_def)

lemma find_row_append [simp]:
  "find_row key k (xs @ ys) = (case find_row key k xs of None \<Rightarrow> find_row key k ys | Some r \<Rightarrow> Some r)"
  by (induction xs) auto

lemma find_row_update_rows:
  assumes "\<And>r. key (f r) = key r"
  shows "find_row key k (update_rows P f rows) =
    map_option (\<lambda>r. if P r then f r else r) (find_row key k rows)"
  using assms by (induction rows) (auto simp: update_rows_def)

lemma find_row_update_other:
  assumes "\<And>r. P r \<Longrightarrow> key (f r) \<noteq> k \<and> key r \<noteq> k"
  shows "find_row key k (update_rows P f rows) = find_row key k rows"
  using assms by (induction rows) (auto simp: update_rows_def)

lemma update_rows_keys:
  assumes "\<And>r. P r \<Longrightarrow> key (f r) = key r"
  shows "map key (update_rows P f rows) = map key rows"
  using assms by (auto simp: update_rows_def)

lemma distinct_delete_rows: "distinct (map key rows) \<Longrightarrow> distinct (map key (delete_rows P rows))"
  by (simp add: delete_rows_def distinct_map_filter)

lemma find_row_delete_rows:
  assumes "distinct (map key rows)"
  shows "find_row key k (delete_rows P rows) =
    (case find_row key k rows of None \<Rightarrow> None | Some r \<Rightarrow> if P r then None else Some r)"
  using assms
proof (induction rows)
  case (Cons a rows)
  moreover have "find_row key (key a) rows = None"
    using Cons.prems by (auto simp: find_row_None)
  ultimately show ?case by (auto simp: delete_rows_def split: option.splits)
qed (simp add: delete_rows_def)

lemma distinct_upsert_row:
  assumes "\<And>a b. key (merge a b) = key b" "distinct (map key rows)"
  shows "distinct (map key (upsert_row key merge new rows))"
proof (cases "find_row key (key new) rows")
  case None
  then have "key new \<notin> set (map key rows)" by (simp add: find_row_None)
  then show ?thesis using assms None by (simp add: upsert_row_def)
next
  case (Some r)
  then have "upsert_row key merge new rows = update_rows (\<lambda>r. key r = key new) (\<lambda>o'. merge o' new) rows"
    by (simp add: upsert_row_def)
  moreover have "map key (update_rows (\<lambda>r. key r = key new) (\<lambda>o'. merge o' new) rows) = map key rows"
    using assms(1) by (intro update_rows_keys) simp
  ultimately show ?thesis using assms(2) by simp
qed

lemma find_row_upsert_same:
  assumes "\<And>a b. key (merge a b) = key b"
  shows "find_row key (key new) (upsert_row key merge new rows) =
    Some (case find_row key (key new) rows of None \<Rightarrow> new | Some old \<Rightarrow> merge old new)"
proof (cases "find_row key (key new) rows")
  case (Some r)
  then have "find_row key (key new) (update_rows (\<lambda>r. key r = key new) (\<lambda>o'. merge o' new) rows)
      = Some (merge r new)"
    using assms by (induction rows) (auto simp: update_rows_def split: if_splits)
  then show ?thesis using Some by (simp add: upsert_row_def)
qed (simp add: upsert_row_def)

lemma find_row_upsert_other:
  assumes "\<And>a b. key (merge a b) = key b" "k \<noteq> key new"
  shows "find_row key k (upsert_row key merge new rows) = find_row key k rows"
proof (cases "find_row key (key new) rows")
  case None
  then show ?thesis using assms(2) by (simp add: upsert_row_def split: option.splits)
next
  case (Some r)
  have "find_row key k (update_rows (\<lambda>r. key r = key new) (\<lambda>old. merge old new) rows) = find_row key k rows"
    by (rule find_row_update_other) (use assms in auto)
  then show ?thesis using Some by (simp add: upsert_row_def)
qed

lemma update_rows_fixed: "(\<And>r. r \<in> set rows \<Longrightarrow> P r \<Longrightarrow> f r = r) \<Longrightarrow> update_rows P f rows = rows"
  by (auto simp: update_rows_def intro!: map_idI)

lemma upsert_row_twice:
  assumes "\<And>a b. key (merge a b) = key b" "\<And>a b. merge (merge a b) b = merge a b" "merge new new = new"
  shows "upsert_row key merge new (upsert_row key merge new rows) = upsert_row key merge new rows"
proof (cases "find_row key (key new) rows")
  case None
  then have "key new \<notin> key ` set rows" by (simp add: find_row_None)
  then have "update_rows (\<lambda>r. key r = key new) (\<lambda>old. merge old new) (rows @ [new]) = rows @ [new]"
    using assms(3) by (intro update_rows_fixed) (auto simp: image_iff)
  then show ?thesis using None by (simp add: upsert_row_def)
next
  case (Some r)
  let ?rows = "update_rows (\<lambda>r. key r = key new) (\<lambda>old. merge old new) rows"
  have up: "upsert_row key merge new rows = ?rows" using Some by (simp add: upsert_row_def)
  have "find_row key (key new) ?rows \<noteq> None"
    using find_row_upsert_same [of key merge new rows] assms(1) by (simp add: up)
  moreover have "update_rows (\<lambda>r. key r = key new) (\<lambda>old. merge old new) ?rows = ?rows"
    using assms(1,2) by (intro update_rows_fixed) (auto simp: update_rows_def)
  ultimately have "upsert_row key merge new ?rows = ?rows" by (auto simp: upsert_row_def)
  then show ?thesis by (simp add: up)
qed

section \<open>The interface\<close>

locale keyed_table =
  fixes key :: "'r \<Rightarrow> 'k"
    and fresh :: "'r \<Rightarrow> 'r"
    and merge :: "'r \<Rightarrow> 'r \<Rightarrow> 'r"
    and lookup :: "'s \<Rightarrow> 'k \<Rightarrow> 'r option"
    and upsert :: "'r \<Rightarrow> 's \<Rightarrow> 's"
    and inv :: "'s \<Rightarrow> bool"
  assumes lookup_key: "lookup s k = Some r \<Longrightarrow> key r = k"
    and inv_upsert: "inv s \<Longrightarrow> inv (upsert r s)"
    and lookup_upsert_same:
      "lookup (upsert r s) (key r) = Some (case lookup s (key r) of None \<Rightarrow> fresh r | Some old \<Rightarrow> merge old r)"
    and lookup_upsert_other: "k \<noteq> key r \<Longrightarrow> lookup (upsert r s) k = lookup s k"
    and merge_merge: "merge (merge old r) r = merge old r"
    and merge_fresh: "merge (fresh r) r = fresh r"
begin

lemma lookup_upsert:
  "lookup (upsert r s) k = (if k = key r
     then Some (case lookup s k of None \<Rightarrow> fresh r | Some old \<Rightarrow> merge old r) else lookup s k)"
  by (simp add: lookup_upsert_same lookup_upsert_other)

lemma inv_fold_upsert: "inv s \<Longrightarrow> inv (fold upsert rs s)"
  by (induction rs arbitrary: s) (auto simp: inv_upsert)

lemma lookup_fold_other: "k \<notin> key ` set rs \<Longrightarrow> lookup (fold upsert rs s) k = lookup s k"
  by (induction rs arbitrary: s) (auto simp: lookup_upsert_other)

lemma lookup_fold_member:
  assumes "distinct (map key rs)" "r \<in> set rs"
  shows "lookup (fold upsert rs s) (key r)
    = Some (case lookup s (key r) of None \<Rightarrow> fresh r | Some old \<Rightarrow> merge old r)"
  using assms
proof (induction rs arbitrary: s)
  case (Cons a rs)
  show ?case
  proof (cases "r = a")
    case True
    then have "key r \<notin> key ` set rs" using Cons.prems(1) by auto
    then show ?thesis unfolding True by (simp add: lookup_fold_other lookup_upsert_same)
  next
    case False
    then have "r \<in> set rs" "key r \<noteq> key a" using Cons.prems by (auto simp: image_iff)
    then show ?thesis using Cons by (simp add: lookup_upsert_other)
  qed
qed simp

lemma lookup_upsert_twice: "lookup (upsert r (upsert r s)) k = lookup (upsert r s) k"
  by (auto simp: lookup_upsert merge_merge merge_fresh split: option.splits)

end

locale deletable_table = keyed_table +
  fixes clear :: "'f \<Rightarrow> 's \<Rightarrow> 's"
    and owner :: "'r \<Rightarrow> 'f"
  assumes lookup_clear: "inv s \<Longrightarrow> lookup (clear f s) k =
      (case lookup s k of None \<Rightarrow> None | Some r \<Rightarrow> if owner r = f then None else Some r)"
    and inv_clear: "inv s \<Longrightarrow> inv (clear f s)"
begin

lemma clear_keeps_other: "inv s \<Longrightarrow> lookup s k = Some r \<Longrightarrow> owner r \<noteq> f \<Longrightarrow> lookup (clear f s) k = Some r"
  by (simp add: lookup_clear)

lemma clear_removes: "inv s \<Longrightarrow> lookup (clear f s) k = Some r \<Longrightarrow> owner r \<noteq> f"
  by (auto simp: lookup_clear split: option.splits if_splits)

end

end
