(* ===== verification/Mirror.thy ===== *)
theory Mirror
  imports Keyed_Table Errors
begin

text \<open>
  The local SQLite mirror of a mounted folder (\<open>valv-sync/src/persistence/\<close>): its four tables as
  lists of rows in rowid order, and every query of \<open>nodes.rs\<close>, \<open>versions.rs\<close>, \<open>chunks.rs\<close> and
  \<open>mounts.rs\<close> as a function on them.  The column \<open>manifest_json\<close> holds the typed manifest (its
  JSON text is written and read only through serde).  Failures of SQLite itself are not
  modelled; the constraint violations the statements can raise are.
\<close>

section \<open>Tables\<close>

record local_node =
  ln_node_id :: string
  ln_folder_id :: string
  ln_parent_id :: "string option"
  ln_name :: string
  ln_node_type :: string
  ln_current_version_id :: "string option"
  ln_server_seq :: int
  ln_deleted_at :: "string option"
  ln_pushed_size_bytes :: "nat option"
  ln_pushed_mtime_nanos :: "int option"

record local_version =
  lv_version_id :: string
  lv_node_id :: string
  lv_folder_id :: string
  lv_content_hash :: string
  lv_size_bytes :: nat
  lv_manifest :: "chunk_ref list"

record version_row =
  vr_version :: local_version
  vr_materialized_at :: "string option"

record local_mount =
  lm_path :: string
  lm_folder_id :: string
  lm_grant_id :: "string option"
  lm_scope_node_id :: "string option"
  lm_mount_token :: "string option"
  lm_cursor :: int
  lm_can_write :: bool
  lm_name :: "string option"

record mirror =
  db_nodes :: "local_node list"
  db_versions :: "version_row list"
  db_chunks :: "(string \<times> nat) list"
  db_mounts :: "local_mount list"

abbreviation live :: "local_node \<Rightarrow> bool" where
  "live n \<equiv> ln_deleted_at n = None"

section \<open>nodes\<close>

definition get_node :: "mirror \<Rightarrow> string \<Rightarrow> local_node option" where
  "get_node db node_id = find_row ln_node_id node_id (db_nodes db)"

definition get_node_by_parent_and_name ::
    "mirror \<Rightarrow> string \<Rightarrow> string option \<Rightarrow> string \<Rightarrow> local_node option" where
  "get_node_by_parent_and_name db folder_id parent_id name =
     find (\<lambda>n. ln_folder_id n = folder_id \<and> ln_parent_id n = parent_id \<and> ln_name n = name \<and> live n)
       (db_nodes db)"

definition get_root_node :: "mirror \<Rightarrow> string \<Rightarrow> local_node option" where
  "get_root_node db folder_id =
     (case sort_key ln_server_seq
         (filter (\<lambda>n. ln_folder_id n = folder_id \<and> ln_parent_id n = None \<and> live n) (db_nodes db)) of
        [] \<Rightarrow> None | n # _ \<Rightarrow> Some n)"

definition merge_node :: "local_node \<Rightarrow> local_node \<Rightarrow> local_node" where
  "merge_node old new = new \<lparr> ln_pushed_size_bytes := ln_pushed_size_bytes old,
                              ln_pushed_mtime_nanos := ln_pushed_mtime_nanos old \<rparr>"

definition upsert_node :: "local_node \<Rightarrow> mirror \<Rightarrow> mirror" where
  "upsert_node node db = db \<lparr> db_nodes :=
     upsert_row ln_node_id merge_node
       (node \<lparr> ln_pushed_size_bytes := None, ln_pushed_mtime_nanos := None \<rparr>) (db_nodes db) \<rparr>"

definition update_node :: "string \<Rightarrow> (local_node \<Rightarrow> local_node) \<Rightarrow> mirror \<Rightarrow> mirror" where
  "update_node node_id f db = db \<lparr> db_nodes :=
     update_rows (\<lambda>n. ln_node_id n = node_id) f (db_nodes db) \<rparr>"

definition mark_deleted :: "string \<Rightarrow> string \<Rightarrow> int \<Rightarrow> mirror \<Rightarrow> mirror" where
  "mark_deleted now node_id server_seq =
     update_node node_id (\<lambda>n. n \<lparr> ln_deleted_at := Some now, ln_server_seq := server_seq \<rparr>)"

definition list_children :: "mirror \<Rightarrow> string option \<Rightarrow> string \<Rightarrow> nat \<Rightarrow> nat \<Rightarrow> local_node list \<times> nat" where
  "list_children db parent folder_id offset limit =
     (let rows = filter (\<lambda>n. ln_folder_id n = folder_id \<and> ln_parent_id n = parent \<and> live n) (db_nodes db)
      in (take limit (drop offset (sort_key ln_name rows)), length rows))"

definition list_changed_since :: "mirror \<Rightarrow> string \<Rightarrow> int \<Rightarrow> local_node list" where
  "list_changed_since db folder_id since_seq =
     sort_key ln_server_seq
       (filter (\<lambda>n. ln_folder_id n = folder_id \<and> since_seq < ln_server_seq n) (db_nodes db))"

definition update_pushed_cache :: "string \<Rightarrow> nat \<Rightarrow> int \<Rightarrow> mirror \<Rightarrow> mirror" where
  "update_pushed_cache node_id size_bytes mtime_nanos =
     update_node node_id (\<lambda>n. n \<lparr> ln_pushed_size_bytes := Some size_bytes,
                                  ln_pushed_mtime_nanos := Some mtime_nanos \<rparr>)"

section \<open>versions\<close>

definition vr_id :: "version_row \<Rightarrow> string" where "vr_id r = lv_version_id (vr_version r)"

definition get_version_row :: "mirror \<Rightarrow> string \<Rightarrow> version_row option" where
  "get_version_row db version_id = find_row vr_id version_id (db_versions db)"

definition get_version :: "mirror \<Rightarrow> string \<Rightarrow> local_version option" where
  "get_version db version_id = map_option vr_version (get_version_row db version_id)"

definition merge_version :: "version_row \<Rightarrow> version_row \<Rightarrow> version_row" where
  "merge_version old new = new \<lparr> vr_materialized_at := vr_materialized_at old \<rparr>"

definition upsert_version_row :: "version_row \<Rightarrow> mirror \<Rightarrow> mirror" where
  "upsert_version_row row db = db \<lparr> db_versions := upsert_row vr_id merge_version row (db_versions db) \<rparr>"

text \<open>rusqlite refuses to bind a \<open>u64\<close> that does not fit SQLite's signed integers.\<close>

definition upsert_version :: "local_version \<Rightarrow> (mirror, unit) comp" where
  "upsert_version v =
     (if lv_size_bytes v < 2 ^ 63
      then writes (upsert_version_row \<lparr> vr_version = v, vr_materialized_at = None \<rparr>)
      else fail (EDb ''integer out of range''))"

definition has_any_version_for_node :: "mirror \<Rightarrow> string \<Rightarrow> bool" where
  "has_any_version_for_node db node_id =
     list_ex (\<lambda>r. lv_node_id (vr_version r) = node_id) (db_versions db)"

definition has_materialized_content_for_node :: "mirror \<Rightarrow> string \<Rightarrow> bool" where
  "has_materialized_content_for_node db node_id =
     list_ex (\<lambda>r. lv_node_id (vr_version r) = node_id \<and> vr_materialized_at r \<noteq> None) (db_versions db)"

definition has_materialized_content_for_version :: "mirror \<Rightarrow> string \<Rightarrow> bool" where
  "has_materialized_content_for_version db version_id =
     list_ex (\<lambda>r. vr_id r = version_id \<and> vr_materialized_at r \<noteq> None) (db_versions db)"

definition mark_content_materialized :: "string \<Rightarrow> string \<Rightarrow> mirror \<Rightarrow> mirror" where
  "mark_content_materialized now version_id db = db \<lparr> db_versions :=
     update_rows (\<lambda>r. vr_id r = version_id)
       (\<lambda>r. r \<lparr> vr_materialized_at := (case vr_materialized_at r of None \<Rightarrow> Some now | Some t \<Rightarrow> Some t) \<rparr>)
       (db_versions db) \<rparr>"

section \<open>uploaded chunks\<close>

definition keep_chunk :: "string \<times> nat \<Rightarrow> string \<times> nat \<Rightarrow> string \<times> nat" where
  "keep_chunk old new = (fst new, snd old)"

definition find_chunk :: "mirror \<Rightarrow> string \<Rightarrow> (string \<times> nat) option" where
  "find_chunk db hash = find_row fst hash (db_chunks db)"

definition insert_chunk :: "string \<times> nat \<Rightarrow> mirror \<Rightarrow> mirror" where
  "insert_chunk c db = db \<lparr> db_chunks := upsert_row fst keep_chunk c (db_chunks db) \<rparr>"

definition mark_uploaded :: "string \<Rightarrow> nat \<Rightarrow> mirror \<Rightarrow> mirror" where
  "mark_uploaded hash size_bytes = insert_chunk (hash, size_bytes)"

definition is_uploaded :: "mirror \<Rightarrow> string \<Rightarrow> bool" where
  "is_uploaded db hash = (0 < length (filter (\<lambda>c. fst c = hash) (db_chunks db)))"

section \<open>mounts\<close>

definition list_mounts :: "mirror \<Rightarrow> local_mount list" where
  "list_mounts db = sort_key lm_path (db_mounts db)"

definition get_mount :: "mirror \<Rightarrow> string \<Rightarrow> local_mount option" where
  "get_mount db path = find_row lm_path path (db_mounts db)"

definition upsert_mount ::
    "string \<Rightarrow> string \<Rightarrow> string option \<Rightarrow> string option \<Rightarrow> string option \<Rightarrow> bool \<Rightarrow> (mirror, unit) comp" where
  "upsert_mount path folder_id grant_id scope_node_id mount_token can_write db =
     (if list_ex (\<lambda>m. lm_folder_id m = folder_id \<and> lm_path m \<noteq> path) (db_mounts db)
      then fail (EDb ''UNIQUE constraint failed: mounts.folder_id'') db
      else writes (\<lambda>db. db \<lparr> db_mounts :=
        upsert_row lm_path (\<lambda>old new. new \<lparr> lm_cursor := lm_cursor old, lm_name := lm_name old \<rparr>)
          \<lparr> lm_path = path, lm_folder_id = folder_id, lm_grant_id = grant_id,
            lm_scope_node_id = scope_node_id, lm_mount_token = mount_token, lm_cursor = 0,
            lm_can_write = can_write, lm_name = None \<rparr> (db_mounts db) \<rparr>) db)"

definition set_mount_name :: "string \<Rightarrow> string \<Rightarrow> mirror \<Rightarrow> mirror" where
  "set_mount_name path name db = db \<lparr> db_mounts :=
     update_rows (\<lambda>m. lm_path m = path) (\<lambda>m. m \<lparr> lm_name := Some name \<rparr>) (db_mounts db) \<rparr>"

definition delete_mount :: "string \<Rightarrow> mirror \<Rightarrow> mirror" where
  "delete_mount path db = db \<lparr> db_mounts := delete_rows (\<lambda>m. lm_path m = path) (db_mounts db) \<rparr>"

definition update_mount_path :: "string \<Rightarrow> string \<Rightarrow> (mirror, unit) comp" where
  "update_mount_path old_path new_path db =
     (if old_path \<noteq> new_path \<and> get_mount db old_path \<noteq> None \<and> get_mount db new_path \<noteq> None
      then fail (EDb ''UNIQUE constraint failed: mounts.path'') db
      else writes (\<lambda>db. db \<lparr> db_mounts :=
        update_rows (\<lambda>m. lm_path m = old_path) (\<lambda>m. m \<lparr> lm_path := new_path \<rparr>) (db_mounts db) \<rparr>) db)"

definition get_cursor :: "mirror \<Rightarrow> string \<Rightarrow> int" where
  "get_cursor db folder_id =
     (case find_row lm_folder_id folder_id (db_mounts db) of None \<Rightarrow> 0 | Some m \<Rightarrow> lm_cursor m)"

definition set_cursor :: "string \<Rightarrow> int \<Rightarrow> mirror \<Rightarrow> mirror" where
  "set_cursor folder_id seq db = db \<lparr> db_mounts :=
     update_rows (\<lambda>m. lm_folder_id m = folder_id) (\<lambda>m. m \<lparr> lm_cursor := seq \<rparr>) (db_mounts db) \<rparr>"

section \<open>The invariant of the mirror\<close>

text \<open>What the schema enforces: primary keys, the UNIQUE folder of a mount, the CHECK on node types.\<close>

definition valid_node_type :: "string \<Rightarrow> bool" where
  "valid_node_type t = (t = ''file'' \<or> t = ''folder'')"

definition nodes_wf :: "mirror \<Rightarrow> bool" where
  "nodes_wf db = (distinct (map ln_node_id (db_nodes db)) \<and>
     list_all (\<lambda>n. valid_node_type (ln_node_type n)) (db_nodes db))"

definition versions_wf :: "mirror \<Rightarrow> bool" where
  "versions_wf db = distinct (map vr_id (db_versions db))"

definition mounts_wf :: "mirror \<Rightarrow> bool" where
  "mounts_wf db = (distinct (map lm_path (db_mounts db)) \<and> distinct (map lm_folder_id (db_mounts db)))"

definition mirror_wf :: "mirror \<Rightarrow> bool" where
  "mirror_wf db = (nodes_wf db \<and> versions_wf db \<and> distinct (map fst (db_chunks db)) \<and> mounts_wf db)"

definition empty_mirror :: mirror where
  "empty_mirror = \<lparr> db_nodes = [], db_versions = [], db_chunks = [], db_mounts = [] \<rparr>"

definition plain_node :: "local_node \<Rightarrow> local_node" where
  "plain_node n = n \<lparr> ln_pushed_size_bytes := None, ln_pushed_mtime_nanos := None \<rparr>"

lemma ln_node_id_merge [simp]: "ln_node_id (merge_node a b) = ln_node_id b"
  by (simp add: merge_node_def)

lemma ln_node_type_merge [simp]: "ln_node_type (merge_node a b) = ln_node_type b"
  by (simp add: merge_node_def)

lemma plain_node_sel [simp]:
  "ln_node_id (plain_node n) = ln_node_id n" "ln_node_type (plain_node n) = ln_node_type n"
  "ln_folder_id (plain_node n) = ln_folder_id n" "ln_server_seq (plain_node n) = ln_server_seq n"
  by (simp_all add: plain_node_def)

lemma vr_id_merge [simp]: "vr_id (merge_version a b) = vr_id b"
  by (simp add: merge_version_def vr_id_def)

lemma upsert_node_plain: "upsert_node n db = db \<lparr> db_nodes :=
    upsert_row ln_node_id merge_node (plain_node n) (db_nodes db) \<rparr>"
  by (simp add: upsert_node_def plain_node_def)

lemma get_node_upsert_same [table_simps]:
  "get_node (upsert_node n db) (ln_node_id n) =
    Some (case get_node db (ln_node_id n) of None \<Rightarrow> plain_node n | Some old \<Rightarrow> merge_node old n)"
proof -
  have m: "merge_node old (plain_node n) = merge_node old n" for old
    by (simp add: merge_node_def plain_node_def)
  show ?thesis
    using find_row_upsert_same [of ln_node_id merge_node "plain_node n" "db_nodes db"]
    by (auto simp: get_node_def upsert_node_plain m split: option.split)
qed

lemma get_node_upsert_other [table_simps]:
  "k \<noteq> ln_node_id n \<Longrightarrow> get_node (upsert_node n db) k = get_node db k"
  by (simp add: get_node_def upsert_node_plain find_row_upsert_other)

lemma set_upsert_row: "set (upsert_row key merge new rows) \<subseteq> insert new (set rows \<union> (\<lambda>r. merge r new) ` set rows)"
  by (auto simp: upsert_row_def update_rows_def split: option.splits)

lemma nodes_wf_upsert [intro]:
  assumes "nodes_wf db" "valid_node_type (ln_node_type n)"
  shows "nodes_wf (upsert_node n db)"
proof -
  have "\<forall>r \<in> set (upsert_row ln_node_id merge_node (plain_node n) (db_nodes db)).
      valid_node_type (ln_node_type r)"
    using assms set_upsert_row [of ln_node_id merge_node "plain_node n" "db_nodes db"]
    by (auto simp: nodes_wf_def list_all_iff)
  then show ?thesis
    using assms distinct_upsert_row [of ln_node_id merge_node "db_nodes db" "plain_node n"]
    by (simp add: nodes_wf_def upsert_node_plain list_all_iff)
qed

lemma get_node_key: "get_node db k = Some n \<Longrightarrow> ln_node_id n = k"
  unfolding get_node_def by (drule find_row_key) simp

lemma get_node_mem: "get_node db k = Some n \<Longrightarrow> n \<in> set (db_nodes db)"
  unfolding get_node_def by (drule find_row_key) simp

lemma get_node_update_node:
  assumes "\<And>n. ln_node_id (f n) = ln_node_id n"
  shows "get_node (update_node i f db) k = (if k = i then map_option f (get_node db k) else get_node db k)"
proof -
  have "get_node (update_node i f db) k =
      map_option (\<lambda>n. if ln_node_id n = i then f n else n) (get_node db k)"
    unfolding get_node_def update_node_def using assms by (simp add: find_row_update_rows)
  then show ?thesis by (cases "get_node db k") (auto dest: get_node_key)
qed

lemma nodes_wf_update_node [intro]:
  assumes "nodes_wf db" "\<And>n. ln_node_id (f n) = ln_node_id n" "\<And>n. ln_node_type (f n) = ln_node_type n"
  shows "nodes_wf (update_node i f db)"
proof -
  have "map ln_node_id (update_rows (\<lambda>n. ln_node_id n = i) f (db_nodes db)) = map ln_node_id (db_nodes db)"
    using assms(2) by (intro update_rows_keys) simp
  then have "distinct (map ln_node_id (db_nodes (update_node i f db)))"
    using assms(1) by (simp add: nodes_wf_def update_node_def)
  moreover have "list_all (\<lambda>n. valid_node_type (ln_node_type n)) (db_nodes (update_node i f db))"
    using assms(1,3) by (auto simp: nodes_wf_def update_node_def list_all_iff update_rows_def)
  ultimately show ?thesis by (simp add: nodes_wf_def)
qed

definition clear_folder_nodes :: "string \<Rightarrow> mirror \<Rightarrow> mirror" where
  "clear_folder_nodes folder_id db = db \<lparr> db_nodes :=
     delete_rows (\<lambda>n. ln_folder_id n = folder_id) (db_nodes db) \<rparr>"

definition clear_folder_versions :: "string \<Rightarrow> mirror \<Rightarrow> mirror" where
  "clear_folder_versions folder_id db = db \<lparr> db_versions :=
     delete_rows (\<lambda>r. lv_folder_id (vr_version r) = folder_id) (db_versions db) \<rparr>"

interpretation node_table: deletable_table ln_node_id plain_node merge_node get_node upsert_node
    "\<lambda>db. distinct (map ln_node_id (db_nodes db))" clear_folder_nodes ln_folder_id
proof unfold_locales
  fix db :: mirror and n k f
  show "distinct (map ln_node_id (db_nodes db)) \<Longrightarrow> distinct (map ln_node_id (db_nodes (upsert_node n db)))"
    by (simp add: upsert_node_plain distinct_upsert_row)
  assume "distinct (map ln_node_id (db_nodes db))"
  then show "get_node (clear_folder_nodes f db) k =
      (case get_node db k of None \<Rightarrow> None | Some r \<Rightarrow> if ln_folder_id r = f then None else Some r)"
    by (simp add: get_node_def clear_folder_nodes_def find_row_delete_rows)
qed (simp_all add: get_node_key table_simps clear_folder_nodes_def distinct_delete_rows,
  simp_all add: merge_node_def plain_node_def)

lemma get_version_row_upsert:
  "get_version_row (upsert_version_row r db) k =
    (if k = vr_id r then Some (case get_version_row db k of None \<Rightarrow> r | Some old \<Rightarrow> merge_version old r)
     else get_version_row db k)"
  using find_row_upsert_same [of vr_id merge_version r "db_versions db"]
  by (simp add: get_version_row_def upsert_version_row_def find_row_upsert_other)

interpretation version_table: deletable_table vr_id id merge_version get_version_row upsert_version_row
    versions_wf clear_folder_versions "\<lambda>r. lv_folder_id (vr_version r)"
proof unfold_locales
  fix db k r f
  show "get_version_row db k = Some r \<Longrightarrow> vr_id r = k"
    unfolding get_version_row_def by (drule find_row_key) simp
  show "versions_wf db \<Longrightarrow> versions_wf (upsert_version_row r db)"
    by (simp add: versions_wf_def upsert_version_row_def distinct_upsert_row)
  assume "versions_wf db"
  then show "get_version_row (clear_folder_versions f db) k =
      (case get_version_row db k of None \<Rightarrow> None
       | Some r \<Rightarrow> if lv_folder_id (vr_version r) = f then None else Some r)"
    by (simp add: get_version_row_def clear_folder_versions_def versions_wf_def find_row_delete_rows)
qed (auto simp: get_version_row_upsert versions_wf_def clear_folder_versions_def distinct_delete_rows
    merge_version_def split: option.split)

interpretation chunk_table: keyed_table fst id keep_chunk find_chunk insert_chunk
    "\<lambda>db. distinct (map fst (db_chunks db))"
proof unfold_locales
  fix db k r and c :: "string \<times> nat"
  show "find_chunk db k = Some r \<Longrightarrow> fst r = k"
    unfolding find_chunk_def by (drule find_row_key) simp
  show "distinct (map fst (db_chunks db)) \<Longrightarrow> distinct (map fst (db_chunks (insert_chunk c db)))"
    by (simp add: insert_chunk_def distinct_upsert_row keep_chunk_def)
  show "find_chunk (insert_chunk c db) (fst c) =
      Some (case find_chunk db (fst c) of None \<Rightarrow> id c | Some old \<Rightarrow> keep_chunk old c)"
    using find_row_upsert_same [of fst keep_chunk c "db_chunks db"]
    by (auto simp: find_chunk_def insert_chunk_def keep_chunk_def split: option.split)
  show "k \<noteq> fst c \<Longrightarrow> find_chunk (insert_chunk c db) k = find_chunk db k"
    by (simp add: find_chunk_def insert_chunk_def find_row_upsert_other keep_chunk_def)
qed (simp_all add: keep_chunk_def)

section \<open>Consequences for the queries\<close>

lemma get_version_upsert [table_simps]:
  "get_version (upsert_version_row r db) k = (if k = vr_id r then Some (vr_version r) else get_version db k)"
  by (auto simp: get_version_def version_table.lookup_upsert merge_version_def split: option.splits)

lemma is_uploaded_iff: "is_uploaded db h \<longleftrightarrow> find_chunk db h \<noteq> None"
  by (auto simp: is_uploaded_def find_chunk_def find_row_None filter_empty_conv)

lemma is_uploaded_mark [table_simps]: "is_uploaded (mark_uploaded h s db) k \<longleftrightarrow> k = h \<or> is_uploaded db k"
  by (auto simp: is_uploaded_iff mark_uploaded_def chunk_table.lookup_upsert)

text \<open>Statements on one table leave the lookups of the others alone.\<close>

lemma other_tables [simp]:
  "db_versions (upsert_node n db) = db_versions db" "db_chunks (upsert_node n db) = db_chunks db"
  "db_mounts (upsert_node n db) = db_mounts db"
  "db_versions (update_node i f db) = db_versions db" "db_chunks (update_node i f db) = db_chunks db"
  "db_mounts (update_node i f db) = db_mounts db"
  "db_nodes (upsert_version_row r db) = db_nodes db" "db_chunks (upsert_version_row r db) = db_chunks db"
  "db_mounts (upsert_version_row r db) = db_mounts db"
  "db_nodes (mark_uploaded h s db) = db_nodes db" "db_versions (mark_uploaded h s db) = db_versions db"
  "db_mounts (mark_uploaded h s db) = db_mounts db"
  "db_nodes (set_cursor fid q db) = db_nodes db" "db_versions (set_cursor fid q db) = db_versions db"
  "db_chunks (set_cursor fid q db) = db_chunks db"
  "db_nodes (mark_content_materialized t v db) = db_nodes db"
  "db_chunks (mark_content_materialized t v db) = db_chunks db"
  "db_mounts (mark_content_materialized t v db) = db_mounts db"
  by (simp_all add: upsert_node_def update_node_def upsert_version_row_def mark_uploaded_def
      insert_chunk_def set_cursor_def mark_content_materialized_def)

lemma get_node_cong: "db_nodes db = db_nodes db' \<Longrightarrow> get_node db = get_node db'"
  by (rule ext) (simp add: get_node_def)

lemma get_cursor_set [table_simps]:
  assumes "find_row lm_folder_id f (db_mounts db) = Some m"
  shows "get_cursor (set_cursor f q db) f = q"
proof -
  have "find_row lm_folder_id f (db_mounts (set_cursor f q db)) =
      map_option (\<lambda>m. if lm_folder_id m = f then m \<lparr> lm_cursor := q \<rparr> else m)
        (find_row lm_folder_id f (db_mounts db))"
    by (simp add: set_cursor_def find_row_update_rows)
  then show ?thesis using assms find_row_key [OF assms] by (simp add: get_cursor_def)
qed

lemma get_cursor_set_other: "g \<noteq> f \<Longrightarrow> get_cursor (set_cursor f q db) g = get_cursor db g"
proof -
  assume "g \<noteq> f"
  then have "find_row lm_folder_id g (update_rows (\<lambda>m. lm_folder_id m = f) (\<lambda>m. m \<lparr> lm_cursor := q \<rparr>) (db_mounts db))
      = find_row lm_folder_id g (db_mounts db)"
    by (intro find_row_update_other) auto
  then show ?thesis by (simp add: get_cursor_def set_cursor_def)
qed

section \<open>The operations preserve the invariant\<close>

lemma mirror_wf_upsert_node [intro]:
  "mirror_wf db \<Longrightarrow> valid_node_type (ln_node_type n) \<Longrightarrow> mirror_wf (upsert_node n db)"
  by (auto simp: mirror_wf_def versions_wf_def mounts_wf_def)

lemma mirror_wf_update_node [intro]:
  assumes "mirror_wf db" "\<And>n. ln_node_id (f n) = ln_node_id n" "\<And>n. ln_node_type (f n) = ln_node_type n"
  shows "mirror_wf (update_node i f db)"
  using assms nodes_wf_update_node [of db f i] by (auto simp: mirror_wf_def versions_wf_def mounts_wf_def)

lemma mirror_wf_upsert_version [intro]: "mirror_wf db \<Longrightarrow> mirror_wf (upsert_version_row r db)"
  using version_table.inv_upsert [of db r] by (auto simp: mirror_wf_def nodes_wf_def mounts_wf_def)

lemma mirror_wf_mark_uploaded [intro]: "mirror_wf db \<Longrightarrow> mirror_wf (mark_uploaded h s db)"
  using chunk_table.inv_upsert [of db "(h, s)"]
  by (auto simp: mirror_wf_def nodes_wf_def versions_wf_def mounts_wf_def mark_uploaded_def insert_chunk_def)

lemma mirror_wf_set_cursor [intro]: "mirror_wf db \<Longrightarrow> mirror_wf (set_cursor f q db)"
  using update_rows_keys [of "\<lambda>m. lm_folder_id m = f" lm_path "\<lambda>m. m \<lparr> lm_cursor := q \<rparr>" "db_mounts db"]
    update_rows_keys [of "\<lambda>m. lm_folder_id m = f" lm_folder_id "\<lambda>m. m \<lparr> lm_cursor := q \<rparr>" "db_mounts db"]
  by (auto simp: mirror_wf_def nodes_wf_def versions_wf_def mounts_wf_def set_cursor_def)

lemma mirror_wf_mark_materialized [intro]: "mirror_wf db \<Longrightarrow> mirror_wf (mark_content_materialized t v db)"
  using update_rows_keys [of "\<lambda>r. vr_id r = v" vr_id
      "\<lambda>r. r \<lparr> vr_materialized_at := (case vr_materialized_at r of None \<Rightarrow> Some t | Some t \<Rightarrow> Some t) \<rparr>" "db_versions db"]
  by (auto simp: mirror_wf_def nodes_wf_def versions_wf_def mounts_wf_def mark_content_materialized_def vr_id_def)

lemma mirror_wf_mark_deleted [intro]: "mirror_wf db \<Longrightarrow> mirror_wf (mark_deleted now i q db)"
  unfolding mark_deleted_def by (rule mirror_wf_update_node) auto

lemma mirror_wf_pushed_cache [intro]: "mirror_wf db \<Longrightarrow> mirror_wf (update_pushed_cache i a b db)"
  unfolding update_pushed_cache_def by (rule mirror_wf_update_node) auto

lemma mirror_wf_clear_folder [intro]:
  "mirror_wf db \<Longrightarrow> mirror_wf (clear_folder_nodes f (clear_folder_versions f db))"
  using version_table.inv_clear [of db f] node_table.inv_clear [of db f]
  by (auto simp: mirror_wf_def nodes_wf_def mounts_wf_def versions_wf_def clear_folder_nodes_def
      clear_folder_versions_def delete_rows_def list_all_iff)

lemma mirror_wf_empty [simp]: "mirror_wf empty_mirror"
  by (simp add: mirror_wf_def nodes_wf_def versions_wf_def mounts_wf_def empty_mirror_def)

end
