(* ===== verification/World.thy ===== *)
theory World
  imports Mirror File_System
begin

text \<open>
  The state a pass of the sync engine reads and writes, and its HTTP boundary.  \<open>env\<close> holds what
  the program calls and this development does not define: SHA-256, the FastCDC cut points, UUIDs,
  the clocks, and the server, an arbitrary function of the requests sent so far and the new
  request.  \<open>world\<close> holds the mirror, the file system, the requests sent (oldest first), the
  \<open>update_required\<close> flag and the counters that advance through UUIDs and clock readings.
  A reply is a status and a body of the kind the JSON decoder of the call expects, or not.
\<close>

datatype http_method = GET | POST | PUT

datatype http_body = NoBody | SubmitBody submit_op_request | BatchBody batch_request | RawBody string
  | FolderBody string | InviteBody string string bool | RestoreBody int

record http_request =
  rq_method :: http_method
  rq_url :: string
  rq_bearer :: "string option"
  rq_headers :: "(string \<times> string) list"
  rq_body :: http_body

record remote_version =
  rv_version_id :: string
  rv_content_hash :: string
  rv_size_bytes :: nat
  rv_manifest :: "chunk_ref list"

datatype principal_type = AccountPrincipal | AccessKeyPrincipal

record principal_scope =
  sc_folder_id :: string
  sc_folder_name :: string
  sc_scope_label :: string
  sc_can_write :: bool

record principal_status =
  pr_type :: principal_type
  pr_email :: "string option"
  pr_scopes :: "principal_scope list"

record account_status =
  ac_plan :: "string option"
  ac_status :: string
  ac_usage_bytes :: nat
  ac_quota_bytes :: "nat option"
  ac_current_period_end :: "string option"

record grant_list_entry =
  gl_grant_id :: string
  gl_folder_id :: string
  gl_scope_node_id :: string
  gl_can_write :: bool

record backend_version_entry =
  be_version_id :: string
  be_created_at :: string
  be_size_bytes :: nat
  be_author_device_id :: "string option"
  be_author_device_name :: "string option"
  be_is_conflict_copy :: bool

datatype reply_body =
    BodyOps delta_pull_response
  | BodyTree folder_tree_response
  | BodyJson json
  | BodyBatch batch_response
  | BodyBytes string
  | BodyVersions "remote_version list"
  | BodyPrincipal principal_status
  | BodyAccount account_status
  | BodyGrants "grant_list_entry list"
  | BodyFolderId string
  | BodyFolderName string
  | BodyHistory "backend_version_entry list"
  | BodyInvite string
  | BodyReleases "string list"
  | BodyTooOld "int option" "string option"
  | BodyOther

datatype http_reply = NoReply | Reply nat reply_body

record env =
  env_sha256 :: "string \<Rightarrow> string"
  env_cdc :: "string \<Rightarrow> (nat \<times> nat) list"
  env_uuid :: "nat \<Rightarrow> string"
  env_clock :: "nat \<Rightarrow> string"
  env_mtime :: "nat \<Rightarrow> int"
  env_unix :: "nat \<Rightarrow> int"
  env_today :: "nat \<Rightarrow> string"
  env_server :: "http_request list \<Rightarrow> http_request \<Rightarrow> http_reply"

record world =
  w_db :: mirror
  w_fs :: fs
  w_sent :: "http_request list"
  w_flag :: bool
  w_uuids :: nat
  w_ticks :: nat

type_synonym 'a io = "(world, 'a) comp"

section \<open>Access to the parts of the world\<close>

definition on_db :: "(mirror, 'a) comp \<Rightarrow> 'a io" where
  "on_db m w = (case m (w_db w) of (r, db) \<Rightarrow> (r, w \<lparr> w_db := db \<rparr>))"

definition write_db :: "(mirror \<Rightarrow> mirror) \<Rightarrow> unit io" where
  "write_db f = writes (\<lambda>w. w \<lparr> w_db := f (w_db w) \<rparr>)"

definition on_fs :: "(fs, 'a) comp \<Rightarrow> 'a io" where
  "on_fs m w = (case m (w_fs w) of (r, fs) \<Rightarrow> (r, w \<lparr> w_fs := fs \<rparr>))"

definition new_uuid :: "env \<Rightarrow> string io" where
  "new_uuid e w = (Inr (env_uuid e (w_uuids w)), w \<lparr> w_uuids := Suc (w_uuids w) \<rparr>)"

text \<open>One reading of the clock; the clocks are views of one counter.\<close>

definition tick :: "nat io" where
  "tick w = (Inr (w_ticks w), w \<lparr> w_ticks := Suc (w_ticks w) \<rparr>)"

section \<open>Requests\<close>

definition api_base :: "string \<Rightarrow> string" where
  "api_base backend_url = trim_end_char CHR ''/'' backend_url @ ''/api''"

definition folder_url :: "string \<Rightarrow> string \<Rightarrow> string \<Rightarrow> string" where
  "folder_url backend_url folder_id rest = api_base backend_url @ ''/folders/'' @ folder_id @ rest"

definition protocol_header :: "(string \<times> string) list" where
  "protocol_header = [(PROTOCOL_HEADER, string_of_int PROTOCOL_VERSION)]"

definition send :: "env \<Rightarrow> http_request \<Rightarrow> (nat \<times> reply_body) io" where
  "send e rq w =
     (let w' = w \<lparr> w_sent := w_sent w @ [rq] \<rparr> in
      case env_server e (w_sent w) rq of
        NoReply \<Rightarrow> (Inl ETransport, w')
      | Reply status body \<Rightarrow> (Inr (status, body), w'))"

definition error_for_status :: "nat \<times> reply_body \<Rightarrow> reply_body io" where
  "error_for_status r = (if 400 \<le> fst r \<and> fst r < 600 then fail (EStatus (fst r)) else ret (snd r))"

definition UPGRADE_REQUIRED :: nat where "UPGRADE_REQUIRED = 426"
definition FORBIDDEN :: nat where "FORBIDDEN = 403"
definition GONE :: nat where "GONE = 410"

definition update_required_from_response :: "nat \<times> reply_body \<Rightarrow> error" where
  "update_required_from_response r =
     (if fst r = UPGRADE_REQUIRED
      then (case snd r of
          BodyTooOld min_protocol message \<Rightarrow> EUpdateRequired (protocol_too_old min_protocol message)
        | _ \<Rightarrow> EUpdateRequired (protocol_too_old None None))
      else EMsg (''unexpected update-required response status '' @ string_of_nat (fst r)))"

section \<open>Frame conditions\<close>

definition db_same :: "world \<Rightarrow> world \<Rightarrow> bool" where "db_same w w' = (w_db w' = w_db w)"

definition fs_same :: "world \<Rightarrow> world \<Rightarrow> bool" where "fs_same w w' = (w_fs w' = w_fs w)"

definition sent_extends :: "(http_request \<Rightarrow> bool) \<Rightarrow> world \<Rightarrow> world \<Rightarrow> bool" where
  "sent_extends P w w' = (\<exists>rs. w_sent w' = w_sent w @ rs \<and> list_all P rs)"

definition flag_kept :: "world \<Rightarrow> world \<Rightarrow> bool" where "flag_kept w w' = (w_flag w \<longrightarrow> w_flag w')"

definition wf_kept :: "world \<Rightarrow> world \<Rightarrow> bool" where
  "wf_kept w w' = (mirror_wf (w_db w) \<longrightarrow> mirror_wf (w_db w'))"

interpretation db_frame: state_preorder db_same
  by unfold_locales (simp_all add: db_same_def)

interpretation fs_frame: state_preorder fs_same
  by unfold_locales (simp_all add: fs_same_def)

interpretation sent_frame: state_preorder "sent_extends P" for P
proof unfold_locales
  fix s t u
  show "sent_extends P s s" by (auto simp: sent_extends_def)
  assume "sent_extends P s t" "sent_extends P t u"
  then show "sent_extends P s u" by (fastforce simp: sent_extends_def)
qed

interpretation flag_frame: state_preorder flag_kept
  by unfold_locales (simp_all add: flag_kept_def)

interpretation wf_frame: state_preorder wf_kept
  by unfold_locales (simp_all add: wf_kept_def)

lemma send_frames [simp]:
  "obeys db_same (send e rq)" "obeys fs_same (send e rq)" "obeys flag_kept (send e rq)" "obeys wf_kept (send e rq)"
  by (auto simp: obeys_def send_def db_same_def fs_same_def flag_kept_def wf_kept_def Let_def split: http_reply.split)

lemma send_sent: "P rq \<Longrightarrow> obeys (sent_extends P) (send e rq)"
  by (auto simp: obeys_def send_def sent_extends_def Let_def split: http_reply.split)

lemma error_for_status_frames [simp]:
  "obeys db_same (error_for_status r)" "obeys fs_same (error_for_status r)" "obeys flag_kept (error_for_status r)"
  "obeys wf_kept (error_for_status r)" "obeys (sent_extends P) (error_for_status r)"
  by (auto simp: obeys_def error_for_status_def run_simps db_frame.refl fs_frame.refl flag_frame.refl
      wf_frame.refl sent_frame.refl)

lemma on_db_frames [simp]:
  "obeys fs_same (on_db m)" "obeys (sent_extends P) (on_db m)" "obeys flag_kept (on_db m)"
  "obeys fs_same (write_db f)" "obeys (sent_extends P) (write_db f)" "obeys flag_kept (write_db f)"
  by (auto simp: obeys_def on_db_def write_db_def run_simps fs_same_def sent_extends_def flag_kept_def
      split: prod.split)

lemma on_fs_frames [simp]:
  "obeys db_same (on_fs m)" "obeys (sent_extends P) (on_fs m)" "obeys flag_kept (on_fs m)" "obeys wf_kept (on_fs m)"
  by (auto simp: obeys_def on_fs_def db_same_def sent_extends_def flag_kept_def wf_kept_def split: prod.split)

lemma counter_frames [simp]:
  "obeys db_same (new_uuid e)" "obeys fs_same (new_uuid e)" "obeys (sent_extends P) (new_uuid e)"
  "obeys flag_kept (new_uuid e)" "obeys wf_kept (new_uuid e)"
  "obeys db_same tick" "obeys fs_same tick" "obeys (sent_extends P) tick" "obeys flag_kept tick" "obeys wf_kept tick"
  by (auto simp: obeys_def new_uuid_def tick_def db_same_def fs_same_def sent_extends_def flag_kept_def wf_kept_def)

lemma write_db_wf: "(\<And>db. mirror_wf db \<Longrightarrow> mirror_wf (f db)) \<Longrightarrow> obeys wf_kept (write_db f)"
  by (simp add: obeys_def write_db_def run_simps wf_kept_def)

lemma on_db_wf: "(\<And>db. mirror_wf db \<Longrightarrow> mirror_wf (snd (m db))) \<Longrightarrow> obeys wf_kept (on_db m)"
  by (auto simp: obeys_def on_db_def wf_kept_def split: prod.split) (metis snd_conv)

lemma upsert_version_wf: "mirror_wf db \<Longrightarrow> mirror_wf (snd (upsert_version v db))"
  by (auto simp: upsert_version_def run_simps)

lemma error_for_status_world [simp]: "snd (error_for_status r w) = w"
  by (simp add: error_for_status_def fail_def ret_def)

lemma send_InrD: "send e rq w = (Inr x, w') \<Longrightarrow> w' = w \<lparr> w_sent := w_sent w @ [rq] \<rparr>"
  by (auto simp: send_def Let_def split: http_reply.splits)

lemma error_for_status_InrD: "error_for_status r w = (Inr b, w') \<Longrightarrow> w' = w \<and> b = snd r"
  by (auto simp: error_for_status_def fail_def ret_def split: if_splits)

lemma world_answers [simp]:
  "answers (send e rq)" "answers (error_for_status r)" "answers (write_db f)" "answers (new_uuid e)" "answers tick"
  by (auto simp: answers_def send_def Let_def error_for_status_def fail_def ret_def write_db_def writes_def
      new_uuid_def tick_def split: http_reply.split)

lemma on_db_answers: "answers m \<Longrightarrow> answers (on_db m)"
  unfolding answers_def on_db_def by (auto split: prod.split) (metis fst_conv)

lemma on_fs_answers: "answers m \<Longrightarrow> answers (on_fs m)"
  unfolding answers_def on_fs_def by (auto split: prod.split) (metis fst_conv)

lemma update_required_not_fuel [simp]: "update_required_from_response r \<noteq> ENoFuel"
  by (simp add: update_required_from_response_def split: reply_body.split)

section \<open>A concrete environment\<close>

text \<open>An instance for evaluating runs: a visible stand-in for SHA-256, one chunk per file, counted
  UUIDs and clock readings, and a given server.\<close>

definition demo_env :: "(http_request list \<Rightarrow> http_request \<Rightarrow> http_reply) \<Rightarrow> env" where
  "demo_env server =
     \<lparr> env_sha256 = (\<lambda>s. ''h:'' @ s), env_cdc = (\<lambda>s. [(0, length s)]),
       env_uuid = (\<lambda>n. ''id'' @ string_of_nat n), env_clock = (\<lambda>n. ''t'' @ string_of_nat n),
       env_mtime = (\<lambda>n. int n), env_unix = (\<lambda>n. 1000 + int n), env_today = (\<lambda>_. ''2026-01-02''), env_server = server \<rparr>"

definition demo_world :: "mirror \<Rightarrow> fs \<Rightarrow> world" where
  "demo_world db fs = \<lparr> w_db = db, w_fs = fs, w_sent = [], w_flag = False, w_uuids = 0, w_ticks = 0 \<rparr>"

end
