(* ===== verification/Chunk_Transfer.thy ===== *)
theory Chunk_Transfer
  imports World
begin

text \<open>
  Content transfer: cutting a file into content-defined chunks (\<open>chunking/mod.rs\<close>) and the
  object-batch protocol that uploads and downloads them (\<open>storage/mod.rs\<close>).
\<close>

section \<open>Chunks\<close>

record chunk =
  ck_hash :: string
  ck_offset :: nat
  ck_length :: nat
  ck_data :: string

definition cut_chunk :: "env \<Rightarrow> string \<Rightarrow> nat \<times> nat \<Rightarrow> chunk" where
  "cut_chunk e data piece =
     (let bytes = take (snd piece) (drop (fst piece) data) in
      \<lparr> ck_hash = env_sha256 e bytes, ck_offset = fst piece, ck_length = snd piece, ck_data = bytes \<rparr>)"

definition chunks_of_data :: "env \<Rightarrow> string \<Rightarrow> chunk list" where
  "chunks_of_data e data = (if data = [] then [] else map (cut_chunk e data) (env_cdc e data))"

definition chunk_file :: "env \<Rightarrow> path \<Rightarrow> chunk list io" where
  "chunk_file e p = with_state (\<lambda>w. case fs_read (w_fs w) p of
       Inl err \<Rightarrow> fail err
     | Inr data \<Rightarrow> ret (chunks_of_data e data))"

definition chunk_ref_of :: "chunk \<Rightarrow> chunk_ref" where
  "chunk_ref_of c = \<lparr> cr_hash = ck_hash c, cr_offset = ck_offset c, cr_length = ck_length c \<rparr>"

section \<open>Batches\<close>

definition post_batch ::
    "env \<Rightarrow> string \<Rightarrow> string \<Rightarrow> batch_operation \<Rightarrow> batch_request_object list \<Rightarrow> batch_response io" where
  "post_batch e backend_url token operation objects =
     try_op (send e \<lparr> rq_method = POST, rq_url = api_base backend_url @ ''/objects/batch'',
                      rq_bearer = Some token, rq_headers = [],
                      rq_body = BatchBody (new_batch_request operation objects) \<rparr>) (\<lambda>r.
     try_op (error_for_status r) (\<lambda>body. case body of
         BodyBatch batch \<Rightarrow>
           if bs_transfer batch \<noteq> ''basic''
           then fail (EMsg (''unsupported batch transfer `'' @ bs_transfer batch @ ''`''))
           else ret batch
       | _ \<Rightarrow> fail EDecode))"

text \<open>\<open>HeaderName::from_bytes\<close> and \<open>HeaderValue::from_str\<close> reject bytes outside these sets; names
  are stored in lower case.\<close>

definition header_name_char :: "char \<Rightarrow> bool" where
  "header_name_char c = (let n = (of_char c :: nat) in
     48 \<le> n \<and> n \<le> 57 \<or> 65 \<le> n \<and> n \<le> 90 \<or> 97 \<le> n \<and> n \<le> 122 \<or>
     c \<in> set ''!#$%&*+-.^_|~'' \<or> n = 39 \<or> n = 96)"

definition lower_char :: "char \<Rightarrow> char" where
  "lower_char c = (let n = (of_char c :: nat) in if 65 \<le> n \<and> n \<le> 90 then char_of (n + 32) else c)"

definition header_value_char :: "char \<Rightarrow> bool" where
  "header_value_char c = (let n = (of_char c :: nat) in 32 \<le> n \<and> n < 127 \<or> n = 9)"

definition add_header :: "string \<times> string \<Rightarrow> (string \<times> string) list \<Rightarrow> (string \<times> string) list io" where
  "add_header h hs =
     (if fst h \<noteq> [] \<and> list_all header_name_char (fst h) \<and> list_all header_value_char (snd h)
      then ret (hs @ [(map lower_char (fst h), snd h)])
      else fail (EMsg ''invalid HTTP header''))"

definition put_chunk :: "env \<Rightarrow> batch_action \<Rightarrow> chunk \<Rightarrow> unit io" where
  "put_chunk e upload c =
     try_op (for_each (case ba_header upload of None \<Rightarrow> [] | Some hs \<Rightarrow> hs) add_header []) (\<lambda>headers.
     try_op (send e \<lparr> rq_method = PUT, rq_url = ba_href upload, rq_bearer = None,
                      rq_headers = headers, rq_body = RawBody (ck_data c) \<rparr>) (\<lambda>r.
     try_op (error_for_status r) (\<lambda>_. write_db (mark_uploaded (ck_hash c) (ck_length c)))))"

definition upload_action :: "batch_response_object \<Rightarrow> batch_action option" where
  "upload_action object = (case bp_actions object of None \<Rightarrow> None | Some actions \<Rightarrow> bas_upload actions)"

definition upload_object :: "env \<Rightarrow> chunk list \<Rightarrow> batch_response_object \<Rightarrow> unit io" where
  "upload_object e pending object =
     (case bp_error object of
        Some err \<Rightarrow> fail (EMsg (''batch upload error for '' @ bp_oid object @ '': '' @ be_message err))
      | None \<Rightarrow> (case upload_action object of
            None \<Rightarrow> ret ()
          | Some upload \<Rightarrow> (case find (\<lambda>c. ck_hash c = bp_oid object) (rev pending) of
                None \<Rightarrow> fail (EMsg (''batch response referenced unknown oid '' @ bp_oid object))
              | Some c \<Rightarrow> put_chunk e upload c)))"

definition upload_chunks :: "env \<Rightarrow> string \<Rightarrow> string \<Rightarrow> chunk list \<Rightarrow> unit io" where
  "upload_chunks e backend_url token chunks = with_state (\<lambda>w.
     let pending = filter (\<lambda>c. \<not> is_uploaded (w_db w) (ck_hash c)) chunks in
     if pending = [] then ret ()
     else try_op (post_batch e backend_url token Upload
            (map (\<lambda>c. \<lparr> bo_oid = ck_hash c, bo_size = ck_length c \<rparr>) pending)) (\<lambda>response.
          for_each (bs_objects response) (\<lambda>object _. upload_object e pending object) ()))"

definition download_href :: "batch_response_object \<Rightarrow> string option" where
  "download_href object = (case bp_actions object of None \<Rightarrow> None
     | Some actions \<Rightarrow> map_option ba_href (bas_download actions))"

definition download_chunk :: "env \<Rightarrow> batch_response_object list \<Rightarrow> chunk_ref \<Rightarrow> string \<Rightarrow> string io" where
  "download_chunk e objects c bytes =
     (case find (\<lambda>o'. bp_oid o' = cr_hash c) (rev objects) of
        None \<Rightarrow> fail (EMsg (''batch response missing oid '' @ cr_hash c))
      | Some object \<Rightarrow>
       (case bp_error object of
          Some err \<Rightarrow> fail (EMsg (''batch download error for '' @ bp_oid object @ '': '' @ be_message err))
        | None \<Rightarrow>
         (case download_href object of
            None \<Rightarrow> fail (EMsg (''batch response missing download action for '' @ bp_oid object))
          | Some href \<Rightarrow>
             try_op (send e \<lparr> rq_method = GET, rq_url = href, rq_bearer = None, rq_headers = [], rq_body = NoBody \<rparr>) (\<lambda>r.
             try_op (error_for_status r) (\<lambda>body. case body of
                 BodyBytes chunk_bytes \<Rightarrow>
                   if env_sha256 e chunk_bytes \<noteq> cr_hash c
                   then fail (EMsg (''chunk hash mismatch for '' @ bp_oid object @ '': expected '' @ cr_hash c
                          @ '', got '' @ env_sha256 e chunk_bytes))
                   else ret (bytes @ chunk_bytes)
               | _ \<Rightarrow> fail ETransport)))))"

definition download_chunks :: "env \<Rightarrow> string \<Rightarrow> string \<Rightarrow> chunk_ref list \<Rightarrow> string io" where
  "download_chunks e backend_url token chunk_refs =
     (let refs = sort_key cr_offset chunk_refs in
      try_op (post_batch e backend_url token Download
          (map (\<lambda>c. \<lparr> bo_oid = cr_hash c, bo_size = cr_length c \<rparr>) refs)) (\<lambda>response.
        for_each refs (download_chunk e (bs_objects response)) []))"

section \<open>Lemmas\<close>

lemma post_batch_frames [simp]:
  "obeys db_same (post_batch e u t op objs)" "obeys fs_same (post_batch e u t op objs)"
  "obeys flag_kept (post_batch e u t op objs)" "obeys wf_kept (post_batch e u t op objs)"
  unfolding post_batch_def
  by (auto intro!: db_frame.obeys_rules fs_frame.obeys_rules flag_frame.obeys_rules wf_frame.obeys_rules
      split: reply_body.split)

lemma download_chunk_frames [simp]:
  "obeys db_same (download_chunk e objs c bs)" "obeys fs_same (download_chunk e objs c bs)"
  "obeys flag_kept (download_chunk e objs c bs)"
  unfolding download_chunk_def
  by (auto intro!: db_frame.obeys_rules fs_frame.obeys_rules flag_frame.obeys_rules
      split: reply_body.split option.split)

lemma download_chunks_frames [simp]:
  "obeys db_same (download_chunks e u t refs)" "obeys fs_same (download_chunks e u t refs)"
  "obeys flag_kept (download_chunks e u t refs)"
  unfolding download_chunks_def Let_def
  by (auto intro!: db_frame.obeys_rules fs_frame.obeys_rules flag_frame.obeys_rules)

lemma download_chunk_InrD:
  assumes "download_chunk e objs c bs w = (Inr bs', w')"
  shows "\<exists>d. bs' = bs @ d \<and> env_sha256 e d = cr_hash c"
  using assms unfolding download_chunk_def
  by (auto simp: fail_def ret_def elim!: try_op_InrE split: option.splits if_splits reply_body.splits)

lemma for_each_download_InrD:
  assumes "for_each refs (download_chunk e objs) bs w = (Inr bs', w')"
  shows "\<exists>ds. bs' = bs @ concat ds \<and> map (env_sha256 e) ds = map cr_hash refs"
  using assms
proof (induction refs arbitrary: bs w)
  case Nil
  then show ?case by (auto simp: ret_def)
next
  case (Cons c refs)
  from Cons.prems obtain bs1 w1 where
    1: "download_chunk e objs c bs w = (Inr bs1, w1)" and 2: "for_each refs (download_chunk e objs) bs1 w1 = (Inr bs', w')"
    by (auto elim: try_op_InrE)
  from download_chunk_InrD [OF 1] obtain d where d: "bs1 = bs @ d" "env_sha256 e d = cr_hash c" by blast
  from Cons.IH [OF 2] obtain ds where "bs' = bs1 @ concat ds" "map (env_sha256 e) ds = map cr_hash refs" by blast
  then have "bs' = bs @ concat (d # ds) \<and> map (env_sha256 e) (d # ds) = map cr_hash (c # refs)" using d by simp
  then show ?case by blast
qed

text \<open>The documented behaviour of FastCDC: the cuts tile the input.\<close>

fun tiles_from :: "nat \<Rightarrow> nat \<Rightarrow> (nat \<times> nat) list \<Rightarrow> bool" where
  "tiles_from start n [] = (start = n)"
| "tiles_from start n ((off, len) # cs) = (off = start \<and> start + len \<le> n \<and> tiles_from (start + len) n cs)"

lemma tiles_concat:
  "tiles_from start (length data) cs \<Longrightarrow>
   concat (map (\<lambda>(off, len). take len (drop off data)) cs) = drop start data"
proof (induction cs arbitrary: start)
  case (Cons c cs)
  obtain off len where c: "c = (off, len)" by fastforce
  with Cons have "off = start" "concat (map (\<lambda>(off, len). take len (drop off data)) cs) = drop (start + len) data"
    by auto
  then show ?case using c by (metis (no_types, lifting) append_take_drop_id case_prod_conv concat.simps(2)
      drop_drop list.simps(9) add.commute)
qed auto

lemma tiles_sorted: "tiles_from start n cs \<Longrightarrow> sorted (map fst cs) \<and> (\<forall>c \<in> set cs. start \<le> fst c)"
  by (induction start n cs rule: tiles_from.induct) (auto intro: order_trans)

lemma chunks_of_data_concat:
  assumes "tiles_from 0 (length data) (env_cdc e data)"
  shows "concat (map ck_data (chunks_of_data e data)) = data"
  using tiles_concat [OF assms] by (auto simp: chunks_of_data_def cut_chunk_def Let_def comp_def case_prod_unfold)

lemma chunks_of_data_sorted:
  assumes "tiles_from 0 (length data) (env_cdc e data)"
  shows "sorted (map cr_offset (map chunk_ref_of (chunks_of_data e data)))"
  using tiles_sorted [OF assms] by (auto simp: chunks_of_data_def cut_chunk_def chunk_ref_of_def Let_def comp_def)

lemma chunks_of_data_hash: "c \<in> set (chunks_of_data e data) \<Longrightarrow> ck_hash c = env_sha256 e (ck_data c)"
  by (auto simp: chunks_of_data_def cut_chunk_def Let_def split: if_splits)

text \<open>Among the requests \<open>rs\<close> a run sent after those in \<open>old\<close> is a PUT of \<open>bytes\<close> to \<open>url\<close> that the
  server accepted: it answered, and with a status \<open>error_for_status\<close> lets pass.\<close>

definition accepted_put :: "env \<Rightarrow> http_request list \<Rightarrow> http_request list \<Rightarrow> string \<Rightarrow> string \<Rightarrow> bool" where
  "accepted_put e old rs url bytes = (\<exists>pre rq post status body. rs = pre @ rq # post \<and>
     rq_method rq = PUT \<and> rq_url rq = url \<and> rq_body rq = RawBody bytes \<and>
     env_server e (old @ pre) rq = Reply status body \<and> \<not> (400 \<le> status \<and> status < 600))"

lemma accepted_put_earlier: "accepted_put e old a url x \<Longrightarrow> accepted_put e old (a @ b) url x"
  unfolding accepted_put_def by (metis append.assoc append_Cons)

lemma accepted_put_later: "accepted_put e (old @ a) b url x \<Longrightarrow> accepted_put e old (a @ b) url x"
  unfolding accepted_put_def by (metis append.assoc)

lemma accepted_put_one:
  assumes "rq_method rq = PUT" "rq_url rq = url" "rq_body rq = RawBody x"
    "env_server e old rq = Reply status body" "\<not> (400 \<le> status \<and> status < 600)"
  shows "accepted_put e old [rq] url x"
  unfolding accepted_put_def using assms by (intro exI [of _ "[]"] exI [of _ rq]) simp

text \<open>What uploading the chunks \<open>cs\<close> may do: PUT bytes of these chunks, and mark a hash uploaded
  when the server accepted a PUT of its chunk's bytes in this run.  Marks are never removed and no
  other table changes.\<close>

definition put_of :: "env \<Rightarrow> http_request list \<Rightarrow> chunk list \<Rightarrow> string \<Rightarrow> http_request list \<Rightarrow> bool" where
  "put_of e old cs h rs = (\<exists>c \<in> set cs. ck_hash c = h \<and> (\<exists>url. accepted_put e old rs url (ck_data c)))"

definition upload_trace :: "env \<Rightarrow> chunk list \<Rightarrow> world \<Rightarrow> http_request list \<Rightarrow> world \<Rightarrow> bool" where
  "upload_trace e cs w rs w' = (w_sent w' = w_sent w @ rs \<and>
     list_all (\<lambda>rq. rq_method rq = PUT \<longrightarrow> (\<exists>c \<in> set cs. rq_body rq = RawBody (ck_data c))) rs \<and>
     (\<forall>h. is_uploaded (w_db w) h \<longrightarrow> is_uploaded (w_db w') h) \<and>
     (\<forall>h. is_uploaded (w_db w') h \<longrightarrow> is_uploaded (w_db w) h \<or> put_of e (w_sent w) cs h rs) \<and>
     db_nodes (w_db w') = db_nodes (w_db w) \<and> db_versions (w_db w') = db_versions (w_db w) \<and>
     db_mounts (w_db w') = db_mounts (w_db w) \<and> w_fs w' = w_fs w \<and> w_flag w' = w_flag w)"

definition upload_step :: "env \<Rightarrow> chunk list \<Rightarrow> world \<Rightarrow> world \<Rightarrow> bool" where
  "upload_step e cs w w' = (\<exists>rs. upload_trace e cs w rs w')"

lemma upload_trace_append:
  assumes "upload_trace e cs s r1 t" "upload_trace e cs t r2 u"
  shows "upload_trace e cs s (r1 @ r2) u"
proof -
  have p: "put_of e (w_sent s) cs h r1 \<or> put_of e (w_sent t) cs h r2 \<Longrightarrow> put_of e (w_sent s) cs h (r1 @ r2)" for h
    using assms(1) accepted_put_earlier accepted_put_later unfolding put_of_def upload_trace_def by metis
  have m: "\<forall>h. is_uploaded (w_db s) h \<longrightarrow> is_uploaded (w_db u) h"
    "\<forall>h. is_uploaded (w_db u) h \<longrightarrow> is_uploaded (w_db s) h \<or> put_of e (w_sent s) cs h (r1 @ r2)"
    using assms p unfolding upload_trace_def by blast+
  have q: "w_sent u = w_sent s @ r1 @ r2"
    "list_all (\<lambda>rq. rq_method rq = PUT \<longrightarrow> (\<exists>c \<in> set cs. rq_body rq = RawBody (ck_data c))) (r1 @ r2)"
    "db_nodes (w_db u) = db_nodes (w_db s)" "db_versions (w_db u) = db_versions (w_db s)"
    "db_mounts (w_db u) = db_mounts (w_db s)" "w_fs u = w_fs s" "w_flag u = w_flag s"
    using assms unfolding upload_trace_def list_all_append append_assoc by (elim conjE, metis append_assoc)+
  show ?thesis unfolding upload_trace_def using m q by blast
qed

interpretation upload_frame: state_preorder "upload_step e cs" for e cs
proof unfold_locales
  fix s t u
  have "upload_trace e cs s [] s" by (simp add: upload_trace_def)
  then show "upload_step e cs s s" unfolding upload_step_def by blast
  assume "upload_step e cs s t" "upload_step e cs t u"
  then show "upload_step e cs s u" unfolding upload_step_def using upload_trace_append by blast
qed

lemma obeys_quiet_upload:
  assumes "obeys db_same m" "obeys fs_same m" "obeys (sent_extends (\<lambda>rq. rq_method rq \<noteq> PUT)) m"
    "\<And>w. w_flag (snd (m w)) = w_flag w"
  shows "obeys (upload_step e cs) m"
  unfolding obeys_def
proof
  fix w
  from assms(1-3) have same: "w_db (snd (m w)) = w_db w" "w_fs (snd (m w)) = w_fs w"
    and "\<exists>rs. w_sent (snd (m w)) = w_sent w @ rs \<and> list_all (\<lambda>rq. rq_method rq \<noteq> PUT) rs"
    by (auto simp: obeys_def db_same_def fs_same_def sent_extends_def)
  then obtain rs where "w_sent (snd (m w)) = w_sent w @ rs" "list_all (\<lambda>rq. rq_method rq \<noteq> PUT) rs" by blast
  then show "upload_step e cs w (snd (m w))"
    unfolding upload_step_def upload_trace_def same assms(4) by (intro exI [of _ rs]) (simp add: list_all_iff)
qed

lemma send_flag [simp]: "w_flag (snd (send e rq w)) = w_flag w"
  by (simp add: send_def Let_def split: http_reply.split)

lemma upload_step_send: "rq_method rq \<noteq> PUT \<Longrightarrow> obeys (upload_step e cs) (send e rq)"
  by (rule obeys_quiet_upload) (simp_all add: send_sent)

lemma upload_step_status [simp]: "obeys (upload_step e cs) (error_for_status r)"
  by (rule obeys_quiet_upload) simp_all

lemma upload_step_post_batch: "obeys (upload_step e cs) (post_batch e u t op objs)"
  unfolding post_batch_def
  by (auto intro!: upload_frame.obeys_rules upload_step_send split: reply_body.split)

lemma upload_step_headers: "obeys (upload_step e cs) (for_each hs add_header acc)"
  by (rule upload_frame.obeys_for_each) (auto simp: add_header_def intro!: upload_frame.obeys_rules)

lemma upload_step_put:
  assumes "c \<in> set cs"
  shows "obeys (upload_step e cs) (put_chunk e up c)"
proof -
  let ?put = "\<lambda>headers. try_op (send e \<lparr> rq_method = PUT, rq_url = ba_href up, rq_bearer = None,
      rq_headers = headers, rq_body = RawBody (ck_data c) \<rparr>) (\<lambda>r.
      try_op (error_for_status r) (\<lambda>_. write_db (mark_uploaded (ck_hash c) (ck_length c))))"
  have "obeys (upload_step e cs) (?put headers)" for headers
    unfolding obeys_def
  proof
    fix w :: world
    let ?rq = "\<lparr> rq_method = PUT, rq_url = ba_href up, rq_bearer = None, rq_headers = headers,
      rq_body = RawBody (ck_data c) \<rparr>"
    let ?w1 = "w \<lparr> w_sent := w_sent w @ [?rq] \<rparr>"
    let ?w2 = "?w1 \<lparr> w_db := mark_uploaded (ck_hash c) (ck_length c) (w_db w) \<rparr>"
    have "snd (?put headers w) = ?w1 \<or> (snd (?put headers w) = ?w2 \<and> accepted_put e (w_sent w) [?rq] (ba_href up) (ck_data c))"
      by (auto simp: run_simps send_def Let_def write_db_def error_for_status_def
          split: http_reply.split prod.split sum.split intro!: accepted_put_one)
    moreover have "upload_step e cs w ?w1" using assms
      unfolding upload_step_def upload_trace_def by (intro exI [of _ "[?rq]"]) auto
    moreover have "upload_step e cs w ?w2" if "accepted_put e (w_sent w) [?rq] (ba_href up) (ck_data c)" using assms that
      unfolding upload_step_def upload_trace_def by (intro exI [of _ "[?rq]"]) (auto simp: is_uploaded_mark put_of_def)
    ultimately show "upload_step e cs w (snd (?put headers w))" by auto
  qed
  then show ?thesis unfolding put_chunk_def
    by (rule upload_frame.obeys_try [OF upload_step_headers])
qed

lemma upload_step_object: "obeys (upload_step e cs) (upload_object e cs object)"
proof -
  have "c \<in> set cs" if "find P (rev cs) = Some c" for P c
    using that by (metis find_Some_iff nth_mem set_rev)
  then show ?thesis unfolding upload_object_def
    by (auto intro!: upload_frame.obeys_fail upload_frame.obeys_ret upload_step_put split: option.split)
qed

lemma upload_chunks_step:
  "upload_step e (filter (\<lambda>c. \<not> is_uploaded (w_db w) (ck_hash c)) chunks) w (snd (upload_chunks e u t chunks w))"
proof -
  let ?p = "filter (\<lambda>c. \<not> is_uploaded (w_db w) (ck_hash c)) chunks"
  have "obeys (upload_step e ?p) (if ?p = [] then ret () else try_op (post_batch e u t Upload
      (map (\<lambda>c. \<lparr> bo_oid = ck_hash c, bo_size = ck_length c \<rparr>) ?p)) (\<lambda>response.
      for_each (bs_objects response) (\<lambda>object _. upload_object e ?p object) ()))"
    by (auto intro!: upload_frame.obeys_rules upload_step_post_batch upload_step_object)
  then show ?thesis by (simp add: obeys_def upload_chunks_def with_state_def Let_def)
qed

section \<open>What a successful upload has sent\<close>

definition upload_batch_request :: "string \<Rightarrow> string \<Rightarrow> chunk list \<Rightarrow> http_request" where
  "upload_batch_request backend_url token pending =
     \<lparr> rq_method = POST, rq_url = api_base backend_url @ ''/objects/batch'', rq_bearer = Some token, rq_headers = [],
       rq_body = BatchBody (new_batch_request Upload
         (map (\<lambda>c. \<lparr> bo_oid = ck_hash c, bo_size = ck_length c \<rparr>) pending)) \<rparr>"

lemma add_headers_run: "snd (for_each hs add_header acc w) = w"
proof (induction hs arbitrary: acc)
  case (Cons h hs)
  then show ?case by (simp add: add_header_def try_op_def ret_def fail_def)
qed (simp add: ret_def)

lemma put_chunk_sent:
  assumes "put_chunk e up c w = (Inr (), w')"
  shows "\<exists>rq. w_sent w' = w_sent w @ [rq] \<and> accepted_put e (w_sent w) [rq] (ba_href up) (ck_data c) \<and>
    is_uploaded (w_db w') (ck_hash c)"
proof -
  obtain hs w1 where hs: "for_each (case ba_header up of None \<Rightarrow> [] | Some hs \<Rightarrow> hs) add_header [] w = (Inr hs, w1)"
    and put: "try_op (send e \<lparr> rq_method = PUT, rq_url = ba_href up, rq_bearer = None,
        rq_headers = hs, rq_body = RawBody (ck_data c) \<rparr>) (\<lambda>r.
      try_op (error_for_status r) (\<lambda>_. write_db (mark_uploaded (ck_hash c) (ck_length c)))) w1 = (Inr (), w')"
    using assms unfolding put_chunk_def by (rule try_op_InrE)
  have "w1 = w" using add_headers_run hs by (metis snd_conv)
  then show ?thesis
    using put by (auto simp: run_simps send_def Let_def write_db_def error_for_status_def is_uploaded_mark
        split: http_reply.splits prod.splits sum.splits if_splits intro!: accepted_put_one)
qed

definition put_of_object :: "env \<Rightarrow> http_request list \<Rightarrow> chunk list \<Rightarrow> http_request list \<Rightarrow> batch_response_object \<Rightarrow> bool" where
  "put_of_object e old pending rs object = (case upload_action object of
      None \<Rightarrow> True
    | Some upload \<Rightarrow> \<exists>c \<in> set pending. ck_hash c = bp_oid object \<and> accepted_put e old rs (ba_href upload) (ck_data c))"

lemma upload_objects_sent:
  assumes "for_each objects (\<lambda>object _. upload_object e pending object) () w = (Inr (), w')"
  shows "\<exists>rs. w_sent w' = w_sent w @ rs \<and> (\<forall>object \<in> set objects. put_of_object e (w_sent w) pending rs object)"
  using assms
proof (induction objects arbitrary: w)
  case Nil
  then show ?case by (simp add: ret_def)
next
  case (Cons object objects)
  from Cons.prems obtain w1 where head: "upload_object e pending object w = (Inr (), w1)"
    and tail: "for_each objects (\<lambda>object _. upload_object e pending object) () w1 = (Inr (), w')"
    by (auto elim: try_op_InrE)
  have first: "\<exists>r1. w_sent w1 = w_sent w @ r1 \<and> put_of_object e (w_sent w) pending r1 object"
  proof (cases "upload_action object")
    case None
    then have "w1 = w" using head by (simp add: upload_object_def fail_def ret_def split: option.splits)
    then show ?thesis using None by (simp add: put_of_object_def)
  next
    case (Some up)
    then obtain c where c: "find (\<lambda>c. ck_hash c = bp_oid object) (rev pending) = Some c"
      and put: "put_chunk e up c w = (Inr (), w1)"
      using head by (auto simp: upload_object_def fail_def split: option.splits)
    have "c \<in> set pending" "ck_hash c = bp_oid object"
      using c by (auto simp: find_Some_iff) (metis nth_mem set_rev length_rev)
    then show ?thesis using put_chunk_sent [OF put] Some unfolding put_of_object_def by auto
  qed
  then obtain r1 where r1: "w_sent w1 = w_sent w @ r1" "put_of_object e (w_sent w) pending r1 object" by blast
  from Cons.IH [OF tail] obtain r2 where r2: "w_sent w' = w_sent w1 @ r2"
    "\<forall>object \<in> set objects. put_of_object e (w_sent w1) pending r2 object" by blast
  have "\<forall>o' \<in> set (object # objects). put_of_object e (w_sent w) pending (r1 @ r2) o'"
    using r1 r2 accepted_put_earlier accepted_put_later unfolding put_of_object_def
    by (fastforce split: option.splits)
  then show ?case using r1(1) r2(1) by auto
qed

text \<open>A successful upload of chunks of which some are pending asked the server first which of them it
  lacks, and sent, accepted by the server, every one its answer has an upload action for.\<close>

lemma upload_chunks_sent:
  fixes chunks :: "chunk list" and w :: world
  defines "pending \<equiv> filter (\<lambda>c. \<not> is_uploaded (w_db w) (ck_hash c)) chunks"
  assumes "upload_chunks e u t chunks w = (Inr (), w')" "pending \<noteq> []"
  shows "\<exists>status batch rs. w_sent w' = w_sent w @ upload_batch_request u t pending # rs \<and>
    env_server e (w_sent w) (upload_batch_request u t pending) = Reply status (BodyBatch batch) \<and>
    (\<forall>object \<in> set (bs_objects batch).
       put_of_object e (w_sent w) pending (upload_batch_request u t pending # rs) object)"
proof -
  let ?rq = "upload_batch_request u t pending"
  have run: "try_op (post_batch e u t Upload (map (\<lambda>c. \<lparr> bo_oid = ck_hash c, bo_size = ck_length c \<rparr>) pending))
      (\<lambda>response. for_each (bs_objects response) (\<lambda>object _. upload_object e pending object) ()) w = (Inr (), w')"
    using assms(2,3) by (simp add: upload_chunks_def with_state_def Let_def pending_def)
  from run obtain batch w1 where
    post: "post_batch e u t Upload (map (\<lambda>c. \<lparr> bo_oid = ck_hash c, bo_size = ck_length c \<rparr>) pending) w = (Inr batch, w1)"
    and loop: "for_each (bs_objects batch) (\<lambda>object _. upload_object e pending object) () w1 = (Inr (), w')"
    by (rule try_op_InrE)
  obtain status where sent: "w_sent w1 = w_sent w @ [?rq]" "env_server e (w_sent w) ?rq = Reply status (BodyBatch batch)"
    using post
    by (auto simp: post_batch_def upload_batch_request_def try_op_def send_def Let_def error_for_status_def
        fail_def ret_def split: http_reply.splits reply_body.splits if_splits)
  from upload_objects_sent [OF loop] obtain rs where rs: "w_sent w' = w_sent w1 @ rs"
    "\<forall>object \<in> set (bs_objects batch). put_of_object e (w_sent w1) pending rs object" by blast
  have "\<forall>object \<in> set (bs_objects batch). put_of_object e (w_sent w) pending ([?rq] @ rs) object"
    using rs(2) accepted_put_later unfolding sent(1) put_of_object_def by (fastforce split: option.splits)
  then show ?thesis using rs(1) sent by auto
qed

text \<open>The content of a chunk is with the server when the requests are those in \<open>sent\<close>: it was marked
  uploaded before, or this run asked the server which of the pending chunks it lacks and every
  upload action its answer has for this hash was followed by an accepted PUT of the chunk's bytes to
  the place the action names; a hash the answer has no upload action for is one the server holds.\<close>

definition chunk_delivered ::
    "env \<Rightarrow> string \<Rightarrow> string \<Rightarrow> world \<Rightarrow> chunk list \<Rightarrow> http_request list \<Rightarrow> chunk \<Rightarrow> bool" where
  "chunk_delivered e u t w chunks sent c = (is_uploaded (w_db w) (ck_hash c) \<or>
     (let pending = filter (\<lambda>c. \<not> is_uploaded (w_db w) (ck_hash c)) chunks;
          rq = upload_batch_request u t pending in
      \<exists>status batch rs. sent = w_sent w @ rq # rs \<and> env_server e (w_sent w) rq = Reply status (BodyBatch batch) \<and>
        (\<forall>object \<in> set (bs_objects batch). bp_oid object = ck_hash c \<longrightarrow>
           put_of_object e (w_sent w) pending (rq # rs) object)))"

lemma upload_chunks_delivered:
  assumes "upload_chunks e u t chunks w = (Inr (), w')" "c \<in> set chunks"
  shows "chunk_delivered e u t w chunks (w_sent w') c"
proof (cases "is_uploaded (w_db w) (ck_hash c)")
  case False
  then have "filter (\<lambda>c. \<not> is_uploaded (w_db w) (ck_hash c)) chunks \<noteq> []" using assms(2) by (auto simp: filter_empty_conv)
  from upload_chunks_sent [OF assms(1) this] show ?thesis unfolding chunk_delivered_def Let_def by blast
qed (simp add: chunk_delivered_def)

section \<open>Properties\<close>

lemma download_chunks_pieces:
  assumes "download_chunks e backend_url token refs w = (Inr bytes, w')"
  shows "\<exists>ds. bytes = concat ds \<and> map (env_sha256 e) ds = map cr_hash (sort_key cr_offset refs)"
proof -
  obtain r :: batch_response and w1 where "for_each (sort_key cr_offset refs) (download_chunk e (bs_objects r)) [] w1 = (Inr bytes, w')"
    using assms unfolding download_chunks_def Let_def by (rule try_op_InrE)
  from for_each_download_InrD [OF this] show ?thesis by simp
qed

text \<open>C7: a download that succeeds returns exactly one piece per chunk of the manifest, in offset
  order, each piece having the SHA-256 the manifest names; a wrong, missing or failing chunk never
  contributes bytes, and neither the mirror nor the disk changes.\<close>

theorem download_chunks_integrity:
  assumes "download_chunks e backend_url token refs w = (Inr bytes, w')"
  shows "(\<exists>ds. bytes = concat ds \<and> map (env_sha256 e) ds = map cr_hash (sort_key cr_offset refs)) \<and>
    w_db w' = w_db w \<and> w_fs w' = w_fs w"
  using download_chunks_pieces [OF assms] obeys_run [OF download_chunks_frames(1) assms]
    obeys_run [OF download_chunks_frames(2) assms]
  by (simp add: db_same_def fs_same_def)

text \<open>chunking and downloading are inverse: if the cut points tile the file and no other bytes
  share a SHA-256 with its chunks, then whenever a download of the chunked file's manifest
  succeeds, from any server, it returns the file's bytes.\<close>

theorem download_chunks_roundtrip:
  assumes "tiles_from 0 (length data) (env_cdc e data)"
    and "\<And>c d. c \<in> set (chunks_of_data e data) \<Longrightarrow> env_sha256 e d = ck_hash c \<Longrightarrow> d = ck_data c"
    and "download_chunks e backend_url token (map chunk_ref_of (chunks_of_data e data)) w = (Inr bytes, w')"
  shows "bytes = data"
proof -
  let ?cs = "chunks_of_data e data"
  have "sort_key cr_offset (map chunk_ref_of ?cs) = map chunk_ref_of ?cs"
    using chunks_of_data_sorted [OF assms(1)] by (rule sort_key_id_if_sorted)
  then obtain ds where ds: "bytes = concat ds" "map (env_sha256 e) ds = map cr_hash (map chunk_ref_of ?cs)"
    using download_chunks_pieces [OF assms(3)] by auto
  have "list_all2 (\<lambda>d c. d = ck_data c) ds cs" if "map (env_sha256 e) ds = map ck_hash cs" "set cs \<subseteq> set ?cs" for ds cs
    using that assms(2)
  proof (induction ds arbitrary: cs)
    case (Cons d ds)
    then show ?case by (cases cs) auto
  qed auto
  then have "list_all2 (\<lambda>d c. d = ck_data c) ds ?cs" using ds(2) by (simp add: chunk_ref_of_def comp_def)
  then have "ds = map ck_data ?cs" by (simp add: list_eq_iff_nth_eq list_all2_conv_all_nth)
  then show ?thesis using ds(1) chunks_of_data_concat [OF assms(1)] by simp
qed

text \<open>C4: uploading sends bytes only of chunks not yet marked uploaded, and a chunk is newly marked only
  when its own bytes were PUT in this run and the server accepted them: it answered that very
  request, and with no error status.  This holds whatever the server answers and wherever the upload
  stops, so a chunk whose PUT fails, gets no answer or is refused stays unmarked; existing marks, the
  node, version and mount tables, the disk and the flag are untouched (\<open>upload_step\<close> of the pending
  chunks relates the world before to the world after).\<close>

theorem upload_chunks_sound:
  "upload_step e (filter (\<lambda>c. \<not> is_uploaded (w_db w) (ck_hash c)) chunks) w
     (snd (upload_chunks e backend_url token chunks w))"
  by (rule upload_chunks_step)

text \<open>A chunk the server already holds is never marked: when the batch reply names no upload
  action for any object (content-addressed storage already has them), the upload succeeds, yet
  the mirror is exactly as before, so every pending chunk stays unmarked.\<close>

lemma upload_chunks_known_stay_unmarked:
  assumes "\<And>rq. env_server e (w_sent w) rq = Reply 200 (BodyBatch batch)" "bs_transfer batch = ''basic''"
    and "\<And>o'. o' \<in> set (bs_objects batch) \<Longrightarrow> bp_error o' = None \<and> upload_action o' = None"
  shows "\<exists>w'. upload_chunks e backend_url token chunks w = (Inr (), w') \<and> w_db w' = w_db w"
proof -
  have loop: "for_each os (\<lambda>object _. upload_object e cs object) () w1 = (Inr (), w1)"
    if "set os \<subseteq> set (bs_objects batch)" for os cs w1
    using that by (induction os) (use assms(3) in \<open>auto simp: ret_def try_op_def upload_object_def\<close>)
  have batch: "post_batch e backend_url token op objs w =
      (Inr batch, w \<lparr> w_sent := w_sent w @ [\<lparr> rq_method = POST, rq_url = api_base backend_url @ ''/objects/batch'',
         rq_bearer = Some token, rq_headers = [], rq_body = BatchBody (new_batch_request op objs) \<rparr>] \<rparr>)" for op objs
    using assms(1,2) by (simp add: post_batch_def send_def try_op_def error_for_status_def ret_def)
  show ?thesis
    by (simp add: upload_chunks_def with_state_def Let_def ret_def try_op_def batch loop)
qed

end
