(* ===== verification/Op_Submit.thy ===== *)
theory Op_Submit
  imports Chunk_Transfer
begin

text \<open>
  Submitting operations (\<open>sync_engine/op_submit.rs\<close>): the request and its reply, the names and
  creation of local conflict copies, and the upload of a file as a new version.
\<close>

section \<open>Requests\<close>

definition parse_submit_op_response_body :: "json \<Rightarrow> error + submit_op_response" where
  "parse_submit_op_response_body body =
     (let tag = Option.bind (json_get body ''result'') json_as_str in
      if tag \<in> Some ` {''applied'', ''conflict_copy'', ''superseded'', ''conflict''}
      then (case dec_submit_op_response body of None \<Rightarrow> Inl EDecode | Some r \<Rightarrow> Inr r)
      else Inl (EUpdateRequired (unrecognized_submit_result tag)))"

definition submit_request :: "string \<Rightarrow> string \<Rightarrow> string \<Rightarrow> submit_op_request \<Rightarrow> http_request" where
  "submit_request backend_url token folder_id req =
     \<lparr> rq_method = POST, rq_url = folder_url backend_url folder_id ''/ops'', rq_bearer = Some token,
       rq_headers = protocol_header, rq_body = SubmitBody req \<rparr>"

definition submit_op :: "env \<Rightarrow> string \<Rightarrow> string \<Rightarrow> string \<Rightarrow> submit_op_request \<Rightarrow> submit_op_response io" where
  "submit_op e backend_url token folder_id req =
     try_op (send e (submit_request backend_url token folder_id req)) (\<lambda>r.
     if fst r = UPGRADE_REQUIRED then fail (update_required_from_response r)
     else if fst r = FORBIDDEN then fail (EOpForbidden folder_id)
     else try_op (error_for_status r) (\<lambda>body. case body of
         BodyJson v \<Rightarrow> lift_result (parse_submit_op_response_body v)
       | _ \<Rightarrow> fail EDecode))"

section \<open>Conflict copies\<close>

definition conflict_copy_name :: "string \<Rightarrow> string \<Rightarrow> string \<Rightarrow> string" where
  "conflict_copy_name file_name device_name date =
     (let mark = '' (conflicted copy, '' @ device_name @ '', '' @ date @ '')'' in
      case split_at_dot file_name of
        (Some stem, Some ext) \<Rightarrow> stem @ mark @ ''.'' @ ext
      | _ \<Rightarrow> file_name @ mark)"

definition numbered_name :: "string \<Rightarrow> nat \<Rightarrow> string" where
  "numbered_name file_name counter =
     (case split_at_dot file_name of
        (Some stem, Some ext) \<Rightarrow> stem @ '' ('' @ string_of_nat counter @ '').'' @ ext
      | (Some stem, None) \<Rightarrow> stem @ '' ('' @ string_of_nat counter @ '')''
      | _ \<Rightarrow> file_name)"

definition candidate_path :: "path \<Rightarrow> nat \<Rightarrow> path" where
  "candidate_path desired counter = path_join (butlast desired) (numbered_name (last desired) counter)"

definition disambiguate_conflict_path :: "fs \<Rightarrow> path \<Rightarrow> error + path" where
  "disambiguate_conflict_path fs desired =
     (if \<not> path_exists fs desired then Inr desired
      else (case Option.bind (path_file_name desired) to_str of
          None \<Rightarrow> Inl (EMsg (''path has no valid file stem: '' @ path_string desired))
        | Some _ \<Rightarrow>
           (case find (\<lambda>p. \<not> path_exists fs p) (map (candidate_path desired) [2..<21]) of
              Some p \<Rightarrow> Inr p
            | None \<Rightarrow> Inl (EMsg (''conflict copy path exhausted disambiguation attempts for ''
                 @ path_string desired)))))"

definition materialize_conflict_copy :: "env \<Rightarrow> path \<Rightarrow> string \<Rightarrow> string \<Rightarrow> path io" where
  "materialize_conflict_copy e original_path device_name date =
     (case Option.bind (path_file_name original_path) to_str of
        None \<Rightarrow> fail (EMsg (''path has no valid file name: '' @ path_string original_path))
      | Some file_name \<Rightarrow> with_state (\<lambda>w.
          try_op (lift_result (disambiguate_conflict_path (w_fs w)
             (with_file_name original_path (conflict_copy_name file_name device_name date)))) (\<lambda>conflict_path.
          try_op tick (\<lambda>t.
          try_op (on_fs (fs_copy original_path conflict_path (env_mtime e t))) (\<lambda>_.
          ret conflict_path)))))"

section \<open>New versions\<close>

definition new_version_request :: "env \<Rightarrow> string \<Rightarrow> int \<Rightarrow> string \<Rightarrow> chunk list \<Rightarrow> submit_op_request" where
  "new_version_request e node_id based_on_seq version_id chunks =
     (let manifest = map chunk_ref_of chunks in
      NewVersionOp node_id based_on_seq
        \<lparr> nv_version_id = version_id, nv_content_hash = manifest_content_hash (env_sha256 e) manifest,
          nv_size_bytes = sum_list (map ck_length chunks), nv_manifest = manifest,
          nv_force_conflict_copy = False \<rparr>)"

definition local_version_of :: "string \<Rightarrow> string \<Rightarrow> new_version_payload \<Rightarrow> string \<Rightarrow> local_version" where
  "local_version_of folder_id node_id payload version_id =
     \<lparr> lv_version_id = version_id, lv_node_id = node_id, lv_folder_id = folder_id,
       lv_content_hash = nv_content_hash payload, lv_size_bytes = nv_size_bytes payload,
       lv_manifest = nv_manifest payload \<rparr>"

definition apply_submitted_new_version ::
    "string \<Rightarrow> string \<Rightarrow> submit_op_request \<Rightarrow> submit_op_response \<Rightarrow> (mirror, unit) comp" where
  "apply_submitted_new_version folder_id node_id req response =
     (case req of
        NewVersionOp _ _ payload \<Rightarrow>
          (case response of
             Applied server_seq _ \<Rightarrow>
               try_op (upsert_version (local_version_of folder_id node_id payload (nv_version_id payload))) (\<lambda>_.
               writes (update_node node_id (\<lambda>n. n \<lparr> ln_current_version_id := Some (nv_version_id payload),
                                                   ln_server_seq := server_seq \<rparr>)))
           | ConflictCopy server_seq _ conflict_version_id \<Rightarrow>
               try_op (upsert_version (local_version_of folder_id node_id payload conflict_version_id)) (\<lambda>_.
               writes (update_node node_id (\<lambda>n. n \<lparr> ln_server_seq := server_seq \<rparr>)))
           | Superseded _ \<Rightarrow> ret ()
           | Conflict _ _ _ _ \<Rightarrow> ret ())
      | _ \<Rightarrow> ret ())"

definition upload_then_submit_new_version ::
    "env \<Rightarrow> string \<Rightarrow> string \<Rightarrow> string \<Rightarrow> string \<Rightarrow> int \<Rightarrow> path \<Rightarrow> string \<Rightarrow> string \<Rightarrow> submit_op_response io" where
  "upload_then_submit_new_version e backend_url token folder_id node_id based_on_seq p device_name date =
     try_op (chunk_file e p) (\<lambda>chunks.
     try_op (upload_chunks e backend_url token chunks) (\<lambda>_.
     try_op (new_uuid e) (\<lambda>version_id.
     let req = new_version_request e node_id based_on_seq version_id chunks in
     try_op (submit_op e backend_url token folder_id req) (\<lambda>response.
     try_op (on_db (apply_submitted_new_version folder_id node_id req response)) (\<lambda>_.
     case response of
       ConflictCopy _ _ _ \<Rightarrow>
         try_op (materialize_conflict_copy e p device_name date) (\<lambda>_. ret response)
     | _ \<Rightarrow> ret response)))))"

section \<open>Lemmas\<close>

lemma submit_op_frames [simp]:
  "obeys db_same (submit_op e u t f req)" "obeys fs_same (submit_op e u t f req)"
  "obeys flag_kept (submit_op e u t f req)" "obeys wf_kept (submit_op e u t f req)"
  unfolding submit_op_def
  by (auto intro!: db_frame.obeys_rules fs_frame.obeys_rules flag_frame.obeys_rules wf_frame.obeys_rules
      split: reply_body.split)

lemma submit_op_sent: "P (submit_request u t f req) \<Longrightarrow> obeys (sent_extends P) (submit_op e u t f req)"
  unfolding submit_op_def by (auto intro!: sent_frame.obeys_rules send_sent split: reply_body.split)

lemma submit_op_run:
  "\<exists>r. submit_op e u t f req w = (r, w \<lparr> w_sent := w_sent w @ [submit_request u t f req] \<rparr>)"
  by (auto simp: submit_op_def try_op_def send_def Let_def fail_def error_for_status_def ret_def lift_result_def
      split: http_reply.split reply_body.split)

lemma disambiguate_free:
  assumes "disambiguate_conflict_path fs desired = Inr q"
  shows "\<not> path_exists fs q"
  using assms by (auto simp: disambiguate_conflict_path_def find_Some_iff split: if_splits option.splits)

lemma split_at_dot_join:
  assumes "split_at_dot name = (Some stem, Some ext)"
  shows "name = stem @ ''.'' @ ext"
proof -
  let ?ext = "takeWhile (\<lambda>c. c \<noteq> CHR ''.'') (rev name)"
  have len: "length ?ext \<noteq> length name" and parts: "ext = rev ?ext" "stem = rev (drop (length ?ext + 1) (rev name))"
    using assms by (auto simp: split_at_dot_def Let_def split: if_splits)
  have "length ?ext < length (rev name)"
    using len length_takeWhile_le [of "\<lambda>c. c \<noteq> CHR ''.''" "rev name"] by simp
  then have "rev name = ?ext @ rev name ! length ?ext # drop (length ?ext + 1) (rev name)"
    by (metis Suc_eq_plus1 append_take_drop_id Cons_nth_drop_Suc takeWhile_eq_take)
  moreover have "rev name ! length ?ext = CHR ''.''"
    using nth_length_takeWhile [OF \<open>length ?ext < length (rev name)\<close>] by simp
  ultimately have "rev name = ?ext @ CHR ''.'' # drop (length ?ext + 1) (rev name)" by simp
  then have "name = rev (?ext @ CHR ''.'' # drop (length ?ext + 1) (rev name))" by (metis rev_rev_ident)
  then show ?thesis using parts by simp
qed

lemma split_at_dot_cases:
  "(\<exists>stem ext. split_at_dot name = (Some stem, Some ext)) \<or> split_at_dot name = (Some name, None)"
  by (auto simp: split_at_dot_def Let_def)

lemma infix_dot:
  assumes "is_infix m (a @ CHR ''.'' # b)" "CHR ''.'' \<notin> set m"
  shows "is_infix m a \<or> is_infix m b"
proof -
  obtain x y where xy: "a @ CHR ''.'' # b = x @ m @ y" using assms(1) by (auto simp: is_infix_iff)
  consider us where "a @ us = x" "CHR ''.'' # b = us @ m @ y" | us where "a = x @ us" "us @ CHR ''.'' # b = m @ y"
    using xy by (auto simp: append_eq_append_conv2)
  then show ?thesis
  proof cases
    case (1 us)
    show ?thesis
    proof (cases us)
      case Nil
      then show ?thesis using 1(2) assms(2) by (cases m) (auto simp: is_infix_iff intro: exI [of _ "[]"])
    next
      case (Cons c cs)
      then have "b = cs @ m @ y" using 1(2) by simp
      then show ?thesis by (auto simp: is_infix_iff)
    qed
  next
    case (2 us)
    then consider vs where "us @ vs = m" "CHR ''.'' # b = vs @ y" | vs where "us = m @ vs"
      by (auto simp: append_eq_append_conv2)
    then show ?thesis
    proof cases
      case (1 vs)
      then have "vs = [] \<or> CHR ''.'' \<in> set m" by (cases vs) auto
      then have "m = us" using 1 assms(2) by auto
      then show ?thesis using 2(1) is_infix_iff by blast
    next
      case (2 vs)
      then show ?thesis using \<open>a = x @ us\<close> by (auto simp: is_infix_iff)
    qed
  qed
qed

definition conflict_mark :: string where "conflict_mark = '' (conflicted copy, ''"

lemma conflict_mark_no_dot: "CHR ''.'' \<notin> set conflict_mark"
  by (simp add: conflict_mark_def)

lemma is_infix_append: "is_infix m s \<Longrightarrow> is_infix m (a @ s @ b)"
  unfolding is_infix_iff by (metis append.assoc)

lemma conflict_copy_name_marked: "is_infix conflict_mark (conflict_copy_name name device date)"
proof (cases "\<exists>stem ext. split_at_dot name = (Some stem, Some ext)")
  case True
  then obtain stem ext where "split_at_dot name = (Some stem, Some ext)" by blast
  then have "conflict_copy_name name device date = stem @ conflict_mark @ (device @ '', '' @ date @ '').'' @ ext)"
    by (simp add: conflict_copy_name_def conflict_mark_def)
  then show ?thesis by (metis is_infixI)
next
  case False
  then have "conflict_copy_name name device date = name @ conflict_mark @ (device @ '', '' @ date @ '')'')"
    using split_at_dot_cases [of name] by (auto simp: conflict_copy_name_def conflict_mark_def)
  then show ?thesis by (metis is_infixI)
qed

lemma numbered_name_marked:
  assumes "is_infix conflict_mark name"
  shows "is_infix conflict_mark (numbered_name name k)"
proof (cases "\<exists>stem ext. split_at_dot name = (Some stem, Some ext)")
  case True
  then obtain stem ext where se: "split_at_dot name = (Some stem, Some ext)" by blast
  then have "is_infix conflict_mark stem \<or> is_infix conflict_mark ext"
    using infix_dot [of conflict_mark stem ext] assms split_at_dot_join [OF se] conflict_mark_no_dot by simp
  then show ?thesis
  proof
    assume "is_infix conflict_mark stem"
    from is_infix_append [OF this, of "[]" "'' ('' @ string_of_nat k @ '').'' @ ext"]
    show ?thesis using se by (simp add: numbered_name_def)
  next
    assume "is_infix conflict_mark ext"
    from is_infix_append [OF this, of "stem @ '' ('' @ string_of_nat k @ '').''" "[]"]
    show ?thesis using se by (simp add: numbered_name_def)
  qed
next
  case False
  then have "split_at_dot name = (Some name, None)" using split_at_dot_cases by blast
  then show ?thesis using is_infix_append [OF assms, of "[]" "'' ('' @ string_of_nat k @ '')''"]
    by (simp add: numbered_name_def)
qed

lemma candidate_marked:
  assumes "is_infix conflict_mark (last desired)" "CHR ''/'' \<notin> set (numbered_name (last desired) k)"
  shows "is_infix conflict_mark (last (candidate_path desired k))"
proof -
  have marked: "is_infix conflict_mark (numbered_name (last desired) k)" using numbered_name_marked assms(1) .
  then obtain a b where ab: "numbered_name (last desired) k = a @ conflict_mark @ b" by (auto simp: is_infix_iff)
  have split: "split_char CHR ''/'' s = [s]" if "CHR ''/'' \<notin> set s" for s
    using that by (induction s) auto
  have "numbered_name (last desired) k \<noteq> []" "numbered_name (last desired) k \<noteq> ''.''"
    unfolding ab by (auto simp: conflict_mark_def append_eq_Cons_conv)
  then have "components (numbered_name (last desired) k) = [numbered_name (last desired) k]"
    by (simp add: components_def split [OF assms(2)])
  moreover have "\<not> is_absolute (numbered_name (last desired) k)"
    using assms(2) unfolding is_absolute_def by (auto simp: starts_with_iff)
  ultimately show ?thesis using marked by (simp add: candidate_path_def path_join_def)
qed

section \<open>Properties\<close>

text \<open>Reading a submission reply: a known result tag is decoded to the reply of that very tag or
  rejected as malformed, and any other tag, or none, asks for an update instead of being guessed.\<close>

lemma parse_submit_op_response_tags:
  "case parse_submit_op_response_body body of
     Inr r \<Rightarrow> json_get body ''result'' = Some (JStr (result_str r))
   | Inl err \<Rightarrow> (if Option.bind (json_get body ''result'') json_as_str \<in>
          Some ` {''applied'', ''conflict_copy'', ''superseded'', ''conflict''}
        then err = EDecode
        else err = EUpdateRequired (unrecognized_submit_result
          (Option.bind (json_get body ''result'') json_as_str)))"
  by (auto simp: parse_submit_op_response_body_def Let_def dec_submit_op_response_tag split: option.splits)

lemma materialize_run:
  assumes "materialize_conflict_copy e p dev date w = (Inr q, w')"
  obtains content t where "fs_read (w_fs w) p = Inr content" "\<not> path_exists (w_fs w) q"
    "fs_write q content t (w_fs w) = (Inr (), w_fs w')" "w_db w' = w_db w" "w_sent w' = w_sent w"
proof -
  obtain name where name: "Option.bind (path_file_name p) to_str = Some name"
    using assms by (auto simp: materialize_conflict_copy_def fail_def split: option.splits)
  obtain d where d: "disambiguate_conflict_path (w_fs w) (with_file_name p (conflict_copy_name name dev date)) = Inr d"
    using assms name by (cases "disambiguate_conflict_path (w_fs w) (with_file_name p (conflict_copy_name name dev date))")
      (auto simp: materialize_conflict_copy_def with_state_def try_op_def lift_result_def)
  obtain r fs' where copy: "fs_copy p d (env_mtime e (w_ticks w)) (w_fs w) = (r, fs')" by fastforce
  then have rd: "r = Inr ()" "d = q" "w' = w \<lparr> w_ticks := Suc (w_ticks w), w_fs := fs' \<rparr>"
    using assms name d by (auto simp: materialize_conflict_copy_def with_state_def try_op_def lift_result_def tick_def
        on_fs_def ret_def split: sum.splits)
  obtain content where "fs_read (w_fs w) p = Inr content"
    using copy rd(1) by (auto simp: fs_copy_def split: sum.splits)
  then show thesis
    using copy rd disambiguate_free [OF d] by (intro that [of content "env_mtime e (w_ticks w)"]) (auto simp: fs_copy_def)
qed

text \<open>Keeping a conflict copy never loses bytes: the copy goes to a path that did not exist and
  holds the original's content, and every file that could be read before, the original included,
  still reads the same; the mirror is untouched and nothing is sent.\<close>

lemma materialize_conflict_copy_safe:
  assumes "materialize_conflict_copy e original_path device_name date w = (Inr q, w')"
  shows "\<not> path_exists (w_fs w) q \<and>
    (\<exists>content k t. fs_read (w_fs w) original_path = Inr content \<and> canonicalize (w_fs w') q = Inr k \<and>
       fs_entry (w_fs w') k = Some (File content t)) \<and>
    (\<forall>p c. fs_read (w_fs w) p = Inr c \<longrightarrow> fs_read (w_fs w') p = Inr c) \<and>
    w_db w' = w_db w \<and> w_sent w' = w_sent w"
proof -
  obtain content t where c: "fs_read (w_fs w) original_path = Inr content" "\<not> path_exists (w_fs w) q"
    "fs_write q content t (w_fs w) = (Inr (), w_fs w')" "w_db w' = w_db w" "w_sent w' = w_sent w"
    using materialize_run [OF assms] by blast
  obtain k where k: "fs_entry (w_fs w) k = None" "w_fs w' = put_entry k (File content t) (w_fs w)"
    "resolve_from (w_fs w) True 40 [] q = Inr k" using fs_write_new [OF c(3,2)] by blast
  have nonroot: "k \<noteq> []" using k(1) by auto
  have "canonicalize (w_fs w') q = Inr k"
    using resolve_create_put [OF k(3,1) nonroot, of content t]
      resolve_from_put_new [OF _ k(1), of 40 "[]" q k "File content t"] unfolding canonicalize_def k(2) by blast
  moreover have "fs_entry (w_fs w') k = Some (File content t)" using k(2) nonroot by simp
  moreover have "\<forall>p c. fs_read (w_fs w) p = Inr c \<longrightarrow> fs_read (w_fs w') p = Inr c"
    unfolding k(2) using fs_read_put_new [OF _ k(1)] by blast
  ultimately show ?thesis using c by blast
qed

text \<open>Disambiguation takes the first free name of the plain name and the numbers 2 to 20, and
  gives up exactly when all twenty exist.\<close>

lemma disambiguate_conflict_path_first_free:
  assumes "path_file_name desired = Some name" "valid_utf8 name"
  shows "(case disambiguate_conflict_path fs desired of
      Inr q \<Rightarrow> Some q = find (\<lambda>p. \<not> path_exists fs p) (desired # map (candidate_path desired) [2..<21])
    | Inl _ \<Rightarrow> list_all (path_exists fs) (desired # map (candidate_path desired) [2..<21]))"
proof (cases "path_exists fs desired")
  case True
  show ?thesis
  proof (cases "find (\<lambda>p. \<not> path_exists fs p) (map (candidate_path desired) [2..<21])")
    case None
    then have "disambiguate_conflict_path fs desired = Inl (EMsg (''conflict copy path exhausted disambiguation attempts for ''
                 @ path_string desired))"
      using True assms by (simp add: disambiguate_conflict_path_def to_str_def)
    then show ?thesis using True None unfolding find_None_iff by (auto simp: list_all_iff)
  next
    case (Some q)
    then have "disambiguate_conflict_path fs desired = Inr q"
      using True assms by (simp add: disambiguate_conflict_path_def to_str_def)
    then show ?thesis using True Some by simp
  qed
qed (simp add: disambiguate_conflict_path_def)

text \<open>What an answer to a new version records: an applied version becomes the node's current
  one; a conflict copy is stored under the id the server gave it while the node keeps its current
  version; both take the server's number and record the uploaded manifest; a superseded or
  conflicting submission changes nothing.\<close>

lemma apply_submitted_new_version_effect:
  assumes "get_node db node_id = Some n" "nv_size_bytes payload < 2 ^ 63"
    and "apply_submitted_new_version folder_id node_id (NewVersionOp i q payload) response db = (r, db')"
  shows "r = Inr () \<and> (case response of
      Applied server_seq _ \<Rightarrow>
        get_node db' node_id = Some (n \<lparr> ln_current_version_id := Some (nv_version_id payload), ln_server_seq := server_seq \<rparr>) \<and>
        get_version db' (nv_version_id payload) = Some (local_version_of folder_id node_id payload (nv_version_id payload))
    | ConflictCopy server_seq _ v \<Rightarrow>
        get_node db' node_id = Some (n \<lparr> ln_server_seq := server_seq \<rparr>) \<and>
        get_version db' v = Some (local_version_of folder_id node_id payload v)
    | _ \<Rightarrow> db' = db)"
proof -
  have upd: "get_node (update_node node_id g (upsert_version_row row db)) node_id = Some (g n)"
    if "\<And>x. ln_node_id (g x) = ln_node_id x" for g row
    using assms(1) get_node_update_node [OF that, of node_id "upsert_version_row row db" node_id]
      get_node_cong [of "upsert_version_row row db" db] by simp
  have ver: "get_version (update_node node_id g (upsert_version_row \<lparr> vr_version = v, vr_materialized_at = None \<rparr> db))
      (lv_version_id v) = Some v" for g v
  proof -
    have "get_version (update_node i g d) = get_version d" for i d
      by (rule ext) (simp add: get_version_def get_version_row_def)
    then show ?thesis by (simp add: get_version_upsert vr_id_def)
  qed
  have id: "lv_version_id (local_version_of folder_id node_id payload v) = v"
    "lv_size_bytes (local_version_of folder_id node_id payload v) = nv_size_bytes payload" for v
    by (simp_all add: local_version_of_def)
  show ?thesis
    using assms(2,3) upd ver [of _ "local_version_of folder_id node_id payload v" for v, unfolded id]
    by (cases response)
      (auto simp: apply_submitted_new_version_def upsert_version_def try_op_def writes_def ret_def id)
qed

definition no_submit :: "http_request \<Rightarrow> bool" where
  "no_submit rq = (\<forall>req. rq_body rq \<noteq> SubmitBody req)"

lemma upload_chunks_no_submit: "obeys (sent_extends no_submit) (upload_chunks e u t cs)"
proof -
  have put: "obeys (sent_extends no_submit) (put_chunk e up c)" for up c
    unfolding put_chunk_def add_header_def
    by (auto intro!: sent_frame.obeys_rules send_sent simp: no_submit_def)
  have obj: "obeys (sent_extends no_submit) (upload_object e pending ob)" for pending ob
    unfolding upload_object_def by (auto intro!: sent_frame.obeys_rules put split: option.split)
  have batch: "obeys (sent_extends no_submit) (post_batch e u t op objs)" for op objs
    unfolding post_batch_def
    by (auto intro!: sent_frame.obeys_rules send_sent simp: no_submit_def split: reply_body.split)
  show ?thesis unfolding upload_chunks_def Let_def
    by (auto intro!: sent_frame.obeys_rules batch obj)
qed

lemma chunk_file_run: "chunk_file e p w = (case fs_read (w_fs w) p of Inl err \<Rightarrow> (Inl err, w) | Inr data \<Rightarrow> (Inr (chunks_of_data e data), w))"
  by (simp add: chunk_file_def with_state_def fail_def ret_def split: sum.split)

lemma sent_after_submit:
  assumes "try_op (on_db m) (\<lambda>_. case response of
      ConflictCopy _ _ _ \<Rightarrow> try_op (materialize_conflict_copy e p dev date) (\<lambda>_. ret response) | _ \<Rightarrow> ret response) w = (r, w')"
  shows "w_sent w' = w_sent w"
proof -
  have "obeys (sent_extends (\<lambda>_. False)) (materialize_conflict_copy e p dev date)"
    unfolding materialize_conflict_copy_def by (auto intro!: sent_frame.obeys_rules split: option.split)
  then have "obeys (sent_extends (\<lambda>_. False)) (try_op (on_db m) (\<lambda>_. case response of
      ConflictCopy _ _ _ \<Rightarrow> try_op (materialize_conflict_copy e p dev date) (\<lambda>_. ret response) | _ \<Rightarrow> ret response))"
    by (auto intro!: sent_frame.obeys_rules split: submit_op_response.split)
  from obeys_run [OF this assms] show ?thesis by (auto simp: sent_extends_def list_all_iff)
qed

text \<open>C17: a version is announced only after its content is with the server: whenever pushing a file
  submits an operation, the operation is the last request, its manifest, hash and size are those of
  the chunks of the file as read, and before it every chunk was delivered (\<open>chunk_delivered\<close>): it was
  marked uploaded when the push began, or the batch request of this very push was answered, and each
  upload action the answer has for the chunk was followed by a PUT of its bytes to the named place
  that the server accepted.  (A chunk the answer has no upload action for is one the server holds.)\<close>

theorem upload_precedes_submit:
  assumes "upload_then_submit_new_version e backend_url token folder_id node_id based_on_seq p device_name date w = (r, w')"
    and "rq \<in> set (drop (length (w_sent w)) (w_sent w'))" "rq_body rq = SubmitBody req"
  shows "\<exists>data w1 v. fs_read (w_fs w) p = Inr data \<and>
    upload_chunks e backend_url token (chunks_of_data e data) w = (Inr (), w1) \<and>
    req = new_version_request e node_id based_on_seq v (chunks_of_data e data) \<and>
    rq = submit_request backend_url token folder_id req \<and> w_sent w' = w_sent w1 @ [rq] \<and>
    (\<forall>c \<in> set (chunks_of_data e data).
       chunk_delivered e backend_url token w (chunks_of_data e data) (w_sent w1) c)"
proof -
  have quiet: "rq \<notin> set (drop (length (w_sent w)) (w_sent w1))" if "sent_extends no_submit w w1" for w1
    using that assms(3) by (auto simp: sent_extends_def list_all_iff no_submit_def)
  show ?thesis
  proof (cases "fs_read (w_fs w) p")
    case (Inl err)
    then have "w' = w" using assms(1) by (simp add: upload_then_submit_new_version_def try_op_def chunk_file_run)
    then show ?thesis using assms(2) by simp
  next
    case (Inr data)
    obtain u w1 where up: "upload_chunks e backend_url token (chunks_of_data e data) w = (u, w1)" by fastforce
    have ext: "sent_extends no_submit w w1" using obeys_run [OF upload_chunks_no_submit up] .
    show ?thesis
    proof (cases u)
      case (Inl err)
      then have "w' = w1" using assms(1) Inr up by (simp add: upload_then_submit_new_version_def try_op_def chunk_file_run)
      then show ?thesis using quiet [OF ext] assms(2) by simp
    next
      case ok: (Inr x)
      let ?v = "env_uuid e (w_uuids w1)"
      let ?req = "new_version_request e node_id based_on_seq ?v (chunks_of_data e data)"
      let ?rq = "submit_request backend_url token folder_id ?req"
      let ?w2 = "w1 \<lparr> w_uuids := Suc (w_uuids w1) \<rparr>"
      let ?w3 = "?w2 \<lparr> w_sent := w_sent ?w2 @ [?rq] \<rparr>"
      obtain s where sub: "submit_op e backend_url token folder_id ?req ?w2 = (s, ?w3)"
        using submit_op_run by blast
      have "w_sent w' = w_sent w1 @ [?rq]"
      proof (cases s)
        case (Inl err)
        then show ?thesis using assms(1) Inr up ok sub
          by (auto simp: upload_then_submit_new_version_def try_op_def chunk_file_run new_uuid_def Let_def)
      next
        case (Inr resp)
        then have "try_op (on_db (apply_submitted_new_version folder_id node_id ?req resp)) (\<lambda>_. case resp of
            ConflictCopy _ _ _ \<Rightarrow> try_op (materialize_conflict_copy e p device_name date) (\<lambda>_. ret resp) | _ \<Rightarrow> ret resp) ?w3 = (r, w')"
          using assms(1) \<open>fs_read (w_fs w) p = Inr data\<close> up ok sub
          by (simp add: upload_then_submit_new_version_def chunk_file_run new_uuid_def Let_def try_op_def
              cong: submit_op_response.case_cong)
        from sent_after_submit [OF this] show ?thesis by simp
      qed
      moreover from this have "rq = ?rq"
        using assms(2,3) ext quiet [OF ext] by (auto simp: sent_extends_def no_submit_def list_all_iff)
      moreover have "\<forall>c \<in> set (chunks_of_data e data).
          chunk_delivered e backend_url token w (chunks_of_data e data) (w_sent w1) c"
        using upload_chunks_delivered up ok by fastforce
      ultimately show ?thesis using Inr up ok assms(3) by (auto simp: submit_request_def)
    qed
  qed
qed

end
