(* ===== verification/Local_Push.thy ===== *)
theory Local_Push
  imports Op_Submit
begin

text \<open>
  Pushing local changes to the server (\<open>sync_engine/local_push.rs\<close>): a breadth-first walk of the
  mounted directory compares each entry with the mirror and submits creates, moves, renames and
  new versions; then a walk of the mirror submits deletes for what vanished from disk.  The loops
  over queues and over parents are bounded by fuel (\<open>ENoFuel\<close> when it is exhausted).
\<close>

section \<open>Summary and context\<close>

record push_summary =
  ps_creates :: nat
  ps_versions :: nat
  ps_deletes :: nat
  ps_skipped :: nat
  ps_errors :: nat
  ps_forbidden :: bool

definition empty_push_summary :: push_summary where
  "empty_push_summary = \<lparr> ps_creates = 0, ps_versions = 0, ps_deletes = 0, ps_skipped = 0,
     ps_errors = 0, ps_forbidden = False \<rparr>"

definition skip_one :: "push_summary \<Rightarrow> push_summary" where
  "skip_one s = s \<lparr> ps_skipped := ps_skipped s + 1 \<rparr>"

definition count_error :: "push_summary \<Rightarrow> push_summary" where
  "count_error s = s \<lparr> ps_errors := ps_errors s + 1 \<rparr>"

definition record_push_error :: "error \<Rightarrow> push_summary \<Rightarrow> push_summary" where
  "record_push_error err s =
     (if is_op_forbidden err then (count_error s) \<lparr> ps_forbidden := True \<rparr> else count_error s)"

text \<open>The arguments that stay the same during a push.\<close>

record push_ctx =
  px_root :: path
  px_folder :: string
  px_scope :: "string option"
  px_backend :: string
  px_token :: string
  px_device :: string
  px_has_flag :: bool

record push_state =
  st_summary :: push_summary
  st_queue :: "(path \<times> string) list"
  st_deferred :: "string list"

definition on_summary :: "(push_summary \<Rightarrow> push_summary) \<Rightarrow> push_state \<Rightarrow> push_state" where
  "on_summary f st = st \<lparr> st_summary := f (st_summary st) \<rparr>"

definition enqueue :: "path \<Rightarrow> string \<Rightarrow> push_state \<Rightarrow> push_state" where
  "enqueue p node_id st = st \<lparr> st_queue := st_queue st @ [(p, node_id)] \<rparr>"

definition defer_delete :: "string \<Rightarrow> push_state \<Rightarrow> push_state" where
  "defer_delete node_id st = st \<lparr> st_deferred := node_id # st_deferred st \<rparr>"

definition push_submit :: "env \<Rightarrow> push_ctx \<Rightarrow> submit_op_request \<Rightarrow> submit_op_response io" where
  "push_submit e x req = submit_op e (px_backend x) (px_token x) (px_folder x) req"

section \<open>Helpers\<close>

definition ensure_not_update_required :: "push_ctx \<Rightarrow> unit io" where
  "ensure_not_update_required x = with_state (\<lambda>w.
     if px_has_flag x \<and> w_flag w then fail (EUpdateRequired mount_already_halted) else ret ())"

definition propagate_update_required :: "error \<Rightarrow> push_ctx \<Rightarrow> unit io" where
  "propagate_update_required err x =
     (case is_update_required err of
        Some u \<Rightarrow> try_op (if px_has_flag x then writes (\<lambda>w. w \<lparr> w_flag := True \<rparr>) else ret ())
                    (\<lambda>_. fail (EUpdateRequired u))
      | None \<Rightarrow> ret ())"

fun node_type_str :: "node_type \<Rightarrow> string" where
  "node_type_str NFile = ''file''"
| "node_type_str NFolder = ''folder''"

definition is_conflict_copy_name :: "string \<Rightarrow> bool" where
  "is_conflict_copy_name name = is_infix '' (conflicted copy, '' name"

text \<open>\<open>as i64\<close> keeps the low 64 bits.\<close>

definition wrap_i64 :: "int \<Rightarrow> int" where
  "wrap_i64 i = (i + 2 ^ 63) mod 2 ^ 64 - 2 ^ 63"

definition signed_nanos_since_epoch :: "int \<Rightarrow> int" where
  "signed_nanos_since_epoch t = (if 0 \<le> t then wrap_i64 t else wrap_i64 (- wrap_i64 (- t)))"

definition stat_push_signature :: "fs \<Rightarrow> path \<Rightarrow> error + (nat \<times> int)" where
  "stat_push_signature fs p = (case metadata fs p of
      Inl err \<Rightarrow> Inl err
    | Inr n \<Rightarrow> Inr (node_len n, signed_nanos_since_epoch (node_mtime n)))"

definition warm_push_cache :: "string \<Rightarrow> nat \<Rightarrow> int \<Rightarrow> unit io" where
  "warm_push_cache node_id size_bytes mtime_nanos = write_db (update_pushed_cache node_id size_bytes mtime_nanos)"

definition file_content_hash :: "env \<Rightarrow> path \<Rightarrow> string io" where
  "file_content_hash e p = try_op (chunk_file e p) (\<lambda>chunks.
     ret (manifest_content_hash (env_sha256 e) (map chunk_ref_of chunks)))"

definition today_date_str :: "env \<Rightarrow> string io" where
  "today_date_str e = try_op tick (\<lambda>t. ret (env_today e t))"

section \<open>Moves\<close>

text \<open>The parts of a node's path below the mount; it is undefined when a parent is missing.  A parent
  cycle keeps the program in this loop forever.\<close>

primrec local_node_parts :: "nat \<Rightarrow> string option \<Rightarrow> local_node list \<Rightarrow> local_node \<Rightarrow> string list \<Rightarrow>
    error + string list option" where
  "local_node_parts 0 scope nodes current parts = Inl ENoFuel"
| "local_node_parts (Suc n) scope nodes current parts =
     (if scope = Some (ln_node_id current) then Inr (Some parts)
      else (case ln_parent_id current of
          None \<Rightarrow> Inr (Some parts)
        | Some parent \<Rightarrow> (case find_row ln_node_id parent nodes of
              None \<Rightarrow> Inr None
            | Some p \<Rightarrow> local_node_parts n scope nodes p (ln_name current # parts))))"

definition local_node_abs_path :: "path \<Rightarrow> string option \<Rightarrow> local_node list \<Rightarrow> local_node \<Rightarrow> error + path option" where
  "local_node_abs_path mount_root scope nodes node =
     (case local_node_parts (Suc (length nodes)) scope nodes node [] of
        Inl err \<Rightarrow> Inl err
      | Inr parts \<Rightarrow> Inr (map_option (foldl path_join mount_root) parts))"

fun filter_result :: "('a \<Rightarrow> error + bool) \<Rightarrow> 'a list \<Rightarrow> error + 'a list" where
  "filter_result f [] = Inr []"
| "filter_result f (x # xs) =
     (case f x of Inl err \<Rightarrow> Inl err
      | Inr b \<Rightarrow> (case filter_result f xs of Inl err \<Rightarrow> Inl err | Inr ys \<Rightarrow> Inr (if b then x # ys else ys)))"

definition folder_nodes :: "mirror \<Rightarrow> string \<Rightarrow> local_node list" where
  "folder_nodes db folder_id = filter (\<lambda>n. ln_folder_id n = folder_id \<and> live n) (db_nodes db)"

definition find_missing_move_candidate ::
    "world \<Rightarrow> push_ctx \<Rightarrow> path \<Rightarrow> string \<Rightarrow> string \<Rightarrow> string \<Rightarrow> error + local_node option" where
  "find_missing_move_candidate w x new_abs_path new_parent_id new_name node_type =
     (let nodes = folder_nodes (w_db w) (px_folder x) in
      case filter_result (\<lambda>node.
          if ln_node_type node = node_type \<and> (ln_parent_id node = Some new_parent_id \<or> ln_name node = new_name)
          then (case local_node_abs_path (px_root x) (px_scope x) nodes node of
              Inl err \<Rightarrow> Inl err
            | Inr None \<Rightarrow> Inr False
            | Inr (Some p) \<Rightarrow> Inr (\<not> path_exists (w_fs w) p \<and> p \<noteq> new_abs_path))
          else Inr False) nodes of
        Inl err \<Rightarrow> Inl err
      | Inr candidates \<Rightarrow> Inr (case candidates of [c] \<Rightarrow> Some c | _ \<Rightarrow> None))"

record local_entry =
  le_path :: path
  le_parent_node_id :: string
  le_name :: string
  le_node_type :: node_type

text \<open>Submits the rename of a candidate that already has its new parent, then records the node.\<close>

definition finish_move :: "env \<Rightarrow> push_ctx \<Rightarrow> local_entry \<Rightarrow> local_node \<Rightarrow> push_state \<Rightarrow> (bool \<times> push_state) io" where
  "finish_move e x entry node st =
     try_op (write_db (upsert_node node)) (\<lambda>_.
     let st1 = (if le_node_type entry = NFolder then enqueue (le_path entry) (ln_node_id node) st else st) in
     ret (True, on_summary skip_one st1))"

definition rename_candidate :: "env \<Rightarrow> push_ctx \<Rightarrow> local_entry \<Rightarrow> local_node \<Rightarrow> push_state \<Rightarrow> (bool \<times> push_state) io" where
  "rename_candidate e x entry node st =
     (if ln_name node \<noteq> le_name entry then
        match_op (push_submit e x (RenameOp (ln_node_id node) (ln_server_seq node) (le_name entry)))
          (\<lambda>response. case response of
              Applied server_seq _ \<Rightarrow>
                finish_move e x entry (node \<lparr> ln_name := le_name entry, ln_server_seq := server_seq \<rparr>) st
            | _ \<Rightarrow> ret (True, on_summary skip_one st))
          (\<lambda>err. try_op (propagate_update_required err x) (\<lambda>_.
             try_op (write_db (upsert_node node)) (\<lambda>_.
             ret (True, defer_delete (ln_node_id node) (on_summary (record_push_error err) st)))))
      else finish_move e x entry node st)"

definition process_moved_entry :: "env \<Rightarrow> push_ctx \<Rightarrow> local_entry \<Rightarrow> push_state \<Rightarrow> (bool \<times> push_state) io" where
  "process_moved_entry e x entry st = with_state (\<lambda>w.
     try_op (lift_result (find_missing_move_candidate w x (le_path entry) (le_parent_node_id entry)
        (le_name entry) (node_type_str (le_node_type entry)))) (\<lambda>candidate.
     case candidate of
       None \<Rightarrow> ret (False, st)
     | Some node \<Rightarrow>
        if ln_parent_id node \<noteq> Some (le_parent_node_id entry) then
          match_op (push_submit e x (MoveOp (ln_node_id node) (ln_server_seq node) (le_parent_node_id entry)))
            (\<lambda>response. case response of
                Applied server_seq _ \<Rightarrow>
                  rename_candidate e x entry
                    (node \<lparr> ln_parent_id := Some (le_parent_node_id entry), ln_server_seq := server_seq \<rparr>) st
              | _ \<Rightarrow> ret (True, on_summary skip_one st))
            (\<lambda>err. try_op (propagate_update_required err x) (\<lambda>_.
               ret (True, defer_delete (ln_node_id node) (on_summary (record_push_error err) st))))
        else rename_candidate e x entry node st))"

section \<open>Creates and new versions\<close>

definition new_local_node :: "push_ctx \<Rightarrow> local_entry \<Rightarrow> string \<Rightarrow> int \<Rightarrow> local_node" where
  "new_local_node x entry node_id server_seq =
     \<lparr> ln_node_id = node_id, ln_folder_id = px_folder x, ln_parent_id = Some (le_parent_node_id entry),
       ln_name = le_name entry, ln_node_type = node_type_str (le_node_type entry),
       ln_current_version_id = None, ln_server_seq = server_seq, ln_deleted_at = None,
       ln_pushed_size_bytes = None, ln_pushed_mtime_nanos = None \<rparr>"

definition push_content :: "env \<Rightarrow> push_ctx \<Rightarrow> path \<Rightarrow> string \<Rightarrow> int \<Rightarrow> nat \<times> int \<Rightarrow> push_state \<Rightarrow> push_state io" where
  "push_content e x p node_id server_seq stat st =
     try_op (today_date_str e) (\<lambda>date.
     match_op (upload_then_submit_new_version e (px_backend x) (px_token x) (px_folder x) node_id server_seq
                 p (px_device x) date)
       (\<lambda>_. try_op (warm_push_cache node_id (fst stat) (snd stat)) (\<lambda>_.
          ret (on_summary (\<lambda>s. s \<lparr> ps_versions := ps_versions s + 1 \<rparr>) st)))
       (\<lambda>err. try_op (propagate_update_required err x) (\<lambda>_.
          ret (on_summary (record_push_error err) st))))"

definition create_entry :: "env \<Rightarrow> push_ctx \<Rightarrow> local_entry \<Rightarrow> push_state \<Rightarrow> push_state io" where
  "create_entry e x entry st =
     try_op (ensure_not_update_required x) (\<lambda>_.
     try_op (new_uuid e) (\<lambda>uuid.
     match_op (push_submit e x (CreateOp
         \<lparr> cp_node_id = uuid, cp_parent_id = le_parent_node_id entry, cp_name = le_name entry,
           cp_node_type = le_node_type entry \<rparr>))
       (\<lambda>response. case response of
           Applied server_seq node_id \<Rightarrow>
             try_op (write_db (upsert_node (new_local_node x entry node_id server_seq))) (\<lambda>_.
             let st1 = on_summary (\<lambda>s. s \<lparr> ps_creates := ps_creates s + 1 \<rparr>) st in
             if le_node_type entry = NFolder then ret (enqueue (le_path entry) node_id st1)
             else with_state (\<lambda>w. case stat_push_signature (w_fs w) (le_path entry) of
                 Inl _ \<Rightarrow> ret (on_summary count_error st1)
               | Inr stat \<Rightarrow> push_content e x (le_path entry) node_id server_seq stat st1))
         | Superseded _ \<Rightarrow> ret (on_summary skip_one st)
         | ConflictCopy _ _ _ \<Rightarrow> ret st
         | Conflict _ _ _ _ \<Rightarrow> ret st)
       (\<lambda>err. try_op (propagate_update_required err x) (\<lambda>_.
          ret (on_summary (record_push_error err) st)))))"

text \<open>The file's bytes are compared with the stored version only when the sizes agree: \<open>Some True\<close>
  unchanged, \<open>Some False\<close> changed, \<open>None\<close> the file could not be read.\<close>

definition compare_content :: "env \<Rightarrow> path \<Rightarrow> local_version option \<Rightarrow> nat \<Rightarrow> bool option io" where
  "compare_content e p stored_version on_disk_size =
     (case stored_version of
        None \<Rightarrow> ret (Some False)
      | Some version \<Rightarrow>
          if lv_size_bytes version = on_disk_size
          then match_op (file_content_hash e p)
                 (\<lambda>h. ret (Some (h = lv_content_hash version)))
                 (\<lambda>_. ret None)
          else ret (Some False))"

definition process_existing_file :: "env \<Rightarrow> push_ctx \<Rightarrow> path \<Rightarrow> local_node \<Rightarrow> push_state \<Rightarrow> push_state io" where
  "process_existing_file e x p node st =
     try_op (ensure_not_update_required x) (\<lambda>_.
     with_state (\<lambda>w. case stat_push_signature (w_fs w) p of
       Inl _ \<Rightarrow> ret (on_summary count_error st)
     | Inr (disk_size, mtime) \<Rightarrow>
        if ln_pushed_size_bytes node = Some disk_size \<and> ln_pushed_mtime_nanos node = Some mtime
        then ret (on_summary skip_one st)
        else
          (let version_id = (case ln_current_version_id node of None \<Rightarrow> [] | Some v \<Rightarrow> v) in
           try_op (compare_content e p (get_version (w_db w) version_id) disk_size) (\<lambda>same. case same of
               None \<Rightarrow> ret (on_summary count_error st)
             | Some True \<Rightarrow>
                 try_op (warm_push_cache (ln_node_id node) disk_size mtime) (\<lambda>_. ret (on_summary skip_one st))
             | Some False \<Rightarrow>
                 push_content e x p (ln_node_id node) (ln_server_seq node) (disk_size, mtime) st))))"

section \<open>The directory walk\<close>

record entry_info =
  ei_path :: path
  ei_name :: string
  ei_is_dir :: bool
  ei_is_file :: bool
  ei_is_symlink :: bool

definition entry_file_name :: "path \<Rightarrow> string option" where
  "entry_file_name p = Option.bind (path_file_name p) to_str"

definition stat_entry :: "fs \<Rightarrow> path \<Rightarrow> entry_info option" where
  "stat_entry fs p = (case entry_file_name p of
      None \<Rightarrow> None
    | Some name \<Rightarrow> (case symlink_metadata fs p of
          Inl _ \<Rightarrow> None
        | Inr n \<Rightarrow> Some \<lparr> ei_path = p, ei_name = name, ei_is_dir = (n = Dir),
              ei_is_file = (case n of File _ _ \<Rightarrow> True | _ \<Rightarrow> False),
              ei_is_symlink = (case n of Symlink _ \<Rightarrow> True | _ \<Rightarrow> False) \<rparr>))"

definition sort_entries :: "entry_info list \<Rightarrow> entry_info list" where
  "sort_entries es = sort_key (\<lambda>i. if ei_is_dir i then 0 else (1::nat)) (sort_key ei_name es)"

definition read_entries :: "fs \<Rightarrow> path list \<Rightarrow> entry_info list \<times> nat" where
  "read_entries fs ps = (let stats = map (stat_entry fs) ps in
     (sort_entries (List.map_filter id stats), length (filter (\<lambda>o'. o' = None) stats)))"

definition local_entry_of :: "entry_info \<Rightarrow> string \<Rightarrow> node_type \<Rightarrow> local_entry" where
  "local_entry_of i parent_node_id t =
     \<lparr> le_path = ei_path i, le_parent_node_id = parent_node_id, le_name = ei_name i, le_node_type = t \<rparr>"

definition move_or_create :: "env \<Rightarrow> push_ctx \<Rightarrow> local_entry \<Rightarrow> push_state \<Rightarrow> push_state io" where
  "move_or_create e x entry st =
     try_op (process_moved_entry e x entry st) (\<lambda>(moved, st1).
       if moved then ret st1 else create_entry e x entry st1)"

definition push_entry :: "env \<Rightarrow> push_ctx \<Rightarrow> string \<Rightarrow> entry_info \<Rightarrow> push_state \<Rightarrow> push_state io" where
  "push_entry e x parent_node_id i st =
     try_op (ensure_not_update_required x) (\<lambda>_.
     if ei_is_symlink i then ret (on_summary skip_one st)
     else with_state (\<lambda>w.
       let mirror_node = get_node_by_parent_and_name (w_db w) (px_folder x) (Some parent_node_id) (ei_name i) in
       if ei_is_file i \<and> mirror_node = None \<and> is_conflict_copy_name (ei_name i)
       then ret (on_summary skip_one st)
       else if ei_is_dir i then
         (case mirror_node of
            Some node \<Rightarrow> ret (enqueue (ei_path i) (ln_node_id node) st)
          | None \<Rightarrow> move_or_create e x (local_entry_of i parent_node_id NFolder) st)
       else if ei_is_file i then
         (case mirror_node of
            Some node \<Rightarrow> process_existing_file e x (ei_path i) node st
          | None \<Rightarrow> move_or_create e x (local_entry_of i parent_node_id NFile) st)
       else ret (on_summary skip_one st)))"

definition push_directory :: "env \<Rightarrow> push_ctx \<Rightarrow> path \<Rightarrow> string \<Rightarrow> push_state \<Rightarrow> push_state io" where
  "push_directory e x dir_path parent_node_id st =
     try_op (ensure_not_update_required x) (\<lambda>_.
     with_state (\<lambda>w. case fs_read_dir (w_fs w) dir_path of
         Inl _ \<Rightarrow> ret (on_summary count_error st)
       | Inr ps \<Rightarrow>
          (case read_entries (w_fs w) ps of (entries, errors) \<Rightarrow>
             for_each entries (push_entry e x parent_node_id)
               (on_summary (\<lambda>s. s \<lparr> ps_errors := ps_errors s + errors \<rparr>) st))))"

primrec push_walk :: "nat \<Rightarrow> env \<Rightarrow> push_ctx \<Rightarrow> push_state \<Rightarrow> push_state io" where
  "push_walk 0 e x st = (if st_queue st = [] then ret st else fail ENoFuel)"
| "push_walk (Suc n) e x st =
     (case st_queue st of
        [] \<Rightarrow> ret st
      | (dir_path, parent_node_id) # queue \<Rightarrow>
          try_op (push_directory e x dir_path parent_node_id (st \<lparr> st_queue := queue \<rparr>)) (push_walk n e x))"

section \<open>Deletes\<close>

definition children_of :: "local_node list \<Rightarrow> string \<Rightarrow> local_node list" where
  "children_of nodes parent_id = filter (\<lambda>n. ln_parent_id n = Some parent_id) nodes"

definition has_local_version :: "mirror \<Rightarrow> string \<Rightarrow> bool" where
  "has_local_version db version_id = (case get_version db version_id of
      None \<Rightarrow> False
    | Some version \<Rightarrow> list_all (\<lambda>c. is_uploaded db (cr_hash c)) (lv_manifest version))"

definition file_is_local :: "mirror \<Rightarrow> local_node \<Rightarrow> bool" where
  "file_is_local db n = (case ln_current_version_id n of None \<Rightarrow> False | Some v \<Rightarrow> has_local_version db v)"

primrec folder_files_walk :: "nat \<Rightarrow> local_node list \<Rightarrow> mirror \<Rightarrow> string list \<Rightarrow> error + bool" where
  "folder_files_walk 0 nodes db queue = (if queue = [] then Inr True else Inl ENoFuel)"
| "folder_files_walk (Suc n) nodes db queue =
     (case queue of
        [] \<Rightarrow> Inr True
      | parent_id # rest \<Rightarrow>
         (let children = children_of nodes parent_id in
          if list_ex (\<lambda>c. ln_node_type c = ''file'' \<and> \<not> file_is_local db c) children then Inr False
          else folder_files_walk n nodes db
            (rest @ map ln_node_id (filter (\<lambda>c. ln_node_type c = ''folder'') children))))"

definition folder_descendant_files_are_local :: "local_node list \<Rightarrow> mirror \<Rightarrow> string \<Rightarrow> error + bool" where
  "folder_descendant_files_are_local nodes db folder_node_id =
     folder_files_walk (Suc (length nodes)) nodes db [folder_node_id]"

record delete_state =
  ds_summary :: push_summary
  ds_paths :: "(string \<times> path) list"
  ds_queue :: "string list"

definition on_delete_summary :: "(push_summary \<Rightarrow> push_summary) \<Rightarrow> delete_state \<Rightarrow> delete_state" where
  "on_delete_summary f ds = ds \<lparr> ds_summary := f (ds_summary ds) \<rparr>"

definition submit_delete :: "env \<Rightarrow> push_ctx \<Rightarrow> local_node \<Rightarrow> delete_state \<Rightarrow> delete_state io" where
  "submit_delete e x node ds =
     match_op (push_submit e x (DeleteOp (ln_node_id node) (ln_server_seq node)))
       (\<lambda>response. case response of
           Applied server_seq _ \<Rightarrow>
             try_op tick (\<lambda>t.
             try_op (write_db (mark_deleted (env_clock e t) (ln_node_id node) server_seq)) (\<lambda>_.
             ret (on_delete_summary (\<lambda>s. s \<lparr> ps_deletes := ps_deletes s + 1 \<rparr>) ds)))
         | _ \<Rightarrow> ret (on_delete_summary skip_one ds))
       (\<lambda>err. try_op (propagate_update_required err x) (\<lambda>_.
          ret (on_delete_summary (record_push_error err) ds)))"

definition should_delete :: "local_node list \<Rightarrow> mirror \<Rightarrow> local_node \<Rightarrow> error + bool" where
  "should_delete nodes db node =
     (if ln_node_type node = ''folder'' then folder_descendant_files_are_local nodes db (ln_node_id node)
      else if ln_node_type node = ''file'' then Inr (file_is_local db node)
      else Inr False)"

definition delete_child :: "env \<Rightarrow> push_ctx \<Rightarrow> string list \<Rightarrow> local_node list \<Rightarrow> string \<Rightarrow> local_node \<Rightarrow> delete_state \<Rightarrow>
    delete_state io" where
  "delete_child e x deferred nodes parent_id node ds =
     try_op (ensure_not_update_required x) (\<lambda>_.
     if ln_node_id node \<in> set deferred then ret ds
     else (case map_of (ds_paths ds) parent_id of
         None \<Rightarrow> fail (EMsg ''panic: no path for a queued node'')
       | Some parent_path \<Rightarrow>
          (let p = path_join parent_path (ln_name node);
               ds1 = ds \<lparr> ds_paths := (ln_node_id node, p) # ds_paths ds,
                          ds_queue := ds_queue ds @ [ln_node_id node] \<rparr> in
           with_state (\<lambda>w.
             if path_exists (w_fs w) p then ret ds1
             else try_op (lift_result (should_delete nodes (w_db w) node)) (\<lambda>delete.
                  if delete then submit_delete e x node ds1 else ret ds1)))))"

primrec delete_walk :: "nat \<Rightarrow> env \<Rightarrow> push_ctx \<Rightarrow> string list \<Rightarrow> local_node list \<Rightarrow> delete_state \<Rightarrow> delete_state io" where
  "delete_walk 0 e x deferred nodes ds = (if ds_queue ds = [] then ret ds else fail ENoFuel)"
| "delete_walk (Suc n) e x deferred nodes ds =
     (case ds_queue ds of
        [] \<Rightarrow> ret ds
      | parent_id # queue \<Rightarrow>
          try_op (for_each (children_of nodes parent_id) (delete_child e x deferred nodes parent_id)
                    (ds \<lparr> ds_queue := queue \<rparr>))
                 (delete_walk n e x deferred nodes))"

definition submit_deletes_for_missing :: "env \<Rightarrow> push_ctx \<Rightarrow> string list \<Rightarrow> push_summary \<Rightarrow> push_summary io" where
  "submit_deletes_for_missing e x deferred summary =
     try_op (ensure_not_update_required x) (\<lambda>_.
     with_state (\<lambda>w.
       let nodes = folder_nodes (w_db w) (px_folder x);
           seed = (case px_scope x of
               Some scope \<Rightarrow> find (\<lambda>n. ln_node_id n = scope) nodes
             | None \<Rightarrow> find (\<lambda>n. ln_parent_id n = None) nodes) in
       case seed of
         None \<Rightarrow> ret summary
       | Some s \<Rightarrow>
           try_op (delete_walk (Suc (length nodes)) e x deferred nodes
               \<lparr> ds_summary = summary, ds_paths = [(ln_node_id s, px_root x)], ds_queue = [ln_node_id s] \<rparr>)
             (\<lambda>ds. ret (ds_summary ds))))"

section \<open>The push\<close>

definition push_local_inner :: "nat \<Rightarrow> env \<Rightarrow> push_ctx \<Rightarrow> push_summary io" where
  "push_local_inner fuel e x =
     try_op (ensure_not_update_required x) (\<lambda>_.
     with_state (\<lambda>w. case get_root_node (w_db w) (px_folder x) of
         None \<Rightarrow> fail (EMsg (''no root node in local mirror for folder '' @ px_folder x @ ''; run 'valv mount' first''))
       | Some root_node \<Rightarrow>
           (let seed_parent_id = (case px_scope x of Some s \<Rightarrow> s | None \<Rightarrow> ln_node_id root_node) in
            try_op (push_walk fuel e x
                \<lparr> st_summary = empty_push_summary, st_queue = [(px_root x, seed_parent_id)], st_deferred = [] \<rparr>) (\<lambda>st.
            submit_deletes_for_missing e x (st_deferred st) (st_summary st)))))"

definition push_local :: "nat \<Rightarrow> env \<Rightarrow> push_ctx \<Rightarrow> push_summary io" where
  "push_local fuel e x = push_local_inner fuel e (x \<lparr> px_has_flag := False \<rparr>)"

definition push_local_with_update_required :: "nat \<Rightarrow> env \<Rightarrow> push_ctx \<Rightarrow> push_summary io" where
  "push_local_with_update_required fuel e x = push_local_inner fuel e (x \<lparr> px_has_flag := True \<rparr>)"

end
