(* ===== verification/Op_Log.thy ===== *)
theory Op_Log
  imports Mirror
begin

text \<open>
  Applying server state to the mirror (\<open>valv-sync/src/persistence/mod.rs\<close>): one op-log entry
  (\<open>apply_op_log_entry\<close>) and a whole tree snapshot (\<open>apply_tree_snapshot\<close>).  \<open>now\<close> is the reading
  of the clock (\<open>Utc::now().to_rfc3339()\<close>).  An entry whose payload does not decode, or of an
  unknown type, is an error; the entries \<open>create\<close> excepted, an entry not newer than the row is
  skipped.
\<close>

section \<open>Payloads\<close>

record log_create_payload =
  lc_parent_id :: string
  lc_name :: string
  lc_node_type :: node_type
  lc_folder_id :: "string option"

record log_new_version_payload =
  lnv_version_id :: string
  lnv_content_hash :: string
  lnv_size_bytes :: nat
  lnv_manifest :: "chunk_ref list"
  lnv_is_conflict_copy :: "bool option"

definition dec_create_payload :: "json \<Rightarrow> log_create_payload option" where
  "dec_create_payload v = (case struct_fields [''parent_id'', ''name'', ''type'', ''folder_id''] 4 v of
       None \<Rightarrow> None
     | Some fs \<Rightarrow> (case (req_field dec_string fs ''parent_id'', req_field dec_string fs ''name'',
                         req_field dec_node_type fs ''type'', opt_field dec_string fs ''folder_id'') of
           (Some p, Some n, Some t, Some f) \<Rightarrow>
             Some \<lparr> lc_parent_id = p, lc_name = n, lc_node_type = t, lc_folder_id = f \<rparr>
         | _ \<Rightarrow> None))"

definition dec_rename_payload :: "json \<Rightarrow> string option" where
  "dec_rename_payload v = (case struct_fields [''new_name''] 1 v of
       None \<Rightarrow> None | Some fs \<Rightarrow> req_field dec_string fs ''new_name'')"

definition dec_move_payload :: "json \<Rightarrow> string option" where
  "dec_move_payload v = (case struct_fields [''new_parent_id''] 1 v of
       None \<Rightarrow> None | Some fs \<Rightarrow> req_field dec_string fs ''new_parent_id'')"

definition dec_new_version_payload :: "json \<Rightarrow> log_new_version_payload option" where
  "dec_new_version_payload v =
     (case struct_fields [''version_id'', ''content_hash'', ''size_bytes'', ''manifest'', ''is_conflict_copy''] 4 v of
       None \<Rightarrow> None
     | Some fs \<Rightarrow> (case (req_field dec_string fs ''version_id'', req_field dec_string fs ''content_hash'',
                         req_field dec_u64 fs ''size_bytes'', req_field (dec_list dec_chunk_ref) fs ''manifest'',
                         opt_field dec_bool fs ''is_conflict_copy'') of
           (Some i, Some h, Some s, Some m, Some c) \<Rightarrow>
             Some \<lparr> lnv_version_id = i, lnv_content_hash = h, lnv_size_bytes = s, lnv_manifest = m,
                    lnv_is_conflict_copy = c \<rparr>
         | _ \<Rightarrow> None))"

definition from_value :: "(json \<Rightarrow> 'a option) \<Rightarrow> json \<Rightarrow> (mirror, 'a) comp" where
  "from_value d v = lift_result (case d v of None \<Rightarrow> Inl EDecode | Some x \<Rightarrow> Inr x)"

section \<open>One entry\<close>

fun node_type_to_str :: "node_type \<Rightarrow> string" where
  "node_type_to_str NFile = ''file''"
| "node_type_to_str NFolder = ''folder''"

definition folder_id_from_parent :: "mirror \<Rightarrow> string \<Rightarrow> string option" where
  "folder_id_from_parent db parent_id = map_option ln_folder_id (find_row ln_node_id parent_id (db_nodes db))"

definition apply_create :: "op_log_entry \<Rightarrow> (mirror, unit) comp" where
  "apply_create entry =
     try_op (from_value dec_create_payload (op_payload entry)) (\<lambda>payload.
     try_op (case lc_folder_id payload of
         Some folder_id \<Rightarrow> ret folder_id
       | None \<Rightarrow> with_state (\<lambda>db. case folder_id_from_parent db (lc_parent_id payload) of
             Some folder_id \<Rightarrow> ret folder_id
           | None \<Rightarrow> fail (EMsg (''create op `'' @ op_node_id entry @ ''` is missing folder_id and parent `''
                @ lc_parent_id payload @ ''` is not in the local mirror''))))
     (\<lambda>folder_id. writes (upsert_node
       \<lparr> ln_node_id = op_node_id entry, ln_folder_id = folder_id,
         ln_parent_id = Some (lc_parent_id payload), ln_name = lc_name payload,
         ln_node_type = node_type_to_str (lc_node_type payload), ln_current_version_id = None,
         ln_server_seq = op_server_seq entry, ln_deleted_at = None,
         ln_pushed_size_bytes = None, ln_pushed_mtime_nanos = None \<rparr>)))"

definition apply_new_version :: "op_log_entry \<Rightarrow> (mirror, unit) comp" where
  "apply_new_version entry =
     try_op (from_value dec_new_version_payload (op_payload entry)) (\<lambda>payload.
     with_state (\<lambda>db. case get_node db (op_node_id entry) of
       None \<Rightarrow> fail (EMsg (''new_version op references unknown node `'' @ op_node_id entry @ ''`''))
     | Some node \<Rightarrow>
        try_op (upsert_version
          \<lparr> lv_version_id = lnv_version_id payload, lv_node_id = op_node_id entry,
            lv_folder_id = ln_folder_id node, lv_content_hash = lnv_content_hash payload,
            lv_size_bytes = lnv_size_bytes payload, lv_manifest = lnv_manifest payload \<rparr>)
        (\<lambda>_. if lnv_is_conflict_copy payload \<noteq> Some True
             then writes (update_node (op_node_id entry)
                (\<lambda>n. n \<lparr> ln_current_version_id := Some (lnv_version_id payload),
                         ln_server_seq := op_server_seq entry \<rparr>))
             else writes (update_node (op_node_id entry)
                (\<lambda>n. n \<lparr> ln_server_seq := op_server_seq entry \<rparr>)))))"

definition apply_rename :: "op_log_entry \<Rightarrow> (mirror, unit) comp" where
  "apply_rename entry =
     try_op (from_value dec_rename_payload (op_payload entry)) (\<lambda>new_name.
       writes (update_node (op_node_id entry)
         (\<lambda>n. n \<lparr> ln_name := new_name, ln_server_seq := op_server_seq entry \<rparr>)))"

definition apply_move :: "op_log_entry \<Rightarrow> (mirror, unit) comp" where
  "apply_move entry =
     try_op (from_value dec_move_payload (op_payload entry)) (\<lambda>new_parent_id.
       writes (update_node (op_node_id entry)
         (\<lambda>n. n \<lparr> ln_parent_id := Some new_parent_id, ln_server_seq := op_server_seq entry \<rparr>)))"

definition apply_delete :: "string \<Rightarrow> op_log_entry \<Rightarrow> (mirror, unit) comp" where
  "apply_delete now entry =
     writes (update_node (op_node_id entry)
       (\<lambda>n. n \<lparr> ln_deleted_at := Some now, ln_server_seq := op_server_seq entry \<rparr>))"

definition is_stale :: "mirror \<Rightarrow> op_log_entry \<Rightarrow> bool" where
  "is_stale db entry = (op_type entry \<noteq> ''create'' \<and>
     (case get_node db (op_node_id entry) of None \<Rightarrow> False | Some node \<Rightarrow> op_server_seq entry \<le> ln_server_seq node))"

definition apply_op_log_entry :: "string \<Rightarrow> op_log_entry \<Rightarrow> (mirror, local_node option) comp" where
  "apply_op_log_entry now entry = with_state (\<lambda>db.
     let pre_op = get_node db (op_node_id entry) in
     if is_stale db entry then ret pre_op
     else try_op
       (if op_type entry = ''create'' then apply_create entry
        else if op_type entry = ''rename'' then apply_rename entry
        else if op_type entry = ''move'' then apply_move entry
        else if op_type entry = ''delete'' then apply_delete now entry
        else if op_type entry = ''new_version'' then apply_new_version entry
        else fail (EUpdateRequired (unrecognized_op_type (op_type entry))))
       (\<lambda>_. ret pre_op))"

section \<open>A tree snapshot\<close>

definition snapshot_node :: "string \<Rightarrow> node_snapshot \<Rightarrow> local_node" where
  "snapshot_node folder_id node =
     \<lparr> ln_node_id = ns_node_id node, ln_folder_id = folder_id, ln_parent_id = ns_parent_id node,
       ln_name = ns_name node, ln_node_type = node_type_to_str (ns_node_type node),
       ln_current_version_id = ns_current_version_id node, ln_server_seq = ns_server_seq node,
       ln_deleted_at = ns_deleted_at node, ln_pushed_size_bytes = None, ln_pushed_mtime_nanos = None \<rparr>"

definition insert_snapshot_node :: "string \<Rightarrow> node_snapshot \<Rightarrow> mirror \<Rightarrow> mirror" where
  "insert_snapshot_node folder_id node = upsert_node (snapshot_node folder_id node)"

definition apply_tree_snapshot :: "string \<Rightarrow> folder_tree_response \<Rightarrow> mirror \<Rightarrow> mirror" where
  "apply_tree_snapshot folder_id resp db =
     set_cursor folder_id (ft_up_to_seq resp)
       (fold (insert_snapshot_node folder_id) (ft_nodes resp)
         (clear_folder_nodes folder_id (clear_folder_versions folder_id db)))"

section \<open>The effect of one entry\<close>

lemma node_type_to_str_valid [simp]: "valid_node_type (node_type_to_str t)"
  by (cases t) (simp_all add: valid_node_type_def)

definition row_update :: "op_log_entry \<Rightarrow> (local_node \<Rightarrow> local_node) \<Rightarrow> bool" where
  "row_update e f = (\<forall>n. ln_node_id (f n) = ln_node_id n \<and> ln_node_type (f n) = ln_node_type n \<and>
     ln_folder_id (f n) = ln_folder_id n \<and> ln_server_seq (f n) = op_server_seq e \<and>
     plain_node (f n) = f (plain_node n))"

definition created_row :: "op_log_entry \<Rightarrow> local_node \<Rightarrow> bool" where
  "created_row e n = (ln_node_id n = op_node_id e \<and> valid_node_type (ln_node_type n) \<and>
     ln_server_seq n = op_server_seq e \<and> plain_node n = n)"

lemma from_value_run: "from_value d v db = ((case d v of None \<Rightarrow> Inl EDecode | Some x \<Rightarrow> Inr x), db)"
  by (simp add: from_value_def lift_result_def)

text \<open>Every entry leaves the mirror alone, upserts the created row, or updates the row it names,
  a new version after recording the version.\<close>

definition logged_node :: "op_log_entry \<Rightarrow> log_create_payload \<Rightarrow> string \<Rightarrow> local_node" where
  "logged_node e p folder_id =
     \<lparr> ln_node_id = op_node_id e, ln_folder_id = folder_id, ln_parent_id = Some (lc_parent_id p),
       ln_name = lc_name p, ln_node_type = node_type_to_str (lc_node_type p),
       ln_current_version_id = None, ln_server_seq = op_server_seq e, ln_deleted_at = None,
       ln_pushed_size_bytes = None, ln_pushed_mtime_nanos = None \<rparr>"

definition create_folder :: "mirror \<Rightarrow> log_create_payload \<Rightarrow> string option" where
  "create_folder db p = (case lc_folder_id p of
     Some f \<Rightarrow> Some f | None \<Rightarrow> folder_id_from_parent db (lc_parent_id p))"

lemma created_row_logged [simp]: "created_row e (logged_node e p f)"
  by (simp add: created_row_def logged_node_def plain_node_def)

lemma apply_create_eq: "apply_create e db = (case dec_create_payload (op_payload e) of
     None \<Rightarrow> (Inl EDecode, db)
   | Some p \<Rightarrow> (case create_folder db p of
       None \<Rightarrow> (Inl (EMsg (''create op `'' @ op_node_id e @ ''` is missing folder_id and parent `''
                @ lc_parent_id p @ ''` is not in the local mirror'')), db)
     | Some f \<Rightarrow> (Inr (), upsert_node (logged_node e p f) db)))"
  by (simp add: apply_create_def from_value_run run_simps create_folder_def logged_node_def split: option.split)

lemma apply_create_run:
  assumes "apply_create e db = (r, db')"
  shows "(db' = db \<and> isl r) \<or> (\<exists>n. created_row e n \<and> db' = upsert_node n db \<and> \<not> isl r)"
proof (cases "isl r")
  case True
  then show ?thesis using assms unfolding apply_create_eq by (auto split: option.splits)
next
  case False
  then obtain p f where "db' = upsert_node (logged_node e p f) db"
    using assms unfolding apply_create_eq by (auto split: option.splits)
  then show ?thesis using False created_row_logged by blast
qed

lemma row_updates [simp]:
  "row_update e (\<lambda>n. n \<lparr> ln_name := x, ln_server_seq := op_server_seq e \<rparr>)"
  "row_update e (\<lambda>n. n \<lparr> ln_parent_id := y, ln_server_seq := op_server_seq e \<rparr>)"
  "row_update e (\<lambda>n. n \<lparr> ln_deleted_at := y, ln_server_seq := op_server_seq e \<rparr>)"
  "row_update e (\<lambda>n. n \<lparr> ln_current_version_id := y, ln_server_seq := op_server_seq e \<rparr>)"
  "row_update e (\<lambda>n. n \<lparr> ln_server_seq := op_server_seq e \<rparr>)"
  by (simp_all add: row_update_def plain_node_def)

lemma apply_rename_eq: "apply_rename e db = (case dec_rename_payload (op_payload e) of
    None \<Rightarrow> (Inl EDecode, db)
  | Some x \<Rightarrow> (Inr (), update_node (op_node_id e) (\<lambda>n. n \<lparr> ln_name := x, ln_server_seq := op_server_seq e \<rparr>) db))"
  by (simp add: apply_rename_def from_value_run run_simps split: option.split)

lemma apply_move_eq: "apply_move e db = (case dec_move_payload (op_payload e) of
    None \<Rightarrow> (Inl EDecode, db)
  | Some x \<Rightarrow> (Inr (), update_node (op_node_id e) (\<lambda>n. n \<lparr> ln_parent_id := Some x, ln_server_seq := op_server_seq e \<rparr>) db))"
  by (simp add: apply_move_def from_value_run run_simps split: option.split)

lemma apply_delete_eq: "apply_delete now e db =
    (Inr (), update_node (op_node_id e) (\<lambda>n. n \<lparr> ln_deleted_at := Some now, ln_server_seq := op_server_seq e \<rparr>) db)"
  by (simp add: apply_delete_def run_simps)

definition version_bump :: "op_log_entry \<Rightarrow> log_new_version_payload \<Rightarrow> local_node \<Rightarrow> local_node" where
  "version_bump e p = (if lnv_is_conflict_copy p \<noteq> Some True
      then (\<lambda>n. n \<lparr> ln_current_version_id := Some (lnv_version_id p), ln_server_seq := op_server_seq e \<rparr>)
      else (\<lambda>n. n \<lparr> ln_server_seq := op_server_seq e \<rparr>))"

definition logged_version :: "op_log_entry \<Rightarrow> log_new_version_payload \<Rightarrow> local_node \<Rightarrow> version_row" where
  "logged_version e p n = \<lparr> vr_version =
      \<lparr> lv_version_id = lnv_version_id p, lv_node_id = op_node_id e, lv_folder_id = ln_folder_id n,
        lv_content_hash = lnv_content_hash p, lv_size_bytes = lnv_size_bytes p, lv_manifest = lnv_manifest p \<rparr>,
      vr_materialized_at = None \<rparr>"

lemma row_update_bump [simp]: "row_update e (version_bump e p)"
  by (simp add: version_bump_def)

lemma apply_new_version_eq: "apply_new_version e db =
   (case dec_new_version_payload (op_payload e) of None \<Rightarrow> (Inl EDecode, db)
    | Some p \<Rightarrow> (case get_node db (op_node_id e) of
        None \<Rightarrow> (Inl (EMsg (''new_version op references unknown node `'' @ op_node_id e @ ''`'')), db)
      | Some n \<Rightarrow> if lnv_size_bytes p < 2 ^ 63
          then (Inr (), update_node (op_node_id e) (version_bump e p) (upsert_version_row (logged_version e p n) db))
          else (Inl (EDb ''integer out of range''), db)))"
  by (simp add: apply_new_version_def from_value_run run_simps upsert_version_def version_bump_def
      logged_version_def split: option.split)

lemma apply_new_version_run:
  assumes "apply_new_version e db = (r, db')"
  shows "(db' = db \<and> isl r) \<or>
    (\<exists>v f. row_update e f \<and> db' = update_node (op_node_id e) f (upsert_version_row v db) \<and> \<not> isl r)"
proof (cases "isl r")
  case True
  then show ?thesis using assms unfolding apply_new_version_eq by (auto split: option.splits if_splits)
next
  case False
  then obtain p n where "db' = update_node (op_node_id e) (version_bump e p)
      (upsert_version_row (logged_version e p n) db)"
    using assms unfolding apply_new_version_eq by (auto split: option.splits if_splits)
  then show ?thesis using False row_update_bump by blast
qed

lemma apply_update_run:
  assumes "apply_rename e db = (r, db') \<or> apply_move e db = (r, db') \<or> apply_delete now e db = (r, db')"
  shows "(db' = db \<and> isl r) \<or> (\<exists>f. row_update e f \<and> db' = update_node (op_node_id e) f db \<and> \<not> isl r)"
proof -
  consider (r) "apply_rename e db = (r, db')" | (m) "apply_move e db = (r, db')"
    | (d) "apply_delete now e db = (r, db')" using assms by blast
  then show ?thesis
  proof cases
    case r
    then show ?thesis unfolding apply_rename_eq using row_updates(1) by (force split: option.splits)
  next
    case m
    then show ?thesis unfolding apply_move_eq using row_updates(2) by (force split: option.splits)
  next
    case d
    then show ?thesis unfolding apply_delete_eq using row_updates(3) by force
  qed
qed

lemma apply_op_log_entry_effect:
  assumes "apply_op_log_entry now e db = (r, db')"
  obtains (unchanged) "db' = db"
    | (created) n where "op_type e = ''create''" "created_row e n" "db' = upsert_node n db"
    | (updated) f v where "op_type e \<noteq> ''create''" "\<not> is_stale db e" "row_update e f"
        "db' = update_node (op_node_id e) f db \<or> db' = update_node (op_node_id e) f (upsert_version_row v db)"
proof (cases "is_stale db e")
  case True
  then show ?thesis using assms unchanged by (simp add: apply_op_log_entry_def run_simps)
next
  case False
  define m where "m = (if op_type e = ''create'' then apply_create e
        else if op_type e = ''rename'' then apply_rename e
        else if op_type e = ''move'' then apply_move e
        else if op_type e = ''delete'' then apply_delete now e
        else if op_type e = ''new_version'' then apply_new_version e
        else fail (EUpdateRequired (unrecognized_op_type (op_type e))))"
  have "snd (m db) = db'"
    using assms False unfolding m_def [symmetric] apply_op_log_entry_def
    by (auto simp: run_simps m_def [symmetric] split: prod.splits sum.splits)
  then obtain r' where m: "m db = (r', db')" by (metis prod.collapse)
  consider (c) "op_type e = ''create''" | (u) "op_type e \<in> {''rename'', ''move'', ''delete''}"
    | (v) "op_type e = ''new_version''"
    | (x) "op_type e \<notin> {''create'', ''rename'', ''move'', ''delete'', ''new_version''}" by auto
  then show ?thesis
  proof cases
    case c
    then have "apply_create e db = (r', db')" using m by (simp add: m_def)
    from apply_create_run [OF this] show ?thesis using c unchanged created by blast
  next
    case u
    then have "apply_rename e db = (r', db') \<or> apply_move e db = (r', db') \<or> apply_delete now e db = (r', db')"
      and "op_type e \<noteq> ''create''" using m by (auto simp: m_def)
    then show ?thesis using apply_update_run [of e db r' db' now] unchanged updated False by blast
  next
    case v
    then have "apply_new_version e db = (r', db')" "op_type e \<noteq> ''create''" using m by (auto simp: m_def)
    then show ?thesis using apply_new_version_run [of e db r' db'] unchanged updated False by blast
  next
    case x
    then have "db' = db" using m by (simp add: m_def fail_def)
    then show ?thesis by (rule unchanged)
  qed
qed

lemma row_updateD:
  assumes "row_update e f"
  shows "ln_node_id (f n) = ln_node_id n" "ln_node_type (f n) = ln_node_type n"
    "ln_folder_id (f n) = ln_folder_id n" "ln_server_seq (f n) = op_server_seq e"
    "plain_node (f n) = f (plain_node n)"
  using assms by (simp_all add: row_update_def)

lemma get_node_upsert_version [simp]: "get_node (upsert_version_row v db) = get_node db"
  by (rule get_node_cong) simp

lemma get_node_row_update:
  "row_update e f \<Longrightarrow> get_node (update_node i f db) k = (if k = i then map_option f (get_node db k) else get_node db k)"
  by (rule get_node_update_node) (rule row_updateD)

lemma upsert_node_twice: "upsert_node n (upsert_node n db) = upsert_node n db"
proof -
  have "upsert_row ln_node_id merge_node (plain_node n) (upsert_row ln_node_id merge_node (plain_node n) rows)
      = upsert_row ln_node_id merge_node (plain_node n) rows" for rows
    by (rule upsert_row_twice) (auto simp: merge_node_def plain_node_def)
  then show ?thesis by (simp add: upsert_node_plain)
qed

lemma apply_stale: "is_stale db e \<Longrightarrow> apply_op_log_entry now e db = (Inr (get_node db (op_node_id e)), db)"
  by (simp add: apply_op_log_entry_def run_simps)

text \<open>For a known node the entry alone decides the outcome: an error, or the change of the row.\<close>

definition entry_row :: "string \<Rightarrow> op_log_entry \<Rightarrow> error + (local_node \<Rightarrow> local_node)" where
  "entry_row now e =
    (if op_type e = ''rename'' then (case dec_rename_payload (op_payload e) of None \<Rightarrow> Inl EDecode
       | Some x \<Rightarrow> Inr (\<lambda>n. n \<lparr> ln_name := x, ln_server_seq := op_server_seq e \<rparr>))
     else if op_type e = ''move'' then (case dec_move_payload (op_payload e) of None \<Rightarrow> Inl EDecode
       | Some x \<Rightarrow> Inr (\<lambda>n. n \<lparr> ln_parent_id := Some x, ln_server_seq := op_server_seq e \<rparr>))
     else if op_type e = ''delete'' then
       Inr (\<lambda>n. n \<lparr> ln_deleted_at := Some now, ln_server_seq := op_server_seq e \<rparr>)
     else if op_type e = ''new_version'' then (case dec_new_version_payload (op_payload e) of None \<Rightarrow> Inl EDecode
       | Some p \<Rightarrow> if lnv_size_bytes p < 2 ^ 63 then Inr (version_bump e p) else Inl (EDb ''integer out of range''))
     else Inl (EUpdateRequired (unrecognized_op_type (op_type e))))"

lemma entry_row_update: "entry_row now e = Inr f \<Longrightarrow> row_update e f"
  by (auto simp: entry_row_def split: if_splits option.splits)

lemma apply_known:
  assumes "op_type e \<noteq> ''create''" "get_node db (op_node_id e) = Some n" "ln_server_seq n < op_server_seq e"
  shows "entry_row now e = Inl err \<Longrightarrow> apply_op_log_entry now e db = (Inl err, db)"
    and "entry_row now e = Inr f \<Longrightarrow> \<exists>db'. apply_op_log_entry now e db = (Inr (Some n), db') \<and>
      get_node db' (op_node_id e) = Some (f n)"
proof -
  have fresh: "\<not> is_stale db e" using assms by (simp add: is_stale_def)
  show "entry_row now e = Inl err \<Longrightarrow> apply_op_log_entry now e db = (Inl err, db)"
    using fresh assms(1,2) unfolding entry_row_def
    by (auto simp: apply_op_log_entry_def run_simps apply_rename_eq apply_move_eq apply_new_version_eq
        split: if_splits option.splits)
  assume f: "entry_row now e = Inr f"
  then have "\<exists>v. apply_op_log_entry now e db = (Inr (Some n), update_node (op_node_id e) f db) \<or>
      apply_op_log_entry now e db = (Inr (Some n), update_node (op_node_id e) f (upsert_version_row v db))"
    using fresh assms(1,2) unfolding entry_row_def
    by (auto simp: apply_op_log_entry_def run_simps apply_rename_eq apply_move_eq apply_delete_eq
        apply_new_version_eq split: if_splits option.splits)
  then show "\<exists>db'. apply_op_log_entry now e db = (Inr (Some n), db') \<and> get_node db' (op_node_id e) = Some (f n)"
    using get_node_row_update [OF entry_row_update [OF f]] assms(2) by fastforce
qed

lemma apply_unknown:
  assumes "op_type e \<noteq> ''create''" "get_node db (op_node_id e) = None"
  shows "\<exists>r. (\<forall>now. apply_op_log_entry now e db = (r, db)) \<and> (isl r \<or> r = Inr None)"
proof -
  have "update_rows (\<lambda>n. ln_node_id n = op_node_id e) f (db_nodes db) = db_nodes db" for f
    by (rule update_rows_fixed) (use assms(2) in \<open>auto simp: get_node_def find_row_None image_iff\<close>)
  then have upd: "update_node (op_node_id e) f db = db" for f by (simp add: update_node_def)
  have fresh: "\<not> is_stale db e" using assms by (simp add: is_stale_def)
  consider "op_type e = ''rename''" | "op_type e = ''move''" | "op_type e = ''delete''" | "op_type e = ''new_version''"
    | "op_type e \<notin> {''create'', ''rename'', ''move'', ''delete'', ''new_version''}" using assms(1) by auto
  then show ?thesis
    using fresh assms
    by cases (auto simp: apply_op_log_entry_def run_simps apply_rename_eq apply_move_eq apply_delete_eq
        apply_new_version_eq upd split: option.split)
qed

lemma apply_create_run_fresh:
  assumes "op_type e = ''create''" "apply_op_log_entry now e db = (Inr p, db')"
  obtains q f where "dec_create_payload (op_payload e) = Some q" "create_folder db q = Some f"
    "db' = upsert_node (logged_node e q f) db" "p = get_node db (op_node_id e)"
  using assms by (auto simp: apply_op_log_entry_def is_stale_def run_simps apply_create_eq split: option.splits)

lemma create_folder_after:
  assumes "create_folder db q = Some f"
  shows "create_folder (upsert_node (logged_node e q f) db) q = Some f"
proof (cases "lc_folder_id q")
  case None
  have id: "ln_node_id (logged_node e q f) = op_node_id e" "ln_folder_id (logged_node e q f) = f"
    by (simp_all add: logged_node_def)
  from None have "map_option ln_folder_id (get_node db (lc_parent_id q)) = Some f"
    using assms by (simp add: create_folder_def folder_id_from_parent_def get_node_def)
  then have "map_option ln_folder_id (get_node (upsert_node (logged_node e q f) db) (lc_parent_id q)) = Some f"
    using id by (auto simp: node_table.lookup_upsert merge_node_def split: option.splits)
  then show ?thesis using None by (simp add: create_folder_def folder_id_from_parent_def get_node_def)
qed (use assms in \<open>simp add: create_folder_def\<close>)

lemma apply_op_log_entry_keeps_wf:
  assumes "mirror_wf db"
  shows "mirror_wf (snd (apply_op_log_entry now e db))"
proof -
  obtain r db' where run: "apply_op_log_entry now e db = (r, db')" by fastforce
  from run show ?thesis
  proof (cases rule: apply_op_log_entry_effect)
    case (created n)
    then show ?thesis using assms run by (auto simp: created_row_def)
  next
    case (updated f v)
    have "mirror_wf (update_node (op_node_id e) f db)"
      "mirror_wf (update_node (op_node_id e) f (upsert_version_row v db))"
      using assms updated(3) by (auto dest: row_updateD)
    then show ?thesis using updated(4) run by auto
  qed (use assms run in simp)
qed

section \<open>Properties of entry application\<close>

text \<open>What an entry means, on the rows as maps from ids: the payload is read once into one of five
  operations, and each operation is one map update.\<close>

datatype log_op = LCreate log_create_payload | LRename string | LMove string | LDelete
  | LNewVersion log_new_version_payload

definition read_op :: "op_log_entry \<Rightarrow> log_op option" where
  "read_op e =
    (if op_type e = ''create'' then map_option LCreate (dec_create_payload (op_payload e))
     else if op_type e = ''rename'' then map_option LRename (dec_rename_payload (op_payload e))
     else if op_type e = ''move'' then map_option LMove (dec_move_payload (op_payload e))
     else if op_type e = ''delete'' then Some LDelete
     else if op_type e = ''new_version'' then map_option LNewVersion (dec_new_version_payload (op_payload e))
     else None)"

type_synonym row_maps = "(string \<Rightarrow> local_node option) \<times> (string \<Rightarrow> local_version option)"

fun pushed_cache :: "local_node option \<Rightarrow> nat option \<times> int option" where
  "pushed_cache None = (None, None)"
| "pushed_cache (Some n) = (ln_pushed_size_bytes n, ln_pushed_mtime_nanos n)"

fun op_effect :: "string \<Rightarrow> string \<Rightarrow> int \<Rightarrow> log_op \<Rightarrow> row_maps \<Rightarrow> row_maps option" where
  "op_effect now i seq (LCreate p) (N, V) =
     map_option (\<lambda>folder. (N(i \<mapsto> \<lparr> ln_node_id = i, ln_folder_id = folder, ln_parent_id = Some (lc_parent_id p),
         ln_name = lc_name p, ln_node_type = node_type_to_str (lc_node_type p), ln_current_version_id = None,
         ln_server_seq = seq, ln_deleted_at = None,
         ln_pushed_size_bytes = fst (pushed_cache (N i)), ln_pushed_mtime_nanos = snd (pushed_cache (N i)) \<rparr>), V))
       (if lc_folder_id p = None then map_option ln_folder_id (N (lc_parent_id p)) else lc_folder_id p)"
| "op_effect now i seq (LRename x) (N, V) =
     Some (N(i := map_option (\<lambda>n. n \<lparr> ln_name := x, ln_server_seq := seq \<rparr>) (N i)), V)"
| "op_effect now i seq (LMove x) (N, V) =
     Some (N(i := map_option (\<lambda>n. n \<lparr> ln_parent_id := Some x, ln_server_seq := seq \<rparr>) (N i)), V)"
| "op_effect now i seq LDelete (N, V) =
     Some (N(i := map_option (\<lambda>n. n \<lparr> ln_deleted_at := Some now, ln_server_seq := seq \<rparr>) (N i)), V)"
| "op_effect now i seq (LNewVersion p) (N, V) =
     (case N i of None \<Rightarrow> None
      | Some n \<Rightarrow> if 2 ^ 63 \<le> lnv_size_bytes p then None
          else Some (N(i \<mapsto> n \<lparr> ln_current_version_id :=
                 (if lnv_is_conflict_copy p = Some True then ln_current_version_id n else Some (lnv_version_id p)),
                 ln_server_seq := seq \<rparr>),
               V(lnv_version_id p \<mapsto> \<lparr> lv_version_id = lnv_version_id p, lv_node_id = i,
                 lv_folder_id = ln_folder_id n, lv_content_hash = lnv_content_hash p,
                 lv_size_bytes = lnv_size_bytes p, lv_manifest = lnv_manifest p \<rparr>)))"

text \<open>An entry not newer than its row, a creation excepted, is skipped whatever it holds; any other is
  read and takes effect, or is refused (\<open>None\<close>).\<close>

definition skipped :: "op_log_entry \<Rightarrow> row_maps \<Rightarrow> bool" where
  "skipped e M = (op_type e \<noteq> ''create'' \<and>
     (case fst M (op_node_id e) of None \<Rightarrow> False | Some n \<Rightarrow> op_server_seq e \<le> ln_server_seq n))"

definition entry_meaning :: "string \<Rightarrow> op_log_entry \<Rightarrow> row_maps \<Rightarrow> row_maps option" where
  "entry_meaning now e M =
    (if skipped e M then Some M
     else Option.bind (read_op e) (\<lambda>opn. op_effect now (op_node_id e) (op_server_seq e) opn M))"

definition row_maps_of :: "mirror \<Rightarrow> row_maps" where
  "row_maps_of db = (get_node db, get_version db)"

lemma get_version_other [simp]:
  "get_version (upsert_node n db) = get_version db" "get_version (update_node i f db) = get_version db"
  by (rule ext, simp add: get_version_def get_version_row_def)+

lemma get_node_map_update:
  assumes "row_update e f"
  shows "get_node (update_node i f db) = (get_node db)(i := map_option f (get_node db i))"
  by (rule ext) (simp add: get_node_row_update [OF assms])

lemma get_node_map_created:
  "get_node (upsert_node (logged_node e p f) db) = (get_node db)(op_node_id e \<mapsto>
     \<lparr> ln_node_id = op_node_id e, ln_folder_id = f, ln_parent_id = Some (lc_parent_id p), ln_name = lc_name p,
       ln_node_type = node_type_to_str (lc_node_type p), ln_current_version_id = None,
       ln_server_seq = op_server_seq e, ln_deleted_at = None,
       ln_pushed_size_bytes = fst (pushed_cache (get_node db (op_node_id e))),
       ln_pushed_mtime_nanos = snd (pushed_cache (get_node db (op_node_id e))) \<rparr>)"
  (is "_ = (get_node db)(_ \<mapsto> ?row)")
proof (rule ext)
  fix k
  have id: "ln_node_id (logged_node e p f) = op_node_id e" by (simp add: logged_node_def)
  have own: "(case get_node db (op_node_id e) of None \<Rightarrow> plain_node (logged_node e p f)
      | Some old \<Rightarrow> merge_node old (logged_node e p f)) = ?row"
    by (cases "get_node db (op_node_id e)") (simp_all add: plain_node_def merge_node_def logged_node_def)
  show "get_node (upsert_node (logged_node e p f) db) k = ((get_node db)(op_node_id e \<mapsto> ?row)) k"
  proof (cases "k = op_node_id e")
    case True
    then show ?thesis using get_node_upsert_same [of "logged_node e p f" db] own unfolding id by simp
  next
    case False
    then show ?thesis using id by (simp add: table_simps)
  qed
qed

lemma get_version_map_logged:
  "get_version (update_node i f (upsert_version_row (logged_version e p n) db)) =
     (get_version db)(lnv_version_id p \<mapsto> vr_version (logged_version e p n))"
proof (rule ext)
  fix k
  have "vr_id (logged_version e p n) = lnv_version_id p" by (simp add: vr_id_def logged_version_def)
  then show "get_version (update_node i f (upsert_version_row (logged_version e p n) db)) k =
      ((get_version db)(lnv_version_id p \<mapsto> vr_version (logged_version e p n))) k"
    by (simp add: get_version_upsert)
qed

lemma skipped_stale: "skipped e (row_maps_of db) = is_stale db e"
  by (simp add: skipped_def is_stale_def row_maps_of_def)

lemma created_meaning:
  fixes e :: op_log_entry
  shows
  "op_effect now (op_node_id e) (op_server_seq e) (LCreate p) (row_maps_of db) =
     map_option (\<lambda>f. row_maps_of (upsert_node (logged_node e p f) db)) (create_folder db p)"
  by (cases "lc_folder_id p"; cases "get_node db (lc_parent_id p)")
    (simp_all add: row_maps_of_def create_folder_def folder_id_from_parent_def get_node_def [symmetric]
      get_node_map_created)

lemma updated_meaning:
  fixes e :: op_log_entry
  shows
  "op_effect now (op_node_id e) (op_server_seq e) (LRename x) (row_maps_of db) = Some (row_maps_of
     (update_node (op_node_id e) (\<lambda>n. n \<lparr> ln_name := x, ln_server_seq := op_server_seq e \<rparr>) db))"
  "op_effect now (op_node_id e) (op_server_seq e) (LMove x) (row_maps_of db) = Some (row_maps_of
     (update_node (op_node_id e) (\<lambda>n. n \<lparr> ln_parent_id := Some x, ln_server_seq := op_server_seq e \<rparr>) db))"
  "op_effect now (op_node_id e) (op_server_seq e) LDelete (row_maps_of db) = Some (row_maps_of
     (update_node (op_node_id e) (\<lambda>n. n \<lparr> ln_deleted_at := Some now, ln_server_seq := op_server_seq e \<rparr>) db))"
  by (simp_all add: row_maps_of_def get_node_map_update [where e = e])

lemma versioned_meaning:
  fixes e :: op_log_entry
  shows
  "op_effect now (op_node_id e) (op_server_seq e) (LNewVersion p) (row_maps_of db) =
     (case get_node db (op_node_id e) of None \<Rightarrow> None
      | Some n \<Rightarrow> if lnv_size_bytes p < 2 ^ 63 then
          Some (row_maps_of (update_node (op_node_id e) (version_bump e p) (upsert_version_row (logged_version e p n) db)))
        else None)"
proof (cases "get_node db (op_node_id e)")
  case (Some n)
  have "get_node (update_node (op_node_id e) (version_bump e p) (upsert_version_row (logged_version e p n) db)) =
      (get_node db)(op_node_id e \<mapsto> version_bump e p n)"
    using get_node_map_update [OF row_update_bump [of e p], of "op_node_id e" "upsert_version_row (logged_version e p n) db"] Some
    by simp
  moreover have "version_bump e p n = n \<lparr> ln_current_version_id :=
      (if lnv_is_conflict_copy p = Some True then ln_current_version_id n else Some (lnv_version_id p)),
      ln_server_seq := op_server_seq e \<rparr>"
    by (simp add: version_bump_def)
  ultimately show ?thesis using Some
    by (simp add: row_maps_of_def get_version_map_logged del: get_version_other) (simp add: logged_version_def)
qed (simp add: row_maps_of_def)

text \<open>C27: applying an op-log entry to the mirror's tables is what the entry means on its rows: read as
  maps from ids, the node and version tables after it are \<open>entry_meaning\<close> of those before (an entry not
  newer than its row skipped, a creation placing the row in its parent's folder when it names none,
  a rename, move, deletion or new version changing just its part of the row and the row's number,
  the local push cache kept), and an entry that is refused fails and leaves the mirror as it is.  It
  asks for an update of the program exactly when it is not skipped and of an unknown type; mounts
  and uploaded chunks never change.\<close>

theorem apply_op_log_entry_refines:
  "(case apply_op_log_entry now e db of (r, db') \<Rightarrow>
     (case entry_meaning now e (row_maps_of db) of
        None \<Rightarrow> isl r \<and> db' = db
      | Some M \<Rightarrow> r = Inr (get_node db (op_node_id e)) \<and> row_maps_of db' = M) \<and>
     ((\<exists>msg. r = Inl (EUpdateRequired msg)) \<longleftrightarrow> \<not> skipped e (row_maps_of db) \<and>
        op_type e \<notin> {''create'', ''rename'', ''move'', ''delete'', ''new_version''}) \<and>
     db_mounts db' = db_mounts db \<and> db_chunks db' = db_chunks db)"
proof (cases "is_stale db e")
  case True
  then show ?thesis by (simp add: apply_stale entry_meaning_def skipped_stale)
next
  case False
  note fresh = skipped_stale False entry_meaning_def read_op_def apply_op_log_entry_def run_simps
  consider (c) "op_type e = ''create''" | (r) "op_type e = ''rename''" | (m) "op_type e = ''move''"
    | (d) "op_type e = ''delete''" | (v) "op_type e = ''new_version''"
    | (x) "op_type e \<notin> {''create'', ''rename'', ''move'', ''delete'', ''new_version''}" by auto
  then show ?thesis
  proof cases
    case c
    then show ?thesis
      by (simp add: fresh apply_create_eq created_meaning split: option.split)
  next
    case r
    then show ?thesis
      by (simp add: fresh apply_rename_eq updated_meaning split: option.split)
  next
    case m
    then show ?thesis
      by (simp add: fresh apply_move_eq updated_meaning split: option.split)
  next
    case d
    then show ?thesis
      by (simp add: fresh apply_delete_eq updated_meaning)
  next
    case v
    then show ?thesis
      by (simp add: fresh apply_new_version_eq versioned_meaning split: option.split)
  next
    case x
    then show ?thesis by (simp add: fresh)
  qed
qed

text \<open>C3: application is idempotent: an entry that was applied can be delivered again (a page
  re-pulled after a crash), at any later clock reading, and leaves the whole mirror exactly as it
  is, the first deletion time included.\<close>

theorem apply_op_log_entry_idempotent:
  assumes run: "apply_op_log_entry now e db = (Inr p, db')"
  shows "apply_op_log_entry now' e db' = (Inr (get_node db' (op_node_id e)), db')"
proof (cases "op_type e = ''create''")
  case True
  from apply_create_run_fresh [OF this run] obtain q f where
    q: "dec_create_payload (op_payload e) = Some q" "create_folder db q = Some f"
      "db' = upsert_node (logged_node e q f) db" .
  have "\<not> is_stale db' e" using True by (simp add: is_stale_def)
  then show ?thesis
    using True q create_folder_after [OF q(2)]
    by (simp add: apply_op_log_entry_def run_simps apply_create_eq upsert_node_twice)
next
  case other: False
  show ?thesis
  proof (cases "get_node db (op_node_id e)")
    case None
    then show ?thesis using apply_unknown [OF other None] run by (metis isl_def prod.inject sum.disc(2))
  next
    case (Some n)
    show ?thesis
    proof (cases "ln_server_seq n < op_server_seq e")
      case True
      have "entry_row now e \<noteq> Inl err" for err
        using apply_known(1) [OF other Some True] run by force
      then obtain f where f: "entry_row now e = Inr f" by (cases "entry_row now e") auto
      then have "get_node db' (op_node_id e) = Some (f n)" "ln_server_seq (f n) = op_server_seq e"
        using apply_known(2) [OF other Some True] run row_updateD(4) [OF entry_row_update] by force+
      then have "is_stale db' e" using other by (simp add: is_stale_def)
      then show ?thesis by (simp add: apply_stale)
    next
      case False
      then have "is_stale db e" using other Some by (simp add: is_stale_def)
      then show ?thesis using run by (simp add: apply_stale)
    qed
  qed
qed

text \<open>no entry other than \<open>create\<close> moves any row back: every row stays, its sequence number
  never decreases, only the row the entry names can change, and if the entry was newer and
  succeeded the row carries the entry's number.\<close>

theorem apply_op_log_entry_monotone:
  assumes "op_type e \<noteq> ''create''" "get_node db k = Some n"
  shows "\<exists>n'. get_node (snd (apply_op_log_entry now e db)) k = Some n' \<and>
     ln_server_seq n \<le> ln_server_seq n' \<and> (k \<noteq> op_node_id e \<longrightarrow> n' = n) \<and>
     (k = op_node_id e \<and> \<not> isl (fst (apply_op_log_entry now e db)) \<longrightarrow>
        ln_server_seq n' = max (ln_server_seq n) (op_server_seq e))"
proof -
  obtain r db' where run: "apply_op_log_entry now e db = (r, db')" by fastforce
  show ?thesis
  proof (cases "k = op_node_id e")
    case True
    show ?thesis
    proof (cases "ln_server_seq n < op_server_seq e")
      case newer: True
      show ?thesis
      proof (cases "entry_row now e")
        case (Inl err)
        then show ?thesis
          using apply_known(1) [OF assms(1) assms(2) [unfolded True] newer] assms(2) by simp
      next
        case (Inr f)
        then show ?thesis
          using apply_known(2) [OF assms(1) assms(2) [unfolded True] newer Inr] True newer
            row_updateD(4) [OF entry_row_update [OF Inr]] by auto
      qed
    next
      case False
      then have "is_stale db e" using assms True by (simp add: is_stale_def)
      then show ?thesis using assms False by (simp add: apply_stale)
    qed
  next
    case False
    from run have "get_node db' k = get_node db k"
      by (cases rule: apply_op_log_entry_effect) (use assms(1) False in \<open>auto simp: get_node_row_update\<close>)
    then show ?thesis using assms(2) False run by simp
  qed
qed

text \<open>Replaying a list of entries, the clock read once per entry (the loop of \<open>pull_delta\<close>).\<close>

definition replay :: "(op_log_entry \<Rightarrow> string) \<Rightarrow> op_log_entry list \<Rightarrow> (mirror, unit) comp" where
  "replay clock ops = for_each ops (\<lambda>e _. try_op (apply_op_log_entry (clock e) e) (\<lambda>_. ret ())) ()"

lemma replay_Nil [simp]: "replay clock [] db = (Inr (), db)"
  by (simp add: replay_def ret_def)

lemma replay_Cons: "replay clock (e # es) db =
    (case apply_op_log_entry (clock e) e db of (Inl err, db') \<Rightarrow> (Inl err, db') | (Inr _, db') \<Rightarrow> replay clock es db')"
  by (simp add: replay_def run_simps split: prod.split sum.split)

definition same_row :: "string \<Rightarrow> mirror \<Rightarrow> mirror \<Rightarrow> bool" where
  "same_row i db1 db2 = (\<exists>n1 n2. get_node db1 i = Some n1 \<and> get_node db2 i = Some n2 \<and> plain_node n1 = plain_node n2)"

text \<open>A log that can be read from the nodes \<open>K\<close> on: each creation names its folder or hangs below a node
  of \<open>K\<close> or created before it (the server's payload names no folder), each other entry is about such
  a node.\<close>

definition hangs_below :: "string list \<Rightarrow> op_log_entry \<Rightarrow> bool" where
  "hangs_below K e = (case dec_create_payload (op_payload e) of None \<Rightarrow> True
     | Some p \<Rightarrow> lc_folder_id p \<noteq> None \<or> lc_parent_id p \<in> set K)"

fun log_from :: "string list \<Rightarrow> op_log_entry list \<Rightarrow> bool" where
  "log_from K [] = True"
| "log_from K (e # es) =
     (if op_type e = ''create'' then hangs_below K e \<and> log_from (op_node_id e # K) es
      else op_node_id e \<in> set K \<and> log_from K es)"

definition created_ids :: "op_log_entry list \<Rightarrow> string list" where
  "created_ids es = map op_node_id (filter (\<lambda>e. op_type e = ''create'') es)"

lemma apply_other_row:
  assumes "apply_op_log_entry now e db = (r, db')" "k \<noteq> op_node_id e"
  shows "get_node db' k = get_node db k"
  using assms(1)
  by (cases rule: apply_op_log_entry_effect)
    (use assms(2) in \<open>auto simp: get_node_row_update node_table.lookup_upsert created_row_def\<close>)

text \<open>One entry on two mirrors that hold the same rows of \<open>K\<close>.\<close>

lemma apply_create_agrees:
  assumes "\<forall>i \<in> set K. same_row i db1 db2" "op_type e = ''create''" "hangs_below K e"
  shows "(\<exists>err. apply_op_log_entry now e db1 = (Inl err, db1) \<and> apply_op_log_entry now e db2 = (Inl err, db2)) \<or>
    (\<exists>p q a b. apply_op_log_entry now e db1 = (Inr p, a) \<and> apply_op_log_entry now e db2 = (Inr q, b) \<and>
       (\<forall>i \<in> set (op_node_id e # K). same_row i a b))"
proof (cases "dec_create_payload (op_payload e)")
  case None
  then show ?thesis using assms(2) by (simp add: apply_op_log_entry_def is_stale_def run_simps apply_create_eq)
next
  case (Some p)
  have same: "create_folder db1 p = create_folder db2 p"
  proof (cases "lc_folder_id p")
    case None
    then have "same_row (lc_parent_id p) db1 db2" using assms(1,3) Some by (simp add: hangs_below_def)
    then have "map_option ln_folder_id (get_node db1 (lc_parent_id p)) = map_option ln_folder_id (get_node db2 (lc_parent_id p))"
      unfolding same_row_def by (metis option.map(2) plain_node_sel(3))
    then show ?thesis using None by (simp add: create_folder_def folder_id_from_parent_def get_node_def)
  qed (simp add: create_folder_def)
  show ?thesis
  proof (cases "create_folder db2 p")
    case None
    then show ?thesis using assms(2) Some same
      by (simp add: apply_op_log_entry_def is_stale_def run_simps apply_create_eq)
  next
    case f: (Some f)
    let ?n = "logged_node e p f"
    have run: "apply_op_log_entry now e db = (Inr (get_node db (op_node_id e)), upsert_node ?n db)"
      if "create_folder db p = Some f" for db
      using that assms(2) Some by (simp add: apply_op_log_entry_def is_stale_def run_simps apply_create_eq)
    have id: "ln_node_id ?n = op_node_id e" by (simp add: logged_node_def)
    have own: "\<exists>n. get_node (upsert_node ?n db) (op_node_id e) = Some n \<and> plain_node n = ?n" for db
      using id by (cases "get_node db (op_node_id e)")
        (simp_all add: node_table.lookup_upsert plain_node_def merge_node_def logged_node_def)
    have "same_row i (upsert_node ?n db1) (upsert_node ?n db2)" if "i \<in> set (op_node_id e # K)" for i
    proof (cases "i = op_node_id e")
      case True
      then show ?thesis using own [of db1] own [of db2] by (auto simp: same_row_def)
    next
      case False
      then show ?thesis using that assms(1) id by (auto simp: same_row_def node_table.lookup_upsert)
    qed
    then show ?thesis using run [of db1] run [of db2] f same by auto
  qed
qed

lemma apply_update_agrees:
  assumes "\<forall>i \<in> set K. same_row i db1 db2" "op_type e \<noteq> ''create''" "op_node_id e \<in> set K"
  shows "(\<exists>err. apply_op_log_entry now e db1 = (Inl err, db1) \<and> apply_op_log_entry now e db2 = (Inl err, db2)) \<or>
    (\<exists>p q a b. apply_op_log_entry now e db1 = (Inr p, a) \<and> apply_op_log_entry now e db2 = (Inr q, b) \<and>
       (\<forall>i \<in> set K. same_row i a b))"
proof -
  obtain n1 n2 where n: "get_node db1 (op_node_id e) = Some n1" "get_node db2 (op_node_id e) = Some n2"
    "plain_node n1 = plain_node n2"
    using assms(1,3) by (auto simp: same_row_def)
  have seqs: "ln_server_seq n1 = ln_server_seq n2" using n(3) by (metis plain_node_sel(4))
  show ?thesis
  proof (cases "ln_server_seq n1 < op_server_seq e")
    case False
    then have "is_stale db1 e" "is_stale db2 e" using assms(2) n seqs by (simp_all add: is_stale_def)
    then show ?thesis using assms(1) by (simp add: apply_stale)
  next
    case True
    note k1 = apply_known [OF assms(2) n(1) True, of now]
      and k2 = apply_known [OF assms(2) n(2) True [unfolded seqs], of now]
    show ?thesis
    proof (cases "entry_row now e")
      case (Inl err)
      then show ?thesis using k1(1) k2(1) by simp
    next
      case (Inr f)
      obtain a b where a: "apply_op_log_entry now e db1 = (Inr (Some n1), a)" "get_node a (op_node_id e) = Some (f n1)"
        and b: "apply_op_log_entry now e db2 = (Inr (Some n2), b)" "get_node b (op_node_id e) = Some (f n2)"
        using k1(2) [OF Inr] k2(2) [OF Inr] by auto
      note f = row_updateD [OF entry_row_update [OF Inr]]
      have "same_row i a b" if "i \<in> set K" for i
      proof (cases "i = op_node_id e")
        case True
        then show ?thesis using a(2) b(2) n(3) f(5) by (simp add: same_row_def)
      next
        case False
        then show ?thesis
          using apply_other_row [OF a(1) False] apply_other_row [OF b(1) False] assms(1) that by (simp add: same_row_def)
      qed
      then show ?thesis using a(1) b(1) by blast
    qed
  qed
qed

lemma replay_agrees:
  assumes "\<forall>i \<in> set K. same_row i db1 db2" "log_from K es"
  shows "fst (replay clock es db1) = fst (replay clock es db2) \<and>
    (\<forall>i \<in> set K. same_row i (snd (replay clock es db1)) (snd (replay clock es db2))) \<and>
    (isl (fst (replay clock es db1)) \<or>
      (\<forall>i \<in> set (created_ids es). same_row i (snd (replay clock es db1)) (snd (replay clock es db2))))"
  using assms
proof (induction es arbitrary: K db1 db2)
  case Nil
  then show ?case by (simp add: created_ids_def)
next
  case (Cons e es)
  let ?K = "if op_type e = ''create'' then op_node_id e # K else K"
  have step: "(\<exists>err. apply_op_log_entry (clock e) e db1 = (Inl err, db1) \<and> apply_op_log_entry (clock e) e db2 = (Inl err, db2)) \<or>
    (\<exists>p q a b. apply_op_log_entry (clock e) e db1 = (Inr p, a) \<and> apply_op_log_entry (clock e) e db2 = (Inr q, b) \<and>
       (\<forall>i \<in> set ?K. same_row i a b))"
    using apply_create_agrees [OF Cons.prems(1)] apply_update_agrees [OF Cons.prems(1)] Cons.prems(2) by auto
  then show ?case
  proof (elim disjE exE conjE)
    fix err
    assume "apply_op_log_entry (clock e) e db1 = (Inl err, db1)" "apply_op_log_entry (clock e) e db2 = (Inl err, db2)"
    then show ?thesis using Cons.prems(1) by (simp add: replay_Cons)
  next
    fix p q a b
    assume ab: "apply_op_log_entry (clock e) e db1 = (Inr p, a)" "apply_op_log_entry (clock e) e db2 = (Inr q, b)"
      "\<forall>i \<in> set ?K. same_row i a b"
    have "log_from ?K es" using Cons.prems(2) by (auto split: if_splits)
    from Cons.IH [OF ab(3) this] show ?thesis
      using ab(1,2) by (auto simp: replay_Cons created_ids_def split: if_splits)
  qed
qed

text \<open>C16: replaying a log repairs any mirror: take two mirrors that hold the same rows of some nodes \<open>K\<close>
  (the folder's root, say), whatever else they hold, also older, newer or deleted rows of the nodes
  the log creates, and a log in which each creation hangs below a node of \<open>K\<close> or created before it and
  each other entry is about such a node.  Then the replay has the same outcome on both, they still
  agree on \<open>K\<close>, and if it succeeds they agree on every node the log creates, the local push cache
  aside.  This is why \<open>create\<close> is exempt from the staleness guard.  The payloads need not name a
  folder (the server's do not): it is the parent's.\<close>

theorem replay_from_create_converges:
  assumes "\<forall>i \<in> set K. same_row i db1 db2" "log_from K es"
  shows "fst (replay clock es db1) = fst (replay clock es db2) \<and>
    (\<forall>i \<in> set K. same_row i (snd (replay clock es db1)) (snd (replay clock es db2))) \<and>
    (isl (fst (replay clock es db1)) \<or>
      (\<forall>i \<in> set (created_ids es). same_row i (snd (replay clock es db1)) (snd (replay clock es db2))))"
  using assms by (rule replay_agrees)

section \<open>Properties of the snapshot\<close>

lemma clear_other_tables [simp]:
  "db_mounts (clear_folder_nodes f db) = db_mounts db" "db_versions (clear_folder_nodes f db) = db_versions db"
  "db_chunks (clear_folder_nodes f db) = db_chunks db" "db_mounts (clear_folder_versions f db) = db_mounts db"
  "db_nodes (clear_folder_versions f db) = db_nodes db" "db_chunks (clear_folder_versions f db) = db_chunks db"
  by (simp_all add: clear_folder_nodes_def clear_folder_versions_def)

lemma fold_upsert_other_tables [simp]:
  "db_mounts (fold upsert_node ns db) = db_mounts db" "db_versions (fold upsert_node ns db) = db_versions db"
  "db_chunks (fold upsert_node ns db) = db_chunks db"
  by (induction ns arbitrary: db) simp_all

lemma apply_tree_snapshot_fold:
  "apply_tree_snapshot f resp db = set_cursor f (ft_up_to_seq resp)
     (fold upsert_node (map (snapshot_node f) (ft_nodes resp)) (clear_folder_nodes f (clear_folder_versions f db)))"
  by (simp add: apply_tree_snapshot_def insert_snapshot_node_def [abs_def] fold_map comp_def)

lemma get_node_set_cursor [simp]: "get_node (set_cursor f q db) = get_node db"
  by (rule get_node_cong) simp

lemma get_node_clear_versions [simp]: "get_node (clear_folder_versions f db) = get_node db"
  by (rule get_node_cong) simp

lemma snapshot_node_id [simp]: "ln_node_id (snapshot_node f ns) = ns_node_id ns"
  by (simp add: snapshot_node_def)

text \<open>C15: a snapshot makes the folder's part of the mirror equal to the server's tree and touches
  nothing else: a listed node gets exactly its listed row (with an empty push cache if the folder
  already held it or it is new), an unlisted row of the folder is gone, an unlisted row of any
  other folder is as before, the versions are those of the other folders, in their order, and the
  cursor of the folder's mount is the snapshot's sequence number; every other column of that mount,
  every other mount with its cursor, and the uploaded chunks are as before.\<close>

theorem apply_tree_snapshot_exact:
  assumes "mirror_wf db" "distinct (map ns_node_id (ft_nodes resp))" "db' = apply_tree_snapshot f resp db"
  shows "mirror_wf db' \<and>
    (\<forall>ns \<in> set (ft_nodes resp). \<exists>n. get_node db' (ns_node_id ns) = Some n \<and> plain_node n = snapshot_node f ns \<and>
      ((\<forall>old. get_node db (ns_node_id ns) = Some old \<longrightarrow> ln_folder_id old = f) \<longrightarrow> n = snapshot_node f ns)) \<and>
    (\<forall>k. k \<notin> ns_node_id ` set (ft_nodes resp) \<longrightarrow> get_node db' k =
      (case get_node db k of None \<Rightarrow> None | Some n \<Rightarrow> if ln_folder_id n = f then None else Some n)) \<and>
    db_versions db' = filter (\<lambda>r. lv_folder_id (vr_version r) \<noteq> f) (db_versions db) \<and>
    db_mounts db' = map (\<lambda>m. if lm_folder_id m = f then m \<lparr> lm_cursor := ft_up_to_seq resp \<rparr> else m) (db_mounts db) \<and>
    db_chunks db' = db_chunks db \<and>
    (\<forall>g. g \<noteq> f \<longrightarrow> get_cursor db' g = get_cursor db g) \<and>
    (find_row lm_folder_id f (db_mounts db) \<noteq> None \<longrightarrow> get_cursor db' f = ft_up_to_seq resp)"
proof -
  note db'_def = assms(3)
  let ?rows = "map (snapshot_node f) (ft_nodes resp)"
  let ?db1 = "clear_folder_nodes f (clear_folder_versions f db)"
  have keys: "map ln_node_id ?rows = map ns_node_id (ft_nodes resp)" by simp
  have dk: "distinct (map ln_node_id ?rows)" using assms(2) by (simp only: keys)
  have wf1: "distinct (map ln_node_id (db_nodes (clear_folder_versions f db)))"
    using assms(1) by (simp add: mirror_wf_def nodes_wf_def)
  have look1: "get_node ?db1 k = (case get_node db k of None \<Rightarrow> None | Some n \<Rightarrow> if ln_folder_id n = f then None else Some n)" for k
    using node_table.lookup_clear [OF wf1] by simp
  have get: "get_node db' = get_node (fold upsert_node ?rows ?db1)"
    by (simp add: db'_def apply_tree_snapshot_fold)
  have fold_wf: "mirror_wf d \<Longrightarrow> list_all (\<lambda>n. valid_node_type (ln_node_type n)) ns \<Longrightarrow> mirror_wf (fold upsert_node ns d)" for d ns
    by (induction ns arbitrary: d) auto
  have 1: "mirror_wf db'"
    unfolding db'_def apply_tree_snapshot_fold
    using assms(1) by (intro mirror_wf_set_cursor fold_wf) (auto simp: list_all_iff snapshot_node_def)
  have 2: "\<exists>n. get_node db' (ns_node_id ns) = Some n \<and> plain_node n = snapshot_node f ns \<and>
      ((\<forall>old. get_node db (ns_node_id ns) = Some old \<longrightarrow> ln_folder_id old = f) \<longrightarrow> n = snapshot_node f ns)"
    if "ns \<in> set (ft_nodes resp)" for ns
  proof -
    have "snapshot_node f ns \<in> set ?rows" using that by simp
    from node_table.lookup_fold_member [OF dk this, of ?db1]
    show ?thesis unfolding get look1
      by (auto simp: plain_node_def merge_node_def snapshot_node_def split: option.splits if_splits)
  qed
  have 3: "get_node db' k = (case get_node db k of None \<Rightarrow> None | Some n \<Rightarrow> if ln_folder_id n = f then None else Some n)"
    if "k \<notin> ns_node_id ` set (ft_nodes resp)" for k
  proof -
    have "k \<notin> ln_node_id ` set ?rows" using that by auto
    then show ?thesis unfolding get by (simp add: node_table.lookup_fold_other look1)
  qed
  have 4: "db_versions db' = filter (\<lambda>r. lv_folder_id (vr_version r) \<noteq> f) (db_versions db)"
    "db_chunks db' = db_chunks db"
    by (simp_all add: db'_def apply_tree_snapshot_fold clear_folder_versions_def delete_rows_def)
  have 5: "get_cursor db' f = ft_up_to_seq resp" if "find_row lm_folder_id f (db_mounts db) \<noteq> None"
    using that by (auto simp: db'_def apply_tree_snapshot_fold get_cursor_set)
  have 6: "db_mounts db' = map (\<lambda>m. if lm_folder_id m = f then m \<lparr> lm_cursor := ft_up_to_seq resp \<rparr> else m) (db_mounts db)"
    by (simp add: db'_def apply_tree_snapshot_fold set_cursor_def update_rows_def)
  have 7: "\<forall>g. g \<noteq> f \<longrightarrow> get_cursor db' g = get_cursor db g"
    by (simp add: db'_def apply_tree_snapshot_fold get_cursor_set_other) (simp add: get_cursor_def)
  show ?thesis using 1 2 3 4 5 6 7 by blast
qed

end
