(* ===== verification/Delta_Pull.thy ===== *)
theory Delta_Pull
  imports World Op_Log
begin

text \<open>
  Pulling server changes into the mirror (\<open>sync_engine/delta_pull.rs\<close>): pages of op-log entries
  from the folder's cursor until the server has no more, or a whole tree when the server has
  trimmed the log (410).  The page loop is bounded by fuel: \<open>None\<close> is the answer of a loop that
  was given too few rounds.  \<open>pull_delta_enough_fuel\<close> shows how many suffice.
\<close>

record pulled_node =
  pn_node_id :: string
  pn_op_type :: string
  pn_is_conflict_copy :: bool
  pn_actor_device_id :: string
  pn_applied_at :: string
  pn_old_name :: "string option"
  pn_old_parent_id :: "string option"
  pn_old_version_id :: "string option"
  pn_new_name :: string
  pn_new_parent_id :: "string option"
  pn_new_version_id :: "string option"
  pn_node_type :: string

definition payload_string :: "op_log_entry \<Rightarrow> string \<Rightarrow> string option" where
  "payload_string op' field = Option.bind (json_get (op_payload op') field) json_as_str"

definition build_pulled_node :: "mirror \<Rightarrow> op_log_entry \<Rightarrow> local_node option \<Rightarrow> error + pulled_node" where
  "build_pulled_node db op' pre_op =
     (let post_op = get_node db (op_node_id op') in
      case (case post_op of Some n \<Rightarrow> Some n | None \<Rightarrow> pre_op) of
        None \<Rightarrow> Inl (EMsg (''op `'' @ op_type op' @ ''` references unknown node `'' @ op_node_id op' @ ''` after apply''))
      | Some state \<Rightarrow>
         Inr \<lparr> pn_node_id = op_node_id op', pn_op_type = op_type op',
           pn_is_conflict_copy = (op_type op' = ''new_version'' \<and>
             (case Option.bind (json_get (op_payload op') ''is_conflict_copy'') json_as_bool of
                None \<Rightarrow> False | Some b \<Rightarrow> b)),
           pn_actor_device_id = op_actor_device_id op', pn_applied_at = op_applied_at op',
           pn_old_name = map_option ln_name pre_op,
           pn_old_parent_id = Option.bind pre_op ln_parent_id,
           pn_old_version_id = Option.bind pre_op ln_current_version_id,
           pn_new_name = (case (if op_type op' = ''create'' then payload_string op' ''name''
               else if op_type op' = ''rename'' then payload_string op' ''new_name'' else None) of
             Some n \<Rightarrow> n | None \<Rightarrow> ln_name state),
           pn_new_parent_id = (if op_type op' = ''create'' then payload_string op' ''parent_id''
             else if op_type op' = ''move'' then payload_string op' ''new_parent_id''
             else Option.bind post_op ln_parent_id),
           pn_new_version_id = (if op_type op' = ''new_version'' then payload_string op' ''version_id''
             else Option.bind post_op ln_current_version_id),
           pn_node_type = (if op_type op' = ''create''
             then (case payload_string op' ''type'' of Some t \<Rightarrow> t | None \<Rightarrow> ln_node_type state)
             else ln_node_type state) \<rparr>)"

definition get_request :: "string \<Rightarrow> string \<Rightarrow> http_request" where
  "get_request url token = \<lparr> rq_method = GET, rq_url = url, rq_bearer = Some token,
     rq_headers = protocol_header, rq_body = NoBody \<rparr>"

definition tree_resync :: "env \<Rightarrow> string \<Rightarrow> string \<Rightarrow> string \<Rightarrow> (int \<times> pulled_node list) io" where
  "tree_resync e backend_url token folder_id =
     try_op (send e (get_request (folder_url backend_url folder_id ''/tree'') token)) (\<lambda>r.
     if fst r = UPGRADE_REQUIRED then fail (update_required_from_response r)
     else try_op (error_for_status r) (\<lambda>body. case body of
         BodyTree tree \<Rightarrow>
           try_op (write_db (apply_tree_snapshot folder_id tree)) (\<lambda>_. ret (ft_up_to_seq tree, []))
       | _ \<Rightarrow> fail EDecode))"

definition apply_pulled_op :: "env \<Rightarrow> op_log_entry \<Rightarrow> pulled_node list \<Rightarrow> pulled_node list io" where
  "apply_pulled_op e op' pulled =
     try_op tick (\<lambda>t.
     try_op (on_db (apply_op_log_entry (env_clock e t) op')) (\<lambda>pre_op.
     with_state (\<lambda>w.
     try_op (lift_result (build_pulled_node (w_db w) op' pre_op)) (\<lambda>node. ret (pulled @ [node])))))"

definition ops_url :: "string \<Rightarrow> string \<Rightarrow> int \<Rightarrow> string" where
  "ops_url backend_url folder_id cursor = folder_url backend_url folder_id (''/ops?since='' @ string_of_int cursor)"

text \<open>One round of the loop: \<open>Inl\<close> the final answer, \<open>Inr\<close> the cursor and nodes to go on with.\<close>

definition pull_page :: "env \<Rightarrow> string \<Rightarrow> string \<Rightarrow> string \<Rightarrow> int \<Rightarrow> pulled_node list \<Rightarrow>
    ((int \<times> pulled_node list) + (int \<times> pulled_node list)) io" where
  "pull_page e backend_url token folder_id cursor pulled =
     try_op (send e (get_request (ops_url backend_url folder_id cursor) token)) (\<lambda>r.
     if fst r = UPGRADE_REQUIRED then fail (update_required_from_response r)
     else if fst r = GONE then
       try_op (tree_resync e backend_url token folder_id) (\<lambda>res. ret (Inl res))
     else try_op (error_for_status r) (\<lambda>body. case body of
         BodyOps delta \<Rightarrow>
           if dp_up_to_seq delta < cursor
           then fail (EMsg (''delta up_to_seq '' @ string_of_int (dp_up_to_seq delta)
                  @ '' regressed below local cursor '' @ string_of_int cursor))
           else try_op (for_each (dp_ops delta) (apply_pulled_op e) pulled) (\<lambda>pulled'.
                try_op (write_db (set_cursor folder_id (dp_up_to_seq delta))) (\<lambda>_.
                if dp_ops delta = [] \<or> dp_up_to_seq delta \<le> cursor
                then ret (Inl (dp_up_to_seq delta, pulled'))
                else ret (Inr (dp_up_to_seq delta, pulled'))))
       | _ \<Rightarrow> fail EDecode))"

primrec pull_loop :: "nat \<Rightarrow> env \<Rightarrow> string \<Rightarrow> string \<Rightarrow> string \<Rightarrow> int \<Rightarrow> pulled_node list \<Rightarrow>
    (int \<times> pulled_node list) io" where
  "pull_loop 0 e backend_url token folder_id cursor pulled = fail ENoFuel"
| "pull_loop (Suc n) e backend_url token folder_id cursor pulled =
     try_op (pull_page e backend_url token folder_id cursor pulled) (\<lambda>step. case step of
         Inl res \<Rightarrow> ret res
       | Inr (cursor', pulled') \<Rightarrow> pull_loop n e backend_url token folder_id cursor' pulled')"

definition pull_delta :: "nat \<Rightarrow> env \<Rightarrow> string \<Rightarrow> string \<Rightarrow> string \<Rightarrow> (int \<times> pulled_node list) io" where
  "pull_delta fuel e backend_url token folder_id = with_state (\<lambda>w.
     pull_loop fuel e backend_url token folder_id (get_cursor (w_db w) folder_id) [])"

section \<open>Frames\<close>

definition is_pull_request :: "string \<Rightarrow> string \<Rightarrow> string \<Rightarrow> http_request \<Rightarrow> bool" where
  "is_pull_request backend_url token folder_id rq =
     (rq_method rq = GET \<and> rq_bearer rq = Some token \<and> rq_headers rq = protocol_header \<and>
      starts_with (rq_url rq) (folder_url backend_url folder_id ''/''))"

lemma is_pull_request_get [simp]:
  "is_pull_request u t f (get_request (folder_url u f ''/tree'') t)"
  "is_pull_request u t f (get_request (ops_url u f c) t)"
proof -
  show "is_pull_request u t f (get_request (folder_url u f ''/tree'') t)"
    using starts_with_append [of "folder_url u f ''/''" "''tree''"]
    by (simp add: is_pull_request_def get_request_def folder_url_def)
  show "is_pull_request u t f (get_request (ops_url u f c) t)"
    using starts_with_append [of "folder_url u f ''/''" "''ops?since='' @ string_of_int c"]
    by (simp add: is_pull_request_def get_request_def ops_url_def folder_url_def)
qed

lemma apply_tree_snapshot_keeps_wf: "mirror_wf db \<Longrightarrow> mirror_wf (apply_tree_snapshot f resp db)"
proof -
  have "mirror_wf d \<Longrightarrow> mirror_wf (fold (insert_snapshot_node f) ns d)" for d ns
  proof (induction ns arbitrary: d)
    case (Cons a ns)
    then have "mirror_wf (insert_snapshot_node f a d)"
      unfolding insert_snapshot_node_def by (intro mirror_wf_upsert_node) (simp_all add: snapshot_node_def)
    then show ?case using Cons.IH by simp
  qed simp
  note folded = this
  show "mirror_wf db \<Longrightarrow> mirror_wf (apply_tree_snapshot f resp db)"
    unfolding apply_tree_snapshot_def by (intro mirror_wf_set_cursor folded mirror_wf_clear_folder)
qed

lemma apply_pulled_op_frames [simp]:
  "obeys fs_same (apply_pulled_op e op' ps)" "obeys flag_kept (apply_pulled_op e op' ps)"
  "obeys (sent_extends P) (apply_pulled_op e op' ps)" "obeys wf_kept (apply_pulled_op e op' ps)"
  unfolding apply_pulled_op_def
  by (auto intro!: fs_frame.obeys_rules flag_frame.obeys_rules sent_frame.obeys_rules wf_frame.obeys_rules
      on_db_wf apply_op_log_entry_keeps_wf)

lemma pull_frames:
  "obeys fs_same (pull_loop n e u t f c ps)" "obeys flag_kept (pull_loop n e u t f c ps)"
  "obeys (sent_extends (is_pull_request u t f)) (pull_loop n e u t f c ps)"
  "obeys wf_kept (pull_loop n e u t f c ps)"
proof -
  have tree: "obeys fs_same (tree_resync e u t f)" "obeys flag_kept (tree_resync e u t f)"
    "obeys (sent_extends (is_pull_request u t f)) (tree_resync e u t f)" "obeys wf_kept (tree_resync e u t f)"
    unfolding tree_resync_def
    by (auto intro!: fs_frame.obeys_rules flag_frame.obeys_rules sent_frame.obeys_rules wf_frame.obeys_rules
        send_sent write_db_wf apply_tree_snapshot_keeps_wf split: reply_body.split)
  have page: "obeys fs_same (pull_page e u t f c ps)" "obeys flag_kept (pull_page e u t f c ps)"
    "obeys (sent_extends (is_pull_request u t f)) (pull_page e u t f c ps)" "obeys wf_kept (pull_page e u t f c ps)"
    for c ps
    unfolding pull_page_def
    by (auto intro!: fs_frame.obeys_rules flag_frame.obeys_rules sent_frame.obeys_rules wf_frame.obeys_rules
        send_sent write_db_wf mirror_wf_set_cursor tree split: reply_body.split)
  show "obeys fs_same (pull_loop n e u t f c ps)"
    by (induction n arbitrary: c ps) (auto intro!: fs_frame.obeys_rules page split: sum.split)
  show "obeys flag_kept (pull_loop n e u t f c ps)"
    by (induction n arbitrary: c ps) (auto intro!: flag_frame.obeys_rules page split: sum.split)
  show "obeys (sent_extends (is_pull_request u t f)) (pull_loop n e u t f c ps)"
    by (induction n arbitrary: c ps) (auto intro!: sent_frame.obeys_rules page split: sum.split)
  show "obeys wf_kept (pull_loop n e u t f c ps)"
    by (induction n arbitrary: c ps) (auto intro!: wf_frame.obeys_rules page split: sum.split)
qed

lemma pull_page_sent: "pull_page e u t f c ps w = (r, w') \<Longrightarrow> \<exists>rs. w_sent w' = w_sent w @ rs"
proof -
  have "obeys (sent_extends (\<lambda>_. True)) (tree_resync e u t f)"
    unfolding tree_resync_def by (auto intro!: sent_frame.obeys_rules send_sent split: reply_body.split)
  then have "obeys (sent_extends (\<lambda>_. True)) (pull_page e u t f c ps)"
    unfolding pull_page_def by (auto intro!: sent_frame.obeys_rules send_sent split: reply_body.split)
  then show "pull_page e u t f c ps w = (r, w') \<Longrightarrow> \<exists>rs. w_sent w' = w_sent w @ rs"
    by (auto dest!: obeys_run simp: sent_extends_def)
qed

section \<open>The cursor\<close>

definition cursor_same :: "string \<Rightarrow> world \<Rightarrow> world \<Rightarrow> bool" where
  "cursor_same f w w' = (db_mounts (w_db w') = db_mounts (w_db w))"

lemma cursor_same_get: "cursor_same f w w' \<Longrightarrow> get_cursor (w_db w') g = get_cursor (w_db w) g"
  by (simp add: cursor_same_def get_cursor_def)

interpretation cursor_frame: state_preorder "cursor_same f" for f
  by unfold_locales (auto simp: cursor_same_def)

lemma apply_op_log_entry_mounts: "db_mounts (snd (apply_op_log_entry now e db)) = db_mounts db"
proof -
  obtain r db' where run: "apply_op_log_entry now e db = (r, db')" by fastforce
  then show ?thesis by (cases rule: apply_op_log_entry_effect) (use run in auto)
qed

lemma apply_pulled_op_cursor [simp]: "obeys (cursor_same f) (apply_pulled_op e op' ps)"
proof -
  have "obeys (cursor_same f) (on_db (apply_op_log_entry now op'))" for now
    using apply_op_log_entry_mounts [of now op']
    by (auto simp: obeys_def on_db_def cursor_same_def split: prod.split) (metis snd_conv)
  moreover have "obeys (cursor_same f) tick" by (simp add: obeys_def tick_def cursor_same_def)
  ultimately show ?thesis unfolding apply_pulled_op_def by (auto intro!: cursor_frame.obeys_rules)
qed

lemma apply_pulled_ops_cursor: "obeys (cursor_same f) (for_each ops (apply_pulled_op e) ps)"
  by (rule cursor_frame.obeys_for_each) simp

definition mounted :: "mirror \<Rightarrow> string \<Rightarrow> bool" where
  "mounted db f = (f \<in> lm_folder_id ` set (db_mounts db))"

lemma mounted_find: "mounted db f \<longleftrightarrow> find_row lm_folder_id f (db_mounts db) \<noteq> None"
  by (simp add: mounted_def find_row_None)

lemma get_cursor_after_set: "mounted db f \<Longrightarrow> get_cursor (set_cursor f q db) f = q"
  by (auto simp: mounted_find get_cursor_set)

lemma mounted_set_cursor [simp]: "mounted (set_cursor g q db) f = mounted db f"
proof -
  have "map lm_folder_id (db_mounts (set_cursor g q db)) = map lm_folder_id (db_mounts db)"
    by (simp add: set_cursor_def update_rows_keys)
  then show ?thesis unfolding mounted_def by (metis list.set_map)
qed

lemma mounted_snapshot [simp]: "mounted (apply_tree_snapshot g resp db) f = mounted db f"
proof -
  have "db_mounts (fold (insert_snapshot_node g) ns d) = db_mounts d" for ns d
    by (induction ns arbitrary: d) (simp_all add: insert_snapshot_node_def)
  then show ?thesis by (simp add: apply_tree_snapshot_def) (simp add: mounted_def)
qed

definition is_tree_request :: "http_request \<Rightarrow> bool" where
  "is_tree_request rq = ends_with (rq_url rq) ''/tree''"

lemma tree_resync_Inr:
  assumes "tree_resync e u t f w = (Inr (q, ns), w')"
  shows "(\<exists>tree. ft_up_to_seq tree = q \<and> w_db w' = apply_tree_snapshot f tree (w_db w)) \<and>
    (\<exists>rq. is_tree_request rq \<and> w_sent w' = w_sent w @ [rq]) \<and> ns = []"
proof -
  let ?rq = "get_request (folder_url u f ''/tree'') t"
  have "is_tree_request ?rq"
    by (auto simp: is_tree_request_def get_request_def folder_url_def ends_with_iff)
  moreover obtain tree where "w' = w \<lparr> w_sent := w_sent w @ [?rq], w_db := apply_tree_snapshot f tree (w_db w) \<rparr>"
      "q = ft_up_to_seq tree" "ns = []"
    using assms unfolding tree_resync_def
    by (auto elim!: try_op_InrE dest!: send_InrD error_for_status_InrD simp: fail_def ret_def write_db_def writes_def
        split: if_splits reply_body.splits)
  ultimately show ?thesis by auto
qed

lemma apply_pulled_ops_run:
  assumes "for_each ops (apply_pulled_op e) ps w = (r, w')"
  shows "db_mounts (w_db w') = db_mounts (w_db w)" "w_sent w' = w_sent w"
proof -
  show "db_mounts (w_db w') = db_mounts (w_db w)"
    using obeys_run [OF apply_pulled_ops_cursor assms] by (simp add: cursor_same_def)
  have "obeys (sent_extends (\<lambda>_. False)) (for_each ops (apply_pulled_op e) ps)"
    by (rule sent_frame.obeys_for_each) simp
  from obeys_run [OF this assms] show "w_sent w' = w_sent w"
    by (auto simp: sent_extends_def list_all_iff)
qed

lemma tree_resync_Inl:
  assumes "tree_resync e u t f w = (Inl err, w')"
  shows "w_db w' = w_db w"
proof -
  have "w_db w' = w_db w" if "try_op (write_db g) (\<lambda>_. ret x) w1 = (Inl err, w')" for g x w1
    using that by (simp add: try_op_def write_db_def writes_def ret_def)
  then show ?thesis using assms unfolding tree_resync_def
    by (auto simp: try_op_def send_def Let_def fail_def ret_def error_for_status_def write_db_def writes_def
        split: http_reply.splits if_splits reply_body.splits)
qed

lemma page_of_ops:
  assumes "try_op (for_each ops (apply_pulled_op e) ps) (\<lambda>ps'. try_op (write_db (set_cursor f q)) (\<lambda>_.
      if stop then ret (Inl (q, ps')) else ret (Inr (q, ps')))) w = (r, w')"
  shows "(\<exists>err. r = Inl err \<and> db_mounts (w_db w') = db_mounts (w_db w)) \<or>
    (\<exists>ps' w1. for_each ops (apply_pulled_op e) ps w = (Inr ps', w1) \<and>
      w' = w1 \<lparr> w_db := set_cursor f q (w_db w1) \<rparr> \<and> r = Inr (if stop then Inl (q, ps') else Inr (q, ps')))"
proof (cases "for_each ops (apply_pulled_op e) ps w")
  case (Pair r1 w1)
  then show ?thesis
    using assms apply_pulled_ops_run(1) [OF Pair]
    by (cases r1) (auto simp: try_op_def write_db_def writes_def ret_def)
qed

text \<open>What one round can do: fail without touching the mounts, finish with a tree, or apply a page
  whose end is not before the cursor and store that end.\<close>

lemma pull_page_outcome:
  assumes "pull_page e u t f c ps w = (r, w')"
  obtains (failed) err where "r = Inl err" "db_mounts (w_db w') = db_mounts (w_db w)"
    | (tree) tree ns where "r = Inr (Inl (ft_up_to_seq tree, ns))"
        "w_db w' = apply_tree_snapshot f tree (w_db w)"
        "\<exists>rq. is_tree_request rq \<and> rq \<in> set (drop (length (w_sent w)) (w_sent w'))"
    | (page) q ps' w1 w2 ops stop where "for_each ops (apply_pulled_op e) ps w1 = (Inr ps', w2)" "c \<le> q"
        "w_db w1 = w_db w" "w' = w2 \<lparr> w_db := set_cursor f q (w_db w2) \<rparr>"
        "r = Inr (if stop then Inl (q, ps') else Inr (q, ps'))" "stop \<longleftrightarrow> ops = [] \<or> q \<le> c"
proof -
  let ?rq = "get_request (ops_url u f c) t"
  let ?w1 = "w \<lparr> w_sent := w_sent w @ [?rq] \<rparr>"
  show thesis
  proof (cases "env_server e (w_sent w) ?rq")
    case NoReply
    then have "\<exists>err. r = Inl err \<and> db_mounts (w_db w') = db_mounts (w_db w)"
        using assms by (auto simp: pull_page_def try_op_def send_def)
      then show thesis using failed by blast
  next
    case (Reply status body)
    then have sent: "send e ?rq w = (Inr (status, body), ?w1)" by (simp add: send_def)
    consider (up) "status = UPGRADE_REQUIRED" | (gone) "status = GONE" "status \<noteq> UPGRADE_REQUIRED"
      | (err) "400 \<le> status" "status < 600" "status \<noteq> GONE" "status \<noteq> UPGRADE_REQUIRED"
      | (ok) "\<not> (400 \<le> status \<and> status < 600)" "status \<noteq> GONE" "status \<noteq> UPGRADE_REQUIRED" by fastforce
    then show thesis
    proof cases
      case up
      then have "\<exists>err. r = Inl err \<and> db_mounts (w_db w') = db_mounts (w_db w)"
        using assms sent by (auto simp: pull_page_def try_op_def fail_def)
      then show thesis using failed by blast
    next
      case err
      then have "\<exists>err. r = Inl err \<and> db_mounts (w_db w') = db_mounts (w_db w)"
        using assms sent by (auto simp: pull_page_def try_op_def error_for_status_def fail_def)
      then show thesis using failed by blast
    next
      case gone
      show thesis
      proof (cases "tree_resync e u t f ?w1")
        case (Pair r1 w1)
        show thesis
        proof (cases r1)
          case (Inl err)
          then have "\<exists>err. r = Inl err \<and> db_mounts (w_db w') = db_mounts (w_db w)"
            using assms sent gone Pair tree_resync_Inl [OF Pair [unfolded Inl]]
            by (auto simp: pull_page_def try_op_def)
          then show thesis using failed by blast
        next
          case (Inr res)
          obtain q ns where res: "res = (q, ns)" by fastforce
          from tree_resync_Inr [OF Pair [unfolded Inr res]] obtain tr rq where
            tr: "ft_up_to_seq tr = q" "w_db w1 = apply_tree_snapshot f tr (w_db ?w1)"
            "is_tree_request rq" "w_sent w1 = w_sent ?w1 @ [rq]" by blast
          have r: "r = Inr (Inl (ft_up_to_seq tr, ns))" "w' = w1"
            using assms sent gone Pair Inr res tr(1) by (simp_all add: pull_page_def try_op_def ret_def)
          show thesis
            by (rule tree [OF r(1)]) (use tr r(2) in auto)
        qed
      qed
    next
      case ok
      show thesis
      proof (cases "\<exists>delta. body = BodyOps delta \<and> \<not> dp_up_to_seq delta < c")
        case True
        then obtain delta where d: "body = BodyOps delta" "\<not> dp_up_to_seq delta < c" by blast
        have run: "try_op (for_each (dp_ops delta) (apply_pulled_op e) ps) (\<lambda>ps'.
            try_op (write_db (set_cursor f (dp_up_to_seq delta))) (\<lambda>_.
            if dp_ops delta = [] \<or> dp_up_to_seq delta \<le> c then ret (Inl (dp_up_to_seq delta, ps'))
            else ret (Inr (dp_up_to_seq delta, ps')))) ?w1 = (r, w')"
          using assms sent ok d by (simp add: pull_page_def error_for_status_def ret_def try_op_def)
        from page_of_ops [OF run] show thesis
        proof (elim disjE exE conjE)
          fix err
          assume "r = Inl err" "db_mounts (w_db w') = db_mounts (w_db ?w1)"
          then show thesis using failed by simp
        next
          fix ps' w2
          assume "for_each (dp_ops delta) (apply_pulled_op e) ps ?w1 = (Inr ps', w2)"
            "w' = w2 \<lparr> w_db := set_cursor f (dp_up_to_seq delta) (w_db w2) \<rparr>"
            "r = Inr (if dp_ops delta = [] \<or> dp_up_to_seq delta \<le> c then Inl (dp_up_to_seq delta, ps') else Inr (dp_up_to_seq delta, ps'))"
          then show thesis using d(2) by (intro page [of "dp_ops delta" ?w1]) auto
        qed
      next
        case False
        then have "\<exists>err. r = Inl err \<and> w' = ?w1"
          using assms ok sent by (auto simp: pull_page_def error_for_status_def ret_def try_op_def fail_def
              split: reply_body.splits if_splits)
        then show thesis using failed by auto
      qed
    qed
  qed
qed

section \<open>Properties\<close>

lemma apply_pulled_op_node:
  assumes "apply_pulled_op e op' ps w = (Inr ps', w')"
  shows "\<exists>n. ps' = ps @ [n] \<and> pn_node_id n = op_node_id op' \<and> pn_op_type n = op_type op' \<and>
    pn_applied_at n = op_applied_at op' \<and> pn_actor_device_id n = op_actor_device_id op'"
proof -
  obtain db pre n where "build_pulled_node db op' pre = Inr n" "ps' = ps @ [n]"
    using assms unfolding apply_pulled_op_def
    by (auto elim!: try_op_InrE simp: with_state_def lift_result_def ret_def)
  then show ?thesis by (auto simp: build_pulled_node_def Let_def split: option.splits)
qed

definition node_of_op :: "op_log_entry \<Rightarrow> pulled_node \<Rightarrow> bool" where
  "node_of_op op' n = (pn_node_id n = op_node_id op' \<and> pn_op_type n = op_type op' \<and>
     pn_applied_at n = op_applied_at op' \<and> pn_actor_device_id n = op_actor_device_id op')"

text \<open>Applying a page yields, behind what was pulled before, one node per entry of the page in
  the server's order, carrying the entry's node, type, time and author: no change is dropped,
  duplicated or reordered before the files are touched.\<close>

lemma pulled_nodes_one_per_op:
  assumes "for_each ops (apply_pulled_op e) ps w = (Inr ps', w')"
  shows "\<exists>ns. ps' = ps @ ns \<and> list_all2 node_of_op ops ns"
  using assms
proof (induction ops arbitrary: ps w)
  case Nil
  then show ?case by (auto simp: ret_def)
next
  case (Cons op' ops)
  from Cons.prems obtain ps1 w1 where 1: "apply_pulled_op e op' ps w = (Inr ps1, w1)"
    and 2: "for_each ops (apply_pulled_op e) ps1 w1 = (Inr ps', w')"
    by (auto elim: try_op_InrE)
  from apply_pulled_op_node [OF 1] obtain n where "ps1 = ps @ [n]" "node_of_op op' n"
    by (auto simp: node_of_op_def)
  moreover obtain ns where "ps' = ps1 @ ns" "list_all2 node_of_op ops ns" using Cons.IH [OF 2] by blast
  ultimately show ?case by (intro exI [of _ "n # ns"]) simp
qed

text \<open>A round of the pull that fails, at whatever point (transport, status, decoding, an entry
  that does not apply, an unknown operation), leaves every stored cursor where it was: the page is
  pulled again later, none of its entries is skipped.\<close>

lemma pull_page_failure_keeps_cursor:
  assumes "pull_page e backend_url token folder_id cursor pulled w = (Inl err, w')"
  shows "get_cursor (w_db w') f = get_cursor (w_db w) f"
  using assms by (cases rule: pull_page_outcome) (auto simp: get_cursor_def split: if_splits)

lemma mounted_cong: "db_mounts db = db_mounts db' \<Longrightarrow> mounted db f = mounted db' f"
  by (simp add: mounted_def)

lemma snapshot_cursor:
  assumes "mounted db f"
  shows "get_cursor (apply_tree_snapshot f tr db) f = ft_up_to_seq tr"
proof -
  have "db_mounts (fold (insert_snapshot_node f) ns d) = db_mounts d" for ns d
    by (induction ns arbitrary: d) (simp_all add: insert_snapshot_node_def)
  then have "mounted (fold (insert_snapshot_node f) (ft_nodes tr) (clear_folder_nodes f (clear_folder_versions f db))) f"
    using assms by (simp add: mounted_def)
  then show ?thesis unfolding apply_tree_snapshot_def by (rule get_cursor_after_set)
qed

lemma pull_loop_cursor:
  assumes "pull_loop n e u t f c ps w = (r, w')" "mounted (w_db w) f" "get_cursor (w_db w) f = c"
  shows "(\<forall>err. r = Inl err \<longrightarrow> c \<le> get_cursor (w_db w') f) \<and>
    (\<forall>q ns. r = Inr (q, ns) \<longrightarrow> get_cursor (w_db w') f = q \<and>
       (c \<le> q \<or> (\<exists>rq \<in> set (drop (length (w_sent w)) (w_sent w')). is_tree_request rq)))"
  using assms
proof (induction n arbitrary: c ps w)
  case 0
  then show ?case by (auto simp: fail_def)
next
  case (Suc n)
  obtain r1 w1 where page: "pull_page e u t f c ps w = (r1, w1)" by fastforce
  from page show ?case
  proof (cases rule: pull_page_outcome)
    case (failed err)
    then show ?thesis using Suc.prems page by (auto simp: try_op_def get_cursor_def)
  next
    case (tree tr ns)
    then have "r = Inr (ft_up_to_seq tr, ns)" "w' = w1" using Suc.prems page by (auto simp: try_op_def ret_def)
    then show ?thesis using tree snapshot_cursor Suc.prems(2) by auto
  next
    case (page q ps' wa w2 ops stop)
    have m2: "mounted (w_db w2) f"
      using apply_pulled_ops_run(1) [OF page(1)] page(3) Suc.prems(2) mounted_cong by metis
    have cur: "get_cursor (w_db w1) f = q" "mounted (w_db w1) f"
      using page(4) m2 get_cursor_after_set by simp_all
    show ?thesis
    proof (cases stop)
      case True
      then have "r = Inr (q, ps')" "w' = w1"
        using Suc.prems(1) page(5) \<open>pull_page e u t f c ps w = (r1, w1)\<close> by (auto simp: try_op_def ret_def)
      then show ?thesis using cur page(2) by auto
    next
      case False
      then have run: "pull_loop n e u t f q ps' w1 = (r, w')"
        using Suc.prems(1) page(5) \<open>pull_page e u t f c ps w = (r1, w1)\<close> by (simp add: try_op_def)
      have sent: "\<exists>rs. w_sent w1 = w_sent w @ rs"
        using pull_page_sent [OF \<open>pull_page e u t f c ps w = (r1, w1)\<close>] .
      have later: "rq \<in> set (drop (length (w_sent w)) (w_sent w'))"
        if "rq \<in> set (drop (length (w_sent w1)) (w_sent w'))" for rq
      proof -
        have "length (w_sent w) \<le> length (w_sent w1)" using sent by auto
        from set_drop_subset_set_drop [OF this, of "w_sent w'"] that show ?thesis by (rule subsetD)
      qed
      note ih = Suc.IH [OF run cur(2,1)]
      show ?thesis
      proof (cases r)
        case (Inl err)
        then show ?thesis using ih page(2) by auto
      next
        case (Inr x)
        then show ?thesis using ih page(2) later by (cases x) fastforce
      qed
    qed
  qed
qed

text \<open>C6: a pull that succeeds stores exactly the sequence number it reports, and that number is
  not before the old cursor unless a whole tree was fetched; a pull that fails never moves the
  cursor back (pages applied before the failure keep their progress).\<close>

theorem pull_delta_cursor:
  assumes "mounted (w_db w) folder_id" "pull_delta n e backend_url token folder_id w = (r, w')"
  shows "case r of
      Inl err \<Rightarrow> get_cursor (w_db w) folder_id \<le> get_cursor (w_db w') folder_id
    | Inr (q, ns) \<Rightarrow> get_cursor (w_db w') folder_id = q \<and> (get_cursor (w_db w) folder_id \<le> q \<or>
        list_ex is_tree_request (drop (length (w_sent w)) (w_sent w')))"
proof -
  have "pull_loop n e backend_url token folder_id (get_cursor (w_db w) folder_id) [] w = (r, w')"
    using assms(2) by (simp add: pull_delta_def with_state_def)
  from pull_loop_cursor [OF this assms(1) refl] show ?thesis
    by (auto split: sum.split simp: list_ex_iff)
qed

text \<open>Pulling only ever sends authenticated GET requests under the folder's URL, never writes
  the disk, never clears the halt flag, and keeps the mirror well formed, on success and failure
  alike.\<close>

lemma pull_delta_frame:
  "sent_extends (is_pull_request backend_url token folder_id) w
     (snd (pull_delta n e backend_url token folder_id w)) \<and>
   fs_same w (snd (pull_delta n e backend_url token folder_id w)) \<and>
   flag_kept w (snd (pull_delta n e backend_url token folder_id w)) \<and>
   wf_kept w (snd (pull_delta n e backend_url token folder_id w))"
  using pull_frames by (simp add: pull_delta_def with_state_def obeys_def)

definition page_bounded :: "env \<Rightarrow> int \<Rightarrow> bool" where
  "page_bounded e m = (\<forall>sent rq status delta. env_server e sent rq = Reply status (BodyOps delta) \<longrightarrow> dp_up_to_seq delta \<le> m)"

lemma apply_op_log_entry_answers: "answers (apply_op_log_entry now en)"
proof -
  have d: "answers (from_value d v)" for d :: "json \<Rightarrow> 'b option" and v
    by (auto simp: from_value_def intro!: answers_lift split: option.split)
  have "answers (upsert_version v)" for v
    by (simp add: upsert_version_def answers_writes answers_fail)
  then show ?thesis
    unfolding apply_op_log_entry_def apply_create_def apply_rename_def apply_move_def apply_delete_def
      apply_new_version_def Let_def
    by (auto intro!: answers_rules d split: option.split)
qed

lemma pull_page_answers: "answers (pull_page e u t f c ps)"
proof -
  have "build_pulled_node db en pre \<noteq> Inl ENoFuel" for db en pre
    by (simp add: build_pulled_node_def Let_def split: option.split)
  then have op: "answers (apply_pulled_op e en ps)" for en ps
    unfolding apply_pulled_op_def
    by (auto intro!: answers_rules on_db_answers apply_op_log_entry_answers)
  have tree: "answers (tree_resync e u t f)"
    unfolding tree_resync_def by (auto intro!: answers_rules split: reply_body.split)
  show ?thesis unfolding pull_page_def
    by (auto intro!: answers_rules op tree split: reply_body.split)
qed

lemma pull_page_progress:
  assumes "page_bounded e m" "pull_page e u t f c ps w = (Inr (Inr (q, ps')), w')"
  shows "c < q \<and> q \<le> m"
proof -
  have "c < q" using assms(2) by (cases rule: pull_page_outcome) (auto split: if_splits)
  moreover obtain st d where "env_server e (w_sent w) (get_request (ops_url u f c) t) = Reply st (BodyOps d)"
      "q = dp_up_to_seq d"
    using assms(2) unfolding pull_page_def
    by (auto elim!: try_op_InrE simp: fail_def ret_def write_db_def writes_def send_def Let_def error_for_status_def
        split: if_splits reply_body.splits http_reply.splits)
  then have "q \<le> m" using assms(1) unfolding page_bounded_def by blast
  ultimately show ?thesis by simp
qed

text \<open>C25: a pull ends: if the server's log is bounded (no page reports a number beyond \<open>m\<close>), one
  round more than the distance from the cursor to \<open>m\<close> is enough, whatever the pages hold.\<close>

theorem pull_delta_terminates:
  assumes "page_bounded e m" "nat (m - get_cursor (w_db w) folder_id) < n"
  shows "fst (pull_delta n e backend_url token folder_id w) \<noteq> Inl ENoFuel"
proof -
  have "fst (pull_loop n e backend_url token folder_id c ps w) \<noteq> Inl ENoFuel" if "nat (m - c) < n" for c ps w
    using that
  proof (induction n arbitrary: c ps w)
    case (Suc n)
    obtain r w1 where page: "pull_page e backend_url token folder_id c ps w = (r, w1)" by fastforce
    have "r \<noteq> Inl ENoFuel" using answersD [OF pull_page_answers page] .
    moreover have "fst (pull_loop n e backend_url token folder_id q ps' w1) \<noteq> Inl ENoFuel" if "r = Inr (Inr (q, ps'))" for q ps'
      using pull_page_progress [OF assms(1) page [unfolded that]] Suc.prems by (intro Suc.IH) linarith
    ultimately show ?case using page by (auto simp: try_op_def ret_def split: sum.split)
  qed simp
  from this [OF assms(2)] show ?thesis by (simp add: pull_delta_def with_state_def)
qed

text \<open>A server that answers 426 halts the pull: the error is \<open>UpdateRequired\<close> with the server's
  minimum protocol and message, and nothing local changed.\<close>

lemma pull_delta_upgrade_required:
  assumes "env_server e (w_sent w) (get_request (ops_url backend_url folder_id (get_cursor (w_db w) folder_id)) token)
      = Reply 426 (BodyTooOld min_protocol message)"
  shows "\<exists>w'. pull_delta (Suc n) e backend_url token folder_id w =
      (Inl (EUpdateRequired (protocol_too_old min_protocol message)), w') \<and> w_db w' = w_db w \<and> w_fs w' = w_fs w"
  using assms
  by (simp add: pull_delta_def with_state_def pull_page_def try_op_def send_def fail_def UPGRADE_REQUIRED_def
      update_required_from_response_def)

end
