(* ===== verification/Materialize.thy ===== *)
theory Materialize
  imports Op_Submit Delta_Pull
begin

text \<open>
  The daemon's file side of a pull (\<open>valvd/src/tasks.rs\<close>): where a node of the mirror lives on
  disk, how a pulled operation is applied there, how a version is downloaded, checked and written
  atomically, and the two sweeps over a mount that remove deleted nodes and materialise live ones.
  Walks up the parents are bounded by fuel (\<open>ENoFuel\<close>): a cycle of parents makes the program's
  loop run forever.  The breadth-first sweeps always end, see \<open>sweep_enough_fuel\<close>.
\<close>

section \<open>Context\<close>

text \<open>The fields of \<open>MountState\<close> and of the configuration that these functions read.  \<open>mc_token\<close> is
  the effective token.\<close>

record mount_ctx =
  mc_path :: path
  mc_folder :: string
  mc_scope :: "string option"
  mc_token :: "string option"
  mc_backend :: string
  mc_device_id :: string

datatype materialize_scope = Background | Full

section \<open>Paths of nodes\<close>

primrec node_segments :: "nat \<Rightarrow> local_node list \<Rightarrow> string option \<Rightarrow> string \<Rightarrow> string list \<Rightarrow>
    error + string list option" where
  "node_segments 0 nodes scope node_id segments = Inl ENoFuel"
| "node_segments (Suc n) nodes scope node_id segments =
     (case find_row ln_node_id node_id nodes of
        None \<Rightarrow> Inr None
      | Some node \<Rightarrow>
          if scope = Some (ln_node_id node) then Inr (Some segments)
          else (case ln_parent_id node of
              None \<Rightarrow> Inr (Some segments)
            | Some parent \<Rightarrow> node_segments n nodes scope parent (ln_name node # segments)))"

definition node_abs_path :: "local_node list \<Rightarrow> path \<Rightarrow> string option \<Rightarrow> string \<Rightarrow> error + path option" where
  "node_abs_path nodes mount_root scope node_id =
     (case node_segments (length nodes + 2) nodes scope node_id [] of
        Inl err \<Rightarrow> Inl err
      | Inr segments \<Rightarrow> Inr (map_option (foldl path_join mount_root) segments))"

definition ctx_path :: "mount_ctx \<Rightarrow> local_node list \<Rightarrow> string \<Rightarrow> path option io" where
  "ctx_path x nodes node_id = lift_result (node_abs_path nodes (mc_path x) (mc_scope x) node_id)"

text \<open>The path a renamed or moved node had before the operation.\<close>

definition pre_op_nodes :: "local_node list \<Rightarrow> pulled_node \<Rightarrow> local_node list" where
  "pre_op_nodes nodes pulled =
     update_rows (\<lambda>n. ln_node_id n = pn_node_id pulled)
       (\<lambda>n. n \<lparr> ln_name := (case pn_old_name pulled of Some old \<Rightarrow> old | None \<Rightarrow> ln_name n),
                ln_parent_id := pn_old_parent_id pulled \<rparr>) nodes"

definition pre_op_abs_path :: "local_node list \<Rightarrow> mount_ctx \<Rightarrow> pulled_node \<Rightarrow> path option io" where
  "pre_op_abs_path nodes x pulled =
     (if find_row ln_node_id (pn_node_id pulled) nodes = None then ret None
      else ctx_path x (pre_op_nodes nodes pulled) (pn_node_id pulled))"

definition load_nodes_by_id :: "mirror \<Rightarrow> string \<Rightarrow> local_node list" where
  "load_nodes_by_id db folder_id = filter (\<lambda>n. ln_folder_id n = folder_id) (db_nodes db)"

section \<open>Fetching and writing a version\<close>

definition require_token :: "string option \<Rightarrow> string io" where
  "require_token token = (case token of
      None \<Rightarrow> fail (EMsg ''mount_has_no_credential'') | Some t \<Rightarrow> ret t)"

definition fetch_remote_version :: "env \<Rightarrow> mount_ctx \<Rightarrow> string \<Rightarrow> string \<Rightarrow> remote_version io" where
  "fetch_remote_version e x node_id version_id =
     try_op (require_token (mc_token x)) (\<lambda>token.
     try_op (send e \<lparr> rq_method = GET, rq_url = folder_url (mc_backend x) (mc_folder x) (''/versions/'' @ node_id),
                      rq_bearer = Some token, rq_headers = [], rq_body = NoBody \<rparr>) (\<lambda>r.
     try_op (error_for_status r) (\<lambda>body. case body of
         BodyVersions versions \<Rightarrow> (case find (\<lambda>v. rv_version_id v = version_id) versions of
             None \<Rightarrow> fail (EMsg (''version '' @ version_id @ '' not found for node '' @ node_id))
           | Some v \<Rightarrow> ret v)
       | _ \<Rightarrow> fail EDecode)))"

definition check_version :: "env \<Rightarrow> remote_version \<Rightarrow> string \<Rightarrow> error + (remote_version \<times> string)" where
  "check_version e version bytes =
     (let actual_hash = manifest_content_hash (env_sha256 e) (rv_manifest version) in
      if actual_hash \<noteq> rv_content_hash version
      then Inl (EMsg (''content hash mismatch for version '' @ rv_version_id version @ '': expected ''
             @ rv_content_hash version @ '', got '' @ actual_hash))
      else if length bytes \<noteq> rv_size_bytes version
      then Inl (EMsg (''content size mismatch for version '' @ rv_version_id version @ '': expected ''
             @ string_of_nat (rv_size_bytes version) @ '', got '' @ string_of_nat (length bytes)))
      else Inr (version, bytes))"

definition download_verified_version :: "env \<Rightarrow> mount_ctx \<Rightarrow> string \<Rightarrow> string \<Rightarrow> (remote_version \<times> string) io" where
  "download_verified_version e x node_id version_id =
     try_op (fetch_remote_version e x node_id version_id) (\<lambda>version.
     try_op (require_token (mc_token x)) (\<lambda>token.
     try_op (download_chunks e (mc_backend x) token (rv_manifest version)) (\<lambda>bytes.
     lift_result (check_version e version bytes))))"

definition version_metadata :: "mount_ctx \<Rightarrow> string \<Rightarrow> remote_version \<Rightarrow> local_version" where
  "version_metadata x node_id version =
     \<lparr> lv_version_id = rv_version_id version, lv_node_id = node_id, lv_folder_id = mc_folder x,
       lv_content_hash = rv_content_hash version, lv_size_bytes = rv_size_bytes version,
       lv_manifest = rv_manifest version \<rparr>"

definition persist_version_metadata :: "mount_ctx \<Rightarrow> string \<Rightarrow> remote_version \<Rightarrow> unit io" where
  "persist_version_metadata x node_id version =
     try_op (on_db (upsert_version (version_metadata x node_id version))) (\<lambda>_.
     write_db (fold (\<lambda>c. mark_uploaded (cr_hash c) (cr_length c)) (rv_manifest version)))"

definition persist_materialized_version :: "env \<Rightarrow> mount_ctx \<Rightarrow> string \<Rightarrow> remote_version \<Rightarrow> unit io" where
  "persist_materialized_version e x node_id version =
     try_op (persist_version_metadata x node_id version) (\<lambda>_.
     try_op tick (\<lambda>t. write_db (mark_content_materialized (env_clock e t) (rv_version_id version))))"

definition create_parent :: "path \<Rightarrow> unit io" where
  "create_parent p = (case path_parent p of None \<Rightarrow> ret () | Some parent \<Rightarrow> on_fs (fs_create_dir_all parent))"

definition temp_name :: "string \<Rightarrow> string \<Rightarrow> string" where
  "temp_name file_name uuid = ''.'' @ file_name @ ''.valv-tmp-'' @ filter (\<lambda>c. c \<noteq> CHR ''-'') uuid"

definition write_atomic :: "env \<Rightarrow> path \<Rightarrow> string \<Rightarrow> unit io" where
  "write_atomic e p bytes =
     try_op (create_parent p) (\<lambda>_.
     case Option.bind (path_file_name p) to_str of
       None \<Rightarrow> fail (EMsg (''path has no valid file name: '' @ path_string p))
     | Some file_name \<Rightarrow>
         try_op (new_uuid e) (\<lambda>uuid.
         try_op tick (\<lambda>t.
         let temp_path = with_file_name p (temp_name file_name uuid) in
         match_op
           (try_op (on_fs (fs_write temp_path bytes (env_mtime e t))) (\<lambda>_.
            try_op (on_fs (fs_sync temp_path)) (\<lambda>_.
            on_fs (fs_rename temp_path p))))
           ret
           (\<lambda>err. match_op (on_fs (fs_remove_file temp_path)) (\<lambda>_. fail err) (\<lambda>_. fail err)))))"

definition materialize_version :: "env \<Rightarrow> mount_ctx \<Rightarrow> string \<Rightarrow> string \<Rightarrow> path \<Rightarrow> unit io" where
  "materialize_version e x node_id version_id p =
     try_op (download_verified_version e x node_id version_id) (\<lambda>(version, bytes).
     try_op (write_atomic e p bytes) (\<lambda>_.
     persist_materialized_version e x node_id version))"

definition download_and_store_version :: "env \<Rightarrow> mount_ctx \<Rightarrow> string \<Rightarrow> string \<Rightarrow> string io" where
  "download_and_store_version e x node_id version_id =
     try_op (download_verified_version e x node_id version_id) (\<lambda>(version, bytes).
     try_op (persist_version_metadata x node_id version) (\<lambda>_. ret bytes))"

section \<open>Applying one pulled operation\<close>

definition should_materialize_canonical ::
    "mount_ctx \<Rightarrow> local_node list \<Rightarrow> pulled_node \<Rightarrow> materialize_scope \<Rightarrow> bool io" where
  "should_materialize_canonical x nodes pulled scope =
     (if scope = Full then ret True
      else try_op (ctx_path x nodes (pn_node_id pulled)) (\<lambda>place. case place of
          None \<Rightarrow> ret False
        | Some p \<Rightarrow> with_state (\<lambda>w.
            ret (\<not> (has_materialized_content_for_node (w_db w) (pn_node_id pulled) \<and> \<not> path_exists (w_fs w) p)))))"

definition write_canonical_version :: "env \<Rightarrow> mount_ctx \<Rightarrow> local_node list \<Rightarrow> pulled_node \<Rightarrow> string \<Rightarrow> unit io" where
  "write_canonical_version e x nodes pulled version_id =
     try_op (ctx_path x nodes (pn_node_id pulled)) (\<lambda>place. case place of
         None \<Rightarrow> ret ()
       | Some p \<Rightarrow> materialize_version e x (pn_node_id pulled) version_id p)"

definition already_materialized :: "world \<Rightarrow> string \<Rightarrow> path \<Rightarrow> bool" where
  "already_materialized w version_id p =
     (has_materialized_content_for_version (w_db w) version_id \<and> path_exists (w_fs w) p)"

definition materialize_single_node :: "env \<Rightarrow> mount_ctx \<Rightarrow> local_node list \<Rightarrow> string \<Rightarrow> path \<Rightarrow> unit io" where
  "materialize_single_node e x nodes node_id p =
     (case find_row ln_node_id node_id nodes of
        None \<Rightarrow> ret ()
      | Some node \<Rightarrow>
          if ln_node_type node = ''folder'' then on_fs (fs_create_dir_all p)
          else (case ln_current_version_id node of
              None \<Rightarrow> ret ()
            | Some version_id \<Rightarrow> with_state (\<lambda>w.
                if already_materialized w version_id p then ret ()
                else materialize_version e x node_id version_id p)))"

definition create_pulled_folder :: "mount_ctx \<Rightarrow> local_node list \<Rightarrow> pulled_node \<Rightarrow> unit io" where
  "create_pulled_folder x nodes pulled =
     try_op (ctx_path x nodes (pn_node_id pulled)) (\<lambda>place. case place of
         None \<Rightarrow> ret () | Some p \<Rightarrow> on_fs (fs_create_dir_all p))"

definition materialize_pulled :: "env \<Rightarrow> mount_ctx \<Rightarrow> local_node list \<Rightarrow> pulled_node \<Rightarrow> materialize_scope \<Rightarrow> unit io" where
  "materialize_pulled e x nodes pulled scope = (case pn_new_version_id pulled of
       None \<Rightarrow> ret ()
     | Some version_id \<Rightarrow>
         try_op (should_materialize_canonical x nodes pulled scope) (\<lambda>should.
         if should then write_canonical_version e x nodes pulled version_id else ret ()))"

definition relocate_pulled :: "env \<Rightarrow> mount_ctx \<Rightarrow> local_node list \<Rightarrow> pulled_node \<Rightarrow> unit io" where
  "relocate_pulled e x nodes pulled =
     try_op (pre_op_abs_path nodes x pulled) (\<lambda>old. case old of
       None \<Rightarrow> ret ()
     | Some old_path \<Rightarrow>
         try_op (ctx_path x nodes (pn_node_id pulled)) (\<lambda>new. case new of
           None \<Rightarrow> ret ()
         | Some new_path \<Rightarrow>
             if old_path = new_path then ret ()
             else with_state (\<lambda>w.
               if path_exists (w_fs w) old_path
               then try_op (create_parent new_path) (\<lambda>_. on_fs (fs_rename old_path new_path))
               else materialize_single_node e x nodes (pn_node_id pulled) new_path)))"

text \<open>The daemon's own copies of the naming functions of \<open>op_submit.rs\<close>.\<close>

definition pulled_disambiguate_path :: "fs \<Rightarrow> path \<Rightarrow> error + path" where
  "pulled_disambiguate_path fs desired = disambiguate_conflict_path fs desired"

definition conflict_copy_path :: "fs \<Rightarrow> path \<Rightarrow> string \<Rightarrow> string \<Rightarrow> error + path" where
  "conflict_copy_path fs original_path device_name date =
     (case Option.bind (path_file_name original_path) to_str of
        None \<Rightarrow> Inl (EMsg (''path has no valid file name: '' @ path_string original_path))
      | Some file_name \<Rightarrow> pulled_disambiguate_path fs
          (with_file_name original_path (conflict_copy_name file_name device_name date)))"

definition date_of :: "string \<Rightarrow> string" where
  "date_of applied_at = takeWhile (\<lambda>c. c \<noteq> CHR ''T'') applied_at"

definition write_pulled_conflict_copy :: "env \<Rightarrow> mount_ctx \<Rightarrow> local_node list \<Rightarrow> pulled_node \<Rightarrow> unit io" where
  "write_pulled_conflict_copy e x nodes pulled =
     (if pn_actor_device_id pulled = mc_device_id x then ret ()
      else (case pn_new_version_id pulled of
          None \<Rightarrow> ret ()
        | Some version_id \<Rightarrow>
            try_op (ctx_path x nodes (pn_node_id pulled)) (\<lambda>place. case place of
              None \<Rightarrow> ret ()
            | Some canonical_path \<Rightarrow> with_state (\<lambda>w.
                try_op (lift_result (conflict_copy_path (w_fs w) canonical_path
                   (pn_actor_device_id pulled) (date_of (pn_applied_at pulled)))) (\<lambda>conflict_path.
                try_op (create_parent conflict_path) (\<lambda>_.
                try_op (download_and_store_version e x (pn_node_id pulled) version_id) (\<lambda>bytes.
                try_op tick (\<lambda>t. on_fs (fs_write conflict_path bytes (env_mtime e t))))))))))"

definition apply_pulled_fs_change ::
    "env \<Rightarrow> mount_ctx \<Rightarrow> local_node list \<Rightarrow> materialize_scope \<Rightarrow> pulled_node \<Rightarrow> unit io" where
  "apply_pulled_fs_change e x nodes scope pulled =
     (let op_type = pn_op_type pulled in
      if op_type = ''create'' \<and> pn_node_type pulled = ''folder'' then create_pulled_folder x nodes pulled
      else if op_type = ''create'' \<and> pn_node_type pulled = ''file'' then materialize_pulled e x nodes pulled scope
      else if op_type = ''rename'' \<or> op_type = ''move'' then relocate_pulled e x nodes pulled
      else if op_type = ''new_version'' \<and> pn_is_conflict_copy pulled
        then write_pulled_conflict_copy e x nodes pulled
      else if op_type = ''new_version'' then
        (if pn_old_version_id pulled = pn_new_version_id pulled then ret ()
         else materialize_pulled e x nodes pulled scope)
      else ret ())"

text \<open>An operation that cannot be applied is logged and the next one is tried.\<close>

definition apply_pulled_fs_changes :: "env \<Rightarrow> mount_ctx \<Rightarrow> pulled_node list \<Rightarrow> materialize_scope \<Rightarrow> unit io" where
  "apply_pulled_fs_changes e x pulled scope =
     (if pulled = [] then ret ()
      else with_state (\<lambda>w. let nodes = load_nodes_by_id (w_db w) (mc_folder x) in
        for_each pulled (\<lambda>p _. match_op (apply_pulled_fs_change e x nodes scope p) ret
          (\<lambda>err. if err = ENoFuel then fail ENoFuel else ret ())) ()))"

section \<open>Sweeps over the mount\<close>

text \<open>The nodes below the queued ones in breadth-first order, with their paths.  The hash map \<open>paths\<close>
  is kept in the queue, next to the identifiers: identifiers are keys, so an entry of it is
  written once, before the identifier is queued.\<close>

definition placed_children :: "local_node list \<Rightarrow> string \<times> path \<Rightarrow> (local_node \<times> path) list" where
  "placed_children nodes parent = map (\<lambda>n. (n, path_join (snd parent) (ln_name n)))
     (filter (\<lambda>n. ln_parent_id n = Some (fst parent)) nodes)"

definition queue_of :: "(local_node \<times> path) list \<Rightarrow> (string \<times> path) list" where
  "queue_of kids = map (\<lambda>(n, p). (ln_node_id n, p)) kids"

fun sweep :: "nat \<Rightarrow> local_node list \<Rightarrow> (string \<times> path) list \<Rightarrow> error + (local_node \<times> path) list" where
  "sweep fuel nodes [] = Inr []"
| "sweep 0 nodes (parent # queue) = Inl ENoFuel"
| "sweep (Suc n) nodes (parent # queue) =
     (let kids = placed_children nodes parent in
      case sweep n nodes (queue @ queue_of kids) of Inl err \<Rightarrow> Inl err | Inr rest \<Rightarrow> Inr (kids @ rest))"

definition sweep_mount :: "local_node list \<Rightarrow> path \<Rightarrow> local_node \<Rightarrow> (local_node \<times> path) list io" where
  "sweep_mount nodes mount_root seed = lift_result (sweep (length nodes) nodes [(ln_node_id seed, mount_root)])"

definition remove_deleted :: "local_node \<times> path \<Rightarrow> unit \<Rightarrow> unit io" where
  "remove_deleted np _ =
     match_op (on_fs (if ln_node_type (fst np) = ''folder'' then fs_remove_dir_all (snd np)
                      else fs_remove_file (snd np)))
       ret (\<lambda>err. if err = EIo NotFound then ret () else fail err)"

definition deleted_first_deepest :: "(local_node \<times> path) list \<Rightarrow> (local_node \<times> path) list" where
  "deleted_first_deepest found = rev (sort_key (\<lambda>np. length (snd np)) (filter (\<lambda>np. \<not> live (fst np)) found))"

definition cleanup_deleted_mount_paths :: "mount_ctx \<Rightarrow> unit io" where
  "cleanup_deleted_mount_paths x = with_state (\<lambda>w.
     let nodes = load_nodes_by_id (w_db w) (mc_folder x) in
     case find (\<lambda>n. ln_parent_id n = None) nodes of
       None \<Rightarrow> ret ()
     | Some seed \<Rightarrow>
         try_op (sweep_mount nodes (mc_path x) seed) (\<lambda>found.
         for_each (deleted_first_deepest found) remove_deleted ()))"

definition live_nodes_by_name :: "mirror \<Rightarrow> string \<Rightarrow> local_node list" where
  "live_nodes_by_name db folder_id =
     (let rows = filter (\<lambda>n. ln_folder_id n = folder_id \<and> live n) (db_nodes db) in
      sort_key ln_name (filter (\<lambda>n. ln_parent_id n = None) rows) @
      sort_key ln_name (filter (\<lambda>n. ln_parent_id n \<noteq> None) rows))"

definition materialize_found :: "env \<Rightarrow> mount_ctx \<Rightarrow> local_node \<times> path \<Rightarrow> unit \<Rightarrow> unit io" where
  "materialize_found e x np _ =
     (if ln_node_type (fst np) = ''folder'' then on_fs (fs_create_dir_all (snd np))
      else (case ln_current_version_id (fst np) of
          None \<Rightarrow> ret ()
        | Some version_id \<Rightarrow> with_state (\<lambda>w.
            if already_materialized w version_id (snd np) then ret ()
            else materialize_version e x (ln_node_id (fst np)) version_id (snd np))))"

definition materialize_mount_files :: "env \<Rightarrow> mount_ctx \<Rightarrow> unit io" where
  "materialize_mount_files e x =
     try_op (cleanup_deleted_mount_paths x) (\<lambda>_. with_state (\<lambda>w.
     let nodes = live_nodes_by_name (w_db w) (mc_folder x) in
     case find (\<lambda>n. ln_parent_id n = None) nodes of
       None \<Rightarrow> ret ()
     | Some seed \<Rightarrow>
         try_op (on_fs (fs_create_dir_all (mc_path x))) (\<lambda>_.
         try_op (sweep_mount nodes (mc_path x) seed) (\<lambda>found.
         for_each found (materialize_found e x) ()))))"

end
