(* ===== verification/Daemon.thy ===== *)
theory Daemon
  imports Local_Push Materialize
begin

text \<open>
  The daemon's state and its sync passes (\<open>valvd/src/main.rs\<close>, \<open>control.rs\<close>, \<open>tasks.rs\<close>): the list of
  mounts with their status, credentials and whether the server rejected them, backend health, one
  pull of a mount and one full sync.  \<open>dm_world\<close> is the state the engine works on; a mount's halt
  flag is put there for the engine's calls.  Fields behind an \<open>Arc\<close> are shared by the clones of a
  mount, so an update through a clone is an update of the listed mount with its path.  Errors are
  stored as values where the daemon stores their text.  Passes of one mount exclude each other by
  its \<open>sync_lock\<close>, so each is a function; a pass that does not end is \<open>ENoFuel\<close>.
\<close>

section \<open>State\<close>

record mount_state =
  ms_path :: string
  ms_folder_id :: string
  ms_grant_id :: "string option"
  ms_scope_node_id :: "string option"
  ms_mount_token :: "string option"
  ms_can_write :: bool
  ms_name :: string
  ms_active_syncs :: "32 word"
  ms_pending_ops :: nat
  ms_last_synced_at :: "string option"
  ms_update_required :: bool
  ms_update_required_flag :: bool
  ms_rejected :: bool
  ms_error :: "error option"
  ms_watcher_alive :: bool

record backend_health =
  bh_last_success_at :: int
  bh_last_failure_at :: int

record ws_push_notification =
  wp_folder_id :: string
  wp_server_seq :: int

record update_status =
  us_latest_version :: "string option"
  us_update_available :: "bool option"

record daemon_config =
  dc_backend_url :: string
  dc_device_id :: string
  dc_device_token :: "string option"
  dc_device_name :: string

text \<open>\<open>dm_tasks\<close> holds the paths of the mounts with running tasks, \<open>dm_notify\<close> the queue of each mount's
  notification channel, \<open>dm_woken\<close> the folders whose cursor waiters were woken.  The file provider's
  pending uploads and the deletions it holds back are sets in the code; here they are lists in the
  order of insertion.\<close>

record daemon =
  dm_world :: world
  dm_mounts :: "mount_state list"
  dm_paused :: bool
  dm_fs_events_paused :: bool
  dm_tasks :: "string list"
  dm_notify :: "(string \<times> ws_push_notification list) list"
  dm_account :: "account_status option"
  dm_principal :: "principal_status option"
  dm_device_token_rejected :: bool
  dm_update_status :: update_status
  dm_health :: backend_health
  dm_woken :: "string list"
  dm_pending_uploads :: "string list"
  dm_deferred_deletes :: "(string \<times> string list) list"

type_synonym 'a dio = "(daemon, 'a) comp"

definition on_world :: "'a io \<Rightarrow> 'a dio" where
  "on_world m d = (case m (dm_world d) of (r, w) \<Rightarrow> (r, d \<lparr> dm_world := w \<rparr>))"

primrec update_first :: "('a \<Rightarrow> bool) \<Rightarrow> ('a \<Rightarrow> 'a) \<Rightarrow> 'a list \<Rightarrow> 'a list" where
  "update_first P f [] = []"
| "update_first P f (x # xs) = (if P x then f x # xs else x # update_first P f xs)"

text \<open>\<open>mounts.iter_mut().find(|mount| mount.folder_id == folder_id)\<close>.\<close>

definition with_mount :: "string \<Rightarrow> (mount_state \<Rightarrow> mount_state) \<Rightarrow> unit dio" where
  "with_mount folder_id f =
     writes (\<lambda>d. d \<lparr> dm_mounts := update_first (\<lambda>m. ms_folder_id m = folder_id) f (dm_mounts d) \<rparr>)"

text \<open>A store through a shared field of a clone.\<close>

definition through_arc :: "mount_state \<Rightarrow> (mount_state \<Rightarrow> mount_state) \<Rightarrow> unit dio" where
  "through_arc m f =
     writes (\<lambda>d. d \<lparr> dm_mounts := update_rows (\<lambda>r. ms_path r = ms_path m) f (dm_mounts d) \<rparr>)"

text \<open>The error of a call as a value; a call that does not end is not an error.\<close>

definition attempt :: "'a dio \<Rightarrow> (error + 'a) dio" where
  "attempt m = match_op m (\<lambda>x. ret (Inr x)) (\<lambda>err. if err = ENoFuel then fail ENoFuel else ret (Inl err))"

fun error_of :: "error + 'a \<Rightarrow> error option" where
  "error_of (Inl err) = Some err"
| "error_of (Inr _) = None"

fun or_else :: "'a option \<Rightarrow> 'a option \<Rightarrow> 'a option" where
  "or_else None b = b"
| "or_else (Some a) b = Some a"

section \<open>Backend health\<close>

definition health_success :: "int \<Rightarrow> backend_health \<Rightarrow> backend_health" where
  "health_success now h = h \<lparr> bh_last_success_at := max now (bh_last_failure_at h) \<rparr>"

definition health_failure :: "int \<Rightarrow> backend_health \<Rightarrow> backend_health" where
  "health_failure now h = h \<lparr> bh_last_failure_at := max now (bh_last_success_at h + 1) \<rparr>"

definition is_connected :: "backend_health \<Rightarrow> bool" where
  "is_connected h = (bh_last_failure_at h \<le> bh_last_success_at h)"

definition current_unix_seconds :: "env \<Rightarrow> int dio" where
  "current_unix_seconds e = try_op (on_world tick) (\<lambda>t. ret (max 0 (env_unix e t)))"

definition record_success :: "env \<Rightarrow> unit dio" where
  "record_success e = try_op (current_unix_seconds e) (\<lambda>now.
     writes (\<lambda>d. d \<lparr> dm_health := health_success now (dm_health d) \<rparr>))"

definition record_failure :: "env \<Rightarrow> unit dio" where
  "record_failure e = try_op (current_unix_seconds e) (\<lambda>now.
     writes (\<lambda>d. d \<lparr> dm_health := health_failure now (dm_health d) \<rparr>))"

section \<open>Credentials\<close>

definition effective_token :: "daemon_config \<Rightarrow> mount_state \<Rightarrow> string option" where
  "effective_token cfg m = (case ms_mount_token m of Some t \<Rightarrow> Some t | None \<Rightarrow> dc_device_token cfg)"

definition non_empty_device_token :: "daemon_config \<Rightarrow> string option" where
  "non_empty_device_token cfg = (case dc_device_token cfg of
      Some t \<Rightarrow> if trim_ws t = [] then None else Some t | None \<Rightarrow> None)"

definition distinct_credential_tokens :: "daemon_config \<Rightarrow> daemon \<Rightarrow> string list" where
  "distinct_credential_tokens cfg d =
     fold (\<lambda>m tokens. case ms_mount_token m of
          Some t \<Rightarrow> if t \<in> set tokens then tokens else tokens @ [t]
        | None \<Rightarrow> tokens)
       (dm_mounts d) (case non_empty_device_token cfg of Some t \<Rightarrow> [t] | None \<Rightarrow> [])"

definition set_rejected :: "daemon_config \<Rightarrow> bool \<Rightarrow> string \<Rightarrow> daemon \<Rightarrow> daemon" where
  "set_rejected cfg b token d = d \<lparr>
     dm_device_token_rejected := (if non_empty_device_token cfg = Some token then b else dm_device_token_rejected d),
     dm_mounts := map (\<lambda>m. if ms_mount_token m = Some token then m \<lparr> ms_rejected := b \<rparr> else m) (dm_mounts d) \<rparr>"

definition mark_credential_rejected :: "daemon_config \<Rightarrow> string \<Rightarrow> unit dio" where
  "mark_credential_rejected cfg token = writes (set_rejected cfg True token)"

definition clear_credential_rejected :: "daemon_config \<Rightarrow> string \<Rightarrow> unit dio" where
  "clear_credential_rejected cfg token = writes (set_rejected cfg False token)"

datatype credential = CredAccount | CredAccessKey | CredNone | CredPending | CredRejected

definition compute_credential :: "daemon_config \<Rightarrow> daemon \<Rightarrow> credential" where
  "compute_credential cfg d =
     (let has_mount_token = list_ex (\<lambda>m. ms_mount_token m \<noteq> None) (dm_mounts d);
          any_mount_rejected = list_ex ms_rejected (dm_mounts d);
          has_device_token = non_empty_device_token cfg \<noteq> None in
      if dm_device_token_rejected d \<or> any_mount_rejected then CredRejected
      else if \<not> has_device_token \<and> \<not> has_mount_token then CredNone
      else (case map_option pr_type (dm_principal d) of
          Some AccountPrincipal \<Rightarrow> CredAccount
        | Some AccessKeyPrincipal \<Rightarrow> CredAccessKey
        | None \<Rightarrow> if \<not> has_device_token then CredAccessKey else CredPending))"

section \<open>Bookkeeping of a pass\<close>

definition saturating_succ :: "32 word \<Rightarrow> 32 word" where
  "saturating_succ n = (if n = - 1 then n else n + 1)"

definition saturating_pred :: "32 word \<Rightarrow> 32 word" where
  "saturating_pred n = (if n = 0 then 0 else n - 1)"

definition begin_mount_sync :: "string \<Rightarrow> unit dio" where
  "begin_mount_sync folder_id = with_mount folder_id (\<lambda>m.
     (if \<not> ms_update_required m \<and> \<not> ms_update_required_flag m then m \<lparr> ms_error := None \<rparr> else m)
       \<lparr> ms_active_syncs := saturating_succ (ms_active_syncs m) \<rparr>)"

definition end_mount_sync :: "env \<Rightarrow> string \<Rightarrow> error option \<Rightarrow> unit dio" where
  "end_mount_sync e folder_id error = try_op (on_world tick) (\<lambda>t. with_mount folder_id (\<lambda>m.
     let left = saturating_pred (ms_active_syncs m) in
     m \<lparr> ms_active_syncs := left, ms_error := error,
         ms_last_synced_at := (if left = 0 \<and> error = None then Some (env_clock e t) else ms_last_synced_at m) \<rparr>))"

definition mark_mount_update_required :: "string \<Rightarrow> unit dio" where
  "mark_mount_update_required folder_id =
     with_mount folder_id (\<lambda>m. m \<lparr> ms_update_required := True, ms_update_required_flag := True \<rparr>)"

definition set_mount_pending_ops :: "string \<Rightarrow> nat \<Rightarrow> unit dio" where
  "set_mount_pending_ops folder_id n = with_mount folder_id (\<lambda>m. m \<lparr> ms_pending_ops := n \<rparr>)"

definition pause_watchers :: "bool dio" where
  "pause_watchers d = (Inr (dm_fs_events_paused d), d \<lparr> dm_fs_events_paused := True \<rparr>)"

definition resume_watchers_after_debounce :: "bool \<Rightarrow> unit dio" where
  "resume_watchers_after_debounce was_paused =
     (if was_paused then ret () else writes (\<lambda>d. d \<lparr> dm_fs_events_paused := False \<rparr>))"

definition wake_cursor_waiters :: "mount_state \<Rightarrow> unit dio" where
  "wake_cursor_waiters m = writes (\<lambda>d. d \<lparr> dm_woken := dm_woken d @ [ms_folder_id m] \<rparr>)"

definition is_unauthenticated :: "error \<Rightarrow> bool" where
  "is_unauthenticated err = (err = EStatus 401)"

text \<open>What a failed call to the server says about the connection, the mount and the credential.\<close>

definition note_sync_failure :: "env \<Rightarrow> daemon_config \<Rightarrow> mount_state \<Rightarrow> string \<Rightarrow> error \<Rightarrow> unit dio" where
  "note_sync_failure e cfg m token err =
     (if is_update_required err \<noteq> None
      then try_op (record_success e) (\<lambda>_. mark_mount_update_required (ms_folder_id m))
      else if is_unauthenticated err
      then try_op (record_success e) (\<lambda>_. mark_credential_rejected cfg token)
      else record_failure e)"

definition mount_ctx_of :: "daemon_config \<Rightarrow> mount_state \<Rightarrow> mount_ctx" where
  "mount_ctx_of cfg m = \<lparr> mc_path = components (ms_path m), mc_folder = ms_folder_id m, mc_scope = ms_scope_node_id m,
     mc_token = effective_token cfg m, mc_backend = dc_backend_url cfg, mc_device_id = dc_device_id cfg \<rparr>"

definition push_ctx_of :: "daemon_config \<Rightarrow> mount_state \<Rightarrow> string \<Rightarrow> push_ctx" where
  "push_ctx_of cfg m token = \<lparr> px_root = components (ms_path m), px_folder = ms_folder_id m,
     px_scope = ms_scope_node_id m, px_backend = dc_backend_url cfg, px_token = token,
     px_device = dc_device_name cfg, px_has_flag = True \<rparr>"

text \<open>The engine sees the mount's halt flag as the flag of its world.\<close>

definition mount_flag :: "daemon \<Rightarrow> mount_state \<Rightarrow> bool" where
  "mount_flag d m = (case find (\<lambda>r. ms_path r = ms_path m) (dm_mounts d) of
      None \<Rightarrow> False | Some r \<Rightarrow> ms_update_required_flag r)"

definition with_halt_flag :: "mount_state \<Rightarrow> 'a io \<Rightarrow> 'a dio" where
  "with_halt_flag m run d =
     (case run ((dm_world d) \<lparr> w_flag := mount_flag d m \<rparr>) of (r, w) \<Rightarrow>
        (r, d \<lparr> dm_world := w, dm_mounts := update_rows (\<lambda>r. ms_path r = ms_path m)
               (\<lambda>r. r \<lparr> ms_update_required_flag := w_flag w \<rparr>) (dm_mounts d) \<rparr>))"

definition no_credential :: error where "no_credential = EMsg ''mount_has_no_credential''"

definition folder_cursor :: "mount_state \<Rightarrow> int dio" where
  "folder_cursor m = reads (\<lambda>d. get_cursor (w_db (dm_world d)) (ms_folder_id m))"

section \<open>A pull\<close>

definition apply_pull ::
    "env \<Rightarrow> daemon_config \<Rightarrow> mount_state \<Rightarrow> string \<Rightarrow> pulled_node list \<Rightarrow> error option dio" where
  "apply_pull e cfg m token pulled =
     try_op (record_success e) (\<lambda>_.
     try_op (clear_credential_rejected cfg token) (\<lambda>_.
     try_op pause_watchers (\<lambda>was_paused.
     try_op (attempt (on_world (cleanup_deleted_mount_paths (mount_ctx_of cfg m)))) (\<lambda>cleanup.
     try_op (attempt (on_world (apply_pulled_fs_changes e (mount_ctx_of cfg m) pulled Background))) (\<lambda>applied.
     try_op (resume_watchers_after_debounce was_paused) (\<lambda>_.
     ret (or_else (error_of applied) (error_of cleanup))))))))"

text \<open>The end of a pass: the outcome is recorded and waiters are woken when the cursor advanced.\<close>

definition finish_pass :: "env \<Rightarrow> mount_state \<Rightarrow> int \<Rightarrow> int \<Rightarrow> bool \<Rightarrow> error option \<Rightarrow> unit dio" where
  "finish_pass e m before after succeeded error =
     try_op (end_mount_sync e (ms_folder_id m) error) (\<lambda>_.
     if succeeded \<and> before < after then wake_cursor_waiters m else ret ())"

definition pull_mount_once :: "nat \<Rightarrow> env \<Rightarrow> daemon_config \<Rightarrow> mount_state \<Rightarrow> unit dio" where
  "pull_mount_once n e cfg m =
     (case effective_token cfg m of
        None \<Rightarrow> end_mount_sync e (ms_folder_id m) (Some no_credential)
      | Some token \<Rightarrow>
          try_op (begin_mount_sync (ms_folder_id m)) (\<lambda>_.
          try_op (folder_cursor m) (\<lambda>before.
          try_op (attempt (on_world (pull_delta n e (dc_backend_url cfg) token (ms_folder_id m)))) (\<lambda>result.
          case result of
            Inr (up_to_seq, pulled) \<Rightarrow>
              try_op (apply_pull e cfg m token pulled) (\<lambda>error.
              finish_pass e m before up_to_seq (error = None) error)
          | Inl err \<Rightarrow>
              try_op (note_sync_failure e cfg m token err) (\<lambda>_.
              finish_pass e m before before False (Some err))))))"

section \<open>A full sync\<close>

record sync_summary =
  sy_creates :: nat
  sy_versions :: nat
  sy_deletes :: nat
  sy_pulled_ops :: int
  sy_errors :: nat

definition empty_sync_summary :: sync_summary where
  "empty_sync_summary = \<lparr> sy_creates = 0, sy_versions = 0, sy_deletes = 0, sy_pulled_ops = 0, sy_errors = 0 \<rparr>"

definition add_errors :: "nat \<Rightarrow> sync_summary \<Rightarrow> sync_summary" where
  "add_errors n s = s \<lparr> sy_errors := sy_errors s + n \<rparr>"

definition merge_push_summary :: "sync_summary \<Rightarrow> push_summary \<Rightarrow> sync_summary" where
  "merge_push_summary s p = s \<lparr> sy_creates := sy_creates s + ps_creates p, sy_versions := sy_versions s + ps_versions p,
     sy_deletes := sy_deletes s + ps_deletes p, sy_errors := sy_errors s + ps_errors p \<rparr>"

definition merge_sync_summary :: "sync_summary \<Rightarrow> sync_summary \<Rightarrow> sync_summary" where
  "merge_sync_summary s t = \<lparr> sy_creates = sy_creates s + sy_creates t, sy_versions = sy_versions s + sy_versions t,
     sy_deletes = sy_deletes s + sy_deletes t, sy_pulled_ops = sy_pulled_ops s + sy_pulled_ops t,
     sy_errors = sy_errors s + sy_errors t \<rparr>"

definition forbidden_error :: error where
  "forbidden_error = EMsg ''a write to this mount was refused: insufficient permission''"

text \<open>After the pull of a full sync: the errors of both steps count, the first one is reported.\<close>

definition apply_full ::
    "env \<Rightarrow> daemon_config \<Rightarrow> mount_state \<Rightarrow> string \<Rightarrow> pulled_node list \<Rightarrow> (error option \<times> nat) dio" where
  "apply_full e cfg m token pulled =
     try_op (record_success e) (\<lambda>_.
     try_op (clear_credential_rejected cfg token) (\<lambda>_.
     try_op pause_watchers (\<lambda>was_paused.
     try_op (attempt (on_world (apply_pulled_fs_changes e (mount_ctx_of cfg m) pulled Full))) (\<lambda>applied.
     try_op (attempt (on_world (materialize_mount_files e (mount_ctx_of cfg m)))) (\<lambda>materialized.
     try_op (resume_watchers_after_debounce was_paused) (\<lambda>_.
     ret (or_else (error_of applied) (error_of materialized),
          (if error_of applied = None then 0 else 1) + (if error_of materialized = None then 0 else 1))))))))"

definition finish_full ::
    "env \<Rightarrow> mount_state \<Rightarrow> int \<Rightarrow> int \<Rightarrow> bool \<Rightarrow> error option \<Rightarrow> sync_summary \<Rightarrow> sync_summary dio" where
  "finish_full e m before after forbidden error summary =
     try_op (set_mount_pending_ops (ms_folder_id m) (sy_errors summary)) (\<lambda>_.
     try_op (finish_pass e m before after (error = None)
        (or_else error (if forbidden then Some forbidden_error else None))) (\<lambda>_.
     ret summary))"

definition pull_after_push ::
    "nat \<Rightarrow> env \<Rightarrow> daemon_config \<Rightarrow> mount_state \<Rightarrow> string \<Rightarrow> int \<Rightarrow> bool \<Rightarrow> sync_summary \<Rightarrow> sync_summary dio" where
  "pull_after_push n e cfg m token before forbidden summary =
     try_op (attempt (on_world (pull_delta n e (dc_backend_url cfg) token (ms_folder_id m)))) (\<lambda>result.
     case result of
       Inr (up_to_seq, pulled) \<Rightarrow>
         try_op (apply_full e cfg m token pulled) (\<lambda>(error, errors).
         finish_full e m before up_to_seq forbidden error
           (add_errors errors (summary \<lparr> sy_pulled_ops := up_to_seq \<rparr>)))
     | Inl err \<Rightarrow>
         try_op (note_sync_failure e cfg m token err) (\<lambda>_.
         finish_full e m before before forbidden (Some err) (add_errors 1 summary)))"

definition full_sync_mount :: "nat \<Rightarrow> nat \<Rightarrow> env \<Rightarrow> daemon_config \<Rightarrow> mount_state \<Rightarrow> sync_summary dio" where
  "full_sync_mount k n e cfg m =
     (case effective_token cfg m of
        None \<Rightarrow> try_op (end_mount_sync e (ms_folder_id m) (Some no_credential)) (\<lambda>_.
          ret (add_errors 1 empty_sync_summary))
      | Some token \<Rightarrow>
          try_op (begin_mount_sync (ms_folder_id m)) (\<lambda>_.
          try_op (if ms_update_required m then through_arc m (\<lambda>r. r \<lparr> ms_update_required_flag := True \<rparr>) else ret ()) (\<lambda>_.
          try_op (folder_cursor m) (\<lambda>before.
          try_op (attempt (with_halt_flag m (push_local_with_update_required k e (push_ctx_of cfg m token)))) (\<lambda>pushed.
          case pushed of
            Inr summary \<Rightarrow>
              try_op (clear_credential_rejected cfg token) (\<lambda>_.
              try_op (set_mount_pending_ops (ms_folder_id m) (ps_creates summary + ps_versions summary)) (\<lambda>_.
              pull_after_push n e cfg m token before (ps_forbidden summary)
                (merge_push_summary empty_sync_summary summary)))
          | Inl err \<Rightarrow>
              try_op (note_sync_failure e cfg m token err) (\<lambda>_.
              if is_update_required err \<noteq> None
              then try_op (set_mount_pending_ops (ms_folder_id m) 0) (\<lambda>_.
                   try_op (end_mount_sync e (ms_folder_id m) (Some err)) (\<lambda>_.
                   ret (add_errors 1 empty_sync_summary)))
              else pull_after_push n e cfg m token before False (add_errors 1 empty_sync_summary)))))))"

definition post_sync :: "nat \<Rightarrow> nat \<Rightarrow> env \<Rightarrow> daemon_config \<Rightarrow> string option \<Rightarrow> sync_summary dio" where
  "post_sync k n e cfg folder_id =
     (if folder_id = Some [] then fail (EBadRequest ''folder_id cannot be empty'')
      else with_state (\<lambda>d.
        for_each (filter (\<lambda>m. folder_id = None \<or> folder_id = Some (ms_folder_id m)) (dm_mounts d))
          (\<lambda>m summary. try_op (full_sync_mount k n e cfg m) (\<lambda>s. ret (merge_sync_summary summary s)))
          empty_sync_summary))"

end
