(* ===== verification/Releases.thy ===== *)
theory Releases
  imports World
begin

text \<open>
  The lookup of releases (\<open>valv-sync/src/update.rs\<close>): semantic versions and their order, the search
  for the latest release over the pages of the listing, and the checks on a downloaded archive.
  The minisign verification is a parameter; the archive's bytes come from the server.
\<close>

section \<open>Versions\<close>

datatype semver = Semver nat nat nat

text \<open>Rust compares the array \<open>[major, minor, patch]\<close> lexicographically.\<close>

instantiation semver :: linorder
begin

fun less_semver :: "semver \<Rightarrow> semver \<Rightarrow> bool" where
  "less_semver (Semver a b c) (Semver x y z) \<longleftrightarrow> a < x \<or> a = x \<and> (b < y \<or> b = y \<and> c < z)"

definition less_eq_semver :: "semver \<Rightarrow> semver \<Rightarrow> bool" where
  "less_eq_semver v w \<longleftrightarrow> v < w \<or> v = w"

instance
proof
  fix v w u :: semver
  show "v < w \<longleftrightarrow> v \<le> w \<and> \<not> w \<le> v"
    by (cases v; cases w) (auto simp: less_eq_semver_def)
  show "v \<le> v" by (simp add: less_eq_semver_def)
  show "v \<le> w \<Longrightarrow> w \<le> u \<Longrightarrow> v \<le> u"
    by (cases v; cases w; cases u) (auto simp: less_eq_semver_def)
  show "v \<le> w \<Longrightarrow> w \<le> v \<Longrightarrow> v = w"
    by (cases v; cases w) (auto simp: less_eq_semver_def)
  show "v \<le> w \<or> w \<le> v"
    by (cases v; cases w) (auto simp: less_eq_semver_def)
qed

end

definition parse_semver_prefix :: "string \<Rightarrow> semver option" where
  "parse_semver_prefix version =
     (let core = takeWhile (\<lambda>c. c \<noteq> CHR ''-'' \<and> c \<noteq> CHR ''+'') version in
      case map parse_u64 (split_char CHR ''.'' core) of
        [Some major, Some minor, Some patch] \<Rightarrow> Some (Semver major minor patch)
      | _ \<Rightarrow> None)"

definition is_newer_version :: "string \<Rightarrow> string \<Rightarrow> bool" where
  "is_newer_version candidate current =
     (case (parse_semver_prefix candidate, parse_semver_prefix current) of
        (Some a, Some b) \<Rightarrow> b < a | _ \<Rightarrow> False)"

section \<open>The latest release\<close>

datatype release_component = CliRelease | ValvdRelease

fun tag_prefix :: "release_component \<Rightarrow> string" where
  "tag_prefix CliRelease = ''cli-v''"
| "tag_prefix ValvdRelease = ''valvd-v''"

definition RELEASES_PAGE_SIZE :: nat where "RELEASES_PAGE_SIZE = 100"
definition MAX_RELEASES_PAGES :: nat where "MAX_RELEASES_PAGES = 20"

definition release_version :: "release_component \<Rightarrow> string \<Rightarrow> (semver \<times> string) option" where
  "release_version component tag = (case strip_prefix tag (tag_prefix component) of
       None \<Rightarrow> None
     | Some version \<Rightarrow> if version = [] then None
         else map_option (\<lambda>parsed. (parsed, version)) (parse_semver_prefix version))"

definition consider_release ::
    "release_component \<Rightarrow> string \<Rightarrow> (semver \<times> string) option \<Rightarrow> (semver \<times> string) option" where
  "consider_release component tag best = (case release_version component tag of
       None \<Rightarrow> best
     | Some (parsed, version) \<Rightarrow> (case best of
           None \<Rightarrow> Some (parsed, version)
         | Some (current, _) \<Rightarrow> if current < parsed then Some (parsed, version) else best))"

definition releases_request :: "string \<Rightarrow> string \<Rightarrow> nat \<Rightarrow> http_request" where
  "releases_request base repo page =
     \<lparr> rq_method = GET,
       rq_url = base @ ''/repos/'' @ repo @ ''/releases?per_page='' @ string_of_nat RELEASES_PAGE_SIZE
         @ ''&page='' @ string_of_nat page,
       rq_bearer = None, rq_headers = [(''User-Agent'', ''valv-update-check'')], rq_body = NoBody \<rparr>"

definition is_success :: "nat \<Rightarrow> bool" where
  "is_success status = (200 \<le> status \<and> status < 300)"

primrec release_pages :: "env \<Rightarrow> string \<Rightarrow> string \<Rightarrow> release_component \<Rightarrow> nat list \<Rightarrow>
    (semver \<times> string) option \<Rightarrow> (semver \<times> string) option io" where
  "release_pages e base repo component [] best = ret best"
| "release_pages e base repo component (page # pages) best =
     try_op (send e (releases_request base repo page)) (\<lambda>(status, body).
     if \<not> is_success status
     then fail (EMsg (''GitHub releases listing for '' @ repo @ '' returned '' @ string_of_nat status))
     else (case body of
         BodyReleases tags \<Rightarrow>
           let best' = fold (consider_release component) tags best in
           if length tags < RELEASES_PAGE_SIZE then ret best'
           else release_pages e base repo component pages best'
       | _ \<Rightarrow> fail EDecode))"

text \<open>\<open>pinned\<close> is the value of the environment variable that pins a version.\<close>

definition resolve_latest_version_from ::
    "env \<Rightarrow> string \<Rightarrow> string \<Rightarrow> release_component \<Rightarrow> string option \<Rightarrow> string io" where
  "resolve_latest_version_from e base repo component pinned =
     (case pinned of
        Some (c # cs) \<Rightarrow> ret (trim_start_char CHR ''v'' (c # cs))
      | _ \<Rightarrow>
        try_op (release_pages e base repo component [1..<Suc MAX_RELEASES_PAGES] None) (\<lambda>best. case best of
            None \<Rightarrow> fail (EMsg (''no '' @ tag_prefix component @ ''* release found for '' @ repo))
          | Some (_, version) \<Rightarrow> ret version))"

definition GITHUB_API_BASE :: string where "GITHUB_API_BASE = ''https://api.github.com''"

definition resolve_latest_version :: "env \<Rightarrow> string \<Rightarrow> release_component \<Rightarrow> string option \<Rightarrow> string io" where
  "resolve_latest_version e = resolve_latest_version_from e GITHUB_API_BASE"

section \<open>Assets\<close>

definition component_asset_name :: "string \<Rightarrow> string \<Rightarrow> string \<Rightarrow> string" where
  "component_asset_name binary_name version target = binary_name @ ''-'' @ version @ ''-'' @ target @ ''.tar.gz''"

definition component_release_base :: "string \<Rightarrow> release_component \<Rightarrow> string \<Rightarrow> string" where
  "component_release_base repo component version =
     ''https://github.com/'' @ repo @ ''/releases/download/'' @ tag_prefix component @ version"

definition detect_target :: "string \<Rightarrow> string \<Rightarrow> error + string" where
  "detect_target os arch =
     (if os = ''macos'' \<and> arch = ''aarch64'' then Inr ''aarch64-apple-darwin''
      else if os = ''linux'' \<and> arch = ''x86_64'' then Inr ''x86_64-unknown-linux-gnu''
      else Inl (EMsg (''unsupported platform '' @ os @ ''/'' @ arch)))"

definition download_release_asset :: "env \<Rightarrow> string \<Rightarrow> string io" where
  "download_release_asset e url =
     try_op (send e \<lparr> rq_method = GET, rq_url = url, rq_bearer = None,
                      rq_headers = [(''User-Agent'', ''valv-update-check'')], rq_body = NoBody \<rparr>) (\<lambda>(status, body).
     if \<not> is_success status then fail (EMsg (''failed to download '' @ url @ '': HTTP '' @ string_of_nat status))
     else (case body of BodyBytes bytes \<Rightarrow> ret bytes | _ \<Rightarrow> fail ETransport))"

text \<open>\<open>str::lines\<close> and \<open>str::split_whitespace\<close>.\<close>

definition text_lines :: "string \<Rightarrow> string list" where
  "text_lines s =
     (let ls = split_char (CHR 0x0A) s in
      map (\<lambda>l. if ends_with l [CHR 0x0D] then butlast l else l) (butlast ls)
        @ (if last ls = [] then [] else [last ls]))"

fun words_from :: "string \<Rightarrow> string \<Rightarrow> string list" where
  "words_from w [] = (if w = [] then [] else [w])"
| "words_from w (c # cs) =
     (if is_ascii_ws c then (if w = [] then words_from [] cs else w # words_from [] cs)
      else words_from (w @ [c]) cs)"

definition line_checksum :: "string \<Rightarrow> string \<Rightarrow> string option" where
  "line_checksum asset line = (case words_from [] line of
       hash # name # _ \<Rightarrow> if name = asset \<or> name = CHR ''*'' # asset then Some hash else None
     | _ \<Rightarrow> None)"

definition checksum_for_asset :: "string \<Rightarrow> string \<Rightarrow> string option" where
  "checksum_for_asset sha256sums asset =
     (case find (\<lambda>l. line_checksum asset l \<noteq> None) (text_lines sha256sums) of
        None \<Rightarrow> None | Some l \<Rightarrow> line_checksum asset l)"

definition verify_tarball_checksum :: "env \<Rightarrow> string \<Rightarrow> string \<Rightarrow> string \<Rightarrow> error + unit" where
  "verify_tarball_checksum e asset tarball sha256sums =
     (if \<not> valid_utf8 sha256sums then Inl (EMsg ''SHA256SUMS is not valid UTF-8'')
      else (case checksum_for_asset sha256sums asset of
          None \<Rightarrow> Inl (EMsg (''SHA256SUMS does not contain '' @ asset))
        | Some expected \<Rightarrow>
            if env_sha256 e tarball \<noteq> expected
            then Inl (EMsg (''checksum mismatch for '' @ asset @ '': expected '' @ expected @ '', got '' @ env_sha256 e tarball))
            else Inr ()))"

text \<open>\<open>minisign text signature\<close> stands for the verification with the embedded public key.\<close>

definition verify_sha256sums :: "(string \<Rightarrow> string \<Rightarrow> bool) \<Rightarrow> string \<Rightarrow> string \<Rightarrow> error + unit" where
  "verify_sha256sums minisign sha256sums minisig =
     (if \<not> valid_utf8 minisig then Inl (EMsg ''SHA256SUMS.minisig is not valid UTF-8'')
      else if minisign sha256sums minisig then Inr ()
      else Inl (EMsg ''SHA256SUMS.minisig does not verify against SHA256SUMS''))"

end
