(* ===== verification/Self_Update.thy ===== *)
theory Self_Update
  imports Releases
begin

text \<open>
  The daemon's self-update (\<open>valvd/src/self_update.rs\<close>): the archive is downloaded, its checksum and
  signature are checked, and the running binary is swapped for the extracted one, with the old one
  kept as a backup until the restart has been triggered.  \<open>tar\<close>, the service manager and the
  signature check are parameters; file modes are not modelled, so \<open>set_executable\<close> changes nothing
  when it succeeds.
\<close>

definition with_extension :: "path \<Rightarrow> string \<Rightarrow> path" where
  "with_extension p ext = (case path_file_name p of
      None \<Rightarrow> p
    | Some name \<Rightarrow> butlast p @ [(case file_stem_of name of None \<Rightarrow> name | Some stem \<Rightarrow> stem) @ ''.'' @ ext])"

definition attempt_io :: "'a io \<Rightarrow> (error + 'a) io" where
  "attempt_io m w = (case m w of (r, w') \<Rightarrow> (Inr r, w'))"

definition ignore_result :: "'a io \<Rightarrow> unit io" where
  "ignore_result m = try_op (attempt_io m) (\<lambda>_. ret ())"

definition remove_stale_backup :: "path \<Rightarrow> unit io" where
  "remove_stale_backup current_exe = ignore_result (on_fs (fs_remove_file (with_extension current_exe ''old'')))"

text \<open>\<open>current_exe\<close> is \<open>None\<close> where \<open>env::current_exe\<close> fails; \<open>os\<close> is the target of the build.\<close>

definition reap_stale_backup :: "path option \<Rightarrow> unit io" where
  "reap_stale_backup current_exe = (case current_exe of None \<Rightarrow> ret () | Some p \<Rightarrow> remove_stale_backup p)"

definition app_managed_bin_dir :: "string \<Rightarrow> string option \<Rightarrow> path option" where
  "app_managed_bin_dir os home =
     (if os = ''macos'' then map_option (\<lambda>h. path_join (components h) ''Library/Application Support/Valv/bin'') home
      else None)"

definition is_app_managed_install :: "string \<Rightarrow> string option \<Rightarrow> path option \<Rightarrow> bool" where
  "is_app_managed_install os home current_exe = (case app_managed_bin_dir os home of
      None \<Rightarrow> False
    | Some app_bin_dir \<Rightarrow> (case current_exe of
          None \<Rightarrow> False | Some p \<Rightarrow> path_parent p = Some app_bin_dir))"

definition restore_binary :: "path \<Rightarrow> path \<Rightarrow> unit io" where
  "restore_binary backup current = ignore_result (on_fs (fs_rename backup current))"

definition set_executable :: "path \<Rightarrow> unit io" where
  "set_executable p = with_state (\<lambda>w. case canonicalize (w_fs w) p of
      Inl err \<Rightarrow> fail err
    | Inr q \<Rightarrow> if fs_entry (w_fs w) q = None then fail (EIo NotFound)
        else if q \<in> set (fs_denied (w_fs w)) then fail (EIo PermissionDenied) else ret ())"

definition undo_swap :: "path \<Rightarrow> path \<Rightarrow> path \<Rightarrow> error \<Rightarrow> unit io" where
  "undo_swap backup_path current_exe extract_dir err =
     try_op (restore_binary backup_path current_exe) (\<lambda>_.
     try_op (ignore_result (on_fs (fs_remove_dir_all extract_dir))) (\<lambda>_. fail err))"

definition swap_and_restart :: "path \<Rightarrow> path \<Rightarrow> path \<Rightarrow> unit io \<Rightarrow> unit io" where
  "swap_and_restart current_exe staged_path extract_dir restart =
     (let backup_path = with_extension current_exe ''old'' in
      try_op (on_fs (fs_rename current_exe backup_path)) (\<lambda>_.
      match_op (try_op (on_fs (fs_rename staged_path current_exe)) (\<lambda>_. set_executable current_exe))
        (\<lambda>_. try_op (ignore_result (on_fs (fs_remove_dir_all extract_dir))) (\<lambda>_.
             match_op restart
               (\<lambda>_. ignore_result (on_fs (fs_remove_file backup_path)))
               (\<lambda>err. try_op (restore_binary backup_path current_exe) (\<lambda>_. fail err))))
        (undo_swap backup_path current_exe extract_dir)))"

text \<open>The bytes that pass both checks, with the name of the asset.\<close>

definition fetch_verified_release ::
    "env \<Rightarrow> (string \<Rightarrow> string \<Rightarrow> bool) \<Rightarrow> string \<Rightarrow> string \<Rightarrow> string \<Rightarrow> string \<Rightarrow> (string \<times> string) io" where
  "fetch_verified_release e minisign os arch repo latest_version =
     try_op (lift_result (detect_target os arch)) (\<lambda>target.
     let asset = component_asset_name ''valvd'' latest_version target;
         release_base = component_release_base repo ValvdRelease latest_version in
     try_op (download_release_asset e (release_base @ ''/'' @ asset)) (\<lambda>tarball.
     try_op (download_release_asset e (release_base @ ''/SHA256SUMS'')) (\<lambda>sha256sums.
     try_op (download_release_asset e (release_base @ ''/SHA256SUMS.minisig'')) (\<lambda>minisig.
     try_op (lift_result (verify_tarball_checksum e asset tarball sha256sums)) (\<lambda>_.
     try_op (lift_result (verify_sha256sums minisign sha256sums minisig)) (\<lambda>_.
     ret (asset, tarball)))))))"

definition install_release :: "(string \<Rightarrow> path io) \<Rightarrow> unit io \<Rightarrow> path option \<Rightarrow> string \<times> string \<Rightarrow> unit io" where
  "install_release extract_tarball restart current_exe release =
     try_op (extract_tarball (snd release)) (\<lambda>extract_dir.
     with_state (\<lambda>w.
     if \<not> path_exists (w_fs w) (path_join extract_dir ''valvd'')
     then try_op (ignore_result (on_fs (fs_remove_dir_all extract_dir))) (\<lambda>_.
          fail (EMsg (fst release @ '' did not contain valvd'')))
     else (case current_exe of
         None \<Rightarrow> fail (EMsg ''failed to determine current executable path'')
       | Some exe \<Rightarrow> swap_and_restart exe (path_join extract_dir ''valvd'') extract_dir restart)))"

definition attempt_self_update ::
    "env \<Rightarrow> (string \<Rightarrow> string \<Rightarrow> bool) \<Rightarrow> (string \<Rightarrow> path io) \<Rightarrow> unit io \<Rightarrow> string \<Rightarrow> string \<Rightarrow> path option \<Rightarrow>
     string \<Rightarrow> string \<Rightarrow> unit io" where
  "attempt_self_update e minisign extract_tarball restart os arch current_exe repo latest_version =
     try_op (fetch_verified_release e minisign os arch repo latest_version)
       (install_release extract_tarball restart current_exe)"

end
