(* ===== verification/Control.thy ===== *)
theory Control
  imports Daemon Self_Update
begin

text \<open>
  The daemon's status and control (\<open>valvd/src/control.rs\<close>, the polls of \<open>tasks.rs\<close>): what
  \<open>GET /status\<close> reports, pausing and resuming, and one round of the polls for the principal behind
  the credentials, the account's usage and a newer release.
\<close>

section \<open>Replies of the server\<close>

definition error_code :: "reply_body \<Rightarrow> string option" where
  "error_code body = (case body of
      BodyJson v \<Rightarrow> Option.bind (json_get v ''error'') json_as_str | _ \<Rightarrow> None)"

definition backend_response_or_error :: "nat \<times> reply_body \<Rightarrow> reply_body io" where
  "backend_response_or_error r =
     (if is_success (fst r) then ret (snd r) else fail (EBackend (fst r) (error_code (snd r))))"

definition api_get :: "env \<Rightarrow> string \<Rightarrow> string \<Rightarrow> string \<Rightarrow> (nat \<times> reply_body) io" where
  "api_get e backend_url token rest =
     send e \<lparr> rq_method = GET, rq_url = api_base backend_url @ rest, rq_bearer = Some token,
              rq_headers = [], rq_body = NoBody \<rparr>"

section \<open>Status\<close>

record mount_status =
  mt_path :: string
  mt_folder_id :: string
  mt_name :: string
  mt_scope_node_id :: "string option"
  mt_grant_id :: "string option"
  mt_can_write :: bool
  mt_syncing :: bool
  mt_pending_ops :: nat
  mt_last_synced_at :: "string option"
  mt_update_required :: bool
  mt_error :: "error option"
  mt_watcher_alive :: bool

record daemon_status =
  dt_paused :: bool
  dt_backend_connected :: bool
  dt_version :: string
  dt_update_required :: bool
  dt_mounts :: "mount_status list"
  dt_account :: "account_status option"
  dt_latest_version :: "string option"
  dt_update_available :: "bool option"
  dt_credential :: credential
  dt_principal :: "principal_status option"

definition mount_status_of :: "mount_state \<Rightarrow> mount_status" where
  "mount_status_of m =
     \<lparr> mt_path = ms_path m, mt_folder_id = ms_folder_id m, mt_name = ms_name m,
       mt_scope_node_id = ms_scope_node_id m, mt_grant_id = ms_grant_id m, mt_can_write = ms_can_write m,
       mt_syncing = (0 < ms_active_syncs m), mt_pending_ops = ms_pending_ops m,
       mt_last_synced_at = ms_last_synced_at m,
       mt_update_required = (ms_update_required m \<or> ms_update_required_flag m),
       mt_error = ms_error m, mt_watcher_alive = ms_watcher_alive m \<rparr>"

definition get_status :: "daemon_config \<Rightarrow> string \<Rightarrow> daemon \<Rightarrow> daemon_status" where
  "get_status cfg version d =
     (let mounts = map mount_status_of (dm_mounts d) in
      \<lparr> dt_paused = dm_paused d, dt_backend_connected = is_connected (dm_health d), dt_version = version,
        dt_update_required = list_ex mt_update_required mounts, dt_mounts = mounts, dt_account = dm_account d,
        dt_latest_version = us_latest_version (dm_update_status d),
        dt_update_available = us_update_available (dm_update_status d),
        dt_credential = compute_credential cfg d, dt_principal = dm_principal d \<rparr>)"

definition get_mounts :: "daemon \<Rightarrow> mount_status list" where
  "get_mounts d = map mount_status_of (dm_mounts d)"

section \<open>Pause and resume\<close>

definition post_pause :: "unit dio" where
  "post_pause = writes (\<lambda>d. d \<lparr> dm_paused := True \<rparr>)"

text \<open>The notification channel of a mount holds 32 entries; \<open>try_send\<close> on a full one is dropped.\<close>

definition NOTIFY_CAPACITY :: nat where "NOTIFY_CAPACITY = 32"

definition try_send :: "string \<Rightarrow> ws_push_notification \<Rightarrow> daemon \<Rightarrow> daemon" where
  "try_send path n d = d \<lparr> dm_notify := map (\<lambda>(p, q).
     (p, if p = path \<and> length q < NOTIFY_CAPACITY then q @ [n] else q)) (dm_notify d) \<rparr>"

definition catch_up :: "mount_state \<Rightarrow> ws_push_notification" where
  "catch_up m = \<lparr> wp_folder_id = ms_folder_id m, wp_server_seq = 0 \<rparr>"

definition post_resume :: "unit dio" where
  "post_resume = writes (\<lambda>d.
     let d' = d \<lparr> dm_paused := False \<rparr> in
     fold (\<lambda>m. try_send (ms_path m) (catch_up m)) (dm_mounts d') d')"

section \<open>The principal behind the credentials\<close>

record principal_poll =
  pp_type :: "principal_type option"
  pp_email :: "string option"
  pp_scopes :: "principal_scope list"
  pp_resolved :: bool

definition no_principal :: principal_poll where
  "no_principal = \<lparr> pp_type = None, pp_email = None, pp_scopes = [], pp_resolved = False \<rparr>"

definition add_principal :: "principal_status \<Rightarrow> principal_poll \<Rightarrow> principal_poll" where
  "add_principal p acc = (case pr_type p of
       AccountPrincipal \<Rightarrow> acc \<lparr> pp_resolved := True, pp_type := Some AccountPrincipal,
           pp_email := or_else (pr_email p) (pp_email acc) \<rparr>
     | AccessKeyPrincipal \<Rightarrow> acc \<lparr> pp_resolved := True, pp_type := or_else (pp_type acc) (Some AccessKeyPrincipal),
           pp_scopes := pp_scopes acc @ pr_scopes p \<rparr>)"

definition poll_principal ::
    "env \<Rightarrow> daemon_config \<Rightarrow> string \<Rightarrow> principal_poll \<Rightarrow> principal_poll dio" where
  "poll_principal e cfg token acc =
     try_op (attempt (on_world (api_get e (dc_backend_url cfg) token ''/me''))) (\<lambda>response. case response of
         Inl _ \<Rightarrow> ret acc
       | Inr (status, body) \<Rightarrow>
           if status = 401 then try_op (mark_credential_rejected cfg token) (\<lambda>_. ret acc)
           else if \<not> is_success status then ret acc
           else (case body of
               BodyPrincipal p \<Rightarrow>
                 try_op (clear_credential_rejected cfg token) (\<lambda>_. ret (add_principal p acc))
             | _ \<Rightarrow> ret acc))"

definition poll_principal_status_once :: "env \<Rightarrow> daemon_config \<Rightarrow> unit dio" where
  "poll_principal_status_once e cfg =
     (if dc_backend_url cfg = [] then ret ()
      else with_state (\<lambda>d.
        let tokens = distinct_credential_tokens cfg d in
        if tokens = [] then writes (\<lambda>d. d \<lparr> dm_principal := None \<rparr>)
        else try_op (for_each tokens (poll_principal e cfg) no_principal) (\<lambda>acc.
          case pp_type acc of
            Some t \<Rightarrow> if pp_resolved acc
              then writes (\<lambda>d. d \<lparr> dm_principal :=
                     Some \<lparr> pr_type = t, pr_email = pp_email acc, pr_scopes = pp_scopes acc \<rparr> \<rparr>)
              else ret ()
          | None \<Rightarrow> ret ())))"

section \<open>The account\<close>

datatype account_poll = AccountUpdated | AccountNotFound | AccountUnchanged

definition poll_account_status_once :: "env \<Rightarrow> daemon_config \<Rightarrow> account_poll dio" where
  "poll_account_status_once e cfg =
     (if dc_backend_url cfg = [] then ret AccountUnchanged
      else (case non_empty_device_token cfg of
          None \<Rightarrow> ret AccountUnchanged
        | Some device_token \<Rightarrow>
            try_op (attempt (on_world (try_op (api_get e (dc_backend_url cfg) device_token ''/account/usage'')
                backend_response_or_error))) (\<lambda>response. case response of
              Inr (BodyAccount account) \<Rightarrow>
                try_op (writes (\<lambda>d. d \<lparr> dm_account := Some account \<rparr>)) (\<lambda>_. ret AccountUpdated)
            | Inl (EBackend status _) \<Rightarrow>
                if status = 404 then try_op (writes (\<lambda>d. d \<lparr> dm_account := None \<rparr>)) (\<lambda>_. ret AccountNotFound)
                else ret AccountUnchanged
            | _ \<Rightarrow> ret AccountUnchanged)))"

text \<open>One round of \<open>account_status_loop\<close>: the polls and the number of seconds until the next round.\<close>

definition account_status_round :: "env \<Rightarrow> daemon_config \<Rightarrow> nat dio" where
  "account_status_round e cfg =
     try_op (poll_principal_status_once e cfg) (\<lambda>_.
     with_state (\<lambda>d.
     try_op (if compute_credential cfg d = CredAccount then poll_account_status_once e cfg
             else try_op (writes (\<lambda>d. d \<lparr> dm_account := None \<rparr>)) (\<lambda>_. ret AccountUnchanged)) (\<lambda>outcome.
     ret (if outcome = AccountNotFound then 60 * 60 else 5 * 60))))"

section \<open>Newer releases\<close>

definition apply_update_check_outcome :: "error + string \<Rightarrow> string \<Rightarrow> update_status \<Rightarrow> update_status" where
  "apply_update_check_outcome checked running_version u = (case checked of
      Inr latest_version \<Rightarrow> \<lparr> us_latest_version = Some latest_version,
          us_update_available = Some (is_newer_version latest_version running_version) \<rparr>
    | Inl _ \<Rightarrow> u)"

text \<open>\<open>should_spawn_update_check\<close> and \<open>should_attempt_self_update\<close> test a variable of the environment.\<close>

definition unless_one :: "string option \<Rightarrow> bool" where
  "unless_one v = (v \<noteq> Some ''1'')"

text \<open>\<open>self_update\<close> stands for \<open>attempt_self_update\<close> with the platform's parameters.\<close>

definition poll_update_status_once ::
    "env \<Rightarrow> string \<Rightarrow> string \<Rightarrow> string option \<Rightarrow> bool \<Rightarrow> string option \<Rightarrow> (string \<Rightarrow> unit io) \<Rightarrow> unit dio" where
  "poll_update_status_once e repo running_version pinned app_managed no_self_update self_update =
     try_op (attempt (on_world (resolve_latest_version e repo ValvdRelease pinned))) (\<lambda>checked.
     try_op (writes (\<lambda>d. d \<lparr> dm_update_status :=
        apply_update_check_outcome checked running_version (dm_update_status d) \<rparr>)) (\<lambda>_.
     case checked of
       Inl _ \<Rightarrow> ret ()
     | Inr latest_version \<Rightarrow>
         if is_newer_version latest_version running_version \<and> app_managed \<and> unless_one no_self_update
         then try_op (attempt (on_world (self_update latest_version))) (\<lambda>_. ret ())
         else ret ()))"

end
