(* ===== verification/Path_Resolution.thy ===== *)
theory Path_Resolution
  imports Control
begin

text \<open>
  From local paths to nodes and back (\<open>valvd/src/path_resolution.rs\<close>, \<open>nodes.rs\<close>): the mount a path
  lies in, the walk down the mirror by names, and the walk up by parents that names a node.  A
  \<open>PathBuf\<close> is the list of its components, the root as \<open>''/''\<close> and a leading \<open>.\<close> kept, as
  \<open>Path::components\<close> yields them.
\<close>

section \<open>Paths\<close>

definition path_parts :: "string \<Rightarrow> path" where
  "path_parts s =
     (if is_absolute s then ''/'' # components s
      else if hd (split_char CHR ''/'' s) = ''.'' then ''.'' # components s
      else components s)"

definition normal_component :: "string \<Rightarrow> bool" where
  "normal_component c = (c \<noteq> ''/'' \<and> c \<noteq> ''.'' \<and> c \<noteq> ''..'')"

text \<open>\<open>cwd\<close> is the daemon's working directory.  A trailing separator asks for a directory.\<close>

definition normalize_path :: "path \<Rightarrow> fs \<Rightarrow> string \<Rightarrow> string" where
  "normalize_path cwd fs s =
     (case (if s = [] then Inl (EIo NotFound)
            else canonicalize fs (if is_absolute s then components s else cwd @ components s)) of
        Inl _ \<Rightarrow> s
      | Inr q \<Rightarrow> if (ends_with s ''/'' \<or> ends_with s ''/.'') \<and> fs_entry fs q \<noteq> Some Dir then s else path_string q)"

section \<open>The node at a path\<close>

record resolved_path =
  rp_mount :: mount_state
  rp_folder_id :: string
  rp_node_id :: string

datatype path_error = NotInMount | NodeNotSynced

text \<open>\<open>Iterator::max_by_key\<close> returns the last maximum.\<close>

definition max_by_key :: "('a \<Rightarrow> nat) \<Rightarrow> 'a list \<Rightarrow> 'a option" where
  "max_by_key key xs = fold (\<lambda>x best. case best of
       None \<Rightarrow> Some x | Some y \<Rightarrow> if key y \<le> key x then Some x else Some y) xs None"

definition mount_match :: "path \<Rightarrow> fs \<Rightarrow> path \<Rightarrow> mount_state \<Rightarrow> (mount_state \<times> path \<times> nat) option" where
  "mount_match cwd fs local_path m =
     (let mount_path = path_parts (normalize_path cwd fs (ms_path m)) in
      map_option (\<lambda>relative. (m, relative, length mount_path)) (strip_path_prefix local_path mount_path))"

definition mount_of_path :: "path \<Rightarrow> fs \<Rightarrow> mount_state list \<Rightarrow> path \<Rightarrow> (mount_state \<times> path) option" where
  "mount_of_path cwd fs mounts local_path =
     map_option (\<lambda>(m, relative, _). (m, relative))
       (max_by_key (\<lambda>(_, _, count). count) (List.map_filter (mount_match cwd fs local_path) mounts))"

fun walk_names :: "mirror \<Rightarrow> string \<Rightarrow> string \<Rightarrow> path \<Rightarrow> path_error + string" where
  "walk_names db folder_id current [] = Inr current"
| "walk_names db folder_id current (c # cs) =
     (if \<not> normal_component c then walk_names db folder_id current cs
      else (case to_str c of
          None \<Rightarrow> Inl NodeNotSynced
        | Some name \<Rightarrow> (case get_node_by_parent_and_name db folder_id (Some current) name of
              None \<Rightarrow> Inl NodeNotSynced
            | Some n \<Rightarrow> walk_names db folder_id (ln_node_id n) cs)))"

definition top_node :: "mirror \<Rightarrow> mount_state \<Rightarrow> local_node option" where
  "top_node db m = (case ms_scope_node_id m of
       Some scope_node_id \<Rightarrow> get_node db scope_node_id
     | None \<Rightarrow> get_root_node db (ms_folder_id m))"

definition resolve_path_to_node ::
    "path \<Rightarrow> fs \<Rightarrow> mirror \<Rightarrow> mount_state list \<Rightarrow> string \<Rightarrow> path_error + resolved_path" where
  "resolve_path_to_node cwd fs db mounts s =
     (case mount_of_path cwd fs mounts (path_parts (normalize_path cwd fs s)) of
        None \<Rightarrow> Inl NotInMount
      | Some (m, relative) \<Rightarrow>
         (case top_node db m of
            None \<Rightarrow> Inl NodeNotSynced
          | Some start \<Rightarrow>
             (case walk_names db (ms_folder_id m) (ln_node_id start) relative of
                Inl err \<Rightarrow> Inl err
              | Inr node_id \<Rightarrow> Inr \<lparr> rp_mount = m, rp_folder_id = ms_folder_id m, rp_node_id = node_id \<rparr>)))"

section \<open>The path of a node\<close>

primrec name_segments :: "nat \<Rightarrow> mirror \<Rightarrow> string option \<Rightarrow> string \<Rightarrow> string list \<Rightarrow> error + string list" where
  "name_segments 0 db scope node_id segments = Inl ENoFuel"
| "name_segments (Suc i) db scope node_id segments =
     (case get_node db node_id of
        None \<Rightarrow> Inr segments
      | Some node \<Rightarrow>
          if scope = Some (ln_node_id node) then Inr segments
          else (case ln_parent_id node of
              None \<Rightarrow> Inr segments
            | Some parent \<Rightarrow> name_segments i db scope parent (ln_name node # segments)))"

definition resolve_node_path :: "mirror \<Rightarrow> string \<Rightarrow> string option \<Rightarrow> error + string" where
  "resolve_node_path db node_id scope =
     (case name_segments (length (db_nodes db) + 2) db scope node_id [] of
        Inl err \<Rightarrow> Inl err | Inr segments \<Rightarrow> Inr (intercalate ''/'' segments))"

section \<open>Handlers\<close>

definition get_node_path :: "string \<Rightarrow> string dio" where
  "get_node_path node_id = with_state (\<lambda>d.
     let db = w_db (dm_world d) in
     case get_node db node_id of
       None \<Rightarrow> fail (EMissing ''node_not_found'')
     | Some node \<Rightarrow>
         let scope = Option.bind (find (\<lambda>m. ms_folder_id m = ln_folder_id node) (dm_mounts d)) ms_scope_node_id in
         lift_result (resolve_node_path db node_id scope))"

definition get_node_by_path :: "path \<Rightarrow> string \<Rightarrow> string dio" where
  "get_node_by_path cwd s =
     (if trim_ws s = [] then fail (EBadRequest ''path is required'')
      else with_state (\<lambda>d.
        case resolve_path_to_node cwd (w_fs (dm_world d)) (w_db (dm_world d)) (dm_mounts d) s of
          Inl NotInMount \<Rightarrow> fail (EMissing ''not_in_mount'')
        | Inl NodeNotSynced \<Rightarrow> fail (EMissing ''node_not_synced'')
        | Inr r \<Rightarrow> ret (rp_node_id r)))"

end
