(* ===== verification/Sync_Loop.thy ===== *)
theory Sync_Loop
  imports Control
begin

text \<open>
  The background loop of a mount (\<open>sync_loop\<close> of \<open>valvd/src/tasks.rs\<close>): the wakes it selects on, the
  dirty mark it shares with the watcher, and the watcher's restarts with their backoff.  Each arm of
  the \<open>select!\<close> is a function; \<open>loop_step\<close> interleaves them with what happens outside the loop
  (the watcher's death, which the loop handles in a later step, marks, notifications, pauses, the
  mount's removal, the clock).  Times are milliseconds.  The run
  of a pass is one step: marks made while it runs are steps after it, as \<open>take\<close> comes first.
\<close>

section \<open>The watcher's backoff\<close>

definition WATCHER_LIVENESS_THRESHOLD :: nat where "WATCHER_LIVENESS_THRESHOLD = 3000"
definition WATCHER_RESPAWN_INITIAL_BACKOFF :: nat where "WATCHER_RESPAWN_INITIAL_BACKOFF = 1000"
definition WATCHER_RESPAWN_MAX_BACKOFF :: nat where "WATCHER_RESPAWN_MAX_BACKOFF = 30000"
definition WS_NOTIFY_DEBOUNCE :: nat where "WS_NOTIFY_DEBOUNCE = 1000"

definition next_watcher_backoff :: "nat \<Rightarrow> nat \<Rightarrow> nat" where
  "next_watcher_backoff previous lived =
     (if WATCHER_LIVENESS_THRESHOLD \<le> lived then 0
      else if previous = 0 then WATCHER_RESPAWN_INITIAL_BACKOFF
      else min (previous * 2) WATCHER_RESPAWN_MAX_BACKOFF)"

section \<open>The state of the loop\<close>

text \<open>\<open>sl_dirty\<close> and \<open>sl_permit\<close> are the two parts of the mount's \<open>DirtySignal\<close>; \<open>sl_handle\<close> says that
  the loop holds a watcher's handle, \<open>sl_alive\<close> that the task behind it still runs (it may have ended
  without the loop having seen it), \<open>sl_debouncing\<close> that the loop sleeps after a dirty wake.\<close>

record sync_task =
  sl_now :: nat
  sl_handle :: bool
  sl_alive :: bool
  sl_spawned_at :: nat
  sl_backoff :: nat
  sl_respawn_at :: "nat option"
  sl_notify_deadline :: "nat option"
  sl_dirty :: bool
  sl_permit :: bool
  sl_debouncing :: bool

definition mark_dirty :: "sync_task \<Rightarrow> sync_task" where
  "mark_dirty t = t \<lparr> sl_dirty := True, sl_permit := True \<rparr>"

definition new_sync_task :: "nat \<Rightarrow> sync_task" where
  "new_sync_task now = \<lparr> sl_now = now, sl_handle = True, sl_alive = True, sl_spawned_at = now, sl_backoff = 0,
     sl_respawn_at = None, sl_notify_deadline = None, sl_dirty = False, sl_permit = False,
     sl_debouncing = False \<rparr>"

section \<open>Starting and stopping\<close>

definition map_remove :: "string \<Rightarrow> (string \<times> 'a) list \<Rightarrow> (string \<times> 'a) list" where
  "map_remove k xs = filter (\<lambda>x. fst x \<noteq> k) xs"

definition spawn_tasks_for_mount :: "daemon_config \<Rightarrow> nat \<Rightarrow> mount_state \<Rightarrow> sync_task option dio" where
  "spawn_tasks_for_mount cfg now m = (case effective_token cfg m of
      None \<Rightarrow> try_op (through_arc m (\<lambda>r. r \<lparr> ms_watcher_alive := False \<rparr>)) (\<lambda>_. ret None)
    | Some _ \<Rightarrow> try_op (writes (\<lambda>d. d \<lparr>
          dm_notify := (ms_path m, []) # map_remove (ms_path m) (dm_notify d),
          dm_tasks := (if ms_path m \<in> set (dm_tasks d) then dm_tasks d else ms_path m # dm_tasks d) \<rparr>)) (\<lambda>_.
        ret (Some (new_sync_task now))))"

definition cancel_tasks_for_mount :: "string \<Rightarrow> unit dio" where
  "cancel_tasks_for_mount p = writes (\<lambda>d. d \<lparr> dm_tasks := filter (\<lambda>q. q \<noteq> p) (dm_tasks d),
     dm_notify := map_remove p (dm_notify d) \<rparr>)"

definition cancel_mount_tasks :: "unit dio" where
  "cancel_mount_tasks = writes (\<lambda>d. d \<lparr> dm_tasks := [], dm_notify := [] \<rparr>)"

section \<open>The arms of the loop\<close>

definition on_notification :: "mount_state \<Rightarrow> ws_push_notification \<Rightarrow> sync_task \<Rightarrow> sync_task" where
  "on_notification m n t =
     (if wp_folder_id n \<noteq> ms_folder_id m then t
      else if wp_server_seq n = 0 then mark_dirty t
      else t \<lparr> sl_notify_deadline := or_else (sl_notify_deadline t) (Some (sl_now t + WS_NOTIFY_DEBOUNCE)) \<rparr>)"

definition respawn_watcher :: "daemon_config \<Rightarrow> mount_state \<Rightarrow> sync_task \<Rightarrow> sync_task dio" where
  "respawn_watcher cfg m t = (case effective_token cfg m of
      None \<Rightarrow> let backoff = next_watcher_backoff (sl_backoff t) 0 in
        ret (t \<lparr> sl_backoff := backoff, sl_respawn_at := Some (sl_now t + backoff) \<rparr>)
    | Some _ \<Rightarrow> with_state (\<lambda>d.
        if ms_path m \<notin> set (dm_tasks d) then ret t
        else try_op (through_arc m (\<lambda>r. r \<lparr> ms_watcher_alive := True \<rparr>)) (\<lambda>_.
             ret (mark_dirty (t \<lparr> sl_handle := True, sl_alive := True, sl_spawned_at := sl_now t \<rparr>)))))"

definition handle_watcher_exit :: "daemon_config \<Rightarrow> mount_state \<Rightarrow> sync_task \<Rightarrow> sync_task dio" where
  "handle_watcher_exit cfg m t =
     try_op (through_arc m (\<lambda>r. r \<lparr> ms_watcher_alive := False \<rparr>)) (\<lambda>_.
     let t' = mark_dirty t;
         backoff = next_watcher_backoff (sl_backoff t') (sl_now t' - sl_spawned_at t');
         t'' = t' \<lparr> sl_backoff := backoff, sl_handle := False \<rparr> in
     if backoff = 0 then respawn_watcher cfg m t''
     else ret (t'' \<lparr> sl_respawn_at := Some (sl_now t'' + backoff) \<rparr>))"

text \<open>A full sync if the mark is set; otherwise what the wake falls back to.\<close>

definition reconcile_if_dirty ::
    "nat \<Rightarrow> nat \<Rightarrow> env \<Rightarrow> daemon_config \<Rightarrow> mount_state \<Rightarrow> unit dio \<Rightarrow> sync_task \<Rightarrow> sync_task dio" where
  "reconcile_if_dirty k n e cfg m otherwise t =
     (if sl_dirty t
      then try_op (full_sync_mount k n e cfg m) (\<lambda>_. ret (t \<lparr> sl_dirty := False \<rparr>))
      else try_op otherwise (\<lambda>_. ret t))"

definition periodic_wake :: "nat \<Rightarrow> nat \<Rightarrow> env \<Rightarrow> daemon_config \<Rightarrow> mount_state \<Rightarrow> sync_task \<Rightarrow> sync_task dio" where
  "periodic_wake k n e cfg m t = with_state (\<lambda>d.
     if dm_paused d then ret t
     else reconcile_if_dirty k n e cfg m (pull_mount_once n e cfg m) t)"

definition dirty_wake :: "sync_task \<Rightarrow> sync_task dio" where
  "dirty_wake t = with_state (\<lambda>d.
     ret (t \<lparr> sl_permit := False, sl_debouncing := \<not> dm_paused d \<rparr>))"

definition debounced :: "nat \<Rightarrow> nat \<Rightarrow> env \<Rightarrow> daemon_config \<Rightarrow> mount_state \<Rightarrow> sync_task \<Rightarrow> sync_task dio" where
  "debounced k n e cfg m t = reconcile_if_dirty k n e cfg m (ret ()) (t \<lparr> sl_debouncing := False \<rparr>)"

section \<open>Steps\<close>

type_synonym loop_state = "daemon \<times> sync_task"

inductive loop_step :: "nat \<Rightarrow> nat \<Rightarrow> env \<Rightarrow> daemon_config \<Rightarrow> mount_state \<Rightarrow> loop_state \<Rightarrow> loop_state \<Rightarrow> bool"
  for k n :: nat and e :: env and cfg :: daemon_config and m :: mount_state where
  tick_arm: "\<lbrakk>\<not> sl_debouncing t; periodic_wake k n e cfg m t d = (Inr t', d')\<rbrakk>
    \<Longrightarrow> loop_step k n e cfg m (d, t) (d', t')"
| notification_arm: "\<lbrakk>\<not> sl_debouncing t; map_of (dm_notify d) (ms_path m) = Some (x # q)\<rbrakk>
    \<Longrightarrow> loop_step k n e cfg m (d, t)
          (d \<lparr> dm_notify := (ms_path m, q) # map_remove (ms_path m) (dm_notify d) \<rparr>, on_notification m x t)"
| deadline_arm: "\<lbrakk>\<not> sl_debouncing t; sl_notify_deadline t = Some due; due \<le> sl_now t;
      periodic_wake k n e cfg m (t \<lparr> sl_notify_deadline := None \<rparr>) d = (Inr t', d')\<rbrakk>
    \<Longrightarrow> loop_step k n e cfg m (d, t) (d', t')"
| dirty_arm: "\<lbrakk>\<not> sl_debouncing t; sl_permit t; dirty_wake t d = (Inr t', d')\<rbrakk>
    \<Longrightarrow> loop_step k n e cfg m (d, t) (d', t')"
| debounce_over: "\<lbrakk>sl_debouncing t; debounced k n e cfg m t d = (Inr t', d')\<rbrakk>
    \<Longrightarrow> loop_step k n e cfg m (d, t) (d', t')"
| watcher_dies: "sl_alive t \<Longrightarrow> loop_step k n e cfg m (d, t) (d, t \<lparr> sl_alive := False \<rparr>)"
| watcher_exits: "\<lbrakk>\<not> sl_debouncing t; sl_handle t; \<not> sl_alive t; handle_watcher_exit cfg m t d = (Inr t', d')\<rbrakk>
    \<Longrightarrow> loop_step k n e cfg m (d, t) (d', t')"
| respawn_arm: "\<lbrakk>\<not> sl_debouncing t; sl_respawn_at t = Some due; due \<le> sl_now t;
      respawn_watcher cfg m (t \<lparr> sl_respawn_at := None \<rparr>) d = (Inr t', d')\<rbrakk>
    \<Longrightarrow> loop_step k n e cfg m (d, t) (d', t')"
| time_passes: "sl_now t \<le> now \<Longrightarrow> loop_step k n e cfg m (d, t) (d, t \<lparr> sl_now := now \<rparr>)"
| marked: "loop_step k n e cfg m (d, t) (d, mark_dirty t)"
| notified: "loop_step k n e cfg m (d, t) (try_send p x d, t)"
| paused: "post_pause d = (Inr (), d') \<Longrightarrow> loop_step k n e cfg m (d, t) (d', t)"
| resumed: "post_resume d = (Inr (), d') \<Longrightarrow> loop_step k n e cfg m (d, t) (d', t)"
| torn_down: "cancel_tasks_for_mount p d = (Inr (), d') \<Longrightarrow> loop_step k n e cfg m (d, t) (d', t)"

inductive_cases loop_stepE: "loop_step k n e cfg m (d, t) (d', t')"

inductive loop_reach ::
    "nat \<Rightarrow> nat \<Rightarrow> env \<Rightarrow> daemon_config \<Rightarrow> mount_state \<Rightarrow> loop_state \<Rightarrow> loop_state \<Rightarrow> bool"
  for k n :: nat and e :: env and cfg :: daemon_config and m :: mount_state and start :: loop_state where
  start: "loop_reach k n e cfg m start start"
| step: "\<lbrakk>loop_reach k n e cfg m start s; loop_step k n e cfg m s s'\<rbrakk> \<Longrightarrow> loop_reach k n e cfg m start s'"

end
