(* ===== verification/Mounts.thy ===== *)
theory Mounts
  imports Path_Resolution Sync_Loop
begin

text \<open>
  Mounting and unmounting (\<open>valvd/src/mounts.rs\<close>), and the mounts at the daemon's start
  (\<open>main.rs\<close>, \<open>config.rs\<close>): the configuration, the canonical paths of the persisted mounts and the
  mounts the configuration adds.  The TOML parser is not modelled: a configuration is its raw record.
\<close>

section \<open>Responses\<close>

definition error_status :: "error \<Rightarrow> nat" where
  "error_status err = (case err of
      EBadRequest _ \<Rightarrow> 400 | EMissing _ \<Rightarrow> 404 | EConflict _ \<Rightarrow> 409 | EBackend status _ \<Rightarrow> status
    | EUpdateRequired _ \<Rightarrow> 426 | _ \<Rightarrow> 500)"

definition require_credential :: "string option \<Rightarrow> string dio" where
  "require_credential token = (case token of
      None \<Rightarrow> fail (EBadRequest ''mount_has_no_credential'') | Some t \<Rightarrow> ret t)"

section \<open>Mounting\<close>

record mount_request =
  mq_path :: string
  mq_folder_id :: "string option"
  mq_grant_token :: "string option"

record resolved_mount =
  rm_folder_id :: string
  rm_grant_id :: "string option"
  rm_scope_node_id :: "string option"
  rm_mount_token :: "string option"
  rm_can_write :: bool

record mount_response =
  mr_folder_id :: string
  mr_grant_id :: "string option"
  mr_scope_node_id :: "string option"
  mr_path :: string

definition whole_folder :: "string \<Rightarrow> resolved_mount" where
  "whole_folder folder_id = \<lparr> rm_folder_id = folder_id, rm_grant_id = None, rm_scope_node_id = None,
     rm_mount_token = None, rm_can_write = True \<rparr>"

definition new_folder_name :: "string \<Rightarrow> string" where
  "new_folder_name s = (case Option.bind (path_file_name (path_parts s)) to_str of
      Some name \<Rightarrow> if name = [] \<or> name = ''/'' \<or> name = ''.'' then ''Valv Folder'' else name
    | None \<Rightarrow> ''Valv Folder'')"

definition resolve_mount :: "env \<Rightarrow> daemon_config \<Rightarrow> mount_request \<Rightarrow> resolved_mount dio" where
  "resolve_mount e cfg req =
     (case mq_grant_token req of
        Some grant_token \<Rightarrow>
          try_op (on_world (try_op (api_get e (dc_backend_url cfg) grant_token ''/grants'') backend_response_or_error)) (\<lambda>body.
          case body of
            BodyGrants (g # _) \<Rightarrow> ret \<lparr> rm_folder_id = gl_folder_id g, rm_grant_id = Some (gl_grant_id g),
                rm_scope_node_id = Some (gl_scope_node_id g), rm_mount_token = Some grant_token,
                rm_can_write = gl_can_write g \<rparr>
          | BodyGrants [] \<Rightarrow> fail (EMissing ''grant token has no accessible grants'')
          | _ \<Rightarrow> fail EDecode)
      | None \<Rightarrow>
         (case mq_folder_id req of
            Some folder_id \<Rightarrow> ret (whole_folder folder_id)
          | None \<Rightarrow>
              try_op (require_credential (dc_device_token cfg)) (\<lambda>device_token.
              try_op (on_world (try_op (send e \<lparr> rq_method = POST, rq_url = api_base (dc_backend_url cfg) @ ''/folders'',
                  rq_bearer = Some device_token, rq_headers = [], rq_body = FolderBody (new_folder_name (mq_path req)) \<rparr>)
                  backend_response_or_error)) (\<lambda>body.
              case body of BodyFolderId folder_id \<Rightarrow> ret (whole_folder folder_id) | _ \<Rightarrow> fail EDecode))))"

definition local_mount_name :: "mirror \<Rightarrow> resolved_mount \<Rightarrow> string option" where
  "local_mount_name db r =
     (let effective_scope_node = (case rm_scope_node_id r of
          Some scope_node_id \<Rightarrow> get_node db scope_node_id | None \<Rightarrow> get_root_node db (rm_folder_id r)) in
      Option.bind effective_scope_node (\<lambda>node. if ln_name node \<noteq> [] then Some (ln_name node) else None))"

definition fetch_folder_name :: "env \<Rightarrow> daemon_config \<Rightarrow> string \<Rightarrow> string \<Rightarrow> string dio" where
  "fetch_folder_name e cfg folder_id token =
     try_op (on_world (try_op (api_get e (dc_backend_url cfg) token (''/folders/'' @ folder_id))
        backend_response_or_error)) (\<lambda>body.
     case body of BodyFolderName name \<Rightarrow> ret name | _ \<Rightarrow> fail EDecode)"

definition validate_mount_request :: "mount_request \<Rightarrow> unit dio" where
  "validate_mount_request req =
     (if trim_ws (mq_path req) = [] then fail (EBadRequest ''path is required'')
      else if mq_folder_id req = Some [] then fail (EBadRequest ''folder_id cannot be empty'')
      else if mq_grant_token req = Some [] then fail (EBadRequest ''grant_token cannot be empty'')
      else if mq_folder_id req \<noteq> None \<and> mq_grant_token req \<noteq> None
      then fail (EBadRequest ''folder_id_and_grant_token_are_mutually_exclusive'')
      else ret ())"

definition mount_state_of :: "string \<Rightarrow> resolved_mount \<Rightarrow> string \<Rightarrow> mount_state" where
  "mount_state_of p r name =
     \<lparr> ms_path = p, ms_folder_id = rm_folder_id r, ms_grant_id = rm_grant_id r,
       ms_scope_node_id = rm_scope_node_id r, ms_mount_token = rm_mount_token r, ms_can_write = rm_can_write r,
       ms_name = name, ms_active_syncs = 0, ms_pending_ops = 0, ms_last_synced_at = None,
       ms_update_required = False, ms_update_required_flag = False, ms_rejected = False, ms_error = None,
       ms_watcher_alive = True \<rparr>"

text \<open>\<open>let _ = delete_mount(..)\<close>, then \<open>Internal(err.to_string())\<close>.\<close>

definition undo_mount :: "string \<Rightarrow> error \<Rightarrow> 'a dio" where
  "undo_mount p err =
     (if err = ENoFuel then fail ENoFuel
      else try_op (on_world (write_db (delete_mount p))) (\<lambda>_. fail (EInternal err)))"

definition put_mount :: "mount_state \<Rightarrow> mount_state list \<Rightarrow> mount_state list" where
  "put_mount m ms = (if find (\<lambda>x. ms_path x = ms_path m) ms = None then ms @ [m]
     else update_first (\<lambda>x. ms_path x = ms_path m) (\<lambda>_. m) ms)"

text \<open>The mirror's side of mounting: the row of the mount and the folder's tree.\<close>

definition register_mount ::
    "env \<Rightarrow> daemon_config \<Rightarrow> string \<Rightarrow> resolved_mount \<Rightarrow> string \<Rightarrow> string option dio" where
  "register_mount e cfg p r token =
     try_op (on_world (on_db (upsert_mount p (rm_folder_id r) (rm_grant_id r) (rm_scope_node_id r)
        (rm_mount_token r) (rm_can_write r)))) (\<lambda>_.
     match_op (on_world (tree_resync e (dc_backend_url cfg) token (rm_folder_id r)))
       (\<lambda>_. reads (\<lambda>d. local_mount_name (w_db (dm_world d)) r))
       (undo_mount p))"

text \<open>The list of mounts and the mount's tasks.\<close>

definition list_mount :: "daemon_config \<Rightarrow> nat \<Rightarrow> mount_state \<Rightarrow> sync_task option dio" where
  "list_mount cfg now m =
     try_op (writes (\<lambda>d. d \<lparr> dm_mounts := put_mount m (dm_mounts d) \<rparr>)) (\<lambda>_.
     try_op (cancel_tasks_for_mount (ms_path m)) (\<lambda>_. spawn_tasks_for_mount cfg now m))"

definition mount_response_of :: "mount_state \<Rightarrow> mount_response" where
  "mount_response_of m = \<lparr> mr_folder_id = ms_folder_id m, mr_grant_id = ms_grant_id m,
     mr_scope_node_id = ms_scope_node_id m, mr_path = ms_path m \<rparr>"

definition install_mount :: "env \<Rightarrow> daemon_config \<Rightarrow> nat \<Rightarrow> mount_state \<Rightarrow> (mount_response \<times> sync_task option) dio" where
  "install_mount e cfg now m =
     match_op (on_world (materialize_mount_files e (mount_ctx_of cfg m)))
       (\<lambda>_. try_op (list_mount cfg now m) (\<lambda>task. ret (mount_response_of m, task)))
       (undo_mount (ms_path m))"

definition post_mount ::
    "env \<Rightarrow> daemon_config \<Rightarrow> path \<Rightarrow> nat \<Rightarrow> mount_request \<Rightarrow> (mount_response \<times> sync_task option) dio" where
  "post_mount e cfg cwd now req =
     try_op (validate_mount_request req) (\<lambda>_.
     try_op (reads (\<lambda>d. normalize_path cwd (w_fs (dm_world d)) (mq_path req))) (\<lambda>p.
     try_op (resolve_mount e cfg req) (\<lambda>r.
     try_op (require_credential (or_else (rm_mount_token r) (dc_device_token cfg))) (\<lambda>token.
     try_op (register_mount e cfg p r token) (\<lambda>local_name.
     try_op (case local_name of Some name \<Rightarrow> ret name | None \<Rightarrow> fetch_folder_name e cfg (rm_folder_id r) token) (\<lambda>name.
     try_op (on_world (write_db (set_mount_name p name))) (\<lambda>_.
     install_mount e cfg now (mount_state_of p r name))))))))"

section \<open>Unmounting\<close>

definition delete_mount_route :: "string \<Rightarrow> unit dio" where
  "delete_mount_route folder_id =
     (if trim_ws folder_id = [] then fail (EBadRequest ''folder_id is required'')
      else with_state (\<lambda>d. case find (\<lambda>m. ms_folder_id m = folder_id) (dm_mounts d) of
          None \<Rightarrow> fail (EMissing ''mount_not_found'')
        | Some m \<Rightarrow>
            try_op (cancel_tasks_for_mount (ms_path m)) (\<lambda>_.
            try_op (on_world (write_db (delete_mount (ms_path m)))) (\<lambda>_.
            writes (\<lambda>d. d \<lparr> dm_mounts := filter (\<lambda>x. ms_path x \<noteq> ms_path m) (dm_mounts d) \<rparr>)))))"

section \<open>The mounts at the start of the daemon\<close>

record mount_config =
  co_path :: string
  co_folder_id :: string
  co_grant_id :: "string option"
  co_scope_node_id :: "string option"
  co_mount_token :: "string option"

definition normalize_persisted_mount :: "path \<Rightarrow> fs \<Rightarrow> local_mount \<Rightarrow> (mirror, unit) comp" where
  "normalize_persisted_mount cwd fs r =
     (let canonical = normalize_path cwd fs (lm_path r) in
      if canonical = lm_path r then ret ()
      else with_state (\<lambda>db. case get_mount db canonical of
          Some existing \<Rightarrow>
            if lm_mount_token r \<noteq> None \<and> lm_mount_token existing = None
            then try_op (writes (delete_mount canonical)) (\<lambda>_. update_mount_path (lm_path r) canonical)
            else writes (delete_mount (lm_path r))
        | None \<Rightarrow> update_mount_path (lm_path r) canonical))"

definition normalize_persisted_mount_paths :: "path \<Rightarrow> fs \<Rightarrow> (mirror, unit) comp" where
  "normalize_persisted_mount_paths cwd fs = with_state (\<lambda>db.
     for_each (list_mounts db) (\<lambda>r _. normalize_persisted_mount cwd fs r) ())"

definition canonicalize_config_mount_paths :: "path \<Rightarrow> fs \<Rightarrow> mount_config list \<Rightarrow> mount_config list" where
  "canonicalize_config_mount_paths cwd fs = map (\<lambda>c. c \<lparr> co_path := normalize_path cwd fs (co_path c) \<rparr>)"

definition merge_config_mounts :: "mount_config list \<Rightarrow> (mirror, unit) comp" where
  "merge_config_mounts config_mounts =
     for_each config_mounts (\<lambda>c _. with_state (\<lambda>db.
       if get_mount db (co_path c) \<noteq> None then ret ()
       else upsert_mount (co_path c) (co_folder_id c) (co_grant_id c) (co_scope_node_id c) (co_mount_token c) True)) ()"

definition initial_mount_state :: "local_mount \<Rightarrow> mount_state" where
  "initial_mount_state r = \<lparr> ms_path = lm_path r, ms_folder_id = lm_folder_id r, ms_grant_id = lm_grant_id r,
     ms_scope_node_id = lm_scope_node_id r, ms_mount_token = lm_mount_token r, ms_can_write = lm_can_write r,
     ms_name = (case lm_name r of None \<Rightarrow> [] | Some n \<Rightarrow> n), ms_active_syncs = 0, ms_pending_ops = 0,
     ms_last_synced_at = None, ms_update_required = False, ms_update_required_flag = False, ms_rejected = False,
     ms_error = None, ms_watcher_alive = True \<rparr>"

definition initial_daemon :: "world \<Rightarrow> daemon" where
  "initial_daemon w = \<lparr> dm_world = w, dm_mounts = map initial_mount_state (list_mounts (w_db w)), dm_paused = False,
     dm_fs_events_paused = False, dm_tasks = [], dm_notify = [], dm_account = None, dm_principal = None,
     dm_device_token_rejected = False, dm_update_status = \<lparr> us_latest_version = None, us_update_available = None \<rparr>,
     dm_health = \<lparr> bh_last_success_at = 0, bh_last_failure_at = 0 \<rparr>, dm_woken = [], dm_pending_uploads = [], dm_deferred_deletes = [] \<rparr>"

definition start_daemon :: "path \<Rightarrow> mount_config list \<Rightarrow> world \<Rightarrow> error + daemon" where
  "start_daemon cwd config_mounts w =
     (case try_op (normalize_persisted_mount_paths cwd (w_fs w)) (\<lambda>_.
           merge_config_mounts (canonicalize_config_mount_paths cwd (w_fs w) config_mounts)) (w_db w) of
        (Inl err, _) \<Rightarrow> Inl err
      | (Inr _, db) \<Rightarrow> Inr (initial_daemon (w \<lparr> w_db := db \<rparr>)))"

text \<open>The daemon at work: the routes for mounts and the loops of the mounts, in any order.\<close>

inductive daemon_run ::
    "nat \<Rightarrow> nat \<Rightarrow> env \<Rightarrow> daemon_config \<Rightarrow> path \<Rightarrow> daemon \<Rightarrow> daemon \<Rightarrow> bool"
  for k n :: nat and e :: env and cfg :: daemon_config and cwd :: path and d0 :: daemon where
  started: "daemon_run k n e cfg cwd d0 d0"
| mounted: "\<lbrakk>daemon_run k n e cfg cwd d0 d; post_mount e cfg cwd now req d = (r, d')\<rbrakk>
    \<Longrightarrow> daemon_run k n e cfg cwd d0 d'"
| unmounted: "\<lbrakk>daemon_run k n e cfg cwd d0 d; delete_mount_route f d = (r', d')\<rbrakk>
    \<Longrightarrow> daemon_run k n e cfg cwd d0 d'"
| looped: "\<lbrakk>daemon_run k n e cfg cwd d0 d; loop_step k n e cfg m (d, t) (d', t')\<rbrakk>
    \<Longrightarrow> daemon_run k n e cfg cwd d0 d'"

text \<open>\<open>parse_config\<close> on the raw record; \<open>hostname\<close> is the variable behind \<open>default_device_name\<close>.\<close>

record raw_config =
  rc_backend_url :: "string option"
  rc_device_id :: "string option"
  rc_device_token :: "string option"
  rc_device_name :: "string option"
  rc_mounts :: "mount_config list"

definition required_config_value :: "string option \<Rightarrow> string \<Rightarrow> error + string" where
  "required_config_value value key = (case value of
      None \<Rightarrow> Inl (EMsg (''Missing '' @ key @ '' in config.toml''))
    | Some v \<Rightarrow> if trim_ws v = [] then Inl (EMsg (''Missing '' @ key @ '' in config.toml'')) else Inr v)"

definition non_empty :: "string option \<Rightarrow> string option" where
  "non_empty value = (case value of Some v \<Rightarrow> if trim_ws v = [] then None else Some v | None \<Rightarrow> None)"

definition default_device_name :: "string option \<Rightarrow> string" where
  "default_device_name hostname = (case hostname of Some h \<Rightarrow> h | None \<Rightarrow> ''Valv Device'')"

definition parse_config :: "string option \<Rightarrow> raw_config \<Rightarrow> error + (daemon_config \<times> mount_config list)" where
  "parse_config hostname raw = (case required_config_value (rc_backend_url raw) ''backend_url'' of
      Inl err \<Rightarrow> Inl err
    | Inr backend_url \<Rightarrow> Inr
       (\<lparr> dc_backend_url = backend_url, dc_device_id = (case rc_device_id raw of Some i \<Rightarrow> i | None \<Rightarrow> []),
          dc_device_token = non_empty (rc_device_token raw),
          dc_device_name = (case rc_device_name raw of Some n \<Rightarrow> n | None \<Rightarrow> default_device_name hostname) \<rparr>,
        rc_mounts raw))"

end
