(* ===== verification/File_Provider.thy ===== *)
theory File_Provider
  imports Mounts
begin

text \<open>
  The handlers of the macOS file provider (\<open>valvd/src/fp.rs\<close>): enumeration, the changes since a
  sequence number with deletions held back while the node is being uploaded, the chunks of a file,
  uploads, deletions, moves and shares.  An upload answers at once and continues as a job of its own
  (\<open>upload_job_with_context\<close>); what happens in between is another step.
\<close>

section \<open>Requests and responses\<close>

record fp_items_query =
  fi_parent :: string
  fi_folder_id :: "string option"
  fi_offset :: "nat option"
  fi_limit :: "nat option"

record fp_item =
  it_node_id :: string
  it_parent_id :: "string option"
  it_folder_id :: string
  it_name :: string
  it_node_type :: string
  it_version_id :: "string option"
  it_content_hash :: "string option"
  it_size_bytes :: "nat option"
  it_server_seq :: int
  it_deleted :: bool

record fp_enumerate_response =
  en_items :: "fp_item list"
  en_total :: nat
  en_synced_to_seq :: int
  en_can_write :: bool

record fp_anchor_response =
  an_server_seq :: int
  an_can_write :: bool

record fp_changes_response =
  ch_items :: "fp_item list"
  ch_current_seq :: int
  ch_more_coming :: bool

record fp_chunk_download =
  cd_chunk_hash :: string
  cd_offset :: nat
  cd_length :: nat
  cd_url :: string
  cd_expires_in :: nat

record fp_content_response =
  cn_version_id :: string
  cn_size_bytes :: nat
  cn_chunks :: "fp_chunk_download list"

record fp_upload_request =
  uq_node_id :: "string option"
  uq_parent_id :: string
  uq_name :: string
  uq_based_on_seq :: "int option"
  uq_file_path :: string

record fp_move_request =
  vq_node_id :: string
  vq_based_on_seq :: int
  vq_new_name :: "string option"
  vq_new_parent_id :: "string option"

record fp_share_request =
  sq_node_id :: string
  sq_invited_email :: string
  sq_can_write :: bool

section \<open>Looking things up\<close>

definition fp_db :: "(mirror \<Rightarrow> 'a) \<Rightarrow> 'a dio" where
  "fp_db f = reads (\<lambda>d. f (w_db (dm_world d)))"

definition resolve_mount_for_folder_id :: "string \<Rightarrow> mount_state dio" where
  "resolve_mount_for_folder_id folder_id = with_state (\<lambda>d.
     case find (\<lambda>m. ms_folder_id m = folder_id) (dm_mounts d) of
       Some m \<Rightarrow> ret m | None \<Rightarrow> fail (EMissing ''mount_not_found''))"

definition resolve_mount_for_query :: "string option \<Rightarrow> mount_state dio" where
  "resolve_mount_for_query folder_id = (case folder_id of
      Some f \<Rightarrow> if f = [] then fail (EBadRequest ''folder_id cannot be empty'') else resolve_mount_for_folder_id f
    | None \<Rightarrow> with_state (\<lambda>d. case dm_mounts d of
          [m] \<Rightarrow> ret m
        | [] \<Rightarrow> fail (EMissing ''mount_not_found'')
        | _ \<Rightarrow> fail (EBadRequest ''folder_id is required when multiple folders are mounted'')))"

definition resolve_parent_id :: "mirror \<Rightarrow> mount_state \<Rightarrow> string \<Rightarrow> string option" where
  "resolve_parent_id db m parent =
     (if parent \<noteq> ''root'' then Some parent
      else (case ms_scope_node_id m of
          Some scope_node_id \<Rightarrow> Some scope_node_id
        | None \<Rightarrow> map_option ln_node_id (get_root_node db (ms_folder_id m))))"

definition fp_item_from_node :: "mirror \<Rightarrow> local_node \<Rightarrow> fp_item" where
  "fp_item_from_node db node =
     (let version = Option.bind (ln_current_version_id node) (get_version db) in
      \<lparr> it_node_id = ln_node_id node, it_parent_id = ln_parent_id node, it_folder_id = ln_folder_id node,
        it_name = ln_name node, it_node_type = ln_node_type node, it_version_id = ln_current_version_id node,
        it_content_hash = map_option lv_content_hash version, it_size_bytes = map_option lv_size_bytes version,
        it_server_seq = ln_server_seq node, it_deleted = (ln_deleted_at node \<noteq> None) \<rparr>)"

definition node_or_missing :: "string \<Rightarrow> local_node dio" where
  "node_or_missing node_id = try_op (fp_db (\<lambda>db. get_node db node_id)) (\<lambda>row. case row of
      Some node \<Rightarrow> ret node | None \<Rightarrow> fail (EMissing ''node_not_found''))"

section \<open>Reading\<close>

definition fp_items :: "fp_items_query \<Rightarrow> fp_enumerate_response dio" where
  "fp_items query =
     (if trim_ws (fi_parent query) = [] then fail (EBadRequest ''parent is required'')
      else try_op (resolve_mount_for_query (fi_folder_id query)) (\<lambda>m. fp_db (\<lambda>db.
        let limit = (case fi_limit query of Some l \<Rightarrow> min l 200 | None \<Rightarrow> 200);
            offset = (case fi_offset query of Some i \<Rightarrow> i | None \<Rightarrow> 0);
            (nodes, total) = list_children db (resolve_parent_id db m (fi_parent query)) (ms_folder_id m) offset limit in
        \<lparr> en_items = map (fp_item_from_node db) nodes, en_total = total,
          en_synced_to_seq = get_cursor db (ms_folder_id m), en_can_write = ms_can_write m \<rparr>)))"

definition fp_item_route :: "string \<Rightarrow> fp_item dio" where
  "fp_item_route node_id = try_op (node_or_missing node_id) (\<lambda>node. fp_db (\<lambda>db. fp_item_from_node db node))"

definition anchor_of :: "mount_state \<Rightarrow> fp_anchor_response dio" where
  "anchor_of m = fp_db (\<lambda>db. \<lparr> an_server_seq = get_cursor db (ms_folder_id m), an_can_write = ms_can_write m \<rparr>)"

definition fp_anchor :: "string option \<Rightarrow> fp_anchor_response dio" where
  "fp_anchor folder_id = try_op (resolve_mount_for_query folder_id) anchor_of"

text \<open>\<open>waiting\<close> is what happens until the waiter is woken or 25 seconds have passed.\<close>

definition fp_watch_inner :: "string option \<Rightarrow> int \<Rightarrow> unit dio \<Rightarrow> fp_anchor_response dio" where
  "fp_watch_inner folder_id since_seq waiting =
     try_op (resolve_mount_for_query folder_id) (\<lambda>m.
     try_op (folder_cursor m) (\<lambda>current_seq.
     try_op (if current_seq \<le> since_seq then waiting else ret ()) (\<lambda>_. anchor_of m)))"

section \<open>Changes\<close>

definition deferred_of :: "daemon \<Rightarrow> string \<Rightarrow> string list" where
  "deferred_of d folder_id = (case map_of (dm_deferred_deletes d) folder_id of Some ids \<Rightarrow> ids | None \<Rightarrow> [])"

definition put_deferred :: "string \<Rightarrow> string list \<Rightarrow> daemon \<Rightarrow> daemon" where
  "put_deferred folder_id ids d = d \<lparr> dm_deferred_deletes :=
     (if ids = [] then map_remove folder_id (dm_deferred_deletes d)
      else (folder_id, ids) # map_remove folder_id (dm_deferred_deletes d)) \<rparr>"

definition held_back :: "daemon \<Rightarrow> fp_item \<Rightarrow> bool" where
  "held_back d item = (it_deleted item \<and> it_node_id item \<in> set (dm_pending_uploads d))"

definition changed_items :: "mount_state \<Rightarrow> int \<Rightarrow> daemon \<Rightarrow> fp_item list" where
  "changed_items m since_seq d = (let db = w_db (dm_world d) in
     map (fp_item_from_node db) (list_changed_since db (ms_folder_id m) since_seq))"

definition deferred_now :: "mount_state \<Rightarrow> int \<Rightarrow> daemon \<Rightarrow> string list" where
  "deferred_now m since_seq d = remdups (deferred_of d (ms_folder_id m) @
     map it_node_id (filter (held_back d) (changed_items m since_seq d)))"

definition redelivered :: "daemon \<Rightarrow> string list \<Rightarrow> fp_item list" where
  "redelivered d node_ids = (let db = w_db (dm_world d) in
     map (fp_item_from_node db) (List.map_filter (get_node db) node_ids))"

definition changes_for :: "mount_state \<Rightarrow> int \<Rightarrow> fp_changes_response dio" where
  "changes_for m since_seq d =
     (let deferred = deferred_now m since_seq d;
          ready = filter (\<lambda>i. i \<notin> set (dm_pending_uploads d)) deferred in
      (Inr \<lparr> ch_items = filter (\<lambda>item. \<not> held_back d item) (changed_items m since_seq d) @ redelivered d ready,
             ch_current_seq = get_cursor (w_db (dm_world d)) (ms_folder_id m), ch_more_coming = False \<rparr>,
       put_deferred (ms_folder_id m) (filter (\<lambda>i. i \<in> set (dm_pending_uploads d)) deferred) d))"

definition fp_changes :: "string option \<Rightarrow> int option \<Rightarrow> fp_changes_response dio" where
  "fp_changes folder_id since_seq =
     try_op (resolve_mount_for_query folder_id) (\<lambda>m.
     changes_for m (case since_seq of Some s \<Rightarrow> s | None \<Rightarrow> 0))"

section \<open>Content\<close>

definition batch_request_of :: "env \<Rightarrow> daemon_config \<Rightarrow> string \<Rightarrow> batch_operation \<Rightarrow> batch_request_object list \<Rightarrow>
    batch_response io" where
  "batch_request_of e cfg token operation objects =
     try_op (send e \<lparr> rq_method = POST, rq_url = api_base (dc_backend_url cfg) @ ''/objects/batch'',
        rq_bearer = Some token, rq_headers = [], rq_body = BatchBody (new_batch_request operation objects) \<rparr>) (\<lambda>r.
     try_op (backend_response_or_error r) (\<lambda>body. case body of BodyBatch batch \<Rightarrow> ret batch | _ \<Rightarrow> fail EDecode))"

definition chunk_download :: "batch_response \<Rightarrow> chunk_ref \<Rightarrow> error + fp_chunk_download" where
  "chunk_download batch c = (case find (\<lambda>object. bp_oid object = cr_hash c) (bs_objects batch) of
      None \<Rightarrow> Inl (EMsg (''missing batch object for '' @ cr_hash c))
    | Some object \<Rightarrow> (case Option.bind (bp_actions object) bas_download of
          None \<Rightarrow> Inl (EMsg (''missing download action for '' @ cr_hash c))
        | Some action \<Rightarrow> Inr \<lparr> cd_chunk_hash = cr_hash c, cd_offset = cr_offset c, cd_length = cr_length c,
            cd_url = ba_href action, cd_expires_in = (case ba_expires_in action of Some s \<Rightarrow> s | None \<Rightarrow> 0) \<rparr>))"

definition fp_content :: "env \<Rightarrow> daemon_config \<Rightarrow> string \<Rightarrow> fp_content_response dio" where
  "fp_content e cfg node_id =
     try_op (node_or_missing node_id) (\<lambda>node.
     try_op (fp_db (\<lambda>db. Option.bind (ln_current_version_id node) (get_version db))) (\<lambda>found. case found of
       None \<Rightarrow> fail (EMissing ''version_not_found'')
     | Some version \<Rightarrow>
         try_op (resolve_mount_for_folder_id (ln_folder_id node)) (\<lambda>m.
         try_op (require_credential (effective_token cfg m)) (\<lambda>token.
         try_op (on_world (batch_request_of e cfg token Download
            (map (\<lambda>c. \<lparr> bo_oid = cr_hash c, bo_size = cr_length c \<rparr>) (lv_manifest version)))) (\<lambda>batch.
         try_op (for_each (lv_manifest version) (\<lambda>c acc.
             try_op (lift_result (chunk_download batch c)) (\<lambda>x. ret (acc @ [x]))) []) (\<lambda>chunks.
         ret \<lparr> cn_version_id = lv_version_id version, cn_size_bytes = lv_size_bytes version, cn_chunks = chunks \<rparr>))))))"

section \<open>Submitting operations\<close>

definition submit_op_daemon :: "env \<Rightarrow> daemon_config \<Rightarrow> string \<Rightarrow> string \<Rightarrow> submit_op_request \<Rightarrow> submit_op_response io" where
  "submit_op_daemon e cfg token folder_id req =
     try_op (send e (submit_request (dc_backend_url cfg) token folder_id req)) (\<lambda>r.
     if fst r = UPGRADE_REQUIRED then fail (update_required_from_response r)
     else try_op (backend_response_or_error r) (\<lambda>body. case body of
         BodyJson v \<Rightarrow> lift_result (parse_submit_op_response_body v)
       | _ \<Rightarrow> fail EDecode))"

definition submit_marking_halt ::
    "env \<Rightarrow> daemon_config \<Rightarrow> string \<Rightarrow> string \<Rightarrow> submit_op_request \<Rightarrow> submit_op_response dio" where
  "submit_marking_halt e cfg token folder_id req =
     match_op (on_world (submit_op_daemon e cfg token folder_id req)) ret
       (\<lambda>err. if is_update_required err \<noteq> None
         then try_op (mark_mount_update_required folder_id) (\<lambda>_. fail err) else fail err)"

definition ensure_mount_not_update_required :: "mount_state \<Rightarrow> unit dio" where
  "ensure_mount_not_update_required m = with_state (\<lambda>d.
     if ms_update_required m \<or> mount_flag d m then fail (EUpdateRequired mount_already_halted) else ret ())"

definition submit_op_daemon_for_mount ::
    "env \<Rightarrow> daemon_config \<Rightarrow> mount_state \<Rightarrow> string \<Rightarrow> submit_op_request \<Rightarrow> submit_op_response dio" where
  "submit_op_daemon_for_mount e cfg m token req =
     try_op (ensure_mount_not_update_required m) (\<lambda>_.
     submit_marking_halt e cfg token (ms_folder_id m) req)"

section \<open>Deleting, moving, sharing\<close>

definition mount_and_token :: "daemon_config \<Rightarrow> string \<Rightarrow> (mount_state \<times> string) dio" where
  "mount_and_token cfg folder_id =
     try_op (resolve_mount_for_folder_id folder_id) (\<lambda>m.
     try_op (require_credential (effective_token cfg m)) (\<lambda>token. ret (m, token)))"

definition fp_delete :: "env \<Rightarrow> daemon_config \<Rightarrow> string \<Rightarrow> int \<Rightarrow> unit dio" where
  "fp_delete e cfg node_id based_on_seq =
     (if trim_ws node_id = [] then fail (EBadRequest ''node_id is required'')
      else try_op (node_or_missing node_id) (\<lambda>node.
        try_op (mount_and_token cfg (ln_folder_id node)) (\<lambda>(m, token).
        try_op (submit_op_daemon_for_mount e cfg m token (DeleteOp node_id based_on_seq)) (\<lambda>response.
        case response of
          Applied _ _ \<Rightarrow> ret ()
        | Superseded _ \<Rightarrow> fail (EConflict ''superseded'')
        | ConflictCopy _ _ _ \<Rightarrow> fail (EConflict ''conflict_copy'')
        | Conflict _ _ _ _ \<Rightarrow> fail (EConflict ''conflict'')))))"

definition validate_move_request :: "fp_move_request \<Rightarrow> unit dio" where
  "validate_move_request req =
     (if trim_ws (vq_node_id req) = [] then fail (EBadRequest ''node_id is required'')
      else if vq_new_name req = None \<and> vq_new_parent_id req = None
      then fail (EBadRequest ''new_name or new_parent_id is required'')
      else if vq_new_name req = Some [] then fail (EBadRequest ''new_name cannot be empty'')
      else if vq_new_parent_id req = Some [] then fail (EBadRequest ''new_parent_id cannot be empty'')
      else ret ())"

definition applied_server_seq :: "submit_op_response \<Rightarrow> int dio" where
  "applied_server_seq response = (case response of
      Applied server_seq _ \<Rightarrow> ret server_seq
    | Superseded _ \<Rightarrow> fail (EConflict ''superseded'')
    | ConflictCopy _ _ _ \<Rightarrow> fail (EConflict ''conflict_copy'')
    | Conflict _ _ _ _ \<Rightarrow> fail (EConflict ''conflict''))"

definition submit_then_store ::
    "env \<Rightarrow> daemon_config \<Rightarrow> mount_state \<Rightarrow> string \<Rightarrow> submit_op_request \<Rightarrow> local_node \<Rightarrow> local_node dio" where
  "submit_then_store e cfg m token req updated_node =
     try_op (submit_op_daemon_for_mount e cfg m token req) (\<lambda>response.
     try_op (applied_server_seq response) (\<lambda>seq.
     let stored = updated_node \<lparr> ln_server_seq := seq \<rparr> in
     try_op (on_world (write_db (upsert_node stored))) (\<lambda>_. ret stored)))"

definition move_name :: "env \<Rightarrow> daemon_config \<Rightarrow> mount_state \<Rightarrow> string \<Rightarrow> fp_move_request \<Rightarrow> local_node \<Rightarrow> (local_node \<times> int) dio" where
  "move_name e cfg m token req node = (case vq_new_name req of
      None \<Rightarrow> ret (node, vq_based_on_seq req)
    | Some new_name \<Rightarrow>
        try_op (submit_then_store e cfg m token (RenameOp (vq_node_id req) (vq_based_on_seq req) new_name)
          (node \<lparr> ln_name := new_name \<rparr>)) (\<lambda>stored. ret (stored, ln_server_seq stored)))"

definition move_parent ::
    "env \<Rightarrow> daemon_config \<Rightarrow> mount_state \<Rightarrow> string \<Rightarrow> fp_move_request \<Rightarrow> local_node \<times> int \<Rightarrow> int dio" where
  "move_parent e cfg m token req nb = (case vq_new_parent_id req of
      None \<Rightarrow> ret (snd nb)
    | Some new_parent_id \<Rightarrow>
        try_op (fp_db (\<lambda>db. get_node db new_parent_id)) (\<lambda>parent.
        if (case parent of None \<Rightarrow> False | Some p \<Rightarrow> ln_folder_id p \<noteq> ln_folder_id (fst nb))
        then fail (EConflict ''cross_folder_move_rejected'')
        else try_op (submit_then_store e cfg m token (MoveOp (vq_node_id req) (snd nb) new_parent_id)
               ((fst nb) \<lparr> ln_parent_id := Some new_parent_id \<rparr>)) (\<lambda>stored. ret (ln_server_seq stored))))"

definition fp_move :: "env \<Rightarrow> daemon_config \<Rightarrow> fp_move_request \<Rightarrow> (string \<times> int) dio" where
  "fp_move e cfg req =
     try_op (validate_move_request req) (\<lambda>_.
     try_op (node_or_missing (vq_node_id req)) (\<lambda>node.
     try_op (mount_and_token cfg (ln_folder_id node)) (\<lambda>(m, token).
     try_op (move_name e cfg m token req node) (\<lambda>nb.
     try_op (move_parent e cfg m token req nb) (\<lambda>server_seq.
     ret (vq_node_id req, server_seq))))))"

definition fp_share :: "env \<Rightarrow> daemon_config \<Rightarrow> fp_share_request \<Rightarrow> string dio" where
  "fp_share e cfg req =
     (if trim_ws (sq_node_id req) = [] then fail (EBadRequest ''node_id is required'')
      else if trim_ws (sq_invited_email req) = [] then fail (EBadRequest ''invited_email is required'')
      else try_op (node_or_missing (sq_node_id req)) (\<lambda>node.
        try_op (mount_and_token cfg (ln_folder_id node)) (\<lambda>(m, token).
        try_op (on_world (try_op (send e \<lparr> rq_method = POST,
            rq_url = folder_url (dc_backend_url cfg) (ln_folder_id node) ''/invites'', rq_bearer = Some token,
            rq_headers = [], rq_body = InviteBody (sq_invited_email req) (sq_node_id req) (sq_can_write req) \<rparr>)
            backend_response_or_error)) (\<lambda>body.
        case body of
          BodyInvite invite_token \<Rightarrow> ret (api_base (dc_backend_url cfg) @ ''/invites/'' @ invite_token @ ''/accept'')
        | _ \<Rightarrow> fail EDecode))))"

section \<open>Uploading\<close>

record upload_context =
  uc_mount :: mount_state
  uc_folder_id :: string
  uc_token :: string
  uc_create_first :: bool
  uc_based_on_seq :: int
  uc_parent_id :: string
  uc_initial_error :: "error option"

definition validate_upload_request :: "fp_upload_request \<Rightarrow> unit dio" where
  "validate_upload_request req =
     (if uq_node_id req = Some [] then fail (EBadRequest ''node_id cannot be empty'')
      else if trim_ws (uq_parent_id req) = [] then fail (EBadRequest ''parent_id is required'')
      else if trim_ws (uq_name req) = [] then fail (EBadRequest ''name is required'')
      else if trim_ws (uq_file_path req) = [] then fail (EBadRequest ''file_path is required'')
      else ret ())"

definition parent_or_missing :: "string \<Rightarrow> local_node dio" where
  "parent_or_missing parent_id = try_op (fp_db (\<lambda>db. get_node db parent_id)) (\<lambda>row. case row of
      Some parent \<Rightarrow> ret parent | None \<Rightarrow> fail (EMissing (''parent node not found: '' @ parent_id)))"

definition upload_parent :: "fp_upload_request \<Rightarrow> (mount_state \<times> local_node) dio" where
  "upload_parent req =
     (if uq_parent_id req = ''root''
      then try_op (resolve_mount_for_query None) (\<lambda>m.
           try_op (fp_db (\<lambda>db. resolve_parent_id db m (uq_parent_id req))) (\<lambda>found. case found of
             None \<Rightarrow> fail (EMissing ''parent node not found: root'')
           | Some parent_id \<Rightarrow> try_op (parent_or_missing parent_id) (\<lambda>parent. ret (m, parent))))
      else try_op (parent_or_missing (uq_parent_id req)) (\<lambda>parent.
           try_op (resolve_mount_for_folder_id (ln_folder_id parent)) (\<lambda>m. ret (m, parent))))"

definition resolve_upload_context :: "daemon_config \<Rightarrow> fp_upload_request \<Rightarrow> string \<Rightarrow> upload_context dio" where
  "resolve_upload_context cfg req node_id =
     try_op (upload_parent req) (\<lambda>(m, parent).
     try_op (ensure_mount_not_update_required m) (\<lambda>_.
     try_op (fp_db (\<lambda>db. or_else (get_node db node_id)
        (get_node_by_parent_and_name db (ln_folder_id parent) (Some (ln_node_id parent)) (uq_name req)))) (\<lambda>existing.
     try_op (require_credential (effective_token cfg m)) (\<lambda>token.
     ret \<lparr> uc_mount = m, uc_folder_id = ln_folder_id parent, uc_token = token,
           uc_create_first = (existing = None),
           uc_based_on_seq = (case or_else (map_option ln_server_seq existing) (uq_based_on_seq req) of
               Some s \<Rightarrow> s | None \<Rightarrow> ln_server_seq parent),
           uc_parent_id = ln_node_id parent, uc_initial_error = ms_error m \<rparr>))))"

definition fp_upload :: "env \<Rightarrow> daemon_config \<Rightarrow> fp_upload_request \<Rightarrow> (string \<times> upload_context) dio" where
  "fp_upload e cfg req =
     try_op (validate_upload_request req) (\<lambda>_.
     try_op (case uq_node_id req of Some i \<Rightarrow> ret i | None \<Rightarrow> on_world (new_uuid e)) (\<lambda>node_id.
     try_op (resolve_upload_context cfg req node_id) (\<lambda>context.
     try_op (writes (\<lambda>d. d \<lparr> dm_pending_uploads := List.insert node_id (dm_pending_uploads d) \<rparr>)) (\<lambda>_.
     ret (node_id, context)))))"

definition submit_op_daemon_for_upload_context ::
    "env \<Rightarrow> daemon_config \<Rightarrow> upload_context \<Rightarrow> submit_op_request \<Rightarrow> submit_op_response dio" where
  "submit_op_daemon_for_upload_context e cfg x req =
     try_op (with_state (\<lambda>d. if mount_flag d (uc_mount x) then fail (EUpdateRequired mount_already_halted) else ret ())) (\<lambda>_.
     submit_marking_halt e cfg (uc_token x) (uc_folder_id x) req)"

definition set_upload_mount_error :: "upload_context \<Rightarrow> error option \<Rightarrow> unit dio" where
  "set_upload_mount_error x err = with_mount (uc_folder_id x) (\<lambda>m. case err of
      Some _ \<Rightarrow> m \<lparr> ms_error := err \<rparr>
    | None \<Rightarrow> if ms_error m = uc_initial_error x then m \<lparr> ms_error := None \<rparr> else m)"

definition put_object :: "env \<Rightarrow> chunk list \<Rightarrow> batch_response_object \<Rightarrow> unit io" where
  "put_object e chunks object =
     (case bp_error object of
        Some err \<Rightarrow> fail (EMsg (''batch upload error for '' @ bp_oid object @ '': '' @ be_message err))
      | None \<Rightarrow> (case upload_action object of
            None \<Rightarrow> ret ()
          | Some upload \<Rightarrow> (case find (\<lambda>c. ck_hash c = bp_oid object) chunks of
                None \<Rightarrow> fail (EMsg (''batch response referenced unknown oid '' @ bp_oid object))
              | Some c \<Rightarrow>
                  try_op (for_each (case ba_header upload of None \<Rightarrow> [] | Some hs \<Rightarrow> hs) add_header []) (\<lambda>headers.
                  try_op (send e \<lparr> rq_method = PUT, rq_url = ba_href upload, rq_bearer = None,
                                   rq_headers = headers, rq_body = RawBody (ck_data c) \<rparr>) (\<lambda>r.
                  try_op (backend_response_or_error r) (\<lambda>_. ret ()))))))"

definition put_pending_chunks :: "env \<Rightarrow> daemon_config \<Rightarrow> string \<Rightarrow> chunk list \<Rightarrow> unit io" where
  "put_pending_chunks e cfg token chunks =
     (if chunks = [] then ret ()
      else try_op (batch_request_of e cfg token Upload (map (\<lambda>c. \<lparr> bo_oid = ck_hash c, bo_size = ck_length c \<rparr>) chunks)) (\<lambda>batch.
        for_each (bs_objects batch) (\<lambda>object _. put_object e chunks object) ()))"

text \<open>The third copy of the naming functions of \<open>op_submit.rs\<close>, with the date in UTC.\<close>

definition materialize_conflict_copy_name :: "env \<Rightarrow> path \<Rightarrow> string \<Rightarrow> unit io" where
  "materialize_conflict_copy_name e p device_name =
     try_op tick (\<lambda>t.
     try_op (materialize_conflict_copy e p device_name (date_of (env_clock e t))) (\<lambda>_. ret ()))"

definition upload_seq :: "env \<Rightarrow> daemon_config \<Rightarrow> fp_upload_request \<Rightarrow> string \<Rightarrow> upload_context \<Rightarrow> int dio" where
  "upload_seq e cfg req node_id x =
     (if \<not> uc_create_first x then ret (uc_based_on_seq x)
      else try_op (submit_op_daemon_for_upload_context e cfg x (CreateOp \<lparr> cp_node_id = node_id,
             cp_parent_id = uc_parent_id x, cp_name = uq_name req, cp_node_type = NFile \<rparr>)) (\<lambda>response.
           case response of
             Applied server_seq _ \<Rightarrow> ret server_seq
           | Superseded _ \<Rightarrow> fail (EConflict ''superseded'')
           | _ \<Rightarrow> ret (uc_based_on_seq x)))"

definition upload_content :: "env \<Rightarrow> daemon_config \<Rightarrow> string \<Rightarrow> path \<Rightarrow> chunk list io" where
  "upload_content e cfg token p =
     try_op (chunk_file e p) (\<lambda>chunks. with_state (\<lambda>w.
     let pending = filter (\<lambda>c. \<not> is_uploaded (w_db w) (ck_hash c)) chunks in
     try_op (put_pending_chunks e cfg token pending) (\<lambda>_.
     try_op (write_db (fold (\<lambda>c. mark_uploaded (ck_hash c) (ck_length c)) pending)) (\<lambda>_.
     ret chunks))))"

definition upload_job_inner :: "env \<Rightarrow> daemon_config \<Rightarrow> fp_upload_request \<Rightarrow> string \<Rightarrow> upload_context \<Rightarrow> unit dio" where
  "upload_job_inner e cfg req node_id x =
     try_op (upload_seq e cfg req node_id x) (\<lambda>based_on_seq.
     let p = components (uq_file_path req) in
     try_op (on_world (upload_content e cfg (uc_token x) p)) (\<lambda>chunks.
     try_op (on_world (new_uuid e)) (\<lambda>version_id.
     try_op (submit_op_daemon_for_upload_context e cfg x
        (new_version_request e node_id based_on_seq version_id chunks)) (\<lambda>response.
     try_op (case response of
         ConflictCopy _ _ _ \<Rightarrow> on_world (materialize_conflict_copy_name e p (dc_device_name cfg))
       | _ \<Rightarrow> ret ()) (\<lambda>_.
     try_op (set_upload_mount_error x None) (\<lambda>_.
     writes (\<lambda>d. d \<lparr> dm_woken := dm_woken d @ [uc_folder_id x] \<rparr>)))))))"

definition upload_failure_message :: "error \<Rightarrow> error" where
  "upload_failure_message err = (case err of
      EBackend _ (Some code) \<Rightarrow>
        if code = ''subscription_inactive'' then EMsg ''Sync paused: subscription inactive''
        else if code = ''over_quota'' then EMsg ''Sync paused: storage quota exceeded''
        else err
    | _ \<Rightarrow> err)"

definition upload_job_with_context ::
    "env \<Rightarrow> daemon_config \<Rightarrow> fp_upload_request \<Rightarrow> string \<Rightarrow> upload_context \<Rightarrow> unit dio" where
  "upload_job_with_context e cfg req node_id x =
     try_op (attempt (upload_job_inner e cfg req node_id x)) (\<lambda>result.
     try_op (writes (\<lambda>d. d \<lparr> dm_pending_uploads := filter (\<lambda>i. i \<noteq> node_id) (dm_pending_uploads d) \<rparr>)) (\<lambda>_.
     case result of
       Inl err \<Rightarrow> set_upload_mount_error x (Some (upload_failure_message err))
     | Inr _ \<Rightarrow> ret ()))"

end
