(* ===== verification/Restore.thy ===== *)
theory Restore
  imports File_Provider
begin

text \<open>
  The versions of a local path and restoring one (\<open>valvd/src/restore.rs\<close>).
\<close>

record version_entry =
  ve_version_id :: string
  ve_created_at :: string
  ve_size_bytes :: nat
  ve_author_device_name :: string
  ve_is_conflict_copy :: bool

definition version_entry_of :: "backend_version_entry \<Rightarrow> version_entry" where
  "version_entry_of v = \<lparr> ve_version_id = be_version_id v, ve_created_at = be_created_at v,
     ve_size_bytes = be_size_bytes v,
     ve_author_device_name = (case or_else (be_author_device_name v) (be_author_device_id v) of
         Some name \<Rightarrow> name | None \<Rightarrow> ''-''),
     ve_is_conflict_copy = be_is_conflict_copy v \<rparr>"

definition resolve_local_path :: "path \<Rightarrow> string \<Rightarrow> resolved_path dio" where
  "resolve_local_path cwd local_path = with_state (\<lambda>d.
     case resolve_path_to_node cwd (w_fs (dm_world d)) (w_db (dm_world d)) (dm_mounts d) local_path of
       Inl NotInMount \<Rightarrow> fail (EMissing ''path is not under any mounted folder'')
     | Inl NodeNotSynced \<Rightarrow> fail (EMissing ''path not found in local mirror'')
     | Inr r \<Rightarrow> ret r)"

definition post_versions :: "env \<Rightarrow> daemon_config \<Rightarrow> path \<Rightarrow> string \<Rightarrow> version_entry list dio" where
  "post_versions e cfg cwd local_path =
     (if trim_ws local_path = [] then fail (EBadRequest ''local_path is required'')
      else try_op (resolve_local_path cwd local_path) (\<lambda>r.
        try_op (require_credential (effective_token cfg (rp_mount r))) (\<lambda>token.
        try_op (on_world (try_op (send e \<lparr> rq_method = GET,
            rq_url = folder_url (dc_backend_url cfg) (rp_folder_id r) (''/nodes/'' @ rp_node_id r @ ''/versions''),
            rq_bearer = Some token, rq_headers = [], rq_body = NoBody \<rparr>) backend_response_or_error)) (\<lambda>body.
        case body of BodyHistory versions \<Rightarrow> ret (map version_entry_of versions) | _ \<Rightarrow> fail EDecode))))"

definition restore_request :: "daemon_config \<Rightarrow> string \<Rightarrow> resolved_path \<Rightarrow> string \<Rightarrow> int \<Rightarrow> http_request" where
  "restore_request cfg token r version_id based_on_seq =
     \<lparr> rq_method = POST,
       rq_url = folder_url (dc_backend_url cfg) (rp_folder_id r)
         (''/nodes/'' @ rp_node_id r @ ''/versions/'' @ version_id @ ''/restore''),
       rq_bearer = Some token, rq_headers = [], rq_body = RestoreBody based_on_seq \<rparr>"

text \<open>The answer is decoded by serde's derived decoder, not by \<open>parse_submit_op_response_body\<close>.\<close>

definition post_restore :: "env \<Rightarrow> daemon_config \<Rightarrow> path \<Rightarrow> string \<Rightarrow> string \<Rightarrow> string dio" where
  "post_restore e cfg cwd local_path version_id =
     (if trim_ws local_path = [] then fail (EBadRequest ''local_path is required'')
      else if trim_ws version_id = [] then fail (EBadRequest ''version_id is required'')
      else try_op (resolve_local_path cwd local_path) (\<lambda>r.
        try_op (fp_db (\<lambda>db. get_node db (rp_node_id r))) (\<lambda>row. case row of
          None \<Rightarrow> fail (EMissing ''path not found in local mirror'')
        | Some node \<Rightarrow>
            try_op (require_credential (effective_token cfg (rp_mount r))) (\<lambda>token.
            try_op (on_world (try_op (send e (restore_request cfg token r version_id (ln_server_seq node)))
                backend_response_or_error)) (\<lambda>body.
            case body of
              BodyJson v \<Rightarrow> (case dec_submit_op_response v of
                  Some response \<Rightarrow> ret (result_str response) | None \<Rightarrow> fail EDecode)
            | _ \<Rightarrow> fail EDecode)))))"

end
