(* ===== verification/Watch.thy ===== *)
theory Watch
  imports Local_Push
begin

text \<open>
  The file-system watcher (\<open>watch/mod.rs\<close>): the mapping of notifications, the collapsing of a
  batch of events, the handlers that push a created or modified path, and the task's loop as a
  step relation in which notifications, pauses, materialisation and halts interleave with it.
  The channel of 256 events is modelled without its bound (a full channel only blocks the
  notifier).
\<close>

section \<open>Events\<close>

datatype fs_event = CreateEv path | ModifyEv path

fun event_path :: "fs_event \<Rightarrow> path" where
  "event_path (CreateEv p) = p"
| "event_path (ModifyEv p) = p"

datatype watch_signal = Event fs_event | Dirty

text \<open>The kinds of \<open>notify::EventKind\<close> the mapping distinguishes.\<close>

datatype modify_kind = ModifyData | ModifyName | ModifyMetadata | ModifyOther

datatype notify_kind = NCreate | NModify modify_kind | NRemove | NOther bool | NAccess | NAny

definition map_notify_event :: "notify_kind \<Rightarrow> path list \<Rightarrow> watch_signal option" where
  "map_notify_event kind paths = (case kind of
      NCreate \<Rightarrow> (case paths of [] \<Rightarrow> None | p # _ \<Rightarrow> Some (Event (CreateEv p)))
    | NModify ModifyData \<Rightarrow> (case paths of [] \<Rightarrow> None | p # _ \<Rightarrow> Some (Event (ModifyEv p)))
    | NModify ModifyName \<Rightarrow> Some Dirty
    | NModify ModifyMetadata \<Rightarrow> None
    | NModify ModifyOther \<Rightarrow> Some Dirty
    | NRemove \<Rightarrow> Some Dirty
    | NOther need_rescan \<Rightarrow> (if need_rescan then Some Dirty else None)
    | NAccess \<Rightarrow> None
    | NAny \<Rightarrow> None)"

definition should_mark_suppressed_during_pause :: "bool \<Rightarrow> bool \<Rightarrow> watch_signal option \<Rightarrow> bool" where
  "should_mark_suppressed_during_pause user_paused materializing mapped =
     (user_paused \<and> \<not> materializing \<and> mapped \<noteq> None)"

text \<open>The hash map of a batch: one event per path, a create staying a create.\<close>

definition insert_event :: "fs_event \<Rightarrow> fs_event list \<Rightarrow> fs_event list" where
  "insert_event ev evs = (case ev of
      CreateEv p \<Rightarrow> filter (\<lambda>x. event_path x \<noteq> p) evs @ [ev]
    | ModifyEv p \<Rightarrow> if CreateEv p \<in> set evs then evs else filter (\<lambda>x. event_path x \<noteq> p) evs @ [ev])"

definition collapse_events :: "fs_event list \<Rightarrow> fs_event list" where
  "collapse_events events = sort_key (\<lambda>ev. length (event_path ev)) (fold insert_event events [])"

section \<open>Resolution\<close>

fun resolve_components :: "mirror \<Rightarrow> string \<Rightarrow> string \<Rightarrow> local_node option \<Rightarrow> path \<Rightarrow> error + local_node option" where
  "resolve_components db folder_id parent_id node [] = Inr node"
| "resolve_components db folder_id parent_id node (c # cs) =
     (if c = ''..'' then Inl (EMsg ''unsupported path component'')
      else if \<not> valid_utf8 c then Inl (EMsg ''non-UTF-8 path component'')
      else (case get_node_by_parent_and_name db folder_id (Some parent_id) c of
          None \<Rightarrow> Inr None
        | Some n \<Rightarrow> resolve_components db folder_id (ln_node_id n) (Some n) cs))"

definition resolve_abs_path :: "mirror \<Rightarrow> path \<Rightarrow> string \<Rightarrow> path \<Rightarrow> error + local_node option" where
  "resolve_abs_path db mount_root folder_id abs_path =
     (case strip_path_prefix abs_path mount_root of
        None \<Rightarrow> Inl (EMsg (path_string abs_path @ '' is outside mount '' @ path_string mount_root))
      | Some rel \<Rightarrow>
         (case get_root_node db folder_id of
            None \<Rightarrow> Inr None
          | Some root_node \<Rightarrow>
              if rel = [] then Inr (Some root_node)
              else resolve_components db folder_id (ln_node_id root_node) None rel))"

definition resolve_parent_for_path :: "mirror \<Rightarrow> path \<Rightarrow> string \<Rightarrow> path \<Rightarrow> error + local_node option" where
  "resolve_parent_for_path db mount_root folder_id abs_path =
     (case path_parent abs_path of
        None \<Rightarrow> Inr None
      | Some parent \<Rightarrow> resolve_abs_path db mount_root folder_id parent)"

section \<open>Handlers\<close>

record watch_mount =
  wm_path :: path
  wm_folder_id :: string
  wm_device_name :: string
  wm_backend_url :: string
  wm_token :: string

definition read_time_mtime_nanos :: "fs \<Rightarrow> path \<Rightarrow> int option" where
  "read_time_mtime_nanos fs p = (case metadata fs p of
      Inl _ \<Rightarrow> None | Inr n \<Rightarrow> Some (signed_nanos_since_epoch (node_mtime n)))"

definition put_pending :: "env \<Rightarrow> chunk list \<Rightarrow> batch_response_object \<Rightarrow> unit io" where
  "put_pending e chunks object =
     (case bp_error object of
        Some err \<Rightarrow> fail (EMsg (''batch upload error for '' @ bp_oid object @ '': '' @ be_message err))
      | None \<Rightarrow> (case upload_action object of
            None \<Rightarrow> ret ()
          | Some action \<Rightarrow> (case find (\<lambda>c. ck_hash c = bp_oid object) chunks of
                None \<Rightarrow> fail (EMsg (''batch response referenced unknown oid '' @ bp_oid object))
              | Some c \<Rightarrow>
                  try_op (for_each (case ba_header action of None \<Rightarrow> [] | Some hs \<Rightarrow> hs) add_header []) (\<lambda>headers.
                  try_op (send e \<lparr> rq_method = PUT, rq_url = ba_href action, rq_bearer = None,
                                   rq_headers = headers, rq_body = RawBody (ck_data c) \<rparr>) (\<lambda>r.
                  try_op (error_for_status r) (\<lambda>_. ret ()))))))"

text \<open>Unlike \<open>storage::upload_chunks\<close> this does not check the transfer of the reply and marks nothing.\<close>

definition upload_pending_chunks :: "env \<Rightarrow> string \<Rightarrow> string \<Rightarrow> chunk list \<Rightarrow> unit io" where
  "upload_pending_chunks e backend_url token chunks =
     (if chunks = [] then ret ()
      else try_op (send e \<lparr> rq_method = POST, rq_url = api_base backend_url @ ''/objects/batch'',
              rq_bearer = Some token, rq_headers = [],
              rq_body = BatchBody (new_batch_request Upload
                 (map (\<lambda>c. \<lparr> bo_oid = ck_hash c, bo_size = ck_length c \<rparr>) chunks)) \<rparr>) (\<lambda>r.
           try_op (error_for_status r) (\<lambda>body. case body of
               BodyBatch batch \<Rightarrow> for_each (bs_objects batch) (\<lambda>object _. put_pending e chunks object) ()
             | _ \<Rightarrow> fail EDecode)))"

definition stored_content_equal :: "mirror \<Rightarrow> string \<Rightarrow> nat \<Rightarrow> string \<Rightarrow> bool" where
  "stored_content_equal db node_id size_bytes content_hash =
     (case get_node db node_id of
        None \<Rightarrow> False
      | Some node \<Rightarrow> (case ln_current_version_id node of
            None \<Rightarrow> False
          | Some version_id \<Rightarrow> (case get_version db version_id of
                None \<Rightarrow> False
              | Some version \<Rightarrow> lv_size_bytes version = size_bytes \<and> lv_content_hash version = content_hash)))"

definition record_watched_version ::
    "watch_mount \<Rightarrow> string \<Rightarrow> submit_op_request \<Rightarrow> submit_op_response \<Rightarrow> nat \<Rightarrow> int option \<Rightarrow> unit io" where
  "record_watched_version m node_id req response size_bytes mtime_nanos =
     try_op (on_db (apply_submitted_new_version (wm_folder_id m) node_id req response)) (\<lambda>_.
     case (response, mtime_nanos) of
       (Applied _ _, Some t) \<Rightarrow> write_db (update_pushed_cache node_id size_bytes t)
     | _ \<Rightarrow> ret ())"

definition upload_file_new_version :: "env \<Rightarrow> watch_mount \<Rightarrow> string \<Rightarrow> int \<Rightarrow> path \<Rightarrow> unit io" where
  "upload_file_new_version e m node_id based_on_seq p = with_state (\<lambda>w0.
     let mtime_nanos = read_time_mtime_nanos (w_fs w0) p in
     try_op (chunk_file e p) (\<lambda>chunks.
     let size_bytes = sum_list (map ck_length chunks);
         content_hash = manifest_content_hash (env_sha256 e) (map chunk_ref_of chunks) in
     with_state (\<lambda>w.
     if stored_content_equal (w_db w) node_id size_bytes content_hash then ret ()
     else
      (let pending = filter (\<lambda>c. \<not> is_uploaded (w_db w) (ck_hash c)) chunks in
       try_op (upload_pending_chunks e (wm_backend_url m) (wm_token m) pending) (\<lambda>_.
       try_op (write_db (fold (\<lambda>c. mark_uploaded (ck_hash c) (ck_length c)) pending)) (\<lambda>_.
       try_op (new_uuid e) (\<lambda>version_id.
       let req = new_version_request e node_id based_on_seq version_id chunks in
       try_op (submit_op e (wm_backend_url m) (wm_token m) (wm_folder_id m) req) (\<lambda>response.
       try_op (record_watched_version m node_id req response size_bytes mtime_nanos) (\<lambda>_.
       case response of
         ConflictCopy _ _ _ \<Rightarrow>
           try_op (today_date_str e) (\<lambda>date.
           try_op (materialize_conflict_copy e p (wm_device_name m) date) (\<lambda>_. ret ()))
       | _ \<Rightarrow> ret ())))))))))"

definition created_node :: "watch_mount \<Rightarrow> string \<Rightarrow> string \<Rightarrow> node_type \<Rightarrow> string \<Rightarrow> int \<Rightarrow> local_node" where
  "created_node m parent_id name t node_id server_seq =
     \<lparr> ln_node_id = node_id, ln_folder_id = wm_folder_id m, ln_parent_id = Some parent_id, ln_name = name,
       ln_node_type = node_type_str t, ln_current_version_id = None, ln_server_seq = server_seq,
       ln_deleted_at = None, ln_pushed_size_bytes = None, ln_pushed_mtime_nanos = None \<rparr>"

definition submit_created :: "env \<Rightarrow> watch_mount \<Rightarrow> path \<Rightarrow> string \<Rightarrow> node_type \<Rightarrow> string \<Rightarrow> unit io" where
  "submit_created e m p name t parent_id =
     try_op (new_uuid e) (\<lambda>uuid.
     try_op (submit_op e (wm_backend_url m) (wm_token m) (wm_folder_id m) (CreateOp
         \<lparr> cp_node_id = uuid, cp_parent_id = parent_id, cp_name = name, cp_node_type = t \<rparr>)) (\<lambda>response.
     case response of
       Applied server_seq node_id \<Rightarrow>
         try_op (write_db (upsert_node (created_node m parent_id name t node_id server_seq))) (\<lambda>_.
         if t = NFile then upload_file_new_version e m node_id server_seq p else ret ())
     | _ \<Rightarrow> ret ()))"

definition handle_create :: "env \<Rightarrow> watch_mount \<Rightarrow> path \<Rightarrow> unit io" where
  "handle_create e m p = with_state (\<lambda>w.
     case metadata (w_fs w) p of
       Inl err \<Rightarrow> if err = EIo NotFound then ret () else fail err
     | Inr meta \<Rightarrow>
        (case entry_file_name p of
           None \<Rightarrow> fail (EMsg (''path has no valid UTF-8 file name: '' @ path_string p))
         | Some name \<Rightarrow>
            if meta \<noteq> Dir \<and> is_conflict_copy_name name then ret ()
            else try_op (lift_result (resolve_parent_for_path (w_db w) (wm_path m) (wm_folder_id m) p)) (\<lambda>parent.
                 case parent of
                   None \<Rightarrow> ret ()
                 | Some parent_node \<Rightarrow>
                     submit_created e m p name (if meta = Dir then NFolder else NFile) (ln_node_id parent_node))))"

definition handle_modify :: "env \<Rightarrow> watch_mount \<Rightarrow> path \<Rightarrow> unit io" where
  "handle_modify e m p = with_state (\<lambda>w.
     try_op (lift_result (resolve_abs_path (w_db w) (wm_path m) (wm_folder_id m) p)) (\<lambda>node.
     case node of
       None \<Rightarrow> ret ()
     | Some n \<Rightarrow> if ln_node_type n = ''file''
         then upload_file_new_version e m (ln_node_id n) (ln_server_seq n) p else ret ()))"

fun handle_fs_event :: "env \<Rightarrow> watch_mount \<Rightarrow> fs_event \<Rightarrow> unit io" where
  "handle_fs_event e m (CreateEv p) = handle_create e m p"
| "handle_fs_event e m (ModifyEv p) = handle_modify e m p"

fun handle_events_from :: "env \<Rightarrow> watch_mount \<Rightarrow> fs_event list \<Rightarrow> bool io" where
  "handle_events_from e m [] = ret True"
| "handle_events_from e m (ev # evs) =
     match_op (handle_fs_event e m ev)
       (\<lambda>_. handle_events_from e m evs)
       (\<lambda>err. case is_update_required err of
           Some _ \<Rightarrow> try_op (writes (\<lambda>w. w \<lparr> w_flag := True \<rparr>)) (\<lambda>_. ret False)
         | None \<Rightarrow> fail err)"

definition handle_fs_events :: "env \<Rightarrow> watch_mount \<Rightarrow> fs_event list \<Rightarrow> bool io" where
  "handle_fs_events e m events = with_state (\<lambda>w. if w_flag w then ret False else handle_events_from e m events)"

section \<open>The task\<close>

text \<open>Where the task is between two suspensions: at the head of its loop, waiting for a first event,
  in the debounce after one, or in the wait after a pause.\<close>

datatype watch_point = LoopHead | Receiving | Debouncing fs_event | AfterPause

record watch_state =
  ws_point :: watch_point
  ws_rx :: "fs_event list"
  ws_dropped :: bool
  ws_suppressed :: bool
  ws_dirty :: bool
  ws_paused :: bool
  ws_materializing :: bool

definition initial_watch_state :: watch_state where
  "initial_watch_state = \<lparr> ws_point = LoopHead, ws_rx = [], ws_dropped = False, ws_suppressed = False,
     ws_dirty = False, ws_paused = False, ws_materializing = False \<rparr>"

definition quieted :: "watch_state \<Rightarrow> bool" where
  "quieted s = (ws_paused s \<or> ws_materializing s)"

text \<open>The notifier's callback (\<open>watch_mount\<close>).\<close>

definition on_notify :: "notify_kind \<Rightarrow> path list \<Rightarrow> watch_state \<Rightarrow> watch_state" where
  "on_notify kind paths s =
     (let mapped = map_notify_event kind paths in
      if quieted s
      then (if should_mark_suppressed_during_pause (ws_paused s) (ws_materializing s) mapped
            then s \<lparr> ws_suppressed := True \<rparr> else s)
      else (case mapped of
          Some (Event ev) \<Rightarrow> s \<lparr> ws_rx := ws_rx s @ [ev] \<rparr>
        | Some Dirty \<Rightarrow> s \<lparr> ws_dirty := True \<rparr>
        | None \<Rightarrow> s))"

definition loop_head :: "bool \<Rightarrow> watch_state \<Rightarrow> watch_state" where
  "loop_head halted s =
     (if halted then s \<lparr> ws_rx := [] \<rparr>
      else if quieted s then s \<lparr> ws_rx := [], ws_dropped := True \<rparr>
      else if ws_dropped s then s \<lparr> ws_point := AfterPause \<rparr>
      else s \<lparr> ws_point := Receiving \<rparr>)"

definition after_pause :: "watch_state \<Rightarrow> watch_state" where
  "after_pause s = s \<lparr> ws_rx := [], ws_dropped := False, ws_point := LoopHead, ws_suppressed := False,
     ws_dirty := (ws_dirty s \<or> ws_suppressed s) \<rparr>"

definition process_batch :: "env \<Rightarrow> watch_mount \<Rightarrow> fs_event \<Rightarrow> watch_state \<Rightarrow> world \<Rightarrow> watch_state \<times> world" where
  "process_batch e m first s w =
     (let events = collapse_events (first # ws_rx s); s1 = s \<lparr> ws_rx := [], ws_point := LoopHead \<rparr> in
      if quieted s then (s1 \<lparr> ws_dropped := True \<rparr>, w)
      else (case handle_fs_events e m events w of
          (Inr _, w') \<Rightarrow> (s1, w')
        | (Inl _, w') \<Rightarrow> (s1 \<lparr> ws_dirty := True \<rparr>, w')))"

text \<open>The steps of the watched mount: the notifier, the pause and materialisation switches, the
  consumer of the dirty flag, and the task itself.\<close>

inductive watch_step :: "env \<Rightarrow> watch_mount \<Rightarrow> watch_state \<times> world \<Rightarrow> watch_state \<times> world \<Rightarrow> bool"
  for e :: env and m :: watch_mount where
  step_notify: "watch_step e m (s, w) (on_notify kind paths s, w)"
| step_pause: "watch_step e m (s, w) (s \<lparr> ws_paused := b \<rparr>, w)"
| step_materialize: "watch_step e m (s, w) (s \<lparr> ws_materializing := b \<rparr>, w)"
| step_take_dirty: "watch_step e m (s, w) (s \<lparr> ws_dirty := False \<rparr>, w)"
| step_loop: "ws_point s = LoopHead \<Longrightarrow> watch_step e m (s, w) (loop_head (w_flag w) s, w)"
| step_receive: "ws_point s = Receiving \<Longrightarrow> ws_rx s = ev # evs \<Longrightarrow>
    watch_step e m (s, w) (s \<lparr> ws_rx := evs, ws_point := Debouncing ev \<rparr>, w)"
| step_after_pause: "ws_point s = AfterPause \<Longrightarrow> watch_step e m (s, w) (after_pause s, w)"
| step_batch: "ws_point s = Debouncing ev \<Longrightarrow> watch_step e m (s, w) (process_batch e m ev s w)"

inductive_cases watch_stepE [elim]: "watch_step e m (s, w) (s', w')"

section \<open>Properties\<close>

lemma insert_event_set:
  "set (insert_event ev evs) = (case ev of
      CreateEv p \<Rightarrow> insert ev {x \<in> set evs. event_path x \<noteq> p}
    | ModifyEv p \<Rightarrow> if CreateEv p \<in> set evs then set evs else insert ev {x \<in> set evs. event_path x \<noteq> p})"
  by (auto simp: insert_event_def split: fs_event.split)

lemma fold_insert_event:
  assumes "distinct (map event_path acc)"
  shows "distinct (map event_path (fold insert_event evs acc)) \<and>
    (\<forall>p. CreateEv p \<in> set (fold insert_event evs acc) \<longleftrightarrow> CreateEv p \<in> set acc \<or> CreateEv p \<in> set evs) \<and>
    (\<forall>p. ModifyEv p \<in> set (fold insert_event evs acc) \<longleftrightarrow>
       (ModifyEv p \<in> set acc \<or> ModifyEv p \<in> set evs) \<and> CreateEv p \<notin> set evs \<and> CreateEv p \<notin> set acc)"
  using assms
proof (induction evs arbitrary: acc)
  case Nil
  have "CreateEv p \<notin> set acc" if "ModifyEv p \<in> set acc" for p
    using that Nil by (metis event_path.simps fs_event.distinct(1) inj_on_eq_iff distinct_map)
  then show ?case using Nil by auto
next
  case (Cons ev evs)
  have d: "distinct (map event_path (insert_event ev acc))"
    using Cons.prems by (cases ev) (auto simp: insert_event_def distinct_map_filter)
  have clash: "CreateEv p \<notin> set acc" if "ModifyEv p \<in> set acc" for p
    using that Cons.prems by (metis event_path.simps fs_event.distinct(1) inj_on_eq_iff distinct_map)
  have path: "event_path x \<noteq> p \<longleftrightarrow> x \<noteq> CreateEv p \<and> x \<noteq> ModifyEv p" for x p
    by (cases x) auto
  from Cons.IH [OF d] show ?case
    by (cases ev) (auto simp: insert_event_set clash path)
qed

text \<open>C24: collapsing a batch keeps exactly one event per touched path, a create if the path was
  created at any point of the batch and a modification otherwise, and orders them so that a parent
  directory always comes before what is inside it.\<close>

theorem collapse_events_correct:
  "distinct (map event_path (collapse_events events)) \<and>
   set (collapse_events events) =
     {CreateEv p | p. CreateEv p \<in> set events} \<union> {ModifyEv p | p. ModifyEv p \<in> set events \<and> CreateEv p \<notin> set events} \<and>
   sorted (map (\<lambda>ev. length (event_path ev)) (collapse_events events))"
proof -
  let ?c = "fold insert_event events []"
  note f = fold_insert_event [of "[]" events, simplified]
  have "set ?c = {CreateEv p | p. CreateEv p \<in> set events} \<union> {ModifyEv p | p. ModifyEv p \<in> set events \<and> CreateEv p \<notin> set events}"
    (is "_ = ?S")
  proof (rule set_eqI)
    fix x
    show "x \<in> set ?c \<longleftrightarrow> x \<in> ?S" using f by (cases x) auto
  qed
  moreover have "distinct (map event_path (sort_key (\<lambda>ev. length (event_path ev)) ?c))"
    using f by (auto simp: distinct_map)
  ultimately show ?thesis by (simp add: collapse_events_def)
qed

text \<open>While the mount is halted, paused or being materialised, no step of the watcher changes the
  world: nothing is sent to the server, and neither the mirror nor the disk is touched.\<close>

lemma quieted_watcher_is_inert:
  assumes "watch_step e m (s, w) (s', w')" "w_flag w \<or> quieted s"
  shows "w' = w"
  using assms
  by (elim watch_stepE) (auto simp: process_batch_def Let_def handle_fs_events_def with_state_def ret_def
      split: if_splits prod.splits sum.splits)

lemma handle_events_flag:
  "handle_events_from e m evs w = (Inr False, w') \<Longrightarrow> w_flag w'"
proof (induction evs arbitrary: w)
  case (Cons ev evs)
  obtain r w1 where run: "handle_fs_event e m ev w = (r, w1)" by fastforce
  then show ?case
    using Cons by (cases r) (auto simp: match_op_def try_op_def writes_def ret_def fail_def split: option.splits)
qed (simp add: ret_def)

text \<open>a batch that could not be processed is not forgotten: after the step that handles it,
  either all of its events were handled, or the mount is marked dirty for a full reconcile, or it
  is halted for an update, or the batch was dropped for a pause that is remembered.\<close>

theorem batch_outcome_is_remembered:
  assumes "process_batch e m first s w = (s', w')"
  shows "handle_fs_events e m (collapse_events (first # ws_rx s)) w = (Inr True, w') \<or>
    ws_dirty s' \<or> w_flag w' \<or> (ws_dropped s' \<and> quieted s')"
proof (cases "quieted s")
  case True
  then show ?thesis using assms by (auto simp: process_batch_def Let_def quieted_def)
next
  case False
  obtain r w1 where run: "handle_fs_events e m (collapse_events (first # ws_rx s)) w = (r, w1)" by fastforce
  show ?thesis
  proof (cases r)
    case (Inl err)
    then show ?thesis using assms False run by (auto simp: process_batch_def Let_def)
  next
    case (Inr b)
    then have w1: "w' = w1" using assms False run by (auto simp: process_batch_def Let_def)
    show ?thesis
    proof (cases b)
      case False
      then have "w_flag w1"
        using run Inr handle_events_flag [of e m "collapse_events (first # ws_rx s)" w w1]
        by (auto simp: handle_fs_events_def with_state_def ret_def split: if_splits)
      then show ?thesis using w1 by simp
    qed (use run Inr w1 in simp)
  qed
qed

text \<open>An unchanged file costs nothing: if the content on disk has the size and hash of the node's
  current version, a modification event sends no request and changes neither mirror nor disk.\<close>

lemma unchanged_modify_sends_nothing:
  assumes "resolve_abs_path (w_db w) (wm_path m) (wm_folder_id m) p = Inr (Some n)"
    and "fs_read (w_fs w) p = Inr data"
    and "stored_content_equal (w_db w) (ln_node_id n) (sum_list (map ck_length (chunks_of_data e data)))
      (manifest_content_hash (env_sha256 e) (map chunk_ref_of (chunks_of_data e data)))"
  shows "handle_fs_event e m (ModifyEv p) w = (Inr (), w)"
  using assms
  by (simp add: handle_modify_def with_state_def try_op_def lift_result_def upload_file_new_version_def Let_def
      chunk_file_def ret_def)

text \<open>an event can be lost: an edit already queued when a pull starts materialising files is
  drained by the task without marking the mount dirty, and once the pull is over nothing is left
  of it (no queued event, no dirty flag, no request), unlike an edit made during a user pause,
  which is remembered.\<close>

theorem queued_event_lost_by_materialization:
  "(watch_step e m)\<^sup>*\<^sup>* (initial_watch_state, w)
     (initial_watch_state \<lparr> ws_rx := [ModifyEv p] \<rparr>, w) \<and>
   (w_flag w \<or> (watch_step e m)\<^sup>*\<^sup>* (initial_watch_state \<lparr> ws_rx := [ModifyEv p] \<rparr>, w) (initial_watch_state, w))"
proof
  have "watch_step e m (initial_watch_state, w) (on_notify (NModify ModifyData) [p] initial_watch_state, w)"
    by (rule step_notify)
  moreover have "on_notify (NModify ModifyData) [p] initial_watch_state = initial_watch_state \<lparr> ws_rx := [ModifyEv p] \<rparr>"
    by (simp add: on_notify_def map_notify_event_def quieted_def initial_watch_state_def)
  ultimately show "(watch_step e m)\<^sup>*\<^sup>* (initial_watch_state, w) (initial_watch_state \<lparr> ws_rx := [ModifyEv p] \<rparr>, w)"
    by (metis r_into_rtranclp)
  let ?s0 = "initial_watch_state \<lparr> ws_rx := [ModifyEv p] \<rparr>"
  let ?s1 = "?s0 \<lparr> ws_materializing := True \<rparr>"
  let ?s2 = "?s1 \<lparr> ws_rx := [], ws_dropped := True \<rparr>"
  let ?s3 = "?s2 \<lparr> ws_materializing := False \<rparr>"
  let ?s4 = "?s3 \<lparr> ws_point := AfterPause \<rparr>"
  show "w_flag w \<or> (watch_step e m)\<^sup>*\<^sup>* (?s0, w) (initial_watch_state, w)"
  proof (cases "w_flag w")
    case False
    have "watch_step e m (?s0, w) (?s1, w)" by (rule step_materialize)
    moreover have "watch_step e m (?s1, w) (?s2, w)"
      using step_loop [of ?s1 e m w] False by (simp add: initial_watch_state_def loop_head_def quieted_def)
    moreover have "watch_step e m (?s2, w) (?s3, w)" by (rule step_materialize)
    moreover have "watch_step e m (?s3, w) (?s4, w)"
      using step_loop [of ?s3 e m w] False by (simp add: initial_watch_state_def loop_head_def quieted_def)
    moreover have "watch_step e m (?s4, w) (initial_watch_state, w)"
      using step_after_pause [of ?s4 e m w] by (simp add: initial_watch_state_def after_pause_def)
    ultimately show ?thesis by (meson converse_rtranclp_into_rtranclp r_into_rtranclp)
  qed simp
qed

end
