(* ===== verification/Cli_State.thy ===== *)
theory Cli_State
  imports Cli_Errors Mounts Restore Watch
begin

text \<open>
  What a command of \<open>valv-cli\<close> reads and changes, and its boundary.  \<open>cli_env\<close> holds the process
  environment and what the command line calls and this development does not define: the peers
  behind HTTP, the clock, the decoding of TOML, texts that libraries print (\<open>ce_elapsed\<close>: the seconds
  since an RFC 3339 time; \<open>ce_size_text\<close>: a byte count in KB, MB or GB by floating point).  A request to the
  daemon's socket or to the server is answered by \<open>ce_step\<close>, which also says how the rest of the
  system (the daemon shares the database and the disk) left the world meanwhile.  \<open>cli\<close> holds that
  world, the requests sent, the lines printed on standard output and standard error, the number of
  clock readings and the milliseconds slept.  \<open>ce_now\<close> is the time the process spent otherwise up to a
  reading of the clock, in milliseconds; the clock shows it plus what was slept.
  HOME is taken to be an absolute path.
\<close>

section \<open>Requests and replies\<close>

datatype cli_body =
    CNoBody
  | CMount mount_request
  | CUnmount string
  | CLocalPath string
  | CRestore string string
  | CSync "string option"
  | CInvite string string bool
  | CGrant string string bool bool

record cli_request =
  cq_method :: string
  cq_url :: string
  cq_bearer :: "string option"
  cq_body :: cli_body

record grant_entry =
  ge_grant_id :: string
  ge_folder_id :: string
  ge_scope_node_id :: string
  ge_role :: "string option"
  ge_can_read :: "bool option"
  ge_can_write :: "bool option"
  ge_user_id :: "string option"
  ge_device_id :: "string option"
  ge_name :: "string option"
  ge_grantee_email :: "string option"
  ge_device_name :: "string option"
  ge_created_at :: "string option"
  ge_created_by_email :: "string option"
  ge_folder_name :: "string option"

record invite_entry =
  iv_invite_id :: string
  iv_invited_email :: string
  iv_scope_node_id :: string
  iv_can_write :: bool
  iv_created_at :: string

text \<open>A reply: its status, its text, the JSON value the text parses to, and what the decoder of the
  call makes of it.\<close>

datatype cli_payload =
    PStatus daemon_status
  | PMounted mount_response
  | PVersions "version_entry list"
  | PRestored string
  | PSummary sync_summary
  | PGrants "grant_entry list"
  | PInvites "invite_entry list"
  | PInviteToken string
  | PNewGrant string string
  | POther

record cli_reply =
  cr_status :: nat
  cr_text :: string
  cr_value :: "json option"
  cr_payload :: cli_payload

text \<open>\<open>Silent\<close>: the request was sent and nothing ever comes back.  A client without a timeout waits for
  it for ever, which is the value \<open>ENoFuel\<close> of a computation that does not return.\<close>

datatype cli_answer = NoConnection string | TimedOut string | Broken | Silent | Answer cli_reply

section \<open>Configuration and environment\<close>

datatype toml_field = Missing | TomlText string | NotText

text \<open>A table of \<open>config.toml\<close>, as far as the command line reads it.\<close>

record toml_config =
  tc_backend_url :: toml_field
  tc_device_token :: toml_field
  tc_device_name :: toml_field

record cli_env =
  ce_env :: env
  ce_step :: "cli_request list \<Rightarrow> cli_request \<Rightarrow> world \<Rightarrow> cli_answer \<times> world"
  ce_now :: "nat \<Rightarrow> nat"
  ce_toml :: "string \<Rightarrow> toml_config option"
  ce_render :: "error \<Rightarrow> string"
  ce_status_text :: "nat \<Rightarrow> string"
  ce_elapsed :: "string \<Rightarrow> int option"
  ce_size_text :: "nat \<Rightarrow> string"
  ce_to_json :: "json \<Rightarrow> string"
  ce_status_json :: "daemon_status \<Rightarrow> (string \<times> json) list"
  ce_form :: "string \<Rightarrow> (string \<times> string) list"
  ce_lossy :: "string \<Rightarrow> string"
  ce_os :: string
  ce_arch :: string
  ce_home :: "string option"
  ce_cwd :: path
  ce_exe :: "path option"
  ce_terminal :: bool
  ce_line :: "string option"
  ce_db_error :: "error option"
  ce_socket :: "nat \<Rightarrow> bool"

record cli =
  cs_world :: world
  cs_sent :: "cli_request list"
  cs_out :: "string list"
  cs_err :: "string list"
  cs_ticks :: nat
  cs_slept :: nat

type_synonym 'a cio = "(cli, 'a) comp"

definition in_world :: "'a io \<Rightarrow> 'a cio" where
  "in_world m s = (case m (cs_world s) of (r, w) \<Rightarrow> (r, s \<lparr> cs_world := w \<rparr>))"

definition print_line :: "string \<Rightarrow> unit cio" where
  "print_line line = writes (\<lambda>s. s \<lparr> cs_out := cs_out s @ [line] \<rparr>)"

definition print_lines :: "string list \<Rightarrow> unit cio" where
  "print_lines ls = writes (\<lambda>s. s \<lparr> cs_out := cs_out s @ ls \<rparr>)"

definition eprint_line :: "string \<Rightarrow> unit cio" where
  "eprint_line line = writes (\<lambda>s. s \<lparr> cs_err := cs_err s @ [line] \<rparr>)"

text \<open>The prompt is printed where there is a terminal to answer it.\<close>

definition confirm_action :: "cli_env \<Rightarrow> string \<Rightarrow> bool \<Rightarrow> unit cio" where
  "confirm_action e prompt assume_yes =
     try_op (if \<not> assume_yes \<and> ce_terminal e then eprint_line (prompt @ '' [y/N] '') else ret ()) (\<lambda>_.
     lift_result (confirm (ce_terminal e) (ce_line e) assume_yes))"

text \<open>The JSON value in one line, or the lines for people.\<close>

definition emit :: "cli_env \<Rightarrow> bool \<Rightarrow> string list \<Rightarrow> json \<Rightarrow> unit cio" where
  "emit e json human_lines v = (if json then print_line (ce_to_json e v) else print_lines human_lines)"

definition now_ms :: "cli_env \<Rightarrow> nat cio" where
  "now_ms e s = (Inr (ce_now e (cs_ticks s) + cs_slept s), s \<lparr> cs_ticks := Suc (cs_ticks s) \<rparr>)"

definition sleep_ms :: "nat \<Rightarrow> unit cio" where
  "sleep_ms n = writes (\<lambda>s. s \<lparr> cs_slept := cs_slept s + n \<rparr>)"

definition cli_send :: "cli_env \<Rightarrow> cli_request \<Rightarrow> cli_answer cio" where
  "cli_send e rq s = (case ce_step e (cs_sent s) rq (cs_world s) of
      (a, w) \<Rightarrow> (Inr a, s \<lparr> cs_world := w, cs_sent := cs_sent s @ [rq] \<rparr>))"

definition catch_error :: "'a cio \<Rightarrow> (error + 'a) cio" where
  "catch_error m s = (case m s of (r, s') \<Rightarrow> (Inr r, s'))"

definition fail_cli :: "cli_error \<Rightarrow> 'a cio" where
  "fail_cli e = fail (ECli e)"

definition no_home :: error where "no_home = EMsg ''HOME is not set''"

definition home_dir :: "cli_env \<Rightarrow> error + path" where
  "home_dir e = (case ce_home e of None \<Rightarrow> Inl no_home | Some h \<Rightarrow> Inr (components h))"

definition config_path :: "cli_env \<Rightarrow> error + path" where
  "config_path e = map_sum id (\<lambda>h. path_join h ''.config/valv/config.toml'') (home_dir e)"

definition data_dir :: "cli_env \<Rightarrow> error + path" where
  "data_dir e = map_sum id (\<lambda>h. path_join h ''.local/share/valv'') (home_dir e)"

definition socket_path :: "cli_env \<Rightarrow> error + path" where
  "socket_path e = map_sum id (\<lambda>d. path_join d ''valvd.sock'') (data_dir e)"

definition local_state_dir :: "cli_env \<Rightarrow> error + path" where
  "local_state_dir e = map_sum id (\<lambda>h. path_join h ''.local/share/valv'') (home_dir e)"

definition launch_agent_plist_path :: "cli_env \<Rightarrow> error + path" where
  "launch_agent_plist_path e = map_sum id (\<lambda>h. path_join h ''Library/LaunchAgents/dev.drnkn.valvd.plist'') (home_dir e)"

definition systemd_unit_path :: "cli_env \<Rightarrow> error + path" where
  "systemd_unit_path e = map_sum id (\<lambda>h. path_join h ''.config/systemd/user/valvd.service'') (home_dir e)"

definition daemon_log_path :: "cli_env \<Rightarrow> error + path" where
  "daemon_log_path e = map_sum id (\<lambda>h. path_join h ''Library/Logs/Valv/valvd.log'') (home_dir e)"

definition read_to_string :: "fs \<Rightarrow> path \<Rightarrow> string option" where
  "read_to_string fs p = (case fs_read fs p of
      Inl _ \<Rightarrow> None | Inr c \<Rightarrow> if valid_utf8 c then Some c else None)"

record cli_config =
  cg_backend_url :: string
  cg_device_token :: "string option"

definition config_token :: "cli_config \<Rightarrow> error + string" where
  "config_token c = (case cg_device_token c of
      Some token \<Rightarrow> if trim_ws token = [] then Inl (ECli cli_no_credential) else Inr token
    | None \<Rightarrow> Inl (ECli cli_no_credential))"

fun opt_text :: "toml_field \<Rightarrow> error + string option" where
  "opt_text Missing = Inr None"
| "opt_text (TomlText s) = Inr (Some s)"
| "opt_text NotText = Inl EDecode"

fun required_text :: "toml_field \<Rightarrow> error + string" where
  "required_text (TomlText s) = Inr s"
| "required_text _ = Inl EDecode"

definition parse_toml :: "cli_env \<Rightarrow> string \<Rightarrow> error + toml_config" where
  "parse_toml e text = (case ce_toml e text of None \<Rightarrow> Inl EDecode | Some t \<Rightarrow> Inr t)"

definition config_text :: "cli_env \<Rightarrow> string cio" where
  "config_text e =
     try_op (lift_result (config_path e)) (\<lambda>path.
     with_state (\<lambda>s. case read_to_string (w_fs (cs_world s)) path of
         None \<Rightarrow> fail_cli not_configured | Some text \<Rightarrow> ret text))"

definition load_config :: "cli_env \<Rightarrow> cli_config cio" where
  "load_config e =
     try_op (config_text e) (\<lambda>text.
     try_op (lift_result (parse_toml e text)) (\<lambda>t.
     try_op (lift_result (required_text (tc_backend_url t))) (\<lambda>backend_url.
     try_op (lift_result (opt_text (tc_device_token t))) (\<lambda>device_token.
     let config = \<lparr> cg_backend_url = backend_url, cg_device_token = device_token \<rparr> in
     if trim_ws backend_url = [] then fail_cli not_configured
     else try_op (lift_result (config_token config)) (\<lambda>_. ret config)))))"

definition load_backend_url :: "cli_env \<Rightarrow> string cio" where
  "load_backend_url e =
     try_op (config_text e) (\<lambda>text.
     try_op (lift_result (parse_toml e text)) (\<lambda>t.
     try_op (lift_result (required_text (tc_backend_url t))) (\<lambda>backend_url.
     if trim_ws backend_url = [] then fail_cli not_configured else ret backend_url)))"

record config_peek =
  cp_device_token :: "string option"
  cp_device_name :: "string option"

definition peek_config :: "cli_env \<Rightarrow> fs \<Rightarrow> config_peek option" where
  "peek_config e fs = (case config_path e of
      Inl _ \<Rightarrow> None
    | Inr path \<Rightarrow>
        Option.bind (read_to_string fs path) (\<lambda>text.
        Option.bind (ce_toml e text) (\<lambda>t.
        case (opt_text (tc_device_token t), opt_text (tc_device_name t)) of
          (Inr token, Inr name) \<Rightarrow> Some \<lparr> cp_device_token = token, cp_device_name = name \<rparr>
        | _ \<Rightarrow> None)))"

text \<open>A path leads to a file with this text, as after a write that succeeded.\<close>

definition holds_text :: "path \<Rightarrow> string \<Rightarrow> fs \<Rightarrow> bool" where
  "holds_text p c fs = (\<exists>q t. canonicalize fs p = Inr q \<and> fs_entry fs q = Some (File c t))"

lemma fs_write_holds: "fs_write p c t fs = (Inr (), fs') \<Longrightarrow> holds_text p c fs'"
proof -
  assume run: "fs_write p c t fs = (Inr (), fs')"
  then obtain q where q': "resolve_from fs True 40 [] p = Inr q" "fs' = put_entry q (File c t) fs"
      "fs_entry fs q = None \<or> (\<exists>c0 t0. fs_entry fs q = Some (File c0 t0))"
    by (auto simp: fs_write_def split: sum.splits option.splits fs_node.splits if_splits dest!: write_bytes_ok)
  then have "q \<noteq> []" by auto
  note q = q'(1,2) this q'(3)
  have "canonicalize fs' p = Inr q"
  proof (cases "fs_entry fs q")
    case None
    then show ?thesis
      using resolve_create_put [OF q(1) None q(3)] resolve_from_put_new [of fs 40 "[]" p q q] unfolding canonicalize_def q(2) by blast
  next
    case (Some n)
    then show ?thesis
      using resolve_create [OF q(1)] q(4) resolve_from_put_file [of fs 40 "[]" p q q] unfolding canonicalize_def q(2) by auto
  qed
  then show ?thesis using q(2,3) by (auto simp: holds_text_def)
qed

end
