(* ===== verification/Cli_Paths.thy ===== *)
theory Cli_Paths
  imports Cli_State
begin

text \<open>
  From the path a command is given to the mount that covers it and the node it names
  (\<open>valv-cli/src/paths.rs\<close>).  A \<open>PathBuf\<close> is kept as its string; \<open>path_parts\<close> are its components.
\<close>

section \<open>Paths as strings\<close>

definition path_push :: "string \<Rightarrow> string \<Rightarrow> string" where
  "path_push p s = (if is_absolute s then s
     else if p = [] \<or> last p = CHR ''/'' then p @ s else p @ ''/'' @ s)"

text \<open>\<open>fs::canonicalize\<close> of a string; a trailing separator asks for a directory.\<close>

definition canonical_string :: "path \<Rightarrow> fs \<Rightarrow> string \<Rightarrow> string option" where
  "canonical_string cwd fs s =
     (if s = [] then None
      else (case canonicalize fs (if is_absolute s then components s else cwd @ components s) of
          Inl _ \<Rightarrow> None
        | Inr q \<Rightarrow> if (ends_with s ''/'' \<or> ends_with s ''/.'') \<and> fs_entry fs q \<noteq> Some Dir then None
                   else Some (path_string q)))"

lemma normalize_canonical:
  "normalize_path cwd fs s = (case canonical_string cwd fs s of None \<Rightarrow> s | Some c \<Rightarrow> c)"
  by (simp add: normalize_path_def canonical_string_def split: sum.split)

definition expand_tilde :: "string option \<Rightarrow> string \<Rightarrow> string" where
  "expand_tilde home path =
     (if path = ''~'' then (case home of Some h \<Rightarrow> h | None \<Rightarrow> path)
      else (case strip_prefix path ''~/'' of
          Some rest \<Rightarrow> (case home of Some h \<Rightarrow> path_push h rest | None \<Rightarrow> path)
        | None \<Rightarrow> path))"

definition resolve_target :: "string option \<Rightarrow> path \<Rightarrow> fs \<Rightarrow> string \<Rightarrow> string" where
  "resolve_target home cwd fs path =
     (let expanded = expand_tilde home path in
      case canonical_string cwd fs expanded of None \<Rightarrow> expanded | Some c \<Rightarrow> c)"

text \<open>The loop over the parents: the components left, last one first, and those already split off.\<close>

definition canonical_parts :: "path \<Rightarrow> fs \<Rightarrow> path \<Rightarrow> path option" where
  "canonical_parts cwd fs parts =
     (if parts = [] then None
      else (case canonicalize fs (if hd parts = ''/'' then tl parts else cwd @ filter (\<lambda>c. c \<noteq> ''.'') parts) of
          Inl _ \<Rightarrow> None | Inr q \<Rightarrow> Some q))"

fun ancestor_from :: "path \<Rightarrow> fs \<Rightarrow> path \<Rightarrow> path \<Rightarrow> path option" where
  "ancestor_from cwd fs [] suffix = None"
| "ancestor_from cwd fs (c # cs) suffix =
     (if \<not> normal_component c then None
      else (case canonical_parts cwd fs (rev cs) of
          Some q \<Rightarrow> Some (q @ c # suffix)
        | None \<Rightarrow> ancestor_from cwd fs cs (c # suffix)))"

definition canonicalize_via_existing_ancestor :: "path \<Rightarrow> fs \<Rightarrow> string \<Rightarrow> string option" where
  "canonicalize_via_existing_ancestor cwd fs path = (case canonical_string cwd fs path of
       Some c \<Rightarrow> Some c
     | None \<Rightarrow> map_option path_string (ancestor_from cwd fs (rev (path_parts path)) []))"

section \<open>The mount that covers a path\<close>

definition path_starts_with :: "string \<Rightarrow> string \<Rightarrow> bool" where
  "path_starts_with target base = (strip_path_prefix (path_parts target) (path_parts base) \<noteq> None)"

definition covering_mount_in :: "local_mount list \<Rightarrow> string \<Rightarrow> local_mount option" where
  "covering_mount_in mounts target =
     max_by_key (\<lambda>m. length (lm_path m)) (filter (\<lambda>m. path_starts_with target (lm_path m)) mounts)"

definition resolve_covered_target ::
    "string option \<Rightarrow> path \<Rightarrow> fs \<Rightarrow> local_mount list \<Rightarrow> string \<Rightarrow> error + (local_mount \<times> string)" where
  "resolve_covered_target home cwd fs mounts path =
     (let target = resolve_target home cwd fs path in
      case covering_mount_in mounts target of
        Some m \<Rightarrow> Inr (m, target)
      | None \<Rightarrow>
          (case canonicalize_via_existing_ancestor cwd fs (expand_tilde home path) of
             None \<Rightarrow> Inl (ECli (path_not_mounted target))
           | Some canonical \<Rightarrow>
               if path_parts canonical = path_parts target then Inl (ECli (path_not_mounted target))
               else (case covering_mount_in mounts canonical of
                   Some m \<Rightarrow> Inr (m, canonical)
                 | None \<Rightarrow> Inl (ECli (path_not_mounted target)))))"

definition open_sync_db :: "cli_env \<Rightarrow> mirror cio" where
  "open_sync_db e =
     try_op (lift_result (data_dir e)) (\<lambda>_.
     case ce_db_error e of Some err \<Rightarrow> fail err | None \<Rightarrow> reads (\<lambda>s. w_db (cs_world s)))"

definition covered_target :: "cli_env \<Rightarrow> string \<Rightarrow> (local_mount \<times> string) cio" where
  "covered_target e path =
     try_op (open_sync_db e) (\<lambda>db.
     with_state (\<lambda>s. lift_result
       (resolve_covered_target (ce_home e) (ce_cwd e) (w_fs (cs_world s)) (list_mounts db) path)))"

definition cli_resolve_mount :: "cli_env \<Rightarrow> string \<Rightarrow> local_mount cio" where
  "cli_resolve_mount e path = try_op (covered_target e path) (\<lambda>(m, _). ret m)"

definition list_local_mounts :: "cli_env \<Rightarrow> local_mount list cio" where
  "list_local_mounts e = try_op (open_sync_db e) (\<lambda>db. ret (list_mounts db))"

record resolved_target =
  rt_folder_id :: string
  rt_scope_node_id :: string

definition resolve_target_path :: "cli_env \<Rightarrow> string \<Rightarrow> resolved_target cio" where
  "resolve_target_path e path =
     try_op (covered_target e path) (\<lambda>(m, target).
     try_op (open_sync_db e) (\<lambda>db.
     try_op (lift_result (resolve_abs_path db (path_parts (lm_path m)) (lm_folder_id m) (path_parts target))) (\<lambda>node.
     case node of
       None \<Rightarrow> fail_cli (path_not_in_mirror target)
     | Some n \<Rightarrow> ret \<lparr> rt_folder_id = lm_folder_id m, rt_scope_node_id = ln_node_id n \<rparr>)))"

text \<open>The slice of the first eight bytes of a node id; ids are ASCII, so it never splits a character.\<close>

definition scope_label_in :: "mirror \<Rightarrow> string \<Rightarrow> string \<Rightarrow> string" where
  "scope_label_in db folder_id scope_node_id =
     (case get_root_node db folder_id of
        Some root_node \<Rightarrow>
          if ln_node_id root_node = scope_node_id then ''Entire Folder''
          else (case get_node db scope_node_id of
              Some n \<Rightarrow> ln_name n | None \<Rightarrow> ''subtree '' @ take 8 scope_node_id)
      | None \<Rightarrow> (case get_node db scope_node_id of
              Some n \<Rightarrow> ln_name n | None \<Rightarrow> ''subtree '' @ take 8 scope_node_id))"

definition scope_label :: "cli_env \<Rightarrow> string \<Rightarrow> string \<Rightarrow> string cio" where
  "scope_label e folder_id scope_node_id =
     try_op (open_sync_db e) (\<lambda>db. ret (scope_label_in db folder_id scope_node_id))"

definition cli_resolve_valvd_path :: "fs \<Rightarrow> path \<Rightarrow> path" where
  "cli_resolve_valvd_path fs exe = (case path_parent exe of
      Some parent \<Rightarrow> if path_exists fs (path_join parent ''valvd'') then path_join parent ''valvd''
                     else components ''/usr/local/bin/valvd''
    | None \<Rightarrow> components ''/usr/local/bin/valvd'')"

definition canonical_path :: "path \<Rightarrow> fs \<Rightarrow> string \<Rightarrow> error + string" where
  "canonical_path cwd fs path = (case canonical_string cwd fs path of
      Some c \<Rightarrow> Inr c
    | None \<Rightarrow> if path = [] then Inl (EIo IoOther)
        else Inr ((if starts_with path ''//'' \<and> \<not> starts_with path ''///'' then ''/'' else [])
               @ path_string (if is_absolute path then components path else cwd @ components path)
               @ (if ends_with path ''/'' \<and> components path \<noteq> [] then ''/'' else [])))"

section \<open>The command line and the daemon choose the same mount\<close>

lemma max_by_key_fold:
  "fold (\<lambda>x best. case best of None \<Rightarrow> Some x | Some y \<Rightarrow> if key y \<le> key x then Some x else Some y) xs (Some b) =
     Some r \<Longrightarrow> (r = b \<or> r \<in> set xs) \<and> key b \<le> key r \<and> (\<forall>x\<in>set xs. key x \<le> key r)"
  for key :: "'a \<Rightarrow> nat"
proof (induction xs arbitrary: b)
  case (Cons x xs)
  then show ?case by (cases "key b \<le> key x") fastforce+
qed simp

lemma max_by_key_SomeD:
  fixes key :: "'a \<Rightarrow> nat"
  assumes "max_by_key key xs = Some r"
  shows "r \<in> set xs" "\<And>x. x \<in> set xs \<Longrightarrow> key x \<le> key r"
  using assms max_by_key_fold [of key "tl xs" "hd xs" r] by (cases xs; force simp: max_by_key_def)+

lemma max_by_key_None: "max_by_key key xs = None \<longleftrightarrow> xs = []"
proof -
  have "fold (\<lambda>x best. case best of None \<Rightarrow> Some x | Some y \<Rightarrow> if key y \<le> key x then Some x else Some y) ys (Some b) \<noteq> None"
    for ys b by (induction ys arbitrary: b) auto
  then show ?thesis by (cases xs) (auto simp: max_by_key_def)
qed


lemma split_char_plain: "c \<notin> set s \<Longrightarrow> split_char c s = [s]"
  by (induction s) auto

lemma split_char_sep: "c \<notin> set s \<Longrightarrow> split_char c (s @ c # t) = s # split_char c t"
  by (induction s) auto

definition plain_components :: "path \<Rightarrow> bool" where
  "plain_components q = list_all (\<lambda>c. c \<noteq> [] \<and> c \<noteq> ''.'' \<and> CHR ''/'' \<notin> set c) q"

lemma split_path_string:
  "plain_components q \<Longrightarrow> split_char CHR ''/'' (concat (map (\<lambda>c. CHR ''/'' # c) q)) = [] # q"
proof (induction q)
  case (Cons c q)
  then have "split_char CHR ''/'' (concat (map (\<lambda>c. CHR ''/'' # c) q)) = [] # q" "CHR ''/'' \<notin> set c"
    by (simp_all add: plain_components_def)
  then show ?case by (cases q) (simp_all add: split_char_plain split_char_sep)
qed (simp add: plain_components_def)

lemma components_path_string: "plain_components q \<Longrightarrow> components (path_string q) = q"
  using split_path_string [of q]
  by (cases "q = []") (auto simp: components_def path_string_def plain_components_def list_all_iff filter_id_conv)

lemma split_char_parts: "x \<in> set (split_char c s) \<Longrightarrow> c \<notin> set x"
proof (induction s arbitrary: x)
  case (Cons a s)
  then show ?case by (cases "split_char c s") (auto split: if_splits)
qed simp

lemma plain_components_of: "plain_components (components s)"
  unfolding plain_components_def components_def by (auto simp: list_all_iff dest: split_char_parts)

lemma path_parts_string: "plain_components q \<Longrightarrow> path_parts (path_string q) = ''/'' # q"
proof -
  assume q: "plain_components q"
  have "is_absolute (path_string q)"
    by (cases q) (simp_all add: path_string_def is_absolute_def starts_with_def)
  then show ?thesis using components_path_string [OF q] by (simp add: path_parts_def)
qed

lemma path_string_prefix:
  "plain_components q \<Longrightarrow> q \<noteq> [] \<Longrightarrow> length (path_string p) < length (path_string (p @ q))"
  by (cases q) (auto simp: path_string_def plain_components_def)

lemma prefixes_ordered:
  assumes "take (length p) t = p" "take (length q) t = q" "plain_components p" "plain_components q"
  shows "length (path_string p) \<le> length (path_string q) \<longleftrightarrow> length p \<le> length q"
    "length p = length q \<longleftrightarrow> p = q"
proof -
  have longer: "length (path_string a) < length (path_string b)"
    if "take (length a) t = a" "take (length b) t = b" "plain_components b" "length a < length b" for a b :: path
  proof -
    have "a = take (length a) b" using that by (metis less_or_eq_imp_le min.absorb1 take_take)
    then have b: "b = a @ drop (length a) b" by (metis append_take_drop_id)
    moreover have "drop (length a) b \<noteq> []" using that(4) by simp
    moreover have "plain_components (drop (length a) b)"
      using that(3) unfolding plain_components_def list_all_iff by (meson in_set_dropD)
    ultimately show ?thesis using path_string_prefix by metis
  qed
  show same: "length p = length q \<longleftrightarrow> p = q" using assms(1,2) by metis
  consider "length p < length q" | "length q < length p" | "p = q" using same by linarith
  then show "length (path_string p) \<le> length (path_string q) \<longleftrightarrow> length p \<le> length q"
    using longer assms by cases fastforce+
qed

definition canonical_mount :: "path \<Rightarrow> fs \<Rightarrow> string \<Rightarrow> bool" where
  "canonical_mount cwd fs p = (path_string (components p) = p \<and> normalize_path cwd fs p = p)"

lemma canonical_parts_of: "canonical_mount cwd fs p \<Longrightarrow> path_parts p = ''/'' # components p"
  using path_parts_string [OF plain_components_of, of p] by (simp add: canonical_mount_def)

text \<open>The matches of both sides are the mounts whose components begin the target's.\<close>

lemma path_starts_with_canonical:
  "canonical_mount cwd fs p \<Longrightarrow>
   path_starts_with t p \<longleftrightarrow> take (Suc (length (components p))) (path_parts t) = ''/'' # components p"
  by (simp add: path_starts_with_def strip_path_prefix_def canonical_parts_of)

lemma mount_match_canonical:
  "canonical_mount cwd fs (ms_path m) \<Longrightarrow>
   mount_match cwd fs (path_parts t) m =
     (if path_starts_with t (ms_path m)
      then Some (m, drop (Suc (length (components (ms_path m)))) (path_parts t), Suc (length (components (ms_path m))))
      else None)"
proof -
  assume c: "canonical_mount cwd fs (ms_path m)"
  then have "normalize_path cwd fs (ms_path m) = ms_path m" by (simp add: canonical_mount_def)
  then show ?thesis
    by (simp add: mount_match_def path_starts_with_def strip_path_prefix_def canonical_parts_of [OF c] Let_def)
qed

text \<open>C36: The command line takes the mount with the longest path string that begins the target's, the
  daemon the one with the most components.  When the mounts the daemon lists are those of the
  database, under canonical and distinct paths, both choose the same mount for every target.\<close>

lemma same_mount_chosen:
  assumes rows: "set (map (\<lambda>m. (lm_path m, lm_folder_id m)) rows) = set (map (\<lambda>m. (ms_path m, ms_folder_id m)) mounts)"
    and "distinct (map lm_path rows)"
    and canonical: "\<forall>m \<in> set rows. canonical_mount cwd fs (lm_path m)"
  shows "map_option (\<lambda>m. (lm_path m, lm_folder_id m)) (covering_mount_in rows target) =
    map_option (\<lambda>(m, _). (ms_path m, ms_folder_id m)) (mount_of_path cwd fs mounts (path_parts target))"
proof -
  have row: "\<exists>r \<in> set rows. lm_path r = ms_path m \<and> lm_folder_id r = ms_folder_id m" if "m \<in> set mounts" for m
  proof -
    have "(ms_path m, ms_folder_id m) \<in> set (map (\<lambda>m. (lm_path m, lm_folder_id m)) rows)"
      unfolding rows using that by auto
    then show ?thesis by auto
  qed
  have listed: "\<exists>m \<in> set mounts. ms_path m = lm_path r \<and> ms_folder_id m = lm_folder_id r" if "r \<in> set rows" for r
  proof -
    have "(lm_path r, lm_folder_id r) \<in> set (map (\<lambda>m. (ms_path m, ms_folder_id m)) mounts)"
      unfolding rows [symmetric] using that by auto
    then show ?thesis by auto
  qed
  have canon: "canonical_mount cwd fs (ms_path m)" if "m \<in> set mounts" for m using row [OF that] canonical by fastforce
  let ?found = "List.map_filter (mount_match cwd fs (path_parts target)) mounts"
  let ?covers = "filter (\<lambda>m. path_starts_with target (lm_path m)) rows"
  have found: "x \<in> set ?found \<longleftrightarrow> (\<exists>m \<in> set mounts. path_starts_with target (ms_path m) \<and>
      x = (m, drop (Suc (length (components (ms_path m)))) (path_parts target), Suc (length (components (ms_path m)))))" for x
    using mount_match_canonical [OF canon] by (auto simp: List.map_filter_def image_iff split: if_splits)
  show ?thesis
  proof (cases "max_by_key (\<lambda>m. length (lm_path m)) ?covers")
    case None
    then have "?covers = []" by (simp add: max_by_key_None)
    then have none: "\<not> path_starts_with target (lm_path r)" if "r \<in> set rows" for r
      using that by (simp add: filter_empty_conv)
    have "?found = []"
    proof (rule ccontr)
      assume "?found \<noteq> []"
      then obtain m where "m \<in> set mounts" "path_starts_with target (ms_path m)" using found by (metis hd_in_set)
      then show False using row none by metis
    qed
    then show ?thesis using None by (simp add: covering_mount_in_def mount_of_path_def max_by_key_None max_by_key_def)
  next
    case (Some r)
    note r = max_by_key_SomeD [OF Some]
    obtain m0 where m0: "m0 \<in> set mounts" "ms_path m0 = lm_path r" "ms_folder_id m0 = lm_folder_id r"
      using listed r(1) by auto
    have "path_starts_with target (ms_path m0)" using m0(2) r(1) by simp
    then have hit: "(m0, drop (Suc (length (components (ms_path m0)))) (path_parts target), Suc (length (components (ms_path m0)))) \<in> set ?found"
      using m0(1) unfolding found by blast
    then have "?found \<noteq> []" by (metis empty_iff empty_set)
    then obtain x where x: "max_by_key (\<lambda>(_, _, count). count) ?found = Some x"
      by (cases "max_by_key (\<lambda>(_, _, count). count) ?found") (simp_all add: max_by_key_None)
    note x_max = max_by_key_SomeD [OF x]
    obtain m where m: "m \<in> set mounts" "path_starts_with target (ms_path m)"
      "x = (m, drop (Suc (length (components (ms_path m)))) (path_parts target), Suc (length (components (ms_path m))))"
      using x_max(1) found by blast
    obtain r' where r': "r' \<in> set rows" "lm_path r' = ms_path m" "lm_folder_id r' = ms_folder_id m" using row m(1) by blast
    let ?p = "components (ms_path m)" and ?q = "components (lm_path r)" and ?t = "tl (path_parts target)"
    have c: "canonical_mount cwd fs (ms_path m)" "canonical_mount cwd fs (lm_path r)"
      using canon m(1) canonical r(1) by auto
    have pre: "take (length ?p) ?t = ?p" "take (length ?q) ?t = ?q"
      using path_starts_with_canonical [OF c(1), of target] path_starts_with_canonical [OF c(2), of target] m(2) r(1)
      by (auto simp: take_tl)
    have strings: "path_string ?p = ms_path m" "path_string ?q = lm_path r" using c by (simp_all add: canonical_mount_def)
    note ordered = prefixes_ordered [OF pre plain_components_of plain_components_of, unfolded strings]
    have "length (ms_path m) \<le> length (lm_path r)" using r(2) [of r'] r' m(2) by simp
    then have "length ?p \<le> length ?q" using ordered(1) by simp
    moreover have "Suc (length ?q) \<le> Suc (length ?p)"
      using x_max(2) [OF hit] m0(2) m(3) by simp
    ultimately have "length ?p = length ?q" by linarith
    then have pq: "?p = ?q" by (rule ordered(2) [THEN iffD1])
    have "ms_path m = path_string ?p" by (rule strings(1) [symmetric])
    also have "\<dots> = path_string ?q" by (rule arg_cong [OF pq])
    also have "\<dots> = lm_path r" by (rule strings(2))
    finally have same: "ms_path m = lm_path r" .
    have "inj_on lm_path (set rows)" using assms(2) by (simp add: distinct_map)
    moreover have "r \<in> set rows" using r(1) by simp
    ultimately have "r' = r" using r'(1,2) same by (simp add: inj_on_eq_iff [symmetric])
    then show ?thesis using Some x m(3) same r'(3) by (simp add: covering_mount_in_def mount_of_path_def)
  qed
qed

end
