(* ===== verification/Cli_Daemon.thy ===== *)
theory Cli_Daemon
  imports Cli_Paths
begin

text \<open>
  The command line's side of the daemon's socket (\<open>valv-cli/src/daemon.rs\<close>): the client, the
  decoding of replies, starting the daemon when it does not serve, and why it is absent.  The
  installer \<open>valvd daemon install\<close> and the system's journal are parameters.
\<close>

section \<open>The client\<close>

definition daemon_client :: "cli_env \<Rightarrow> unit cio" where
  "daemon_client e =
     try_op (lift_result (socket_path e)) (\<lambda>path.
     with_state (\<lambda>s. if path_exists (w_fs (cs_world s)) path then ret () else fail_cli daemon_not_running))"

definition local_request :: "string \<Rightarrow> string \<Rightarrow> cli_body \<Rightarrow> cli_request" where
  "local_request verb route body =
     \<lparr> cq_method = verb, cq_url = ''http://localhost/'' @ route, cq_bearer = None, cq_body = body \<rparr>"

definition daemon_error_message :: "cli_env \<Rightarrow> cli_reply \<Rightarrow> string" where
  "daemon_error_message e r =
     (if trim_ws (cr_text r) \<noteq> []
      then ''daemon returned '' @ ce_status_text e (cr_status r) @ '': '' @ cr_text r
      else ''daemon returned '' @ ce_status_text e (cr_status r))"

definition parse_daemon_json :: "cli_env \<Rightarrow> (cli_payload \<Rightarrow> 'a option) \<Rightarrow> cli_reply \<Rightarrow> 'a cio" where
  "parse_daemon_json e decode r =
     (if \<not> is_success (cr_status r) then fail (EMsg (daemon_error_message e r))
      else (case decode (cr_payload r) of None \<Rightarrow> fail EDecode | Some x \<Rightarrow> ret x))"

definition expect_status :: "cli_env \<Rightarrow> nat \<Rightarrow> cli_reply \<Rightarrow> unit cio" where
  "expect_status e expected r =
     (if cr_status r = expected then ret () else fail (EMsg (daemon_error_message e r)))"

definition map_daemon_error :: "cli_answer \<Rightarrow> cli_reply cio" where
  "map_daemon_error a = (case a of
       Answer r \<Rightarrow> ret r
     | NoConnection _ \<Rightarrow> fail_cli daemon_not_running
     | Silent \<Rightarrow> fail ENoFuel
     | _ \<Rightarrow> fail ETransport)"

definition daemon_call :: "cli_env \<Rightarrow> string \<Rightarrow> string \<Rightarrow> cli_body \<Rightarrow> cli_reply cio" where
  "daemon_call e verb route body =
     try_op (daemon_client e) (\<lambda>_.
     try_op (cli_send e (local_request verb route body)) map_daemon_error)"

fun as_status :: "cli_payload \<Rightarrow> daemon_status option" where
  "as_status (PStatus s) = Some s"
| "as_status _ = None"

definition fetch_daemon_status :: "cli_env \<Rightarrow> daemon_status cio" where
  "fetch_daemon_status e =
     try_op (daemon_call e ''GET'' ''status'' CNoBody) (parse_daemon_json e as_status)"

text \<open>A probe fails to \<open>None\<close>; it decodes the body whatever the status of the reply.\<close>

definition probe_status :: "cli_env \<Rightarrow> daemon_status option cio" where
  "probe_status e = with_state (\<lambda>s.
     case socket_path e of
       Inl _ \<Rightarrow> ret None
     | Inr path \<Rightarrow>
         if \<not> path_exists (w_fs (cs_world s)) path then ret None
         else try_op (cli_send e (local_request ''GET'' ''status'' CNoBody)) (\<lambda>a.
           case a of Answer r \<Rightarrow> ret (as_status (cr_payload r)) | _ \<Rightarrow> ret None))"

definition probe_credential :: "cli_env \<Rightarrow> credential option cio" where
  "probe_credential e = try_op (probe_status e) (\<lambda>status. ret (map_option dt_credential status))"

section \<open>Starting the daemon\<close>

definition config_contents :: "string \<Rightarrow> string \<Rightarrow> string" where
  "config_contents backend_url device_name =
     ''backend_url = '' @ quoted (toml_escape backend_url) @ nl
     @ ''device_name = '' @ quoted (toml_escape device_name) @ nl"

definition write_config_if_absent :: "path \<Rightarrow> string \<Rightarrow> string \<Rightarrow> unit io" where
  "write_config_if_absent path backend_url device_name = with_state (\<lambda>w.
     if path_exists (w_fs w) path then ret ()
     else
       try_op (on_fs (fs_create_dir_all (butlast path))) (\<lambda>_.
       try_op (on_fs (fs_write path (config_contents backend_url device_name) 0)) (\<lambda>_.
       set_executable path)))"

definition socket_connects_now :: "cli_env \<Rightarrow> bool cio" where
  "socket_connects_now e s = (case socket_path e of
      Inl _ \<Rightarrow> (Inr False, s)
    | Inr path \<Rightarrow>
        if path_exists (w_fs (cs_world s)) path
        then (Inr (ce_socket e (cs_ticks s)), s \<lparr> cs_ticks := Suc (cs_ticks s) \<rparr>)
        else (Inr False, s \<lparr> cs_ticks := Suc (cs_ticks s) \<rparr>))"

definition platform_log_hint :: "string \<Rightarrow> string" where
  "platform_log_hint os =
     (if os = ''linux'' then ''journalctl --user -u valvd -n 50''
      else if os = ''macos'' then ''tail -n 50 ~/Library/Logs/Valv/valvd.log''
      else ''inspect the valvd process output'')"

text \<open>\<open>journal\<close>: the last lines of the daemon's journal, \<open>None\<close> where \<open>journalctl\<close> fails.\<close>

definition last_lines :: "nat \<Rightarrow> string \<Rightarrow> string" where
  "last_lines n text = intercalate nl (rev (take n (rev (text_lines text))))"

definition read_last_daemon_error :: "cli_env \<Rightarrow> string option \<Rightarrow> fs \<Rightarrow> string option" where
  "read_last_daemon_error e journal fs =
     (let non_empty_text = (\<lambda>t. if t = [] then None else Some t) in
      if ce_os e = ''linux'' then Option.bind journal (\<lambda>out. non_empty_text (trim_ws out))
      else if ce_os e = ''macos''
      then (case daemon_log_path e of
          Inl _ \<Rightarrow> None
        | Inr p \<Rightarrow> Option.bind (read_to_string fs p) (\<lambda>text. non_empty_text (last_lines 20 text)))
      else None)"

definition daemon_failure_detail :: "cli_env \<Rightarrow> string option \<Rightarrow> fs \<Rightarrow> string" where
  "daemon_failure_detail e journal fs =
     ''The Valv daemon did not start serving its socket within the timeout.''
     @ (case read_last_daemon_error e journal fs of
          None \<Rightarrow> [] | Some last_error \<Rightarrow> nl @ nl @ ''Last daemon output:'' @ nl @ last_error)
     @ nl @ nl @ ''Inspect it with: '' @ platform_log_hint (ce_os e)"

text \<open>The wait for the socket polls until a deadline: \<open>fuel\<close> rounds of a connection attempt, a look at
  the clock and a sleep.\<close>

primrec socket_wait :: "nat \<Rightarrow> cli_env \<Rightarrow> string option \<Rightarrow> nat \<Rightarrow> unit cio" where
  "socket_wait 0 e journal deadline = fail ENoFuel"
| "socket_wait (Suc fuel) e journal deadline =
     try_op (socket_connects_now e) (\<lambda>connects.
     if connects then ret ()
     else try_op (now_ms e) (\<lambda>now.
       if deadline \<le> now
       then with_state (\<lambda>s. fail_cli (daemon_failed_to_start (daemon_failure_detail e journal (w_fs (cs_world s)))))
       else try_op (sleep_ms 200) (\<lambda>_. socket_wait fuel e journal deadline)))"

definition wait_for_daemon_socket :: "nat \<Rightarrow> cli_env \<Rightarrow> string option \<Rightarrow> nat \<Rightarrow> unit cio" where
  "wait_for_daemon_socket fuel e journal timeout =
     try_op (now_ms e) (\<lambda>now. socket_wait fuel e journal (now + timeout))"

definition ENSURE_DAEMON_TIMEOUT :: nat where "ENSURE_DAEMON_TIMEOUT = 15000"

text \<open>\<open>install\<close> runs \<open>valvd daemon install\<close>: \<open>Inl\<close> the error of launching it, or whether it succeeded
  and what it wrote to standard error.\<close>

definition readable_process_failure :: "string \<Rightarrow> string \<Rightarrow> string" where
  "readable_process_failure os stderr =
     (let stderr = trim_ws stderr in
      if stderr = [] then ''The Valv daemon failed to start. Inspect it with: '' @ platform_log_hint os
      else ''The Valv daemon failed to start.'' @ nl @ stderr)"

definition run_valvd_install_at :: "cli_env \<Rightarrow> (path \<Rightarrow> (string + bool \<times> string) cio) \<Rightarrow> path \<Rightarrow> unit cio" where
  "run_valvd_install_at e install valvd =
     try_op (install valvd) (\<lambda>r. case r of
         Inl err \<Rightarrow> fail_cli (daemon_failed_to_start (''failed to launch '' @ path_string valvd @ '': '' @ err))
       | Inr (ok, stderr) \<Rightarrow> if ok then ret ()
           else fail_cli (daemon_failed_to_start (readable_process_failure (ce_os e) stderr)))"

definition run_valvd_install :: "cli_env \<Rightarrow> (path \<Rightarrow> (string + bool \<times> string) cio) \<Rightarrow> unit cio" where
  "run_valvd_install e install = (case ce_exe e of
       None \<Rightarrow> fail (EMsg ''failed to determine current executable path'')
     | Some exe \<Rightarrow> with_state (\<lambda>s.
         run_valvd_install_at e install (cli_resolve_valvd_path (w_fs (cs_world s)) exe)))"

definition ensure_daemon ::
    "nat \<Rightarrow> cli_env \<Rightarrow> string option \<Rightarrow> (path \<Rightarrow> (string + bool \<times> string) cio) \<Rightarrow> string \<Rightarrow> string \<Rightarrow> unit cio" where
  "ensure_daemon fuel e journal install backend_url device_name =
     try_op (lift_result (config_path e)) (\<lambda>config.
     try_op (in_world (write_config_if_absent config backend_url device_name)) (\<lambda>_.
     try_op (socket_connects_now e) (\<lambda>connects.
     if connects then ret ()
     else
       try_op (run_valvd_install e install) (\<lambda>_.
       try_op (wait_for_daemon_socket fuel e journal ENSURE_DAEMON_TIMEOUT) (\<lambda>_.
       eprint_line ''Started the Valv daemon.'')))))"

section \<open>Why the daemon is absent\<close>

datatype daemon_absence = NotConfigured | NotInstalled | InstalledButFailing "string option"

definition exists_at :: "fs \<Rightarrow> error + path \<Rightarrow> bool" where
  "exists_at fs p = (case p of Inl _ \<Rightarrow> False | Inr q \<Rightarrow> path_exists fs q)"

definition daemon_service_registered :: "cli_env \<Rightarrow> fs \<Rightarrow> bool" where
  "daemon_service_registered e fs =
     (if ce_os e = ''linux'' then exists_at fs (systemd_unit_path e)
      else if ce_os e = ''macos'' then exists_at fs (launch_agent_plist_path e)
      else False)"

definition diagnose_daemon_absence :: "cli_env \<Rightarrow> string option \<Rightarrow> fs \<Rightarrow> daemon_absence" where
  "diagnose_daemon_absence e journal fs =
     (if \<not> exists_at fs (config_path e) then NotConfigured
      else if \<not> daemon_service_registered e fs then NotInstalled
      else InstalledButFailing (read_last_daemon_error e journal fs))"

end
