(* ===== verification/Atomic_Write.thy ===== *)
theory Atomic_Write
  imports Materialize
begin

text \<open>
  \<open>write_atomic\<close> of \<open>tasks.rs\<close>: a temporary file beside the target, renamed over it.  Its effect
  is described exactly: after an error the file system is the one with the parent directories
  created, after a success it differs from that in the target only.
\<close>

section \<open>Well-formed trees\<close>

text \<open>Every entry lies in a directory.\<close>

definition fs_tree :: "fs \<Rightarrow> bool" where
  "fs_tree fs = (\<forall>q. fs_entry fs q \<noteq> None \<longrightarrow> fs_entry fs (butlast q) = Some Dir)"

text \<open>No entry has the component \<open>c\<close>.\<close>

definition unused :: "string \<Rightarrow> fs \<Rightarrow> bool" where
  "unused c fs = (\<forall>q. fs_entry fs q \<noteq> None \<longrightarrow> c \<notin> set q)"

lemma unused_entry: "unused c fs \<Longrightarrow> c \<in> set q \<Longrightarrow> fs_entry fs q = None"
  by (auto simp: unused_def)

lemma unused_under: "unused c fs \<Longrightarrow> c \<in> set q \<Longrightarrow> is_under p q \<Longrightarrow> fs_entry fs p = None"
  unfolding is_under_def by (metis in_set_takeD unused_entry)

lemma fs_tree_under:
  assumes "fs_tree fs" "fs_entry fs q \<noteq> None" "is_under q b" "q \<noteq> b"
  shows "fs_entry fs b = Some Dir"
  using assms(2-)
proof (induction q rule: rev_induct)
  case Nil
  then show ?case by (simp add: is_under_def)
next
  case (snoc x q)
  have dir: "fs_entry fs q = Some Dir" using assms(1) snoc.prems(1) unfolding fs_tree_def by fastforce
  have "length b \<noteq> length (q @ [x])"
  proof
    assume "length b = length (q @ [x])"
    then have "b = q @ [x]" using snoc.prems(2) unfolding is_under_def by (metis order_refl take_all)
    then show False using snoc.prems(3) by simp
  qed
  moreover have "length b \<le> length (q @ [x])" using snoc.prems(2) unfolding is_under_def
    by (metis length_take min.cobounded1)
  ultimately have "length b \<le> length q" by simp
  then have "is_under q b" using snoc.prems(2) by (simp add: is_under_def)
  then show ?case using snoc.IH dir by (cases "q = b") auto
qed

lemma resolve_create_fresh:
  assumes "resolve_from fs True links base (cs @ [c]) = Inr q" "c \<noteq> ''..''" "unused c fs" "fs_tree fs"
    "fs_entry fs base = Some Dir"
  shows "\<exists>d. resolve_from fs False links base cs = Inr d \<and> q = d @ [c] \<and> fs_entry fs d = Some Dir"
  using assms
proof (induction fs "False" links base cs rule: resolve_from.induct)
  case (1 fs links base)
  have none: "fs_entry fs (base @ [c]) = None" using unused_entry [OF 1(3)] by simp
  then show ?case using 1 by simp
next
  case (2 fs links base x cs)
  show ?case
  proof (cases "x = ''..''")
    case True
    then have "fs_entry fs (butlast base) = Some Dir" using 2(7,8) unfolding fs_tree_def by simp
    then show ?thesis using 2 True by simp
  next
    case False
    then obtain n where n: "fs_entry fs (base @ [x]) = Some n"
      using 2(4) by (cases "fs_entry fs (base @ [x])") auto
    show ?thesis
    proof (cases n)
      case (Symlink t)
      then show ?thesis using 2 False n by (cases links) auto
    qed (use 2 False n in auto)
  qed
qed

lemma fs_tree_put_new:
  assumes "fs_tree fs" "fs_entry fs d = Some Dir" "fs_entry fs (d @ [c]) = None"
  shows "fs_tree (put_entry (d @ [c]) n fs)"
  using assms by (auto simp: fs_tree_def split: if_splits)

text \<open>Creating directories adds directories and changes nothing else.\<close>

definition dirs_added :: "fs \<Rightarrow> fs \<Rightarrow> bool" where
  "dirs_added a b = (\<forall>q. fs_entry b q \<noteq> fs_entry a q \<longrightarrow> fs_entry a q = None \<and> fs_entry b q = Some Dir)"

lemma dirs_added_put:
  assumes "dirs_added (put_entry q Dir fs) fs'" "fs_entry fs q = None"
  shows "dirs_added fs fs'"
  unfolding dirs_added_def
proof (intro allI impI)
  fix p
  assume "fs_entry fs' p \<noteq> fs_entry fs p"
  then show "fs_entry fs p = None \<and> fs_entry fs' p = Some Dir"
    using assms unfolding dirs_added_def by (cases "p = q") (auto dest!: spec [of _ p] split: if_splits)
qed

lemma create_dirs_effect:
  assumes "create_dirs base cs fs = (r, fs')" "fs_tree fs" "unused c fs" "c \<notin> set cs"
  shows "fs_tree fs' \<and> unused c fs' \<and> dirs_added fs fs'"
  using assms
proof (induction base cs fs rule: create_dirs.induct)
  case (1 base fs)
  then show ?case by (simp add: dirs_added_def)
next
  case (2 base x cs fs)
  have same: "dirs_added fs fs" by (simp add: dirs_added_def)
  show ?case
  proof (cases "canonicalize fs (base @ [x])")
    case (Inr q)
    show ?thesis
    proof (cases "fs_entry fs q = Some Dir")
      case True
      then show ?thesis using 2(2) [OF Inr True] 2(3-) Inr by simp
    next
      case False
      then show ?thesis using 2(3-) Inr same by auto
    qed
  next
    case canon: (Inl e)
    show ?thesis
    proof (cases "resolve_parent fs (base @ [x])")
      case (Inl e')
      then show ?thesis using 2(3-) canon same by auto
    next
      case (Inr q)
      show ?thesis
      proof (cases "fs_entry fs q \<noteq> None \<or> butlast q \<in> set (fs_denied fs)")
        case True
        then show ?thesis using 2(3-) canon Inr same by (auto split: if_splits)
      next
        case new: False
        have "x \<noteq> ''..''" using canon Inr by (auto simp: resolve_parent_def)
        then obtain d where d: "q = d @ [x]" "fs_entry fs d = Some Dir"
          using Inr by (auto simp: resolve_parent_def split: sum.splits if_splits)
        have tree: "fs_tree (put_entry q Dir fs)" using fs_tree_put_new [OF 2(4) d(2)] new d(1) by simp
        have "c \<notin> set d" using d(2) 2(5) unfolding unused_def by simp
        then have fresh: "unused c (put_entry q Dir fs)" using 2(5,6) d(1) by (auto simp: unused_def split: if_splits)
        have run: "create_dirs (base @ [x]) cs (put_entry q Dir fs) = (r, fs')" using 2(3) canon Inr new by simp
        have "fs_tree fs' \<and> unused c fs' \<and> dirs_added (put_entry q Dir fs) fs'"
          using 2(1) [OF canon Inr] new run tree fresh 2(6) by simp
        then show ?thesis using new dirs_added_put by blast
      qed
    qed
  qed
qed

section \<open>The write\<close>

text \<open>The same entries.\<close>

definition same_entries :: "fs \<Rightarrow> fs \<Rightarrow> bool" where
  "same_entries a b = (\<forall>q. fs_entry a q = fs_entry b q)"

lemma temp_file_left:
  assumes "fs_write (dir @ [c]) bytes t fs = (r, fs')" "c \<noteq> ''..''" "unused c fs" "fs_tree fs"
  shows "(\<exists>e. r = Inl e \<and> fs' = fs) \<or>
    (\<exists>d held. canonicalize fs dir = Inr d \<and> fs_entry fs d = Some Dir \<and> fs_entry fs (d @ [c]) = None \<and>
      d \<notin> set (fs_denied fs) \<and> fs' = put_entry (d @ [c]) (File held t) fs \<and> (r = Inr () \<longrightarrow> held = bytes))"
proof (cases "resolve_from fs True 40 [] (dir @ [c])")
  case (Inl e)
  then show ?thesis using assms(1) by (auto simp: fs_write_def)
next
  case (Inr q)
  obtain d where d: "canonicalize fs dir = Inr d" "q = d @ [c]" "fs_entry fs d = Some Dir"
    using resolve_create_fresh [OF Inr assms(2-4)] by (auto simp: canonicalize_def)
  have none: "fs_entry fs (d @ [c]) = None" using unused_entry [OF assms(3)] by simp
  show ?thesis
  proof (cases "d \<in> set (fs_denied fs)")
    case True
    then show ?thesis using assms(1) Inr d none by (auto simp: fs_write_def)
  next
    case False
    then have "write_bytes (d @ [c]) bytes t fs = (r, fs')" using assms(1) Inr d none by (simp add: fs_write_def)
    then have "\<exists>held. fs' = put_entry (d @ [c]) (File held t) fs \<and> (r = Inr () \<longrightarrow> held = bytes)"
      using write_bytes_cases by blast
    then show ?thesis using d(1,3) none False by blast
  qed
qed

lemma temp_file_written:
  assumes "fs_write (dir @ [c]) bytes t fs = (Inr (), fs')" "c \<noteq> ''..''" "unused c fs" "fs_tree fs"
  shows "\<exists>d. canonicalize fs dir = Inr d \<and> fs_entry fs d = Some Dir \<and> fs_entry fs (d @ [c]) = None \<and>
    d \<notin> set (fs_denied fs) \<and> fs' = put_entry (d @ [c]) (File bytes t) fs"
  using temp_file_left [OF assms] by auto

lemma fs_sync_same [simp]: "snd (fs_sync p fs) = fs"
  by (simp add: fs_sync_def split: sum.split)

lemma drop_unused:
  assumes "unused c fs" "q \<noteq> []" "c \<in> set q"
  shows "same_entries (drop_tree q fs) fs"
  using unused_under [OF assms(1,3)] assms(2) by (auto simp: same_entries_def)

lemma remove_unused_file:
  assumes "fs_remove_file (dir @ [c]) fs = (r, fs')" "c \<noteq> ''..''" "unused c fs"
  shows "same_entries fs' fs"
proof -
  have "remove_path False (dir @ [c]) fs = (r, fs')" using assms(1) by (simp add: remove_path_def)
  then show ?thesis
  proof (cases rule: remove_path_cases)
    case (removed q)
    then have "c \<in> set q" using assms(2) by (auto simp: resolve_parent_def split: sum.splits if_splits)
    then show ?thesis using removed drop_unused [OF assms(3)] by simp
  qed (simp add: same_entries_def)
qed

lemma remove_temp_file:
  assumes "canonicalize fs dir = Inr d" "fs_entry fs d = Some Dir" "d \<notin> set (fs_denied fs)"
    "c \<noteq> ''..''" "unused c fs" "fs_remove_file (dir @ [c]) (put_entry (d @ [c]) (File bytes t) fs) = (r, fs')"
  shows "same_entries fs' fs"
proof -
  let ?fs = "put_entry (d @ [c]) (File bytes t) fs"
  have none: "fs_entry fs (d @ [c]) = None" using unused_entry [OF assms(5)] by simp
  have "canonicalize ?fs dir = Inr d"
    using assms(1) resolve_from_put_new none unfolding canonicalize_def by blast
  moreover have "fs_entry ?fs d = Some Dir" using assms(2) by simp
  ultimately have "resolve_parent ?fs (dir @ [c]) = Inr (d @ [c])" using assms(4) by (simp add: resolve_parent_def)
  then have run: "fs' = drop_tree (d @ [c]) ?fs" using assms(3,6) by (simp add: fs_remove_file_def)
  show ?thesis unfolding run using unused_under [OF assms(5), of "d @ [c]"] by (auto simp: same_entries_def)
qed

text \<open>Renaming the temporary file over a target that is not a directory replaces the target only.\<close>

lemma unused_keys: "unused c fs \<Longrightarrow> e \<in> set (fs_nodes fs) \<Longrightarrow> c \<notin> set (fst e)"
  unfolding unused_def fs_entry_def
  by (metis list.set_intros(1) map_of_eq_None_iff image_eqI option.distinct(1) empty_iff empty_set)

lemma move_temp_entry:
  assumes "unused c fs" "fs_tree fs" "fs_entry fs (d @ [name]) \<noteq> Some Dir"
  shows "fs_entry (move_tree (d @ [c]) (d @ [name]) (put_entry (d @ [c]) n fs)) q =
    (if q = d @ [name] then Some n else fs_entry fs q)"
proof -
  let ?a = "d @ [c]" and ?b = "d @ [name]" and ?nodes = "fs_nodes fs"
  have not_under: "\<not> is_under (fst e) ?a" if "e \<in> set ?nodes" for e
  proof
    assume "is_under (fst e) ?a"
    then have "c \<in> set (fst e)" unfolding is_under_def by (metis in_set_conv_decomp in_set_takeD)
    then show False using unused_keys [OF assms(1) that] by simp
  qed
  have kept: "filter (\<lambda>e. fst e \<noteq> ?a) ?nodes = ?nodes"
  proof (rule filter_True, rule ballI)
    fix e
    assume "e \<in> set ?nodes"
    then show "fst e \<noteq> ?a" using not_under [of e] by auto
  qed
  have moved: "filter (\<lambda>e. is_under (fst e) ?a) ?nodes = []"
    using not_under by (simp add: filter_empty_conv)
  have others: "filter (\<lambda>e. \<not> is_under (fst e) ?a \<and> \<not> is_under (fst e) ?b) ?nodes
      = filter (\<lambda>e. \<not> is_under (fst e) ?b) ?nodes"
    using not_under by (intro filter_cong) auto
  have drop: "map_of (filter (\<lambda>e. \<not> is_under (fst e) ?b) xs) q = (if is_under q ?b then None else map_of xs q)"
    for xs :: "(path \<times> fs_node) list"
    by (induction xs) auto
  have nodes: "fs_nodes (move_tree ?a ?b (put_entry ?a n fs)) = (?b, n) # filter (\<lambda>e. \<not> is_under (fst e) ?b) ?nodes"
    using kept moved others by (simp add: move_tree_def put_entry_def Let_def)
  have below: "fs_entry fs q = None" if "is_under q ?b" "q \<noteq> ?b"
    using fs_tree_under [OF assms(2) _ that] assms(3) by blast
  have "fs_entry (move_tree ?a ?b (put_entry ?a n fs)) q =
      (if q = [] then Some Dir else if q = ?b then Some n else if is_under q ?b then None else fs_entry fs q)"
    by (simp add: fs_entry_def nodes drop)
  then show ?thesis using below by (auto simp: fs_entry_root)
qed

lemma plain_component:
  assumes "CHR ''/'' \<notin> set c" "c \<noteq> []" "c \<noteq> ''.''"
  shows "path_join dir c = dir @ [c]"
proof -
  have "split_char CHR ''/'' s = [s]" if "CHR ''/'' \<notin> set s" for s
    using that by (induction s) auto
  then have "components c = [c]" using assms by (simp add: components_def)
  moreover have "\<not> is_absolute c" using assms(1,2) by (cases c) (auto simp: is_absolute_def starts_with_def)
  ultimately show ?thesis by (simp add: path_join_def)
qed

lemma temp_name_plain:
  assumes "CHR ''/'' \<notin> set name" "CHR ''/'' \<notin> set uuid"
  shows "CHR ''/'' \<notin> set (temp_name name uuid)" "temp_name name uuid \<noteq> []" "temp_name name uuid \<noteq> ''.''"
    "temp_name name uuid \<noteq> ''..''" "temp_name name uuid \<noteq> name"
  using assms by (auto simp: temp_name_def dest!: arg_cong [of _ _ length])

text \<open>Writing and renaming the temporary file: an error leaves it at most beside the target.\<close>

lemma write_then_rename:
  assumes "unused c fs" "fs_tree fs" "c \<noteq> ''..''" "name \<noteq> ''..''" "c \<noteq> name"
    "fs_write (dir @ [c]) bytes t fs = (Inr (), fs1)" "fs_rename (dir @ [c]) (dir @ [name]) fs1 = (r, fs2)"
  shows "(\<exists>e. r = Inl e \<and> fs2 = fs1) \<or> (r = Inr () \<and> (\<exists>d. canonicalize fs dir = Inr d \<and>
    (\<forall>q. fs_entry fs2 q = (if q = d @ [name] then Some (File bytes t) else fs_entry fs q))))"
proof -
  obtain d where d: "canonicalize fs dir = Inr d" "fs_entry fs d = Some Dir" "fs_entry fs (d @ [c]) = None"
    "fs1 = put_entry (d @ [c]) (File bytes t) fs"
    using temp_file_written [OF assms(6,3,1,2)] by blast
  have "canonicalize fs1 dir = Inr d"
    using d(1,3,4) resolve_from_put_new unfolding canonicalize_def by blast
  then have places: "resolve_parent fs1 (dir @ [c]) = Inr (d @ [c])" "resolve_parent fs1 (dir @ [name]) = Inr (d @ [name])"
    using d(2,4) assms(3,4) by (auto simp: resolve_parent_def)
  have written: "fs_entry fs1 (d @ [c]) = Some (File bytes t)" using d(4) by simp
  have target: "fs_entry fs1 (d @ [name]) = fs_entry fs (d @ [name])" using d(4) assms(5) by simp
  have apart: "\<not> is_under (d @ [name]) (d @ [c])" using assms(5) by (simp add: is_under_def)
  show ?thesis
  proof (cases r)
    case (Inl e)
    then have "fs2 = fs1" using assms(7)
      by (auto simp: fs_rename_def split: sum.splits option.splits fs_node.splits if_splits)
    then show ?thesis using Inl by simp
  next
    case (Inr u)
    then have moved: "fs2 = move_tree (d @ [c]) (d @ [name]) fs1" "fs_entry fs (d @ [name]) \<noteq> Some Dir"
      using assms(5,7) places written target apart
      by (auto simp: fs_rename_def split: option.splits fs_node.splits if_splits)
    show ?thesis
      using Inr d(1) move_temp_entry [OF assms(1,2) moved(2)] moved(1) d(4) by auto
  qed
qed

definition parents_made :: "path \<Rightarrow> fs \<Rightarrow> fs" where
  "parents_made p fs = snd (fs_create_dir_all (butlast p) fs)"

lemma parents_made_effect:
  assumes "fs_tree fs" "unused c fs" "c \<notin> set p"
  shows "fs_tree (parents_made p fs)" "unused c (parents_made p fs)" "dirs_added fs (parents_made p fs)"
proof -
  have "c \<notin> set (butlast p)" using assms(3) by (meson in_set_butlastD)
  then show "fs_tree (parents_made p fs)" "unused c (parents_made p fs)" "dirs_added fs (parents_made p fs)"
    using create_dirs_effect [of "[]" "butlast p" fs _ _ c] assms(1,2)
    unfolding parents_made_def fs_create_dir_all_def by (metis prod.collapse)+
qed

lemma create_parent_run:
  "\<exists>r. create_parent p w = (r, w \<lparr> w_fs := parents_made p (w_fs w) \<rparr>)"
  by (cases "p = []") (auto simp: create_parent_def path_parent_def on_fs_def parents_made_def fs_create_dir_all_def
      run_simps split: prod.split)

text \<open>The part of \<open>write_atomic\<close> after the parent directories, on the file system.\<close>

definition swap_in :: "path \<Rightarrow> path \<Rightarrow> string \<Rightarrow> int \<Rightarrow> (fs, unit) comp" where
  "swap_in temp_path p bytes t =
     match_op (try_op (fs_write temp_path bytes t) (\<lambda>_. try_op (fs_sync temp_path) (\<lambda>_. fs_rename temp_path p))) ret
       (\<lambda>err. match_op (fs_remove_file temp_path) (\<lambda>_. fail err) (\<lambda>_. fail err))"

lemma swap_in_world:
  "match_op (try_op (on_fs (fs_write temp_path bytes t)) (\<lambda>_.
       try_op (on_fs (fs_sync temp_path)) (\<lambda>_. on_fs (fs_rename temp_path p)))) ret
     (\<lambda>err. match_op (on_fs (fs_remove_file temp_path)) (\<lambda>_. fail err) (\<lambda>_. fail err)) w
   = on_fs (swap_in temp_path p bytes t) w"
  by (auto simp: swap_in_def on_fs_def run_simps split: prod.split sum.split)

lemma swap_in_effect:
  assumes "unused c fs" "fs_tree fs" "c \<noteq> ''..''" "name \<noteq> ''..''" "c \<noteq> name"
    "swap_in (dir @ [c]) (dir @ [name]) bytes t fs = (r, fs')"
  shows "(\<exists>e. r = Inl e \<and> same_entries fs' fs) \<or> (r = Inr () \<and> (\<exists>d. canonicalize fs dir = Inr d \<and>
    (\<forall>q. fs_entry fs' q = (if q = d @ [name] then Some (File bytes t) else fs_entry fs q))))"
proof -
  let ?temp = "dir @ [c]"
  obtain r1 fs1 where w: "fs_write ?temp bytes t fs = (r1, fs1)" by fastforce
  obtain rs fss where sy: "fs_sync ?temp fs1 = (rs, fss)" by fastforce
  have fss: "fss = fs1" using fs_sync_same [of ?temp fs1] sy by simp
  obtain r2 fs2 where mv: "fs_rename ?temp (dir @ [name]) fs1 = (r2, fs2)" by fastforce
  obtain r3 fs3 where rm: "fs_remove_file ?temp fs1 = (r3, fs3)" by fastforce
  have clean: "same_entries fs3 fs" using temp_file_left [OF w assms(3,1,2)]
    by (elim disjE exE conjE) (use rm remove_unused_file [OF _ assms(3,1)] remove_temp_file [OF _ _ _ assms(3,1)] in blast)+
  have failed: "r = Inl e \<and> fs' = fs3"
    if "r1 = Inl e \<or> (r1 = Inr () \<and> rs = Inl e) \<or> (r1 = Inr () \<and> rs = Inr () \<and> r2 = Inl e \<and> fs2 = fs1)" for e
    using that assms(6) w sy mv rm fss by (cases r3) (auto simp: swap_in_def run_simps)
  show ?thesis
  proof (cases "r1 = Inr () \<and> rs = Inr ()")
    case False
    then have "\<exists>e. r1 = Inl e \<or> (r1 = Inr () \<and> rs = Inl e)" by (cases r1; cases rs) auto
    then show ?thesis using failed clean by blast
  next
    case True
    then have w': "fs_write ?temp bytes t fs = (Inr (), fs1)" using w by simp
    from write_then_rename [OF assms(1-5) w' mv] show ?thesis
    proof (elim disjE exE conjE)
      fix e
      assume "r2 = Inl e" "fs2 = fs1"
      then show ?thesis using True failed clean by blast
    next
      fix d
      assume ok: "r2 = Inr ()" "canonicalize fs dir = Inr d"
        "\<forall>q. fs_entry fs2 q = (if q = d @ [name] then Some (File bytes t) else fs_entry fs q)"
      have "r = Inr ()" "fs' = fs2" using assms(6) w sy mv fss ok(1) True by (simp_all add: swap_in_def run_simps)
      then show ?thesis using ok by blast
    qed
  qed
qed

lemma write_atomic_run:
  assumes "write_atomic e p bytes w = (r, w')"
    "fs_tree (w_fs w)" "unused (temp_name (last p) (env_uuid e (w_uuids w))) (w_fs w)"
    "temp_name (last p) (env_uuid e (w_uuids w)) \<notin> set p"
    "CHR ''/'' \<notin> set (last p)" "CHR ''/'' \<notin> set (env_uuid e (w_uuids w))"
  shows "(\<exists>err. r = Inl err \<and> same_entries (w_fs w') (parents_made p (w_fs w))) \<or>
    (r = Inr () \<and> (\<exists>d t. canonicalize (parents_made p (w_fs w)) (butlast p) = Inr d \<and>
       (\<forall>q. fs_entry (w_fs w') q =
          (if q = d @ [last p] then Some (File bytes t) else fs_entry (parents_made p (w_fs w)) q))))"
proof -
  let ?uuid = "env_uuid e (w_uuids w)"
  let ?c = "temp_name (last p) ?uuid" and ?fs = "parents_made p (w_fs w)"
  note made = parents_made_effect [OF assms(2-4)]
  note plain = temp_name_plain [OF assms(5,6)]
  have refl: "same_entries a a" for a by (simp add: same_entries_def)
  obtain r1 where r1: "create_parent p w = (r1, w \<lparr> w_fs := ?fs \<rparr>)" using create_parent_run by blast
  show ?thesis
  proof (cases r1)
    case (Inl err)
    then have "r = Inl err" "w_fs w' = ?fs" using assms(1) r1 by (auto simp: write_atomic_def try_op_def)
    then show ?thesis using refl by simp
  next
    case (Inr u)
    show ?thesis
    proof (cases "Option.bind (path_file_name p) to_str")
      case None
      then have "\<exists>err. r = Inl err" "w_fs w' = ?fs" using assms(1) r1 Inr
        by (auto simp: write_atomic_def try_op_def fail_def)
      then show ?thesis using refl by auto
    next
      case (Some name)
      then have name: "p \<noteq> []" "last p = name" "name \<noteq> ''..''"
        by (auto simp: path_file_name_def to_str_def bind_eq_Some_conv split: if_splits)
      then have temp: "with_file_name p ?c = butlast p @ [?c]" and target: "p = butlast p @ [name]"
        using plain_component [OF plain(1-3)] by (auto simp: with_file_name_def path_file_name_def)
      have split: "write_atomic e p bytes w =
          on_fs (swap_in (butlast p @ [?c]) p bytes (env_mtime e (w_ticks w)))
            (w \<lparr> w_fs := ?fs, w_uuids := Suc (w_uuids w), w_ticks := Suc (w_ticks w) \<rparr>)"
        using r1 Inr Some name(2) temp
        by (simp add: write_atomic_def try_op_def new_uuid_def tick_def Let_def swap_in_world)
      obtain r2 fs2 where s: "swap_in (butlast p @ [?c]) (butlast p @ [name]) bytes (env_mtime e (w_ticks w)) ?fs = (r2, fs2)"
        by fastforce
      have out: "r = r2" "w_fs w' = fs2" using split assms(1) s target by (auto simp: on_fs_def)
      show ?thesis using swap_in_effect [OF made(2,1) plain(4) name(3) _ s] plain(5) name(2) unfolding out by auto
    qed
  qed
qed

text \<open>C1: Writing a file is all or nothing (\<open>write_atomic\<close>).  In a well-formed tree, with a
  temporary name that is not in use, the parent directories are created first and nothing but
  directories is added by that; then either the call fails and every entry is as it was, or it
  succeeds and the target holds exactly the bytes, every other entry being as it was.  The device may
  take only some of the bytes or fail to flush them: the temporary file created by then is removed
  again, so on every error, after the file was created too, no temporary file is left.\<close>

theorem write_atomic_all_or_nothing:
  assumes "write_atomic e p bytes w = (r, w')"
    "fs_tree (w_fs w)" "unused (temp_name (last p) (env_uuid e (w_uuids w))) (w_fs w)"
    "temp_name (last p) (env_uuid e (w_uuids w)) \<notin> set p"
    "CHR ''/'' \<notin> set (last p)" "CHR ''/'' \<notin> set (env_uuid e (w_uuids w))"
  shows "dirs_added (w_fs w) (parents_made p (w_fs w)) \<and>
    ((\<exists>err. r = Inl err \<and> same_entries (w_fs w') (parents_made p (w_fs w))) \<or>
     (r = Inr () \<and> (\<exists>d t. canonicalize (parents_made p (w_fs w)) (butlast p) = Inr d \<and>
       (\<forall>q. fs_entry (w_fs w') q =
          (if q = d @ [last p] then Some (File bytes t) else fs_entry (parents_made p (w_fs w)) q)))))"
  using write_atomic_run [OF assms] parents_made_effect(3) [OF assms(2-4)] by blast

end
