(* ===== verification/File_Moves.thy ===== *)
theory File_Moves
  imports Atomic_Write
begin

text \<open>
  Renaming regular files: what \<open>fs_rename\<close> does to the entries, and which resolutions survive.
  The swap of the installed binaries is a sequence of such renames, with every step undone by
  the rename in the other direction.
\<close>

section \<open>Entries after a move\<close>

lemma map_of_under:
  "map_of (filter (\<lambda>e. is_under (fst e) a) xs) q = (if is_under q a then map_of xs q else None)"
  "map_of (filter (\<lambda>e. \<not> is_under (fst e) a \<and> \<not> is_under (fst e) b) xs) q =
     (if is_under q a \<or> is_under q b then None else map_of xs q)"
  by (induction xs) auto

lemma under_path: "is_under p a \<Longrightarrow> a @ drop (length a) p = p"
  unfolding is_under_def by (metis append_take_drop_id)

lemma moved_key: "is_under p a \<Longrightarrow> (b @ drop (length a) p = q) = (is_under q b \<and> p = a @ drop (length b) q)"
  by (auto simp: is_under_def) (metis append_take_drop_id)+

lemma map_of_moved:
  "list_all (\<lambda>e. is_under (fst e) a) xs \<Longrightarrow>
   map_of (map (\<lambda>(p, n). (b @ drop (length a) p, n)) xs) q =
     (if is_under q b then map_of xs (a @ drop (length b) q) else None)"
  by (induction xs) (auto simp: moved_key under_path)

lemma is_under_append [simp]: "is_under (a @ t) a"
  by (simp add: is_under_def)

lemma move_tree_entry:
  assumes "a \<noteq> []" "b \<noteq> []"
  shows "fs_entry (move_tree a b fs) q =
    (if q = [] then Some Dir
     else if is_under q b \<and> fs_entry fs (a @ drop (length b) q) \<noteq> None then fs_entry fs (a @ drop (length b) q)
     else if is_under q a \<or> is_under q b then None else fs_entry fs q)"
  using assms
  by (simp add: fs_entry_def move_tree_def Let_def map_add_def map_of_under map_of_moved list_all_iff
      split: option.split)

lemma move_file_entry:
  assumes "fs_tree fs" "fs_entry fs a = Some n" "n \<noteq> Dir" "\<not> is_under b a" "b \<noteq> []" "fs_entry fs b \<noteq> Some Dir"
  shows "fs_entry (move_tree a b fs) q = (if q = b then Some n else if q = a then None else fs_entry fs q)"
proof -
  have a: "a \<noteq> []" using assms(2,3) by auto
  have below: "fs_entry fs (a @ t) = None" if "t \<noteq> []" for t
    using fs_tree_under [OF assms(1), of "a @ t" a] assms(2,3) that by fastforce
  have below_b: "fs_entry fs p = None" if "is_under p b" "p \<noteq> b" for p
    using fs_tree_under [OF assms(1) _ that] assms(6) by blast
  have under_a: "fs_entry fs p = None" if "is_under p a" "p \<noteq> a" for p
    using fs_tree_under [OF assms(1) _ that] assms(2,3) by fastforce
  have b_eq: "q = b" if "is_under q b" "drop (length b) q = []"
    using that unfolding is_under_def by (metis append_Nil2 append_take_drop_id)
  show ?thesis
    unfolding move_tree_entry [OF a assms(5)]
    using below b_eq below_b under_a assms(2,4,5) a by (cases "drop (length b) q = []") auto
qed

section \<open>Resolutions that survive\<close>

text \<open>\<open>dirs_kept a b\<close>: the directories and links of \<open>a\<close> are in \<open>b\<close>.  A path of \<open>a\<close> that names a
  directory names the same directory in \<open>b\<close>.\<close>

definition dirs_kept :: "fs \<Rightarrow> fs \<Rightarrow> bool" where
  "dirs_kept a b = (\<forall>p n. fs_entry a p = Some n \<longrightarrow> n = Dir \<or> (\<exists>t. n = Symlink t) \<longrightarrow> fs_entry b p = Some n)"

lemma dirs_kept_refl [simp]: "dirs_kept a a"
  by (simp add: dirs_kept_def)

lemma dirs_kept_trans: "dirs_kept a b \<Longrightarrow> dirs_kept b c \<Longrightarrow> dirs_kept a c"
  by (simp add: dirs_kept_def)

lemma resolve_from_dirs_kept:
  assumes "dirs_kept a b" "resolve_from a False links base cs = Inr r" "fs_entry a r = Some Dir"
  shows "resolve_from b False links base cs = Inr r"
  using assms
proof (induction a "False" links base cs rule: resolve_from.induct)
  case (2 a links base c cs)
  show ?case
  proof (cases "c = ''..''")
    case True
    then show ?thesis using 2 by simp
  next
    case False
    then obtain n where n: "fs_entry a (base @ [c]) = Some n"
      using 2(5) by (cases "fs_entry a (base @ [c])") auto
    then show ?thesis
    proof (cases n)
      case Dir
      then have "fs_entry b (base @ [c]) = Some Dir" using 2(4) n unfolding dirs_kept_def by blast
      then show ?thesis using 2 False n Dir by simp
    next
      case (Symlink t)
      then have "fs_entry b (base @ [c]) = Some (Symlink t)" using 2(4) n unfolding dirs_kept_def by blast
      then show ?thesis using 2 False n Symlink by (cases links) auto
    qed (use 2 False n in \<open>auto split: if_splits\<close>)
  qed
qed simp

lemma canonicalize_dirs_kept:
  "dirs_kept a b \<Longrightarrow> canonicalize a p = Inr r \<Longrightarrow> fs_entry a r = Some Dir \<Longrightarrow> canonicalize b p = Inr r"
  unfolding canonicalize_def by (rule resolve_from_dirs_kept)

section \<open>Slots\<close>

text \<open>\<open>slots dir d names fs\<close>: \<open>dir\<close> is a path to the directory \<open>d\<close>, and under the \<open>names\<close> it
  holds regular files or nothing.\<close>

definition plain_entry :: "fs_node option \<Rightarrow> bool" where
  "plain_entry n = (case n of None \<Rightarrow> True | Some (File _ _) \<Rightarrow> True | Some _ \<Rightarrow> False)"

definition slots :: "path \<Rightarrow> path \<Rightarrow> string set \<Rightarrow> fs \<Rightarrow> bool" where
  "slots dir d names fs =
     (fs_tree fs \<and> canonicalize fs dir = Inr d \<and> fs_entry fs d = Some Dir \<and> ''..'' \<notin> names \<and>
      (\<forall>x\<in>names. plain_entry (fs_entry fs (d @ [x]))))"

text \<open>\<open>moved a b fs fs'\<close>: the regular file at \<open>a\<close> is now at \<open>b\<close>, and nothing else changed.\<close>

definition moved :: "path \<Rightarrow> path \<Rightarrow> fs \<Rightarrow> fs \<Rightarrow> bool" where
  "moved a b fs fs' =
     (fs_denied fs' = fs_denied fs \<and>
      (\<forall>q. fs_entry fs' q = (if q = b then fs_entry fs a else if q = a then None else fs_entry fs q)))"

lemma moved_tree:
  assumes "fs_tree fs" "moved a b fs fs'" "plain_entry (fs_entry fs a)" "plain_entry (fs_entry fs b)"
    "fs_entry fs (butlast b) = Some Dir"
  shows "fs_tree fs'" "dirs_kept fs fs'"
proof -
  have a: "fs_entry fs a \<noteq> Some Dir" "fs_entry fs b \<noteq> Some Dir"
    using assms(3,4) by (auto simp: plain_entry_def)
  have dir: "fs_entry fs' p = Some Dir" if "fs_entry fs p = Some Dir" for p
    using assms(2) that a unfolding moved_def by auto
  show "fs_tree fs'"
    unfolding fs_tree_def
  proof (intro allI impI)
    fix q
    assume "fs_entry fs' q \<noteq> None"
    then have "q = b \<or> fs_entry fs q \<noteq> None" using assms(2) unfolding moved_def by metis
    then have "fs_entry fs (butlast q) = Some Dir" using assms(1,5) unfolding fs_tree_def by blast
    then show "fs_entry fs' (butlast q) = Some Dir" by (rule dir)
  qed
  show "dirs_kept fs fs'"
    using assms(2-4) a unfolding dirs_kept_def moved_def plain_entry_def by auto
qed

lemma resolve_parent_slot:
  assumes "slots dir d names fs" "x \<in> names"
  shows "resolve_parent fs (dir @ [x]) = Inr (d @ [x])"
  using assms by (auto simp: slots_def resolve_parent_def)

lemma slots_moved:
  assumes "slots dir d names fs" "moved a b fs fs'" "plain_entry (fs_entry fs a)" "plain_entry (fs_entry fs b)"
    "fs_entry fs (butlast b) = Some Dir"
  shows "slots dir d names fs'"
proof -
  note kept = moved_tree [OF _ assms(2-5)]
  have tree: "fs_tree fs" using assms(1) by (simp add: slots_def)
  have "canonicalize fs' dir = Inr d"
    using canonicalize_dirs_kept [OF kept(2) [OF tree]] assms(1) by (simp add: slots_def)
  moreover have "fs_entry fs' d = Some Dir"
    using kept(2) [OF tree] assms(1) unfolding dirs_kept_def slots_def by blast
  moreover have "\<forall>x\<in>names. plain_entry (fs_entry fs' (d @ [x]))"
    using assms(1-4) unfolding slots_def moved_def by (auto simp: plain_entry_def)
  ultimately show ?thesis using kept(1) [OF tree] assms(1) by (simp add: slots_def)
qed

text \<open>A rename between plain places: it succeeds exactly when there is a file to move and both
  directories may be changed.\<close>

lemma rename_plain:
  assumes tree: "fs_tree fs"
    and "resolve_parent fs old = Inr a" "resolve_parent fs new = Inr b" "a \<noteq> b"
    and plain: "plain_entry (fs_entry fs a)" "plain_entry (fs_entry fs b)"
    and dir: "fs_entry fs (butlast b) = Some Dir" "b \<noteq> []"
  shows "(\<exists>e. fs_rename old new fs = (Inl e, fs) \<and>
            (fs_entry fs a = None \<or> butlast a \<in> set (fs_denied fs) \<or> butlast b \<in> set (fs_denied fs))) \<or>
         (\<exists>fs'. fs_rename old new fs = (Inr (), fs') \<and> moved a b fs fs' \<and> fs_entry fs a \<noteq> None \<and>
            butlast a \<notin> set (fs_denied fs) \<and> butlast b \<notin> set (fs_denied fs))"
proof (cases "fs_entry fs a")
  case None
  then show ?thesis using assms by (simp add: fs_rename_def)
next
  case (Some n)
  then obtain c t where n: "n = File c t" using plain(1) by (cases n) (auto simp: plain_entry_def)
  have under: "\<not> is_under b a"
  proof
    assume "is_under b a"
    then have "is_under (butlast b) a" using \<open>a \<noteq> b\<close> \<open>b \<noteq> []\<close> unfolding is_under_def
      by (metis append_take_drop_id append_self_conv butlast_append take_all_iff nat_le_linear append_eq_conv_conj)
    then show False using fs_tree_under [OF tree, of "butlast b" a] dir Some n by (cases "butlast b = a") auto
  qed
  have b: "fs_entry fs b \<noteq> Some Dir" using plain(2) by (auto simp: plain_entry_def)
  have "moved a b fs (move_tree a b fs)"
    using move_file_entry [OF tree Some, of b] n under b dir(2) Some
    unfolding moved_def by (auto simp: move_tree_def Let_def)
  then show ?thesis using assms Some n under plain(2)
    by (auto simp: fs_rename_def plain_entry_def split: option.splits fs_node.splits)
qed

text \<open>Removing a regular file removes its entry only.\<close>

lemma drop_file_entry:
  assumes "fs_tree fs" "plain_entry (fs_entry fs a)" "a \<noteq> []"
  shows "fs_entry (drop_tree a fs) q = (if q = a then None else fs_entry fs q)"
proof -
  have "fs_entry fs q = None" if "is_under q a" "q \<noteq> a"
    using fs_tree_under [OF assms(1) _ that] assms(2) by (cases "fs_entry fs q") (auto simp: plain_entry_def)
  then show ?thesis using assms(3) by auto
qed

lemma slots_dropped:
  assumes "slots dir d names fs" "plain_entry (fs_entry fs a)" "a \<noteq> []"
  shows "slots dir d names (drop_tree a fs)"
proof -
  have tree: "fs_tree fs" using assms(1) by (simp add: slots_def)
  note entry = drop_file_entry [OF tree assms(2,3)]
  have kept: "dirs_kept fs (drop_tree a fs)" using assms(2) unfolding dirs_kept_def entry by (auto simp: plain_entry_def)
  have "fs_tree (drop_tree a fs)"
    using tree assms(2) unfolding fs_tree_def entry by (auto simp: plain_entry_def)
  moreover have "canonicalize (drop_tree a fs) dir = Inr d"
    using canonicalize_dirs_kept [OF kept] assms(1) by (simp add: slots_def)
  moreover have "fs_entry (drop_tree a fs) d = Some Dir"
    using kept assms(1) unfolding dirs_kept_def slots_def by blast
  ultimately show ?thesis using assms(1) unfolding slots_def entry by (auto simp: plain_entry_def)
qed

end
