(* ===== verification/Service_Install.thy ===== *)
theory Service_Install
  imports Cli_Daemon File_Moves
begin

text \<open>
  Installing and removing the daemon's service (\<open>valvd daemon install\<close> and \<open>uninstall\<close>:
  \<open>launchd.rs\<close>, \<open>systemd.rs\<close>), the template of \<open>config.toml\<close> and the old logs (\<open>config.rs\<close>), and the
  daemon's sockets at its start and its end (\<open>serve_socket\<close> in \<open>main.rs\<close>).  What runs a program,
  answers on the socket, reads a line or a clock is a parameter; programs and the daemon may change
  the disk meanwhile.  The waits sleep between their probes.
\<close>

section \<open>The process\<close>

text \<open>\<open>se_run\<close>: the programs run before, the program with its arguments and the disk give an error of
  launching it or its success, the text of its exit status and its standard output, and the new disk.
  \<open>se_connect\<close>: the bytes of the first \<open>read\<close> of a reply to \<open>GET /status\<close>, \<open>se_reply\<close>: all of them.\<close>

record service_env =
  se_home :: "string option"
  se_exe :: "error + path"
  se_user :: "string option"
  se_hostname :: "string option"
  se_run :: "string list list \<Rightarrow> string list \<Rightarrow> fs \<Rightarrow> (error + bool \<times> string \<times> string) \<times> fs"
  se_connect :: "nat \<Rightarrow> fs \<Rightarrow> string option \<times> fs"
  se_reply :: "fs \<Rightarrow> string option \<times> fs"
  se_status :: "string \<Rightarrow> daemon_status option"
  se_line :: "nat \<Rightarrow> error + string"
  se_now :: "nat \<Rightarrow> nat"
  se_mtime :: "nat \<Rightarrow> int"
  se_lossy :: "string \<Rightarrow> string"
  se_render :: "error \<Rightarrow> string"

text \<open>\<open>sv_slept\<close>: the milliseconds slept, which the clock shows beside \<open>se_now\<close>; \<open>sv_heard\<close>: what each
  probe of the daemon's socket read, in order.\<close>

record service =
  sv_fs :: fs
  sv_ran :: "string list list"
  sv_out :: "string list"
  sv_err :: "string list"
  sv_lines_read :: nat
  sv_ticks :: nat
  sv_slept :: nat
  sv_heard :: "string option list"

type_synonym 'a sio = "(service, 'a) comp"

definition on_disk :: "(fs, 'a) comp \<Rightarrow> 'a sio" where
  "on_disk m s = (case m (sv_fs s) of (r, fs) \<Rightarrow> (r, s \<lparr> sv_fs := fs \<rparr>))"

definition say :: "string list \<Rightarrow> unit sio" where
  "say ls = writes (\<lambda>s. s \<lparr> sv_out := sv_out s @ ls \<rparr>)"

definition complain :: "string \<Rightarrow> unit sio" where
  "complain line = writes (\<lambda>s. s \<lparr> sv_err := sv_err s @ [line] \<rparr>)"

definition run_program :: "service_env \<Rightarrow> string list \<Rightarrow> (bool \<times> string \<times> string) sio" where
  "run_program e args s = (case se_run e (sv_ran s) args (sv_fs s) of
      (r, fs) \<Rightarrow> (r, s \<lparr> sv_fs := fs, sv_ran := sv_ran s @ [args] \<rparr>))"

definition write_file :: "service_env \<Rightarrow> path \<Rightarrow> string \<Rightarrow> unit sio" where
  "write_file e p contents s =
     on_disk (fs_write p contents (se_mtime e (sv_ticks s))) (s \<lparr> sv_ticks := Suc (sv_ticks s) \<rparr>)"

section \<open>Paths\<close>

definition daemon_home :: "service_env \<Rightarrow> error + path" where
  "daemon_home e = (case se_home e of None \<Rightarrow> Inl no_home | Some h \<Rightarrow> Inr (components h))"

definition in_home :: "service_env \<Rightarrow> string \<Rightarrow> error + path" where
  "in_home e sub = map_sum id (\<lambda>h. path_join h sub) (daemon_home e)"

definition daemon_config_path :: "service_env \<Rightarrow> error + path" where
  "daemon_config_path e = map_sum id (\<lambda>d. path_join d ''config.toml'') (in_home e ''.config/valv'')"

definition daemon_data_dir :: "service_env \<Rightarrow> error + path" where
  "daemon_data_dir e = in_home e ''.local/share/valv''"

definition log_dir :: "service_env \<Rightarrow> error + path" where
  "log_dir e = in_home e ''Library/Logs/Valv''"

definition daemon_socket_path :: "service_env \<Rightarrow> error + path" where
  "daemon_socket_path e = map_sum id (\<lambda>d. path_join d ''valvd.sock'') (daemon_data_dir e)"

definition tcp_port_file_path :: "service_env \<Rightarrow> error + path" where
  "tcp_port_file_path e =
     map_sum id (\<lambda>d. path_join d ''valvd-tcp-port'') (in_home e ''Library/Group Containers/group.dev.drnkn.valv'')"

definition agent_path :: "service_env \<Rightarrow> error + path" where
  "agent_path e = map_sum id launch_agent_path (daemon_home e)"

definition unit_path :: "service_env \<Rightarrow> error + path" where
  "unit_path e = in_home e ''.config/systemd/user/valvd.service''"

definition resolve_valvd_path :: "service_env \<Rightarrow> fs \<Rightarrow> error + path" where
  "resolve_valvd_path e fs = (case se_exe e of
      Inl err \<Rightarrow> Inl err
    | Inr current \<Rightarrow>
        if Option.bind (Option.bind (path_file_name current) file_stem_of) to_str = Some ''valvd'' then Inr current
        else (case path_parent current of
            Some d \<Rightarrow> if path_exists fs (path_join d ''valvd'') then Inr (path_join d ''valvd'')
              else Inr (components ''/usr/local/bin/valvd'')
          | None \<Rightarrow> Inr (components ''/usr/local/bin/valvd'')))"

section \<open>The configuration\<close>

definition ask :: "service_env \<Rightarrow> string \<Rightarrow> string \<Rightarrow> string sio" where
  "ask e label preset s =
     (map_sum id (\<lambda>input. prompt_value input preset) (se_line e (sv_lines_read s)),
      s \<lparr> sv_lines_read := Suc (sv_lines_read s), sv_out := sv_out s @ [label @ '' ['' @ preset @ '']: ''] \<rparr>)"

definition set_owner_only_permissions :: "path \<Rightarrow> (fs, unit) comp" where
  "set_owner_only_permissions p = with_state (\<lambda>fs. case canonicalize fs p of
      Inl err \<Rightarrow> fail err
    | Inr q \<Rightarrow> if fs_entry fs q = None then fail (EIo NotFound)
        else if q \<in> set (fs_denied fs) then fail (EIo PermissionDenied) else ret ())"

definition ensure_config_template :: "service_env \<Rightarrow> unit sio" where
  "ensure_config_template e =
     try_op (lift_result (daemon_config_path e)) (\<lambda>path.
     with_state (\<lambda>s.
       if path_exists (sv_fs s) path then ret ()
       else
         try_op (on_disk (fs_create_dir_all (butlast path))) (\<lambda>_.
         try_op (ask e ''Backend URL'' ''https://api.valvsync.com'') (\<lambda>backend_url.
         try_op (ask e ''Device name'' (default_device_name (se_hostname e))) (\<lambda>device_name.
         try_op (write_file e path (config_template backend_url device_name)) (\<lambda>_.
         on_disk (set_owner_only_permissions path)))))))"

section \<open>Waiting for the daemon\<close>

definition daemon_serves :: "service_env \<Rightarrow> bool sio" where
  "daemon_serves e s = (case se_connect e (sv_ticks s) (sv_fs s) of
      (r, fs) \<Rightarrow> (Inr (case r of None \<Rightarrow> False | Some bytes \<Rightarrow> starts_with (take 32 bytes) ''HTTP/1.1 200''),
                  s \<lparr> sv_fs := fs, sv_ticks := Suc (sv_ticks s), sv_heard := sv_heard s @ [r] \<rparr>))"

definition clock :: "service_env \<Rightarrow> nat sio" where
  "clock e s = (Inr (se_now e (sv_ticks s) + sv_slept s), s \<lparr> sv_ticks := Suc (sv_ticks s) \<rparr>)"

definition service_sleep :: "nat \<Rightarrow> unit sio" where
  "service_sleep n = writes (\<lambda>s. s \<lparr> sv_slept := sv_slept s + n \<rparr>)"

primrec serve_wait :: "nat \<Rightarrow> service_env \<Rightarrow> nat \<Rightarrow> bool sio" where
  "serve_wait 0 e deadline = fail ENoFuel"
| "serve_wait (Suc fuel) e deadline =
     try_op (daemon_serves e) (\<lambda>serves.
     if serves then ret True
     else try_op (clock e) (\<lambda>now. if deadline \<le> now then ret False
       else try_op (service_sleep 200) (\<lambda>_. serve_wait fuel e deadline)))"

definition wait_for_daemon_socket_at :: "nat \<Rightarrow> service_env \<Rightarrow> nat \<Rightarrow> bool sio" where
  "wait_for_daemon_socket_at fuel e timeout = try_op (clock e) (\<lambda>now. serve_wait fuel e (now + timeout))"

definition await_daemon :: "nat \<Rightarrow> service_env \<Rightarrow> nat \<Rightarrow> bool sio" where
  "await_daemon fuel e timeout =
     try_op (lift_result (daemon_socket_path e)) (\<lambda>_. wait_for_daemon_socket_at fuel e timeout)"

definition fetch_status_at :: "service_env \<Rightarrow> daemon_status option sio" where
  "fetch_status_at e s = (case daemon_socket_path e of
      Inl _ \<Rightarrow> (Inr None, s)
    | Inr _ \<Rightarrow> (case se_reply e (sv_fs s) of
        (r, fs) \<Rightarrow>
          (Inr (Option.bind r (\<lambda>response.
             if \<not> valid_utf8 response then None
             else Option.bind (find_str [CHR 0x0D, CHR 0x0A, CHR 0x0D, CHR 0x0A] response)
               (\<lambda>i. se_status e (drop (i + 4) response)))), s \<lparr> sv_fs := fs \<rparr>)))"

definition print_credential_state :: "service_env \<Rightarrow> unit sio" where
  "print_credential_state e =
     try_op (fetch_status_at e) (\<lambda>status.
     if map_option dt_credential status = Some CredNone
     then say [[], ''valvd is running, but this machine has no key yet. Next:'',
       ''  valv mount <path> --key <token>   (headless / access key)'',
       ''  valv login                        (sign in to an account)'']
     else ret ())"

section \<open>launchd\<close>

definition SOCKET_WAIT_TIMEOUT :: nat where "SOCKET_WAIT_TIMEOUT = 10000"

definition launchctl_domain :: "service_env \<Rightarrow> string sio" where
  "launchctl_domain e =
     try_op (run_program e [''id'', ''-u'']) (\<lambda>(success, status, stdout).
     if \<not> success then fail (EMsg (''id -u failed with status '' @ status))
     else if \<not> valid_utf8 stdout then fail EDecode
     else ret (''gui/'' @ trim_ws stdout))"

definition run_launchctl :: "service_env \<Rightarrow> string \<Rightarrow> path \<Rightarrow> bool \<Rightarrow> unit sio" where
  "run_launchctl e action plist_path fail_on_error =
     try_op (launchctl_domain e) (\<lambda>domain.
     try_op (run_program e [''launchctl'', action, domain, path_string plist_path]) (\<lambda>(success, status, stdout).
     if success then ret ()
     else
       let message = ''launchctl '' @ action @ '' failed with status '' @ status in
       if fail_on_error then fail (EMsg message) else complain message))"

definition agent_text :: "path \<Rightarrow> path \<Rightarrow> string" where
  "agent_text valvd_path logs =
     launch_agent_plist (path_string valvd_path) (path_string (path_join logs ''valvd.stdout.log''))
       (path_string (path_join logs ''valvd.stderr.log''))"

definition write_launch_agent_plist :: "service_env \<Rightarrow> path \<Rightarrow> path \<Rightarrow> unit sio" where
  "write_launch_agent_plist e plist_path valvd_path =
     try_op (case path_parent plist_path of None \<Rightarrow> ret () | Some parent \<Rightarrow> on_disk (fs_create_dir_all parent)) (\<lambda>_.
     try_op (lift_result (log_dir e)) (\<lambda>logs.
     try_op (on_disk (fs_create_dir_all logs)) (\<lambda>_.
     write_file e plist_path (agent_text valvd_path logs))))"

definition last_stderr_lines :: "service_env \<Rightarrow> fs \<Rightarrow> string option" where
  "last_stderr_lines e fs = (case log_dir e of
      Inl _ \<Rightarrow> None
    | Inr logs \<Rightarrow> Option.bind (read_to_string fs (path_join logs ''valvd.stderr.log'')) (\<lambda>text.
        let tail = last_lines 5 text in if tail = [] then None else Some tail))"

definition launchd_startup_failure :: "service_env \<Rightarrow> fs \<Rightarrow> error" where
  "launchd_startup_failure e fs = EMsg
     (''valvd failed to start: launchd reports the launch agent loaded, but the daemon never began serving its socket.''
      @ (case last_stderr_lines e fs of None \<Rightarrow> [] | Some tail \<Rightarrow> nl @ nl @ ''Last stderr output:'' @ nl @ tail)
      @ (case log_dir e of Inl _ \<Rightarrow> []
         | Inr logs \<Rightarrow> nl @ nl @ ''Inspect it at: '' @ path_string (path_join logs ''valvd.stderr.log'')))"

definition install_agent :: "nat \<Rightarrow> service_env \<Rightarrow> unit sio" where
  "install_agent fuel e =
     try_op (ensure_config_template e) (\<lambda>_.
     try_op (lift_result (agent_path e)) (\<lambda>plist_path.
     try_op (run_launchctl e ''bootout'' plist_path False) (\<lambda>_.
     try_op (with_state (\<lambda>s. lift_result (resolve_valvd_path e (sv_fs s)))) (\<lambda>valvd_path.
     try_op (write_launch_agent_plist e plist_path valvd_path) (\<lambda>_.
     try_op (run_launchctl e ''bootstrap'' plist_path True) (\<lambda>_.
     try_op (await_daemon fuel e SOCKET_WAIT_TIMEOUT) (\<lambda>serves.
     if \<not> serves then with_state (\<lambda>s. fail (launchd_startup_failure e (sv_fs s)))
     else
       try_op (say [''Installed valvd launch agent at '' @ path_string plist_path]) (\<lambda>_.
       print_credential_state e))))))))"

definition remove_if_there :: "path \<Rightarrow> unit sio" where
  "remove_if_there p =
     match_op (on_disk (fs_remove_file p)) ret (\<lambda>err. if err = EIo NotFound then ret () else fail err)"

definition uninstall_agent :: "service_env \<Rightarrow> unit sio" where
  "uninstall_agent e =
     try_op (lift_result (agent_path e)) (\<lambda>plist_path.
     try_op (run_launchctl e ''bootout'' plist_path False) (\<lambda>_. remove_if_there plist_path))"

section \<open>systemd\<close>

definition run_systemctl :: "service_env \<Rightarrow> string list \<Rightarrow> bool \<Rightarrow> unit sio" where
  "run_systemctl e args fail_on_error =
     try_op (run_program e ([''systemctl'', ''--user''] @ args)) (\<lambda>(success, status, stdout).
     if success then ret ()
     else
       let message = ''systemctl --user '' @ intercalate '' '' args @ '' failed with status '' @ status in
       if fail_on_error then fail (EMsg message) else complain message)"

definition write_unit_file :: "service_env \<Rightarrow> path \<Rightarrow> path \<Rightarrow> unit sio" where
  "write_unit_file e p valvd_path = write_file e p (unit_file_content (path_string valvd_path))"

definition last_journal_lines :: "service_env \<Rightarrow> string option sio" where
  "last_journal_lines e =
     match_op (run_program e [''journalctl'', ''--user'', ''-u'', ''valvd'', ''-n'', ''5'', ''--no-pager'', ''-q''])
       (\<lambda>(success, status, stdout).
          let text = trim_ws (se_lossy e stdout) in
          ret (if \<not> success \<or> text = [] then None else Some text))
       (\<lambda>_. ret None)"

definition systemd_startup_failure :: "service_env \<Rightarrow> path \<Rightarrow> unit sio" where
  "systemd_startup_failure e p =
     try_op (last_journal_lines e) (\<lambda>journal. fail (EMsg
       (''valvd failed to start: systemd reports the user unit at '' @ path_string p
        @ '' enabled, but the daemon never began serving its socket.''
        @ (case journal of None \<Rightarrow> [] | Some tail \<Rightarrow> nl @ nl @ ''Last journal output:'' @ nl @ tail)
        @ nl @ nl @ ''Inspect it with: journalctl --user -u valvd -n 50'')))"

definition current_user :: "service_env \<Rightarrow> string" where
  "current_user e = (case se_user e of Some u \<Rightarrow> u | None \<Rightarrow> ''$USER'')"

definition install_unit :: "nat \<Rightarrow> service_env \<Rightarrow> unit sio" where
  "install_unit fuel e =
     try_op (ensure_config_template e) (\<lambda>_.
     try_op (lift_result (unit_path e)) (\<lambda>p.
     try_op (with_state (\<lambda>s. lift_result (resolve_valvd_path e (sv_fs s)))) (\<lambda>valvd_path.
     try_op (case path_parent p of None \<Rightarrow> ret () | Some parent \<Rightarrow> on_disk (fs_create_dir_all parent)) (\<lambda>_.
     try_op (write_unit_file e p valvd_path) (\<lambda>_.
     try_op (run_systemctl e [''daemon-reload''] False) (\<lambda>_.
     try_op (run_systemctl e [''enable'', ''--now'', ''valvd''] True) (\<lambda>_.
     try_op (await_daemon fuel e SOCKET_WAIT_TIMEOUT) (\<lambda>serves.
     if \<not> serves then systemd_startup_failure e p
     else
       try_op (say [''Installed valvd user service at '' @ path_string p,
         ''This is a user unit, not a system unit. Inspect it with:'',
         ''  systemctl --user status valvd'', ''  journalctl --user -u valvd -n 50'']) (\<lambda>_.
       try_op (print_credential_state e) (\<lambda>_.
       say [[], ''Optional, to start valvd on boot without logging in:'',
         ''  loginctl enable-linger '' @ current_user e]))))))))))"

definition uninstall_unit :: "service_env \<Rightarrow> unit sio" where
  "uninstall_unit e =
     try_op (run_systemctl e [''disable'', ''--now'', ''valvd''] False) (\<lambda>_.
     try_op (lift_result (unit_path e)) (\<lambda>p.
     try_op (remove_if_there p) (\<lambda>_. run_systemctl e [''daemon-reload''] False)))"

text \<open>The branch of \<open>main\<close>: the exit code.\<close>

definition daemon_command :: "service_env \<Rightarrow> unit sio \<Rightarrow> nat sio" where
  "daemon_command e cmd =
     match_op cmd (\<lambda>_. ret 0) (\<lambda>err. try_op (complain (se_render e err)) (\<lambda>_. ret 1))"

section \<open>Restarting and unpacking\<close>

text \<open>\<open>trigger_restart\<close> of a self-update, on macOS and on Linux.  A program that cannot be launched
  fails with the context given.\<close>

definition run_with_context :: "service_env \<Rightarrow> string \<Rightarrow> string list \<Rightarrow> (bool \<times> string \<times> string) sio" where
  "run_with_context e ctxt args = match_op (run_program e args) ret (\<lambda>_. fail (EMsg ctxt))"

definition trigger_restart_macos :: "service_env \<Rightarrow> unit sio" where
  "trigger_restart_macos e =
     try_op (run_with_context e ''failed to run id -u'' [''id'', ''-u'']) (\<lambda>(success, status, stdout).
     if \<not> success then fail (EMsg (''id -u failed with status '' @ status))
     else if \<not> valid_utf8 stdout then fail (EMsg ''id -u output was not valid UTF-8'')
     else
       try_op (run_with_context e ''failed to run launchctl kickstart''
           [''launchctl'', ''kickstart'', ''-k'', ''gui/'' @ trim_ws stdout @ ''/dev.drnkn.valvd'']) (\<lambda>(success, status, _).
       if success then ret () else fail (EMsg (''launchctl kickstart failed with status '' @ status))))"

definition trigger_restart_linux :: "service_env \<Rightarrow> unit sio" where
  "trigger_restart_linux e =
     try_op (run_with_context e ''failed to run systemctl --user restart valvd''
         [''systemctl'', ''--user'', ''restart'', ''valvd'']) (\<lambda>(success, status, _).
     if success then ret () else fail (EMsg (''systemctl --user restart valvd failed with status '' @ status)))"

text \<open>\<open>temp_dir\<close> and \<open>uuid\<close> name the fresh directory.\<close>

definition extract_tarball :: "service_env \<Rightarrow> path \<Rightarrow> string \<Rightarrow> string \<Rightarrow> path sio" where
  "extract_tarball e temp_dir uuid tarball_bytes =
     (let extract_dir = path_join temp_dir (''valv-update-'' @ uuid);
          tarball_path = path_join extract_dir ''download.tar.gz'' in
      try_op (match_op (on_disk (fs_create_dir_all extract_dir)) ret
        (\<lambda>_. fail (EMsg (''failed to create '' @ path_string extract_dir)))) (\<lambda>_.
      try_op (match_op (write_file e tarball_path tarball_bytes) ret
        (\<lambda>_. fail (EMsg (''failed to write '' @ path_string tarball_path)))) (\<lambda>_.
      try_op (run_with_context e ''failed to run tar''
          [''tar'', ''-xzf'', path_string tarball_path, ''-C'', path_string extract_dir]) (\<lambda>(success, status, _).
      if \<not> success then fail (EMsg (''tar extraction failed with status '' @ status))
      else try_op (match_op (on_disk (fs_remove_file tarball_path)) ret (\<lambda>_. ret ())) (\<lambda>_. ret extract_dir)))))"

end
