(* ===== verification/Service_Props.thy ===== *)
theory Service_Props
  imports Service_Install
begin

text \<open>
  What installing and removing the service does: which programs run and in which order, that the file
  registered is the one the command line reads back, that a success has heard the daemon answer, that
  the wait for the daemon ends, and that an uninstalled service is gone.
\<close>

section \<open>Programs run\<close>

text \<open>\<open>runs names m\<close>: the programs \<open>m\<close> runs, by their first two words, are a beginning of \<open>names\<close>, all of
  them where it succeeds.\<close>

definition words2 :: "string list list \<Rightarrow> string list list" where
  "words2 xs = map (take 2) xs"

definition runs :: "string list list \<Rightarrow> 'a sio \<Rightarrow> bool" where
  "runs names m = (\<forall>s. \<exists>k. words2 (sv_ran (snd (m s))) = words2 (sv_ran s) @ take k names \<and>
     (\<forall>x. fst (m s) = Inr x \<longrightarrow> k = length names))"

lemma runs_try:
  assumes "runs a m" "\<And>x. runs b (f x)"
  shows "runs (a @ b) (try_op m f)"
  unfolding runs_def
proof
  fix s
  obtain r s1 where m: "m s = (r, s1)" by fastforce
  from assms(1) obtain k where k: "words2 (sv_ran s1) = words2 (sv_ran s) @ take k a" "\<forall>x. r = Inr x \<longrightarrow> k = length a"
    unfolding runs_def by (metis m fst_conv snd_conv)
  show "\<exists>k. words2 (sv_ran (snd (try_op m f s))) = words2 (sv_ran s) @ take k (a @ b) \<and>
      (\<forall>x. fst (try_op m f s) = Inr x \<longrightarrow> k = length (a @ b))"
  proof (cases r)
    case (Inl err)
    have "take k a = take (min k (length a)) (a @ b)" by (simp add: min_def)
    then show ?thesis using k Inl m by (auto simp: try_op_def intro!: exI [of _ "min k (length a)"])
  next
    case (Inr x)
    then have k': "words2 (sv_ran s1) = words2 (sv_ran s) @ a" using k by simp
    from assms(2) obtain j where "words2 (sv_ran (snd (f x s1))) = words2 (sv_ran s1) @ take j b"
        "\<forall>y. fst (f x s1) = Inr y \<longrightarrow> j = length b"
      unfolding runs_def by metis
    then show ?thesis using k' Inr m by (auto simp: try_op_def intro!: exI [of _ "length a + j"])
  qed
qed

text \<open>A computation that runs nothing.\<close>

definition same_ran :: "service \<Rightarrow> service \<Rightarrow> bool" where
  "same_ran s s' = (sv_ran s' = sv_ran s)"

interpretation programs: state_preorder same_ran
  by standard (auto simp: same_ran_def)

lemma runs_none: "obeys same_ran m \<Longrightarrow> runs [] m"
  unfolding runs_def by (auto dest: obeys_run simp: obeys_def same_ran_def)

lemma ran_disk [simp]: "obeys same_ran (on_disk m)"
  by (auto simp: obeys_def same_ran_def on_disk_def split: prod.split)

lemma ran_write [simp]: "obeys same_ran (write_file e p c)"
  by (auto simp: obeys_def same_ran_def write_file_def on_disk_def split: prod.split)

lemma ran_ask [simp]: "obeys same_ran (ask e label preset)"
  by (simp add: obeys_def same_ran_def ask_def)

lemma ran_say [simp]: "obeys same_ran (say ls)" "obeys same_ran (complain line)"
  by (simp_all add: say_def complain_def programs.obeys_writes same_ran_def)

lemma ran_probe [simp]: "obeys same_ran (daemon_serves e)" "obeys same_ran (clock e)" "obeys same_ran (fetch_status_at e)"
  "obeys same_ran (service_sleep n)"
  by (auto simp: obeys_def same_ran_def daemon_serves_def clock_def service_sleep_def writes_def fetch_status_at_def
      split: prod.split sum.split)

lemma ran_config: "obeys same_ran (ensure_config_template e)"
  unfolding ensure_config_template_def by (auto intro!: programs.obeys_rules)

lemma ran_serve_wait: "obeys same_ran (serve_wait fuel e deadline)"
  by (induction fuel) (auto intro!: programs.obeys_rules)

lemma ran_await: "obeys same_ran (await_daemon fuel e timeout)"
  unfolding await_daemon_def wait_for_daemon_socket_at_def by (auto intro!: programs.obeys_rules ran_serve_wait)

lemma ran_credential: "obeys same_ran (print_credential_state e)"
  unfolding print_credential_state_def by (auto intro!: programs.obeys_rules)

lemma ran_plist: "obeys same_ran (write_launch_agent_plist e p v)"
  unfolding write_launch_agent_plist_def by (auto intro!: programs.obeys_rules split: option.split)

lemma ran_remove: "obeys same_ran (remove_if_there p)"
  unfolding remove_if_there_def by (auto intro!: programs.obeys_rules)

lemma runs_program: "take 2 args = name \<Longrightarrow> runs [name] (run_program e args)"
  unfolding runs_def run_program_def
  by (auto simp: words2_def split: prod.split intro!: exI [of _ "Suc 0"])

lemma runs_end: "runs a m \<Longrightarrow> (\<And>x. obeys same_ran (f x)) \<Longrightarrow> runs a (try_op m f)"
  using runs_try [of a m "[]" f] by (simp add: runs_none)

lemma runs_start: "obeys same_ran m \<Longrightarrow> (\<And>x. runs a (f x)) \<Longrightarrow> runs a (try_op m f)"
  using runs_try [of "[]" m a f] by (simp add: runs_none)

lemma runs_domain: "runs [[''id'', ''-u'']] (launchctl_domain e)"
  unfolding launchctl_domain_def
  by (rule runs_end [OF runs_program]) (auto intro!: programs.obeys_rules split: prod.split)

lemma runs_launchctl: "runs [[''id'', ''-u''], [''launchctl'', action]] (run_launchctl e action p fail_on_error)"
proof -
  have "runs ([[''id'', ''-u'']] @ [[''launchctl'', action]]) (run_launchctl e action p fail_on_error)"
    unfolding run_launchctl_def
    by (rule runs_try [OF runs_domain], rule runs_end [OF runs_program])
      (auto intro!: programs.obeys_rules simp: Let_def split: prod.split)
  then show ?thesis by simp
qed

lemma runs_systemctl: "runs [[''systemctl'', ''--user'']] (run_systemctl e args fail_on_error)"
  unfolding run_systemctl_def
  by (rule runs_end [OF runs_program]) (auto intro!: programs.obeys_rules simp: Let_def split: prod.split)

text \<open>Installing the launch agent always boots the old registration out before it registers the new one,
  and every run is a beginning of these four programs.\<close>

lemma install_agent_runs:
  "runs [[''id'', ''-u''], [''launchctl'', ''bootout''], [''id'', ''-u''], [''launchctl'', ''bootstrap'']] (install_agent fuel e)"
proof -
  have "runs ([[''id'', ''-u''], [''launchctl'', ''bootout'']] @ [[''id'', ''-u''], [''launchctl'', ''bootstrap'']])
    (install_agent fuel e)"
    unfolding install_agent_def
    by (intro runs_start [OF ran_config] runs_start [OF programs.obeys_lift] runs_try [OF runs_launchctl]
        runs_start [OF ran_plist] runs_end [OF runs_launchctl] programs.obeys_try ran_await runs_start [OF programs.obeys_with_state])
      (auto intro!: programs.obeys_rules ran_credential)
  then show ?thesis by simp
qed

lemma uninstall_agent_runs: "runs [[''id'', ''-u''], [''launchctl'', ''bootout'']] (uninstall_agent e)"
  unfolding uninstall_agent_def
  by (intro runs_start [OF programs.obeys_lift] runs_end [OF runs_launchctl] ran_remove)

section \<open>What stays on the disk\<close>

text \<open>The programs and the daemon keep a property of the disk.\<close>

definition system_keeps :: "service_env \<Rightarrow> (fs \<Rightarrow> bool) \<Rightarrow> bool" where
  "system_keeps e F = ((\<forall>xs args fs. F fs \<longrightarrow> F (snd (se_run e xs args fs))) \<and>
     (\<forall>n fs. F fs \<longrightarrow> F (snd (se_connect e n fs))) \<and> (\<forall>fs. F fs \<longrightarrow> F (snd (se_reply e fs))))"

definition disk_keeps :: "(fs \<Rightarrow> bool) \<Rightarrow> service \<Rightarrow> service \<Rightarrow> bool" where
  "disk_keeps F s s' = (F (sv_fs s) \<longrightarrow> F (sv_fs s'))"

interpretation disk: state_preorder "disk_keeps F" for F
  by standard (auto simp: disk_keeps_def)

lemma keeps_program: "system_keeps e F \<Longrightarrow> obeys (disk_keeps F) (run_program e args)"
  unfolding obeys_def disk_keeps_def run_program_def system_keeps_def by (metis (mono_tags, lifting) case_prod_beta
      select_convs(1) service.surjective service.update_convs(1) service.update_convs(2) snd_conv)

lemma keeps_probe:
  assumes "system_keeps e F"
  shows "obeys (disk_keeps F) (daemon_serves e)" "obeys (disk_keeps F) (fetch_status_at e)"
  using assms unfolding obeys_def disk_keeps_def daemon_serves_def fetch_status_at_def system_keeps_def
  by (auto simp: case_prod_beta split: sum.split)

lemma keeps_output [simp]: "obeys (disk_keeps F) (say ls)" "obeys (disk_keeps F) (complain line)" "obeys (disk_keeps F) (clock e)"
  "obeys (disk_keeps F) (service_sleep n)"
  by (simp_all add: say_def complain_def service_sleep_def disk.obeys_writes disk_keeps_def) (simp add: obeys_def clock_def disk_keeps_def)

lemma keeps_launchctl:
  assumes "system_keeps e F"
  shows "obeys (disk_keeps F) (run_launchctl e action p fail_on_error)"
  unfolding run_launchctl_def launchctl_domain_def
  by (auto intro!: disk.obeys_rules keeps_program assms simp: Let_def split: prod.split)

lemma keeps_systemctl:
  assumes "system_keeps e F"
  shows "obeys (disk_keeps F) (run_systemctl e args fail_on_error)"
  unfolding run_systemctl_def
  by (auto intro!: disk.obeys_rules keeps_program assms simp: Let_def split: prod.split)

lemma keeps_serve_wait: "system_keeps e F \<Longrightarrow> obeys (disk_keeps F) (serve_wait fuel e deadline)"
  by (induction fuel) (auto intro!: disk.obeys_rules keeps_probe)

lemma keeps_await: "system_keeps e F \<Longrightarrow> obeys (disk_keeps F) (await_daemon fuel e timeout)"
  unfolding await_daemon_def wait_for_daemon_socket_at_def by (auto intro!: disk.obeys_rules keeps_serve_wait)

lemma keeps_credential: "system_keeps e F \<Longrightarrow> obeys (disk_keeps F) (print_credential_state e)"
  unfolding print_credential_state_def by (auto intro!: disk.obeys_rules keeps_probe)

section \<open>The registered file\<close>

lemma write_file_holds: "write_file e p c s = (Inr (), s') \<Longrightarrow> holds_text p c (sv_fs s')"
  by (auto simp: write_file_def on_disk_def split: prod.splits intro: fs_write_holds)

lemma plist_written:
  assumes "write_launch_agent_plist e p v s = (Inr (), s')"
  obtains logs where "log_dir e = Inr logs" "holds_text p (agent_text v logs) (sv_fs s')"
  using assms unfolding write_launch_agent_plist_def
  by (auto elim!: try_op_InrE intro!: that dest!: write_file_holds simp: lift_result_def)

text \<open>A wait that succeeds has, as its last act, read the beginning of a reply with status 200.\<close>

definition answered_200 :: "string option \<Rightarrow> bool" where
  "answered_200 r = (\<exists>bytes. r = Some bytes \<and> starts_with (take 32 bytes) ''HTTP/1.1 200'')"

lemma serve_round:
  assumes "se_connect e (sv_ticks s) (sv_fs s) = (r, fs)"
  shows "serve_wait (Suc fuel) e deadline s =
    (let s1 = s \<lparr> sv_fs := fs, sv_ticks := Suc (sv_ticks s), sv_heard := sv_heard s @ [r] \<rparr>;
         s2 = s1 \<lparr> sv_ticks := Suc (sv_ticks s1) \<rparr> in
     if answered_200 r then (Inr True, s1)
     else if deadline \<le> se_now e (Suc (sv_ticks s)) + sv_slept s then (Inr False, s2)
     else serve_wait fuel e deadline (s2 \<lparr> sv_slept := sv_slept s + 200 \<rparr>))"
  using assms by (cases r) (simp_all add: answered_200_def try_op_def daemon_serves_def clock_def service_sleep_def
      writes_def ret_def Let_def)

lemma serve_wait_True:
  "serve_wait fuel e deadline s = (Inr True, s') \<Longrightarrow>
   \<exists>probes reply. sv_heard s' = sv_heard s @ probes @ [reply] \<and> answered_200 reply"
proof (induction fuel arbitrary: s)
  case (Suc fuel)
  obtain r fs where c: "se_connect e (sv_ticks s) (sv_fs s) = (r, fs)" by fastforce
  let ?u = "s \<lparr> sv_fs := fs, sv_heard := sv_heard s @ [r], sv_ticks := Suc (Suc (sv_ticks s)), sv_slept := sv_slept s + 200 \<rparr>"
  note run = Suc.prems [unfolded serve_round [OF c] Let_def]
  show ?case
  proof (cases "answered_200 r")
    case True
    then have "sv_heard s' = sv_heard s @ [] @ [r]" using run by auto
    then show ?thesis using True by blast
  next
    case False
    then have "serve_wait fuel e deadline ?u = (Inr True, s')" using run by (simp split: if_splits)
    from Suc.IH [OF this] obtain probes reply where "sv_heard s' = sv_heard s @ (r # probes) @ [reply]" "answered_200 reply"
      by auto
    then show ?thesis by blast
  qed
qed (simp add: fail_def)

lemma await_True:
  "await_daemon fuel e timeout s = (Inr True, s') \<Longrightarrow>
   \<exists>probes reply. sv_heard s' = sv_heard s @ probes @ [reply] \<and> answered_200 reply"
  unfolding await_daemon_def wait_for_daemon_socket_at_def
  by (auto elim!: try_op_InrE dest: serve_wait_True simp: clock_def lift_result_def)

definition same_heard :: "service \<Rightarrow> service \<Rightarrow> bool" where
  "same_heard s s' = (sv_heard s' = sv_heard s)"

interpretation probes: state_preorder same_heard
  by standard (auto simp: same_heard_def)

lemma heard_parts [simp]:
  "obeys same_heard (on_disk m)" "obeys same_heard (write_file e p c)" "obeys same_heard (ask e label preset)"
  "obeys same_heard (say ls)" "obeys same_heard (complain line)" "obeys same_heard (fetch_status_at e)"
  "obeys same_heard (run_program e args)"
  by (auto simp: obeys_def same_heard_def on_disk_def write_file_def ask_def say_def complain_def writes_def
      fetch_status_at_def run_program_def split: prod.split sum.split)

lemma heard_config: "obeys same_heard (ensure_config_template e)"
  unfolding ensure_config_template_def by (auto intro!: probes.obeys_rules)

lemma heard_launchctl: "obeys same_heard (run_launchctl e action p fail_on_error)"
  unfolding run_launchctl_def launchctl_domain_def
  by (auto intro!: probes.obeys_rules simp: Let_def split: prod.split)

lemma heard_plist: "obeys same_heard (write_launch_agent_plist e p v)"
  unfolding write_launch_agent_plist_def by (auto intro!: probes.obeys_rules split: option.split)

lemma heard_credential: "obeys same_heard (print_credential_state e)"
  unfolding print_credential_state_def by (auto intro!: probes.obeys_rules)

lemma launchctl_ran:
  "run_launchctl e action p fail_on_error s = (Inr (), s') \<Longrightarrow>
   \<exists>domain. last (sv_ran s') = [''launchctl'', action, domain, path_string p]"
  unfolding run_launchctl_def
  by (elim try_op_InrE) (auto simp: run_program_def complain_def writes_def fail_def ret_def Let_def split: prod.splits if_splits)

text \<open>The command line and the daemon agree on the files of the service.\<close>

lemma agent_path_agrees: "ce_home ce = se_home e \<Longrightarrow> launch_agent_plist_path ce = agent_path e"
  by (auto simp: launch_agent_plist_path_def home_dir_def agent_path_def daemon_home_def launch_agent_path_def
      path_join_def is_absolute_def components_def LAUNCH_AGENT_LABEL_def starts_with_def split: option.split)

lemma unit_path_agrees: "ce_home ce = se_home e \<Longrightarrow> systemd_unit_path ce = unit_path e"
  by (simp add: systemd_unit_path_def home_dir_def unit_path_def in_home_def daemon_home_def)

lemma holds_text_exists: "holds_text p c fs \<Longrightarrow> path_exists fs p"
  by (auto simp: holds_text_def path_exists_def metadata_def)


section \<open>The service removed\<close>

lemma removed_if_there: "remove_if_there p s = (Inr (), s') \<Longrightarrow> \<not> path_exists (sv_fs s') p"
proof -
  assume run: "remove_if_there p s = (Inr (), s')"
  obtain r fs where m: "fs_remove_file p (sv_fs s) = (r, fs)" by fastforce
  then have m': "remove_path False p (sv_fs s) = (r, fs)" by (simp add: remove_path_def)
  show ?thesis
  proof (cases r)
    case (Inl err)
    then have "err = EIo NotFound" "s' = s \<lparr> sv_fs := fs \<rparr>"
      using run m by (auto simp: remove_if_there_def match_op_def on_disk_def ret_def fail_def split: if_splits)
    moreover have "fs = sv_fs s" by (rule remove_path_cases [OF m']) (use Inl in auto)
    ultimately show ?thesis using remove_path_NotFound m' Inl by simp
  next
    case (Inr x)
    then have "s' = s \<lparr> sv_fs := fs \<rparr>"
      using run m by (auto simp: remove_if_there_def match_op_def on_disk_def ret_def)
    then show ?thesis using Inr by (auto intro: remove_path_cases [OF m'] dest: dropped_is_gone)
  qed
qed

text \<open>After \<open>valvd daemon uninstall\<close> succeeds, on macOS and on Linux, the command line finds no
  service registered.  The programs run are taken not to create the file of the service.\<close>

theorem uninstalled_service_is_gone:
  assumes "ce_home ce = se_home e"
    and "ce_os ce = ''macos'' \<and> uninstall_agent e s = (Inr (), s') \<or>
         ce_os ce = ''linux'' \<and> uninstall_unit e s = (Inr (), s')"
    and system: "\<And>p. agent_path e = Inr p \<or> unit_path e = Inr p \<Longrightarrow> system_keeps e (\<lambda>fs. \<not> path_exists fs p)"
  shows "\<not> daemon_service_registered ce (sv_fs s')"
  using assms(2)
proof (elim disjE conjE)
  assume os: "ce_os ce = ''macos''" and run: "uninstall_agent e s = (Inr (), s')"
  from run obtain p where "agent_path e = Inr p" "\<not> path_exists (sv_fs s') p"
    unfolding uninstall_agent_def by (auto elim!: try_op_InrE simp: lift_result_def dest: removed_if_there)
  then show ?thesis using os agent_path_agrees [OF assms(1)] by (simp add: daemon_service_registered_def exists_at_def)
next
  assume os: "ce_os ce = ''linux''" and run: "uninstall_unit e s = (Inr (), s')"
  from run obtain p s0 s1 where p: "unit_path e = Inr p" and removed: "remove_if_there p s0 = (Inr (), s1)"
      and reload: "run_systemctl e [''daemon-reload''] False s1 = (Inr (), s')"
    unfolding uninstall_unit_def by (auto elim!: try_op_InrE simp: lift_result_def)
  from removed_if_there [OF removed] have "\<not> path_exists (sv_fs s') p"
    using obeys_run [OF keeps_systemctl [OF system] reload] p by (simp add: disk_keeps_def)
  then show ?thesis using os p unit_path_agrees [OF assms(1)] by (simp add: daemon_service_registered_def exists_at_def)
qed

section \<open>The wait ends\<close>

definition service_clock_forward :: "service_env \<Rightarrow> bool" where
  "service_clock_forward e = (\<forall>n. se_now e n \<le> se_now e (Suc n))"

lemma service_clock_later: "service_clock_forward e \<Longrightarrow> n \<le> m \<Longrightarrow> se_now e n \<le> se_now e m"
  by (auto simp: service_clock_forward_def intro: lift_Suc_mono_le)

lemma serve_wait_ends:
  assumes "service_clock_forward e"
  shows "deadline \<le> se_now e (Suc (sv_ticks s)) + sv_slept s + 200 * fuel \<Longrightarrow>
    \<exists>b s'. serve_wait (Suc fuel) e deadline s = (Inr b, s')"
proof (induction fuel arbitrary: s)
  case 0
  obtain r fs where "se_connect e (sv_ticks s) (sv_fs s) = (r, fs)" by fastforce
  then show ?case using 0 by (simp add: serve_round Let_def ex_bool_eq del: serve_wait.simps)
next
  case (Suc fuel)
  obtain r fs where c: "se_connect e (sv_ticks s) (sv_fs s) = (r, fs)" by fastforce
  let ?s = "s \<lparr> sv_fs := fs, sv_heard := sv_heard s @ [r], sv_ticks := Suc (Suc (sv_ticks s)), sv_slept := sv_slept s + 200 \<rparr>"
  have "se_now e (Suc (sv_ticks s)) \<le> se_now e (Suc (sv_ticks ?s))" using service_clock_later [OF assms] by simp
  then have "deadline \<le> se_now e (Suc (sv_ticks ?s)) + sv_slept ?s + 200 * fuel" using Suc.prems by simp
  from Suc.IH [OF this] show ?case
    unfolding serve_round [OF c, of "Suc fuel"] by (simp add: Let_def ex_bool_eq del: serve_wait.simps)
qed

text \<open>The daemon is waited for at most its timeout: as many rounds as sleeps fit into it, and two more,
  suffice, for a clock that does not go back and probes that each come to an end.\<close>

lemma wait_for_daemon_ends:
  assumes "service_clock_forward e" "Suc (timeout div 200) < fuel"
  shows "\<exists>b s'. wait_for_daemon_socket_at fuel e timeout s = (Inr b, s')"
proof -
  let ?s = "s \<lparr> sv_ticks := Suc (sv_ticks s) \<rparr>"
  obtain n where n: "fuel = Suc n" "Suc (timeout div 200) \<le> n" using assms(2) by (cases fuel) auto
  have "timeout \<le> 200 * n" using n(2) by linarith
  moreover have "se_now e (sv_ticks s) \<le> se_now e (Suc (sv_ticks ?s))" using service_clock_later [OF assms(1)] by simp
  ultimately have "se_now e (sv_ticks s) + sv_slept s + timeout \<le> se_now e (Suc (sv_ticks ?s)) + sv_slept ?s + 200 * n" by simp
  from serve_wait_ends [OF assms(1) this] show ?thesis
    by (simp add: wait_for_daemon_socket_at_def clock_def try_op_def n(1) del: serve_wait.simps)
qed

end
