(* ===== verification/Daemon_Process.thy ===== *)
theory Daemon_Process
  imports Service_Props Control
begin

text \<open>
  The daemon as a process (\<open>main.rs\<close>, with the old logs and the loading of \<open>config.toml\<close> in
  \<open>config.rs\<close>): what it does to the disk before it serves, its sockets, and its end.  The TOML parser,
  the ports and what happens while it serves are parameters.
\<close>

section \<open>Old logs\<close>

definition LOG_RETENTION_DAYS :: int where "LOG_RETENTION_DAYS = 7"

definition log_cutoff :: "int \<Rightarrow> int" where
  "log_cutoff now = now - LOG_RETENTION_DAYS * 24 * 60 * 60 * 1000000000"

definition prune_log :: "int \<Rightarrow> path \<Rightarrow> unit \<Rightarrow> (fs, unit) comp" where
  "prune_log cutoff p _ = with_state (\<lambda>fs. case Option.bind (path_file_name p) to_str of
       None \<Rightarrow> ret ()
     | Some name \<Rightarrow>
         if \<not> starts_with name ''valvd'' then ret ()
         else (case symlink_metadata fs p of
             Inl err \<Rightarrow> fail err
           | Inr n \<Rightarrow> (case n of File _ modified \<Rightarrow> if modified < cutoff then fs_remove_file p else ret () | _ \<Rightarrow> ret ())))"

definition prune_old_logs :: "int \<Rightarrow> path \<Rightarrow> (fs, unit) comp" where
  "prune_old_logs now dir = with_state (\<lambda>fs.
     if \<not> path_exists fs dir then ret ()
     else try_op (lift_result (fs_read_dir fs dir)) (\<lambda>entries. for_each entries (prune_log (log_cutoff now)) ()))"

text \<open>A failure to prepare the log directory is only reported.\<close>

definition prepare_log_dir :: "int \<Rightarrow> path \<Rightarrow> (fs, error option) comp" where
  "prepare_log_dir now dir =
     match_op (try_op (fs_create_dir_all dir) (\<lambda>_. prune_old_logs now dir)) (\<lambda>_. ret None) (\<lambda>err. ret (Some err))"

definition old_log :: "path \<Rightarrow> int \<Rightarrow> fs \<Rightarrow> path \<Rightarrow> bool" where
  "old_log d cutoff fs q = (q \<noteq> [] \<and> butlast q = d \<and> starts_with (last q) ''valvd'' \<and> valid_utf8 (last q) \<and>
     (case fs_entry fs q of Some (File _ modified) \<Rightarrow> modified < cutoff | _ \<Rightarrow> False))"

lemma prune_log_run:
  assumes "prune_log cutoff (dir @ [c]) u fs = (Inr (), fs1)"
    and "fs_tree fs" "canonicalize fs dir = Inr d" "fs_entry fs d = Some Dir"
  shows "fs1 = (if old_log d cutoff fs (d @ [c]) then drop_tree (d @ [c]) fs else fs)"
proof (cases "c \<noteq> ''..'' \<and> starts_with c ''valvd'' \<and> valid_utf8 c")
  case True
  have "resolve_parent fs (dir @ [c]) = Inr (d @ [c])" using True assms(3,4) by (simp add: resolve_parent_def)
  then show ?thesis
    using assms(1) True
    by (auto simp: prune_log_def with_state_def path_file_name_def to_str_def symlink_metadata_def old_log_def ret_def
        fail_def fs_remove_file_def split: option.splits fs_node.splits if_splits)
next
  case False
  then show ?thesis
    using assms(1)
    by (auto simp: prune_log_def with_state_def path_file_name_def to_str_def old_log_def ret_def starts_with_def
        split: if_splits)
qed

lemma prune_logs_run:
  assumes "for_each (map (\<lambda>c. dir @ [c]) cs) (prune_log cutoff) () fs = (Inr (), fs')"
    and "fs_tree fs" "canonicalize fs dir = Inr d" "fs_entry fs d = Some Dir"
  shows "fs_entry fs' q = (if old_log d cutoff fs q \<and> last q \<in> set cs then None else fs_entry fs q)"
  using assms
proof (induction cs arbitrary: fs)
  case (Cons c cs)
  from Cons.prems(1) obtain fs1 where step: "prune_log cutoff (dir @ [c]) () fs = (Inr (), fs1)"
      and rest: "for_each (map (\<lambda>c. dir @ [c]) cs) (prune_log cutoff) () fs1 = (Inr (), fs')"
    by (auto elim!: try_op_InrE)
  note fs1 = prune_log_run [OF step Cons.prems(2-4)]
  show ?case
  proof (cases "old_log d cutoff fs (d @ [c])")
    case False
    then have "fs1 = fs" using fs1 by simp
    moreover have "last q \<noteq> c" if "old_log d cutoff fs q"
      using that False by (metis append_butlast_last_id old_log_def)
    ultimately show ?thesis using Cons.IH [OF rest] Cons.prems(2-4) by auto
  next
    case True
    then have plain: "plain_entry (fs_entry fs (d @ [c]))" "d @ [c] \<noteq> []"
      by (auto simp: old_log_def plain_entry_def split: option.splits fs_node.splits)
    have "slots dir d {} fs" using Cons.prems(2-4) by (simp add: slots_def)
    from slots_dropped [OF this plain] have slots: "slots dir d {} fs1" using True fs1 by simp
    have entry: "fs_entry fs1 q = (if q = d @ [c] then None else fs_entry fs q)" for q
      using drop_file_entry [OF Cons.prems(2) plain] True fs1 by simp
    have old: "old_log d cutoff fs1 q = (old_log d cutoff fs q \<and> q \<noteq> d @ [c])"
      unfolding old_log_def entry by auto
    have "fs_entry fs' q = (if old_log d cutoff fs1 q \<and> last q \<in> set cs then None else fs_entry fs1 q)"
      by (rule Cons.IH [OF rest]) (use slots in \<open>simp_all add: slots_def\<close>)
    then show ?thesis
      unfolding old entry using True by (auto simp: old_log_def)
  qed
qed (simp add: ret_def)

text \<open>Pruning the logs removes exactly the regular files of the log directory whose name begins with
  \<open>valvd\<close> and that were last changed more than seven days ago; every other entry of the disk stays.\<close>

theorem prune_removes_old_logs_only:
  assumes "prune_old_logs now dir fs = (Inr (), fs')"
    and "fs_tree fs" "canonicalize fs dir = Inr d" "fs_entry fs d = Some Dir"
  shows "fs_entry fs' q = (if old_log d (log_cutoff now) fs q then None else fs_entry fs q)"
proof -
  have "path_exists fs dir" using assms(3,4) by (simp add: path_exists_def metadata_def)
  then have "for_each (map (\<lambda>c. dir @ [c]) (child_names fs d)) (prune_log (log_cutoff now)) () fs = (Inr (), fs')"
    using assms(1,3,4)
    by (auto simp: prune_old_logs_def with_state_def fs_read_dir_def lift_result_def elim!: try_op_InrE split: if_splits)
  note entry = prune_logs_run [OF this assms(2-4), of q]
  have "last q \<in> set (child_names fs d)" if "old_log d (log_cutoff now) fs q"
  proof -
    have "q \<noteq> []" "butlast q = d" "fs_entry fs q \<noteq> None"
      using that by (auto simp: old_log_def split: option.splits)
    moreover have "q \<in> set (map fst (fs_nodes fs))"
      using calculation(1,3) by (force simp: fs_entry_def dest: map_of_SomeD)
    ultimately show ?thesis by (auto simp: child_names_def)
  qed
  then show ?thesis using entry by auto
qed

section \<open>Sockets\<close>

text \<open>\<open>bind\<close> on a path never replaces an entry.\<close>

definition bind_socket :: "path \<Rightarrow> (fs, unit) comp" where
  "bind_socket p fs = (case resolve_parent fs p of
      Inl err \<Rightarrow> (Inl err, fs)
    | Inr q \<Rightarrow> if fs_entry fs q \<noteq> None then (Inl (EIo IoOther), fs)
        else if butlast q \<in> set (fs_denied fs) then (Inl (EIo PermissionDenied), fs)
        else (Inr (), put_entry q Special fs))"

definition write_tcp_port_file :: "env \<Rightarrow> error + path \<Rightarrow> nat \<Rightarrow> unit io" where
  "write_tcp_port_file e port_file port =
     try_op (lift_result port_file) (\<lambda>p.
     match_op (case path_parent p of None \<Rightarrow> ret () | Some parent \<Rightarrow> on_fs (fs_create_dir_all parent))
       (\<lambda>_. try_op tick (\<lambda>t. ignore_result (on_fs (fs_write p (string_of_nat port) (env_mtime e t)))))
       (\<lambda>_. ret ()))"

text \<open>\<open>tcp\<close>: the loopback port, or \<open>None\<close> where it cannot be bound.\<close>

definition open_sockets :: "env \<Rightarrow> path \<Rightarrow> error + path \<Rightarrow> nat option \<Rightarrow> unit io" where
  "open_sockets e sock_path port_file tcp =
     try_op (case path_parent sock_path of None \<Rightarrow> ret () | Some parent \<Rightarrow> on_fs (fs_create_dir_all parent)) (\<lambda>_.
     try_op (with_state (\<lambda>w. if path_exists (w_fs w) sock_path then on_fs (fs_remove_file sock_path) else ret ())) (\<lambda>_.
     try_op (match_op (on_fs (bind_socket sock_path)) ret (\<lambda>_. fail (EMsg (''bind daemon socket '' @ path_string sock_path)))) (\<lambda>_.
     case tcp of None \<Rightarrow> fail (EMsg ''bind daemon TCP loopback listener'')
     | Some port \<Rightarrow> write_tcp_port_file e port_file port)))"

datatype serve_end = AcceptFailed error | ShutdownSignal "error + unit"

definition shut_down :: "path \<Rightarrow> error + unit \<Rightarrow> unit dio" where
  "shut_down sock_path result =
     try_op (writes (\<lambda>d. d \<lparr> dm_paused := True \<rparr>)) (\<lambda>_.
     try_op cancel_mount_tasks (\<lambda>_.
     match_op (on_world (on_fs (fs_remove_file sock_path)))
       (\<lambda>_. lift_result result)
       (\<lambda>err. if err = EIo NotFound then lift_result result else fail err)))"

text \<open>\<open>serving\<close>: the daemon at work, until a listener fails or a signal arrives.\<close>

definition serve_socket :: "env \<Rightarrow> path \<Rightarrow> error + path \<Rightarrow> nat option \<Rightarrow> serve_end dio \<Rightarrow> unit dio" where
  "serve_socket e sock_path port_file tcp serving =
     try_op (on_world (open_sockets e sock_path port_file tcp)) (\<lambda>_.
     try_op serving (\<lambda>ended. case ended of
         AcceptFailed err \<Rightarrow> fail err
       | ShutdownSignal result \<Rightarrow> shut_down sock_path result))"

section \<open>The start\<close>

definition config_missing :: error where
  "config_missing = EMsg
     ''Config not found. Run: valv login, or valv mount <path> --key <token> if you were given an access key.''"

definition load_daemon_config ::
    "(string \<Rightarrow> raw_config option) \<Rightarrow> string option \<Rightarrow> path \<Rightarrow> fs \<Rightarrow> error + (daemon_config \<times> mount_config list)" where
  "load_daemon_config toml hostname p fs = (case fs_read fs p of
      Inl err \<Rightarrow> Inl (if err = EIo NotFound then config_missing else err)
    | Inr text \<Rightarrow>
        if \<not> valid_utf8 text then Inl (EIo IoOther)
        else (case toml text of None \<Rightarrow> Inl EDecode | Some raw \<Rightarrow> parse_config hostname raw))"

primrec spawn_mounts :: "daemon_config \<Rightarrow> nat \<Rightarrow> mount_state list \<Rightarrow> (mount_state \<times> sync_task option) list dio" where
  "spawn_mounts cfg now [] = ret []"
| "spawn_mounts cfg now (m # ms) =
     try_op (spawn_tasks_for_mount cfg now m) (\<lambda>task.
     try_op (spawn_mounts cfg now ms) (\<lambda>tasks. ret ((m, task) # tasks)))"

definition spawn_mount_tasks :: "daemon_config \<Rightarrow> nat \<Rightarrow> (mount_state \<times> sync_task option) list dio" where
  "spawn_mount_tasks cfg now = with_state (\<lambda>d. spawn_mounts cfg now (dm_mounts d))"

definition should_spawn_update_check :: "string option \<Rightarrow> bool" where
  "should_spawn_update_check no_update_check_env = (no_update_check_env \<noteq> Some ''1'')"

definition loaded_daemon ::
    "service_env \<Rightarrow> (string \<Rightarrow> raw_config option) \<Rightarrow> path \<Rightarrow> world \<Rightarrow> error + (daemon_config \<times> daemon)" where
  "loaded_daemon se toml cwd w =
     (let w1 = snd (reap_stale_backup (case se_exe se of Inl _ \<Rightarrow> None | Inr p \<Rightarrow> Some p) w) in
      case daemon_config_path se of
        Inl err \<Rightarrow> Inl err
      | Inr config_file \<Rightarrow> (case load_daemon_config toml (se_hostname se) config_file (w_fs w1) of
          Inl err \<Rightarrow> Inl err
        | Inr (cfg, mounts) \<Rightarrow> map_sum id (Pair cfg) (start_daemon cwd mounts w1)))"

text \<open>\<open>run\<close>: the result of the process and the daemon it leaves, if it started one.  The mirror's
  database is open.\<close>

definition run_daemon ::
    "env \<Rightarrow> service_env \<Rightarrow> (string \<Rightarrow> raw_config option) \<Rightarrow> path \<Rightarrow> nat \<Rightarrow> nat option \<Rightarrow>
     ((mount_state \<times> sync_task option) list \<Rightarrow> serve_end dio) \<Rightarrow> world \<Rightarrow> (error + unit) \<times> daemon option" where
  "run_daemon e se toml cwd now tcp serving w = (case loaded_daemon se toml cwd w of
      Inl err \<Rightarrow> (Inl err, None)
    | Inr (cfg, d) \<Rightarrow>
        (case try_op (spawn_mount_tasks cfg now) (\<lambda>tasks.
           try_op (lift_result (daemon_socket_path se)) (\<lambda>sock_path.
           serve_socket e sock_path (tcp_port_file_path se) tcp (serving tasks))) d of
          (r, d') \<Rightarrow> (r, Some d')))"

section \<open>The end\<close>

text \<open>When the daemon's process ends without an error, it was told to: it is paused, no task or
  notification channel of a mount is left, and nothing is at the path of its socket.\<close>

theorem ended_daemon_leaves_nothing:
  assumes "run_daemon e se toml cwd now tcp serving w = (Inr (), Some d)" "daemon_socket_path se = Inr p"
  shows "dm_paused d \<and> dm_tasks d = [] \<and> dm_notify d = [] \<and> \<not> path_exists (w_fs (dm_world d)) p"
proof -
  obtain tasks d0 d1 d2 result where serving: "serving tasks d0 = (Inr (ShutdownSignal result), d1)"
      and down: "shut_down p result d1 = (Inr (), d)"
    using assms unfolding run_daemon_def serve_socket_def
    by (auto elim!: try_op_InrE simp: lift_result_def fail_def split: sum.splits prod.splits serve_end.splits)
  let ?d = "d1 \<lparr> dm_paused := True, dm_tasks := [], dm_notify := [] \<rparr>"
  obtain r fs where m: "fs_remove_file p (w_fs (dm_world d1)) = (r, fs)" by fastforce
  then have m': "remove_path False p (w_fs (dm_world d1)) = (r, fs)" by (simp add: remove_path_def)
  have d: "d = ?d \<lparr> dm_world := dm_world d1 \<lparr> w_fs := fs \<rparr> \<rparr>" "r = Inr () \<or> r = Inl (EIo NotFound)"
    using down m by (cases r; auto simp: shut_down_def cancel_mount_tasks_def on_world_def on_fs_def run_simps split: if_splits)+
  have "\<not> path_exists fs p"
  proof (cases r)
    case (Inl err)
    then have "fs = w_fs (dm_world d1)" by (auto intro: remove_path_cases [OF m'])
    then show ?thesis using remove_path_NotFound m' d(2) Inl by auto
  next
    case (Inr x)
    then show ?thesis by (auto intro: remove_path_cases [OF m'] dest: dropped_is_gone)
  qed
  then show ?thesis using d(1) by simp
qed

end
