(* ===== verification/Local_Push_Props.thy ===== *)
theory Local_Push_Props
  imports Local_Push
begin

text \<open>
  Properties of the push: what it may do to the disk, to the mirror and to the server, when it
  halts, and which nodes it may delete.
\<close>

section \<open>The disk only gains conflict copies\<close>

definition files_kept :: "world \<Rightarrow> world \<Rightarrow> bool" where
  "files_kept w w' = (\<forall>p c. fs_read (w_fs w) p = Inr c \<longrightarrow> fs_read (w_fs w') p = Inr c)"

interpretation kept_frame: state_preorder files_kept
  by unfold_locales (auto simp: files_kept_def)

lemma kept_of_fs_same: "obeys fs_same m \<Longrightarrow> obeys files_kept m"
  by (auto simp: obeys_def fs_same_def files_kept_def)

lemma upload_chunks_fs_same: "obeys fs_same (upload_chunks e u t cs)"
  unfolding obeys_def fs_same_def
proof
  fix w
  show "w_fs (snd (upload_chunks e u t cs w)) = w_fs w"
    using upload_chunks_step [of e w cs u t] by (auto simp: upload_step_def upload_trace_def)
qed

lemma chunk_file_frames [simp]:
  "obeys fs_same (chunk_file e p)" "obeys db_same (chunk_file e p)" "obeys flag_kept (chunk_file e p)"
  "obeys (sent_extends P) (chunk_file e p)" "obeys wf_kept (chunk_file e p)"
  unfolding chunk_file_def
  by (auto intro!: fs_frame.obeys_rules db_frame.obeys_rules flag_frame.obeys_rules sent_frame.obeys_rules
      wf_frame.obeys_rules split: sum.split)

lemma conflict_copy_kept: "obeys files_kept (materialize_conflict_copy e p dev date)"
  unfolding obeys_def
proof
  fix w
  show "files_kept w (snd (materialize_conflict_copy e p dev date w))"
  proof (cases "materialize_conflict_copy e p dev date w")
    case (Pair r w')
    show ?thesis
    proof (cases r)
      case (Inr q)
      obtain content t where "\<not> path_exists (w_fs w) q" "fs_write q content t (w_fs w) = (Inr (), w_fs w')"
        using materialize_run [OF Pair [unfolded Inr]] by blast
      then obtain k where "fs_entry (w_fs w) k = None" "w_fs w' = put_entry k (File content t) (w_fs w)"
        by (elim fs_write_new)
      then show ?thesis using Pair fs_read_put_new by (auto simp: files_kept_def)
    next
      case (Inl err)
      have "w_fs w' = w_fs w \<or> (\<exists>q c mt. fs_entry (w_fs w) q = None \<and> w_fs w' = put_entry q (File c mt) (w_fs w))"
      proof (cases "\<exists>name d. Option.bind (path_file_name p) to_str = Some name \<and>
          disambiguate_conflict_path (w_fs w) (with_file_name p (conflict_copy_name name dev date)) = Inr d")
        case True
        then obtain name d where d: "Option.bind (path_file_name p) to_str = Some name"
          "disambiguate_conflict_path (w_fs w) (with_file_name p (conflict_copy_name name dev date)) = Inr d"
          by blast
        obtain r1 fs1 where copy: "fs_copy p d (env_mtime e (w_ticks w)) (w_fs w) = (r1, fs1)" by fastforce
        have out: "w_fs w' = fs1" using Pair d copy
          by (auto simp: materialize_conflict_copy_def with_state_def try_op_def lift_result_def tick_def
              on_fs_def ret_def split: sum.splits)
        show ?thesis unfolding out
          using copy fs_write_fresh [OF _ disambiguate_free [OF d(2)]]
          by (force simp: fs_copy_def split: sum.splits)
      next
        case False
        then show ?thesis using Pair unfolding materialize_conflict_copy_def
          by (auto simp: with_state_def try_op_def lift_result_def fail_def split: option.splits sum.splits)
      qed
      then show ?thesis using Pair fs_read_put_new by (auto simp: files_kept_def)
    qed
  qed
qed

lemma upload_then_submit_kept: "obeys files_kept (upload_then_submit_new_version e u t f i q p dev date)"
  unfolding upload_then_submit_new_version_def Let_def
  by (auto intro!: kept_frame.obeys_rules conflict_copy_kept
      kept_of_fs_same [OF upload_chunks_fs_same] split: submit_op_response.split)
     (simp_all add: kept_of_fs_same)

lemma ensure_frames [simp]:
  "obeys fs_same (ensure_not_update_required x)" "obeys db_same (ensure_not_update_required x)"
  "obeys flag_kept (ensure_not_update_required x)" "obeys (sent_extends P) (ensure_not_update_required x)"
  "obeys wf_kept (ensure_not_update_required x)" "obeys files_kept (ensure_not_update_required x)"
  unfolding ensure_not_update_required_def
  by (auto intro!: fs_frame.obeys_rules db_frame.obeys_rules flag_frame.obeys_rules sent_frame.obeys_rules
      wf_frame.obeys_rules kept_frame.obeys_rules)

lemma propagate_frames [simp]:
  "obeys fs_same (propagate_update_required err x)" "obeys db_same (propagate_update_required err x)"
  "obeys flag_kept (propagate_update_required err x)" "obeys (sent_extends P) (propagate_update_required err x)"
  "obeys wf_kept (propagate_update_required err x)" "obeys files_kept (propagate_update_required err x)"
proof -
  have w: "obeys fs_same (writes (\<lambda>w. w \<lparr> w_flag := True \<rparr>))" "obeys db_same (writes (\<lambda>w. w \<lparr> w_flag := True \<rparr>))"
    "obeys flag_kept (writes (\<lambda>w. w \<lparr> w_flag := True \<rparr>))" "obeys (sent_extends P) (writes (\<lambda>w. w \<lparr> w_flag := True \<rparr>))"
    "obeys wf_kept (writes (\<lambda>w. w \<lparr> w_flag := True \<rparr>))" "obeys files_kept (writes (\<lambda>w. w \<lparr> w_flag := True \<rparr>))"
    by (auto simp: obeys_def writes_def fs_same_def db_same_def flag_kept_def sent_extends_def wf_kept_def files_kept_def)
  show "obeys fs_same (propagate_update_required err x)" "obeys db_same (propagate_update_required err x)"
    "obeys flag_kept (propagate_update_required err x)" "obeys (sent_extends P) (propagate_update_required err x)"
    "obeys wf_kept (propagate_update_required err x)" "obeys files_kept (propagate_update_required err x)"
    unfolding propagate_update_required_def using w
    by (auto intro!: fs_frame.obeys_rules db_frame.obeys_rules flag_frame.obeys_rules sent_frame.obeys_rules
        wf_frame.obeys_rules kept_frame.obeys_rules split: option.split)
qed

text \<open>A relation the primitive steps of a push respect is respected by the whole push.  The locale
  is the interface between the walk and the primitives it is built from.\<close>

locale push_frame = state_preorder R for R :: "world \<Rightarrow> world \<Rightarrow> bool" +
  fixes x :: push_ctx
  assumes submit: "obeys R (push_submit e x req)"
    and upload: "obeys R (upload_then_submit_new_version e (px_backend x) (px_token x) (px_folder x) i q p (px_device x) date)"
    and ensure: "obeys R (ensure_not_update_required x)"
    and propagate: "obeys R (propagate_update_required err x)"
    and uuid: "obeys R (new_uuid e)"
    and clock: "obeys R tick"
    and recorded: "valid_node_type (ln_node_type n) \<Longrightarrow> obeys R (write_db (upsert_node n))"
    and cache: "obeys R (write_db (update_pushed_cache i a b))"
    and deleted: "obeys R (write_db (mark_deleted now i q))"
    and chunking: "obeys R (chunk_file e p)"
begin

lemma push_content_R: "obeys R (push_content e x p i q stat st)"
  unfolding push_content_def warm_push_cache_def today_date_str_def
  by (intro obeys_rules clock upload cache propagate)

lemma create_entry_R: "obeys R (create_entry e x entry st)"
proof -
  have "valid_node_type (ln_node_type (new_local_node x entry i q))" for i q
    by (cases "le_node_type entry") (simp_all add: new_local_node_def valid_node_type_def)
  then show ?thesis
    unfolding create_entry_def Let_def
    by (auto intro!: obeys_rules ensure uuid submit recorded propagate push_content_R
        split: submit_op_response.split sum.split)
qed

lemma process_existing_R: "obeys R (process_existing_file e x p node st)"
proof -
  have "obeys R (compare_content e p v s)" for v s
    unfolding compare_content_def file_content_hash_def
    by (auto intro!: obeys_rules chunking split: option.split)
  then show ?thesis
    unfolding process_existing_file_def Let_def warm_push_cache_def
    by (auto intro!: obeys_rules ensure cache push_content_R split: option.split sum.split bool.split)
qed

lemma rename_R:
  assumes "valid_node_type (ln_node_type node)"
  shows "obeys R (rename_candidate e x entry node st)"
proof -
  have fin: "obeys R (finish_move e x entry n st)" if "ln_node_type n = ln_node_type node" for n
    unfolding finish_move_def Let_def using assms that by (auto intro!: obeys_rules recorded)
  show ?thesis
    unfolding rename_candidate_def using assms
    by (auto intro!: obeys_rules fin submit recorded propagate split: submit_op_response.split)
qed

lemma filter_result_sub: "filter_result f xs = Inr ys \<Longrightarrow> set ys \<subseteq> {a \<in> set xs. f a = Inr True}"
  by (induction f xs arbitrary: ys rule: filter_result.induct) (fastforce split: sum.splits if_splits)+

lemma candidate_type:
  assumes "find_missing_move_candidate w x p parent name t = Inr (Some n)"
  shows "ln_node_type n = t" "n \<in> set (folder_nodes (w_db w) (px_folder x))"
proof -
  obtain cs f where "filter_result f (folder_nodes (w_db w) (px_folder x)) = Inr cs" "n \<in> set cs"
    "\<And>a. f a = Inr True \<Longrightarrow> ln_node_type a = t"
    using assms unfolding find_missing_move_candidate_def Let_def
    by (fastforce split: sum.splits list.splits if_splits option.splits)
  then show "ln_node_type n = t" "n \<in> set (folder_nodes (w_db w) (px_folder x))"
    using filter_result_sub by blast+
qed

lemma moved_R: "obeys R (process_moved_entry e x entry st)"
proof -
  have step: "obeys R (case Inr c of Inl err \<Rightarrow> fail err | Inr c \<Rightarrow> k c)" if "obeys R (k c)" for c and k :: "'c \<Rightarrow> 'a io"
    using that by simp
  show ?thesis
    unfolding process_moved_entry_def
  proof (rule obeys_with_state)
    fix w
    let ?f = "find_missing_move_candidate w x (le_path entry) (le_parent_node_id entry) (le_name entry)
        (node_type_str (le_node_type entry))"
    show "obeys R (try_op (lift_result ?f) (\<lambda>candidate. case candidate of
         None \<Rightarrow> ret (False, st)
       | Some node \<Rightarrow>
        if ln_parent_id node \<noteq> Some (le_parent_node_id entry) then
          match_op (push_submit e x (MoveOp (ln_node_id node) (ln_server_seq node) (le_parent_node_id entry)))
            (\<lambda>response. case response of
                Applied server_seq _ \<Rightarrow>
                  rename_candidate e x entry
                    (node \<lparr> ln_parent_id := Some (le_parent_node_id entry), ln_server_seq := server_seq \<rparr>) st
              | _ \<Rightarrow> ret (True, on_summary skip_one st))
            (\<lambda>err. try_op (propagate_update_required err x) (\<lambda>_.
               ret (True, defer_delete (ln_node_id node) (on_summary (record_push_error err) st))))
        else rename_candidate e x entry node st))"
    proof (cases ?f)
      case (Inl err)
      then have "try_op (lift_result ?f) k = fail err" for k :: "local_node option \<Rightarrow> (bool \<times> push_state) io"
        by (rule_tac ext) (simp add: try_op_def lift_result_def fail_def)
      then show ?thesis by (simp add: obeys_fail)
    next
      case (Inr c)
      then have eq: "try_op (lift_result ?f) k = k c" for k :: "local_node option \<Rightarrow> (bool \<times> push_state) io"
        by (rule_tac ext) (simp add: try_op_def lift_result_def)
      show ?thesis
      proof (cases c)
        case (Some node)
        have "ln_node_type node = node_type_str (le_node_type entry)" using candidate_type(1) Inr Some by blast
        then have "valid_node_type (ln_node_type node)" by (cases "le_node_type entry") (simp_all add: valid_node_type_def)
        then show ?thesis unfolding eq Some
          by (auto intro!: obeys_rules submit propagate rename_R split: submit_op_response.split)
      qed (unfold eq, simp add: obeys_ret)
    qed
  qed
qed

lemma push_entry_R: "obeys R (push_entry e x parent i st)"
  unfolding push_entry_def move_or_create_def Let_def
  by (auto intro!: obeys_rules ensure process_existing_R moved_R create_entry_R split: option.split)

lemma push_walk_R: "obeys R (push_walk n e x st)"
proof (induction n arbitrary: st)
  case (Suc n)
  have "obeys R (push_directory e x d p st)" for d p st
    unfolding push_directory_def
    by (auto intro!: obeys_rules ensure push_entry_R split: sum.split prod.split)
  then show ?case using Suc by (auto intro!: obeys_rules split: list.split prod.split)
qed (auto intro!: obeys_rules)

lemma deletes_R: "obeys R (submit_deletes_for_missing e x deferred s)"
proof -
  have sub: "obeys R (submit_delete e x node ds)" for node ds
    unfolding submit_delete_def
    by (auto intro!: obeys_rules submit clock deleted propagate split: submit_op_response.split)
  have child: "obeys R (delete_child e x deferred nodes parent node ds)" for nodes parent node ds
    unfolding delete_child_def Let_def by (auto intro!: obeys_rules ensure sub split: option.split)
  have "obeys R (delete_walk n e x deferred nodes ds)" for n nodes ds
    by (induction n arbitrary: ds) (auto intro!: obeys_rules child split: list.split)
  then show ?thesis unfolding submit_deletes_for_missing_def Let_def
    by (auto intro!: obeys_rules ensure simp del: delete_walk.simps split: option.split)
qed

lemma push_local_R: "obeys R (push_local_inner n e x)"
  unfolding push_local_inner_def Let_def
  by (auto intro!: obeys_rules ensure push_walk_R deletes_R split: option.split)

end

section \<open>Instances\<close>

interpretation wf_push: push_frame wf_kept x for x
proof unfold_locales
  have "obeys wf_kept (upload_chunks e u t cs)" for e u t cs
  proof -
    have "obeys wf_kept (put_chunk e up c)" for up c
      unfolding put_chunk_def add_header_def
      by (auto intro!: wf_frame.obeys_rules write_db_wf mirror_wf_mark_uploaded)
    then show ?thesis unfolding upload_chunks_def upload_object_def Let_def
      by (auto intro!: wf_frame.obeys_rules split: option.split)
  qed
  moreover have "obeys wf_kept (on_db (apply_submitted_new_version f i req resp))" for f i req resp
  proof (rule on_db_wf)
    fix db
    assume wf: "mirror_wf db"
    have "mirror_wf (snd (try_op (upsert_version v) (\<lambda>_. writes (update_node i g)) db))"
      if "\<And>n. ln_node_id (g n) = ln_node_id n" "\<And>n. ln_node_type (g n) = ln_node_type n" for v g
      using wf that by (auto simp: upsert_version_def try_op_def writes_def fail_def
          intro!: mirror_wf_update_node mirror_wf_upsert_version)
    then show "mirror_wf (snd (apply_submitted_new_version f i req resp db))"
      using wf by (auto simp: apply_submitted_new_version_def ret_def split: submit_op_request.split submit_op_response.split)
  qed
  moreover have "obeys wf_kept (materialize_conflict_copy e p dev date)" for e p dev date
    unfolding materialize_conflict_copy_def by (auto intro!: wf_frame.obeys_rules split: option.split)
  ultimately show "obeys wf_kept (upload_then_submit_new_version e (px_backend x) (px_token x) (px_folder x) i q p (px_device x) date)"
    for e i q p date
    unfolding upload_then_submit_new_version_def Let_def
    by (auto intro!: wf_frame.obeys_rules split: submit_op_response.split)
qed (auto simp: push_submit_def intro!: write_db_wf mirror_wf_upsert_node mirror_wf_pushed_cache mirror_wf_mark_deleted)

interpretation kept_push: push_frame files_kept x for x
  by unfold_locales (auto simp: push_submit_def intro!: upload_then_submit_kept kept_of_fs_same)

definition is_push_request :: "push_ctx \<Rightarrow> http_request \<Rightarrow> bool" where
  "is_push_request x rq = (case rq_body rq of
      SubmitBody _ \<Rightarrow> rq_method rq = POST \<and> rq_url rq = folder_url (px_backend x) (px_folder x) ''/ops'' \<and>
         rq_bearer rq = Some (px_token x)
    | BatchBody b \<Rightarrow> rq_method rq = POST \<and> rq_url rq = api_base (px_backend x) @ ''/objects/batch'' \<and>
         rq_bearer rq = Some (px_token x) \<and> br_operation b = Upload
    | RawBody _ \<Rightarrow> rq_method rq = PUT \<and> rq_bearer rq = None
    | NoBody \<Rightarrow> False)"

interpretation sent_push: push_frame "sent_extends (is_push_request x)" x for x
proof unfold_locales
  have submit: "obeys (sent_extends (is_push_request x)) (submit_op e (px_backend x) (px_token x) (px_folder x) req)" for e req
    by (rule submit_op_sent) (simp add: is_push_request_def submit_request_def)
  then show "obeys (sent_extends (is_push_request x)) (push_submit e x req)" for e req
    by (simp add: push_submit_def)
  have "obeys (sent_extends (is_push_request x)) (post_batch e (px_backend x) (px_token x) Upload objs)" for e objs
    unfolding post_batch_def
    by (auto intro!: sent_frame.obeys_rules send_sent simp: is_push_request_def new_batch_request_def split: reply_body.split)
  moreover have "obeys (sent_extends (is_push_request x)) (put_chunk e up c)" for e up c
    unfolding put_chunk_def add_header_def
    by (auto intro!: sent_frame.obeys_rules send_sent simp: is_push_request_def)
  ultimately have "obeys (sent_extends (is_push_request x)) (upload_chunks e (px_backend x) (px_token x) cs)" for e cs
    unfolding upload_chunks_def upload_object_def Let_def
    by (auto intro!: sent_frame.obeys_rules split: option.split)
  moreover have "obeys (sent_extends (is_push_request x)) (materialize_conflict_copy e p dev date)" for e p dev date
    unfolding materialize_conflict_copy_def by (auto intro!: sent_frame.obeys_rules split: option.split)
  ultimately show "obeys (sent_extends (is_push_request x))
      (upload_then_submit_new_version e (px_backend x) (px_token x) (px_folder x) i q p (px_device x) date)" for e i q p date
    unfolding upload_then_submit_new_version_def Let_def
    by (auto intro!: sent_frame.obeys_rules submit split: submit_op_response.split)
qed auto

text \<open>A push never damages local data: every file that could be read before reads the same
  afterwards (the only files it creates are conflict copies under unused names), the mirror stays
  well formed, and every request it sends is an operation on the mounted folder, an upload batch
  or a chunk upload with the mount's credentials, whatever the server answers and wherever the
  push stops.\<close>

lemma push_local_frame:
  "files_kept w (snd (push_local_with_update_required n e x w)) \<and>
   wf_kept w (snd (push_local_with_update_required n e x w)) \<and>
   sent_extends (is_push_request x) w (snd (push_local_with_update_required n e x w))"
proof -
  have same: "is_push_request (x \<lparr> px_has_flag := True \<rparr>) = is_push_request x"
    by (rule ext) (simp add: is_push_request_def split: http_body.split)
  show ?thesis
    using kept_push.push_local_R [of n e "x \<lparr> px_has_flag := True \<rparr>"] wf_push.push_local_R [of n e "x \<lparr> px_has_flag := True \<rparr>"]
      sent_push.push_local_R [of "x \<lparr> px_has_flag := True \<rparr>" n e]
    unfolding same push_local_with_update_required_def obeys_def by blast
qed

section \<open>Halting\<close>

definition flag_same :: "world \<Rightarrow> world \<Rightarrow> bool" where "flag_same w w' = (w_flag w' = w_flag w)"

interpretation quiet_frame: state_preorder flag_same
  by unfold_locales (simp_all add: flag_same_def)

lemma quiet_primitives [simp]:
  "obeys flag_same (send e rq)" "obeys flag_same (error_for_status r)" "obeys flag_same (write_db f)"
  "obeys flag_same (on_db m)" "obeys flag_same (on_fs k)" "obeys flag_same (new_uuid e)" "obeys flag_same tick"
  by (auto simp: obeys_def flag_same_def send_def Let_def error_for_status_def fail_def ret_def write_db_def
      writes_def on_db_def on_fs_def new_uuid_def tick_def split: http_reply.split prod.split)

lemma quiet_submit: "obeys flag_same (submit_op e u t f req)"
  unfolding submit_op_def by (auto intro!: quiet_frame.obeys_rules split: reply_body.split)

lemma quiet_upload_then_submit: "obeys flag_same (upload_then_submit_new_version e u t f i q p dev date)"
proof -
  have "obeys flag_same (upload_chunks e u t cs)" for cs
    unfolding obeys_def flag_same_def
    using upload_chunks_step [of e _ cs u t] by (auto simp: upload_step_def upload_trace_def)
  moreover have "obeys flag_same (chunk_file e p)"
    unfolding chunk_file_def by (auto intro!: quiet_frame.obeys_rules split: sum.split)
  moreover have "obeys flag_same (materialize_conflict_copy e p dev date)"
    unfolding materialize_conflict_copy_def by (auto intro!: quiet_frame.obeys_rules split: option.split)
  ultimately show ?thesis
    unfolding upload_then_submit_new_version_def Let_def
    by (auto intro!: quiet_frame.obeys_rules quiet_submit split: submit_op_response.split)
qed

text \<open>Started with the flag clear, the computation sets it exactly when it fails for an update.\<close>

definition halts_exactly :: "'a io \<Rightarrow> bool" where
  "halts_exactly m = (\<forall>w. \<not> w_flag w \<longrightarrow> (w_flag (snd (m w)) \<longleftrightarrow> (\<exists>u. fst (m w) = Inl (EUpdateRequired u))))"

lemma exact_of_quiet: "obeys flag_same m \<Longrightarrow> (\<And>w u. fst (m w) \<noteq> Inl (EUpdateRequired u)) \<Longrightarrow> halts_exactly m"
  by (simp add: halts_exactly_def obeys_def flag_same_def)

lemma exact_primitives [simp]:
  "halts_exactly (ret x)" "halts_exactly (write_db f)" "halts_exactly (new_uuid e)" "halts_exactly tick"
  by (auto simp: halts_exactly_def ret_def write_db_def writes_def new_uuid_def tick_def)

lemma exact_fail: "(\<And>u. e \<noteq> EUpdateRequired u) \<Longrightarrow> halts_exactly (fail e)"
  by (simp add: halts_exactly_def fail_def)

lemma exact_lift: "(\<And>u. r \<noteq> Inl (EUpdateRequired u)) \<Longrightarrow> halts_exactly (lift_result r)"
  by (simp add: halts_exactly_def lift_result_def)

lemma exact_try:
  assumes "halts_exactly m" "\<And>x. halts_exactly (f x)"
  shows "halts_exactly (try_op m f)"
  unfolding halts_exactly_def
proof (intro allI impI)
  fix w :: world
  assume w: "\<not> w_flag w"
  show "w_flag (snd (try_op m f w)) \<longleftrightarrow> (\<exists>u. fst (try_op m f w) = Inl (EUpdateRequired u))"
  proof (cases "m w")
    case (Pair r w1)
    then have "w_flag w1 \<longleftrightarrow> (\<exists>u. r = Inl (EUpdateRequired u))"
      using assms(1) w unfolding halts_exactly_def by (metis fst_conv snd_conv)
    then show ?thesis using Pair assms(2) by (cases r) (auto simp: try_op_def halts_exactly_def)
  qed
qed

lemma exact_with_state: "(\<And>s. halts_exactly (f s)) \<Longrightarrow> halts_exactly (with_state f)"
  by (simp add: halts_exactly_def with_state_def)

lemma exact_match:
  assumes "obeys flag_same m" "\<And>x. halts_exactly (f x)" "\<And>e. halts_exactly (h e)"
  shows "halts_exactly (match_op m f h)"
  unfolding halts_exactly_def
proof (intro allI impI)
  fix w :: world
  assume w: "\<not> w_flag w"
  show "w_flag (snd (match_op m f h w)) \<longleftrightarrow> (\<exists>u. fst (match_op m f h w) = Inl (EUpdateRequired u))"
  proof (cases "m w")
    case (Pair r w1)
    then have "\<not> w_flag w1" using assms(1) w unfolding obeys_def flag_same_def by (metis snd_conv)
    then show ?thesis using Pair assms(2,3) by (cases r) (auto simp: match_op_def halts_exactly_def)
  qed
qed

lemma exact_for_each: "(\<And>x acc. halts_exactly (body x acc)) \<Longrightarrow> halts_exactly (for_each xs body acc)"
  by (induction xs arbitrary: acc) (simp_all add: exact_try)

lemma exact_ensure: "halts_exactly (ensure_not_update_required x)"
  by (simp add: halts_exactly_def ensure_not_update_required_def with_state_def ret_def)

lemma exact_propagate: "px_has_flag x \<Longrightarrow> halts_exactly (propagate_update_required err x)"
  by (auto simp: halts_exactly_def propagate_update_required_def try_op_def writes_def fail_def ret_def
      split: option.split)

lemmas exact_rules = exact_try exact_with_state exact_match exact_for_each exact_ensure exact_fail exact_lift

lemma parts_error: "local_node_parts n scope nodes c ps = Inl err \<Longrightarrow> err = ENoFuel"
  by (induction n arbitrary: c ps) (auto split: if_splits option.splits)

lemma filter_result_error: "filter_result f xs = Inl err \<Longrightarrow> \<exists>a \<in> set xs. f a = Inl err"
  by (induction f xs rule: filter_result.induct) (auto split: sum.splits)

lemma candidate_error: "find_missing_move_candidate w x p a b t = Inl err \<Longrightarrow> err = ENoFuel"
  by (auto simp: find_missing_move_candidate_def Let_def local_node_abs_path_def
      split: sum.splits if_splits option.splits dest!: filter_result_error dest: parts_error)

lemma folder_walk_error: "folder_files_walk n nodes db q = Inl err \<Longrightarrow> err = ENoFuel"
  by (induction n arbitrary: q) (auto simp: Let_def split: list.splits if_splits)

lemma should_delete_error: "should_delete nodes db n = Inl err \<Longrightarrow> err = ENoFuel"
  by (auto simp: should_delete_def folder_descendant_files_are_local_def dest: folder_walk_error
      simp del: folder_files_walk.simps split: if_splits)

lemma exact_push_content: "px_has_flag x \<Longrightarrow> halts_exactly (push_content e x p i q stat st)"
  unfolding push_content_def warm_push_cache_def today_date_str_def
  by (intro exact_try exact_match quiet_upload_then_submit exact_propagate exact_primitives)

lemma exact_create: "px_has_flag x \<Longrightarrow> halts_exactly (create_entry e x entry st)"
  unfolding create_entry_def push_submit_def Let_def
  by (auto intro!: exact_rules quiet_submit exact_propagate exact_push_content
      split: submit_op_response.split sum.split)

lemma exact_existing: "px_has_flag x \<Longrightarrow> halts_exactly (process_existing_file e x p node st)"
proof -
  have "obeys flag_same (file_content_hash e p)"
    unfolding file_content_hash_def chunk_file_def by (auto intro!: quiet_frame.obeys_rules split: sum.split)
  then have "halts_exactly (compare_content e p v s)" for v s
    unfolding compare_content_def by (auto intro!: exact_rules split: option.split)
  then show "px_has_flag x \<Longrightarrow> halts_exactly (process_existing_file e x p node st)"
    unfolding process_existing_file_def Let_def warm_push_cache_def
    by (auto intro!: exact_rules exact_push_content split: sum.split option.split bool.split)
qed

lemma exact_moved: "px_has_flag x \<Longrightarrow> halts_exactly (process_moved_entry e x entry st)"
proof -
  assume x: "px_has_flag x"
  have "halts_exactly (finish_move e x entry n st)" for n
    unfolding finish_move_def Let_def by (auto intro!: exact_rules)
  then have ren: "halts_exactly (rename_candidate e x entry n st)" for n
    unfolding rename_candidate_def push_submit_def
    by (auto intro!: exact_rules quiet_submit exact_propagate x split: submit_op_response.split)
  show ?thesis unfolding process_moved_entry_def push_submit_def
    by (auto intro!: exact_rules quiet_submit exact_propagate x ren dest: candidate_error
        split: submit_op_response.split option.split)
qed

lemma exact_walk: "px_has_flag x \<Longrightarrow> halts_exactly (push_walk n e x st)"
proof (induction n arbitrary: st)
  case (Suc n)
  have "halts_exactly (push_entry e x parent i st)" for parent i st
    using Suc.prems unfolding push_entry_def move_or_create_def Let_def
    by (auto intro!: exact_rules exact_moved exact_create exact_existing split: option.split)
  then have "halts_exactly (push_directory e x d p st)" for d p st
    unfolding push_directory_def by (auto intro!: exact_rules split: sum.split prod.split)
  then show ?case using Suc by (auto intro!: exact_rules split: list.split)
qed (auto intro!: exact_rules)

lemma exact_deletes: "px_has_flag x \<Longrightarrow> halts_exactly (submit_deletes_for_missing e x deferred s)"
proof -
  assume x: "px_has_flag x"
  have sub: "halts_exactly (submit_delete e x node ds)" for node ds
    unfolding submit_delete_def push_submit_def
    by (auto intro!: exact_rules quiet_submit exact_propagate x split: submit_op_response.split)
  have child: "halts_exactly (delete_child e x deferred nodes parent node ds)" for nodes parent node ds
    unfolding delete_child_def Let_def
    by (auto intro!: exact_rules sub dest: should_delete_error split: option.split)
  have "halts_exactly (delete_walk n e x deferred nodes ds)" for n nodes ds
    by (induction n arbitrary: ds) (auto intro!: exact_rules child split: list.split)
  then show ?thesis unfolding submit_deletes_for_missing_def Let_def
    by (auto intro!: exact_rules simp del: delete_walk.simps split: option.split)
qed

text \<open>C14: the mount halts exactly when it must: started with the halt flag clear, a push sets the
  flag if and only if it returns \<open>UpdateRequired\<close>; no update demand is swallowed by the per-entry
  error handling, and no other failure halts the mount.\<close>

theorem push_halts_iff_update_required:
  assumes "\<not> w_flag w" "push_local_with_update_required n e x w = (r, w')"
  shows "w_flag w' \<longleftrightarrow> (\<exists>u. r = Inl (EUpdateRequired u))"
proof -
  have "halts_exactly (push_local_inner n e (x \<lparr> px_has_flag := True \<rparr>))"
    unfolding push_local_inner_def Let_def
    by (auto intro!: exact_rules exact_walk exact_deletes split: option.split)
  then show ?thesis
    using assms unfolding halts_exactly_def push_local_with_update_required_def by (metis fst_conv snd_conv)
qed

text \<open>A halted mount is silent: with the flag set, a push answers \<open>UpdateRequired\<close> at once and
  leaves the world, its request log included, exactly as it was.\<close>

lemma halted_push_is_silent:
  assumes "w_flag w"
  shows "push_local_with_update_required n e x w = (Inl (EUpdateRequired mount_already_halted), w)"
  using assms
  by (simp add: push_local_with_update_required_def push_local_inner_def ensure_not_update_required_def
      with_state_def try_op_def fail_def)

section \<open>Which nodes a push deletes\<close>

text \<open>Where the walk expects a node of the mirror: below the seed at the mount's root.\<close>

inductive placed :: "local_node list \<Rightarrow> path \<Rightarrow> string \<Rightarrow> string \<Rightarrow> path \<Rightarrow> bool"
  for nodes :: "local_node list" and mount_root :: path and seed :: string where
  placed_seed: "placed nodes mount_root seed seed mount_root"
| placed_child: "placed nodes mount_root seed parent p \<Longrightarrow> n \<in> set nodes \<Longrightarrow> ln_parent_id n = Some parent \<Longrightarrow>
    placed nodes mount_root seed (ln_node_id n) (path_join p (ln_name n))"

inductive below :: "local_node list \<Rightarrow> string \<Rightarrow> local_node \<Rightarrow> bool"
  for nodes :: "local_node list" where
  below_child: "n \<in> set nodes \<Longrightarrow> ln_parent_id n = Some f \<Longrightarrow> below nodes f n"
| below_folder: "c \<in> set nodes \<Longrightarrow> ln_parent_id c = Some f \<Longrightarrow> ln_node_type c = ''folder'' \<Longrightarrow>
    below nodes (ln_node_id c) n \<Longrightarrow> below nodes f n"

lemma folder_walk_sound:
  assumes "folder_files_walk k nodes db queue = Inr True" "f \<in> set queue" "below nodes f n" "ln_node_type n = ''file''"
  shows "file_is_local db n"
  using assms
proof (induction k arbitrary: queue f)
  case 0
  then show ?case by (simp split: if_splits)
next
  case (Suc k)
  obtain q rest where q: "queue = q # rest" using Suc.prems(2) by (cases queue) auto
  let ?cs = "children_of nodes q"
  have ok: "\<not> list_ex (\<lambda>c. ln_node_type c = ''file'' \<and> \<not> file_is_local db c) ?cs"
    and rec: "folder_files_walk k nodes db (rest @ map ln_node_id (filter (\<lambda>c. ln_node_type c = ''folder'') ?cs)) = Inr True"
    using Suc.prems(1) by (auto simp: q Let_def split: if_splits)
  show ?case
  proof (cases "f = q")
    case True
    from Suc.prems(3) show ?thesis
    proof cases
      case below_child
      then show ?thesis using ok True Suc.prems(4) by (auto simp: children_of_def list_ex_iff)
    next
      case (below_folder c)
      then have "ln_node_id c \<in> set (rest @ map ln_node_id (filter (\<lambda>c. ln_node_type c = ''folder'') ?cs))"
        using True by (auto simp: children_of_def)
      then show ?thesis using Suc.IH [OF rec] below_folder(4) Suc.prems(4) by blast
    qed
  next
    case False
    then show ?thesis using Suc.IH [OF rec _ Suc.prems(3,4)] Suc.prems(2) q by simp
  qed
qed

text \<open>A node whose content the server is known to hold: a file whose current version's chunks were
  all uploaded from here, or a folder all of whose files below are such files.\<close>

definition content_is_safe :: "local_node list \<Rightarrow> mirror \<Rightarrow> local_node \<Rightarrow> bool" where
  "content_is_safe nodes db n =
     ((ln_node_type n = ''file'' \<and> file_is_local db n) \<or>
      (ln_node_type n = ''folder'' \<and> (\<forall>d. below nodes (ln_node_id n) d \<longrightarrow> ln_node_type d = ''file'' \<longrightarrow> file_is_local db d)))"

lemma should_delete_safe: "should_delete nodes db n = Inr True \<Longrightarrow> content_is_safe nodes db n"
  unfolding should_delete_def content_is_safe_def folder_descendant_files_are_local_def
  by (auto simp del: folder_files_walk.simps split: if_splits dest: folder_walk_sound)

lemma file_is_local_cong:
  "db_versions db = db_versions db' \<Longrightarrow> db_chunks db = db_chunks db' \<Longrightarrow> file_is_local db n = file_is_local db' n"
  by (simp add: file_is_local_def has_local_version_def get_version_def get_version_row_def is_uploaded_def
      split: option.split)

lemma content_is_safe_cong:
  "db_versions db = db_versions db' \<Longrightarrow> db_chunks db = db_chunks db' \<Longrightarrow> content_is_safe nodes db n = content_is_safe nodes db' n"
  using file_is_local_cong [of db db'] by (simp add: content_is_safe_def)

text \<open>Where the walk of the mirror starts: the scope's node, or the first root of the folder.\<close>

definition delete_seed :: "push_ctx \<Rightarrow> local_node list \<Rightarrow> local_node option" where
  "delete_seed x nodes = (case px_scope x of
      Some scope \<Rightarrow> find (\<lambda>n. ln_node_id n = scope) nodes
    | None \<Rightarrow> find (\<lambda>n. ln_parent_id n = None) nodes)"

definition justified_delete :: "push_ctx \<Rightarrow> string list \<Rightarrow> string \<Rightarrow> world \<Rightarrow> http_request \<Rightarrow> bool" where
  "justified_delete x deferred seed w rq =
     (let nodes = folder_nodes (w_db w) (px_folder x) in
      \<exists>n p. n \<in> set nodes \<and> ln_node_id n \<notin> set deferred \<and>
       rq = submit_request (px_backend x) (px_token x) (px_folder x) (DeleteOp (ln_node_id n) (ln_server_seq n)) \<and>
       (\<exists>parent parent_path. ln_parent_id n = Some parent \<and> placed nodes (px_root x) seed parent parent_path \<and>
          p = path_join parent_path (ln_name n)) \<and>
       \<not> path_exists (w_fs w) p \<and> content_is_safe nodes (w_db w) n)"

definition delete_inv :: "push_ctx \<Rightarrow> string list \<Rightarrow> string \<Rightarrow> world \<Rightarrow> world \<Rightarrow> bool" where
  "delete_inv x deferred seed w0 w = (w_fs w = w_fs w0 \<and> db_versions (w_db w) = db_versions (w_db w0) \<and>
     db_chunks (w_db w) = db_chunks (w_db w0) \<and>
     (\<exists>rs. w_sent w = w_sent w0 @ rs \<and> list_all (justified_delete x deferred seed w0) rs))"

definition paths_placed :: "push_ctx \<Rightarrow> string \<Rightarrow> world \<Rightarrow> delete_state \<Rightarrow> bool" where
  "paths_placed x seed w0 ds =
     (\<forall>i p. map_of (ds_paths ds) i = Some p \<longrightarrow> placed (folder_nodes (w_db w0) (px_folder x)) (px_root x) seed i p)"

lemma delete_inv_quiet:
  assumes "obeys fs_same m" "obeys (sent_extends (\<lambda>_. False)) m"
    "\<And>w. db_versions (w_db (snd (m w))) = db_versions (w_db w) \<and> db_chunks (w_db (snd (m w))) = db_chunks (w_db w)"
  shows "triple (delete_inv x deferred seed w0) m (\<lambda>_. delete_inv x deferred seed w0) (delete_inv x deferred seed w0)"
proof -
  have "delete_inv x deferred seed w0 (snd (m w))" if "delete_inv x deferred seed w0 w" for w
  proof -
    have "w_sent (snd (m w)) = w_sent w" "w_fs (snd (m w)) = w_fs w"
      using assms(1,2) by (auto simp: obeys_def fs_same_def sent_extends_def list_all_iff)
    then show ?thesis using that assms(3) [of w] by (simp add: delete_inv_def)
  qed
  note keep = this
  show ?thesis by (rule tripleI) (use keep in \<open>metis snd_conv\<close>)+
qed

lemma submit_delete_triple:
  assumes just: "justified_delete x deferred seed w0
      (submit_request (px_backend x) (px_token x) (px_folder x) (DeleteOp (ln_node_id node) (ln_server_seq node)))"
    and "paths_placed x seed w0 ds"
  shows "triple (delete_inv x deferred seed w0) (submit_delete e x node ds)
    (\<lambda>ds' w. delete_inv x deferred seed w0 w \<and> paths_placed x seed w0 ds') (delete_inv x deferred seed w0)"
proof -
  let ?I = "delete_inv x deferred seed w0"
  have placed: "paths_placed x seed w0 (on_delete_summary g ds)" for g
    using assms(2) by (simp add: paths_placed_def on_delete_summary_def)
  have sub: "triple ?I (push_submit e x (DeleteOp (ln_node_id node) (ln_server_seq node))) (\<lambda>_. ?I) ?I"
  proof (rule tripleI)
    fix w r w'
    let ?rq = "submit_request (px_backend x) (px_token x) (px_folder x) (DeleteOp (ln_node_id node) (ln_server_seq node))"
    have run: "w' = w \<lparr> w_sent := w_sent w @ [?rq] \<rparr>"
      if "push_submit e x (DeleteOp (ln_node_id node) (ln_server_seq node)) w = (r', w')" for r'
      using that submit_op_run [of e "px_backend x" "px_token x" "px_folder x" "DeleteOp (ln_node_id node) (ln_server_seq node)" w]
      by (auto simp: push_submit_def)
    have keep: "?I (w \<lparr> w_sent := w_sent w @ [?rq] \<rparr>)" if "?I w"
      using that just by (auto simp: delete_inv_def)
    show "?I w'" if "?I w" "push_submit e x (DeleteOp (ln_node_id node) (ln_server_seq node)) w = (Inl r, w')"
      using run keep that by blast
    show "?I w'" if "?I w" "push_submit e x (DeleteOp (ln_node_id node) (ln_server_seq node)) w = (Inr r2, w')" for r2
      using run keep that by blast
  qed
  have propagate: "triple ?I (propagate_update_required err x) (\<lambda>_. ?I) ?I" for err
    by (rule delete_inv_quiet, simp, simp)
      (auto simp: propagate_update_required_def try_op_def writes_def fail_def ret_def split: option.split)
  have clock: "triple ?I tick (\<lambda>_. ?I) ?I"
    by (rule delete_inv_quiet) (auto simp: tick_def)
  have mark: "triple ?I (write_db (mark_deleted now i q)) (\<lambda>_. ?I) ?I" for now i q
    unfolding triple_def by (simp add: write_db_def writes_def delete_inv_def mark_deleted_def)
  show ?thesis
    unfolding submit_delete_def
    by (rule triple_match [OF sub])
      (auto intro!: triple_ret triple_try [OF clock] triple_try [OF mark] triple_try [OF propagate] placed
        split: submit_op_response.split)
qed

lemma delete_child_triple:
  assumes "node \<in> set (children_of (folder_nodes (w_db w0) (px_folder x)) parent)"
  shows "triple (\<lambda>w. delete_inv x deferred seed w0 w \<and> paths_placed x seed w0 ds)
    (delete_child e x deferred (folder_nodes (w_db w0) (px_folder x)) parent node ds)
    (\<lambda>ds' w. delete_inv x deferred seed w0 w \<and> paths_placed x seed w0 ds') (delete_inv x deferred seed w0)"
proof -
  let ?I = "delete_inv x deferred seed w0" and ?nodes = "folder_nodes (w_db w0) (px_folder x)"
  have child: "node \<in> set ?nodes" "ln_parent_id node = Some parent" using assms by (auto simp: children_of_def)
  have ens: "triple (\<lambda>w. ?I w \<and> paths_placed x seed w0 ds) (ensure_not_update_required x)
      (\<lambda>_ w. ?I w \<and> paths_placed x seed w0 ds) ?I"
    unfolding triple_def by (auto simp: ensure_not_update_required_def with_state_def ret_def fail_def)
  show ?thesis
    unfolding delete_child_def
  proof (rule triple_try [OF ens])
    fix u
    show "triple (\<lambda>w. ?I w \<and> paths_placed x seed w0 ds)
       (if ln_node_id node \<in> set deferred then ret ds
        else case map_of (ds_paths ds) parent of
         None \<Rightarrow> fail (EMsg ''panic: no path for a queued node'')
       | Some parent_path \<Rightarrow>
          (let p = path_join parent_path (ln_name node);
               ds1 = ds \<lparr> ds_paths := (ln_node_id node, p) # ds_paths ds,
                          ds_queue := ds_queue ds @ [ln_node_id node] \<rparr> in
           with_state (\<lambda>w.
             if path_exists (w_fs w) p then ret ds1
             else try_op (lift_result (should_delete ?nodes (w_db w) node)) (\<lambda>delete.
                  if delete then submit_delete e x node ds1 else ret ds1))))
       (\<lambda>ds' w. ?I w \<and> paths_placed x seed w0 ds') ?I"
    proof (cases "ln_node_id node \<in> set deferred \<or> map_of (ds_paths ds) parent = None")
      case True
      then show ?thesis by (auto intro!: triple_ret triple_fail)
    next
      case False
      then obtain pp where pp: "map_of (ds_paths ds) parent = Some pp" by auto
      let ?p = "path_join pp (ln_name node)"
      let ?ds = "ds \<lparr> ds_paths := (ln_node_id node, ?p) # ds_paths ds, ds_queue := ds_queue ds @ [ln_node_id node] \<rparr>"
      have "triple (\<lambda>w. ?I w \<and> paths_placed x seed w0 ds)
          (with_state (\<lambda>w. if path_exists (w_fs w) ?p then ret ?ds
             else try_op (lift_result (should_delete ?nodes (w_db w) node)) (\<lambda>delete.
                  if delete then submit_delete e x node ?ds else ret ?ds)))
          (\<lambda>ds' w. ?I w \<and> paths_placed x seed w0 ds') ?I"
      proof (rule triple_with_state)
        fix w
        assume w: "?I w \<and> paths_placed x seed w0 ds"
        then have at: "placed ?nodes (px_root x) seed parent pp" using pp by (simp add: paths_placed_def)
        then have ds: "paths_placed x seed w0 ?ds"
          using w placed_child [OF at child] by (auto simp: paths_placed_def)
        show "triple (\<lambda>t. t = w) (if path_exists (w_fs w) ?p then ret ?ds
             else try_op (lift_result (should_delete ?nodes (w_db w) node)) (\<lambda>delete.
                  if delete then submit_delete e x node ?ds else ret ?ds))
            (\<lambda>ds' w. ?I w \<and> paths_placed x seed w0 ds') ?I"
        proof (cases "path_exists (w_fs w) ?p \<or> should_delete ?nodes (w_db w) node \<noteq> Inr True")
          case True
          show ?thesis
          proof (cases "path_exists (w_fs w) ?p")
            case False
            then show ?thesis using True w ds by (cases "should_delete ?nodes (w_db w) node")
              (simp_all add: triple_def try_op_def lift_result_def ret_def)
          qed (use w ds in \<open>simp add: triple_def ret_def\<close>)
        next
          case del: False
          then have safe: "content_is_safe ?nodes (w_db w0) node"
            using should_delete_safe [of ?nodes "w_db w" node] w content_is_safe_cong [of "w_db w" "w_db w0"]
            by (simp add: delete_inv_def)
          have "justified_delete x deferred seed w0
              (submit_request (px_backend x) (px_token x) (px_folder x) (DeleteOp (ln_node_id node) (ln_server_seq node)))"
            unfolding justified_delete_def Let_def
            using child False at safe del w by (intro exI [of _ node] exI [of _ ?p]) (auto simp: delete_inv_def)
          from submit_delete_triple [OF this ds, of e] have
            "triple ?I (submit_delete e x node ?ds) (\<lambda>ds' w. ?I w \<and> paths_placed x seed w0 ds') ?I" .
          then show ?thesis using del w
            by (auto simp: triple_def try_op_def lift_result_def)
        qed
      qed
      then show ?thesis using False pp by (simp add: Let_def)
    qed
  qed
qed

lemma delete_walk_triple:
  "triple (\<lambda>w. delete_inv x deferred seed w0 w \<and> paths_placed x seed w0 ds)
     (delete_walk n e x deferred (folder_nodes (w_db w0) (px_folder x)) ds)
     (\<lambda>ds' w. delete_inv x deferred seed w0 w \<and> paths_placed x seed w0 ds') (delete_inv x deferred seed w0)"
proof (induction n arbitrary: ds)
  case (Suc n)
  have pop: "paths_placed x seed w0 (ds \<lparr> ds_queue := q \<rparr>) = paths_placed x seed w0 ds" for q
    by (simp add: paths_placed_def)
  show ?case
  proof (cases "ds_queue ds")
    case (Cons parent q)
    have "triple (\<lambda>w. delete_inv x deferred seed w0 w \<and> paths_placed x seed w0 (ds \<lparr> ds_queue := q \<rparr>))
        (for_each (children_of (folder_nodes (w_db w0) (px_folder x)) parent)
           (delete_child e x deferred (folder_nodes (w_db w0) (px_folder x)) parent) (ds \<lparr> ds_queue := q \<rparr>))
        (\<lambda>ds' w. delete_inv x deferred seed w0 w \<and> paths_placed x seed w0 ds') (delete_inv x deferred seed w0)"
      by (rule triple_for_each [where I = "\<lambda>ds w. delete_inv x deferred seed w0 w \<and> paths_placed x seed w0 ds"])
        (rule delete_child_triple)
    then show ?thesis using Cons Suc by (auto simp: pop intro!: triple_try)
  qed (auto intro!: triple_ret)
qed (auto intro!: triple_ret triple_fail)

lemma deletes_justified:
  assumes "submit_deletes_for_missing e x deferred summary w = (r, w')"
  shows "w_fs w' = w_fs w \<and> (\<exists>rs. w_sent w' = w_sent w @ rs \<and> (\<forall>rq \<in> set rs.
    \<exists>s. delete_seed x (folder_nodes (w_db w) (px_folder x)) = Some s \<and> justified_delete x deferred (ln_node_id s) w rq))"
proof -
  let ?nodes = "folder_nodes (w_db w) (px_folder x)"
  show ?thesis
  proof (cases "px_has_flag x \<and> w_flag w")
    case True
    then have "w' = w" using assms(1)
      by (simp add: submit_deletes_for_missing_def ensure_not_update_required_def with_state_def try_op_def fail_def)
    then show ?thesis by simp
  next
    case False
    have run: "(case delete_seed x ?nodes of None \<Rightarrow> ret summary
       | Some s \<Rightarrow> try_op (delete_walk (Suc (length ?nodes)) e x deferred ?nodes
               \<lparr> ds_summary = summary, ds_paths = [(ln_node_id s, px_root x)], ds_queue = [ln_node_id s] \<rparr>)
             (\<lambda>ds. ret (ds_summary ds))) w = (r, w')"
      using assms(1) False unfolding submit_deletes_for_missing_def delete_seed_def Let_def
      by (simp add: ensure_not_update_required_def with_state_def try_op_def ret_def del: delete_walk.simps)
    show ?thesis
    proof (cases "delete_seed x ?nodes")
      case None
      then show ?thesis using run by (simp add: ret_def)
    next
      case (Some s)
      let ?ds = "\<lparr> ds_summary = summary, ds_paths = [(ln_node_id s, px_root x)], ds_queue = [ln_node_id s] \<rparr>"
      have start: "delete_inv x deferred (ln_node_id s) w w \<and> paths_placed x (ln_node_id s) w ?ds"
        by (auto simp: delete_inv_def paths_placed_def intro: placed_seed)
      obtain r1 where "delete_walk (Suc (length ?nodes)) e x deferred ?nodes ?ds w = (r1, w')"
        using run Some by (cases "delete_walk (Suc (length ?nodes)) e x deferred ?nodes ?ds w"; cases "fst (delete_walk (Suc (length ?nodes)) e x deferred ?nodes ?ds w)")
          (auto simp: try_op_def ret_def simp del: delete_walk.simps)
      then have "delete_inv x deferred (ln_node_id s) w w'"
        using delete_walk_triple [of x deferred "ln_node_id s" w ?ds "Suc (length ?nodes)" e] start
        by (cases r1) (auto dest: triple_InlD triple_InrD simp del: delete_walk.simps)
      then show ?thesis using Some by (auto simp: delete_inv_def list_all_iff)
    qed
  qed
qed

section \<open>Moves that failed\<close>

text \<open>The server's answer to a submission is no result the push can go on with: none arrived, its
  status is an error, or it does not decode.\<close>

definition refused :: "env \<Rightarrow> http_request list \<Rightarrow> http_request \<Rightarrow> bool" where
  "refused e old rq = (\<nexists>status v response. env_server e old rq = Reply status (BodyJson v) \<and>
     \<not> (400 \<le> status \<and> status < 600) \<and> parse_submit_op_response_body v = Inr response)"

fun moved_by :: "http_body \<Rightarrow> string option" where
  "moved_by (SubmitBody (MoveOp i _ _)) = Some i"
| "moved_by (SubmitBody (RenameOp i _ _)) = Some i"
| "moved_by _ = None"

text \<open>Among the requests \<open>rs\<close> of a run is a move or rename of the node that the server refused.\<close>

definition failed_move :: "env \<Rightarrow> http_request list \<Rightarrow> http_request list \<Rightarrow> string \<Rightarrow> bool" where
  "failed_move e old rs i = (\<exists>pre rq post. rs = pre @ rq # post \<and> moved_by (rq_body rq) = Some i \<and> refused e (old @ pre) rq)"

definition is_delete :: "http_request \<Rightarrow> bool" where
  "is_delete rq = (\<exists>i q. rq_body rq = SubmitBody (DeleteOp i q))"

definition unmoving :: "http_request \<Rightarrow> bool" where
  "unmoving rq = (moved_by (rq_body rq) = None \<and> \<not> is_delete rq)"

lemma failed_move_append:
  assumes "failed_move e old (rs @ rs2) i" "list_all (\<lambda>rq. moved_by (rq_body rq) = None) rs2"
  shows "failed_move e old rs i"
proof -
  obtain pre rq post where f: "rs @ rs2 = pre @ rq # post" "moved_by (rq_body rq) = Some i" "refused e (old @ pre) rq"
    using assms(1) unfolding failed_move_def by blast
  have "rq \<notin> set rs2" using f(2) assms(2) by (auto simp: list_all_iff)
  then obtain us where "rs = pre @ rq # us" using f(1)
    by (auto simp: append_eq_append_conv2 append_eq_Cons_conv)
  then show ?thesis using f(2,3) unfolding failed_move_def by blast
qed

lemma failed_move_last:
  assumes "failed_move e old (rs @ [rq]) i"
  shows "failed_move e old rs i \<or> (moved_by (rq_body rq) = Some i \<and> refused e (old @ rs) rq)"
proof -
  obtain pre r post where f: "rs @ [rq] = pre @ r # post" "moved_by (rq_body r) = Some i" "refused e (old @ pre) r"
    using assms unfolding failed_move_def by blast
  show ?thesis
  proof (cases post rule: rev_cases)
    case Nil
    then show ?thesis using f by simp
  next
    case (snoc us u)
    then have "rs = pre @ r # us" using f(1) by (metis append.assoc append_Cons butlast_snoc)
    then show ?thesis using f(2,3) unfolding failed_move_def by blast
  qed
qed

text \<open>So far no deletion was sent, and every node whose move or rename was refused is deferred.\<close>

definition deferring :: "env \<Rightarrow> world \<Rightarrow> string list \<Rightarrow> world \<Rightarrow> bool" where
  "deferring e w0 d w = (\<exists>rs. w_sent w = w_sent w0 @ rs \<and> list_all (\<lambda>rq. \<not> is_delete rq) rs \<and>
     (\<forall>i. failed_move e (w_sent w0) rs i \<longrightarrow> i \<in> set d))"

abbreviation deferring_some :: "env \<Rightarrow> world \<Rightarrow> world \<Rightarrow> bool" where
  "deferring_some e w0 \<equiv> (\<lambda>w. \<exists>d. deferring e w0 d w)"

lemma deferring_quiet:
  assumes "sent_extends unmoving w w'" "deferring e w0 d w"
  shows "deferring e w0 d w'"
proof -
  obtain rs rs2 where rs: "w_sent w = w_sent w0 @ rs" "list_all (\<lambda>rq. \<not> is_delete rq) rs"
    "\<forall>i. failed_move e (w_sent w0) rs i \<longrightarrow> i \<in> set d" "w_sent w' = w_sent w @ rs2" "list_all unmoving rs2"
    using assms unfolding deferring_def sent_extends_def by blast
  have "list_all (\<lambda>rq. moved_by (rq_body rq) = None) rs2" "list_all (\<lambda>rq. \<not> is_delete rq) rs2"
    using rs(5) by (auto simp: list_all_iff unmoving_def)
  then show ?thesis unfolding deferring_def using rs failed_move_append
    by (intro exI [of _ "rs @ rs2"]) auto
qed

lemma quiet_triple:
  assumes "obeys (sent_extends unmoving) m"
  shows "triple (deferring e w0 d) m (\<lambda>_. deferring e w0 d) (deferring_some e w0)"
proof (rule tripleI)
  fix w r w'
  assume "deferring e w0 d w" "m w = (Inl r, w')"
  then show "deferring_some e w0 w'" using deferring_quiet obeys_run [OF assms] by blast
next
  fix w r w'
  assume "deferring e w0 d w" "m w = (Inr r, w')"
  then show "deferring e w0 d w'" using deferring_quiet obeys_run [OF assms] by blast
qed

lemma try_quiet:
  assumes "obeys (sent_extends unmoving) m" "\<And>y. triple (deferring e w0 d) (f y) Q (deferring_some e w0)"
  shows "triple (deferring e w0 d) (try_op m f) Q (deferring_some e w0)"
  by (rule triple_try [OF quiet_triple [OF assms(1)] assms(2)])

lemma match_quiet:
  assumes "obeys (sent_extends unmoving) m" "\<And>y. triple (deferring e w0 d) (f y) Q (deferring_some e w0)"
    "\<And>err. triple (deferring e w0 d) (h err) Q (deferring_some e w0)"
  shows "triple (deferring e w0 d) (match_op m f h) Q (deferring_some e w0)"
proof -
  have "triple (deferring e w0 d) m (\<lambda>_. deferring e w0 d) (deferring e w0 d)"
    by (rule tripleI) (use deferring_quiet obeys_run [OF assms(1)] in blast)+
  then show ?thesis by (rule triple_match) (rule assms(2), rule assms(3))
qed

lemma state_quiet: "(\<And>s. triple (deferring e w0 d) (f s) Q (deferring_some e w0)) \<Longrightarrow>
    triple (deferring e w0 d) (with_state f) Q (deferring_some e w0)"
  by (rule triple_with_state) (fastforce intro: triple_pre)

lemma ret_quiet: "d = h y \<Longrightarrow> triple (deferring e w0 d) (ret y) (\<lambda>y. deferring e w0 (h y)) (deferring_some e w0)"
  by (auto intro: triple_ret)

lemma fail_quiet: "triple (deferring e w0 d) (fail err) Q (deferring_some e w0)"
  by (auto intro: triple_fail)

lemmas deferring_rules = try_quiet match_quiet state_quiet ret_quiet fail_quiet

lemma deferred_same [simp]: "st_deferred (on_summary g st) = st_deferred st" "st_deferred (enqueue p i st) = st_deferred st"
  by (simp_all add: on_summary_def enqueue_def)

lemma submit_unmoving: "moved_by (SubmitBody req) = None \<Longrightarrow> (\<And>i q. req \<noteq> DeleteOp i q) \<Longrightarrow>
    obeys (sent_extends unmoving) (submit_op e u t f req)"
  by (rule submit_op_sent) (auto simp: unmoving_def is_delete_def submit_request_def)

lemma upload_then_submit_unmoving: "obeys (sent_extends unmoving) (upload_then_submit_new_version e u t f i q p dev date)"
proof -
  have "obeys (sent_extends unmoving) (upload_chunks e u t cs)" for cs
  proof -
    have "unmoving rq" if "no_submit rq" for rq
      using that by (cases rq; cases "rq_body rq") (auto simp: unmoving_def no_submit_def is_delete_def)
    then show ?thesis using upload_chunks_no_submit [of e u t cs]
      by (fastforce simp: obeys_def sent_extends_def list_all_iff)
  qed
  moreover have "obeys (sent_extends unmoving) (materialize_conflict_copy e p dev date)"
    unfolding materialize_conflict_copy_def by (auto intro!: sent_frame.obeys_rules split: option.split)
  moreover have "obeys (sent_extends unmoving) (submit_op e u t f (new_version_request e i q v cs))" for v cs
    by (rule submit_unmoving) (simp_all add: new_version_request_def Let_def)
  ultimately show ?thesis
    unfolding upload_then_submit_new_version_def Let_def
    by (auto intro!: sent_frame.obeys_rules split: submit_op_response.split)
qed

text \<open>The step that defers: a refused move or rename.\<close>

lemma submit_refused:
  assumes "submit_op e u t f req w = (Inl err, w')"
  shows "refused e (w_sent w) (submit_request u t f req)"
  using assms
  by (auto simp: refused_def submit_op_def try_op_def send_def Let_def error_for_status_def fail_def ret_def
      lift_result_def UPGRADE_REQUIRED_def FORBIDDEN_def split: http_reply.splits reply_body.splits if_splits)

lemma submit_accepted:
  assumes "submit_op e u t f req w = (Inr y, w')"
  shows "\<not> refused e (w_sent w) (submit_request u t f req)"
  using assms
  by (auto simp: refused_def submit_op_def try_op_def send_def Let_def error_for_status_def fail_def ret_def
      lift_result_def split: http_reply.splits reply_body.splits if_splits)

lemma moving_submit:
  assumes "moved_by (SubmitBody req) = Some i"
  shows "triple (deferring e w0 d) (push_submit e x req) (\<lambda>_. deferring e w0 d) (deferring e w0 (i # d))"
proof -
  let ?rq = "submit_request (px_backend x) (px_token x) (px_folder x) req"
  have run: "w' = w \<lparr> w_sent := w_sent w @ [?rq] \<rparr>" if "push_submit e x req w = (r, w')" for r w w'
    using that submit_op_run [of e "px_backend x" "px_token x" "px_folder x" req w] by (auto simp: push_submit_def)
  have body: "moved_by (rq_body ?rq) = Some i" "\<not> is_delete ?rq"
    using assms by (auto simp: submit_request_def is_delete_def)
  have step: "deferring e w0 d' (w \<lparr> w_sent := w_sent w @ [?rq] \<rparr>)"
    if "deferring e w0 d w" "set d \<subseteq> set d'" "refused e (w_sent w) ?rq \<Longrightarrow> i \<in> set d'" for w d'
  proof -
    note before = that(1)
    obtain rs where rs: "w_sent w = w_sent w0 @ rs" "list_all (\<lambda>rq. \<not> is_delete rq) rs"
      "\<forall>k. failed_move e (w_sent w0) rs k \<longrightarrow> k \<in> set d"
      using before unfolding deferring_def by blast
    have "k \<in> set d'" if "failed_move e (w_sent w0) (rs @ [?rq]) k" for k
      using failed_move_last [OF that] rs body(1) \<open>set d \<subseteq> set d'\<close> \<open>refused e (w_sent w) ?rq \<Longrightarrow> i \<in> set d'\<close> by auto
    then show ?thesis unfolding deferring_def using rs body(2) by (intro exI [of _ "rs @ [?rq]"]) auto
  qed
  show ?thesis
  proof (rule tripleI)
    fix w r w'
    assume w: "deferring e w0 d w" "push_submit e x req w = (Inl r, w')"
    show "deferring e w0 (i # d) w'" unfolding run [OF w(2)] by (rule step [OF w(1)]) auto
  next
    fix w r w'
    assume w: "deferring e w0 d w" "push_submit e x req w = (Inr r, w')"
    have "\<not> refused e (w_sent w) ?rq" using submit_accepted w(2) by (simp add: push_submit_def)
    then show "deferring e w0 d w'" unfolding run [OF w(2)] by (intro step [OF w(1)]) auto
  qed
qed

lemma unmoving_frames [simp]:
  "obeys (sent_extends unmoving) (chunk_file e p)" "obeys (sent_extends unmoving) (file_content_hash e p)"
  "obeys (sent_extends unmoving) (compare_content e p v n)"
  unfolding compare_content_def file_content_hash_def
  by (auto intro!: sent_frame.obeys_rules split: option.split)

lemma deferring_content: "triple (deferring e w0 (st_deferred st)) (push_content e x p i q stat st)
    (\<lambda>st'. deferring e w0 (st_deferred st')) (deferring_some e w0)"
  unfolding push_content_def today_date_str_def warm_push_cache_def
  by (auto intro!: deferring_rules sent_frame.obeys_rules upload_then_submit_unmoving)

lemma deferring_create: "triple (deferring e w0 (st_deferred st)) (create_entry e x entry st)
    (\<lambda>st'. deferring e w0 (st_deferred st')) (deferring_some e w0)"
proof -
  have content: "triple (deferring e w0 (st_deferred st)) (push_content e x p i q stat (on_summary g st))
      (\<lambda>st'. deferring e w0 (st_deferred st')) (deferring_some e w0)" for p i q stat g
    using deferring_content [of e w0 "on_summary g st"] by simp
  show ?thesis unfolding create_entry_def push_submit_def Let_def
    by (auto intro!: deferring_rules submit_unmoving content split: submit_op_response.split sum.split)
qed

lemma deferring_existing: "triple (deferring e w0 (st_deferred st)) (process_existing_file e x p node st)
    (\<lambda>st'. deferring e w0 (st_deferred st')) (deferring_some e w0)"
  unfolding process_existing_file_def Let_def warm_push_cache_def
  by (auto intro!: deferring_rules deferring_content split: sum.split option.split bool.split)

abbreviation moved_post :: "env \<Rightarrow> world \<Rightarrow> bool \<times> push_state \<Rightarrow> world \<Rightarrow> bool" where
  "moved_post e w0 \<equiv> (\<lambda>y. deferring e w0 (st_deferred (snd y)))"

lemma deferring_refused:
  "triple (deferring e w0 (i # st_deferred st)) (try_op (propagate_update_required err x)
     (\<lambda>_. ret (True, defer_delete i (on_summary g st)))) (moved_post e w0) (deferring_some e w0)"
  "triple (deferring e w0 (i # st_deferred st)) (try_op (propagate_update_required err x) (\<lambda>_.
     try_op (write_db h) (\<lambda>_. ret (True, defer_delete i (on_summary g st))))) (moved_post e w0) (deferring_some e w0)"
  by (rule try_quiet, simp, (rule try_quiet, simp)?, auto simp: defer_delete_def intro: triple_ret)+

lemma deferring_finish: "triple (deferring e w0 (st_deferred st)) (finish_move e x entry node st)
    (moved_post e w0) (deferring_some e w0)"
  unfolding finish_move_def Let_def
  by (rule try_quiet) (auto intro: triple_ret)

lemma deferring_rename: "triple (deferring e w0 (st_deferred st)) (rename_candidate e x entry node st)
    (moved_post e w0) (deferring_some e w0)"
proof (cases "ln_name node \<noteq> le_name entry")
  case True
  have sub: "triple (deferring e w0 (st_deferred st)) (push_submit e x (RenameOp (ln_node_id node) (ln_server_seq node) (le_name entry)))
      (\<lambda>_. deferring e w0 (st_deferred st)) (deferring e w0 (ln_node_id node # st_deferred st))"
    by (rule moving_submit) simp
  show ?thesis unfolding rename_candidate_def if_P [OF True]
    by (rule triple_match [OF sub])
      (auto intro: deferring_refused deferring_finish triple_ret split: submit_op_response.split)
qed (simp add: rename_candidate_def deferring_finish)

lemma deferring_moved: "triple (deferring e w0 (st_deferred st)) (process_moved_entry e x entry st)
    (moved_post e w0) (deferring_some e w0)"
proof -
  have sub: "triple (deferring e w0 (st_deferred st)) (push_submit e x (MoveOp (ln_node_id node) (ln_server_seq node) q))
      (\<lambda>_. deferring e w0 (st_deferred st)) (deferring e w0 (ln_node_id node # st_deferred st))" for node q
    by (rule moving_submit) simp
  have "triple (deferring e w0 (st_deferred st))
      (match_op (push_submit e x (MoveOp (ln_node_id node) (ln_server_seq node) (le_parent_node_id entry)))
            (\<lambda>response. case response of
                Applied server_seq _ \<Rightarrow>
                  rename_candidate e x entry
                    (node \<lparr> ln_parent_id := Some (le_parent_node_id entry), ln_server_seq := server_seq \<rparr>) st
              | _ \<Rightarrow> ret (True, on_summary skip_one st))
            (\<lambda>err. try_op (propagate_update_required err x) (\<lambda>_.
               ret (True, defer_delete (ln_node_id node) (on_summary (record_push_error err) st)))))
      (moved_post e w0) (deferring_some e w0)" for node
    by (rule triple_match [OF sub])
      (auto intro: deferring_refused deferring_rename triple_ret split: submit_op_response.split)
  then show ?thesis unfolding process_moved_entry_def
    by (intro state_quiet try_quiet)
      (auto intro: deferring_rename triple_ret sent_frame.obeys_lift split: option.split)
qed

lemma deferring_entry: "triple (deferring e w0 (st_deferred st)) (push_entry e x parent i st)
    (\<lambda>st'. deferring e w0 (st_deferred st')) (deferring_some e w0)"
proof -
  have create: "triple (moved_post e w0 y) (case y of (moved, st1) \<Rightarrow> if moved then ret st1 else create_entry e x entry st1)
      (\<lambda>st'. deferring e w0 (st_deferred st')) (deferring_some e w0)" for y entry
    by (cases y) (auto intro: deferring_create triple_ret)
  have moved: "triple (deferring e w0 (st_deferred st)) (move_or_create e x entry st)
      (\<lambda>st'. deferring e w0 (st_deferred st')) (deferring_some e w0)" for entry
    unfolding move_or_create_def by (rule triple_try [OF deferring_moved create])
  show ?thesis unfolding push_entry_def Let_def
    by (auto intro!: deferring_rules deferring_existing moved split: option.split)
qed

lemma deferring_walk: "triple (deferring e w0 (st_deferred st)) (push_walk n e x st)
    (\<lambda>st'. deferring e w0 (st_deferred st')) (deferring_some e w0)"
proof (induction n arbitrary: st)
  case 0
  then show ?case by (auto intro!: ret_quiet fail_quiet)
next
  case (Suc n)
  have dir: "triple (deferring e w0 (st_deferred st)) (push_directory e x d p st)
      (\<lambda>st'. deferring e w0 (st_deferred st')) (deferring_some e w0)" for d p st
  proof -
    have "triple (deferring e w0 (st_deferred st)) (for_each entries (push_entry e x p) (on_summary g st))
        (\<lambda>st'. deferring e w0 (st_deferred st')) (deferring_some e w0)" for entries g
    proof -
      have "triple (deferring e w0 (st_deferred (on_summary g st))) (for_each entries (push_entry e x p) (on_summary g st))
          (\<lambda>st'. deferring e w0 (st_deferred st')) (deferring_some e w0)"
        by (rule triple_for_each [where I = "\<lambda>st. deferring e w0 (st_deferred st)"]) (rule deferring_entry)
      then show ?thesis by simp
    qed
    then show ?thesis unfolding push_directory_def
      by (auto intro!: deferring_rules split: sum.split prod.split)
  qed
  show ?case
  proof (cases "st_queue st")
    case Nil
    then show ?thesis by (auto intro!: ret_quiet)
  next
    case (Cons a q)
    then show ?thesis
      using triple_try [OF dir [of "st \<lparr> st_queue := q \<rparr>" "fst a" "snd a"] Suc.IH] by (cases a) simp
  qed
qed


end
