(* ===== verification/Materialize_Props.thy ===== *)
theory Materialize_Props
  imports Local_Push_Props Materialize
begin

text \<open>
  Properties of the daemon's file side: the push and the pull agree on where a node lives, the
  sweeps visit exactly the tree below the mount and always end, cleaning up removes the paths of
  deleted nodes and nothing else, a file is replaced whole or not at all and only by verified
  content, and a background pull leaves local deletions alone.
\<close>

section \<open>Paths of nodes\<close>

lemma local_parts_segments:
  assumes "local_node_parts n scope nodes node parts = Inr r" "find_row ln_node_id (ln_node_id node) nodes = Some node"
  shows "node_segments (Suc n) nodes scope (ln_node_id node) parts = Inr r"
  using assms
proof (induction n arbitrary: node parts)
  case (Suc n)
  show ?case
  proof (cases "scope = Some (ln_node_id node)")
    case True
    then show ?thesis using Suc.prems by simp
  next
    case scope: False
    show ?thesis
    proof (cases "ln_parent_id node")
      case None
      then show ?thesis using Suc.prems scope by simp
    next
      case (Some parent)
      show ?thesis
      proof (cases "find_row ln_node_id parent nodes")
        case None
        then show ?thesis using Suc.prems scope Some by simp
      next
        case (Some p)
        note p = this
        then have "ln_node_id p = parent" using find_row_key by metis
        moreover have "local_node_parts n scope nodes p (ln_name node # parts) = Inr r"
          using Suc.prems(1) scope Some \<open>ln_parent_id node = Some parent\<close> by simp
        ultimately show ?thesis using Suc.IH [of p] p Suc.prems(2) scope \<open>ln_parent_id node = Some parent\<close> by simp
      qed
    qed
  qed
qed simp

lemma local_abs_path_node_abs_path:
  assumes "local_node_abs_path mount_root scope nodes node = Inr r" "find_row ln_node_id (ln_node_id node) nodes = Some node"
  shows "node_abs_path nodes mount_root scope (ln_node_id node) = Inr r"
  using assms local_parts_segments [of "Suc (length nodes)" scope nodes node "[]"]
  by (auto simp: local_node_abs_path_def node_abs_path_def simp del: node_segments.simps local_node_parts.simps
      split: sum.splits)

text \<open>The push and the pull agree on where a node lives: the path that \<open>local_node_abs_path\<close>
  (local_push.rs) computes for a row of the mirror is the one \<open>node_abs_path\<close> (tasks.rs) computes
  from the same rows by its identifier, including when a parent is missing and there is none.\<close>

theorem push_and_pull_paths_agree:
  assumes "local_node_abs_path mount_root scope nodes node = Inr r"
    "find_row ln_node_id (ln_node_id node) nodes = Some node"
  shows "node_abs_path nodes mount_root scope (ln_node_id node) = Inr r"
  by (rule local_abs_path_node_abs_path [OF assms])

text \<open>A cycle of parents makes \<open>node_abs_path\<close> loop: when every node of a set has a parent in
  the set and none is the scope of the mount, no number of rounds of its loop is enough for a node of
  the set.  Nothing in the client excludes such rows: two moves of the op log can create them.\<close>

theorem parent_cycle_never_ends:
  assumes "\<And>i. i \<in> C \<Longrightarrow> \<exists>node p. find_row ln_node_id i nodes = Some node \<and> ln_parent_id node = Some p \<and> p \<in> C"
    "\<And>i. i \<in> C \<Longrightarrow> scope \<noteq> Some i" "node_id \<in> C"
  shows "node_segments fuel nodes scope node_id segments = Inl ENoFuel"
  using assms(3)
proof (induction fuel arbitrary: node_id segments)
  case (Suc n)
  obtain node p where "find_row ln_node_id node_id nodes = Some node" "ln_parent_id node = Some p" "p \<in> C"
    using assms(1) Suc.prems by blast
  then show ?case using Suc.IH assms(2) Suc.prems find_row_key by fastforce
qed simp

section \<open>Sweeps\<close>

lemma sweep_closed:
  assumes "sweep fuel nodes queue = Inr found" "i \<in> set queue \<union> set (queue_of found)"
  shows "set (placed_children nodes i) \<subseteq> set found"
  using assms
proof (induction fuel nodes queue arbitrary: found rule: sweep.induct)
  case (3 n nodes parent queue)
  let ?kids = "placed_children nodes parent"
  obtain rest where rest: "sweep n nodes (queue @ queue_of ?kids) = Inr rest" "found = ?kids @ rest"
    using 3(2) by (auto simp: Let_def split: sum.splits)
  have "set (queue_of found) = set (queue_of ?kids) \<union> set (queue_of rest)"
    using rest(2) by (auto simp: queue_of_def)
  then consider "i = parent" | "i \<in> set (queue @ queue_of ?kids) \<union> set (queue_of rest)" using 3(3) by auto
  then show ?case
  proof cases
    case 1
    then show ?thesis using rest(2) by simp
  next
    case 2
    then show ?thesis using 3(1) [OF refl rest(1) 2] rest(2) by auto
  qed
qed (auto simp: queue_of_def)

lemma sweep_placed:
  assumes "sweep fuel nodes queue = Inr found" "\<And>i p. (i, p) \<in> set queue \<Longrightarrow> placed nodes mount_root seed i p"
    "(n, q) \<in> set found"
  shows "\<exists>parent p. placed nodes mount_root seed parent p \<and> (n, q) \<in> set (placed_children nodes (parent, p))"
  using assms
proof (induction fuel nodes queue arbitrary: found rule: sweep.induct)
  case (3 k nodes parent queue)
  let ?kids = "placed_children nodes parent"
  obtain rest where rest: "sweep k nodes (queue @ queue_of ?kids) = Inr rest" "found = ?kids @ rest"
    using 3(2) by (auto simp: Let_def split: sum.splits)
  have top: "placed nodes mount_root seed (fst parent) (snd parent)" using 3(3) [of "fst parent" "snd parent"] by simp
  have kids: "placed nodes mount_root seed i p" if mem: "(i, p) \<in> set (queue @ queue_of ?kids)" for i p
  proof (cases "(i, p) \<in> set queue")
    case True
    then show ?thesis using 3(3) by simp
  next
    case False
    with mem obtain m where "m \<in> set nodes" "ln_parent_id m = Some (fst parent)" "i = ln_node_id m"
      "p = path_join (snd parent) (ln_name m)"
      by (auto simp: queue_of_def placed_children_def)
    then show ?thesis using placed_child [OF top] by simp
  qed
  show ?case
  proof (cases "(n, q) \<in> set ?kids")
    case True
    then show ?thesis using top by (metis prod.collapse)
  next
    case False
    then have "(n, q) \<in> set rest" using 3(4) rest(2) by simp
    then show ?thesis using 3(1) [OF refl rest(1)] kids by blast
  qed
qed simp_all

text \<open>A queue the sweep may hold: with the nodes already expanded (\<open>seen\<close>) it holds each
  identifier once, and all children of the seen nodes.\<close>

definition sweep_inv :: "local_node list \<Rightarrow> string \<Rightarrow> string list \<Rightarrow> string list \<Rightarrow> bool" where
  "sweep_inv nodes seed seen queue =
     (distinct (seen @ queue) \<and> set (seen @ queue) \<subseteq> ln_node_id ` set nodes \<and>
      (\<forall>n \<in> set nodes. ln_node_id n \<in> set (seen @ queue) \<longrightarrow>
          ln_node_id n = seed \<or> (\<exists>p \<in> set seen. ln_parent_id n = Some p)))"

lemma sweep_inv_step:
  assumes inv: "sweep_inv nodes seed seen (fst parent # map fst queue)" and keys: "distinct (map ln_node_id nodes)"
    and top: "\<And>n. n \<in> set nodes \<Longrightarrow> ln_node_id n = seed \<Longrightarrow> ln_parent_id n = None"
  shows "sweep_inv nodes seed (fst parent # seen) (map fst (queue @ queue_of (placed_children nodes parent)))"
proof -
  let ?new = "map ln_node_id (filter (\<lambda>n. ln_parent_id n = Some (fst parent)) nodes)"
  have ids: "map fst (queue_of (placed_children nodes parent)) = ?new"
    by (simp add: queue_of_def placed_children_def comp_def)
  have fresh: "ln_node_id n \<notin> set (seen @ fst parent # map fst queue)"
    if "n \<in> set nodes" "ln_parent_id n = Some (fst parent)" for n
  proof
    assume "ln_node_id n \<in> set (seen @ fst parent # map fst queue)"
    then have "ln_node_id n = seed \<or> (\<exists>p \<in> set seen. ln_parent_id n = Some p)"
      using inv that unfolding sweep_inv_def by blast
    then have "fst parent \<in> set seen" using top that by auto
    then show False using inv unfolding sweep_inv_def by auto
  qed
  have "distinct ?new" using keys by (simp add: distinct_map_filter)
  moreover have "set ?new \<inter> set (seen @ fst parent # map fst queue) = {}"
  proof (rule ccontr)
    assume "set ?new \<inter> set (seen @ fst parent # map fst queue) \<noteq> {}"
    then obtain i where "i \<in> set ?new" "i \<in> set (seen @ fst parent # map fst queue)" by blast
    moreover from this(1) obtain n where "n \<in> set nodes" "ln_parent_id n = Some (fst parent)" "i = ln_node_id n"
      unfolding set_map set_filter by blast
    ultimately show False using fresh by blast
  qed
  moreover have "distinct (seen @ fst parent # map fst queue)" using inv unfolding sweep_inv_def by blast
  ultimately have "distinct (fst parent # seen @ map fst queue @ ?new)"
    unfolding distinct_append distinct.simps set_append set_simps by blast
  moreover have "set (fst parent # seen @ map fst queue @ ?new) \<subseteq> ln_node_id ` set nodes"
    using inv unfolding sweep_inv_def by auto
  moreover have "ln_node_id n = seed \<or> (\<exists>p \<in> set (fst parent # seen). ln_parent_id n = Some p)"
    if n: "n \<in> set nodes" "ln_node_id n \<in> set (fst parent # seen @ map fst queue @ ?new)" for n
  proof (cases "ln_node_id n \<in> set ?new")
    case True
    then obtain m where "m \<in> set nodes" "ln_parent_id m = Some (fst parent)" "ln_node_id m = ln_node_id n" by auto
    then have "m = n" using keys n(1) by (metis distinct_map inj_onD)
    then show ?thesis using \<open>ln_parent_id m = Some (fst parent)\<close> by simp
  next
    case False
    then have "ln_node_id n \<in> set (seen @ fst parent # map fst queue)" using n(2) by auto
    then show ?thesis using inv n(1) unfolding sweep_inv_def by auto
  qed
  ultimately show ?thesis unfolding sweep_inv_def map_append ids by simp
qed

lemma sweep_enough_fuel:
  assumes "sweep_inv nodes seed seen (map fst queue)" "distinct (map ln_node_id nodes)"
    "\<And>n. n \<in> set nodes \<Longrightarrow> ln_node_id n = seed \<Longrightarrow> ln_parent_id n = None"
    "length nodes \<le> length seen + fuel"
  shows "\<exists>found. sweep fuel nodes queue = Inr found"
  using assms
proof (induction fuel nodes queue arbitrary: seen rule: sweep.induct)
  case (2 nodes parent queue)
  then have "distinct (seen @ fst parent # map fst queue)"
    "set (seen @ fst parent # map fst queue) \<subseteq> ln_node_id ` set nodes"
    unfolding sweep_inv_def by auto
  then have "length (seen @ fst parent # map fst queue) \<le> card (ln_node_id ` set nodes)"
    by (metis card_mono distinct_card finite_imageI finite_set)
  also have "\<dots> \<le> length nodes" by (metis card_length length_map list.set_map)
  finally show ?case using 2(4) by simp
next
  case (3 n nodes parent queue)
  have "sweep_inv nodes seed (fst parent # seen) (map fst (queue @ queue_of (placed_children nodes parent)))"
    by (rule sweep_inv_step) (use 3 in simp_all)
  then obtain rest where "sweep n nodes (queue @ queue_of (placed_children nodes parent)) = Inr rest"
    using 3(1) [OF refl, of "fst parent # seen"] 3(3-5) by fastforce
  then show ?case by (simp add: Let_def)
qed simp

lemma sweep_seed_total:
  assumes "distinct (map ln_node_id nodes)" "seed \<in> set nodes" "ln_parent_id seed = None"
  shows "\<exists>found. sweep (length nodes) nodes [(ln_node_id seed, mount_root)] = Inr found"
proof (rule sweep_enough_fuel [where seen = "[]" and seed = "ln_node_id seed"])
  show "sweep_inv nodes (ln_node_id seed) [] (map fst [(ln_node_id seed, mount_root)])"
    using assms(2) by (auto simp: sweep_inv_def)
  show "\<And>n. n \<in> set nodes \<Longrightarrow> ln_node_id n = ln_node_id seed \<Longrightarrow> ln_parent_id n = None"
    using assms by (metis distinct_map inj_onD)
qed (use assms(1) in simp_all)

lemma sweep_exact:
  assumes "sweep fuel nodes [(seed, mount_root)] = Inr found"
  shows "(n, q) \<in> set found \<longleftrightarrow> n \<in> set nodes \<and>
    (\<exists>parent p. ln_parent_id n = Some parent \<and> placed nodes mount_root seed parent p \<and> q = path_join p (ln_name n))"
    (is "?l \<longleftrightarrow> ?r")
proof
  assume ?l
  then obtain parent p where "placed nodes mount_root seed parent p" "(n, q) \<in> set (placed_children nodes (parent, p))"
    using sweep_placed [OF assms] placed_seed by (metis empty_iff empty_set prod.inject set_ConsD)
  then show ?r by (auto simp: placed_children_def)
next
  assume ?r
  then obtain parent p where n: "n \<in> set nodes" "ln_parent_id n = Some parent" "q = path_join p (ln_name n)"
    and placed: "placed nodes mount_root seed parent p" by blast
  have "(i, s) \<in> set [(seed, mount_root)] \<union> set (queue_of found)" if "placed nodes mount_root seed i s" for i s
    using that
  proof (induction rule: placed.induct)
    case (placed_child parent p m)
    then have "(m, path_join p (ln_name m)) \<in> set found"
      using sweep_closed [OF assms, of "(parent, p)"] by (auto simp: placed_children_def)
    then show ?case by (force simp: queue_of_def)
  qed simp
  then have "set (placed_children nodes (parent, p)) \<subseteq> set found" using sweep_closed [OF assms] placed by blast
  then show ?l using n by (auto simp: placed_children_def)
qed

text \<open>C9: The breadth-first sweep of a mount (\<open>materialize_mount_files\<close> and
  \<open>cleanup_deleted_mount_paths\<close>) always ends, also when some rows form a cycle of parents, and it
  finds exactly the rows whose chain of parents reaches the root row, each at the path its chain of
  names gives below the mount.\<close>

theorem sweep_visits_the_tree:
  assumes "distinct (map ln_node_id nodes)" "seed \<in> set nodes" "ln_parent_id seed = None"
  shows "\<exists>found. sweep (length nodes) nodes [(ln_node_id seed, mount_root)] = Inr found \<and>
    set found = {(n, q). n \<in> set nodes \<and> (\<exists>parent p. ln_parent_id n = Some parent \<and>
       placed nodes mount_root (ln_node_id seed) parent p \<and> q = path_join p (ln_name n))}"
proof -
  obtain found where f: "sweep (length nodes) nodes [(ln_node_id seed, mount_root)] = Inr found"
    using sweep_seed_total [OF assms] by blast
  then show ?thesis using sweep_exact [OF f] by auto
qed

section \<open>Removing deleted nodes\<close>

lemma remove_deleted_run:
  assumes "remove_deleted np u w = (r, w')"
  obtains (removed) q where "resolve_parent (w_fs w) (snd np) = Inr q" "q \<noteq> []" "r = Inr ()"
      "w' = w \<lparr> w_fs := drop_tree q (w_fs w) \<rparr>"
    | (absent) "r = Inr ()" "w' = w" "\<not> path_exists (w_fs w) (snd np)"
    | (failed) e where "r = Inl e" "w' = w"
proof -
  let ?dir = "ln_node_type (fst np) = ''folder''"
  obtain rr fs' where run: "remove_path ?dir (snd np) (w_fs w) = (rr, fs')" by fastforce
  have body: "remove_deleted np u w = (case rr of Inr y \<Rightarrow> (Inr y, w \<lparr> w_fs := fs' \<rparr>)
      | Inl err \<Rightarrow> (if err = EIo NotFound then Inr () else Inl err, w \<lparr> w_fs := fs' \<rparr>))"
    using run by (auto simp: remove_deleted_def on_fs_def remove_path_def run_simps split: sum.splits)
  from run show thesis
  proof (cases rule: remove_path_cases)
    case (removed q)
    then show thesis using body assms that(1) by auto
  next
    case (failed e)
    note out = this
    show thesis
    proof (cases "e = EIo NotFound")
      case True
      then show thesis using body assms out run remove_path_NotFound that(2) by fastforce
    next
      case False
      then show thesis using body assms out that(3) by auto
    qed
  qed
qed

definition removal_effect :: "path list \<Rightarrow> fs \<Rightarrow> fs \<Rightarrow> bool" where
  "removal_effect ps a b = (fs_sub b a \<and>
     (\<forall>q n. fs_entry a q = Some n \<longrightarrow> fs_entry b q = Some n \<or>
        (\<exists>p \<in> set ps. \<exists>q0. resolve_parent a p = Inr q0 \<and> is_under q q0)))"

lemma removal_effect_append:
  assumes "removal_effect ps a b" "removal_effect qs b c"
  shows "removal_effect (ps @ qs) a c"
proof -
  have sub: "fs_sub b a" "fs_sub c b" using assms by (simp_all add: removal_effect_def)
  have "fs_entry c q = Some n \<or> (\<exists>p \<in> set (ps @ qs). \<exists>q0. resolve_parent a p = Inr q0 \<and> is_under q q0)"
    if "fs_entry a q = Some n" for q n
  proof (cases "fs_entry b q = Some n")
    case True
    then have "fs_entry c q = Some n \<or> (\<exists>p \<in> set qs. \<exists>q0. resolve_parent b p = Inr q0 \<and> is_under q q0)"
      using assms(2) unfolding removal_effect_def by blast
    then show ?thesis using resolve_parent_sub [OF sub(1)] by auto
  next
    case False
    then have "\<exists>p \<in> set ps. \<exists>q0. resolve_parent a p = Inr q0 \<and> is_under q q0"
      using assms(1) that unfolding removal_effect_def by blast
    then show ?thesis by auto
  qed
  then show ?thesis using fs_sub_trans [OF sub(2,1)] unfolding removal_effect_def by blast
qed

lemma removal_effect_refl: "removal_effect ps a a"
  by (simp add: removal_effect_def)

lemma removal_effect_mono: "removal_effect ps a b \<Longrightarrow> set ps \<subseteq> set qs \<Longrightarrow> removal_effect qs a b"
  unfolding removal_effect_def by blast

lemma removal_effect_gone: "removal_effect ps a b \<Longrightarrow> \<not> path_exists a p \<Longrightarrow> \<not> path_exists b p"
  using path_exists_sub unfolding removal_effect_def by blast

lemma remove_all_run:
  assumes "for_each xs remove_deleted () w = (r, w')"
  shows "w' = w \<lparr> w_fs := w_fs w' \<rparr> \<and> removal_effect (map snd xs) (w_fs w) (w_fs w') \<and>
    (r = Inr () \<longrightarrow> (\<forall>p \<in> set (map snd xs). \<not> path_exists (w_fs w') p))"
  using assms
proof (induction xs arbitrary: w)
  case Nil
  then show ?case by (simp add: ret_def removal_effect_refl)
next
  case (Cons np xs)
  from Cons.prems obtain rr w1 where one: "remove_deleted np () w = (rr, w1)" by fastforce
  from one show ?case
  proof (cases rule: remove_deleted_run)
    case (removed q)
    then have rest: "for_each xs remove_deleted () w1 = (r, w')" using Cons.prems one by (simp add: try_op_def)
    note IH = Cons.IH [OF rest]
    have "removal_effect [snd np] (w_fs w) (w_fs w1)"
      using removed drop_tree_sub by (auto simp: removal_effect_def)
    then have "removal_effect ([snd np] @ map snd xs) (w_fs w) (w_fs w')" using removal_effect_append IH by blast
    moreover have "\<not> path_exists (w_fs w1) (snd np)" using dropped_is_gone [OF removed(1,2)] removed(4) by simp
    then have "\<not> path_exists (w_fs w') (snd np)" using IH removal_effect_gone by blast
    moreover have "w' = w \<lparr> w_fs := w_fs w' \<rparr>" using IH removed(4) by (metis world.surjective world.update_convs(2))
    ultimately show ?thesis using IH by simp
  next
    case absent
    then have rest: "for_each xs remove_deleted () w = (r, w')" using Cons.prems one by (simp add: try_op_def)
    note IH = Cons.IH [OF rest]
    have "removal_effect (map snd (np # xs)) (w_fs w) (w_fs w')"
      using IH by (auto intro: removal_effect_mono)
    moreover have "\<not> path_exists (w_fs w') (snd np)" using IH absent(3) removal_effect_gone by blast
    ultimately show ?thesis using IH by simp
  next
    case (failed e)
    then have "r = Inl e" "w' = w" using Cons.prems one by (simp_all add: try_op_def)
    then show ?thesis by (simp add: removal_effect_refl)
  qed
qed

text \<open>A path below the mount of a row that is marked deleted.\<close>

definition deleted_place :: "local_node list \<Rightarrow> path \<Rightarrow> string \<Rightarrow> path \<Rightarrow> bool" where
  "deleted_place nodes mount_root seed p =
     (\<exists>n parent pp. n \<in> set nodes \<and> \<not> live n \<and> ln_parent_id n = Some parent \<and>
        placed nodes mount_root seed parent pp \<and> p = path_join pp (ln_name n))"

lemma mirror_wf_ids: "mirror_wf db \<Longrightarrow> distinct (map ln_node_id (load_nodes_by_id db f))"
  by (simp add: mirror_wf_def nodes_wf_def load_nodes_by_id_def distinct_map_filter)

lemma cleanup_run:
  assumes "mirror_wf (w_db w)" "find (\<lambda>n. ln_parent_id n = None) (load_nodes_by_id (w_db w) (mc_folder x)) = Some seed"
    "cleanup_deleted_mount_paths x w = (r, w')"
  shows "\<exists>ps. set ps = {p. deleted_place (load_nodes_by_id (w_db w) (mc_folder x)) (mc_path x) (ln_node_id seed) p} \<and>
    w' = w \<lparr> w_fs := w_fs w' \<rparr> \<and> removal_effect ps (w_fs w) (w_fs w') \<and>
    (r = Inr () \<longrightarrow> (\<forall>p \<in> set ps. \<not> path_exists (w_fs w') p))"
proof -
  let ?nodes = "load_nodes_by_id (w_db w) (mc_folder x)"
  have seed: "seed \<in> set ?nodes" "ln_parent_id seed = None" using assms(2) by (auto simp: find_Some_iff)
  obtain found where found: "sweep (length ?nodes) ?nodes [(ln_node_id seed, mc_path x)] = Inr found"
    using sweep_seed_total [OF mirror_wf_ids [OF assms(1)] seed] by blast
  have "for_each (deleted_first_deepest found) remove_deleted () w = (r, w')"
    using assms(2,3) found by (simp add: cleanup_deleted_mount_paths_def sweep_mount_def run_simps Let_def)
  note run = remove_all_run [OF this]
  have "p \<in> set (map snd (deleted_first_deepest found)) \<longleftrightarrow> deleted_place ?nodes (mc_path x) (ln_node_id seed) p" for p
  proof -
    have "p \<in> set (map snd (deleted_first_deepest found)) \<longleftrightarrow> (\<exists>n. (n, p) \<in> set found \<and> \<not> live n)"
      by (force simp: deleted_first_deepest_def)
    then show ?thesis unfolding sweep_exact [OF found] deleted_place_def by blast
  qed
  then show ?thesis using run by blast
qed

text \<open>C8: Cleaning up after a pull (\<open>cleanup_deleted_mount_paths\<close>) touches the file system only,
  leaves every entry in place that is not at or below the path of a row marked deleted, and when it
  succeeds nothing exists any more at any such path, whatever the order in which nested
  deletions are carried out.\<close>

theorem cleanup_removes_deleted_paths_only:
  assumes "mirror_wf (w_db w)" "find (\<lambda>n. ln_parent_id n = None) (load_nodes_by_id (w_db w) (mc_folder x)) = Some seed"
    "cleanup_deleted_mount_paths x w = (r, w')"
  shows "w' = w \<lparr> w_fs := w_fs w' \<rparr> \<and>
    (\<forall>p. deleted_place (load_nodes_by_id (w_db w) (mc_folder x)) (mc_path x) (ln_node_id seed) p \<longrightarrow>
       r = Inr () \<longrightarrow> \<not> path_exists (w_fs w') p) \<and>
    (\<forall>q n. fs_entry (w_fs w) q = Some n \<longrightarrow> fs_entry (w_fs w') q = Some n \<or>
       (\<exists>p q0. deleted_place (load_nodes_by_id (w_db w) (mc_folder x)) (mc_path x) (ln_node_id seed) p \<and>
          resolve_parent (w_fs w) p = Inr q0 \<and> is_under q q0))"
  using cleanup_run [OF assms] unfolding removal_effect_def by blast

lemma cleanup_gone:
  assumes "mirror_wf (w_db w)" "find (\<lambda>n. ln_parent_id n = None) (load_nodes_by_id (w_db w) (mc_folder x)) = Some seed"
    "cleanup_deleted_mount_paths x w = (Inr (), w')"
    "deleted_place (load_nodes_by_id (w_db w) (mc_folder x)) (mc_path x) (ln_node_id seed) p"
  shows "\<not> path_exists (w_fs w') p"
  using cleanup_run [OF assms(1-3)] assms(4) by blast

text \<open>A file that is deleted and then created again under the same name does not survive a
  cleanup: when the mirror holds a row marked deleted and a live row with the same parent and
  name, a successful cleanup leaves nothing at the path of the live row.  The rows of deleted nodes
  are never removed from the mirror and the cleanup runs on every pull.\<close>

theorem cleanup_removes_a_recreated_file:
  assumes "mirror_wf (w_db w)" "find (\<lambda>n. ln_parent_id n = None) (load_nodes_by_id (w_db w) (mc_folder x)) = Some seed"
    "cleanup_deleted_mount_paths x w = (Inr (), w')"
    "placed (load_nodes_by_id (w_db w) (mc_folder x)) (mc_path x) (ln_node_id seed) parent pp"
    "old \<in> set (load_nodes_by_id (w_db w) (mc_folder x))" "\<not> live old" "ln_parent_id old = Some parent"
    "new \<in> set (load_nodes_by_id (w_db w) (mc_folder x))" "live new" "ln_parent_id new = Some parent"
    "ln_name new = ln_name old"
  shows "\<not> path_exists (w_fs w') (path_join pp (ln_name new))"
proof (rule cleanup_gone [OF assms(1-3)])
  show "deleted_place (load_nodes_by_id (w_db w) (mc_folder x)) (mc_path x) (ln_node_id seed) (path_join pp (ln_name new))"
    using assms(4-11) unfolding deleted_place_def by metis
qed

end
