(* ===== verification/Materialize_Safety.thy ===== *)
theory Materialize_Safety
  imports Atomic_Write
begin

text \<open>
  What a pull may put on disk: only content whose chunks, manifest and size were verified, in the
  background nothing that the user deleted locally, and no copy of a conflict this device made.
\<close>

section \<open>Verified content\<close>

text \<open>The bytes that a version's metadata admits.\<close>

definition verified_content :: "env \<Rightarrow> remote_version \<Rightarrow> string \<Rightarrow> bool" where
  "verified_content e v bytes =
     (manifest_content_hash (env_sha256 e) (rv_manifest v) = rv_content_hash v \<and> length bytes = rv_size_bytes v \<and>
      (\<exists>ds. bytes = concat ds \<and> map (env_sha256 e) ds = map cr_hash (sort_key cr_offset (rv_manifest v))))"

lemma download_chunks_verified:
  assumes "download_chunks e backend_url token refs w = (Inr bytes, w')"
  shows "\<exists>ds. bytes = concat ds \<and> map (env_sha256 e) ds = map cr_hash (sort_key cr_offset refs)"
  using assms for_each_download_InrD unfolding download_chunks_def Let_def
  by (fastforce elim!: try_op_InrE)

text \<open>The version is the one the server lists under this id for the node, in its answer to the request
  this run sent for the node's versions.\<close>

definition listed_version :: "env \<Rightarrow> mount_ctx \<Rightarrow> string \<Rightarrow> string \<Rightarrow> world \<Rightarrow> remote_version \<Rightarrow> bool" where
  "listed_version e x node_id version_id w v = (\<exists>token status versions.
     mc_token x = Some token \<and>
     env_server e (w_sent w) \<lparr> rq_method = GET,
       rq_url = folder_url (mc_backend x) (mc_folder x) (''/versions/'' @ node_id),
       rq_bearer = Some token, rq_headers = [], rq_body = NoBody \<rparr> = Reply status (BodyVersions versions) \<and>
     find (\<lambda>v. rv_version_id v = version_id) versions = Some v)"

lemma fetch_remote_version_Inr:
  assumes "fetch_remote_version e x node_id version_id w = (Inr v, w')"
  shows "listed_version e x node_id version_id w v \<and> w_db w' = w_db w \<and> w_fs w' = w_fs w"
  using assms unfolding fetch_remote_version_def require_token_def
  by (auto simp: try_op_def send_def Let_def error_for_status_def fail_def ret_def listed_version_def
      split: option.splits reply_body.splits http_reply.splits if_splits)

lemma listed_version_id: "listed_version e x node_id version_id w v \<Longrightarrow> rv_version_id v = version_id"
  by (auto simp: listed_version_def find_Some_iff)

lemma download_verified_Inr:
  assumes "download_verified_version e x node_id version_id w = (Inr (v, bytes), w')"
  shows "listed_version e x node_id version_id w v \<and> verified_content e v bytes \<and> w_db w' = w_db w \<and> w_fs w' = w_fs w"
proof -
  from assms obtain v1 w1 token w2 bytes1 w3 where
    f: "fetch_remote_version e x node_id version_id w = (Inr v1, w1)" and
    t: "require_token (mc_token x) w1 = (Inr token, w2)" and
    d: "download_chunks e (mc_backend x) token (rv_manifest v1) w2 = (Inr bytes1, w3)" and
    c: "check_version e v1 bytes1 = Inr (v, bytes)" "w' = w3"
    unfolding download_verified_version_def by (auto elim!: try_op_InrE simp: lift_result_def)
  have "w2 = w1" using t by (auto simp: require_token_def fail_def ret_def split: option.splits)
  moreover have "w_db w3 = w_db w2 \<and> w_fs w3 = w_fs w2"
    using obeys_run [OF download_chunks_frames(1) d] obeys_run [OF download_chunks_frames(2) d]
    by (simp add: db_same_def fs_same_def)
  moreover have "v = v1" "bytes = bytes1" "manifest_content_hash (env_sha256 e) (rv_manifest v1) = rv_content_hash v1"
    "length bytes1 = rv_size_bytes v1"
    using c(1) by (auto simp: check_version_def Let_def split: if_splits)
  ultimately show ?thesis using fetch_remote_version_Inr [OF f] download_chunks_verified [OF d] c(2)
    by (simp add: verified_content_def)
qed

lemma write_atomic_db: "obeys db_same (write_atomic e p bytes)"
  unfolding write_atomic_def create_parent_def Let_def
  by (auto intro!: db_frame.obeys_rules split: option.split)

lemma persist_materialized_fs: "obeys fs_same (persist_materialized_version e x node_id v)"
  unfolding persist_materialized_version_def persist_version_metadata_def
  by (auto intro!: fs_frame.obeys_rules)

lemma get_version_row_chunks: "db_versions (fold (\<lambda>c. mark_uploaded (f c) (g c)) cs db) = db_versions db"
  by (induction cs arbitrary: db) (simp_all add: mark_uploaded_def insert_chunk_def)

lemma upsert_version_row_present:
  "vr_id row \<in> vr_id ` set (db_versions (upsert_version_row row db))"
proof -
  have "find_row vr_id (vr_id row) (upsert_row vr_id merge_version row (db_versions db)) \<noteq> None"
    by (subst find_row_upsert_same) (simp_all add: merge_version_def vr_id_def)
  then show ?thesis by (simp add: upsert_version_row_def find_row_None)
qed

lemma marked_version_materialized:
  assumes "version_id \<in> vr_id ` set (db_versions db)"
  shows "has_materialized_content_for_version (mark_content_materialized now version_id db) version_id"
proof -
  let ?mark = "\<lambda>r. r \<lparr> vr_materialized_at := (case vr_materialized_at r of None \<Rightarrow> Some now | Some t \<Rightarrow> Some t) \<rparr>"
  obtain r where "r \<in> set (db_versions db)" "vr_id r = version_id" using assms by blast
  then have "?mark r \<in> set (db_versions (mark_content_materialized now version_id db))"
    unfolding mark_content_materialized_def update_rows_def by force
  moreover have "vr_id (?mark r) = version_id" "vr_materialized_at (?mark r) \<noteq> None"
    using \<open>vr_id r = version_id\<close> by (simp_all add: vr_id_def split: option.split)
  ultimately show ?thesis unfolding has_materialized_content_for_version_def list_ex_iff by blast
qed

lemma materialized_after_persist:
  assumes "persist_materialized_version e x node_id v w = (Inr (), w')"
  shows "has_materialized_content_for_version (w_db w') (rv_version_id v)"
proof -
  from assms obtain w1 where p: "persist_version_metadata x node_id v w = (Inr (), w1)"
    and w': "w_db w' = mark_content_materialized (env_clock e (w_ticks w1)) (rv_version_id v) (w_db w1)"
    unfolding persist_materialized_version_def
    by (auto elim!: try_op_InrE simp: tick_def write_db_def writes_def)
  let ?row = "\<lparr> vr_version = version_metadata x node_id v, vr_materialized_at = None \<rparr>"
  have "db_versions (w_db w1) = db_versions (upsert_version_row ?row (w_db w))"
    using p unfolding persist_version_metadata_def
    by (auto elim!: try_op_InrE simp: write_db_def writes_def on_db_def upsert_version_def fail_def
        get_version_row_chunks split: if_splits)
  then have "rv_version_id v \<in> vr_id ` set (db_versions (w_db w1))"
    using upsert_version_row_present [of ?row "w_db w"] by (simp add: vr_id_def version_metadata_def)
  then show ?thesis unfolding w' by (rule marked_version_materialized)
qed

lemma require_token_same: "obeys db_same (require_token t)" "obeys fs_same (require_token t)"
  by (auto simp: require_token_def intro!: db_frame.obeys_rules fs_frame.obeys_rules split: option.split)

lemma download_verified_frames:
  "obeys db_same (download_verified_version e x node_id version_id)"
  "obeys fs_same (download_verified_version e x node_id version_id)"
  unfolding download_verified_version_def fetch_remote_version_def
  by (auto intro!: db_frame.obeys_rules fs_frame.obeys_rules require_token_same split: reply_body.split option.split)

text \<open>Downloading draws no UUID, so the temporary name is the one the start of the run determines.\<close>

definition uuids_same :: "world \<Rightarrow> world \<Rightarrow> bool" where "uuids_same w w' = (w_uuids w' = w_uuids w)"

interpretation uuids_frame: state_preorder uuids_same
  by unfold_locales (simp_all add: uuids_same_def)

lemma send_uuids [simp]: "obeys uuids_same (send e rq)" "obeys uuids_same (error_for_status r)"
  by (auto simp: obeys_def uuids_same_def send_def Let_def split: http_reply.split)

lemma download_verified_uuids: "obeys uuids_same (download_verified_version e x node_id version_id)"
proof -
  have "obeys uuids_same (download_chunk e objs c bs)" for objs c bs
    unfolding download_chunk_def by (auto intro!: uuids_frame.obeys_rules split: reply_body.split option.split)
  moreover have "obeys uuids_same (post_batch e u t op objs)" for u t op objs
    unfolding post_batch_def by (auto intro!: uuids_frame.obeys_rules split: reply_body.split)
  ultimately have "obeys uuids_same (download_chunks e u t refs)" for u t refs
    unfolding download_chunks_def Let_def by (auto intro!: uuids_frame.obeys_rules)
  then show ?thesis
    unfolding download_verified_version_def fetch_remote_version_def require_token_def
    by (auto intro!: uuids_frame.obeys_rules split: reply_body.split option.split)
qed

text \<open>C2: Only verified content reaches a file, on every run of \<open>materialize_version\<close>.  In a well-formed
  tree, with a temporary name that is not in use, either the run fails and no entry of the disk
  changed but for parent directories of the target that were made; or the target, and nothing else
  beside such directories, changed and holds bytes that passed every check: the version is the one
  the server listed under the requested id for the node in this run, the bytes are the concatenation
  of chunks with the hashes of its manifest in offset order, the manifest hashes to the version's
  content hash, and the length is the version's size.  So bytes that fail a check are never in place,
  not even when the run then fails.  When the run succeeds the latter holds and the version is
  recorded as materialised.\<close>

theorem materialized_content_is_verified:
  assumes "materialize_version e x node_id version_id p w = (r, w')"
    "fs_tree (w_fs w)" "unused (temp_name (last p) (env_uuid e (w_uuids w))) (w_fs w)"
    "temp_name (last p) (env_uuid e (w_uuids w)) \<notin> set p"
    "CHR ''/'' \<notin> set (last p)" "CHR ''/'' \<notin> set (env_uuid e (w_uuids w))"
  shows "dirs_added (w_fs w) (parents_made p (w_fs w)) \<and>
    ((isl r \<and> (same_entries (w_fs w') (w_fs w) \<or> same_entries (w_fs w') (parents_made p (w_fs w)))) \<or>
     (\<exists>v bytes d t. listed_version e x node_id version_id w v \<and> verified_content e v bytes \<and>
        canonicalize (parents_made p (w_fs w)) (butlast p) = Inr d \<and>
        (\<forall>q. fs_entry (w_fs w') q =
           (if q = d @ [last p] then Some (File bytes t) else fs_entry (parents_made p (w_fs w)) q)) \<and>
        (r = Inr () \<longrightarrow> has_materialized_content_for_version (w_db w') version_id)))"
proof -
  have refl: "same_entries a a" for a by (simp add: same_entries_def)
  note made = parents_made_effect(3) [OF assms(2-4)]
  obtain r1 w1 where d: "download_verified_version e x node_id version_id w = (r1, w1)" by fastforce
  have same: "w_fs w1 = w_fs w" "w_uuids w1 = w_uuids w"
    using obeys_run [OF download_verified_frames(2) d] obeys_run [OF download_verified_uuids d]
    by (simp_all add: fs_same_def uuids_same_def)
  show ?thesis
  proof (cases r1)
    case (Inl err)
    then have "isl r" "w_fs w' = w_fs w" using assms(1) d same(1) by (auto simp: materialize_version_def try_op_def)
    then show ?thesis using made refl by simp
  next
    case (Inr vb)
    obtain v bytes where vb: "vb = (v, bytes)" by fastforce
    note checked = download_verified_Inr [OF d [unfolded Inr vb]]
    obtain r2 w2 where a: "write_atomic e p bytes w1 = (r2, w2)" by fastforce
    note written = write_atomic_run [OF a, unfolded same, OF assms(2-6)]
    have rest: "(case r2 of Inl err \<Rightarrow> (Inl err, w2) | Inr _ \<Rightarrow> persist_materialized_version e x node_id v w2) = (r, w')"
      using assms(1) d Inr vb a by (simp add: materialize_version_def try_op_def split: sum.splits)
    show ?thesis
    proof (cases r2)
      case (Inl err)
      then have "isl r" "w_fs w' = w_fs w2" using rest by auto
      then show ?thesis using written Inl made by auto
    next
      case (Inr u)
      then have m: "persist_materialized_version e x node_id v w2 = (r, w')" using rest by simp
      have "w_fs w' = w_fs w2" using obeys_run [OF persist_materialized_fs m] by (simp add: fs_same_def)
      moreover have "r = Inr () \<longrightarrow> has_materialized_content_for_version (w_db w') version_id"
        using materialized_after_persist [of e x node_id v w2 w'] m checked listed_version_id by blast
      ultimately show ?thesis using written Inr made checked by auto
    qed
  qed
qed

text \<open>A version that fails any of these checks changes nothing: when \<open>download_verified_version\<close>
  fails (no token, no such version, a missing chunk, a wrong hash or size), \<open>materialize_version\<close>
  returns that error and leaves the disk and the mirror as they were.\<close>

lemma unverified_version_changes_nothing:
  assumes "download_verified_version e x node_id version_id w = (Inl err, w1)"
  shows "\<exists>w'. materialize_version e x node_id version_id p w = (Inl err, w') \<and> w_db w' = w_db w \<and> w_fs w' = w_fs w"
  using assms obeys_run [OF download_verified_frames(1) assms] obeys_run [OF download_verified_frames(2) assms]
  by (simp add: materialize_version_def try_op_def db_same_def fs_same_def)

section \<open>What a pull leaves alone\<close>

text \<open>A pull in the background does not bring back a file the user deleted: when some version
  of the node was materialised here and nothing exists at the node's path, a pulled creation or new
  version is applied without a request and without touching disk or mirror.\<close>

theorem background_pull_keeps_local_deletions:
  assumes "node_abs_path nodes (mc_path x) (mc_scope x) (pn_node_id pulled) = Inr (Some p)"
    "has_materialized_content_for_node (w_db w) (pn_node_id pulled)" "\<not> path_exists (w_fs w) p"
    "(pn_op_type pulled = ''create'' \<and> pn_node_type pulled = ''file'') \<or>
     (pn_op_type pulled = ''new_version'' \<and> \<not> pn_is_conflict_copy pulled)"
  shows "apply_pulled_fs_change e x nodes Background pulled w = (Inr (), w)"
proof -
  have "materialize_pulled e x nodes pulled Background w = (Inr (), w)"
    using assms(1-3) by (simp add: materialize_pulled_def should_materialize_canonical_def ctx_path_def run_simps
        split: option.split)
  then show ?thesis using assms(4) by (auto simp: apply_pulled_fs_change_def Let_def ret_def)
qed

text \<open>A conflict copy of this device's own making is not written a second time: a pulled
  conflict-copy operation whose author is this device changes nothing and sends nothing.\<close>

lemma own_conflict_copy_is_ignored:
  assumes "pn_op_type pulled = ''new_version''" "pn_is_conflict_copy pulled" "pn_actor_device_id pulled = mc_device_id x"
  shows "apply_pulled_fs_change e x nodes scope pulled w = (Inr (), w)"
  using assms by (simp add: apply_pulled_fs_change_def write_pulled_conflict_copy_def Let_def ret_def)

end
