(* ===== verification/Concrete_Runs.thy ===== *)
theory Concrete_Runs
  imports Local_Push_Props Watch Materialize_Props Atomic_Write Materialize_Safety
begin

text \<open>
  The theorems of the other theories applied to concrete mirrors, file systems and servers: each
  \<open>_witness\<close> discharges the hypotheses of its theorem on data that the definitions evaluate.
\<close>

text \<open>Sizes are unary when they are evaluated, so the bound of SQLite's integers is compared as \<open>int\<close>.\<close>

lemma upsert_version_code [code]:
  "upsert_version v = (if int (lv_size_bytes v) < 2 ^ 63
     then writes (upsert_version_row \<lparr> vr_version = v, vr_materialized_at = None \<rparr>)
     else fail (EDb ''integer out of range''))"
proof -
  have "(int n < 2 ^ 63) = (n < 2 ^ 63)" for n :: nat by simp
  then show ?thesis by (simp only: upsert_version_def)
qed

section \<open>A mounted folder\<close>

definition demo_node :: "string \<Rightarrow> string option \<Rightarrow> string \<Rightarrow> string \<Rightarrow> int \<Rightarrow> local_node" where
  "demo_node node_id parent name node_type seq =
     \<lparr> ln_node_id = node_id, ln_folder_id = ''F'', ln_parent_id = parent, ln_name = name, ln_node_type = node_type,
       ln_current_version_id = None, ln_server_seq = seq, ln_deleted_at = None,
       ln_pushed_size_bytes = None, ln_pushed_mtime_nanos = None \<rparr>"

definition demo_mount :: local_mount where
  "demo_mount = \<lparr> lm_path = ''/m'', lm_folder_id = ''F'', lm_grant_id = None, lm_scope_node_id = None,
     lm_mount_token = Some ''tok'', lm_cursor = 1, lm_can_write = True, lm_name = None \<rparr>"

definition demo_db :: "local_node list \<Rightarrow> mirror" where
  "demo_db nodes = \<lparr> db_nodes = demo_node ''r'' None ''root'' ''folder'' 1 # nodes, db_versions = [],
     db_chunks = [], db_mounts = [demo_mount] \<rparr>"

definition demo_op :: "int \<Rightarrow> string \<Rightarrow> json \<Rightarrow> op_log_entry" where
  "demo_op seq t payload = \<lparr> op_server_seq = seq, op_node_id = ''n'', op_type = t, op_payload = payload,
     op_actor_device_id = ''dev'', op_applied_at = ''2026-01-02T00:00:00Z'' \<rparr>"

definition demo_create :: op_log_entry where
  "demo_create = demo_op 2 ''create'' (JObj [(''parent_id'', JStr ''r''), (''name'', JStr ''a.txt''),
     (''type'', JStr ''file''), (''folder_id'', JStr ''F'')])"

definition demo_rename :: op_log_entry where
  "demo_rename = demo_op 3 ''rename'' (JObj [(''new_name'', JStr ''b.txt'')])"

section \<open>Op log\<close>

theorem apply_op_log_entry_idempotent_witness:
  "fst (apply_op_log_entry ''t2'' demo_rename (snd (apply_op_log_entry ''t1'' demo_rename
     (demo_db [demo_node ''n'' (Some ''r'') ''a.txt'' ''file'' 2])))) =
   Inr (Some (demo_node ''n'' (Some ''r'') ''b.txt'' ''file'' 3))"
proof -
  let ?db = "demo_db [demo_node ''n'' (Some ''r'') ''a.txt'' ''file'' 2]"
  let ?db' = "demo_db [demo_node ''n'' (Some ''r'') ''b.txt'' ''file'' 3]"
  have run: "apply_op_log_entry ''t1'' demo_rename ?db = (Inr (Some (demo_node ''n'' (Some ''r'') ''a.txt'' ''file'' 2)), ?db')"
    by code_simp
  have "get_node ?db' (op_node_id demo_rename) = Some (demo_node ''n'' (Some ''r'') ''b.txt'' ''file'' 3)" by code_simp
  then show ?thesis using apply_op_log_entry_idempotent [OF run, of "''t2''"] run by simp
qed

theorem apply_op_log_entry_monotone_witness:
  "get_node (snd (apply_op_log_entry ''t'' demo_rename (demo_db [demo_node ''n'' (Some ''r'') ''a.txt'' ''file'' 2]))) ''r'' =
   Some (demo_node ''r'' None ''root'' ''folder'' 1)"
proof -
  let ?db = "demo_db [demo_node ''n'' (Some ''r'') ''a.txt'' ''file'' 2]"
  have "op_type demo_rename \<noteq> ''create''" "get_node ?db ''r'' = Some (demo_node ''r'' None ''root'' ''folder'' 1)"
    "op_node_id demo_rename \<noteq> ''r''" by code_simp+
  then show ?thesis using apply_op_log_entry_monotone [of demo_rename ?db "''r''" _ "''t''"] by metis
qed

text \<open>The server's log of a new folder and a file in it: the payloads name no folder id.\<close>

definition demo_log :: "op_log_entry list" where
  "demo_log =
     [(demo_op 2 ''create'' (JObj [(''parent_id'', JStr ''r''), (''name'', JStr ''docs''), (''type'', JStr ''folder'')]))
        \<lparr> op_node_id := ''d'' \<rparr>,
      demo_op 3 ''create'' (JObj [(''parent_id'', JStr ''d''), (''name'', JStr ''a.txt''), (''type'', JStr ''file'')]),
      demo_op 4 ''rename'' (JObj [(''new_name'', JStr ''b.txt'')])]"

theorem replay_from_create_converges_witness:
  "\<exists>n1 n2. get_node (snd (replay (\<lambda>_. ''t'') demo_log (demo_db []))) ''n'' = Some n1 \<and>
     get_node (snd (replay (\<lambda>_. ''t'') demo_log (demo_db [demo_node ''n'' (Some ''r'') ''old'' ''file'' 9]))) ''n'' = Some n2 \<and>
     plain_node n1 = plain_node n2"
proof -
  let ?a = "demo_db []" and ?b = "demo_db [demo_node ''n'' (Some ''r'') ''old'' ''file'' 9]"
  have "get_node ?a ''r'' = Some (demo_node ''r'' None ''root'' ''folder'' 1)"
    "get_node ?b ''r'' = Some (demo_node ''r'' None ''root'' ''folder'' 1)" by code_simp+
  then have "\<forall>i \<in> set [''r'']. same_row i ?a ?b" by (simp add: same_row_def)
  moreover have "log_from [''r''] demo_log" by code_simp
  moreover have "\<not> isl (fst (replay (\<lambda>_. ''t'') demo_log ?a))" "''n'' \<in> set (created_ids demo_log)" by code_simp+
  ultimately show ?thesis
    using replay_from_create_converges [of "[''r'']" ?a ?b demo_log "\<lambda>_. ''t''"] unfolding same_row_def by blast
qed

definition demo_snapshot :: folder_tree_response where
  "demo_snapshot = \<lparr> ft_nodes = [\<lparr> ns_node_id = ''r'', ns_parent_id = None, ns_name = ''root'', ns_node_type = NFolder,
     ns_current_version_id = None, ns_server_seq = 5, ns_deleted_at = None \<rparr>], ft_up_to_seq = 7 \<rparr>"

definition other_mount :: local_mount where
  "other_mount = demo_mount \<lparr> lm_path := ''/g'', lm_folder_id := ''G'', lm_cursor := 4 \<rparr>"

theorem apply_tree_snapshot_exact_witness:
  "db_mounts (apply_tree_snapshot ''F'' demo_snapshot ((demo_db []) \<lparr> db_mounts := [demo_mount, other_mount] \<rparr>)) =
     [demo_mount \<lparr> lm_cursor := 7 \<rparr>, other_mount]"
proof -
  let ?db = "(demo_db []) \<lparr> db_mounts := [demo_mount, other_mount] \<rparr>"
  have 1: "mirror_wf ?db" "distinct (map ns_node_id (ft_nodes demo_snapshot))" by code_simp+
  have "db_mounts ?db = [demo_mount, other_mount]" "lm_folder_id demo_mount = ''F''" "lm_folder_id other_mount = ''G''"
    "ft_up_to_seq demo_snapshot = 7" by (simp_all add: demo_mount_def other_mount_def demo_snapshot_def)
  then show ?thesis using apply_tree_snapshot_exact [OF 1 refl, of "''F''"] by simp
qed

section \<open>Chunks\<close>

text \<open>A server that answers its requests from a list.\<close>

definition scripted :: "http_reply list \<Rightarrow> http_request list \<Rightarrow> http_request \<Rightarrow> http_reply" where
  "scripted replies sent rq = (if length sent < length replies then replies ! length sent else NoReply)"

definition demo_object :: "string \<Rightarrow> batch_action option \<Rightarrow> batch_action option \<Rightarrow> batch_response_object" where
  "demo_object oid up down = \<lparr> bp_oid = oid, bp_size = 3,
     bp_actions = Some \<lparr> bas_upload = up, bas_download = down \<rparr>, bp_error = None \<rparr>"

definition demo_action :: batch_action where
  "demo_action = \<lparr> ba_href = ''http://s/o'', ba_header = None, ba_expires_in = None \<rparr>"

definition demo_batch :: "batch_action option \<Rightarrow> batch_action option \<Rightarrow> batch_response" where
  "demo_batch up down = \<lparr> bs_transfer = ''basic'', bs_objects = [demo_object ''h:abc'' up down] \<rparr>"

definition download_env :: env where
  "download_env = demo_env (scripted [Reply 200 (BodyBatch (demo_batch None (Some demo_action))), Reply 200 (BodyBytes ''abc'')])"

definition demo_ref :: chunk_ref where
  "demo_ref = \<lparr> cr_hash = ''h:abc'', cr_offset = 0, cr_length = 3 \<rparr>"

definition demo_fs :: fs where
  "demo_fs = \<lparr> fs_nodes = [([''m''], Dir), ([''m'', ''a.txt''], File ''abc'' 7)], fs_denied = [], fs_faults = [] \<rparr>"

definition idle_world :: world where
  "idle_world = demo_world (demo_db []) demo_fs"

lemma submit_request_body: "rq_body (submit_request u t f req) = SubmitBody req"
  by (simp add: submit_request_def)

lemma singleton_mem: "xs = [a] \<Longrightarrow> a \<in> set xs"
  by simp

lemma result_pair: "fst p = r \<Longrightarrow> p = (r, snd p)"
  by auto

theorem download_chunks_integrity_witness:
  "w_fs (snd (download_chunks download_env ''http://s'' ''tok'' [demo_ref] idle_world)) = demo_fs"
proof -
  have "fst (download_chunks download_env ''http://s'' ''tok'' [demo_ref] idle_world) = Inr ''abc''" by code_simp
  from download_chunks_integrity [OF result_pair [OF this]] show ?thesis
    by (simp add: idle_world_def demo_world_def)
qed

theorem download_chunks_roundtrip_witness:
  "fst (download_chunks download_env ''http://s'' ''tok'' (map chunk_ref_of (chunks_of_data download_env ''abc'')) idle_world)
   = Inr ''abc''"
proof -
  let ?run = "download_chunks download_env ''http://s'' ''tok'' (map chunk_ref_of (chunks_of_data download_env ''abc'')) idle_world"
  have t: "tiles_from 0 (length ''abc'') (env_cdc download_env ''abc'')" by code_simp
  have h: "d = ck_data c"
    if "c \<in> set (chunks_of_data download_env ''abc'')" "env_sha256 download_env d = ck_hash c" for c d
    using that chunks_of_data_hash [OF that(1)] by (simp add: download_env_def demo_env_def)
  have "\<not> isl (fst ?run)" by code_simp
  then obtain bytes where bytes: "fst ?run = Inr bytes" by (cases "fst ?run") auto
  from download_chunks_roundtrip [OF t h result_pair [OF bytes]] show ?thesis using bytes by simp
qed

lemma upload_chunks_known_stay_unmarked_witness:
  "\<exists>w'. upload_chunks (demo_env (\<lambda>_ _. Reply 200 (BodyBatch (demo_batch None None)))) ''http://s'' ''tok''
      (chunks_of_data download_env ''abc'') idle_world = (Inr (), w') \<and> w_db w' = w_db idle_world"
proof (rule upload_chunks_known_stay_unmarked [where batch = "demo_batch None None"])
  show "env_server (demo_env (\<lambda>_ _. Reply 200 (BodyBatch (demo_batch None None)))) (w_sent idle_world) rq =
      Reply 200 (BodyBatch (demo_batch None None))" for rq by (simp add: demo_env_def)
  show "bs_transfer (demo_batch None None) = ''basic''" by code_simp
  show "bp_error o' = None \<and> upload_action o' = None" if "o' \<in> set (bs_objects (demo_batch None None))" for o'
    using that by (auto simp: demo_batch_def demo_object_def upload_action_def)
qed

section \<open>Pulling\<close>

definition pulling_world :: world where
  "pulling_world = demo_world (demo_db [demo_node ''n'' (Some ''r'') ''a.txt'' ''file'' 2]) demo_fs"

definition page_env :: env where
  "page_env = demo_env (scripted [Reply 200 (BodyOps \<lparr> dp_ops = [demo_rename], dp_up_to_seq = 3 \<rparr>),
     Reply 200 (BodyOps \<lparr> dp_ops = [], dp_up_to_seq = 3 \<rparr>)])"

lemma pulled_nodes_one_per_op_witness:
  "list_all2 node_of_op [demo_rename] (projr (fst (for_each [demo_rename] (apply_pulled_op page_env) [] pulling_world)))"
proof -
  let ?run = "for_each [demo_rename] (apply_pulled_op page_env) [] pulling_world"
  have "\<not> isl (fst ?run)" by code_simp
  then obtain ps where ps: "fst ?run = Inr ps" by (cases "fst ?run") auto
  from pulled_nodes_one_per_op [OF result_pair [OF ps]] show ?thesis using ps by auto
qed

lemma pull_page_failure_keeps_cursor_witness:
  "get_cursor (w_db (snd (pull_page (demo_env (scripted [])) ''http://s'' ''tok'' ''F'' 1 [] pulling_world))) ''F'' = 1"
proof -
  let ?run = "pull_page (demo_env (scripted [])) ''http://s'' ''tok'' ''F'' 1 [] pulling_world"
  have "isl (fst ?run)" by code_simp
  then obtain err where err: "fst ?run = Inl err" by (cases "fst ?run") auto
  have "get_cursor (w_db pulling_world) ''F'' = 1" by code_simp
  then show ?thesis using pull_page_failure_keeps_cursor [OF result_pair [OF err], of "''F''"] by simp
qed

theorem pull_delta_cursor_witness:
  "get_cursor (w_db (snd (pull_delta 3 page_env ''http://s'' ''tok'' ''F'' pulling_world))) ''F'' = 3"
proof -
  let ?run = "pull_delta 3 page_env ''http://s'' ''tok'' ''F'' pulling_world"
  have m: "mounted (w_db pulling_world) ''F''" by code_simp
  have "map_sum (\<lambda>_. ()) fst (fst ?run) = Inr 3" by code_simp
  then obtain ns where ns: "fst ?run = Inr (3, ns)" by (cases "fst ?run") auto
  from pull_delta_cursor [OF m result_pair [OF ns]] show ?thesis by simp
qed

theorem pull_delta_terminates_witness:
  "fst (pull_delta 3 page_env ''http://s'' ''tok'' ''F'' pulling_world) \<noteq> Inl ENoFuel"
proof (rule pull_delta_terminates [where m = 3])
  show "page_bounded page_env 3"
    by (auto simp: page_bounded_def page_env_def demo_env_def scripted_def nth_Cons split: nat.splits if_splits)
  show "nat (3 - get_cursor (w_db pulling_world) ''F'') < 3" by code_simp
qed

lemma pull_delta_upgrade_required_witness:
  "\<exists>w'. pull_delta (Suc 0) (demo_env (\<lambda>_ _. Reply 426 (BodyTooOld (Some 2) None))) ''http://s'' ''tok'' ''F'' pulling_world =
      (Inl (EUpdateRequired (protocol_too_old (Some 2) None)), w') \<and> w_db w' = w_db pulling_world \<and> w_fs w' = w_fs pulling_world"
  by (rule pull_delta_upgrade_required) (simp add: demo_env_def)

section \<open>Submitting\<close>

lemma materialize_conflict_copy_safe_witness:
  "fs_read (w_fs (snd (materialize_conflict_copy page_env [''m'', ''a.txt''] ''d'' ''2026-01-02'' idle_world))) [''m'', ''a.txt'']
   = Inr ''abc''"
proof -
  let ?run = "materialize_conflict_copy page_env [''m'', ''a.txt''] ''d'' ''2026-01-02'' idle_world"
  have "fst ?run = Inr [''m'', ''a (conflicted copy, d, 2026-01-02).txt'']" by code_simp
  note safe = materialize_conflict_copy_safe [OF result_pair [OF this]]
  have "fs_read (w_fs idle_world) [''m'', ''a.txt''] = Inr ''abc''" by code_simp
  then show ?thesis using safe by blast
qed

lemma disambiguate_conflict_path_first_free_witness:
  "disambiguate_conflict_path demo_fs [''m'', ''a.txt''] = Inr [''m'', ''a (2).txt'']"
proof -
  have n: "path_file_name [''m'', ''a.txt''] = Some ''a.txt''" "valid_utf8 ''a.txt''" by code_simp+
  have f: "find (\<lambda>p. \<not> path_exists demo_fs p) ([''m'', ''a.txt''] # map (candidate_path [''m'', ''a.txt'']) [2..<21])
      = Some [''m'', ''a (2).txt'']"
    "\<not> list_all (path_exists demo_fs) ([''m'', ''a.txt''] # map (candidate_path [''m'', ''a.txt'']) [2..<21])"
    by code_simp+
  show ?thesis using disambiguate_conflict_path_first_free [OF n, of demo_fs] unfolding f(1) using f(2)
    by (auto split: sum.splits)
qed

definition demo_payload :: new_version_payload where
  "demo_payload = \<lparr> nv_version_id = ''v1'', nv_content_hash = ''h'', nv_size_bytes = 3, nv_manifest = [demo_ref],
     nv_force_conflict_copy = False \<rparr>"

lemma apply_submitted_new_version_effect_witness:
  "get_node (snd (apply_submitted_new_version ''F'' ''n'' (NewVersionOp ''n'' 2 demo_payload) (ConflictCopy 9 ''n'' ''v2'')
     (demo_db [demo_node ''n'' (Some ''r'') ''a.txt'' ''file'' 2]))) ''n'' =
   Some (demo_node ''n'' (Some ''r'') ''a.txt'' ''file'' 9)"
proof -
  let ?db = "demo_db [demo_node ''n'' (Some ''r'') ''a.txt'' ''file'' 2]"
  have n: "get_node ?db ''n'' = Some (demo_node ''n'' (Some ''r'') ''a.txt'' ''file'' 2)" by code_simp
  have small: "nv_size_bytes demo_payload < 2 ^ 63" by (simp add: demo_payload_def)
  have "(demo_node ''n'' (Some ''r'') ''a.txt'' ''file'' 2) \<lparr> ln_server_seq := 9 \<rparr> =
      demo_node ''n'' (Some ''r'') ''a.txt'' ''file'' 9" by (simp add: demo_node_def)
  moreover note eff = apply_submitted_new_version_effect [OF n small surjective_pairing,
      where folder_id = "''F''" and i = "''n''" and q = 2 and response = "ConflictCopy 9 ''n'' ''v2''"]
  ultimately show ?thesis using conjunct2 [OF eff, unfolded submit_op_response.case] by (simp only:)
qed

definition applied_reply :: http_reply where
  "applied_reply = Reply 200 (BodyJson (JObj [(''result'', JStr ''applied''), (''server_seq'', JInt 3), (''node_id'', JStr ''n'')]))"

text \<open>A server that lacks the chunk, takes its bytes and applies the version.\<close>

definition taking_env :: env where
  "taking_env = demo_env (scripted [Reply 200 (BodyBatch (demo_batch (Some demo_action) None)), Reply 200 BodyOther, applied_reply])"

lemma drop_mem: "drop n xs = [a] \<Longrightarrow> a \<in> set xs"
  by (metis in_set_dropD list.set_intros(1))

theorem upload_precedes_submit_witness:
  "\<exists>data w1. fs_read (w_fs pulling_world) [''m'', ''a.txt''] = Inr data \<and>
    upload_chunks taking_env ''http://s'' ''tok'' (chunks_of_data taking_env data) pulling_world = (Inr (), w1) \<and>
    (\<forall>c \<in> set (chunks_of_data taking_env data).
       chunk_delivered taking_env ''http://s'' ''tok'' pulling_world (chunks_of_data taking_env data) (w_sent w1) c)"
proof -
  let ?run = "upload_then_submit_new_version taking_env ''http://s'' ''tok'' ''F'' ''n'' 2 [''m'', ''a.txt''] ''dev'' ''2026-01-02'' pulling_world"
  let ?req = "new_version_request taking_env ''n'' 2 ''id0'' (chunks_of_data taking_env ''abc'')"
  let ?rq = "submit_request ''http://s'' ''tok'' ''F'' ?req"
  have "drop 2 (drop (length (w_sent pulling_world)) (w_sent (snd ?run))) = [?rq]" by code_simp
  then have mem: "?rq \<in> set (drop (length (w_sent pulling_world)) (w_sent (snd ?run)))" by (rule drop_mem)
  have body: "rq_body ?rq = SubmitBody ?req" by (rule submit_request_body)
  from upload_precedes_submit [OF surjective_pairing mem body] show ?thesis by blast
qed

section \<open>Pushing\<close>

definition demo_ctx :: push_ctx where
  "demo_ctx = \<lparr> px_root = [''m''], px_folder = ''F'', px_scope = None, px_backend = ''http://s'', px_token = ''tok'',
     px_device = ''dev'', px_has_flag = True \<rparr>"

theorem push_halts_iff_update_required_witness:
  "w_flag (snd (push_local_with_update_required 4 (demo_env (\<lambda>_ _. Reply 426 BodyOther)) demo_ctx idle_world))"
proof -
  let ?run = "push_local_with_update_required 4 (demo_env (\<lambda>_ _. Reply 426 BodyOther)) demo_ctx idle_world"
  have start: "\<not> w_flag idle_world" by code_simp
  have "fst ?run = Inl (EUpdateRequired (protocol_too_old None None))" by code_simp
  then show ?thesis using push_halts_iff_update_required [OF start surjective_pairing] by blast
qed

definition gone_world :: world where
  "gone_world = demo_world ((demo_db [(demo_node ''n'' (Some ''r'') ''gone.txt'' ''file'' 2) \<lparr> ln_current_version_id := Some ''v1'' \<rparr>])
     \<lparr> db_versions := [\<lparr> vr_version = \<lparr> lv_version_id = ''v1'', lv_node_id = ''n'', lv_folder_id = ''F'', lv_content_hash = ''h'',
         lv_size_bytes = 3, lv_manifest = [demo_ref] \<rparr>, vr_materialized_at = None \<rparr>], db_chunks := [(''h:abc'', 3)] \<rparr>)
     \<lparr> fs_nodes = [([''m''], Dir)], fs_denied = [], fs_faults = [] \<rparr>"


text \<open>A file renamed on the disk whose rename the server answers with \<open>superseded\<close>: the mirror keeps the
  old name, nothing holds the node over, and the same push submits its deletion although the file is
  there under its new name.\<close>

definition renamed_world :: world where
  "renamed_world = gone_world \<lparr> w_fs := \<lparr> fs_nodes = [([''m''], Dir), ([''m'', ''b.txt''], File ''abc'' 7)],
     fs_denied = [], fs_faults = [] \<rparr> \<rparr>"

lemma superseded_rename_deletes:
  "map rq_body (w_sent (snd (push_local_inner 4 (demo_env (scripted
      [Reply 200 (BodyJson (JObj [(''result'', JStr ''superseded''), (''current_seq'', JInt 3)])), applied_reply]))
      demo_ctx renamed_world))) =
   [SubmitBody (RenameOp ''n'' 2 ''b.txt''), SubmitBody (DeleteOp ''n'' 2)]"
  by code_simp

section \<open>Watching\<close>

definition demo_watch :: watch_mount where
  "demo_watch = \<lparr> wm_path = [''m''], wm_folder_id = ''F'', wm_device_name = ''dev'', wm_backend_url = ''http://s'', wm_token = ''tok'' \<rparr>"

lemma quieted_watcher_is_inert_witness:
  "snd (process_batch page_env demo_watch (CreateEv [''m'', ''a.txt''])
     (initial_watch_state \<lparr> ws_point := Debouncing (CreateEv [''m'', ''a.txt'']), ws_paused := True \<rparr>) idle_world) = idle_world"
proof -
  let ?ev = "CreateEv [''m'', ''a.txt'']"
  let ?s = "initial_watch_state \<lparr> ws_point := Debouncing ?ev, ws_paused := True \<rparr>"
  have "watch_step page_env demo_watch (?s, idle_world) (process_batch page_env demo_watch ?ev ?s idle_world)"
    by (rule step_batch) simp
  then have "watch_step page_env demo_watch (?s, idle_world)
      (fst (process_batch page_env demo_watch ?ev ?s idle_world), snd (process_batch page_env demo_watch ?ev ?s idle_world))"
    by simp
  from quieted_watcher_is_inert [OF this] show ?thesis by (simp add: quieted_def)
qed

theorem batch_outcome_is_remembered_witness:
  "ws_dirty (fst (process_batch (demo_env (scripted [])) demo_watch (CreateEv [''m'', ''a.txt''])
     (initial_watch_state \<lparr> ws_point := Debouncing (CreateEv [''m'', ''a.txt'']) \<rparr>) idle_world))"
proof -
  let ?ev = "CreateEv [''m'', ''a.txt'']" and ?e = "demo_env (scripted [])"
  let ?s = "initial_watch_state \<lparr> ws_point := Debouncing ?ev \<rparr>"
  let ?run = "process_batch ?e demo_watch ?ev ?s idle_world"
  have "isl (fst (handle_fs_events ?e demo_watch (collapse_events (?ev # ws_rx ?s)) idle_world))"
    "\<not> w_flag (snd ?run)" "\<not> quieted (fst ?run)" by code_simp+
  then show ?thesis using batch_outcome_is_remembered [OF surjective_pairing, of ?e demo_watch ?ev ?s idle_world]
    by auto
qed

definition unchanged_world :: world where
  "unchanged_world = demo_world ((demo_db [(demo_node ''n'' (Some ''r'') ''a.txt'' ''file'' 2) \<lparr> ln_current_version_id := Some ''v1'' \<rparr>])
     \<lparr> db_versions := [\<lparr> vr_version = \<lparr> lv_version_id = ''v1'', lv_node_id = ''n'', lv_folder_id = ''F'', lv_content_hash = ''h:h:abc'',
         lv_size_bytes = 3, lv_manifest = [demo_ref] \<rparr>, vr_materialized_at = None \<rparr>] \<rparr>) demo_fs"

lemma unchanged_modify_sends_nothing_witness:
  "handle_fs_event page_env demo_watch (ModifyEv [''m'', ''a.txt'']) unchanged_world = (Inr (), unchanged_world)"
proof (rule unchanged_modify_sends_nothing)
  show "resolve_abs_path (w_db unchanged_world) (wm_path demo_watch) (wm_folder_id demo_watch) [''m'', ''a.txt''] =
      Inr (Some ((demo_node ''n'' (Some ''r'') ''a.txt'' ''file'' 2) \<lparr> ln_current_version_id := Some ''v1'' \<rparr>))" by code_simp
  show "fs_read (w_fs unchanged_world) [''m'', ''a.txt''] = Inr ''abc''" by code_simp
  show "stored_content_equal (w_db unchanged_world)
      (ln_node_id ((demo_node ''n'' (Some ''r'') ''a.txt'' ''file'' 2) \<lparr> ln_current_version_id := Some ''v1'' \<rparr>))
      (sum_list (map ck_length (chunks_of_data page_env ''abc'')))
      (manifest_content_hash (env_sha256 page_env) (map chunk_ref_of (chunks_of_data page_env ''abc'')))" by code_simp
qed

section \<open>Materialising\<close>

definition demo_tree :: "local_node list" where
  "demo_tree = [demo_node ''r'' None ''root'' ''folder'' 1, demo_node ''d'' (Some ''r'') ''docs'' ''folder'' 2,
     demo_node ''n'' (Some ''d'') ''a.txt'' ''file'' 3]"

theorem push_and_pull_paths_agree_witness:
  "node_abs_path demo_tree [''m''] None (ln_node_id (demo_node ''n'' (Some ''d'') ''a.txt'' ''file'' 3)) =
     Inr (Some [''m'', ''docs'', ''a.txt''])"
proof (rule push_and_pull_paths_agree)
  show "local_node_abs_path [''m''] None demo_tree (demo_node ''n'' (Some ''d'') ''a.txt'' ''file'' 3) =
      Inr (Some [''m'', ''docs'', ''a.txt''])" by code_simp
  show "find_row ln_node_id (ln_node_id (demo_node ''n'' (Some ''d'') ''a.txt'' ''file'' 3)) demo_tree =
      Some (demo_node ''n'' (Some ''d'') ''a.txt'' ''file'' 3)" by code_simp
qed

definition demo_cycle :: "local_node list" where
  "demo_cycle = [demo_node ''a'' (Some ''b'') ''x'' ''folder'' 1, demo_node ''b'' (Some ''a'') ''y'' ''folder'' 2]"

theorem parent_cycle_never_ends_witness: "node_segments 1000 demo_cycle None ''a'' [] = Inl ENoFuel"
proof (rule parent_cycle_never_ends [where C = "{''a'', ''b''}"])
  show "\<exists>node p. find_row ln_node_id i demo_cycle = Some node \<and> ln_parent_id node = Some p \<and> p \<in> {''a'', ''b''}"
    if "i \<in> {''a'', ''b''}" for i
  proof -
    have "find_row ln_node_id ''a'' demo_cycle = Some (demo_node ''a'' (Some ''b'') ''x'' ''folder'' 1)"
      "find_row ln_node_id ''b'' demo_cycle = Some (demo_node ''b'' (Some ''a'') ''y'' ''folder'' 2)" by code_simp+
    then show ?thesis using that by (auto simp: demo_node_def)
  qed
qed simp_all

theorem sweep_visits_the_tree_witness:
  "\<exists>found. sweep (length demo_tree) demo_tree [(ln_node_id (demo_node ''r'' None ''root'' ''folder'' 1), [''m''])] = Inr found"
proof -
  have "distinct (map ln_node_id demo_tree)" by code_simp
  moreover have "demo_node ''r'' None ''root'' ''folder'' 1 \<in> set demo_tree" by (simp add: demo_tree_def)
  moreover have "ln_parent_id (demo_node ''r'' None ''root'' ''folder'' 1) = None" by (simp add: demo_node_def)
  ultimately show ?thesis using sweep_visits_the_tree by blast
qed

definition demo_mount_ctx :: mount_ctx where
  "demo_mount_ctx = \<lparr> mc_path = [''m''], mc_folder = ''F'', mc_scope = None, mc_token = Some ''tok'',
     mc_backend = ''http://s'', mc_device_id = ''dev'' \<rparr>"

definition demo_deleted :: local_node where
  "demo_deleted = (demo_node ''n'' (Some ''r'') ''a.txt'' ''file'' 2) \<lparr> ln_deleted_at := Some ''t'' \<rparr>"

definition demo_recreated :: local_node where
  "demo_recreated = demo_node ''n2'' (Some ''r'') ''a.txt'' ''file'' 3"

definition recreated_world :: world where
  "recreated_world = demo_world (demo_db [demo_deleted, demo_recreated]) demo_fs"

lemma recreated_run:
  "mirror_wf (w_db recreated_world)"
  "find (\<lambda>n. ln_parent_id n = None) (load_nodes_by_id (w_db recreated_world) (mc_folder demo_mount_ctx)) =
     Some (demo_node ''r'' None ''root'' ''folder'' 1)"
  "fst (cleanup_deleted_mount_paths demo_mount_ctx recreated_world) = Inr ()"
  "load_nodes_by_id (w_db recreated_world) (mc_folder demo_mount_ctx) =
     [demo_node ''r'' None ''root'' ''folder'' 1, demo_deleted, demo_recreated]"
  "path_join (mc_path demo_mount_ctx) (ln_name demo_recreated) = [''m'', ''a.txt'']"
  "ln_node_id (demo_node ''r'' None ''root'' ''folder'' 1) = ''r''"
  by code_simp+

lemma recreated_rows:
  "\<not> live demo_deleted" "ln_parent_id demo_deleted = Some ''r''" "live demo_recreated"
  "ln_parent_id demo_recreated = Some ''r''" "ln_name demo_recreated = ln_name demo_deleted"
  by (simp_all add: demo_deleted_def demo_recreated_def demo_node_def)

theorem cleanup_removes_deleted_paths_only_witness:
  "snd (cleanup_deleted_mount_paths demo_mount_ctx recreated_world) = recreated_world
     \<lparr> w_fs := w_fs (snd (cleanup_deleted_mount_paths demo_mount_ctx recreated_world)) \<rparr>"
  using cleanup_removes_deleted_paths_only [OF recreated_run(1,2) surjective_pairing] by (rule conjunct1)

theorem cleanup_removes_a_recreated_file_witness:
  "\<not> path_exists (w_fs (snd (cleanup_deleted_mount_paths demo_mount_ctx recreated_world))) [''m'', ''a.txt'']"
proof -
  let ?nodes = "load_nodes_by_id (w_db recreated_world) (mc_folder demo_mount_ctx)"
  have top: "placed ?nodes (mc_path demo_mount_ctx) (ln_node_id (demo_node ''r'' None ''root'' ''folder'' 1)) ''r'' (mc_path demo_mount_ctx)"
    unfolding recreated_run(6) by (rule placed_seed)
  have rows: "demo_deleted \<in> set ?nodes" "demo_recreated \<in> set ?nodes" unfolding recreated_run(4) by simp_all
  show ?thesis
    using cleanup_removes_a_recreated_file [OF recreated_run(1,2) result_pair [OF recreated_run(3)] top
        rows(1) recreated_rows(1,2) rows(2) recreated_rows(3,4,5)]
    unfolding recreated_run(5) .
qed

definition materialize_env :: env where
  "materialize_env = demo_env (scripted
     [Reply 200 (BodyVersions [\<lparr> rv_version_id = ''v1'', rv_content_hash = ''h:h:abc'', rv_size_bytes = 3, rv_manifest = [demo_ref] \<rparr>]),
      Reply 200 (BodyBatch (demo_batch None (Some demo_action))), Reply 200 (BodyBytes ''abc'')])"

lemma unverified_version_changes_nothing_witness:
  "\<exists>err w'. materialize_version (demo_env (scripted [])) demo_mount_ctx ''n'' ''v1'' [''m'', ''b.txt''] idle_world = (Inl err, w') \<and>
     w_db w' = w_db idle_world \<and> w_fs w' = w_fs idle_world"
proof -
  let ?run = "download_verified_version (demo_env (scripted [])) demo_mount_ctx ''n'' ''v1'' idle_world"
  have "isl (fst ?run)" by code_simp
  then obtain err where "fst ?run = Inl err" by (cases "fst ?run") auto
  from unverified_version_changes_nothing [OF result_pair [OF this]] show ?thesis by blast
qed

definition demo_pulled :: "string \<Rightarrow> bool \<Rightarrow> pulled_node" where
  "demo_pulled actor conflict = \<lparr> pn_node_id = ''n'', pn_op_type = ''new_version'', pn_is_conflict_copy = conflict,
     pn_actor_device_id = actor, pn_applied_at = ''2026-01-02T00:00:00Z'', pn_old_name = None, pn_old_parent_id = None,
     pn_old_version_id = Some ''v1'', pn_new_name = ''gone.txt'', pn_new_parent_id = Some ''r'',
     pn_new_version_id = Some ''v2'', pn_node_type = ''file'' \<rparr>"

definition locally_deleted_world :: world where
  "locally_deleted_world = demo_world ((demo_db [demo_node ''n'' (Some ''r'') ''gone.txt'' ''file'' 2])
     \<lparr> db_versions := [\<lparr> vr_version = \<lparr> lv_version_id = ''v1'', lv_node_id = ''n'', lv_folder_id = ''F'', lv_content_hash = ''h'',
         lv_size_bytes = 3, lv_manifest = [demo_ref] \<rparr>, vr_materialized_at = Some ''t'' \<rparr>] \<rparr>) demo_fs"

theorem background_pull_keeps_local_deletions_witness:
  "apply_pulled_fs_change materialize_env demo_mount_ctx (db_nodes (w_db locally_deleted_world)) Background
     (demo_pulled ''other'' False) locally_deleted_world = (Inr (), locally_deleted_world)"
proof (rule background_pull_keeps_local_deletions)
  show "node_abs_path (db_nodes (w_db locally_deleted_world)) (mc_path demo_mount_ctx) (mc_scope demo_mount_ctx)
      (pn_node_id (demo_pulled ''other'' False)) = Inr (Some [''m'', ''gone.txt''])" by code_simp
  show "has_materialized_content_for_node (w_db locally_deleted_world) (pn_node_id (demo_pulled ''other'' False))" by code_simp
  show "\<not> path_exists (w_fs locally_deleted_world) [''m'', ''gone.txt'']" by code_simp
  have "pn_op_type (demo_pulled ''other'' False) = ''new_version''" "\<not> pn_is_conflict_copy (demo_pulled ''other'' False)"
    by code_simp+
  then show "(pn_op_type (demo_pulled ''other'' False) = ''create'' \<and> pn_node_type (demo_pulled ''other'' False) = ''file'') \<or>
     (pn_op_type (demo_pulled ''other'' False) = ''new_version'' \<and> \<not> pn_is_conflict_copy (demo_pulled ''other'' False))" by blast
qed

lemma own_conflict_copy_is_ignored_witness:
  "apply_pulled_fs_change materialize_env demo_mount_ctx [] Full (demo_pulled ''dev'' True) idle_world = (Inr (), idle_world)"
proof (rule own_conflict_copy_is_ignored)
  show "pn_op_type (demo_pulled ''dev'' True) = ''new_version''" "pn_is_conflict_copy (demo_pulled ''dev'' True)"
    "pn_actor_device_id (demo_pulled ''dev'' True) = mc_device_id demo_mount_ctx" by code_simp+
qed

section \<open>Atomic writes\<close>

lemma fs_treeI:
  assumes "list_all (\<lambda>e. fs_entry fs (butlast (fst e)) = Some Dir) (fs_nodes fs)"
  shows "fs_tree fs"
  unfolding fs_tree_def
proof (intro allI impI)
  fix q
  assume "fs_entry fs q \<noteq> None"
  then show "fs_entry fs (butlast q) = Some Dir"
    using assms by (cases "q = []") (auto simp: fs_entry_def list_all_iff dest!: map_of_SomeD)
qed

lemma unusedI: "list_all (\<lambda>e. c \<notin> set (fst e)) (fs_nodes fs) \<Longrightarrow> unused c fs"
  by (auto simp: unused_def fs_entry_def list_all_iff split: if_splits dest!: map_of_SomeD)

theorem materialized_content_is_verified_witness:
  "\<exists>v bytes d t. listed_version materialize_env demo_mount_ctx ''n'' ''v1'' idle_world v \<and>
     verified_content materialize_env v bytes \<and>
     fs_entry (w_fs (snd (materialize_version materialize_env demo_mount_ctx ''n'' ''v1'' [''m'', ''b.txt''] idle_world)))
       (d @ [''b.txt'']) = Some (File bytes t)"
proof -
  let ?p = "[''m'', ''b.txt'']"
  let ?run = "materialize_version materialize_env demo_mount_ctx ''n'' ''v1'' ?p idle_world"
  let ?c = "temp_name (last ?p) (env_uuid materialize_env (w_uuids idle_world))"
  have c: "?c = ''.b.txt.valv-tmp-id0''" by code_simp
  have 1: "fs_tree (w_fs idle_world)" by (rule fs_treeI) code_simp
  have 2: "unused ?c (w_fs idle_world)" by (rule unusedI) code_simp
  have 3: "?c \<notin> set ?p" "CHR ''/'' \<notin> set (last ?p)" "CHR ''/'' \<notin> set (env_uuid materialize_env (w_uuids idle_world))"
    by code_simp+
  have "\<not> isl (fst ?run)" "last ?p = ''b.txt''" by code_simp+
  then show ?thesis using materialized_content_is_verified [OF surjective_pairing 1 2 3] by metis
qed

theorem write_atomic_all_or_nothing_witness:
  "dirs_added (w_fs idle_world) (parents_made [''m'', ''new'', ''b.txt''] (w_fs idle_world))"
proof -
  let ?p = "[''m'', ''new'', ''b.txt'']"
  let ?c = "temp_name (last ?p) (env_uuid page_env (w_uuids idle_world))"
  have c: "?c = ''.b.txt.valv-tmp-id0''" by code_simp
  have 1: "fs_tree (w_fs idle_world)" by (rule fs_treeI) code_simp
  have 2: "unused ?c (w_fs idle_world)" by (rule unusedI) code_simp
  have 3: "?c \<notin> set ?p" "CHR ''/'' \<notin> set (last ?p)" "CHR ''/'' \<notin> set (env_uuid page_env (w_uuids idle_world))" by code_simp+
  show ?thesis using write_atomic_all_or_nothing [OF surjective_pairing 1 2 3] by (rule conjunct1)
qed

end
