(* ===== verification/Daemon_Props.thy ===== *)
theory Daemon_Props
  imports Sync_Loop Local_Push_Props
begin

text \<open>
  What the daemon keeps while it syncs: which fields of the listed mounts a pass leaves alone, the
  balance of \<open>active_syncs\<close>, the halt of a mount, the credentials and the backend's health, and the
  loop's invariants.
\<close>

section \<open>Fields a pass leaves alone\<close>

text \<open>\<open>keeps key\<close>: the listed mounts are the same up to fields that \<open>key\<close> does not read, and the running
  tasks are the same.\<close>

definition keeps :: "(mount_state \<Rightarrow> 'a) \<Rightarrow> daemon \<Rightarrow> daemon \<Rightarrow> bool" where
  "keeps key d d' = (map key (dm_mounts d') = map key (dm_mounts d) \<and> dm_tasks d' = dm_tasks d)"

interpretation keeps_frame: state_preorder "keeps key" for key
  by unfold_locales (simp_all add: keeps_def)

lemma update_first_keeps: "(\<And>m. key (f m) = key m) \<Longrightarrow> map key (update_first P f ms) = map key ms"
  by (induction ms) auto

lemma on_world_keeps [simp]: "obeys (keeps key) (on_world io)"
  by (auto simp: obeys_def on_world_def keeps_def split: prod.split)

lemma attempt_keeps: "obeys (keeps key) io \<Longrightarrow> obeys (keeps key) (attempt io)"
  unfolding attempt_def by (auto intro!: keeps_frame.obeys_rules)

lemma with_mount_keeps: "(\<And>m. key (f m) = key m) \<Longrightarrow> obeys (keeps key) (with_mount fid f)"
  by (simp add: obeys_def with_mount_def writes_def keeps_def update_first_keeps)

lemma through_arc_keeps: "(\<And>m. key (f m) = key m) \<Longrightarrow> obeys (keeps key) (through_arc m f)"
  by (simp add: obeys_def through_arc_def writes_def keeps_def update_rows_keys)

lemma with_halt_flag_keeps:
  "(\<And>m b. key (m \<lparr> ms_update_required_flag := b \<rparr>) = key m) \<Longrightarrow> obeys (keeps key) (with_halt_flag m run)"
  by (auto simp: obeys_def with_halt_flag_def keeps_def update_rows_keys split: prod.split)

lemma fields_keep [simp]:
  "obeys (keeps key) (record_success e)" "obeys (keeps key) (record_failure e)"
  "obeys (keeps key) pause_watchers" "obeys (keeps key) (resume_watchers_after_debounce b)"
  "obeys (keeps key) (wake_cursor_waiters m)" "obeys (keeps key) (folder_cursor m)"
proof -
  have w: "obeys (keeps key) (writes f)" if "\<And>d. dm_mounts (f d) = dm_mounts d" "\<And>d. dm_tasks (f d) = dm_tasks d" for f
    using that by (simp add: obeys_def writes_def keeps_def)
  have now: "obeys (keeps key) (current_unix_seconds e)"
    unfolding current_unix_seconds_def by (auto intro!: keeps_frame.obeys_rules)
  show "obeys (keeps key) (record_success e)" "obeys (keeps key) (record_failure e)"
    unfolding record_success_def record_failure_def by (auto intro!: keeps_frame.obeys_rules now w)
  show "obeys (keeps key) pause_watchers" by (simp add: obeys_def pause_watchers_def keeps_def)
  show "obeys (keeps key) (resume_watchers_after_debounce b)" "obeys (keeps key) (wake_cursor_waiters m)"
    unfolding resume_watchers_after_debounce_def wake_cursor_waiters_def by (auto intro!: keeps_frame.obeys_rules w)
  show "obeys (keeps key) (folder_cursor m)"
    unfolding folder_cursor_def by (rule keeps_frame.obeys_reads)
qed

text \<open>A field that only \<open>begin_mount_sync\<close> and \<open>end_mount_sync\<close> may write.\<close>

locale field_outside_pass =
  fixes key :: "mount_state \<Rightarrow> 'a"
  assumes key_rejected: "key (m \<lparr> ms_rejected := b \<rparr>) = key m"
    and key_error: "key (m \<lparr> ms_error := err \<rparr>) = key m"
    and key_pending: "key (m \<lparr> ms_pending_ops := i \<rparr>) = key m"
    and key_synced: "key (m \<lparr> ms_last_synced_at := t \<rparr>) = key m"
    and key_required: "key (m \<lparr> ms_update_required := b \<rparr>) = key m"
    and key_flag: "key (m \<lparr> ms_update_required_flag := b \<rparr>) = key m"
begin

lemmas key_simps = key_rejected key_error key_pending key_synced key_required key_flag

lemma set_rejected_keeps: "obeys (keeps key) (writes (set_rejected cfg b token))"
  by (simp add: obeys_def writes_def keeps_def set_rejected_def key_simps)

lemma note_sync_failure_keeps: "obeys (keeps key) (note_sync_failure e cfg m token err)"
  unfolding note_sync_failure_def mark_mount_update_required_def mark_credential_rejected_def
  by (auto intro!: keeps_frame.obeys_rules with_mount_keeps set_rejected_keeps simp: key_simps)

lemma apply_pull_keeps: "obeys (keeps key) (apply_pull e cfg m token pulled)"
  unfolding apply_pull_def clear_credential_rejected_def
  by (auto intro!: keeps_frame.obeys_rules attempt_keeps set_rejected_keeps)

lemma apply_full_keeps: "obeys (keeps key) (apply_full e cfg m token pulled)"
  unfolding apply_full_def clear_credential_rejected_def
  by (auto intro!: keeps_frame.obeys_rules attempt_keeps set_rejected_keeps)

lemma set_mount_pending_ops_keeps: "obeys (keeps key) (set_mount_pending_ops fid i)"
  unfolding set_mount_pending_ops_def by (intro with_mount_keeps) (simp add: key_simps)

end

text \<open>A field no pass writes.\<close>

locale field_outside_sync = field_outside_pass +
  assumes key_active: "key (m \<lparr> ms_active_syncs := i \<rparr>) = key m"
begin

lemma begin_keeps: "obeys (keeps key) (begin_mount_sync fid)"
  unfolding begin_mount_sync_def by (intro with_mount_keeps) (simp add: key_simps key_active)

lemma end_keeps: "obeys (keeps key) (end_mount_sync e fid error)"
  unfolding end_mount_sync_def Let_def
  by (intro keeps_frame.obeys_rules on_world_keeps with_mount_keeps) (simp add: key_simps key_active)

lemma finish_pass_keeps: "obeys (keeps key) (finish_pass e m before after ok error)"
  unfolding finish_pass_def by (auto intro!: keeps_frame.obeys_rules end_keeps)

lemma pull_mount_once_keeps: "obeys (keeps key) (pull_mount_once n e cfg m)"
  unfolding pull_mount_once_def
  by (auto intro!: keeps_frame.obeys_rules begin_keeps end_keeps finish_pass_keeps attempt_keeps apply_pull_keeps
      note_sync_failure_keeps split: option.split sum.split)

lemma finish_full_keeps: "obeys (keeps key) (finish_full e m before after forbidden error summary)"
  unfolding finish_full_def
  by (intro keeps_frame.obeys_try set_mount_pending_ops_keeps finish_pass_keeps keeps_frame.obeys_ret)

lemma pull_after_push_keeps: "obeys (keeps key) (pull_after_push n e cfg m token before forbidden summary)"
  unfolding pull_after_push_def
  by (auto intro!: keeps_frame.obeys_rules attempt_keeps apply_full_keeps note_sync_failure_keeps finish_full_keeps
      split: sum.split)

lemma full_sync_mount_keeps: "obeys (keeps key) (full_sync_mount k n e cfg m)"
  unfolding full_sync_mount_def clear_credential_rejected_def
  by (auto intro!: keeps_frame.obeys_rules begin_keeps end_keeps attempt_keeps set_mount_pending_ops_keeps
      pull_after_push_keeps note_sync_failure_keeps set_rejected_keeps with_halt_flag_keeps through_arc_keeps
      simp: key_simps split: option.split sum.split)

end

text \<open>What no pass writes: identity, credential, rights and the watcher's state.\<close>

definition mount_ident :: "mount_state \<Rightarrow> string \<times> string \<times> string option \<times> string option \<times> bool \<times> bool" where
  "mount_ident m = (ms_path m, ms_folder_id m, ms_scope_node_id m, ms_mount_token m, ms_can_write m, ms_watcher_alive m)"

definition sync_counter :: "mount_state \<Rightarrow> string \<times> 32 word" where
  "sync_counter m = (ms_folder_id m, ms_active_syncs m)"

interpretation mount_ident: field_outside_sync mount_ident
  by unfold_locales (simp_all add: mount_ident_def)

interpretation sync_counter: field_outside_pass sync_counter
  by unfold_locales (simp_all add: sync_counter_def)

section \<open>A pass swallows its errors\<close>

text \<open>The errors of a pass are recorded, not returned: only a pass that does not end has no result.\<close>

definition swallows :: "('s, 'a) comp \<Rightarrow> bool" where
  "swallows m = (\<forall>s err. fst (m s) = Inl err \<longrightarrow> err = ENoFuel)"

lemma swallows_try: "swallows m \<Longrightarrow> (\<And>x. swallows (f x)) \<Longrightarrow> swallows (try_op m f)"
  unfolding swallows_def try_op_def by (auto split: prod.splits sum.splits) (metis fst_conv)+

lemma swallows_basic:
  "swallows (ret x)" "swallows (reads g)" "swallows (writes h)" "swallows (fail ENoFuel)"
  by (simp_all add: swallows_def comp_defs)

lemma swallows_with_state: "(\<And>s. swallows (f s)) \<Longrightarrow> swallows (with_state f)"
  by (simp add: swallows_def with_state_def)

lemma swallows_attempt: "swallows (attempt m)"
  unfolding swallows_def attempt_def match_op_def
  by (auto simp: ret_def fail_def split: prod.splits sum.splits if_splits)

lemma swallows_tick: "swallows (on_world tick)"
  by (simp add: swallows_def on_world_def tick_def)

lemma swallows_for_each: "(\<And>x a. swallows (f x a)) \<Longrightarrow> swallows (for_each xs f acc)"
  by (induction xs arbitrary: acc) (auto intro: swallows_try swallows_basic)

lemmas swallows_rules = swallows_try swallows_basic swallows_with_state swallows_attempt swallows_tick swallows_for_each

lemma swallows_mounts:
  "swallows (with_mount fid f)" "swallows (through_arc m f)" "swallows pause_watchers" "swallows (folder_cursor m)"
  by (simp_all add: swallows_def with_mount_def through_arc_def pause_watchers_def folder_cursor_def comp_defs)

lemma swallows_steps [simp]:
  "swallows (record_success e)" "swallows (record_failure e)" "swallows (note_sync_failure e cfg m token err)"
  "swallows (begin_mount_sync fid)" "swallows (end_mount_sync e fid error)" "swallows (set_mount_pending_ops fid i)"
  "swallows (apply_pull e cfg m token pulled)" "swallows (apply_full e cfg m token pulled)"
  "swallows (clear_credential_rejected cfg token)"
  unfolding record_success_def record_failure_def current_unix_seconds_def note_sync_failure_def
    mark_mount_update_required_def mark_credential_rejected_def clear_credential_rejected_def begin_mount_sync_def
    end_mount_sync_def set_mount_pending_ops_def apply_pull_def apply_full_def resume_watchers_after_debounce_def
  by (auto intro!: swallows_rules swallows_mounts)

lemma finish_pass_swallows [simp]: "swallows (finish_pass e m before after ok error)"
  unfolding finish_pass_def wake_cursor_waiters_def by (auto intro!: swallows_rules)

lemma finish_full_swallows [simp]: "swallows (finish_full e m before after forbidden error summary)"
  unfolding finish_full_def by (auto intro!: swallows_rules)

lemma pull_mount_once_swallows [simp]: "swallows (pull_mount_once n e cfg m)"
  unfolding pull_mount_once_def
  by (auto intro!: swallows_rules swallows_mounts split: option.split sum.split)

lemma pull_after_push_swallows [simp]: "swallows (pull_after_push n e cfg m token before forbidden summary)"
  unfolding pull_after_push_def by (auto intro!: swallows_rules split: sum.split)

lemma full_sync_mount_swallows [simp]: "swallows (full_sync_mount k n e cfg m)"
  unfolding full_sync_mount_def
  by (auto intro!: swallows_rules swallows_mounts split: option.split sum.split)

section \<open>The number of active syncs\<close>

definition counters :: "daemon \<Rightarrow> (string \<times> 32 word) list" where
  "counters d = map sync_counter (dm_mounts d)"

definition bump :: "(32 word \<Rightarrow> 32 word) \<Rightarrow> string \<Rightarrow> (string \<times> 32 word) list \<Rightarrow> (string \<times> 32 word) list" where
  "bump f fid = update_first (\<lambda>c. fst c = fid) (\<lambda>c. (fst c, f (snd c)))"

lemma bump_counters:
  assumes "\<And>m. sync_counter (g m) = (ms_folder_id m, f (ms_active_syncs m))"
  shows "map sync_counter (update_first (\<lambda>m. ms_folder_id m = fid) g ms) = bump f fid (map sync_counter ms)"
proof (induction ms)
  case (Cons a ms)
  have "fst (sync_counter a) = ms_folder_id a" "snd (sync_counter a) = ms_active_syncs a"
    by (simp_all add: sync_counter_def)
  then show ?case using Cons assms [of a] by (simp add: bump_def)
qed (simp add: bump_def)

lemma bump_back:
  assumes "\<And>c. c \<in> set cs \<Longrightarrow> snd c \<noteq> - 1"
  shows "bump saturating_pred fid (bump saturating_succ fid cs) = cs"
proof -
  have "saturating_pred (saturating_succ w) = w" if "w \<noteq> - 1" for w
    using that by (auto simp: saturating_pred_def saturating_succ_def) (metis add_eq_0_iff2)
  then show ?thesis using assms unfolding bump_def by (induction cs) auto
qed

text \<open>A computation that counts the end of one sync of the folder.\<close>

definition closes :: "string \<Rightarrow> 'a dio \<Rightarrow> bool" where
  "closes fid m = (\<forall>d x d'. m d = (Inr x, d') \<longrightarrow> counters d' = bump saturating_pred fid (counters d))"

lemma closes_after: "obeys (keeps sync_counter) m \<Longrightarrow> (\<And>x. closes fid (f x)) \<Longrightarrow> closes fid (try_op m f)"
  unfolding closes_def counters_def by (fastforce elim!: try_op_InrE dest: obeys_run simp: keeps_def)

lemma closes_before: "closes fid m \<Longrightarrow> (\<And>x. obeys (keeps sync_counter) (f x)) \<Longrightarrow> closes fid (try_op m f)"
  unfolding closes_def counters_def by (fastforce elim!: try_op_InrE dest: obeys_run simp: keeps_def)

lemma closes_end: "closes fid (end_mount_sync e fid error)"
  unfolding closes_def end_mount_sync_def counters_def
  by (auto elim!: try_op_InrE simp: on_world_def tick_def with_mount_def writes_def Let_def
      intro!: bump_counters simp: sync_counter_def)

lemma closes_finish_pass: "closes (ms_folder_id m) (finish_pass e m before after ok error)"
  unfolding finish_pass_def by (auto intro!: closes_before closes_end keeps_frame.obeys_rules)

lemma closes_finish_full: "closes (ms_folder_id m) (finish_full e m before after forbidden error summary)"
  unfolding finish_full_def
  by (intro closes_after sync_counter.set_mount_pending_ops_keeps closes_before closes_finish_pass
      keeps_frame.obeys_ret)

lemma closes_pull_after_push: "closes (ms_folder_id m) (pull_after_push n e cfg m token before forbidden summary)"
  unfolding pull_after_push_def
  by (auto intro!: closes_after closes_finish_full attempt_keeps sync_counter.apply_full_keeps
      sync_counter.note_sync_failure_keeps split: sum.split)

lemma begin_counters:
  assumes "try_op (begin_mount_sync fid) f d = (Inr x, d')" "\<And>u. closes fid (f u)"
    "\<And>r. r \<in> set (dm_mounts d) \<Longrightarrow> ms_active_syncs r \<noteq> - 1"
  shows "counters d' = counters d"
proof -
  obtain u d1 where b: "begin_mount_sync fid d = (Inr u, d1)" and f: "f u d1 = (Inr x, d')"
    using assms(1) by (rule try_op_InrE)
  have "counters d1 = bump saturating_succ fid (counters d)"
    using b unfolding begin_mount_sync_def with_mount_def writes_def counters_def
    by (auto intro!: bump_counters simp: sync_counter_def)
  moreover have "counters d' = bump saturating_pred fid (counters d1)"
    using f assms(2) unfolding closes_def by blast
  moreover have "snd c \<noteq> - 1" if "c \<in> set (counters d)" for c
    using that assms(3) by (auto simp: counters_def sync_counter_def)
  ultimately show ?thesis using bump_back by simp
qed

end
