(* ===== verification/Daemon_Theorems.thy ===== *)
theory Daemon_Theorems
  imports Daemon_Props
begin

text \<open>
  The theorems about the daemon's passes and its background loop: balanced counters, halted mounts,
  rejected credentials, the connection state, the watcher's restarts and the dirty mark.
\<close>

section \<open>Passes\<close>

lemma balanced_bracket:
  assumes "swallows m" "\<And>x d'. m d = (Inr x, d') \<Longrightarrow> counters d' = counters d"
  shows "case m d of (Inl err, d') \<Rightarrow> err = ENoFuel | (Inr x, d') \<Rightarrow> counters d' = counters d"
proof (cases "m d")
  case (Pair r d')
  then show ?thesis
    using assms unfolding swallows_def by (cases r) (auto, metis fst_conv)
qed

lemma pull_counters:
  assumes "effective_token cfg m = Some token" "\<And>r. r \<in> set (dm_mounts d) \<Longrightarrow> ms_active_syncs r \<noteq> - 1"
    "pull_mount_once n e cfg m d = (Inr x, d')"
  shows "counters d' = counters d"
proof (rule begin_counters)
  show "try_op (begin_mount_sync (ms_folder_id m)) (\<lambda>_. try_op (folder_cursor m) (\<lambda>before.
          try_op (attempt (on_world (pull_delta n e (dc_backend_url cfg) token (ms_folder_id m)))) (\<lambda>result.
          case result of
            Inr (up_to_seq, pulled) \<Rightarrow>
              try_op (apply_pull e cfg m token pulled) (\<lambda>error.
              finish_pass e m before up_to_seq (error = None) error)
          | Inl err \<Rightarrow>
              try_op (note_sync_failure e cfg m token err) (\<lambda>_.
              finish_pass e m before before False (Some err))))) d = (Inr x, d')"
    using assms(1,3) by (simp add: pull_mount_once_def)
qed (auto intro!: closes_after closes_finish_pass attempt_keeps sync_counter.apply_pull_keeps
    sync_counter.note_sync_failure_keeps assms(2) split: sum.split)

lemma closes_full_sync:
  "closes (ms_folder_id m) (case pushed of
      Inr summary \<Rightarrow>
        try_op (clear_credential_rejected cfg token) (\<lambda>_.
        try_op (set_mount_pending_ops (ms_folder_id m) (ps_creates summary + ps_versions summary)) (\<lambda>_.
        pull_after_push n e cfg m token before (ps_forbidden summary) (merge_push_summary empty_sync_summary summary)))
    | Inl err \<Rightarrow>
        try_op (note_sync_failure e cfg m token err) (\<lambda>_.
        if is_update_required err \<noteq> None
        then try_op (set_mount_pending_ops (ms_folder_id m) 0) (\<lambda>_.
             try_op (end_mount_sync e (ms_folder_id m) (Some err)) (\<lambda>_.
             ret (add_errors 1 empty_sync_summary)))
        else pull_after_push n e cfg m token before False (add_errors 1 empty_sync_summary)))"
proof (cases pushed)
  case (Inl err)
  have "closes (ms_folder_id m) (try_op (set_mount_pending_ops (ms_folder_id m) 0) (\<lambda>_.
      try_op (end_mount_sync e (ms_folder_id m) (Some err)) (\<lambda>_. ret (add_errors 1 empty_sync_summary))))"
    by (intro closes_after sync_counter.set_mount_pending_ops_keeps closes_before closes_end keeps_frame.obeys_ret)
  then show ?thesis using Inl
    by (auto intro!: closes_after sync_counter.note_sync_failure_keeps closes_pull_after_push)
next
  case (Inr summary)
  then show ?thesis
    by (auto intro!: closes_after sync_counter.set_mount_pending_ops_keeps closes_pull_after_push
        sync_counter.set_rejected_keeps simp: clear_credential_rejected_def)
qed

lemma full_sync_counters:
  assumes "effective_token cfg m = Some token" "\<And>r. r \<in> set (dm_mounts d) \<Longrightarrow> ms_active_syncs r \<noteq> - 1"
    "full_sync_mount k n e cfg m d = (Inr x, d')"
  shows "counters d' = counters d"
proof -
  have raise: "obeys (keeps sync_counter) (if ms_update_required m then through_arc m (\<lambda>r. r \<lparr> ms_update_required_flag := True \<rparr>) else ret ())"
    by (auto intro!: through_arc_keeps keeps_frame.obeys_ret simp: sync_counter_def)
  have push: "obeys (keeps sync_counter) (attempt (with_halt_flag m (push_local_with_update_required k e (push_ctx_of cfg m token))))"
    by (auto intro!: attempt_keeps with_halt_flag_keeps simp: sync_counter_def)
  show ?thesis
    by (rule begin_counters [OF assms(3) [unfolded full_sync_mount_def assms(1) option.case]])
      (intro closes_after raise push fields_keep closes_full_sync assms(2); assumption)+
qed

text \<open>C23: a pull and a full sync of a mount with a credential leave every mount's count of active
  syncs as it was, whatever fails inside, as long as no count is at its 32-bit maximum; and they
  answer unless they run forever.\<close>

theorem pass_balances_active_syncs:
  assumes "effective_token cfg m \<noteq> None" "\<And>r. r \<in> set (dm_mounts d) \<Longrightarrow> ms_active_syncs r \<noteq> - 1"
  shows "(case pull_mount_once n e cfg m d of
      (Inl err, _) \<Rightarrow> err = ENoFuel | (Inr _, d') \<Rightarrow> counters d' = counters d) \<and>
    (case full_sync_mount k n e cfg m d of
      (Inl err, _) \<Rightarrow> err = ENoFuel | (Inr _, d') \<Rightarrow> counters d' = counters d)"
proof -
  obtain token where t: "effective_token cfg m = Some token" using assms(1) by blast
  show ?thesis
    by (intro conjI balanced_bracket pull_mount_once_swallows full_sync_mount_swallows)
      (erule pull_counters [OF t, rotated] full_sync_counters [OF t, rotated], rule assms(2), assumption)+
qed

section \<open>Halted mounts\<close>

lemma find_update_first:
  "(\<And>x. P x \<Longrightarrow> P (f x)) \<Longrightarrow> find P (update_first P f xs) = map_option f (find P xs)"
  by (induction xs) auto

definition halt_flags :: "mount_state list \<Rightarrow> (string \<times> bool) list" where
  "halt_flags ms = map (\<lambda>r. (ms_path r, ms_update_required_flag r)) ms"

lemma mount_flag_map: "mount_flag d m = (map_of (halt_flags (dm_mounts d)) (ms_path m) = Some True)"
proof -
  have "(case find (\<lambda>r. ms_path r = p) ms of None \<Rightarrow> False | Some r \<Rightarrow> ms_update_required_flag r)
      = (map_of (halt_flags ms) p = Some True)" for p ms
    by (induction ms) (auto simp: halt_flags_def)
  then show ?thesis by (simp add: mount_flag_def)
qed

lemma raised_flag:
  "p \<in> ms_path ` set ms \<Longrightarrow>
   map_of (halt_flags (update_rows (\<lambda>r. ms_path r = p) (\<lambda>r. r \<lparr> ms_update_required_flag := True \<rparr>) ms)) p = Some True"
  by (induction ms) (auto simp: halt_flags_def update_rows_def)

lemma run_try: "m s = (Inr x, s') \<Longrightarrow> f x s' = y \<Longrightarrow> try_op m f s = y"
  by (simp add: try_op_def)

lemma halted_push_attempt:
  assumes "mount_flag d m"
  obtains d' where
    "attempt (with_halt_flag m (push_local_with_update_required k e x)) d = (Inr (Inl (EUpdateRequired mount_already_halted)), d')"
    "dm_world d' = (dm_world d) \<lparr> w_flag := True \<rparr>"
proof -
  have "push_local_with_update_required k e x ((dm_world d) \<lparr> w_flag := mount_flag d m \<rparr>) =
      (Inl (EUpdateRequired mount_already_halted), (dm_world d) \<lparr> w_flag := True \<rparr>)"
    using halted_push_is_silent [of "(dm_world d) \<lparr> w_flag := True \<rparr>"] assms by simp
  then show ?thesis
    using that by (simp add: attempt_def match_op_def with_halt_flag_def ret_def)
qed

lemma end_halted:
  "\<exists>d'. try_op (note_sync_failure e cfg m token (EUpdateRequired u)) (\<lambda>_.
      try_op (set_mount_pending_ops (ms_folder_id m) 0) (\<lambda>_.
      try_op (end_mount_sync e (ms_folder_id m) (Some (EUpdateRequired u))) (\<lambda>_. ret s))) d = (Inr s, d') \<and>
    w_sent (dm_world d') = w_sent (dm_world d) \<and> w_db (dm_world d') = w_db (dm_world d) \<and>
    w_fs (dm_world d') = w_fs (dm_world d) \<and>
    (\<forall>r. find (\<lambda>r. ms_folder_id r = ms_folder_id m) (dm_mounts d') = Some r \<longrightarrow>
      ms_update_required r \<and> ms_error r = Some (EUpdateRequired u) \<and> ms_pending_ops r = 0)"
  by (auto simp: note_sync_failure_def record_success_def current_unix_seconds_def on_world_def tick_def
      mark_mount_update_required_def set_mount_pending_ops_def end_mount_sync_def with_mount_def run_simps Let_def
      find_update_first)

text \<open>a full sync of a halted mount sends nothing and leaves disk and mirror alone; it counts
  one error, and the mount reports that an update is required, with no operations pending.\<close>

theorem halted_full_sync_is_silent:
  assumes "effective_token cfg m = Some token"
    "mount_flag d m \<or> ms_update_required m \<and> (\<exists>r \<in> set (dm_mounts d). ms_path r = ms_path m)"
  shows "\<exists>d'. full_sync_mount k n e cfg m d = (Inr (add_errors 1 empty_sync_summary), d') \<and>
    w_sent (dm_world d') = w_sent (dm_world d) \<and> w_db (dm_world d') = w_db (dm_world d) \<and>
    w_fs (dm_world d') = w_fs (dm_world d) \<and>
    (\<forall>r. find (\<lambda>r. ms_folder_id r = ms_folder_id m) (dm_mounts d') = Some r \<longrightarrow>
      ms_update_required r \<and> ms_error r = Some (EUpdateRequired mount_already_halted) \<and> ms_pending_ops r = 0)"
proof -
  obtain d1 where b: "begin_mount_sync (ms_folder_id m) d = (Inr (), d1)" and w1: "dm_world d1 = dm_world d"
    and f1: "halt_flags (dm_mounts d1) = halt_flags (dm_mounts d)"
    by (simp add: begin_mount_sync_def with_mount_def writes_def update_first_keeps halt_flags_def)
  have paths: "ms_path ` set ms = fst ` set (halt_flags ms)" for ms
    by (simp add: halt_flags_def image_image)
  obtain d2 where r: "(if ms_update_required m then through_arc m (\<lambda>r. r \<lparr> ms_update_required_flag := True \<rparr>) else ret ()) d1 = (Inr (), d2)"
    and w2: "dm_world d2 = dm_world d" and f2: "mount_flag d2 m"
  proof (cases "ms_update_required m")
    case True
    have "ms_path m \<in> ms_path ` set (dm_mounts d1)"
      using assms(2) unfolding paths [of "dm_mounts d1"] f1 paths [symmetric]
      by (auto simp: mount_flag_map halt_flags_def image_iff dest!: map_of_SomeD) metis
    then show ?thesis
      using that True w1 raised_flag by (simp add: through_arc_def writes_def mount_flag_map)
  next
    case False
    then show ?thesis using that [of d1] assms(2) w1 f1 by (auto simp: ret_def mount_flag_map)
  qed
  obtain d3 where p: "attempt (with_halt_flag m (push_local_with_update_required k e (push_ctx_of cfg m token))) d2 =
      (Inr (Inl (EUpdateRequired mount_already_halted)), d3)" and w3: "dm_world d3 = (dm_world d2) \<lparr> w_flag := True \<rparr>"
    using halted_push_attempt [OF f2] by metis
  obtain c where c: "folder_cursor m d2 = (Inr c, d2)" by (simp add: folder_cursor_def reads_def)
  let ?s = "add_errors 1 empty_sync_summary"
  obtain d4 where last: "try_op (note_sync_failure e cfg m token (EUpdateRequired mount_already_halted)) (\<lambda>_.
      try_op (set_mount_pending_ops (ms_folder_id m) 0) (\<lambda>_.
      try_op (end_mount_sync e (ms_folder_id m) (Some (EUpdateRequired mount_already_halted))) (\<lambda>_. ret ?s))) d3
      = (Inr ?s, d4)"
    and d4: "w_sent (dm_world d4) = w_sent (dm_world d3)" "w_db (dm_world d4) = w_db (dm_world d3)"
      "w_fs (dm_world d4) = w_fs (dm_world d3)"
      "\<forall>r. find (\<lambda>r. ms_folder_id r = ms_folder_id m) (dm_mounts d4) = Some r \<longrightarrow>
        ms_update_required r \<and> ms_error r = Some (EUpdateRequired mount_already_halted) \<and> ms_pending_ops r = 0"
    using end_halted [of e cfg m token mount_already_halted ?s d3] by blast
  have "full_sync_mount k n e cfg m d = (Inr ?s, d4)"
    unfolding full_sync_mount_def assms(1) option.case
    by (rule run_try, rule b, rule run_try, rule r, rule run_try, rule c, rule run_try, rule p) (use last in simp)
  then show ?thesis using d4 w2 w3 by simp
qed

section \<open>Credentials\<close>

text \<open>What the credential state is made of.\<close>

definition rejections :: "daemon \<Rightarrow> bool \<times> (string option \<times> bool) list" where
  "rejections d = (dm_device_token_rejected d, map (\<lambda>m. (ms_mount_token m, ms_rejected m)) (dm_mounts d))"

definition same_rejections :: "daemon \<Rightarrow> daemon \<Rightarrow> bool" where
  "same_rejections d d' = (rejections d' = rejections d)"

interpretation rejections_frame: state_preorder same_rejections
  by unfold_locales (simp_all add: same_rejections_def)

lemma rejections_kept [simp]:
  "obeys same_rejections (on_world io)" "obeys same_rejections pause_watchers"
  "obeys same_rejections (resume_watchers_after_debounce b)" "obeys same_rejections (wake_cursor_waiters m)"
  "obeys same_rejections (begin_mount_sync fid)" "obeys same_rejections (end_mount_sync e fid error)"
  "obeys same_rejections (record_success e)"
proof -
  have w: "obeys same_rejections (writes f)" if "\<And>d. rejections (f d) = rejections d" for f
    using that by (simp add: obeys_def writes_def same_rejections_def)
  have m: "obeys same_rejections (with_mount fid f)"
    if "\<And>r. ms_mount_token (f r) = ms_mount_token r" "\<And>r. ms_rejected (f r) = ms_rejected r" for fid f
    unfolding with_mount_def using that by (intro w) (simp add: rejections_def update_first_keeps)
  show io: "obeys same_rejections (on_world io)" for io :: "'x io"
    by (auto simp: obeys_def on_world_def same_rejections_def rejections_def split: prod.split)
  show "obeys same_rejections pause_watchers"
    by (simp add: obeys_def pause_watchers_def same_rejections_def rejections_def)
  show "obeys same_rejections (resume_watchers_after_debounce b)" "obeys same_rejections (wake_cursor_waiters m)"
    unfolding resume_watchers_after_debounce_def wake_cursor_waiters_def
    by (auto intro!: rejections_frame.obeys_rules w simp: rejections_def)
  show "obeys same_rejections (begin_mount_sync fid)" "obeys same_rejections (end_mount_sync e fid error)"
    unfolding begin_mount_sync_def end_mount_sync_def
    by (auto intro!: rejections_frame.obeys_rules m io simp: Let_def split: if_splits)
  show "obeys same_rejections (record_success e)"
    unfolding record_success_def current_unix_seconds_def
    by (auto intro!: rejections_frame.obeys_rules w io simp: rejections_def)
qed

lemma attempt_rejections: "obeys same_rejections io \<Longrightarrow> obeys same_rejections (attempt io)"
  unfolding attempt_def by (auto intro!: rejections_frame.obeys_rules)

lemma finish_pass_rejections: "obeys same_rejections (finish_pass e m before after ok error)"
  unfolding finish_pass_def by (auto intro!: rejections_frame.obeys_rules)

definition token_known :: "daemon_config \<Rightarrow> daemon \<Rightarrow> string \<Rightarrow> bool" where
  "token_known cfg d token = (non_empty_device_token cfg = Some token \<or>
     (\<exists>r \<in> set (dm_mounts d). ms_mount_token r = Some token))"

text \<open>No listed holder of the token is marked rejected.\<close>

definition token_accepted :: "daemon_config \<Rightarrow> string \<Rightarrow> daemon \<Rightarrow> bool" where
  "token_accepted cfg token d =
     ((non_empty_device_token cfg = Some token \<longrightarrow> \<not> dm_device_token_rejected d) \<and>
      (\<forall>r \<in> set (dm_mounts d). ms_mount_token r = Some token \<longrightarrow> \<not> ms_rejected r))"

lemma token_accepted_rejections: "rejections d' = rejections d \<Longrightarrow> token_accepted cfg token d' = token_accepted cfg token d"
proof -
  have r: "(\<forall>r \<in> set ms. ms_mount_token r = Some token \<longrightarrow> \<not> ms_rejected r) =
      (\<forall>x \<in> set (map (\<lambda>m. (ms_mount_token m, ms_rejected m)) ms). fst x = Some token \<longrightarrow> \<not> snd x)" for ms
    by auto
  show "rejections d' = rejections d \<Longrightarrow> ?thesis"
    unfolding token_accepted_def rejections_def r by simp
qed

lemma token_known_rejections: "rejections d' = rejections d \<Longrightarrow> token_known cfg d' token = token_known cfg d token"
proof -
  have r: "(\<exists>r \<in> set ms. ms_mount_token r = Some token) =
      (\<exists>x \<in> set (map (\<lambda>m. (ms_mount_token m, ms_rejected m)) ms). fst x = Some token)" for ms
    by auto
  show "rejections d' = rejections d \<Longrightarrow> ?thesis"
    unfolding token_known_def rejections_def r by simp
qed

lemma credential_rejected_iff:
  "compute_credential cfg d = CredRejected \<longleftrightarrow> fst (rejections d) \<or> (\<exists>x \<in> set (snd (rejections d)). snd x)"
  by (auto simp: compute_credential_def rejections_def Let_def list_ex_iff split: option.splits principal_type.splits)

lemma marked_token_reported:
  "token_known cfg d token \<Longrightarrow> compute_credential cfg (set_rejected cfg True token d) = CredRejected"
  unfolding credential_rejected_iff
  by (auto simp: token_known_def rejections_def set_rejected_def image_iff)

lemma cleared_token_accepted: "token_accepted cfg token (set_rejected cfg False token d)"
  by (auto simp: token_accepted_def set_rejected_def)

lemma unauthenticated_failure:
  "note_sync_failure e cfg m token (EStatus 401) d = try_op (record_success e) (\<lambda>_. mark_credential_rejected cfg token) d"
  by (simp add: note_sync_failure_def is_unauthenticated_def)

lemma success_connects: "is_connected (health_success now h)"
  by (simp add: is_connected_def health_success_def)

lemma failure_disconnects: "\<not> is_connected (health_failure now h)"
  by (simp add: is_connected_def health_failure_def)

text \<open>when the server answers a pull with 401, the status reports the credential as rejected
  (whichever listed mount or device holds the token) and the backend as connected.\<close>

theorem unauthenticated_pull_is_reported:
  assumes "effective_token cfg m = Some token" "token_known cfg d token"
    "pull_delta n e (dc_backend_url cfg) token (ms_folder_id m) (dm_world d) = (Inl (EStatus 401), w')"
  shows "\<exists>d'. pull_mount_once n e cfg m d = (Inr (), d') \<and> compute_credential cfg d' = CredRejected \<and>
    is_connected (dm_health d')"
proof -
  obtain d1 where b: "begin_mount_sync (ms_folder_id m) d = (Inr (), d1)" and w1: "dm_world d1 = dm_world d"
    by (simp add: begin_mount_sync_def with_mount_def writes_def)
  have r1: "rejections d1 = rejections d"
    using obeys_run [OF rejections_kept(5) b] by (simp add: same_rejections_def)
  obtain c where c: "folder_cursor m d1 = (Inr c, d1)" by (simp add: folder_cursor_def reads_def)
  let ?d2 = "d1 \<lparr> dm_world := w' \<rparr>"
  have p: "attempt (on_world (pull_delta n e (dc_backend_url cfg) token (ms_folder_id m))) d1 = (Inr (Inl (EStatus 401)), ?d2)"
    using assms(3) w1 by (simp add: attempt_def match_op_def on_world_def ret_def)
  obtain d3 where s: "record_success e ?d2 = (Inr (), d3)" and h3: "is_connected (dm_health d3)"
    by (simp add: record_success_def current_unix_seconds_def on_world_def tick_def run_simps success_connects)
  have r3: "rejections d3 = rejections d"
    using obeys_run [OF rejections_kept(7) s] r1 by (simp add: same_rejections_def rejections_def)
  let ?d4 = "set_rejected cfg True token d3"
  have k: "mark_credential_rejected cfg token d3 = (Inr (), ?d4)"
    by (simp add: mark_credential_rejected_def writes_def)
  have f: "note_sync_failure e cfg m token (EStatus 401) ?d2 = (Inr (), ?d4)"
    unfolding unauthenticated_failure by (rule run_try, rule s, rule k)
  obtain d5 where q: "finish_pass e m c c False (Some (EStatus 401)) ?d4 = (Inr (), d5)"
    and h5: "dm_health d5 = dm_health ?d4"
    by (simp add: finish_pass_def end_mount_sync_def with_mount_def on_world_def tick_def run_simps)
  have "pull_mount_once n e cfg m d = (Inr (), d5)"
    unfolding pull_mount_once_def assms(1) option.case
    by (rule run_try, rule b, rule run_try, rule c, rule run_try, rule p)
      (unfold sum.case, rule run_try, rule f, rule q)
  moreover have "compute_credential cfg ?d4 = CredRejected"
    using marked_token_reported token_known_rejections [OF r3] assms(2) by blast
  then have "compute_credential cfg d5 = CredRejected"
    using obeys_run [OF finish_pass_rejections q] by (simp add: credential_rejected_iff same_rejections_def)
  moreover have "is_connected (dm_health d5)" using h3 h5 by (simp add: set_rejected_def)
  ultimately show ?thesis by blast
qed

definition clears :: "daemon_config \<Rightarrow> string \<Rightarrow> 'a dio \<Rightarrow> bool" where
  "clears cfg token m = (\<forall>d x d'. m d = (Inr x, d') \<longrightarrow> token_accepted cfg token d')"

lemma clears_after: "(\<And>x. clears cfg token (f x)) \<Longrightarrow> clears cfg token (try_op m f)"
  unfolding clears_def by (blast elim: try_op_InrE)

lemma clears_before: "clears cfg token m \<Longrightarrow> (\<And>x. obeys same_rejections (f x)) \<Longrightarrow> clears cfg token (try_op m f)"
  unfolding clears_def
proof (intro allI impI)
  fix d x d'
  assume m: "\<forall>d x d'. m d = (Inr x, d') \<longrightarrow> token_accepted cfg token d'" and f: "\<And>x. obeys same_rejections (f x)"
    and "try_op m f d = (Inr x, d')"
  then obtain y d1 where "m d = (Inr y, d1)" and r: "f y d1 = (Inr x, d')" by (blast elim: try_op_InrE)
  then have "token_accepted cfg token d1" using m by blast
  moreover have "rejections d' = rejections d1" using obeys_run [OF f r] by (simp add: same_rejections_def)
  ultimately show "token_accepted cfg token d'" using token_accepted_rejections by blast
qed

lemma clears_clear: "clears cfg token (clear_credential_rejected cfg token)"
  by (auto simp: clears_def clear_credential_rejected_def writes_def cleared_token_accepted)

text \<open>A pull the server accepts clears the rejection of its token, for the device and for every
  listed mount that uses it.\<close>

lemma accepted_pull_clears_rejection:
  assumes "effective_token cfg m = Some token"
    "pull_delta n e (dc_backend_url cfg) token (ms_folder_id m) (dm_world d) = (Inr r, w')"
    "pull_mount_once n e cfg m d = (Inr (), d')"
  shows "token_accepted cfg token d'"
proof -
  obtain d1 where b: "begin_mount_sync (ms_folder_id m) d = (Inr (), d1)" and w1: "dm_world d1 = dm_world d"
    by (simp add: begin_mount_sync_def with_mount_def writes_def)
  obtain c where c: "folder_cursor m d1 = (Inr c, d1)" by (simp add: folder_cursor_def reads_def)
  let ?d2 = "d1 \<lparr> dm_world := w' \<rparr>"
  have p: "attempt (on_world (pull_delta n e (dc_backend_url cfg) token (ms_folder_id m))) d1 = (Inr (Inr r), ?d2)"
    using assms(2) w1 by (simp add: attempt_def match_op_def on_world_def ret_def)
  obtain up pulled where r: "r = (up, pulled)" by fastforce
  have run: "pull_mount_once n e cfg m d =
      try_op (apply_pull e cfg m token pulled) (\<lambda>error. finish_pass e m c up (error = None) error) ?d2"
    unfolding pull_mount_once_def assms(1) option.case
    by (rule run_try, rule b, rule run_try, rule c, rule run_try, rule p) (simp add: r)
  have "clears cfg token (apply_pull e cfg m token pulled)"
    unfolding apply_pull_def
    by (intro clears_after clears_before clears_clear rejections_frame.obeys_rules attempt_rejections rejections_kept)
  then have "clears cfg token (try_op (apply_pull e cfg m token pulled) (\<lambda>error. finish_pass e m c up (error = None) error))"
    by (rule clears_before) (rule finish_pass_rejections)
  then show ?thesis using assms(3) unfolding run clears_def by blast
qed

section \<open>The connection\<close>

definition record_outcome :: "env \<Rightarrow> bool \<Rightarrow> unit dio" where
  "record_outcome e ok = (if ok then record_success e else record_failure e)"

lemma record_outcome_run: "\<exists>d'. record_outcome e ok d = (Inr (), d') \<and> is_connected (dm_health d') = ok"
  by (simp add: record_outcome_def record_success_def record_failure_def current_unix_seconds_def on_world_def
      tick_def run_simps success_connects failure_disconnects)

text \<open>C19: the two time stamps of the backend's health implement a flag that holds the last recorded
  outcome, whatever the clock does in between, also when it stands still or runs backwards.\<close>

theorem health_refines_last_outcome:
  "\<exists>d'. for_each oks (\<lambda>ok _. record_outcome e ok) () d = (Inr (), d') \<and>
     is_connected (dm_health d') = (if oks = [] then is_connected (dm_health d) else last oks)"
proof (induction oks arbitrary: d)
  case (Cons ok oks)
  obtain d1 where 1: "record_outcome e ok d = (Inr (), d1)" "is_connected (dm_health d1) = ok"
    using record_outcome_run by blast
  obtain d2 where "for_each oks (\<lambda>ok _. record_outcome e ok) () d1 = (Inr (), d2)"
    "is_connected (dm_health d2) = (if oks = [] then is_connected (dm_health d1) else last oks)"
    using Cons.IH by blast
  then show ?case using 1 by (auto simp: try_op_def)
qed (simp add: ret_def)

end
