(* ===== verification/Sync_Loop_Props.thy ===== *)
theory Sync_Loop_Props
  imports Daemon_Props
begin

text \<open>
  Invariants of a mount's background loop: the loop holds a watcher or has a restart scheduled, the
  backoff is bounded, the reported liveness is true but for the time between a watcher's death and the
  step of the loop that handles it, and a dirty mark is only cleared by a full sync.
\<close>

section \<open>What a wake may change of the task\<close>

lemma reconcile_result:
  assumes "reconcile_if_dirty k n e cfg m otherwise t d = (Inr t', d')"
  shows "t' = t \<or> sl_dirty t \<and> t' = t \<lparr> sl_dirty := False \<rparr>"
  using assms by (auto simp: reconcile_if_dirty_def ret_def elim!: try_op_InrE split: if_splits)

lemma periodic_result:
  assumes "periodic_wake k n e cfg m t d = (Inr t', d')"
  shows "t' = t \<or> sl_dirty t \<and> t' = t \<lparr> sl_dirty := False \<rparr>"
  using assms reconcile_result by (auto simp: periodic_wake_def with_state_def ret_def split: if_splits)

lemma reconcile_keeps:
  "obeys (keeps mount_ident) otherwise \<Longrightarrow> obeys (keeps mount_ident) (reconcile_if_dirty k n e cfg m otherwise t)"
  unfolding reconcile_if_dirty_def by (auto intro!: keeps_frame.obeys_rules mount_ident.full_sync_mount_keeps)

lemma wakes_keep [simp]:
  "obeys (keeps mount_ident) (periodic_wake k n e cfg m t)" "obeys (keeps mount_ident) (debounced k n e cfg m t)"
  "obeys (keeps mount_ident) (dirty_wake t)"
  unfolding periodic_wake_def debounced_def dirty_wake_def
  by (auto intro!: keeps_frame.obeys_rules reconcile_keeps mount_ident.pull_mount_once_keeps)

section \<open>The backoff\<close>

lemma next_watcher_backoff_le: "next_watcher_backoff previous lived \<le> WATCHER_RESPAWN_MAX_BACKOFF"
  by (simp add: next_watcher_backoff_def WATCHER_RESPAWN_MAX_BACKOFF_def WATCHER_RESPAWN_INITIAL_BACKOFF_def)

text \<open>How many of the last watchers died within three seconds of their start.\<close>

definition quick_deaths :: "nat list \<Rightarrow> nat" where
  "quick_deaths lives = length (takeWhile (\<lambda>lived. lived < 3000) (rev lives))"

lemma quick_deaths_snoc [simp]:
  "quick_deaths [] = 0" "quick_deaths (lives @ [lived]) = (if lived < 3000 then Suc (quick_deaths lives) else 0)"
  by (simp_all add: quick_deaths_def)

lemma backoff_doubles:
  "foldl next_watcher_backoff 0 lives =
     (case quick_deaths lives of 0 \<Rightarrow> 0 | Suc i \<Rightarrow> min 30000 (1000 * 2 ^ i))"
proof (induction lives rule: rev_induct)
  case (snoc lived lives)
  show ?case
  proof (cases "quick_deaths lives")
    case 0
    then show ?thesis using snoc
      by (simp add: next_watcher_backoff_def WATCHER_LIVENESS_THRESHOLD_def WATCHER_RESPAWN_INITIAL_BACKOFF_def)
  next
    case (Suc i)
    have pos: "min 30000 (1000 * 2 ^ i) \<noteq> (0::nat)" by (simp add: min_def)
    have "min (min 30000 (1000 * 2 ^ i) * 2) 30000 = min 30000 (1000 * 2 ^ Suc i :: nat)"
      by (simp add: min_def)
    moreover have "next_watcher_backoff previous lived = (if 3000 \<le> lived then 0 else min (previous * 2) 30000)"
      if "previous \<noteq> 0" for previous
      using that by (simp add: next_watcher_backoff_def WATCHER_LIVENESS_THRESHOLD_def WATCHER_RESPAWN_MAX_BACKOFF_def)
    from this [OF pos] have "next_watcher_backoff (min 30000 (1000 * 2 ^ i)) lived =
        (if 3000 \<le> lived then 0 else min (min 30000 (1000 * 2 ^ i) * 2) 30000)" .
    ultimately show ?thesis using snoc Suc by simp
  qed
qed simp

section \<open>The invariant\<close>

definition alive_truthful :: "mount_state \<Rightarrow> loop_state \<Rightarrow> bool" where
  "alive_truthful m s = (\<forall>r \<in> set (dm_mounts (fst s)). ms_path r = ms_path m \<longrightarrow> ms_watcher_alive r = sl_handle (snd s))"

definition restart_pending :: "mount_state \<Rightarrow> loop_state \<Rightarrow> bool" where
  "restart_pending m s = (sl_handle (snd s) \<or> sl_respawn_at (snd s) \<noteq> None \<or> ms_path m \<notin> set (dm_tasks (fst s)))"

definition delays_bounded :: "loop_state \<Rightarrow> bool" where
  "delays_bounded s = (sl_backoff (snd s) \<le> WATCHER_RESPAWN_MAX_BACKOFF \<and>
     (\<forall>due. sl_respawn_at (snd s) = Some due \<longrightarrow> due \<le> sl_now (snd s) + WATCHER_RESPAWN_MAX_BACKOFF))"

text \<open>A watcher that runs is one whose handle the loop holds: it is never lost sight of.\<close>

definition alive_held :: "loop_state \<Rightarrow> bool" where
  "alive_held s = (sl_alive (snd s) \<longrightarrow> sl_handle (snd s))"

definition loop_inv :: "mount_state \<Rightarrow> loop_state \<Rightarrow> bool" where
  "loop_inv m s = (alive_truthful m s \<and> restart_pending m s \<and> delays_bounded s \<and> alive_held s)"

lemma alive_keeps:
  assumes "keeps mount_ident d d'" "sl_handle t' = sl_handle t"
  shows "alive_truthful m (d', t') = alive_truthful m (d, t)"
proof -
  have r: "(\<forall>r \<in> set ms. ms_path r = p \<longrightarrow> ms_watcher_alive r = b) =
      (\<forall>x \<in> set (map mount_ident ms). fst x = p \<longrightarrow> snd (snd (snd (snd (snd x)))) = b)" for ms p b
    by (auto simp: mount_ident_def)
  have "map mount_ident (dm_mounts d') = map mount_ident (dm_mounts d)" using assms(1) by (simp add: keeps_def)
  then show ?thesis unfolding alive_truthful_def fst_conv snd_conv r assms(2) by simp
qed

lemma inv_same_watcher:
  assumes "loop_inv m (d, t)" "keeps mount_ident d d'"
    "sl_handle t' = sl_handle t" "sl_respawn_at t' = sl_respawn_at t" "sl_backoff t' = sl_backoff t" "sl_now t \<le> sl_now t'"
    "sl_alive t' \<longrightarrow> sl_alive t"
  shows "loop_inv m (d', t')"
  using assms alive_keeps [OF assms(2,3)]
  by (auto simp: loop_inv_def restart_pending_def delays_bounded_def alive_held_def keeps_def)

lemma respawn_inv:
  assumes "respawn_watcher cfg m t d = (Inr t', d')" "\<not> sl_handle t" "sl_respawn_at t = None"
    "alive_truthful m (d, t)" "sl_backoff t \<le> WATCHER_RESPAWN_MAX_BACKOFF" "\<not> sl_alive t"
  shows "loop_inv m (d', t')"
  using assms next_watcher_backoff_le
  by (auto simp: respawn_watcher_def loop_inv_def alive_truthful_def restart_pending_def delays_bounded_def
      alive_held_def Let_def run_simps through_arc_def update_rows_def mark_dirty_def split: option.splits if_splits)

lemma watcher_exit_inv:
  assumes "handle_watcher_exit cfg m t d = (Inr t', d')" "loop_inv m (d, t)" "sl_respawn_at t = None" "\<not> sl_alive t"
  shows "loop_inv m (d', t')"
proof -
  let ?d = "d \<lparr> dm_mounts := update_rows (\<lambda>r. ms_path r = ms_path m) (\<lambda>r. r \<lparr> ms_watcher_alive := False \<rparr>) (dm_mounts d) \<rparr>"
  let ?b = "next_watcher_backoff (sl_backoff t) (sl_now t - sl_spawned_at t)"
  let ?t = "(mark_dirty t) \<lparr> sl_backoff := ?b, sl_handle := False \<rparr>"
  have alive: "alive_truthful m (?d, ?t)" by (auto simp: alive_truthful_def update_rows_def)
  have b: "?b \<le> WATCHER_RESPAWN_MAX_BACKOFF" by (rule next_watcher_backoff_le)
  show ?thesis
  proof (cases "?b = 0")
    case True
    then have "respawn_watcher cfg m ?t ?d = (Inr t', d')"
      using assms(1) by (simp add: handle_watcher_exit_def through_arc_def run_simps mark_dirty_def Let_def)
    then show ?thesis using respawn_inv alive b assms(3,4) by (simp add: mark_dirty_def)
  next
    case False
    then have "t' = ?t \<lparr> sl_respawn_at := Some (sl_now t + ?b) \<rparr>" "d' = ?d"
      using assms(1) by (auto simp: handle_watcher_exit_def through_arc_def run_simps mark_dirty_def Let_def)
    then show ?thesis using alive b assms(4)
      by (simp add: loop_inv_def restart_pending_def delays_bounded_def alive_truthful_def alive_held_def mark_dirty_def)
  qed
qed

text \<open>While the watcher runs, no restart is scheduled.\<close>

definition running_alone :: "loop_state \<Rightarrow> bool" where
  "running_alone s = (sl_handle (snd s) \<longrightarrow> sl_respawn_at (snd s) = None)"

text \<open>A step that leaves the watcher's state alone.\<close>

lemma quiet_step:
  assumes "loop_inv m (d, t)" "running_alone (d, t)" "keeps mount_ident d d'"
    "sl_handle t' = sl_handle t \<and> sl_respawn_at t' = sl_respawn_at t \<and> sl_backoff t' = sl_backoff t \<and> sl_now t \<le> sl_now t' \<and> (sl_alive t' \<longrightarrow> sl_alive t)"
  shows "loop_inv m (d', t') \<and> running_alone (d', t')"
  using inv_same_watcher [OF assms(1,3)] assms(2,4) by (simp add: running_alone_def)

lemma exit_alone:
  assumes "handle_watcher_exit cfg m t d = (Inr t', d')" "sl_respawn_at t = None"
  shows "sl_handle t' \<longrightarrow> sl_respawn_at t' = None"
  using assms by (auto simp: handle_watcher_exit_def respawn_watcher_def through_arc_def run_simps Let_def mark_dirty_def
      split: option.splits if_splits)

lemma respawn_alone:
  assumes "respawn_watcher cfg m t d = (Inr t', d')" "\<not> sl_handle t" "sl_respawn_at t = None"
  shows "sl_handle t' \<longrightarrow> sl_respawn_at t' = None"
  using assms by (auto simp: respawn_watcher_def through_arc_def run_simps Let_def mark_dirty_def
      split: option.splits if_splits)

lemma try_sends_keep: "keeps key d (fold (\<lambda>m. try_send (ms_path m) (catch_up m)) ms d)"
proof (induction ms arbitrary: d)
  case (Cons r ms)
  have "keeps key d (try_send (ms_path r) (catch_up r) d)" by (simp add: keeps_def try_send_def)
  then show ?case using Cons keeps_frame.trans by fastforce
qed (simp add: keeps_def)

lemma wake_result_quiet:
  "t' = t \<or> sl_dirty t \<and> t' = t \<lparr> sl_dirty := False \<rparr> \<Longrightarrow>
   sl_handle t' = sl_handle t \<and> sl_respawn_at t' = sl_respawn_at t \<and> sl_backoff t' = sl_backoff t \<and> sl_now t \<le> sl_now t' \<and> (sl_alive t' \<longrightarrow> sl_alive t)"
  by auto

lemma loop_step_inv:
  assumes step: "loop_step k n e cfg m s s'" and s: "loop_inv m s" "running_alone s"
  shows "loop_inv m s' \<and> running_alone s'"
  using step
proof (cases rule: loop_step.cases)
  case (tick_arm t d t' d')
  note inv = s [unfolded tick_arm(1)]
  have "keeps mount_ident d d'" using obeys_run [OF wakes_keep(1) tick_arm(4)] .
  then show ?thesis unfolding tick_arm(1,2) using wake_result_quiet [OF periodic_result [OF tick_arm(4)]]
    by (intro quiet_step [OF inv]) auto
next
  case (notification_arm t d x q)
  note inv = s [unfolded notification_arm(1)]
  from notification_arm show ?thesis unfolding notification_arm(1,2)
    by (intro quiet_step [OF inv]) (auto simp: on_notification_def mark_dirty_def keeps_def)
next
  case (deadline_arm t due d t' d')
  note inv = s [unfolded deadline_arm(1)]
  have "keeps mount_ident d d'" using obeys_run [OF wakes_keep(1) deadline_arm(6)] .
  then show ?thesis unfolding deadline_arm(1,2) using wake_result_quiet [OF periodic_result [OF deadline_arm(6)]]
    by (intro quiet_step [OF inv]) auto
next
  case (dirty_arm t d t' d')
  note inv = s [unfolded dirty_arm(1)]
  from dirty_arm show ?thesis unfolding dirty_arm(1,2)
    by (intro quiet_step [OF inv]) (auto simp: dirty_wake_def with_state_def ret_def keeps_def)
next
  case (debounce_over t d t' d')
  note inv = s [unfolded debounce_over(1)]
  have "keeps mount_ident d d'" using obeys_run [OF wakes_keep(2) debounce_over(4)] .
  then show ?thesis unfolding debounce_over(1,2) using wake_result_quiet [OF reconcile_result [OF debounce_over(4) [unfolded debounced_def]]]
    by (intro quiet_step [OF inv]) auto
next
  case (watcher_dies t d)
  note inv = s [unfolded watcher_dies(1)]
  from watcher_dies show ?thesis unfolding watcher_dies(1,2) by (intro quiet_step [OF inv]) (auto simp: keeps_def)
next
  case (watcher_exits t d t' d')
  note inv = s [unfolded watcher_exits(1)]
  have "sl_respawn_at t = None" using inv(2) watcher_exits(4) by (simp add: running_alone_def)
  then show ?thesis unfolding watcher_exits(1,2)
    using watcher_exit_inv [OF watcher_exits(6) inv(1)] exit_alone [OF watcher_exits(6)] watcher_exits(5)
    by (simp add: running_alone_def)
next
  case (respawn_arm t due d t' d')
  note inv = s [unfolded respawn_arm(1)]
  have "\<not> sl_handle t" using respawn_arm(4) inv(2) by (auto simp: running_alone_def)
  moreover from this have "alive_truthful m (d, t \<lparr> sl_respawn_at := None \<rparr>)" "sl_backoff t \<le> WATCHER_RESPAWN_MAX_BACKOFF"
    "\<not> sl_alive t"
    using inv(1) by (auto simp: loop_inv_def alive_truthful_def delays_bounded_def alive_held_def)
  ultimately show ?thesis unfolding respawn_arm(1,2)
    using respawn_inv [OF respawn_arm(6)] respawn_alone [OF respawn_arm(6)] by (simp add: running_alone_def)
next
  case (time_passes t now d)
  note inv = s [unfolded time_passes(1)]
  from time_passes show ?thesis unfolding time_passes(1,2) by (intro quiet_step [OF inv]) (auto simp: keeps_def)
next
  case (marked d t)
  note inv = s [unfolded marked(1)]
  from marked show ?thesis unfolding marked(1,2) by (intro quiet_step [OF inv]) (auto simp: keeps_def mark_dirty_def)
next
  case (notified d t p x)
  note inv = s [unfolded notified(1)]
  from notified show ?thesis unfolding notified(1,2) by (intro quiet_step [OF inv]) (auto simp: keeps_def try_send_def)
next
  case (paused d d' t)
  note inv = s [unfolded paused(1)]
  from paused show ?thesis unfolding paused(1,2) by (intro quiet_step [OF inv]) (auto simp: keeps_def post_pause_def writes_def)
next
  case (resumed d d' t)
  note inv = s [unfolded resumed(1)]
  have "keeps mount_ident d (d \<lparr> dm_paused := False \<rparr>)" by (simp add: keeps_def)
  then have "keeps mount_ident d d'"
    using resumed try_sends_keep keeps_frame.trans by (fastforce simp: post_resume_def writes_def Let_def)
  then show ?thesis unfolding resumed(1,2) using resumed by (intro quiet_step [OF inv]) auto
next
  case (torn_down p d d' t)
  note inv = s [unfolded torn_down(1)]
  from torn_down show ?thesis unfolding torn_down(1,2) using inv
    by (auto simp: loop_inv_def alive_truthful_def restart_pending_def delays_bounded_def running_alone_def
        alive_held_def cancel_tasks_for_mount_def writes_def)
qed

section \<open>Theorems\<close>

lemma loop_reach_inv:
  assumes "loop_reach k n e cfg m s s'" "loop_inv m s" "running_alone s"
  shows "loop_inv m s' \<and> running_alone s'"
  using assms by (induction rule: loop_reach.induct) (auto dest: loop_step_inv)

text \<open>What handling the watcher's exit does: it always runs through, and it leaves either a new watcher
  that runs or none.\<close>

lemma exit_handled:
  assumes "\<not> sl_alive t"
  shows "\<exists>t' d'. handle_watcher_exit cfg m t d = (Inr t', d') \<and> sl_handle t' = sl_alive t'"
  using assms
  by (simp add: handle_watcher_exit_def respawn_watcher_def through_arc_def run_simps Let_def mark_dirty_def
      split: option.split)


text \<open>C26: the delay before the next restart, over any history of a mount's watchers (the milliseconds
  each lived, the latest last): none if the last one lived three seconds or there was none, otherwise
  one second doubled once for each further watcher in the final run of those that died sooner, and
  30 seconds at most: 1, 2, 4, 8, 16, 30, 30, ... seconds.\<close>

theorem watcher_backoff_bounds:
  "foldl next_watcher_backoff 0 lives =
     (case length (takeWhile (\<lambda>lived. lived < 3000) (rev lives)) of
        0 \<Rightarrow> 0
      | Suc i \<Rightarrow> min 30000 (1000 * 2 ^ i))"
  using backoff_doubles [of lives] by (simp only: quick_deaths_def)

text \<open>A step clears a mark only by a full sync of the mount, which runs from the state it finds.\<close>

lemma reconcile_serves:
  assumes "reconcile_if_dirty k n e cfg m otherwise t d = (Inr t', d')" "sl_dirty t"
  shows "\<exists>x. full_sync_mount k n e cfg m d = (Inr x, d')"
  using assms by (auto simp: reconcile_if_dirty_def ret_def elim!: try_op_InrE)

lemma periodic_serves:
  assumes "periodic_wake k n e cfg m t d = (Inr t', d')" "sl_dirty t"
  shows "sl_dirty t' \<or> (\<exists>x. full_sync_mount k n e cfg m d = (Inr x, d'))"
  using assms reconcile_serves by (fastforce simp: periodic_wake_def with_state_def ret_def split: if_splits)

lemma exit_marks: "handle_watcher_exit cfg m t d = (Inr t', d') \<Longrightarrow> sl_dirty t'"
  by (auto simp: handle_watcher_exit_def respawn_watcher_def through_arc_def run_simps Let_def mark_dirty_def
      split: option.splits if_splits)

lemma respawn_marks: "respawn_watcher cfg m t d = (Inr t', d') \<Longrightarrow> sl_dirty t \<Longrightarrow> sl_dirty t'"
  by (auto simp: respawn_watcher_def through_arc_def run_simps Let_def mark_dirty_def split: option.splits if_splits)

lemma loop_step_serves:
  "loop_step k n e cfg m s s' \<Longrightarrow> sl_dirty (snd s) \<Longrightarrow>
   sl_dirty (snd s') \<or> (\<exists>x. full_sync_mount k n e cfg m (fst s) = (Inr x, fst s'))"
proof (induction rule: loop_step.induct)
  case (tick_arm t d t' d')
  then show ?case using periodic_serves by fastforce
next
  case (deadline_arm t due d t' d')
  then show ?case using periodic_serves [OF deadline_arm(4)] by simp
next
  case (debounce_over t d t' d')
  then show ?case using reconcile_serves [OF debounce_over(2) [unfolded debounced_def]] by simp
next
  case (watcher_exits t d t' d')
  then show ?case using exit_marks [OF watcher_exits(4)] by simp
next
  case (respawn_arm t due d t' d')
  then show ?case using respawn_marks [OF respawn_arm(4)] by simp
qed (auto simp: mark_dirty_def on_notification_def dirty_wake_def with_state_def ret_def)

text \<open>C11: a dirty mark is never forgotten: wherever the loop gets from a state with the mark set, the mark
  is still set or on the way a full sync of the mount has run to its end, whatever pauses, restarts,
  notifications and ticks happened.\<close>

theorem dirty_mark_is_served:
  assumes "loop_reach k n e cfg m (d, t) (d', t')" "sl_dirty t"
  shows "sl_dirty t' \<or> (\<exists>d1 t1 x d2 t2. loop_reach k n e cfg m (d, t) (d1, t1) \<and>
    full_sync_mount k n e cfg m d1 = (Inr x, d2) \<and> loop_reach k n e cfg m (d2, t2) (d', t'))"
proof -
  have "sl_dirty (snd s) \<or> (\<exists>d1 t1 x d2 t2. loop_reach k n e cfg m (d, t) (d1, t1) \<and>
      full_sync_mount k n e cfg m d1 = (Inr x, d2) \<and> loop_reach k n e cfg m (d2, t2) s)"
    if "loop_reach k n e cfg m (d, t) s" for s
    using that
  proof (induction rule: loop_reach.induct)
    case start
    show ?case using assms(2) by simp
  next
    case (step s s')
    show ?case
    proof (cases "sl_dirty (snd s)")
      case True
      have s: "s = (fst s, snd s)" "s' = (fst s', snd s')" by simp_all
      from loop_step_serves [OF step(2) True] show ?thesis
        using step(1) s loop_reach.start by metis
    next
      case False
      then show ?thesis using step.IH loop_reach.step [OF _ step(2)] by blast
    qed
  qed
  from this [OF assms(1)] show ?thesis by simp
qed

text \<open>The pause is not looked at again after the debounce of a dirty wake: once the loop has
  consumed a wake, a full sync starts although the daemon was paused in the meantime.\<close>

lemma pause_misses_debounced_sync:
  assumes "sl_permit t" "sl_dirty t" "\<not> sl_debouncing t" "\<not> dm_paused d"
    "full_sync_mount k n e cfg m (d \<lparr> dm_paused := True \<rparr>) = (Inr x, d')"
  shows "\<exists>t1 t2. loop_reach k n e cfg m (d, t) (d \<lparr> dm_paused := True \<rparr>, t1) \<and>
    loop_step k n e cfg m (d \<lparr> dm_paused := True \<rparr>, t1) (d', t2)"
proof -
  let ?t1 = "t \<lparr> sl_permit := False, sl_debouncing := True \<rparr>" and ?d1 = "d \<lparr> dm_paused := True \<rparr>"
  let ?t2 = "?t1 \<lparr> sl_debouncing := False, sl_dirty := False \<rparr>"
  have 1: "loop_step k n e cfg m (d, t) (d, ?t1)"
    using assms(1,3,4) by (intro loop_step.dirty_arm) (simp_all add: dirty_wake_def run_simps)
  have 2: "loop_step k n e cfg m (d, ?t1) (?d1, ?t1)"
    by (rule loop_step.paused) (simp add: post_pause_def run_simps)
  have 3: "loop_step k n e cfg m (?d1, ?t1) (d', ?t2)"
    by (rule loop_step.debounce_over) (use assms(2,5) in \<open>simp_all add: debounced_def reconcile_if_dirty_def run_simps\<close>)
  show ?thesis
    using loop_reach.step [OF loop_reach.step [OF loop_reach.start 1] 2] 3 by fastforce
qed

end
