(* ===== verification/Control_Props.thy ===== *)
theory Control_Props
  imports Control
begin

text \<open>
  Theorems about releases and polls: the version found is the greatest the listing holds, only a
  verified archive reaches the disk, and the poll asks for each distinct credential once.
\<close>

section \<open>The greatest release\<close>

text \<open>The pages of the listing the server hands out, up to the first short one.\<close>

fun served_pages :: "env \<Rightarrow> string \<Rightarrow> string \<Rightarrow> nat list \<Rightarrow> http_request list \<Rightarrow> string list list" where
  "served_pages e base repo [] sent = []"
| "served_pages e base repo (page # pages) sent =
     (case env_server e sent (releases_request base repo page) of
        Reply status (BodyReleases tags) \<Rightarrow>
          if \<not> is_success status then []
          else tags # (if length tags < RELEASES_PAGE_SIZE then []
                       else served_pages e base repo pages (sent @ [releases_request base repo page]))
      | _ \<Rightarrow> [])"

lemma served_pages_le: "length (served_pages e base repo pages sent) \<le> length pages"
  by (induction pages arbitrary: sent) (auto split: http_reply.split reply_body.split)

lemma release_pages_run:
  assumes "release_pages e base repo c pages best w = (Inr r, w')"
  shows "r = fold (consider_release c) (concat (served_pages e base repo pages (w_sent w))) best \<and>
    w_sent w' = w_sent w @ map (releases_request base repo) (take (length (served_pages e base repo pages (w_sent w))) pages)"
  using assms
proof (induction pages arbitrary: best w)
  case Nil
  then show ?case by (simp add: ret_def)
next
  case (Cons page pages)
  let ?rq = "releases_request base repo page"
  obtain status tags where s: "env_server e (w_sent w) ?rq = Reply status (BodyReleases tags)" "is_success status"
    and run: "(if length tags < RELEASES_PAGE_SIZE then ret (fold (consider_release c) tags best)
       else release_pages e base repo c pages (fold (consider_release c) tags best))
        (w \<lparr> w_sent := w_sent w @ [?rq] \<rparr>) = (Inr r, w')"
    using Cons.prems
    by (auto simp: try_op_def send_def Let_def fail_def split: http_reply.splits reply_body.splits if_splits)
  show ?case
  proof (cases "length tags < RELEASES_PAGE_SIZE")
    case True
    then show ?thesis using run s by (auto simp: ret_def)
  next
    case False
    then show ?thesis using Cons.IH [OF run [unfolded if_not_P [OF False]]] s by simp
  qed
qed

definition holds_greatest :: "release_component \<Rightarrow> string set \<Rightarrow> (semver \<times> string) option \<Rightarrow> bool" where
  "holds_greatest c tags best =
     ((\<forall>tag \<in> tags. \<forall>p s. release_version c tag = Some (p, s) \<longrightarrow> (\<exists>q t. best = Some (q, t) \<and> p \<le> q)) \<and>
      (\<forall>q t. best = Some (q, t) \<longrightarrow> (\<exists>tag \<in> tags. release_version c tag = Some (q, t))))"

lemma consider_greatest: "holds_greatest c tags best \<Longrightarrow> holds_greatest c (insert tag tags) (consider_release c tag best)"
proof (cases "release_version c tag")
  case None
  assume "holds_greatest c tags best"
  then show ?thesis using None by (auto simp: holds_greatest_def consider_release_def)
next
  case (Some ps)
  assume h: "holds_greatest c tags best"
  obtain p s where v: "release_version c tag = Some (p, s)" using Some by (cases ps) auto
  show ?thesis
  proof (cases best)
    case None
    then show ?thesis using h v by (auto simp: holds_greatest_def consider_release_def)
  next
    case (Some b)
    obtain q t where b: "best = Some (q, t)" using Some by (cases b) auto
    from h have "p' \<le> q" if "tag' \<in> tags" "release_version c tag' = Some (p', s')" for tag' p' s'
      using that unfolding holds_greatest_def b by auto
    then have "p' \<le> p" if "tag' \<in> tags" "release_version c tag' = Some (p', s')" "q < p" for tag' p' s'
      using that by (meson order.strict_implies_order order.trans)
    moreover have "\<exists>tag \<in> tags. release_version c tag = Some (q, t)"
      using h unfolding holds_greatest_def b by auto
    ultimately show ?thesis using h
      by (cases "q < p") (auto simp: holds_greatest_def consider_release_def v b not_less)
  qed
qed

lemma fold_greatest: "holds_greatest c seen best \<Longrightarrow> holds_greatest c (set tags \<union> seen) (fold (consider_release c) tags best)"
proof (induction tags arbitrary: seen best)
  case (Cons tag tags)
  from Cons.IH [OF consider_greatest [OF Cons.prems]] show ?case by simp
qed simp

text \<open>C20: without a pinned version, the version found is that of a release in the listing, no release
  of the component there has a greater one, and at most 20 pages were asked for, in order.\<close>

theorem latest_version_is_greatest:
  assumes "resolve_latest_version_from e base repo c None w = (Inr v, w')"
  shows "\<exists>pages. pages = served_pages e base repo [1..<Suc MAX_RELEASES_PAGES] (w_sent w) \<and> length pages \<le> MAX_RELEASES_PAGES \<and>
    w_sent w' = w_sent w @ map (releases_request base repo) [1..<Suc (length pages)] \<and>
    (\<exists>p. (\<exists>tag \<in> set (concat pages). release_version c tag = Some (p, v)) \<and>
      (\<forall>tag \<in> set (concat pages). \<forall>q s. release_version c tag = Some (q, s) \<longrightarrow> q \<le> p))"
proof -
  let ?pages = "served_pages e base repo [1..<Suc MAX_RELEASES_PAGES] (w_sent w)"
  obtain best w1 where r: "release_pages e base repo c [1..<Suc MAX_RELEASES_PAGES] None w = (Inr best, w1)"
    and b: "\<exists>p. best = Some (p, v)" and w1: "w' = w1"
    using assms unfolding resolve_latest_version_from_def
    by (auto simp: fail_def ret_def elim!: try_op_InrE split: option.splits)
  have best: "best = fold (consider_release c) (concat ?pages) None"
    and sent: "w_sent w1 = w_sent w @ map (releases_request base repo) (take (length ?pages) [1..<Suc MAX_RELEASES_PAGES])"
    using release_pages_run [OF r] by blast+
  have le: "length ?pages \<le> MAX_RELEASES_PAGES" using served_pages_le [of e base repo "[1..<Suc MAX_RELEASES_PAGES]" "w_sent w"] by (simp del: upt_Suc)
  have "holds_greatest c (set (concat ?pages) \<union> {}) best"
    unfolding best by (rule fold_greatest) (simp add: holds_greatest_def)
  then have g: "holds_greatest c (set (concat ?pages)) best" by simp
  obtain p where p: "best = Some (p, v)" using b by blast
  have t: "take (length ?pages) [1..<Suc MAX_RELEASES_PAGES] = [1..<Suc (length ?pages)]" using le by (simp add: take_upt del: upt_Suc)
  have "\<exists>tag \<in> set (concat ?pages). release_version c tag = Some (p, v)"
    using g p unfolding holds_greatest_def by blast
  moreover have "q \<le> p" if "tag \<in> set (concat ?pages)" "release_version c tag = Some (q, s)" for tag q s
    using g p that unfolding holds_greatest_def by (metis option.inject prod.inject)
  ultimately have "\<exists>p. (\<exists>tag \<in> set (concat ?pages). release_version c tag = Some (p, v)) \<and>
      (\<forall>tag \<in> set (concat ?pages). \<forall>q s. release_version c tag = Some (q, s) \<longrightarrow> q \<le> p)" by blast
  moreover have "w_sent w' = w_sent w @ map (releases_request base repo) [1..<Suc (length ?pages)]"
    unfolding w1 sent t ..
  ultimately show ?thesis using le by blast
qed

section \<open>Self-updates\<close>

definition release_verified :: "env \<Rightarrow> (string \<Rightarrow> string \<Rightarrow> bool) \<Rightarrow> string \<Rightarrow> string \<Rightarrow> bool" where
  "release_verified e minisign asset tarball = (\<exists>checksums minisig. minisign checksums minisig \<and>
     checksum_for_asset checksums asset = Some (env_sha256 e tarball))"

lemma fetch_release_verified:
  assumes "fetch_verified_release e minisign os arch repo v w = (Inr (asset, tarball), w')"
  shows "release_verified e minisign asset tarball"
  using assms unfolding fetch_verified_release_def release_verified_def Let_def
  by (auto elim!: try_op_InrE simp: lift_result_def ret_def verify_tarball_checksum_def verify_sha256sums_def
      split: if_splits option.splits) blast

lemma fetch_release_fs: "obeys fs_same (fetch_verified_release e minisign os arch repo v)"
  unfolding fetch_verified_release_def download_release_asset_def Let_def
  by (auto intro!: fs_frame.obeys_rules split: reply_body.split)

text \<open>C13: a self-update hands an archive to \<open>tar\<close> only if a checksum list whose signature verifies names
  its hash; otherwise it fails with the disk untouched.\<close>

theorem self_update_installs_verified_only:
  assumes "attempt_self_update e minisign extract_tarball restart os arch exe repo v w = (r, w')"
  shows "(\<exists>asset tarball w1. release_verified e minisign asset tarball \<and> w_fs w1 = w_fs w \<and>
      install_release extract_tarball restart exe (asset, tarball) w1 = (r, w')) \<or>
    (\<exists>err. r = Inl err) \<and> w_fs w' = w_fs w"
  using assms unfolding attempt_self_update_def
proof (cases rule: try_op_cases)
  case (err err)
  then show ?thesis using obeys_run [OF fetch_release_fs err(1)] by (simp add: fs_same_def)
next
  case (ok x w1)
  obtain asset tarball where x: "x = (asset, tarball)" by fastforce
  have "release_verified e minisign asset tarball" using fetch_release_verified ok(1) unfolding x by blast
  moreover have "w_fs w1 = w_fs w" using obeys_run [OF fetch_release_fs ok(1)] by (simp add: fs_same_def)
  ultimately show ?thesis using ok(2) unfolding x by blast
qed

section \<open>The poll for the principal\<close>

definition me_request :: "daemon_config \<Rightarrow> string \<Rightarrow> http_request" where
  "me_request cfg token = \<lparr> rq_method = GET, rq_url = api_base (dc_backend_url cfg) @ ''/me'', rq_bearer = Some token,
     rq_headers = [], rq_body = NoBody \<rparr>"

lemma poll_principal_run:
  "\<exists>acc' d'. poll_principal e cfg token acc d = (Inr acc', d') \<and>
     w_sent (dm_world d') = w_sent (dm_world d) @ [me_request cfg token]"
proof -
  let ?w = "(dm_world d) \<lparr> w_sent := w_sent (dm_world d) @ [me_request cfg token] \<rparr>"
  have w: "dm_world (set_rejected cfg b token d1) = dm_world d1" for b d1 by (simp add: set_rejected_def)
  show ?thesis
  proof (cases "env_server e (w_sent (dm_world d)) (me_request cfg token)")
    case NoReply
    then show ?thesis
      by (simp add: poll_principal_def api_get_def me_request_def attempt_def on_world_def send_def run_simps Let_def)
  next
    case (Reply status body)
    then have a: "attempt (on_world (api_get e (dc_backend_url cfg) token ''/me'')) d = (Inr (Inr (status, body)), d \<lparr> dm_world := ?w \<rparr>)"
      by (simp add: api_get_def me_request_def attempt_def on_world_def send_def run_simps Let_def)
    show ?thesis
      unfolding poll_principal_def
      by (auto simp: try_op_def a mark_credential_rejected_def clear_credential_rejected_def writes_def ret_def w
          split: reply_body.split)
  qed
qed

lemma poll_principals_run:
  "\<exists>acc' d'. for_each tokens (poll_principal e cfg) acc d = (Inr acc', d') \<and>
     w_sent (dm_world d') = w_sent (dm_world d) @ map (me_request cfg) tokens"
proof (induction tokens arbitrary: acc d)
  case (Cons token tokens)
  obtain acc1 d1 where 1: "poll_principal e cfg token acc d = (Inr acc1, d1)"
    "w_sent (dm_world d1) = w_sent (dm_world d) @ [me_request cfg token]"
    using poll_principal_run by blast
  obtain acc2 d2 where "for_each tokens (poll_principal e cfg) acc1 d1 = (Inr acc2, d2)"
    "w_sent (dm_world d2) = w_sent (dm_world d1) @ map (me_request cfg) tokens"
    using Cons.IH by blast
  then show ?case using 1 by (simp add: try_op_def)
qed (simp add: ret_def)

lemma distinct_tokens:
  "distinct (distinct_credential_tokens cfg d) \<and>
   set (distinct_credential_tokens cfg d) = set_option (non_empty_device_token cfg) \<union>
     {t. \<exists>m \<in> set (dm_mounts d). ms_mount_token m = Some t}"
proof -
  have "distinct (fold (\<lambda>m tokens. case ms_mount_token m of
          Some t \<Rightarrow> if t \<in> set tokens then tokens else tokens @ [t] | None \<Rightarrow> tokens) ms ts) \<and>
      set (fold (\<lambda>m tokens. case ms_mount_token m of
          Some t \<Rightarrow> if t \<in> set tokens then tokens else tokens @ [t] | None \<Rightarrow> tokens) ms ts) =
        set ts \<union> {t. \<exists>m \<in> set ms. ms_mount_token m = Some t}" if "distinct ts" for ms ts
    using that by (induction ms arbitrary: ts) (auto split: option.split)
  from this [of "case non_empty_device_token cfg of Some t \<Rightarrow> [t] | None \<Rightarrow> []" "dm_mounts d"]
  show ?thesis by (auto simp: distinct_credential_tokens_def split: option.splits)
qed

text \<open>A poll for the principal always answers; it asks the server exactly once for each distinct
  credential, the device's and the mounts', with that credential.\<close>

lemma principal_poll_asks_once:
  assumes "dc_backend_url cfg \<noteq> []"
  shows "\<exists>d' tokens. poll_principal_status_once e cfg d = (Inr (), d') \<and> distinct tokens \<and>
    set tokens = set_option (non_empty_device_token cfg) \<union> {t. \<exists>m \<in> set (dm_mounts d). ms_mount_token m = Some t} \<and>
    w_sent (dm_world d') = w_sent (dm_world d) @ map (me_request cfg) tokens"
proof -
  let ?tokens = "distinct_credential_tokens cfg d"
  obtain acc d1 where r: "for_each ?tokens (poll_principal e cfg) no_principal d = (Inr acc, d1)"
    "w_sent (dm_world d1) = w_sent (dm_world d) @ map (me_request cfg) ?tokens"
    using poll_principals_run by blast
  have "\<exists>d'. poll_principal_status_once e cfg d = (Inr (), d') \<and>
      w_sent (dm_world d') = w_sent (dm_world d) @ map (me_request cfg) ?tokens"
    using assms r by (auto simp: poll_principal_status_once_def with_state_def Let_def try_op_def writes_def ret_def
        split: option.split)
  then show ?thesis using distinct_tokens [of cfg d] by blast
qed

end
