(* ===== verification/File_Provider_Props.thy ===== *)
theory File_Provider_Props
  imports Restore
begin

text \<open>
  What the file provider promises its client: pages that cover a folder, deletions that are held back
  but never lost; and two things it gets wrong, a rejected move that has renamed the node and an
  upload over an existing name that submits a version for a node that does not exist.
\<close>

section \<open>Enumeration\<close>

lemma pages_concat: "concat (map (\<lambda>k. take l (drop (k * l) xs)) [0..<i]) = take (i * l) xs"
proof (induction i)
  case (Suc i)
  have "take (Suc i * l) xs = take (i * l) xs @ take l (drop (i * l) xs)"
    by (metis add.commute mult_Suc take_add)
  then show ?case using Suc by simp
qed simp

definition page_query :: "string \<Rightarrow> string \<Rightarrow> nat \<Rightarrow> nat \<Rightarrow> fp_items_query" where
  "page_query parent folder_id l k =
     \<lparr> fi_parent = parent, fi_folder_id = Some folder_id, fi_offset = Some (k * l), fi_limit = Some l \<rparr>"

definition page_items :: "daemon \<Rightarrow> fp_items_query \<Rightarrow> fp_item list" where
  "page_items d query = (case fst (fp_items query d) of Inl _ \<Rightarrow> [] | Inr response \<Rightarrow> en_items response)"

definition sorted_children :: "mirror \<Rightarrow> string option \<Rightarrow> string \<Rightarrow> local_node list" where
  "sorted_children db parent folder_id = sort_key ln_name
     (filter (\<lambda>n. ln_folder_id n = folder_id \<and> ln_parent_id n = parent \<and> live n) (db_nodes db))"

lemma fp_items_run:
  assumes "trim_ws (fi_parent query) \<noteq> []" "resolve_mount_for_query (fi_folder_id query) d = (Inr m, d)"
  shows "\<exists>response. fp_items query d = (Inr response, d) \<and>
    en_items response = map (fp_item_from_node (w_db (dm_world d)))
      (take (case fi_limit query of Some l \<Rightarrow> min l 200 | None \<Rightarrow> 200)
        (drop (case fi_offset query of Some i \<Rightarrow> i | None \<Rightarrow> 0)
          (sorted_children (w_db (dm_world d)) (resolve_parent_id (w_db (dm_world d)) m (fi_parent query)) (ms_folder_id m))))"
  using assms by (simp add: fp_items_def try_op_def fp_db_def reads_def list_children_def sorted_children_def Let_def)

lemma resolve_folder_run:
  "find (\<lambda>m. ms_folder_id m = f) (dm_mounts d) = Some m \<Longrightarrow> resolve_mount_for_folder_id f d = (Inr m, d)"
  by (simp add: resolve_mount_for_folder_id_def run_simps)

text \<open>no page holds more than 200 items, and the pages of any size up to that, put together, list
  each live child of the folder once, by name.\<close>

theorem fp_pages_cover_the_folder:
  assumes "trim_ws parent \<noteq> []" "f \<noteq> []" "find (\<lambda>m. ms_folder_id m = f) (dm_mounts d) = Some m" "0 < l" "l \<le> 200"
  shows "concat (map (\<lambda>k. page_items d (page_query parent f l k)) [0..<i]) =
      map (fp_item_from_node (w_db (dm_world d)))
        (take (i * l) (sorted_children (w_db (dm_world d)) (resolve_parent_id (w_db (dm_world d)) m parent) f)) \<and>
    length (page_items d query) \<le> 200"
proof
  have f: "ms_folder_id m = f" using assms(3) by (auto simp: find_Some_iff)
  let ?db = "w_db (dm_world d)"
  let ?rows = "sorted_children ?db (resolve_parent_id ?db m parent) f"
  have r: "resolve_mount_for_query (Some f) d = (Inr m, d)"
    using assms(2) resolve_folder_run [OF assms(3)] by (simp add: resolve_mount_for_query_def)
  have "page_items d (page_query parent f l k) = map (fp_item_from_node ?db) (take l (drop (k * l) ?rows))" for k
    using fp_items_run [of "page_query parent f l k" d m] assms(1,5) r f
    by (auto simp: page_query_def page_items_def min_def)
  then show "concat (map (\<lambda>k. page_items d (page_query parent f l k)) [0..<i]) =
      map (fp_item_from_node ?db) (take (i * l) ?rows)"
    by (simp only: pages_concat [symmetric] map_concat map_map comp_def)
  show "length (page_items d query) \<le> 200"
  proof (cases "fst (fp_items query d)")
    case (Inl err)
    then show ?thesis by (simp add: page_items_def)
  next
    case (Inr response)
    then have "trim_ws (fi_parent query) \<noteq> []" by (auto simp: fp_items_def fail_def)
    moreover obtain m' d' where q: "resolve_mount_for_query (fi_folder_id query) d = (Inr m', d')"
      using Inr by (cases "resolve_mount_for_query (fi_folder_id query) d")
        (auto simp: fp_items_def try_op_def fail_def split: if_splits sum.splits)
    moreover have "d' = d"
      using q by (auto simp: resolve_mount_for_query_def resolve_mount_for_folder_id_def run_simps
          split: option.splits list.splits if_splits)
    ultimately show ?thesis using fp_items_run [of query d m'] by (auto simp: page_items_def split: option.splits)
  qed
qed

section \<open>Deletions held back\<close>

definition item_ids :: "fp_changes_response \<Rightarrow> string set" where
  "item_ids r = it_node_id ` set (ch_items r)"

lemma item_of_node [simp]:
  "it_node_id (fp_item_from_node db n) = ln_node_id n" "it_deleted (fp_item_from_node db n) = (\<not> live n)"
  by (simp_all add: fp_item_from_node_def Let_def)

lemma deferred_of_put [simp]: "deferred_of (put_deferred f ids d) f = ids"
  by (auto simp: deferred_of_def put_deferred_def map_remove_def map_of_eq_None_iff split: option.split dest: map_of_SomeD)

lemma changed_rows: "n \<in> set (list_changed_since db f since) \<longleftrightarrow> n \<in> set (db_nodes db) \<and> ln_folder_id n = f \<and> since < ln_server_seq n"
  by (auto simp: list_changed_since_def)

lemma in_map_filter: "y \<in> set (List.map_filter f xs) \<longleftrightarrow> (\<exists>x \<in> set xs. f x = Some y)"
  by (force simp: map_filter_def)

lemma changes_for_response:
  assumes "changes_for m since d = (Inr r, d')"
  shows "set (ch_items r) = {x \<in> set (changed_items m since d). \<not> held_back d x} \<union>
      set (redelivered d (filter (\<lambda>i. i \<notin> set (dm_pending_uploads d)) (deferred_now m since d)))"
    and "set (deferred_of d' (ms_folder_id m)) = {i \<in> set (deferred_now m since d). i \<in> set (dm_pending_uploads d)}"
  using assms by (auto simp: changes_for_def Let_def)

lemma in_changed: "x \<in> set (changed_items m since d) \<longleftrightarrow>
    (\<exists>n \<in> set (db_nodes (w_db (dm_world d))). ln_folder_id n = ms_folder_id m \<and> since < ln_server_seq n \<and>
      x = fp_item_from_node (w_db (dm_world d)) n)"
  by (auto simp: changed_items_def Let_def changed_rows)

lemma in_redelivered: "x \<in> set (redelivered d ids) \<longleftrightarrow>
    (\<exists>i \<in> set ids. \<exists>n. get_node (w_db (dm_world d)) i = Some n \<and> x = fp_item_from_node (w_db (dm_world d)) n)"
  unfolding redelivered_def Let_def set_map image_iff Bex_def in_map_filter by blast

lemma get_node_row: "get_node db i = Some n \<Longrightarrow> n \<in> set (db_nodes db) \<and> ln_node_id n = i"
  by (auto simp: get_node_def dest!: find_row_key)

lemma changes_hold_back:
  assumes "changes_for m since d = (Inr r, d')" "get_node (w_db (dm_world d)) i = Some n" "nodes_wf (w_db (dm_world d))"
    "ln_folder_id n = ms_folder_id m" "since < ln_server_seq n" "\<not> live n" "i \<in> set (dm_pending_uploads d)"
  shows "i \<notin> item_ids r \<and> i \<in> set (deferred_of d' (ms_folder_id m))"
proof
  note n = get_node_row [OF assms(2)]
  have only: "x = n" if "x \<in> set (db_nodes (w_db (dm_world d)))" "ln_node_id x = i" for x
    using that n assms(3) by (auto simp: nodes_wf_def distinct_map dest: inj_onD)
  show "i \<notin> item_ids r"
  proof
    assume "i \<in> item_ids r"
    then obtain x where x: "x \<in> set (ch_items r)" "it_node_id x = i" by (auto simp: item_ids_def)
    then consider "x \<in> set (changed_items m since d)" "\<not> held_back d x"
      | "x \<in> set (redelivered d (filter (\<lambda>i. i \<notin> set (dm_pending_uploads d)) (deferred_now m since d)))"
      using changes_for_response(1) [OF assms(1)] by blast
    then show False
    proof cases
      case 1
      then show False using only x(2) assms(6,7) by (auto simp: in_changed held_back_def)
    next
      case 2
      then show False using x(2) assms(7) get_node_row by (fastforce simp: in_redelivered)
    qed
  qed
  have "fp_item_from_node (w_db (dm_world d)) n \<in> set (changed_items m since d)"
    using assms(4,5) n by (auto simp: in_changed)
  then have "i \<in> set (deferred_now m since d)"
    using n assms(6,7) by (force simp: deferred_now_def held_back_def)
  then show "i \<in> set (deferred_of d' (ms_folder_id m))"
    using changes_for_response(2) [OF assms(1)] assms(7) by simp
qed

lemma changes_redeliver:
  assumes "changes_for m since d = (Inr r, d')" "i \<in> set (deferred_of d (ms_folder_id m))"
    "i \<notin> set (dm_pending_uploads d)" "get_node (w_db (dm_world d)) i = Some n"
  shows "fp_item_from_node (w_db (dm_world d)) n \<in> set (ch_items r) \<and> i \<notin> set (deferred_of d' (ms_folder_id m))"
proof -
  have "i \<in> set (deferred_now m since d)" using assms(2) by (simp add: deferred_now_def)
  then show ?thesis
    using assms(3,4) by (auto simp: changes_for_response [OF assms(1)] in_redelivered)
qed

text \<open>C22: the deletion of a node that is being uploaded is not reported but kept; the first request for
  changes after the upload ended reports the node whatever sequence number it asks from, and it is
  kept no longer.\<close>

theorem held_back_delete_is_redelivered:
  assumes "changes_for m since d = (Inr r, d1)" "get_node (w_db (dm_world d)) i = Some n" "nodes_wf (w_db (dm_world d))"
    "ln_folder_id n = ms_folder_id m" "since < ln_server_seq n" "\<not> live n" "i \<in> set (dm_pending_uploads d)"
    "deferred_of d2 (ms_folder_id m) = deferred_of d1 (ms_folder_id m)" "i \<notin> set (dm_pending_uploads d2)"
    "get_node (w_db (dm_world d2)) i = Some n2" "changes_for m since2 d2 = (Inr r2, d3)"
  shows "i \<notin> item_ids r \<and> fp_item_from_node (w_db (dm_world d2)) n2 \<in> set (ch_items r2) \<and>
    i \<notin> set (deferred_of d3 (ms_folder_id m))"
  using changes_hold_back [OF assms(1-7)] changes_redeliver [OF assms(11)] assms(8-10) by metis

section \<open>Moves\<close>

lemma submit_run:
  assumes "submit_op_daemon e cfg token f req w = (Inr response, w')"
  shows "w' = w \<lparr> w_sent := w_sent w @ [submit_request (dc_backend_url cfg) token f req] \<rparr>"
  using assms unfolding submit_op_daemon_def
  by (auto simp: backend_response_or_error_def fail_def ret_def lift_result_def dest!: send_InrD elim!: try_op_InrE
      split: if_splits reply_body.splits)

lemma submit_for_mount_run:
  assumes "\<not> ms_update_required m" "\<not> mount_flag d m"
    "submit_op_daemon e cfg token (ms_folder_id m) req (dm_world d) = (Inr response, w')"
  shows "submit_op_daemon_for_mount e cfg m token req d = (Inr response, d \<lparr> dm_world := w' \<rparr>)"
  using assms by (simp add: submit_op_daemon_for_mount_def ensure_mount_not_update_required_def
      submit_marking_halt_def on_world_def run_simps)

text \<open>a move that also renames is not atomic: when the server accepts the new name and the new
  parent lies in another folder, the request is refused although the node has been renamed, on the
  server and in the mirror.\<close>

theorem rejected_move_has_renamed:
  assumes "trim_ws (vq_node_id req) \<noteq> []" "vq_new_name req = Some nm" "nm \<noteq> []" "vq_new_parent_id req = Some p" "p \<noteq> []"
    "get_node (w_db (dm_world d)) (vq_node_id req) = Some node"
    "find (\<lambda>m. ms_folder_id m = ln_folder_id node) (dm_mounts d) = Some m" "effective_token cfg m = Some token"
    "\<not> ms_update_required m" "\<not> mount_flag d m"
    "get_node (w_db (dm_world d)) p = Some parent" "ln_folder_id parent \<noteq> ln_folder_id node"
    "submit_op_daemon e cfg token (ms_folder_id m) (RenameOp (vq_node_id req) (vq_based_on_seq req) nm) (dm_world d) =
       (Inr (Applied seq i), w')"
  shows "\<exists>d' n. fp_move e cfg req d = (Inl (EConflict ''cross_folder_move_rejected''), d') \<and>
    get_node (w_db (dm_world d')) (vq_node_id req) = Some n \<and> ln_name n = nm \<and> ln_server_seq n = seq \<and>
    w_sent (dm_world d') = w_sent (dm_world d) @
      [submit_request (dc_backend_url cfg) token (ms_folder_id m) (RenameOp (vq_node_id req) (vq_based_on_seq req) nm)]"
proof -
  let ?stored = "node \<lparr> ln_name := nm, ln_server_seq := seq \<rparr>"
  let ?d1 = "d \<lparr> dm_world := w' \<lparr> w_db := upsert_node ?stored (w_db w') \<rparr> \<rparr>"
  have w': "w' = (dm_world d) \<lparr> w_sent := w_sent (dm_world d) @
      [submit_request (dc_backend_url cfg) token (ms_folder_id m) (RenameOp (vq_node_id req) (vq_based_on_seq req) nm)] \<rparr>"
    by (rule submit_run [OF assms(13)])
  have i: "ln_node_id node = vq_node_id req" using assms(6) by (rule get_node_key)
  have store: "submit_then_store e cfg m token (RenameOp (vq_node_id req) (vq_based_on_seq req) nm) (node \<lparr> ln_name := nm \<rparr>) d =
      (Inr ?stored, ?d1)"
    using submit_for_mount_run [OF assms(9,10,13)]
    by (simp add: submit_then_store_def applied_server_seq_def on_world_def write_db_def run_simps Let_def)
  have other: "ln_node_id ?stored \<noteq> p" using assms(6,11,12) i by auto
  have p1: "get_node (w_db (dm_world ?d1)) p = Some parent"
    using other assms(11) by (simp add: get_node_upsert_other w')
  have run: "fp_move e cfg req d = (Inl (EConflict ''cross_folder_move_rejected''), ?d1)"
    unfolding fp_move_def validate_move_request_def node_or_missing_def mount_and_token_def move_name_def move_parent_def
    using assms(1-8,12) p1 store resolve_folder_run [OF assms(7)]
    by (simp add: fp_db_def run_simps require_credential_def)
  have "get_node (upsert_node ?stored (w_db w')) (ln_node_id ?stored) \<noteq> None"
    using get_node_upsert_same [of ?stored "w_db w'"] by simp
  then obtain n where n: "get_node (w_db (dm_world ?d1)) (vq_node_id req) = Some n" using i by auto
  then have "ln_name n = nm \<and> ln_server_seq n = seq"
    using get_node_upsert_same [of ?stored "w_db w'"] i
    by (auto simp: plain_node_def merge_node_def split: option.splits)
  then show ?thesis using run n w' by auto
qed

section \<open>Uploads\<close>

text \<open>An upload without a node id over a live sibling of that name does not find the sibling's node:
  it gets a fresh id, submits no creation for it, and goes on to submit a version for that id, which
  neither mirror nor server knows.\<close>

lemma upload_over_sibling_has_no_node:
  assumes "fp_upload e cfg req d = (Inr (i, x), d')" "uq_node_id req = None"
    "get_node (w_db (dm_world d)) i = None"
    "get_node_by_parent_and_name (w_db (dm_world d)) (uc_folder_id x) (Some (uc_parent_id x)) (uq_name req) = Some sibling"
  shows "i = env_uuid e (w_uuids (dm_world d)) \<and> \<not> uc_create_first x \<and>
    upload_seq e cfg req i x d2 = (Inr (ln_server_seq sibling), d2)"
proof -
  let ?d1 = "d \<lparr> dm_world := (dm_world d) \<lparr> w_uuids := Suc (w_uuids (dm_world d)) \<rparr> \<rparr>"
  obtain d2' where i: "i = env_uuid e (w_uuids (dm_world d))"
    and x: "resolve_upload_context cfg req i ?d1 = (Inr x, d2')"
    using assms(1,2) unfolding fp_upload_def validate_upload_request_def
    by (auto simp: on_world_def new_uuid_def ret_def fail_def writes_def elim!: try_op_InrE split: if_splits)
  obtain m parent d3 where u: "upload_parent req ?d1 = (Inr (m, parent), d3)"
    and x': "x = \<lparr> uc_mount = m, uc_folder_id = ln_folder_id parent, uc_token = uc_token x,
           uc_create_first = (or_else (get_node (w_db (dm_world d3)) i)
             (get_node_by_parent_and_name (w_db (dm_world d3)) (ln_folder_id parent) (Some (ln_node_id parent)) (uq_name req)) = None),
           uc_based_on_seq = (case or_else (map_option ln_server_seq (or_else (get_node (w_db (dm_world d3)) i)
             (get_node_by_parent_and_name (w_db (dm_world d3)) (ln_folder_id parent) (Some (ln_node_id parent)) (uq_name req)))) (uq_based_on_seq req) of
               Some s \<Rightarrow> s | None \<Rightarrow> ln_server_seq parent),
           uc_parent_id = ln_node_id parent, uc_initial_error = ms_error m \<rparr>"
    using x unfolding resolve_upload_context_def
    by (auto elim!: try_op_InrE simp: ensure_mount_not_update_required_def with_state_def require_credential_def fp_db_def
        reads_def ret_def fail_def split: if_splits option.splits)
  have "d3 = ?d1"
    using u unfolding upload_parent_def resolve_mount_for_query_def resolve_mount_for_folder_id_def parent_or_missing_def
    by (auto elim!: try_op_InrE simp: fp_db_def reads_def with_state_def ret_def fail_def
        split: if_splits option.splits list.splits)
  then have db: "w_db (dm_world d3) = w_db (dm_world d)" by simp
  have keys: "uc_folder_id x = ln_folder_id parent" "uc_parent_id x = ln_node_id parent"
    by (subst x', simp)+
  have "\<not> uc_create_first x \<and> uc_based_on_seq x = ln_server_seq sibling"
    using assms(3,4) unfolding keys by (subst (1 2) x') (simp add: db)
  then show ?thesis using i by (simp add: upload_seq_def ret_def)
qed

end
