(* ===== verification/Path_Props.thy ===== *)
theory Path_Props
  imports Mounts
begin

text \<open>
  Local paths and nodes: the walk down by names and the walk up by parents are inverse to each other.
\<close>

text \<open>\<open>hangs db f seed names i\<close>: the live node \<open>i\<close> of folder \<open>f\<close> is reached from \<open>seed\<close> by these names.\<close>

inductive hangs :: "mirror \<Rightarrow> string \<Rightarrow> string \<Rightarrow> string list \<Rightarrow> string \<Rightarrow> bool"
  for db :: mirror and f seed :: string where
  here: "hangs db f seed [] seed"
| child: "\<lbrakk>hangs db f seed names p; get_node db c = Some n; ln_parent_id n = Some p; ln_folder_id n = f; live n; c \<noteq> seed\<rbrakk>
    \<Longrightarrow> hangs db f seed (names @ [ln_name n]) c"

inductive_cases hangs_seedE: "hangs db f seed names seed"
inductive_cases hangsE: "hangs db f seed names c"

definition siblings_unique :: "mirror \<Rightarrow> string \<Rightarrow> bool" where
  "siblings_unique db f = (\<forall>n \<in> set (db_nodes db). \<forall>n' \<in> set (db_nodes db).
     ln_folder_id n = f \<and> ln_folder_id n' = f \<and> live n \<and> live n' \<and>
     ln_parent_id n = ln_parent_id n' \<and> ln_name n = ln_name n' \<longrightarrow> n = n')"

definition plain_name :: "string \<Rightarrow> bool" where
  "plain_name c = (normal_component c \<and> to_str c = Some c)"

lemma walk_names_append:
  "walk_names db f i (xs @ ys) = (case walk_names db f i xs of Inl err \<Rightarrow> Inl err | Inr j \<Rightarrow> walk_names db f j ys)"
  by (induction db f i xs rule: walk_names.induct) (auto split: option.split)

lemma child_found:
  assumes "siblings_unique db f" "get_node db c = Some n" "ln_parent_id n = Some p" "ln_folder_id n = f" "live n"
  shows "get_node_by_parent_and_name db f (Some p) (ln_name n) = Some n"
proof -
  have n: "n \<in> set (db_nodes db)" using get_node_mem assms(2) .
  then have "get_node_by_parent_and_name db f (Some p) (ln_name n) \<noteq> None"
    using assms(3-5) by (auto simp: get_node_by_parent_and_name_def find_None_iff)
  then obtain n' where n': "get_node_by_parent_and_name db f (Some p) (ln_name n) = Some n'" by blast
  then have "n' \<in> set (db_nodes db)" "ln_folder_id n' = f" "ln_parent_id n' = Some p" "ln_name n' = ln_name n" "live n'"
    unfolding get_node_by_parent_and_name_def by (auto simp: find_Some_iff)
  then have "n' = n" using assms(1,3-5) n unfolding siblings_unique_def by fastforce
  then show ?thesis using n' by simp
qed

lemma walk_down:
  assumes "hangs db f seed names i" "siblings_unique db f" "\<And>c. c \<in> set names \<Longrightarrow> plain_name c"
  shows "walk_names db f seed names = Inr i"
  using assms
proof (induction rule: hangs.induct)
  case (child names p c n)
  have "get_node_by_parent_and_name db f (Some p) (ln_name n) = Some n"
    using child_found child.prems(1) child.hyps(2-5) by blast
  moreover have "plain_name (ln_name n)" using child.prems(2) by simp
  ultimately show ?case
    using child get_node_key [OF child.hyps(2)] by (simp add: walk_names_append plain_name_def)
qed simp

lemma hangs_unique: "hangs db f seed ns c \<Longrightarrow> hangs db f seed ns' c \<Longrightarrow> ns = ns'"
proof (induction arbitrary: ns' rule: hangs.induct)
  case here
  then show ?case by (auto elim: hangs_seedE)
next
  case (child names p c n)
  from child.prems child.hyps(6) obtain names' p' n' where "ns' = names' @ [ln_name n']" "hangs db f seed names' p'"
    "get_node db c = Some n'" "ln_parent_id n' = Some p'"
    by (auto elim: hangsE)
  then show ?case using child.hyps(2,3) child.IH by auto
qed

lemma hangs_distinct:
  "hangs db f seed names c \<Longrightarrow> \<exists>ids. length ids = length names \<and> distinct ids \<and>
     set ids \<subseteq> ln_node_id ` set (db_nodes db) \<and> (\<forall>i \<in> set ids. \<exists>ns. hangs db f seed ns i \<and> length ns \<le> length names)"
proof (induction rule: hangs.induct)
  case (child names p c n)
  then obtain ids where ids: "length ids = length names" "distinct ids" "set ids \<subseteq> ln_node_id ` set (db_nodes db)"
    "\<forall>i \<in> set ids. \<exists>ns. hangs db f seed ns i \<and> length ns \<le> length names" by blast
  have h: "hangs db f seed (names @ [ln_name n]) c" using child.hyps by (intro hangs.child)
  then have "c \<notin> set ids" using ids(4) hangs_unique by fastforce
  moreover have "c \<in> ln_node_id ` set (db_nodes db)"
    using get_node_key [OF child.hyps(2)] get_node_mem [OF child.hyps(2)] by blast
  moreover have "\<forall>i \<in> set (c # ids). \<exists>ns. hangs db f seed ns i \<and> length ns \<le> length (names @ [ln_name n])"
    using ids(4) h by (auto intro: le_SucI)
  ultimately show ?case using ids(1-3) by (intro exI [of _ "c # ids"]) simp
qed simp

lemma hangs_length: "hangs db f seed names c \<Longrightarrow> length names \<le> length (db_nodes db)"
proof -
  assume "hangs db f seed names c"
  then obtain ids where ids: "length ids = length names" "distinct ids" "set ids \<subseteq> ln_node_id ` set (db_nodes db)"
    using hangs_distinct by blast
  have "length names = card (set ids)" using ids(1,2) distinct_card by metis
  also have "\<dots> \<le> card (ln_node_id ` set (db_nodes db))" using ids(3) by (intro card_mono) auto
  also have "\<dots> \<le> length (db_nodes db)" using card_image_le card_length order.trans by blast
  finally show ?thesis .
qed

lemma walk_up:
  assumes "hangs db f seed names i" "length names < k" "get_node db seed = Some t"
    "scope = Some seed \<or> scope = None \<and> ln_parent_id t = None"
  shows "name_segments k db scope i segs = Inr (names @ segs)"
  using assms
proof (induction arbitrary: k segs rule: hangs.induct)
  case here
  then show ?case using get_node_key [OF here(2)] by (cases k) auto
next
  case (child names p c n)
  obtain k' where k: "k = Suc k'" "length names < k'" using child.prems(1) by (cases k) auto
  have "scope \<noteq> Some (ln_node_id n)" using get_node_key [OF child.hyps(2)] child.hyps(6) child.prems(3) by auto
  then show ?case using child k by simp
qed

lemma get_node_member: "nodes_wf db \<Longrightarrow> n \<in> set (db_nodes db) \<Longrightarrow> get_node db (ln_node_id n) = Some n"
proof -
  have "distinct (map key rs) \<Longrightarrow> r \<in> set rs \<Longrightarrow> find_row key (key r) rs = Some r" for key :: "local_node \<Rightarrow> string" and r rs
    by (induction rs) auto
  then show "nodes_wf db \<Longrightarrow> n \<in> set (db_nodes db) \<Longrightarrow> ?thesis" by (simp add: get_node_def nodes_wf_def)
qed

lemma root_node_row:
  assumes "get_root_node db f = Some t"
  shows "t \<in> set (db_nodes db) \<and> ln_parent_id t = None"
proof -
  let ?rows = "filter (\<lambda>n. ln_folder_id n = f \<and> ln_parent_id n = None \<and> live n) (db_nodes db)"
  obtain rest where "sort_key ln_server_seq ?rows = t # rest"
    using assms unfolding get_root_node_def by (cases "sort_key ln_server_seq ?rows") simp_all
  then have "t \<in> set (sort_key ln_server_seq ?rows)" by (simp only: list.set_intros(1))
  then show ?thesis by simp
qed

text \<open>C21: paths of nodes round-trip: for a live node below the seed of a mount, whose names are plain and
  unique among live siblings, the path the daemon reports for the node is the names joined by
  slashes, and the local path that lies in the mount at those names resolves to the node.\<close>

theorem node_path_round_trip:
  assumes "hangs db (ms_folder_id m) seed names i" "\<And>c. c \<in> set names \<Longrightarrow> plain_name c"
    "siblings_unique db (ms_folder_id m)" "top_node db m = Some t" "seed = ln_node_id t" "nodes_wf db"
    "mount_of_path cwd fs mounts (path_parts (normalize_path cwd fs s)) = Some (m, names)"
  shows "resolve_node_path db i (ms_scope_node_id m) = Inr (intercalate ''/'' names) \<and>
    resolve_path_to_node cwd fs db mounts s =
      Inr \<lparr> rp_mount = m, rp_folder_id = ms_folder_id m, rp_node_id = i \<rparr>"
proof
  have t: "get_node db seed = Some t \<and> (ms_scope_node_id m = Some seed \<or> ms_scope_node_id m = None \<and> ln_parent_id t = None)"
  proof (cases "ms_scope_node_id m")
    case None
    then have r: "get_root_node db (ms_folder_id m) = Some t" using assms(4) by (simp add: top_node_def)
    from root_node_row [OF r] show ?thesis using None assms(5,6) get_node_member by simp
  next
    case (Some i)
    then show ?thesis using assms(4,5) get_node_key by (auto simp: top_node_def)
  qed
  show "resolve_node_path db i (ms_scope_node_id m) = Inr (intercalate ''/'' names)"
    using walk_up [OF assms(1), of "length (db_nodes db) + 2" t "ms_scope_node_id m" "[]"] t hangs_length [OF assms(1)]
    by (simp add: resolve_node_path_def)
  show "resolve_path_to_node cwd fs db mounts s = Inr \<lparr> rp_mount = m, rp_folder_id = ms_folder_id m, rp_node_id = i \<rparr>"
    using walk_down [OF assms(1,3,2)] assms(4,5,7) by (simp add: resolve_path_to_node_def)
qed

end
