(* ===== verification/Mounts_Props.thy ===== *)
theory Mounts_Props
  imports Mounts Sync_Loop_Props
begin

text \<open>
  Theorems about mounts: what mounting and unmounting do to the list and to the mirror, what a failed
  mount leaves behind, and the persisted mounts at the start of the daemon.
\<close>

section \<open>Listing\<close>

lemma put_mount_paths: "distinct (map ms_path ms) \<Longrightarrow> distinct (map ms_path (put_mount m ms))"
proof -
  assume d: "distinct (map ms_path ms)"
  have "map ms_path (update_first (\<lambda>x. ms_path x = ms_path m) (\<lambda>_. m) xs) = map ms_path xs" for xs
    by (induction xs) auto
  then show ?thesis using d by (auto simp: put_mount_def find_None_iff)
qed

lemma put_mount_set:
  assumes "distinct (map ms_path ms)"
  shows "set (put_mount m ms) = insert m {x \<in> set ms. ms_path x \<noteq> ms_path m}"
  using assms
proof (induction ms)
  case (Cons a ms)
  show ?case
  proof (cases "ms_path a = ms_path m")
    case True
    then have "ms_path m \<notin> ms_path ` set ms" using Cons.prems by simp
    then have "\<forall>x \<in> set ms. ms_path x \<noteq> ms_path m" by (metis imageI)
    then show ?thesis using True by (auto simp: put_mount_def)
  next
    case False
    then show ?thesis using Cons by (auto simp: put_mount_def split: if_splits)
  qed
qed (simp add: put_mount_def)

definition same_mounts :: "daemon \<Rightarrow> daemon \<Rightarrow> bool" where
  "same_mounts d d' = (dm_mounts d' = dm_mounts d)"

interpretation mounts_frame: state_preorder same_mounts
  by unfold_locales (simp_all add: same_mounts_def)

lemma on_world_mounts [simp]: "obeys same_mounts (on_world io)"
  by (auto simp: obeys_def on_world_def same_mounts_def split: prod.split)

lemma register_mounts [simp]:
  "obeys same_mounts (undo_mount p err)" "obeys same_mounts (register_mount e cfg p r token)"
  "obeys same_mounts (resolve_mount e cfg req)" "obeys same_mounts (fetch_folder_name e cfg f token)"
  "obeys same_mounts (validate_mount_request req)" "obeys same_mounts (require_credential t)"
proof -
  show u: "obeys same_mounts (undo_mount p err)" for p err
    unfolding undo_mount_def by (auto intro!: mounts_frame.obeys_rules)
  show "obeys same_mounts (register_mount e cfg p r token)"
    unfolding register_mount_def by (auto intro!: mounts_frame.obeys_rules u)
  show c: "obeys same_mounts (require_credential t)" for t
    unfolding require_credential_def by (auto intro!: mounts_frame.obeys_rules split: option.split)
  show "obeys same_mounts (resolve_mount e cfg req)"
    unfolding resolve_mount_def
    by (auto intro!: mounts_frame.obeys_rules c split: option.split reply_body.split list.split)
  show "obeys same_mounts (fetch_folder_name e cfg f token)" "obeys same_mounts (validate_mount_request req)"
    unfolding fetch_folder_name_def validate_mount_request_def
    by (auto intro!: mounts_frame.obeys_rules split: reply_body.split)
qed

lemma list_mount_run:
  "effective_token cfg m = Some token \<Longrightarrow>
   \<exists>d'. list_mount cfg now m d = (Inr (Some (new_sync_task now)), d') \<and> dm_mounts d' = put_mount m (dm_mounts d) \<and>
     ms_path m \<in> set (dm_tasks d')"
  by (simp add: list_mount_def cancel_tasks_for_mount_def spawn_tasks_for_mount_def run_simps)

lemma install_mount_run:
  assumes "install_mount e cfg now m d = (Inr (response, task), d')" "effective_token cfg m = Some token"
  shows "response = mount_response_of m \<and> task = Some (new_sync_task now) \<and>
    dm_mounts d' = put_mount m (dm_mounts d) \<and> ms_path m \<in> set (dm_tasks d')"
proof -
  have undo: "undo_mount p err d1 \<noteq> (Inr x, d2)" for p err d1 d2 and x :: "mount_response \<times> sync_task option"
    by (auto simp: undo_mount_def on_world_def write_db_def run_simps)
  obtain u d1 where m: "on_world (materialize_mount_files e (mount_ctx_of cfg m)) d = (Inr u, d1)"
    and l: "try_op (list_mount cfg now m) (\<lambda>task. ret (mount_response_of m, task)) d1 = (Inr (response, task), d')"
    using assms(1) undo unfolding install_mount_def match_op_def by (auto split: prod.splits sum.splits)
  obtain d2 where d2: "list_mount cfg now m d1 = (Inr (Some (new_sync_task now)), d2)"
    "dm_mounts d2 = put_mount m (dm_mounts d1)" "ms_path m \<in> set (dm_tasks d2)"
    using list_mount_run [OF assms(2)] by blast
  have "dm_mounts d1 = dm_mounts d" using obeys_run [OF on_world_mounts m] by (simp add: same_mounts_def)
  then show ?thesis using l d2 by (simp add: try_op_def ret_def)
qed

lemma post_mount_stages:
  assumes "post_mount e cfg cwd now req d = (Inr (response, task), d')"
  obtains r token name d1 where "rm_mount_token r = Some token \<or> rm_mount_token r = None \<and> dc_device_token cfg = Some token"
    "dm_mounts d1 = dm_mounts d"
    "install_mount e cfg now (mount_state_of (normalize_path cwd (w_fs (dm_world d)) (mq_path req)) r name) d1 = (Inr (response, task), d')"
proof -
  let ?p = "normalize_path cwd (w_fs (dm_world d)) (mq_path req)"
  have valid: "d1 = d" if "validate_mount_request req d = (Inr u, d1)" for u d1
    using that by (auto simp: validate_mount_request_def run_simps split: if_splits)
  obtain r token local_name name d2 d3 d4 d5 d6 where
    r: "resolve_mount e cfg req d = (Inr r, d2)" and
    t: "require_credential (or_else (rm_mount_token r) (dc_device_token cfg)) d2 = (Inr token, d3)" and
    g: "register_mount e cfg ?p r token d3 = (Inr local_name, d4)" and
    n: "(case local_name of Some name \<Rightarrow> ret name | None \<Rightarrow> fetch_folder_name e cfg (rm_folder_id r) token) d4 = (Inr name, d5)" and
    w: "on_world (write_db (set_mount_name ?p name)) d5 = (Inr (), d6)" and
    i: "install_mount e cfg now (mount_state_of ?p r name) d6 = (Inr (response, task), d')"
    using assms unfolding post_mount_def reads_def
    by (elim try_op_InrE) (auto dest!: valid)
  have "same_mounts d4 d5"
    using n obeys_run [OF register_mounts(4)] by (cases local_name) (auto simp: ret_def same_mounts_def)
  then have "dm_mounts d6 = dm_mounts d"
    using obeys_run [OF register_mounts(3) r] obeys_run [OF register_mounts(6) t]
      obeys_run [OF register_mounts(2) g] obeys_run [OF on_world_mounts w] by (simp add: same_mounts_def)
  moreover have "rm_mount_token r = Some token \<or> rm_mount_token r = None \<and> dc_device_token cfg = Some token"
    using t by (cases "rm_mount_token r") (auto simp: require_credential_def run_simps split: option.splits)
  ultimately show ?thesis using that i by blast
qed

text \<open>a successful mount lists the new mount, fresh and under its canonical path, in place of an
  earlier mount of that path, keeps every other mount and the paths distinct, and starts its loop.\<close>

theorem mount_is_listed:
  assumes "post_mount e cfg cwd now req d = (Inr (response, task), d')" "distinct (map ms_path (dm_mounts d))"
  shows "\<exists>r name. mr_path response = normalize_path cwd (w_fs (dm_world d)) (mq_path req) \<and>
    mr_folder_id response = rm_folder_id r \<and>
    set (dm_mounts d') = insert (mount_state_of (mr_path response) r name)
      {x \<in> set (dm_mounts d). ms_path x \<noteq> mr_path response} \<and>
    distinct (map ms_path (dm_mounts d')) \<and> task = Some (new_sync_task now) \<and> mr_path response \<in> set (dm_tasks d')"
proof -
  let ?p = "normalize_path cwd (w_fs (dm_world d)) (mq_path req)"
  obtain r token name d1 where
    t: "rm_mount_token r = Some token \<or> rm_mount_token r = None \<and> dc_device_token cfg = Some token" and
    d1: "dm_mounts d1 = dm_mounts d" and
    i: "install_mount e cfg now (mount_state_of ?p r name) d1 = (Inr (response, task), d')"
    using post_mount_stages [OF assms(1)] .
  let ?m = "mount_state_of ?p r name"
  have "effective_token cfg ?m = Some token"
    using t by (auto simp: effective_token_def mount_state_of_def)
  then have run: "response = mount_response_of ?m" "task = Some (new_sync_task now)"
    "dm_mounts d' = put_mount ?m (dm_mounts d)" "ms_path ?m \<in> set (dm_tasks d')"
    using install_mount_run [OF i] d1 by auto
  have sel: "ms_path ?m = ?p" "ms_folder_id ?m = rm_folder_id r" by (simp_all add: mount_state_of_def)
  have resp: "mr_path response = ?p" "mr_folder_id response = rm_folder_id r"
    using run(1) sel by (simp_all add: mount_response_of_def)
  show ?thesis
    using put_mount_set [OF assms(2), of ?m] put_mount_paths [OF assms(2), of ?m] run(2-4) resp sel by auto
qed

text \<open>Unmounting a folder removes exactly its mount from the list, the mirror and the tasks; nodes,
  versions and chunks stay in the mirror, no file is touched and nothing is sent.\<close>

lemma unmount_is_local:
  assumes "trim_ws f \<noteq> []" "find (\<lambda>m. ms_folder_id m = f) (dm_mounts d) = Some m"
  shows "\<exists>d'. delete_mount_route f d = (Inr (), d') \<and>
    dm_mounts d' = filter (\<lambda>x. ms_path x \<noteq> ms_path m) (dm_mounts d) \<and> ms_path m \<notin> set (dm_tasks d') \<and>
    db_mounts (w_db (dm_world d')) = filter (\<lambda>r. lm_path r \<noteq> ms_path m) (db_mounts (w_db (dm_world d))) \<and>
    (w_db (dm_world d')) \<lparr> db_mounts := db_mounts (w_db (dm_world d)) \<rparr> = w_db (dm_world d) \<and>
    w_fs (dm_world d') = w_fs (dm_world d) \<and> w_sent (dm_world d') = w_sent (dm_world d)"
  using assms by (simp add: delete_mount_route_def cancel_tasks_for_mount_def on_world_def write_db_def run_simps
      delete_mount_def delete_rows_def)

text \<open>Mounting a folder again at its path while the server cannot be reached takes the existing mount
  out of the mirror although it stays listed and its tasks stay: the mount is gone after a restart.\<close>

lemma failed_remount_forgets_mount:
  assumes "validate_mount_request req d = (Inr (), d)" "mq_folder_id req = Some f" "mq_grant_token req = None"
    "dc_device_token cfg = Some token" "p = normalize_path cwd (w_fs (dm_world d)) (mq_path req)"
    "upsert_mount p f None None None True (w_db (dm_world d)) = (Inr (), db1)"
    "tree_resync e (dc_backend_url cfg) token f ((dm_world d) \<lparr> w_db := db1 \<rparr>) = (Inl err, w1)" "err \<noteq> ENoFuel"
  shows "\<exists>d'. post_mount e cfg cwd now req d = (Inl (EInternal err), d') \<and>
    get_mount (w_db (dm_world d')) p = None \<and> dm_mounts d' = dm_mounts d \<and> dm_tasks d' = dm_tasks d"
proof -
  have "get_mount (delete_mount p db) p = None" for db
    by (auto simp: get_mount_def delete_mount_def find_row_None delete_rows_def)
  then show ?thesis
    using assms by (simp add: post_mount_def resolve_mount_def whole_folder_def require_credential_def register_mount_def
        on_world_def on_db_def undo_mount_def write_db_def run_simps)
qed

section \<open>The mounts at the start\<close>

text \<open>One row of the loop: a row of another path than its canonical one takes that path, unless the path
  is taken, then one of the two rows stays.\<close>

definition canonical_step :: "(string \<Rightarrow> string) \<Rightarrow> local_mount list \<Rightarrow> local_mount \<Rightarrow> local_mount list" where
  "canonical_step nf ms r =
     (let c = nf (lm_path r); moved = update_rows (\<lambda>m. lm_path m = lm_path r) (\<lambda>m. m \<lparr> lm_path := c \<rparr>) in
      if c = lm_path r then ms
      else case find_row lm_path c ms of
          Some existing \<Rightarrow>
            if lm_mount_token r \<noteq> None \<and> lm_mount_token existing = None
            then moved (delete_rows (\<lambda>m. lm_path m = c) ms)
            else delete_rows (\<lambda>m. lm_path m = lm_path r) ms
        | None \<Rightarrow> moved ms)"

lemma find_deleted: "find_row key k (delete_rows (\<lambda>r. key r = k) rows) = None"
  by (auto simp: find_row_None delete_rows_def)

lemma normalize_persisted_mount_run:
  "normalize_persisted_mount cwd fs r db =
    (Inr (), db \<lparr> db_mounts := canonical_step (normalize_path cwd fs) (db_mounts db) r \<rparr>)"
proof (cases "find_row lm_path (normalize_path cwd fs (lm_path r)) (db_mounts db)")
  case None
  then show ?thesis
    by (simp add: normalize_persisted_mount_def canonical_step_def update_mount_path_def get_mount_def run_simps Let_def)
next
  case (Some existing)
  then show ?thesis
    by (simp add: normalize_persisted_mount_def canonical_step_def update_mount_path_def get_mount_def delete_mount_def
        run_simps Let_def find_deleted)
qed

lemma normalize_persisted_run:
  "for_each rs (\<lambda>r _. normalize_persisted_mount cwd fs r) () db =
    (Inr (), db \<lparr> db_mounts := foldl (canonical_step (normalize_path cwd fs)) (db_mounts db) rs \<rparr>)"
  by (induction rs arbitrary: db) (simp_all add: normalize_persisted_mount_run run_simps)

text \<open>What holds between two rows of the loop: \<open>old\<close> are the rows at the start, \<open>rs\<close> those still to come.\<close>

definition canonical_so_far ::
    "(string \<Rightarrow> string) \<Rightarrow> local_mount set \<Rightarrow> local_mount list \<Rightarrow> local_mount list \<Rightarrow> bool" where
  "canonical_so_far nf old rs ms =
     (distinct (map lm_path ms) \<and> distinct (map lm_folder_id ms) \<and>
      (\<forall>r \<in> set rs. nf (lm_path r) \<noteq> lm_path r \<longrightarrow> r \<in> set ms) \<and>
      (\<forall>m \<in> set ms. nf (lm_path m) = lm_path m \<or> m \<in> set rs) \<and>
      (\<forall>r \<in> old. r \<in> set rs \<and> nf (lm_path r) \<noteq> lm_path r \<or>
        (\<exists>m \<in> set ms. lm_path m = nf (lm_path r) \<and> (lm_mount_token r \<noteq> None \<longrightarrow> lm_mount_token m \<noteq> None))) \<and>
      (\<forall>m \<in> set ms. \<exists>r \<in> old. nf (lm_path r) = nf (lm_path m) \<and> m = r \<lparr> lm_path := lm_path m \<rparr>))"

lemma canonical_so_farD:
  assumes "canonical_so_far nf old rs ms"
  shows "distinct (map lm_path ms)" "distinct (map lm_folder_id ms)"
    "r \<in> set rs \<Longrightarrow> nf (lm_path r) \<noteq> lm_path r \<Longrightarrow> r \<in> set ms"
    "m \<in> set ms \<Longrightarrow> nf (lm_path m) = lm_path m \<or> m \<in> set rs"
    "m \<in> set ms \<Longrightarrow> \<exists>r \<in> old. nf (lm_path r) = nf (lm_path m) \<and> m = r \<lparr> lm_path := lm_path m \<rparr>"
  using assms unfolding canonical_so_far_def by blast+

lemma canonical_so_far_covers:
  assumes "canonical_so_far nf old rs ms" "x \<in> old" "x \<in> set rs \<longrightarrow> nf (lm_path x) = lm_path x"
  obtains m where "m \<in> set ms" "lm_path m = nf (lm_path x)" "lm_mount_token x \<noteq> None \<longrightarrow> lm_mount_token m \<noteq> None"
proof -
  have "\<forall>r \<in> old. r \<in> set rs \<and> nf (lm_path r) \<noteq> lm_path r \<or>
      (\<exists>m \<in> set ms. lm_path m = nf (lm_path r) \<and> (lm_mount_token r \<noteq> None \<longrightarrow> lm_mount_token m \<noteq> None))"
    using assms(1) unfolding canonical_so_far_def by (elim conjE) assumption
  from bspec [OF this assms(2)] show ?thesis using that assms(3) by fastforce
qed

lemma moved_rows:
  assumes "distinct (map lm_path ms)" "r \<in> set ms"
  shows "set (update_rows (\<lambda>m. lm_path m = lm_path r) (\<lambda>m. m \<lparr> lm_path := c \<rparr>) ms) =
    insert (r \<lparr> lm_path := c \<rparr>) (set ms - {r})"
proof -
  have "lm_path m = lm_path r \<longleftrightarrow> m = r" if "m \<in> set ms" for m
    using assms that by (auto simp: distinct_map inj_on_def)
  then have "set (update_rows (\<lambda>m. lm_path m = lm_path r) (\<lambda>m. m \<lparr> lm_path := c \<rparr>) ms) =
      (\<lambda>m. if m = r then r \<lparr> lm_path := c \<rparr> else m) ` set ms"
    unfolding update_rows_def set_map by (intro image_cong) auto
  also have "\<dots> = insert (r \<lparr> lm_path := c \<rparr>) (set ms - {r})" using assms(2) by (auto simp: image_iff)
  finally show ?thesis .
qed

lemma moved_distinct:
  assumes "distinct (map lm_path ms)" "c \<notin> lm_path ` set ms"
  shows "distinct (map lm_path (update_rows (\<lambda>m. lm_path m = p) (\<lambda>m. m \<lparr> lm_path := c \<rparr>) ms))"
  using assms by (induction ms) (auto simp: update_rows_def image_iff)

lemma moved_folders:
  "map lm_folder_id (update_rows P (\<lambda>m. m \<lparr> lm_path := c \<rparr>) ms) = map lm_folder_id ms"
  by (simp add: update_rows_keys)

lemma canonical_step_moves:
  assumes inv: "canonical_so_far nf old (r # rs) ms" and "distinct (map lm_path (r # rs))"
    and "nf (lm_path r) \<noteq> lm_path r" and idem: "\<forall>x \<in> old. nf (nf (lm_path x)) = nf (lm_path x)"
    and sub: "ms' = ms \<or> ms' = delete_rows (\<lambda>m. lm_path m = nf (lm_path r)) ms"
    and free: "nf (lm_path r) \<notin> lm_path ` set ms'"
    and weaker: "\<forall>m \<in> set ms. lm_path m = nf (lm_path r) \<longrightarrow> lm_mount_token m = None"
  shows "canonical_so_far nf old rs
    (update_rows (\<lambda>m. lm_path m = lm_path r) (\<lambda>m. m \<lparr> lm_path := nf (lm_path r) \<rparr>) ms')"
proof -
  let ?c = "nf (lm_path r)" and ?r = "r \<lparr> lm_path := nf (lm_path r) \<rparr>"
  have r: "r \<in> set ms" using inv assms(3) by (simp add: canonical_so_far_def)
  obtain o1 where o1: "o1 \<in> old" "nf (lm_path o1) = ?c" "r = o1 \<lparr> lm_path := lm_path r \<rparr>"
    using inv r unfolding canonical_so_far_def by blast
  have c: "nf ?c = ?c" using idem o1(1,2) by metis
  have set': "set ms' = {m \<in> set ms. lm_path m \<noteq> ?c}" using sub free by (auto simp: delete_rows_def image_iff)
  have d: "distinct (map lm_path ms')" "distinct (map lm_folder_id ms')"
    using sub inv distinct_delete_rows by (auto simp: canonical_so_far_def)
  have rows: "set (update_rows (\<lambda>m. lm_path m = lm_path r) (\<lambda>m. m \<lparr> lm_path := ?c \<rparr>) ms') = insert ?r (set ms' - {r})"
    using moved_rows [OF d(1)] r set' assms(3) by auto
  show ?thesis
    unfolding canonical_so_far_def rows set'
  proof (intro conjI ballI impI)
    show "distinct (map lm_path (update_rows (\<lambda>m. lm_path m = lm_path r) (\<lambda>m. m \<lparr> lm_path := ?c \<rparr>) ms'))"
      by (rule moved_distinct [OF d(1) free])
  next
    show "distinct (map lm_folder_id (update_rows (\<lambda>m. lm_path m = lm_path r) (\<lambda>m. m \<lparr> lm_path := ?c \<rparr>) ms'))"
      using d(2) by (simp add: moved_folders)
  next
    fix x assume x: "x \<in> set rs" "nf (lm_path x) \<noteq> lm_path x"
    then have "x \<in> set ms" "x \<noteq> r" "lm_path x \<noteq> ?c"
      using inv assms(2) c by (auto simp: canonical_so_far_def)
    then show "x \<in> insert ?r ({m \<in> set ms. lm_path m \<noteq> ?c} - {r})" by simp
  next
    fix m assume "m \<in> insert ?r ({m \<in> set ms. lm_path m \<noteq> ?c} - {r})"
    then show "nf (lm_path m) = lm_path m \<or> m \<in> set rs"
      using inv c by (auto simp: canonical_so_far_def)
  next
    fix x assume x: "x \<in> old"
    show "x \<in> set rs \<and> nf (lm_path x) \<noteq> lm_path x \<or>
      (\<exists>m \<in> insert ?r ({m \<in> set ms. lm_path m \<noteq> ?c} - {r}). lm_path m = nf (lm_path x) \<and>
        (lm_mount_token x \<noteq> None \<longrightarrow> lm_mount_token m \<noteq> None))"
    proof (cases "x = r \<or> (x \<in> set rs \<and> nf (lm_path x) \<noteq> lm_path x)")
      case False
      then have "x \<in> set (r # rs) \<longrightarrow> nf (lm_path x) = lm_path x" by auto
      then obtain m where m: "m \<in> set ms" "lm_path m = nf (lm_path x)" "lm_mount_token x \<noteq> None \<longrightarrow> lm_mount_token m \<noteq> None"
        using canonical_so_far_covers [OF inv x] by blast
      show ?thesis
      proof (cases "nf (lm_path x) = ?c")
        case True
        then have "lm_mount_token x = None" using m weaker by auto
        then show ?thesis using True by auto
      next
        case F: False
        have "m \<noteq> r" using m(2) assms(3) idem x by auto
        then show ?thesis using m F by auto
      qed
    qed auto
  next
    fix m assume m: "m \<in> insert ?r ({m \<in> set ms. lm_path m \<noteq> ?c} - {r})"
    show "\<exists>x \<in> old. nf (lm_path x) = nf (lm_path m) \<and> m = x \<lparr> lm_path := lm_path m \<rparr>"
    proof (cases "m = ?r")
      case True
      have "?r = o1 \<lparr> lm_path := ?c \<rparr>" using o1(3) by (metis local_mount.surjective local_mount.update_convs(1))
      then show ?thesis using True o1(1,2) c by (intro bexI [of _ o1]) simp_all
    next
      case False
      then show ?thesis using inv m unfolding canonical_so_far_def by blast
    qed
  qed
qed

lemma canonical_step_drops:
  assumes inv: "canonical_so_far nf old (r # rs) ms" and "distinct (map lm_path (r # rs))"
    and "nf (lm_path r) \<noteq> lm_path r" and idem: "\<forall>x \<in> old. nf (nf (lm_path x)) = nf (lm_path x)"
    and kept: "k \<in> set ms" "lm_path k = nf (lm_path r)" "lm_mount_token r \<noteq> None \<longrightarrow> lm_mount_token k \<noteq> None"
  shows "canonical_so_far nf old rs (delete_rows (\<lambda>m. lm_path m = lm_path r) ms)"
proof -
  have r: "r \<in> set ms" using inv assms(3) by (simp add: canonical_so_far_def)
  have rows: "set (delete_rows (\<lambda>m. lm_path m = lm_path r) ms) = set ms - {r}"
    using inv r by (auto simp: delete_rows_def canonical_so_far_def distinct_map inj_on_def)
  show ?thesis
    unfolding canonical_so_far_def rows
  proof (intro conjI ballI impI)
    show "distinct (map lm_path (delete_rows (\<lambda>m. lm_path m = lm_path r) ms))"
      "distinct (map lm_folder_id (delete_rows (\<lambda>m. lm_path m = lm_path r) ms))"
      using inv distinct_delete_rows by (auto simp: canonical_so_far_def)
  next
    fix x assume "x \<in> set rs" "nf (lm_path x) \<noteq> lm_path x"
    then show "x \<in> set ms - {r}" using inv assms(2) by (auto simp: canonical_so_far_def)
  next
    fix m assume "m \<in> set ms - {r}"
    then show "nf (lm_path m) = lm_path m \<or> m \<in> set rs" using inv by (auto simp: canonical_so_far_def)
  next
    fix x assume x: "x \<in> old"
    have other: "m \<noteq> r" if "lm_path m = nf (lm_path x)" for m
      using that assms(3) idem x by auto
    have "k \<noteq> r" using kept(2) assms(3) by auto
    show "x \<in> set rs \<and> nf (lm_path x) \<noteq> lm_path x \<or>
      (\<exists>m \<in> set ms - {r}. lm_path m = nf (lm_path x) \<and> (lm_mount_token x \<noteq> None \<longrightarrow> lm_mount_token m \<noteq> None))"
    proof (cases "x = r")
      case True
      then show ?thesis using kept \<open>k \<noteq> r\<close> by blast
    next
      case False
      show ?thesis
      proof (cases "x \<in> set rs \<and> nf (lm_path x) \<noteq> lm_path x")
        case False
        then have "x \<in> set (r # rs) \<longrightarrow> nf (lm_path x) = lm_path x" using \<open>x \<noteq> r\<close> by auto
        then obtain m where "m \<in> set ms" "lm_path m = nf (lm_path x)" "lm_mount_token x \<noteq> None \<longrightarrow> lm_mount_token m \<noteq> None"
          using canonical_so_far_covers [OF inv x] by blast
        then show ?thesis using other by blast
      qed simp
    qed
  next
    fix m assume "m \<in> set ms - {r}"
    then show "\<exists>x \<in> old. nf (lm_path x) = nf (lm_path m) \<and> m = x \<lparr> lm_path := lm_path m \<rparr>"
      using inv unfolding canonical_so_far_def by blast
  qed
qed

lemma canonical_step_inv:
  assumes "canonical_so_far nf old (r # rs) ms" "distinct (map lm_path (r # rs))"
    "\<forall>x \<in> old. nf (nf (lm_path x)) = nf (lm_path x)"
  shows "canonical_so_far nf old rs (canonical_step nf ms r)"
proof (cases "nf (lm_path r) = lm_path r")
  case True
  then show ?thesis using assms(1) by (auto simp: canonical_step_def canonical_so_far_def)
next
  case noncanonical: False
  let ?c = "nf (lm_path r)"
  have d: "distinct (map lm_path ms)" using assms(1) by (simp add: canonical_so_far_def)
  show ?thesis
  proof (cases "find_row lm_path ?c ms")
    case None
    then have free: "?c \<notin> lm_path ` set ms" by (simp add: find_row_None)
    then have "\<forall>m \<in> set ms. lm_path m = ?c \<longrightarrow> lm_mount_token m = None" by (metis imageI)
    from canonical_step_moves [OF assms(1,2) noncanonical assms(3) disjI1 [OF refl] free this]
    show ?thesis using None noncanonical by (simp add: canonical_step_def Let_def)
  next
    case (Some k)
    then have k: "k \<in> set ms" "lm_path k = ?c" using find_row_key by metis+
    have only: "m = k" if "m \<in> set ms" "lm_path m = ?c" for m
      using that k d by (simp add: distinct_map inj_on_def)
    show ?thesis
    proof (cases "lm_mount_token r \<noteq> None \<and> lm_mount_token k = None")
      case True
      then have weaker: "\<forall>m \<in> set ms. lm_path m = ?c \<longrightarrow> lm_mount_token m = None" using only by blast
      have free: "?c \<notin> lm_path ` set (delete_rows (\<lambda>m. lm_path m = ?c) ms)" by (auto simp: delete_rows_def)
      from canonical_step_moves [OF assms(1,2) noncanonical assms(3) disjI2 [OF refl] free weaker]
      show ?thesis using True noncanonical Some by (simp add: canonical_step_def Let_def)
    next
      case False
      then show ?thesis
        using canonical_step_drops [OF assms(1,2) noncanonical assms(3) k] noncanonical Some
        by (auto simp: canonical_step_def Let_def)
    qed
  qed
qed

lemma canonical_steps_inv:
  assumes "canonical_so_far nf old rs ms" "distinct (map lm_path rs)"
    "\<forall>x \<in> old. nf (nf (lm_path x)) = nf (lm_path x)"
  shows "canonical_so_far nf old [] (foldl (canonical_step nf) ms rs)"
  using assms
proof (induction rs arbitrary: ms)
  case (Cons r rs)
  show ?case
    using Cons.IH [OF canonical_step_inv [OF Cons.prems]] Cons.prems(2,3) by simp
qed simp

lemma normalize_persisted_mounts:
  assumes "mounts_wf db"
    "\<forall>r \<in> set (db_mounts db). normalize_path cwd fs (normalize_path cwd fs (lm_path r)) = normalize_path cwd fs (lm_path r)"
  shows "\<exists>ms. normalize_persisted_mount_paths cwd fs db = (Inr (), db \<lparr> db_mounts := ms \<rparr>) \<and>
    canonical_so_far (normalize_path cwd fs) (set (db_mounts db)) [] ms"
proof -
  let ?nf = "normalize_path cwd fs" and ?rs = "list_mounts db"
  have same: "m = m \<lparr> lm_path := lm_path m \<rparr>" for m :: local_mount by simp
  have rs: "set ?rs = set (db_mounts db)" "distinct (map lm_path ?rs)"
    using assms(1) by (auto simp: list_mounts_def mounts_wf_def distinct_map)
  have "canonical_so_far ?nf (set (db_mounts db)) ?rs (db_mounts db)"
    using assms(1) rs(1) unfolding canonical_so_far_def mounts_wf_def
    by (intro conjI ballI impI disjCI) (auto intro: bexI same)
  then have "canonical_so_far ?nf (set (db_mounts db)) [] (foldl (canonical_step ?nf) (db_mounts db) ?rs)"
    using canonical_steps_inv rs(2) assms(2) by blast
  moreover have "normalize_persisted_mount_paths cwd fs db =
      (Inr (), db \<lparr> db_mounts := foldl (canonical_step ?nf) (db_mounts db) ?rs \<rparr>)"
    by (simp add: normalize_persisted_mount_paths_def with_state_def normalize_persisted_run)
  ultimately show ?thesis by blast
qed

text \<open>C12: at the start every mount takes its canonical path: of the rows that share one exactly one stays,
  one with a credential if any of them has one, nothing else of a row or of the mirror changes, and the
  step never fails.\<close>

theorem persisted_mounts_are_canonical:
  assumes "mounts_wf db"
    "\<forall>r \<in> set (db_mounts db). normalize_path cwd fs (normalize_path cwd fs (lm_path r)) = normalize_path cwd fs (lm_path r)"
  shows "\<exists>ms. normalize_persisted_mount_paths cwd fs db = (Inr (), db \<lparr> db_mounts := ms \<rparr>) \<and>
    distinct (map lm_path ms) \<and> distinct (map lm_folder_id ms) \<and>
    (\<forall>m \<in> set ms. normalize_path cwd fs (lm_path m) = lm_path m \<and>
      (\<exists>r \<in> set (db_mounts db). normalize_path cwd fs (lm_path r) = lm_path m \<and> m = r \<lparr> lm_path := lm_path m \<rparr>)) \<and>
    (\<forall>r \<in> set (db_mounts db). \<exists>m \<in> set ms. lm_path m = normalize_path cwd fs (lm_path r) \<and>
      (lm_mount_token r \<noteq> None \<longrightarrow> lm_mount_token m \<noteq> None))"
proof -
  obtain ms where run: "normalize_persisted_mount_paths cwd fs db = (Inr (), db \<lparr> db_mounts := ms \<rparr>)"
    and inv: "canonical_so_far (normalize_path cwd fs) (set (db_mounts db)) [] ms"
    using normalize_persisted_mounts [OF assms] by blast
  have canon: "normalize_path cwd fs (lm_path m) = lm_path m" if "m \<in> set ms" for m
    using canonical_so_farD(4) [OF inv that] by simp
  have old: "\<exists>r \<in> set (db_mounts db). normalize_path cwd fs (lm_path r) = lm_path m \<and> m = r \<lparr> lm_path := lm_path m \<rparr>"
    if "m \<in> set ms" for m
    using canonical_so_farD(5) [OF inv that] canon [OF that] by simp
  have kept: "\<exists>m \<in> set ms. lm_path m = normalize_path cwd fs (lm_path r) \<and> (lm_mount_token r \<noteq> None \<longrightarrow> lm_mount_token m \<noteq> None)"
    if "r \<in> set (db_mounts db)" for r
    using canonical_so_far_covers [OF inv that] by (metis empty_iff list.set(1))
  show ?thesis using run canonical_so_farD(1,2) [OF inv] canon old kept by blast
qed

lemma canonical_rows_stay:
  "\<forall>r \<in> set rs. normalize_path cwd fs (lm_path r) = lm_path r \<Longrightarrow>
   foldl (canonical_step (normalize_path cwd fs)) ms rs = ms"
  by (induction rs) (simp_all add: canonical_step_def)

lemma distinct_replaced:
  assumes "distinct (map key rows)" "distinct (map other rows)"
    and "\<And>r. r \<in> set rows \<Longrightarrow> other r = f \<Longrightarrow> key r = k" "\<And>r. other (g r) = f"
  shows "distinct (map other (update_rows (\<lambda>r. key r = k) g rows))"
  using assms
proof (induction rows)
  case (Cons a rows)
  show ?case
  proof (cases "key a = k")
    case True
    then have tail: "k \<notin> key ` set rows" using Cons.prems(1) by auto
    then have "update_rows (\<lambda>r. key r = k) g rows = rows" by (intro update_rows_fixed) auto
    moreover have "f \<notin> other ` set rows" using tail Cons.prems(3) by auto
    ultimately show ?thesis using True Cons.prems(2,4) by (simp add: update_rows_def)
  next
    case False
    then have "other a \<noteq> f" using Cons.prems(3) by auto
    then have "other a \<notin> other ` set (update_rows (\<lambda>r. key r = k) g rows)"
      using Cons.prems(2,4) by (auto simp: update_rows_def)
    moreover have "distinct (map other (update_rows (\<lambda>r. key r = k) g rows))" using Cons by simp
    moreover have "map other (update_rows (\<lambda>r. key r = k) g (a # rows)) = other a # map other (update_rows (\<lambda>r. key r = k) g rows)"
      using False by (simp add: update_rows_def)
    ultimately show ?thesis by (simp only: distinct.simps set_map simp_thms)
  qed
qed (simp add: update_rows_def)

lemma upsert_mount_wf:
  assumes "mounts_wf db" "upsert_mount p f g sc t cw db = (Inr u, db')"
  shows "mounts_wf db'"
proof -
  let ?new = "\<lparr> lm_path = p, lm_folder_id = f, lm_grant_id = g, lm_scope_node_id = sc, lm_mount_token = t,
    lm_cursor = 0, lm_can_write = cw, lm_name = None \<rparr>"
  let ?merge = "\<lambda>old new. new \<lparr> lm_cursor := lm_cursor old, lm_name := lm_name old \<rparr>"
  have own: "r \<in> set (db_mounts db) \<Longrightarrow> lm_folder_id r = f \<Longrightarrow> lm_path r = p" for r
    using assms(2) by (auto simp: upsert_mount_def run_simps list_ex_iff split: if_splits)
  have db': "db_mounts db' = upsert_row lm_path ?merge ?new (db_mounts db)"
    using assms(2) by (auto simp: upsert_mount_def run_simps split: if_splits)
  have d: "distinct (map lm_path (db_mounts db))" "distinct (map lm_folder_id (db_mounts db))"
    using assms(1) by (simp_all add: mounts_wf_def)
  have "distinct (map lm_folder_id (upsert_row lm_path ?merge ?new (db_mounts db)))"
  proof (cases "find_row lm_path p (db_mounts db)")
    case None
    then have "f \<notin> lm_folder_id ` set (db_mounts db)" using own by (auto simp: find_row_None)
    then show ?thesis using d(2) None by (simp add: upsert_row_def)
  next
    case (Some r)
    then show ?thesis using distinct_replaced [OF d, where f = f and k = p and g = "\<lambda>old. ?merge old ?new"] own
      by (simp add: upsert_row_def)
  qed
  then show ?thesis using distinct_upsert_row [of lm_path ?merge, OF _ d(1)] db' by (simp add: mounts_wf_def)
qed

lemma merge_config_mounts_wf:
  "mounts_wf db \<Longrightarrow> merge_config_mounts cs db = (Inr u, db') \<Longrightarrow> mounts_wf db'"
proof (induction cs arbitrary: db)
  case (Cons c cs)
  show ?case
  proof (cases "get_mount db (co_path c) = None")
    case True
    then obtain db1 where db1: "upsert_mount (co_path c) (co_folder_id c) (co_grant_id c) (co_scope_node_id c)
        (co_mount_token c) True db = (Inr (), db1)" "merge_config_mounts cs db1 = (Inr u, db')"
      using Cons.prems(2) by (auto simp: merge_config_mounts_def run_simps try_op_def split: prod.splits sum.splits)
    show ?thesis by (rule Cons.IH [OF upsert_mount_wf [OF Cons.prems(1) db1(1)] db1(2)])
  next
    case False
    then show ?thesis using Cons by (auto simp: merge_config_mounts_def run_simps)
  qed
qed (simp add: merge_config_mounts_def run_simps)

text \<open>A mount of the configuration whose folder the mirror holds at another path stops the daemon:
  a mount moved in the configuration file keeps the daemon from starting.\<close>

lemma moved_config_mount_stops_the_daemon:
  assumes "r \<in> set (db_mounts (w_db w))" "lm_folder_id r = co_folder_id c" "lm_path r \<noteq> p"
    "p = normalize_path cwd (w_fs w) (co_path c)" "get_mount (w_db w) p = None"
    "\<forall>m \<in> set (db_mounts (w_db w)). normalize_path cwd (w_fs w) (lm_path m) = lm_path m"
  shows "start_daemon cwd (c # cs) w = Inl (EDb ''UNIQUE constraint failed: mounts.folder_id'')"
proof -
  have "normalize_persisted_mount_paths cwd (w_fs w) (w_db w) = (Inr (), w_db w)"
    using assms(6) by (simp add: normalize_persisted_mount_paths_def with_state_def normalize_persisted_run
        canonical_rows_stay list_mounts_def)
  moreover have "list_ex (\<lambda>m. lm_folder_id m = co_folder_id c \<and> lm_path m \<noteq> p) (db_mounts (w_db w))"
    using assms(1-3) by (auto simp: list_ex_iff)
  ultimately show ?thesis
    using assms(4,5) by (simp add: start_daemon_def merge_config_mounts_def canonicalize_config_mount_paths_def
        upsert_mount_def run_simps)
qed

definition stays_distinct :: "daemon \<Rightarrow> daemon \<Rightarrow> bool" where
  "stays_distinct d d' = (distinct (map ms_path (dm_mounts d)) \<longrightarrow> distinct (map ms_path (dm_mounts d')))"

interpretation distinct_frame: state_preorder stays_distinct
  by unfold_locales (simp_all add: stays_distinct_def)

lemma same_stays_distinct: "obeys same_mounts m \<Longrightarrow> obeys stays_distinct m"
  by (erule obeys_weaken) (simp add: same_mounts_def stays_distinct_def)

lemma arc_paths: "(\<And>x. ms_path (f x) = ms_path x) \<Longrightarrow> map ms_path (update_rows P f ms) = map ms_path ms"
  by (rule update_rows_keys)

lemma routes_stay_distinct:
  "obeys stays_distinct (post_mount e cfg cwd now req)" "obeys stays_distinct (delete_mount_route f)"
proof -
  have w: "obeys stays_distinct (on_world io)" for io :: "(world, 'x) comp"
    by (rule same_stays_distinct) simp
  have c: "obeys stays_distinct (cancel_tasks_for_mount p)" "obeys stays_distinct (spawn_tasks_for_mount cfg now m)" for p m
    by (auto simp: obeys_def stays_distinct_def cancel_tasks_for_mount_def spawn_tasks_for_mount_def run_simps
        through_arc_def arc_paths split: option.split)
  have l: "obeys stays_distinct (list_mount cfg now m)" for m
    unfolding list_mount_def
    by (intro distinct_frame.obeys_rules distinct_frame.obeys_writes c) (simp add: stays_distinct_def put_mount_paths)
  have u: "obeys stays_distinct (undo_mount p err :: 'x dio)" for p err
    by (rule same_stays_distinct) simp
  have i: "obeys stays_distinct (install_mount e cfg now m)" for m
    unfolding install_mount_def by (intro distinct_frame.obeys_rules w l u)
  show "obeys stays_distinct (post_mount e cfg cwd now req)"
    unfolding post_mount_def
    by (intro distinct_frame.obeys_rules i w same_stays_distinct register_mounts)
       (simp split: option.split add: mounts_frame.obeys_ret)
  show "obeys stays_distinct (delete_mount_route f)"
    unfolding delete_mount_route_def
    by (auto intro!: distinct_frame.obeys_rules distinct_frame.obeys_writes w c split: option.split
        simp: stays_distinct_def distinct_map_filter)
qed

lemma ident_paths: "keeps mount_ident d d' \<Longrightarrow> map ms_path (dm_mounts d') = map ms_path (dm_mounts d)"
proof -
  assume "keeps mount_ident d d'"
  then have "map fst (map mount_ident (dm_mounts d')) = map fst (map mount_ident (dm_mounts d))"
    by (simp only: keeps_def)
  then show ?thesis by (simp add: mount_ident_def comp_def)
qed

lemma loop_step_paths:
  assumes "loop_step k n e cfg m s s'"
  shows "map ms_path (dm_mounts (fst s')) = map ms_path (dm_mounts (fst s))"
  using assms
proof (cases rule: loop_step.cases)
  case (tick_arm t d t' d')
  then show ?thesis using ident_paths [OF obeys_run [OF wakes_keep(1) tick_arm(4)]] by simp
next
  case (deadline_arm t due d t' d')
  then show ?thesis using ident_paths [OF obeys_run [OF wakes_keep(1) deadline_arm(6)]] by simp
next
  case (dirty_arm t d t' d')
  then show ?thesis using ident_paths [OF obeys_run [OF wakes_keep(3) dirty_arm(5)]] by simp
next
  case (debounce_over t d t' d')
  then show ?thesis using ident_paths [OF obeys_run [OF wakes_keep(2) debounce_over(4)]] by simp
next
  case (watcher_exits t d t' d')
  then show ?thesis
    by (auto simp: handle_watcher_exit_def respawn_watcher_def through_arc_def run_simps Let_def arc_paths mark_dirty_def
        split: option.splits if_splits)
next
  case (respawn_arm t due d t' d')
  then show ?thesis
    by (auto simp: respawn_watcher_def through_arc_def run_simps Let_def arc_paths mark_dirty_def
        split: option.splits if_splits)
next
  case (resumed d d' t)
  have "keeps mount_ident d (d \<lparr> dm_paused := False \<rparr>)" by (simp add: keeps_def)
  then have "keeps mount_ident d d'"
    using resumed try_sends_keep keeps_frame.trans by (fastforce simp: post_resume_def writes_def Let_def)
  then show ?thesis using resumed ident_paths by simp
qed (auto simp: try_send_def post_pause_def cancel_tasks_for_mount_def run_simps)

lemma started_wf:
  assumes "start_daemon cwd cs w = Inr d" "mounts_wf (w_db w)"
    "\<forall>r \<in> set (db_mounts (w_db w)). normalize_path cwd (w_fs w) (normalize_path cwd (w_fs w) (lm_path r)) = normalize_path cwd (w_fs w) (lm_path r)"
  shows "distinct (map ms_path (dm_mounts d))"
proof -
  obtain ms where ms: "normalize_persisted_mount_paths cwd (w_fs w) (w_db w) = (Inr (), (w_db w) \<lparr> db_mounts := ms \<rparr>)"
    "canonical_so_far (normalize_path cwd (w_fs w)) (set (db_mounts (w_db w))) [] ms"
    using normalize_persisted_mounts [OF assms(2,3)] by blast
  then obtain db where db: "merge_config_mounts (canonicalize_config_mount_paths cwd (w_fs w) cs) ((w_db w) \<lparr> db_mounts := ms \<rparr>) = (Inr (), db)"
    "d = initial_daemon (w \<lparr> w_db := db \<rparr>)"
    using assms(1) by (auto simp: start_daemon_def run_simps split: prod.splits sum.splits)
  have "mounts_wf ((w_db w) \<lparr> db_mounts := ms \<rparr>)"
    using canonical_so_farD(1,2) [OF ms(2)] by (simp add: mounts_wf_def)
  from merge_config_mounts_wf [OF this db(1)] have "distinct (map lm_path (db_mounts db))" by (simp add: mounts_wf_def)
  then have "distinct (map lm_path (list_mounts db))" by (simp add: list_mounts_def distinct_map)
  then show ?thesis using db(2) by (simp add: initial_daemon_def initial_mount_state_def comp_def)
qed

text \<open>C18: no path is listed twice: the daemon starts with one mount per path, and whatever sequence of
  mounting, unmounting and syncing follows, successful or not, keeps it so.\<close>

theorem listed_paths_stay_distinct:
  assumes "start_daemon cwd cs w = Inr d0" "mounts_wf (w_db w)"
    "\<forall>r \<in> set (db_mounts (w_db w)). normalize_path cwd (w_fs w) (normalize_path cwd (w_fs w) (lm_path r)) = normalize_path cwd (w_fs w) (lm_path r)"
    "daemon_run k n e cfg cwd d0 d"
  shows "distinct (map ms_path (dm_mounts d))"
  using assms(4)
proof (induction rule: daemon_run.induct)
  case started
  show ?case by (rule started_wf [OF assms(1-3)])
next
  case (mounted d now req r d')
  then show ?case using obeys_run [OF routes_stay_distinct(1)] by (fastforce simp: stays_distinct_def)
next
  case (unmounted d f r d')
  then show ?case using obeys_run [OF routes_stay_distinct(2)] by (fastforce simp: stays_distinct_def)
next
  case (looped d m t d' t')
  then show ?case using loop_step_paths by fastforce
qed

end
