(* ===== verification/Daemon_Runs.thy ===== *)
theory Daemon_Runs
  imports Concrete_Runs Daemon_Theorems Sync_Loop_Props Control_Props File_Provider_Props Path_Props Mounts_Props
begin

text \<open>
  The theorems about the daemon applied to concrete daemons and servers: each \<open>_witness\<close> discharges the
  hypotheses of its theorem on data that the definitions evaluate.
\<close>

section \<open>A daemon with one mount\<close>

definition demo_cfg :: daemon_config where
  "demo_cfg = \<lparr> dc_backend_url = ''http://s'', dc_device_id = ''dev'', dc_device_token = Some ''dev-tok'', dc_device_name = ''D'' \<rparr>"

definition demo_listed :: mount_state where
  "demo_listed = initial_mount_state demo_mount"

definition pulling_daemon :: daemon where
  "pulling_daemon = initial_daemon pulling_world"

definition rejecting_env :: env where
  "rejecting_env = demo_env (\<lambda>_ _. Reply 401 BodyOther)"

lemma pulling_daemon_mounts: "dm_mounts pulling_daemon = [demo_listed]"
  by code_simp

lemma demo_token: "effective_token demo_cfg demo_listed = Some ''tok''" "ms_mount_token demo_listed = Some ''tok''"
  by code_simp+

section \<open>Passes\<close>

theorem pass_balances_active_syncs_witness:
  "counters (snd (pull_mount_once 3 page_env demo_cfg demo_listed pulling_daemon)) = counters pulling_daemon"
proof -
  let ?run = "pull_mount_once 3 page_env demo_cfg demo_listed pulling_daemon"
  have run: "fst ?run = Inr ()" by code_simp
  have "ms_active_syncs demo_listed = 0" by code_simp
  then have idle: "ms_active_syncs r \<noteq> - 1" if "r \<in> set (dm_mounts pulling_daemon)" for r
    using that by (simp add: pulling_daemon_mounts)
  have "effective_token demo_cfg demo_listed \<noteq> None" by (simp add: demo_token)
  from conjunct1 [OF pass_balances_active_syncs [OF this idle]] result_pair [OF run] show ?thesis
    by (metis (mono_tags, lifting) case_prod_conv old.sum.simps(6))
qed

definition halted_daemon :: daemon where
  "halted_daemon = pulling_daemon \<lparr> dm_mounts := [demo_listed \<lparr> ms_update_required_flag := True \<rparr>] \<rparr>"

theorem halted_full_sync_is_silent_witness:
  "w_sent (dm_world (snd (full_sync_mount 3 3 page_env demo_cfg demo_listed halted_daemon))) = []"
proof -
  have "mount_flag halted_daemon demo_listed" by code_simp
  moreover have "w_sent (dm_world halted_daemon) = []" by code_simp
  ultimately show ?thesis using halted_full_sync_is_silent [OF demo_token(1), of halted_daemon 3 3 page_env] by auto
qed

theorem unauthenticated_pull_is_reported_witness:
  "compute_credential demo_cfg (snd (pull_mount_once 3 rejecting_env demo_cfg demo_listed pulling_daemon)) = CredRejected"
proof -
  have "fst (pull_delta 3 rejecting_env (dc_backend_url demo_cfg) ''tok'' (ms_folder_id demo_listed) (dm_world pulling_daemon))
      = Inl (EStatus 401)" by code_simp
  note run = result_pair [OF this]
  have "token_known demo_cfg pulling_daemon ''tok''" by (simp add: token_known_def pulling_daemon_mounts demo_token(2))
  from unauthenticated_pull_is_reported [OF demo_token(1) this run] show ?thesis by auto
qed

lemma accepted_pull_clears_rejection_witness:
  "token_accepted demo_cfg ''tok'' (snd (pull_mount_once 3 page_env demo_cfg demo_listed pulling_daemon))"
proof -
  have "map_sum (\<lambda>_. ()) fst (fst (pull_delta 3 page_env (dc_backend_url demo_cfg) ''tok'' (ms_folder_id demo_listed)
      (dm_world pulling_daemon))) = Inr 3" by code_simp
  then obtain r where r: "fst (pull_delta 3 page_env (dc_backend_url demo_cfg) ''tok'' (ms_folder_id demo_listed)
      (dm_world pulling_daemon)) = Inr r" by (cases "fst (pull_delta 3 page_env (dc_backend_url demo_cfg) ''tok''
      (ms_folder_id demo_listed) (dm_world pulling_daemon))") auto
  have "fst (pull_mount_once 3 page_env demo_cfg demo_listed pulling_daemon) = Inr ()" by code_simp
  from accepted_pull_clears_rejection [OF demo_token(1) result_pair [OF r] result_pair [OF this]] show ?thesis .
qed

section \<open>The loop\<close>

lemma dead_watcher:
  obtains t d where "loop_reach 3 3 page_env demo_cfg demo_listed (pulling_daemon, new_sync_task 0) (d, t)"
    "sl_respawn_at t = Some 1000"
proof -
  let ?t0 = "(new_sync_task 0) \<lparr> sl_alive := False \<rparr>"
  let ?run = "handle_watcher_exit demo_cfg demo_listed ?t0 pulling_daemon"
  have "map_sum (\<lambda>_. ()) sl_respawn_at (fst ?run) = Inr (Some 1000)" by code_simp
  then obtain t where t: "fst ?run = Inr t" "sl_respawn_at t = Some 1000" by (cases "fst ?run") auto
  have alive: "sl_alive (new_sync_task 0)" by code_simp
  have idle: "\<not> sl_debouncing ?t0" "sl_handle ?t0" "\<not> sl_alive ?t0" by code_simp+
  have dies: "loop_step 3 3 page_env demo_cfg demo_listed (pulling_daemon, new_sync_task 0) (pulling_daemon, ?t0)"
    by (rule loop_step.watcher_dies [OF alive])
  have "loop_step 3 3 page_env demo_cfg demo_listed (pulling_daemon, ?t0) (snd ?run, t)"
    by (rule loop_step.watcher_exits [OF idle result_pair [OF t(1)]])
  then show ?thesis using that loop_reach.step [OF loop_reach.step [OF loop_reach.start dies]] t(2) by blast
qed


definition marked_task :: sync_task where
  "marked_task = mark_dirty (new_sync_task 0)"

definition quiet_env :: env where
  "quiet_env = demo_env (\<lambda>_ _. Reply 200 (BodyOps \<lparr> dp_ops = [], dp_up_to_seq = 1 \<rparr>))"

definition empty_daemon :: daemon where
  "empty_daemon = initial_daemon (demo_world (demo_db []) \<lparr> fs_nodes = [([''m''], Dir)], fs_denied = [], fs_faults = [] \<rparr>)"

lemma marked_idle: "sl_permit marked_task" "sl_dirty marked_task" "\<not> sl_debouncing marked_task"
  "\<not> dm_paused empty_daemon"
  by code_simp+

lemma periodic_full_sync:
  "\<exists>t. fst (periodic_wake 3 3 quiet_env demo_cfg demo_listed marked_task empty_daemon) = Inr t \<and> \<not> sl_dirty t"
proof -
  let ?run = "periodic_wake 3 3 quiet_env demo_cfg demo_listed marked_task empty_daemon"
  have "map_sum (\<lambda>_. ()) sl_dirty (fst ?run) = Inr False" by code_simp
  then show ?thesis by (cases "fst ?run") auto
qed

theorem dirty_mark_is_served_witness:
  "\<exists>d1 x d2. full_sync_mount 3 3 quiet_env demo_cfg demo_listed d1 = (Inr x, d2)"
proof -
  obtain t where t: "fst (periodic_wake 3 3 quiet_env demo_cfg demo_listed marked_task empty_daemon) = Inr t" "\<not> sl_dirty t"
    using periodic_full_sync by blast
  from loop_step.tick_arm [OF marked_idle(3) result_pair [OF t(1)]] loop_reach.step [OF loop_reach.start]
  obtain d where r: "loop_reach 3 3 quiet_env demo_cfg demo_listed (empty_daemon, marked_task) (d, t)" by blast
  from dirty_mark_is_served [OF r marked_idle(2)] t(2) show ?thesis by blast
qed

lemma pause_misses_debounced_sync_witness:
  "\<exists>t1 t2 d'. loop_step 3 3 quiet_env demo_cfg demo_listed (empty_daemon \<lparr> dm_paused := True \<rparr>, t1) (d', t2)"
proof -
  let ?run = "full_sync_mount 3 3 quiet_env demo_cfg demo_listed (empty_daemon \<lparr> dm_paused := True \<rparr>)"
  have "\<not> isl (fst ?run)" by code_simp
  then obtain x where "fst ?run = Inr x" by (cases "fst ?run") auto
  from pause_misses_debounced_sync [OF marked_idle(1,2,3,4) result_pair [OF this]] show ?thesis by blast
qed

section \<open>Releases\<close>

lemma parse_u64_code [code]:
  "parse_u64 s =
     (let ds = (case s of [] \<Rightarrow> [] | c # cs \<Rightarrow> if c = CHR ''+'' then cs else s) in
      if ds \<noteq> [] \<and> list_all is_digit ds \<and> int (digits_value ds) < 2 ^ 64 then Some (digits_value ds) else None)"
proof -
  have "(int n < 2 ^ 64) = (n < 2 ^ 64)" for n :: nat by simp
  then show ?thesis by (simp only: parse_u64_def)
qed

definition release_env :: env where
  "release_env = demo_env (scripted [Reply 200 (BodyReleases [''valvd-v0.9.1'', ''cli-v2.0.0'', ''valvd-v0.10.0'', ''valvd-vnext''])])"

theorem latest_version_is_greatest_witness:
  "\<exists>w'. resolve_latest_version_from release_env ''http://g'' ''o/r'' ValvdRelease None idle_world = (Inr ''0.10.0'', w') \<and>
     length (w_sent w') \<le> MAX_RELEASES_PAGES"
proof -
  have "fst (resolve_latest_version_from release_env ''http://g'' ''o/r'' ValvdRelease None idle_world) = Inr ''0.10.0''"
    by code_simp
  note run = result_pair [OF this]
  have sent: "w_sent idle_world = []" by code_simp
  obtain pages :: "string list list" where "length pages \<le> MAX_RELEASES_PAGES"
    "w_sent (snd (resolve_latest_version_from release_env ''http://g'' ''o/r'' ValvdRelease None idle_world)) =
       w_sent idle_world @ map (releases_request ''http://g'' ''o/r'') [1..<Suc (length pages)]"
    using latest_version_is_greatest [OF run] by blast
  with sent have "length (w_sent (snd (resolve_latest_version_from release_env ''http://g'' ''o/r'' ValvdRelease None idle_world))) \<le>
      MAX_RELEASES_PAGES" by (simp del: upt_Suc)
  with run show ?thesis by blast
qed

definition update_env :: env where
  "update_env = demo_env (scripted [Reply 200 (BodyBytes ''tar''),
     Reply 200 (BodyBytes ''h:tar  valvd-1.0.0-aarch64-apple-darwin.tar.gz''), Reply 200 (BodyBytes ''sig'')])"

text \<open>The checksum is right, the signature is not.\<close>

theorem self_update_installs_verified_only_witness:
  "\<exists>err w'. attempt_self_update update_env (\<lambda>_ _. False) (\<lambda>_. ret [''m'']) (ret ()) ''macos'' ''aarch64''
     (Some [''bin'', ''valvd'']) ''o/r'' ''1.0.0'' idle_world = (Inl err, w') \<and> w_fs w' = w_fs idle_world"
proof -
  let ?run = "attempt_self_update update_env (\<lambda>_ _. False) (\<lambda>_. ret [''m'']) (ret ()) ''macos'' ''aarch64''
     (Some [''bin'', ''valvd'']) ''o/r'' ''1.0.0'' idle_world"
  have "?run = (fst ?run, snd ?run)" by simp
  from self_update_installs_verified_only [OF this] show ?thesis
    unfolding release_verified_def by (metis prod.collapse)
qed

lemma principal_poll_asks_once_witness:
  "\<exists>d'. poll_principal_status_once rejecting_env demo_cfg pulling_daemon = (Inr (), d') \<and>
     (\<exists>tokens. distinct tokens \<and> set tokens = {''dev-tok'', ''tok''} \<and>
       w_sent (dm_world d') = map (me_request demo_cfg) tokens)"
proof -
  have "dc_backend_url demo_cfg \<noteq> []" "non_empty_device_token demo_cfg = Some ''dev-tok''" "w_sent (dm_world pulling_daemon) = []"
    by code_simp+
  with principal_poll_asks_once [of demo_cfg rejecting_env pulling_daemon] show ?thesis
    by (auto simp: pulling_daemon_mounts demo_token(2))
qed

section \<open>The file provider\<close>

theorem fp_pages_cover_the_folder_witness:
  "map it_name (concat (map (\<lambda>k. page_items pulling_daemon (page_query ''root'' ''F'' 1 k)) [0..<2])) = [''a.txt'']"
proof -
  have "find (\<lambda>m. ms_folder_id m = ''F'') (dm_mounts pulling_daemon) = Some demo_listed" by code_simp
  moreover have "map it_name (map (fp_item_from_node (w_db (dm_world pulling_daemon))) (take (2 * 1) (sorted_children
      (w_db (dm_world pulling_daemon)) (resolve_parent_id (w_db (dm_world pulling_daemon)) demo_listed ''root'') ''F''))) = [''a.txt'']"
    by code_simp
  moreover have "trim_ws ''root'' \<noteq> []" by code_simp
  ultimately show ?thesis
    using fp_pages_cover_the_folder [of "''root''" "''F''" pulling_daemon demo_listed 1 2] by simp
qed

text \<open>The node \<open>n\<close> is deleted while it is being uploaded.\<close>

definition uploading_daemon :: daemon where
  "uploading_daemon = (initial_daemon (demo_world (demo_db [demo_deleted]) demo_fs)) \<lparr> dm_pending_uploads := [''n''] \<rparr>"

theorem held_back_delete_is_redelivered_witness:
  "\<exists>d1 r2 d3. changes_for demo_listed 1 uploading_daemon = (Inr \<lparr> ch_items = [], ch_current_seq = 1, ch_more_coming = False \<rparr>, d1) \<and>
     changes_for demo_listed 2 (d1 \<lparr> dm_pending_uploads := [] \<rparr>) = (Inr r2, d3) \<and>
     fp_item_from_node (w_db (dm_world d1)) demo_deleted \<in> set (ch_items r2)"
proof -
  let ?run = "changes_for demo_listed 1 uploading_daemon"
  let ?d = "(snd ?run) \<lparr> dm_pending_uploads := [] \<rparr>"
  have 1: "fst ?run = Inr \<lparr> ch_items = [], ch_current_seq = 1, ch_more_coming = False \<rparr>" by code_simp
  have rows: "get_node (w_db (dm_world uploading_daemon)) ''n'' = Some demo_deleted" "nodes_wf (w_db (dm_world uploading_daemon))"
    "ln_folder_id demo_deleted = ms_folder_id demo_listed" "(1::int) < ln_server_seq demo_deleted" "\<not> live demo_deleted"
    "''n'' \<in> set (dm_pending_uploads uploading_daemon)"
    by code_simp+
  have later: "deferred_of ?d (ms_folder_id demo_listed) = deferred_of (snd ?run) (ms_folder_id demo_listed)"
    "''n'' \<notin> set (dm_pending_uploads ?d)" "get_node (w_db (dm_world ?d)) ''n'' = Some demo_deleted"
    by code_simp+
  have "\<not> isl (fst (changes_for demo_listed 2 ?d))" by code_simp
  then obtain r2 where r2: "fst (changes_for demo_listed 2 ?d) = Inr r2" by (cases "fst (changes_for demo_listed 2 ?d)") auto
  from held_back_delete_is_redelivered [OF result_pair [OF 1] rows later result_pair [OF r2]]
  have "fp_item_from_node (w_db (dm_world ?d)) demo_deleted \<in> set (ch_items r2)" by blast
  then show ?thesis using result_pair [OF 1] result_pair [OF r2] by fastforce
qed

definition two_folders_db :: mirror where
  "two_folders_db = (demo_db [demo_node ''n'' (Some ''r'') ''a.txt'' ''file'' 2,
     (demo_node ''p'' None ''other'' ''folder'' 1) \<lparr> ln_folder_id := ''G'' \<rparr>])"

definition two_folders_daemon :: daemon where
  "two_folders_daemon = initial_daemon (demo_world two_folders_db demo_fs)"

definition demo_move :: fp_move_request where
  "demo_move = \<lparr> vq_node_id = ''n'', vq_based_on_seq = 2, vq_new_name = Some ''b.txt'', vq_new_parent_id = Some ''p'' \<rparr>"

definition applied_env :: env where
  "applied_env = demo_env (\<lambda>_ _. Reply 200 (BodyJson (JObj [(''result'', JStr ''applied''), (''server_seq'', JInt 3), (''node_id'', JStr ''n'')])))"

theorem rejected_move_has_renamed_witness:
  "\<exists>d' n. fp_move applied_env demo_cfg demo_move two_folders_daemon = (Inl (EConflict ''cross_folder_move_rejected''), d') \<and>
     get_node (w_db (dm_world d')) ''n'' = Some n \<and> ln_name n = ''b.txt''"
proof -
  let ?d = two_folders_daemon
  have request: "trim_ws (vq_node_id demo_move) \<noteq> []" "vq_new_name demo_move = Some ''b.txt''" "''b.txt'' \<noteq> []"
    "vq_new_parent_id demo_move = Some ''p''" "''p'' \<noteq> []"
    by code_simp+
  have rows: "get_node (w_db (dm_world ?d)) (vq_node_id demo_move) = Some (demo_node ''n'' (Some ''r'') ''a.txt'' ''file'' 2)"
    "find (\<lambda>m. ms_folder_id m = ln_folder_id (demo_node ''n'' (Some ''r'') ''a.txt'' ''file'' 2)) (dm_mounts ?d) = Some demo_listed"
    by code_simp+
  have other: "\<not> ms_update_required demo_listed" "\<not> mount_flag ?d demo_listed"
    "get_node (w_db (dm_world ?d)) ''p'' = Some ((demo_node ''p'' None ''other'' ''folder'' 1) \<lparr> ln_folder_id := ''G'' \<rparr>)"
    "ln_folder_id ((demo_node ''p'' None ''other'' ''folder'' 1) \<lparr> ln_folder_id := ''G'' \<rparr>) \<noteq>
       ln_folder_id (demo_node ''n'' (Some ''r'') ''a.txt'' ''file'' 2)"
    by code_simp+
  have "fst (submit_op_daemon applied_env demo_cfg ''tok'' (ms_folder_id demo_listed)
      (RenameOp (vq_node_id demo_move) (vq_based_on_seq demo_move) ''b.txt'') (dm_world ?d)) = Inr (Applied 3 ''n'')"
    by code_simp
  note sent = result_pair [OF this]
  have "vq_node_id demo_move = ''n''" by code_simp
  then show ?thesis
    using rejected_move_has_renamed [OF request rows demo_token(1) other sent] by metis
qed

definition demo_upload :: fp_upload_request where
  "demo_upload = \<lparr> uq_node_id = None, uq_parent_id = ''r'', uq_name = ''a.txt'', uq_based_on_seq = None, uq_file_path = ''/m/a.txt'' \<rparr>"

lemma upload_over_sibling_has_no_node_witness:
  "\<exists>x d'. fp_upload applied_env demo_cfg demo_upload two_folders_daemon = (Inr (''id0'', x), d') \<and>
     upload_seq applied_env demo_cfg demo_upload ''id0'' x d' = (Inr 2, d')"
proof -
  let ?run = "fp_upload applied_env demo_cfg demo_upload two_folders_daemon"
  have "map_sum (\<lambda>_. ()) (\<lambda>(i, x). (i, uc_folder_id x, uc_parent_id x)) (fst ?run) = Inr (''id0'', ''F'', ''r'')" by code_simp
  then obtain x where x: "fst ?run = Inr (''id0'', x)" "uc_folder_id x = ''F''" "uc_parent_id x = ''r''"
    by (cases "fst ?run") (auto split: prod.splits)
  have rows: "uq_node_id demo_upload = None" "get_node (w_db (dm_world two_folders_daemon)) ''id0'' = None"
    "get_node_by_parent_and_name (w_db (dm_world two_folders_daemon)) ''F'' (Some ''r'') (uq_name demo_upload) =
       Some (demo_node ''n'' (Some ''r'') ''a.txt'' ''file'' 2)"
    "ln_server_seq (demo_node ''n'' (Some ''r'') ''a.txt'' ''file'' 2) = 2"
    by code_simp+
  from upload_over_sibling_has_no_node [OF result_pair [OF x(1)] rows(1,2), unfolded x(2,3), OF rows(3), of "snd ?run"]
  have "upload_seq applied_env demo_cfg demo_upload ''id0'' x (snd ?run) = (Inr 2, snd ?run)" unfolding rows(4) by blast
  then show ?thesis using result_pair [OF x(1)] by blast
qed

section \<open>Paths and mounts\<close>

theorem node_path_round_trip_witness:
  "resolve_node_path (w_db pulling_world) ''n'' None = Inr ''a.txt'' \<and>
   resolve_path_to_node [] demo_fs (w_db pulling_world) [demo_listed] ''/m/a.txt'' =
     Inr \<lparr> rp_mount = demo_listed, rp_folder_id = ''F'', rp_node_id = ''n'' \<rparr>"
proof -
  let ?db = "w_db pulling_world"
  have rows: "get_node ?db ''n'' = Some (demo_node ''n'' (Some ''r'') ''a.txt'' ''file'' 2)"
    "ln_parent_id (demo_node ''n'' (Some ''r'') ''a.txt'' ''file'' 2) = Some ''r''"
    "ln_folder_id (demo_node ''n'' (Some ''r'') ''a.txt'' ''file'' 2) = ms_folder_id demo_listed"
    "live (demo_node ''n'' (Some ''r'') ''a.txt'' ''file'' 2)" "''n'' \<noteq> ''r''"
    by code_simp+
  have "ln_name (demo_node ''n'' (Some ''r'') ''a.txt'' ''file'' 2) = ''a.txt''" by code_simp
  with hangs.child [OF hangs.here rows] have hangs: "hangs ?db (ms_folder_id demo_listed) ''r'' [''a.txt''] ''n''" by simp
  have plain: "plain_name c" if "c \<in> set [''a.txt'']" for c
  proof -
    have "plain_name ''a.txt''" by code_simp
    then show ?thesis using that by simp
  qed
  have "db_nodes ?db = [demo_node ''r'' None ''root'' ''folder'' 1, demo_node ''n'' (Some ''r'') ''a.txt'' ''file'' 2]" by code_simp
  then have unique: "siblings_unique ?db (ms_folder_id demo_listed)" by (auto simp: siblings_unique_def demo_node_def)
  have t: "top_node ?db demo_listed = Some (demo_node ''r'' None ''root'' ''folder'' 1)"
    "''r'' = ln_node_id (demo_node ''r'' None ''root'' ''folder'' 1)" "nodes_wf ?db"
    "mount_of_path [] demo_fs [demo_listed] (path_parts (normalize_path [] demo_fs ''/m/a.txt'')) = Some (demo_listed, [''a.txt''])"
    by code_simp+
  have "ms_scope_node_id demo_listed = None" "ms_folder_id demo_listed = ''F''" "intercalate ''/'' [''a.txt''] = ''a.txt''" by code_simp+
  then show ?thesis using node_path_round_trip [OF hangs plain unique t] by simp
qed

definition demo_request :: mount_request where
  "demo_request = \<lparr> mq_path = ''/m'', mq_folder_id = Some ''F'', mq_grant_token = None \<rparr>"

definition mounting_env :: env where
  "mounting_env = demo_env (scripted [Reply 200 (BodyTree demo_snapshot)])"

theorem mount_is_listed_witness:
  "\<exists>d'. snd (post_mount mounting_env demo_cfg [] 0 demo_request empty_daemon) = d' \<and> length (dm_mounts d') = 1 \<and>
     ''/m'' \<in> set (dm_tasks d')"
proof -
  let ?run = "post_mount mounting_env demo_cfg [] 0 demo_request empty_daemon"
  have "map_sum (\<lambda>_. ()) (\<lambda>(r, _). mr_path r) (fst ?run) = Inr ''/m''" by code_simp
  then obtain r t where r: "fst ?run = Inr (r, t)" "mr_path r = ''/m''" by (cases "fst ?run") auto
  have "distinct (map ms_path (dm_mounts empty_daemon))" by code_simp
  from mount_is_listed [OF result_pair [OF r(1)] this] have "''/m'' \<in> set (dm_tasks (snd ?run))" using r(2) by auto
  moreover have "length (dm_mounts (snd ?run)) = 1" by code_simp
  ultimately show ?thesis by blast
qed

lemma unmount_is_local_witness:
  "dm_mounts (snd (delete_mount_route ''F'' pulling_daemon)) = [] \<and> w_fs (dm_world (snd (delete_mount_route ''F'' pulling_daemon))) = demo_fs"
proof -
  have "trim_ws ''F'' \<noteq> []" "find (\<lambda>m. ms_folder_id m = ''F'') (dm_mounts pulling_daemon) = Some demo_listed"
    "w_fs (dm_world pulling_daemon) = demo_fs"
    by code_simp+
  with unmount_is_local [of "''F''" pulling_daemon demo_listed] show ?thesis by (auto simp: pulling_daemon_mounts)
qed

definition offline_env :: env where
  "offline_env = demo_env (\<lambda>_ _. NoReply)"

lemma failed_remount_forgets_mount_witness:
  "\<exists>d' err. post_mount offline_env demo_cfg [] 0 demo_request empty_daemon = (Inl err, d') \<and>
     get_mount (w_db (dm_world d')) ''/m'' = None \<and> dm_mounts d' = dm_mounts empty_daemon"
proof -
  let ?p = "normalize_path [] (w_fs (dm_world empty_daemon)) (mq_path demo_request)"
  let ?up = "upsert_mount ?p ''F'' None None None True (w_db (dm_world empty_daemon))"
  have request: "fst (validate_mount_request demo_request empty_daemon) = Inr ()"
    "mq_folder_id demo_request = Some ''F''" "mq_grant_token demo_request = None" "dc_device_token demo_cfg = Some ''dev-tok''"
    by code_simp+
  have valid: "validate_mount_request demo_request empty_daemon = (Inr (), empty_daemon)"
    using request(1) by (auto simp: validate_mount_request_def run_simps split: if_splits)
  have up: "?up = (Inr (), snd ?up)" by (rule result_pair) code_simp
  let ?tree = "tree_resync offline_env (dc_backend_url demo_cfg) ''dev-tok'' ''F'' ((dm_world empty_daemon) \<lparr> w_db := snd ?up \<rparr>)"
  have "fst ?tree = Inl ETransport" by code_simp
  note tree = result_pair [OF this]
  have p: "?p = ''/m''" by code_simp
  show ?thesis
    using failed_remount_forgets_mount [OF valid request(2-4) refl up tree] unfolding p by fastforce
qed

text \<open>Two rows for one directory: the one that is not canonical holds the credential.\<close>

definition doubled_db :: mirror where
  "doubled_db = (demo_db []) \<lparr> db_mounts := [demo_mount \<lparr> lm_path := ''/m/'' \<rparr>,
     demo_mount \<lparr> lm_folder_id := ''G'', lm_mount_token := None \<rparr>] \<rparr>"

lemma doubled_rows:
  "mounts_wf doubled_db"
  "\<forall>r \<in> set (db_mounts doubled_db). normalize_path [] demo_fs (normalize_path [] demo_fs (lm_path r)) = normalize_path [] demo_fs (lm_path r)"
  by code_simp+

theorem persisted_mounts_are_canonical_witness:
  "\<exists>ms. normalize_persisted_mount_paths [] demo_fs doubled_db = (Inr (), doubled_db \<lparr> db_mounts := ms \<rparr>) \<and>
     distinct (map lm_path ms) \<and> (\<exists>m \<in> set ms. lm_path m = ''/m'' \<and> lm_mount_token m \<noteq> None)"
proof -
  let ?r = "demo_mount \<lparr> lm_path := ''/m/'' \<rparr>"
  have r: "?r \<in> set (db_mounts doubled_db)" by (simp add: doubled_db_def)
  have "normalize_path [] demo_fs (lm_path ?r) = ''/m''" "lm_mount_token ?r \<noteq> None" by code_simp+
  then show ?thesis using persisted_mounts_are_canonical [OF doubled_rows] r by metis
qed

definition moved_config :: mount_config where
  "moved_config = \<lparr> co_path = ''/elsewhere'', co_folder_id = ''F'', co_grant_id = None, co_scope_node_id = None, co_mount_token = None \<rparr>"

lemma moved_config_mount_stops_the_daemon_witness:
  "start_daemon [] [moved_config] pulling_world = Inl (EDb ''UNIQUE constraint failed: mounts.folder_id'')"
proof -
  have rows: "db_mounts (w_db pulling_world) = [demo_mount]" "lm_folder_id demo_mount = co_folder_id moved_config"
    "lm_path demo_mount \<noteq> ''/elsewhere''" "''/elsewhere'' = normalize_path [] (w_fs pulling_world) (co_path moved_config)"
    "get_mount (w_db pulling_world) ''/elsewhere'' = None"
    "normalize_path [] (w_fs pulling_world) (lm_path demo_mount) = lm_path demo_mount"
    by code_simp+
  then show ?thesis
    by (intro moved_config_mount_stops_the_daemon [of demo_mount]) simp_all
qed

theorem listed_paths_stay_distinct_witness:
  "\<exists>d0. start_daemon [] [] (demo_world doubled_db demo_fs) = Inr d0 \<and>
     distinct (map ms_path (dm_mounts (snd (delete_mount_route ''F'' d0))))"
proof -
  let ?w = "demo_world doubled_db demo_fs"
  have "\<not> isl (start_daemon [] [] ?w)" by code_simp
  then obtain d0 where d0: "start_daemon [] [] ?w = Inr d0" by (cases "start_daemon [] [] ?w") auto
  have w: "w_db ?w = doubled_db" "w_fs ?w = demo_fs" by (simp_all add: demo_world_def)
  have run: "daemon_run 0 0 offline_env demo_cfg [] d0 (snd (delete_mount_route ''F'' d0))"
    by (rule daemon_run.unmounted [OF daemon_run.started surjective_pairing])
  from listed_paths_stay_distinct [OF d0 _ _ run, unfolded w, OF doubled_rows] d0 show ?thesis by blast
qed

end
