(* ===== verification/Ws_Client.thy ===== *)
theory Ws_Client
  imports Daemon
begin

text \<open>
  The websocket of a mount (\<open>sync_engine/ws_client.rs\<close>): a client that subscribes to its folders, tells
  the mount to catch up, forwards the server's notifications, pings, and gives a silent connection up.
  The connection itself, \<open>Message::into_text\<close> and \<open>serde_json::from_str\<close> (\<open>wc_into_text\<close>,
  \<open>wc_parse\<close>) are parameters; times are milliseconds.
  \<open>cn_received\<close>, \<open>cn_heard\<close> and \<open>cn_pinged\<close> only record what happened on the connection.
\<close>

section \<open>Messages\<close>

definition PING_INTERVAL :: nat where "PING_INTERVAL = 22000"
definition READ_IDLE_TIMEOUT :: nat where "READ_IDLE_TIMEOUT = 55000"
definition RECONNECT_DELAY :: nat where "RECONNECT_DELAY = 2000"

definition derive_ws_url :: "string \<Rightarrow> string \<Rightarrow> error + string" where
  "derive_ws_url backend_url token =
     (let trimmed = trim_end_char CHR ''/'' backend_url;
          url = (\<lambda>ws_base. Inr (ws_base @ ''/ws?token='' @ token)) in
      case strip_prefix trimmed ''https://'' of
        Some rest \<Rightarrow> url (''wss://'' @ rest)
      | None \<Rightarrow> (case strip_prefix trimmed ''http://'' of
            Some rest \<Rightarrow> url (''ws://'' @ rest)
          | None \<Rightarrow> if starts_with trimmed ''ws://'' \<or> starts_with trimmed ''wss://'' then url trimmed
              else Inl (EMsg ''backend_url must start with http:// or https://'')))"

text \<open>The messages of the websocket library; \<open>into_text\<close> is the library's (\<open>wc_into_text\<close>).\<close>

datatype ws_message = WsText string | WsBinary string | WsPing string | WsPong string | WsClose "string option"

definition dec_ws_push :: "json \<Rightarrow> ws_push_notification option" where
  "dec_ws_push v = (case struct_fields [''folder_id'', ''server_seq''] 2 v of
     None \<Rightarrow> None
   | Some fs \<Rightarrow> (case (req_field dec_string fs ''folder_id'', req_field dec_i64 fs ''server_seq'') of
         (Some folder_id, Some seq) \<Rightarrow> Some \<lparr> wp_folder_id = folder_id, wp_server_seq = seq \<rparr>
       | _ \<Rightarrow> None))"

record ws_config =
  wc_folder_ids :: "string list"
  wc_into_text :: "ws_message \<Rightarrow> string option"
  wc_parse :: "string \<Rightarrow> json option"

definition frame_notification :: "ws_config \<Rightarrow> ws_message \<Rightarrow> ws_push_notification option" where
  "frame_notification wc msg = Option.bind (Option.bind (wc_into_text wc msg) (wc_parse wc)) dec_ws_push"

definition connect_catch_up :: "ws_config \<Rightarrow> ws_push_notification list" where
  "connect_catch_up wc = map (\<lambda>folder_id. \<lparr> wp_folder_id = folder_id, wp_server_seq = 0 \<rparr>) (wc_folder_ids wc)"

section \<open>A connection\<close>

datatype ws_frame = Subscribe string | Ping

datatype ws_input = Received ws_message | StreamFailed | StreamEnded

record ws_conn =
  cn_ping_due :: nat
  cn_idle_due :: nat
  cn_inbox :: "ws_input list"
  cn_wrote :: "ws_frame list"
  cn_told :: "ws_push_notification list"
  cn_received :: "ws_message list"
  cn_heard :: nat
  cn_pinged :: "nat option"

record ws_client =
  wl_now :: nat
  wl_conn :: "ws_conn option"
  wl_retry_at :: nat
  wl_receiver :: bool

definition opened_conn :: "ws_config \<Rightarrow> nat \<Rightarrow> ws_conn" where
  "opened_conn wc now =
     \<lparr> cn_ping_due = now + PING_INTERVAL, cn_idle_due = now + READ_IDLE_TIMEOUT, cn_inbox = [],
       cn_wrote = map Subscribe (wc_folder_ids wc), cn_told = connect_catch_up wc,
       cn_received = [], cn_heard = now, cn_pinged = None \<rparr>"

definition disconnected :: "ws_client \<Rightarrow> ws_client" where
  "disconnected s = s \<lparr> wl_conn := None, wl_retry_at := wl_now s + RECONNECT_DELAY \<rparr>"

text \<open>The arm of a frame: it moves the idle deadline whatever it holds.\<close>

definition on_message :: "ws_config \<Rightarrow> ws_message \<Rightarrow> ws_input list \<Rightarrow> ws_conn \<Rightarrow> ws_client \<Rightarrow> ws_client" where
  "on_message wc msg rest c s =
     (let c' = c \<lparr> cn_inbox := rest, cn_idle_due := wl_now s + READ_IDLE_TIMEOUT, cn_heard := wl_now s,
                   cn_received := cn_received c @ [msg] \<rparr> in
      case frame_notification wc msg of
        None \<Rightarrow> s \<lparr> wl_conn := Some c' \<rparr>
      | Some n \<Rightarrow> if wl_receiver s then s \<lparr> wl_conn := Some (c' \<lparr> cn_told := cn_told c @ [n] \<rparr>) \<rparr> else disconnected s)"

definition send_ping :: "bool \<Rightarrow> ws_conn \<Rightarrow> ws_client \<Rightarrow> ws_client" where
  "send_ping sent c s =
     (if sent then s \<lparr> wl_conn := Some (c \<lparr> cn_ping_due := wl_now s + PING_INTERVAL, cn_wrote := cn_wrote c @ [Ping],
                                        cn_pinged := Some (wl_now s) \<rparr>) \<rparr>
      else disconnected s)"

text \<open>One turn of the biased \<open>select!\<close>: frames first, then the ping, then the idle deadline.  \<open>sent\<close>: a
  ping that is due can be written.\<close>

definition ws_turn :: "ws_config \<Rightarrow> bool \<Rightarrow> ws_conn \<Rightarrow> ws_client \<Rightarrow> ws_client" where
  "ws_turn wc sent c s = (case cn_inbox c of
       Received msg # rest \<Rightarrow> on_message wc msg rest c s
     | StreamFailed # _ \<Rightarrow> disconnected s
     | StreamEnded # _ \<Rightarrow> disconnected s
     | [] \<Rightarrow> if cn_ping_due c \<le> wl_now s then send_ping sent c s
            else if cn_idle_due c \<le> wl_now s then disconnected s
            else s)"

section \<open>The loop\<close>

text \<open>\<open>ws_push_loop\<close> with the time it starts at and its jitter.\<close>

definition ws_push_loop :: "string \<Rightarrow> string \<Rightarrow> nat \<Rightarrow> nat \<Rightarrow> error + string \<times> ws_client" where
  "ws_push_loop backend_url token now pre_connect_jitter =
     map_sum id (\<lambda>ws_url. (ws_url, \<lparr> wl_now = now, wl_conn = None, wl_retry_at = now + pre_connect_jitter,
       wl_receiver = True \<rparr>)) (derive_ws_url backend_url token)"

inductive ws_step :: "ws_config \<Rightarrow> ws_client \<Rightarrow> ws_client \<Rightarrow> bool" for wc :: ws_config where
  ws_time_passes: "wl_now s \<le> now \<Longrightarrow> ws_step wc s (s \<lparr> wl_now := now \<rparr>)"
| receiver_dropped: "ws_step wc s (s \<lparr> wl_receiver := False \<rparr>)"
| connected: "\<lbrakk>wl_conn s = None; wl_retry_at s \<le> wl_now s; wl_receiver s \<or> wc_folder_ids wc = []\<rbrakk>
    \<Longrightarrow> ws_step wc s (s \<lparr> wl_conn := Some (opened_conn wc (wl_now s)) \<rparr>)"
| not_connected: "\<lbrakk>wl_conn s = None; wl_retry_at s \<le> wl_now s\<rbrakk> \<Longrightarrow> ws_step wc s (disconnected s)"
| arrived: "wl_conn s = Some c \<Longrightarrow> ws_step wc s (s \<lparr> wl_conn := Some (c \<lparr> cn_inbox := cn_inbox c @ [x] \<rparr>) \<rparr>)"
| turn: "wl_conn s = Some c \<Longrightarrow> ws_step wc s (ws_turn wc sent c s)"

inductive_cases ws_stepE: "ws_step wc s s'"

text \<open>\<open>not_connected\<close>: the connection or a subscription failed, or the mount is gone.  The clients a loop
  reaches, from its start with \<open>derive_ws_url\<close> settled:\<close>

inductive ws_reach :: "ws_config \<Rightarrow> ws_client \<Rightarrow> ws_client \<Rightarrow> bool" for wc :: ws_config and s0 :: ws_client where
  ws_start: "ws_reach wc s0 s0"
| ws_next: "\<lbrakk>ws_reach wc s0 s; ws_step wc s s'\<rbrakk> \<Longrightarrow> ws_reach wc s0 s'"

section \<open>What holds of every connection\<close>

definition conn_inv :: "ws_config \<Rightarrow> nat \<Rightarrow> ws_conn \<Rightarrow> bool" where
  "conn_inv wc now c =
     (cn_idle_due c = cn_heard c + READ_IDLE_TIMEOUT \<and>
      (case cn_pinged c of None \<Rightarrow> cn_ping_due c \<le> cn_heard c + PING_INTERVAL | Some p \<Rightarrow> cn_ping_due c = p + PING_INTERVAL) \<and>
      cn_heard c \<le> now \<and>
      (\<exists>pings. cn_wrote c = map Subscribe (wc_folder_ids wc) @ replicate pings Ping) \<and>
      cn_told c = connect_catch_up wc @ List.map_filter (frame_notification wc) (cn_received c))"

lemma conn_inv_opened: "conn_inv wc now (opened_conn wc now)"
  by (auto simp: conn_inv_def opened_conn_def map_filter_simps intro: exI [of _ 0])

lemma map_filter_snoc:
  "List.map_filter f (xs @ [x]) = List.map_filter f xs @ (case f x of None \<Rightarrow> [] | Some y \<Rightarrow> [y])"
  by (induction xs) (auto simp: map_filter_simps split: option.split)

lemma conn_inv_message:
  assumes "conn_inv wc (wl_now s) c" "wl_conn (on_message wc msg rest c s) = Some c'"
  shows "conn_inv wc (wl_now s) c'"
  using assms
  by (auto simp: conn_inv_def on_message_def disconnected_def Let_def map_filter_snoc
      split: option.splits if_splits)

lemma conn_inv_ping:
  assumes "conn_inv wc (wl_now s) c" "wl_conn (send_ping sent c s) = Some c'"
  shows "conn_inv wc (wl_now s) c'"
proof -
  obtain pings where "cn_wrote c = map Subscribe (wc_folder_ids wc) @ replicate pings Ping"
    using assms(1) by (auto simp: conn_inv_def)
  then have "cn_wrote c @ [Ping] = map Subscribe (wc_folder_ids wc) @ replicate (Suc pings) Ping"
    by (simp add: replicate_append_same)
  then have "\<exists>pings. cn_wrote c @ [Ping] = map Subscribe (wc_folder_ids wc) @ replicate pings Ping" by blast
  then show ?thesis
    using assms by (auto simp: conn_inv_def send_ping_def disconnected_def split: if_splits)
qed

lemma turn_now [simp]: "wl_now (ws_turn wc sent c s) = wl_now s"
  by (simp add: ws_turn_def on_message_def send_ping_def disconnected_def Let_def split: list.split ws_input.split option.split)

lemma conn_inv_turn:
  assumes "conn_inv wc (wl_now s) c" "wl_conn s = Some c" "wl_conn (ws_turn wc sent c s) = Some c'"
  shows "conn_inv wc (wl_now s) c'"
proof (cases "cn_inbox c")
  case Nil
  then show ?thesis
    using assms conn_inv_ping [OF assms(1), of sent c'] by (auto simp: ws_turn_def disconnected_def split: if_splits)
next
  case (Cons x rest)
  then show ?thesis
    using assms(3) conn_inv_message [OF assms(1), of _ rest c'] by (cases x) (auto simp: ws_turn_def disconnected_def)
qed

lemma reach_conn_inv:
  assumes "ws_reach wc s0 s" "wl_conn s0 = None"
  shows "\<forall>c. wl_conn s = Some c \<longrightarrow> conn_inv wc (wl_now s) c"
  using assms(1)
proof (induction rule: ws_reach.induct)
  case ws_start
  then show ?case using assms(2) by simp
next
  case (ws_next s s')
  from ws_next.hyps(2) show ?case
  proof (cases rule: ws_step.cases)
    case (ws_time_passes now)
    then show ?thesis using ws_next.IH by (auto simp: conn_inv_def split: option.splits)
  next
    case connected
    then show ?thesis by (simp add: conn_inv_opened)
  next
    case (arrived c x)
    then show ?thesis using ws_next.IH by (auto simp: conn_inv_def split: option.splits)
  next
    case (turn c sent)
    then show ?thesis using ws_next.IH conn_inv_turn by auto
  qed (use ws_next.IH in \<open>auto simp: disconnected_def\<close>)
qed

text \<open>C39: On every connection, the reconnected ones too, the client has subscribed to each folder and told
  the mount to catch up on each before anything else; after that it has told it exactly the well-formed
  notifications among the received frames, in order, and has written nothing but pings.\<close>

theorem connection_catches_up:
  assumes "ws_push_loop backend_url token now jitter = Inr (ws_url, s0)" "ws_reach wc s0 s" "wl_conn s = Some c"
  shows "cn_told c = connect_catch_up wc @ List.map_filter (frame_notification wc) (cn_received c) \<and>
    (\<exists>pings. cn_wrote c = map Subscribe (wc_folder_ids wc) @ replicate pings Ping)"
proof -
  have "wl_conn s0 = None" using assms(1) by (cases "derive_ws_url backend_url token") (auto simp: ws_push_loop_def)
  then have "conn_inv wc (wl_now s) c" using reach_conn_inv [OF assms(2)] assms(3) by blast
  then show ?thesis by (simp add: conn_inv_def)
qed

text \<open>C40: A connection without an error from the network is given up for silence only after 55 seconds
  without a frame, and only when a ping sent more than 33 seconds after the last frame, and less than
  22 seconds ago, was not answered.\<close>

theorem silent_connection_was_pinged:
  assumes "ws_push_loop backend_url token now jitter = Inr (ws_url, s0)" "ws_reach wc s0 s" "wl_conn s = Some c"
    and quiet: "cn_inbox c = []" and closed: "wl_conn (ws_turn wc True c s) = None"
  shows "cn_heard c + READ_IDLE_TIMEOUT \<le> wl_now s \<and>
    (\<exists>p. cn_pinged c = Some p \<and> cn_heard c + 33000 < p \<and> wl_now s < p + PING_INTERVAL)"
proof -
  have "wl_conn s0 = None" using assms(1) by (cases "derive_ws_url backend_url token") (auto simp: ws_push_loop_def)
  then have inv: "conn_inv wc (wl_now s) c" using reach_conn_inv [OF assms(2)] assms(3) by blast
  have idle: "cn_idle_due c \<le> wl_now s" "wl_now s < cn_ping_due c"
    using quiet closed assms(3) by (auto simp: ws_turn_def send_ping_def split: if_splits)
  then show ?thesis
    using inv by (cases "cn_pinged c") (auto simp: conn_inv_def PING_INTERVAL_def READ_IDLE_TIMEOUT_def)
qed

section \<open>The address\<close>

text \<open>An \<open>https\<close> server is never asked over an unencrypted websocket.\<close>

lemma ws_url_keeps_encryption:
  assumes "derive_ws_url backend_url token = Inr url"
  shows "starts_with url ''wss://'' \<longleftrightarrow> starts_with (trim_end_char CHR ''/'' backend_url) ''https://'' \<or>
    starts_with (trim_end_char CHR ''/'' backend_url) ''wss://''"
  using assms by (auto simp: derive_ws_url_def Let_def strip_prefix_def starts_with_iff split: if_splits)

text \<open>The task that runs the loop: it ends only where the address is refused, which counts as a failure
  of the backend.\<close>

definition websocket_task :: "env \<Rightarrow> daemon_config \<Rightarrow> string \<Rightarrow> nat \<Rightarrow> nat \<Rightarrow> ws_client option dio" where
  "websocket_task e cfg token now jitter = (case ws_push_loop (dc_backend_url cfg) token now jitter of
      Inr (_, s) \<Rightarrow> ret (Some s)
    | Inl _ \<Rightarrow> try_op (record_failure e) (\<lambda>_. ret None))"

end
