(* ===== verification/Ws_Runs.thy ===== *)
theory Ws_Runs
  imports Ws_Client
begin

text \<open>
  The theorems on the websocket client applied to concrete connections of a mount with the folder
  \<open>f\<close> and a server that sends the text \<open>n\<close> for a notification of number 7.
\<close>

definition ws0 :: ws_config where
  "ws0 = \<lparr> wc_folder_ids = [''f''],
           wc_into_text = (\<lambda>msg. case msg of WsText t \<Rightarrow> Some t | _ \<Rightarrow> None),
           wc_parse = (\<lambda>t. if t = ''n'' then Some (JObj [(''folder_id'', JStr ''f''), (''server_seq'', JInt 7)]) else None) \<rparr>"

definition ws_client0 :: ws_client where
  "ws_client0 = \<lparr> wl_now = 0, wl_conn = None, wl_retry_at = 0, wl_receiver = True \<rparr>"

definition ws_conn0 :: ws_conn where "ws_conn0 = opened_conn ws0 0"

lemmas ws_eval = ws0_def ws_client0_def ws_conn0_def opened_conn_def connect_catch_up_def ws_turn_def
  on_message_def send_ping_def PING_INTERVAL_def READ_IDLE_TIMEOUT_def disconnected_def
  frame_notification_def dec_ws_push_def req_field_def

lemma ws_loop_starts: "ws_push_loop ''https://s/'' ''t'' 0 0 = Inr (''wss://s/ws?token=t'', ws_client0)"
  by (simp add: ws_push_loop_def derive_ws_url_def trim_end_char_def strip_prefix_def starts_with_def
      ws_client0_def)

lemma ws_opened: "ws_reach ws0 ws_client0 (ws_client0 \<lparr> wl_conn := Some ws_conn0 \<rparr>)"
  using ws_next [OF ws_start connected [of ws_client0 ws0]] by (simp add: ws_client0_def ws_conn0_def)

lemma ws_after: "ws_reach wc s0 s \<Longrightarrow> wl_now s \<le> now \<Longrightarrow> ws_reach wc s0 (s \<lparr> wl_now := now \<rparr>)"
  by (rule ws_next [OF _ ws_time_passes])

lemma ws_frame: "ws_reach wc s0 s \<Longrightarrow> wl_conn s = Some c \<Longrightarrow>
    ws_reach wc s0 (s \<lparr> wl_conn := Some (c \<lparr> cn_inbox := cn_inbox c @ [x] \<rparr>) \<rparr>)"
  by (rule ws_next [OF _ arrived])

lemma ws_turned: "ws_reach wc s0 s \<Longrightarrow> wl_conn s = Some c \<Longrightarrow> ws_reach wc s0 (ws_turn wc sent c s)"
  by (rule ws_next [OF _ turn])

text \<open>A frame that arrives is read in the next turn.\<close>

lemma ws_read:
  assumes "ws_reach wc s0 s" "wl_conn s = Some c" "cn_inbox c = []"
  shows "ws_reach wc s0 (on_message wc msg [] (c \<lparr> cn_inbox := [Received msg] \<rparr>)
    (s \<lparr> wl_conn := Some (c \<lparr> cn_inbox := [Received msg] \<rparr>) \<rparr>))"
  using ws_turned [OF ws_frame [OF assms(1,2), of "Received msg"], of _ True] assms(3)
  by (simp add: ws_turn_def)

definition ws_conn1 :: "ws_message list \<Rightarrow> ws_push_notification list \<Rightarrow> ws_conn" where
  "ws_conn1 received told = ws_conn0 \<lparr> cn_idle_due := 56000, cn_heard := 1000, cn_received := received,
     cn_told := connect_catch_up ws0 @ told \<rparr>"

definition ws_client1 :: "ws_conn \<Rightarrow> ws_client" where
  "ws_client1 c = ws_client0 \<lparr> wl_now := 1000, wl_conn := Some c \<rparr>"

text \<open>A malformed frame and a notification arrive after a second.\<close>

lemma ws_notified:
  "ws_reach ws0 ws_client0 (ws_client1 (ws_conn1 [WsText ''x'', WsText ''n''] [\<lparr> wp_folder_id = ''f'', wp_server_seq = 7 \<rparr>]))"
proof -
  have "ws_reach ws0 ws_client0 (ws_client1 ws_conn0)"
    using ws_after [OF ws_opened, of 1000] by (simp add: ws_client0_def ws_client1_def)
  from ws_read [OF this, of ws_conn0 "WsText ''x''"]
  have "ws_reach ws0 ws_client0 (ws_client1 (ws_conn1 [WsText ''x''] []))"
    by (simp add: ws_eval ws_conn1_def ws_client1_def)
  from ws_read [OF this, of _ "WsText ''n''"] show ?thesis
    by (simp add: ws_eval ws_conn1_def ws_client1_def)
qed

theorem connection_catches_up_witness:
  "cn_told (ws_conn1 [WsText ''x'', WsText ''n''] [\<lparr> wp_folder_id = ''f'', wp_server_seq = 7 \<rparr>])
     = [\<lparr> wp_folder_id = ''f'', wp_server_seq = 0 \<rparr>, \<lparr> wp_folder_id = ''f'', wp_server_seq = 7 \<rparr>]"
proof -
  let ?c = "ws_conn1 [WsText ''x'', WsText ''n''] [\<lparr> wp_folder_id = ''f'', wp_server_seq = 7 \<rparr>]"
  have "wl_conn (ws_client1 ?c) = Some ?c" by (simp add: ws_client1_def)
  from connection_catches_up [OF ws_loop_starts ws_notified this]
  have "cn_told ?c = connect_catch_up ws0 @ List.map_filter (frame_notification ws0) (cn_received ?c)" by simp
  then show ?thesis
    by (simp add: ws_conn1_def ws_eval map_filter_simps)
qed

text \<open>Nothing arrives: pings after 22 and 44 seconds, and the connection is given up after 55.\<close>

lemma ws_pings:
  assumes "ws_reach wc s0 s" "wl_conn s = Some c" "cn_inbox c = []" "wl_now s \<le> now" "cn_ping_due c \<le> now"
  shows "ws_reach wc s0 (send_ping True c (s \<lparr> wl_now := now \<rparr>))"
  using ws_turned [OF ws_after [OF assms(1,4)], of c True] assms by (simp add: ws_turn_def)

definition ws_silent :: ws_conn where
  "ws_silent = ws_conn0 \<lparr> cn_ping_due := 66000, cn_wrote := [Subscribe ''f'', Ping, Ping], cn_pinged := Some 44000 \<rparr>"

lemma ws_silent_reached: "ws_reach ws0 ws_client0 (ws_client0 \<lparr> wl_now := 55000, wl_conn := Some ws_silent \<rparr>)"
proof -
  have "ws_reach ws0 ws_client0 (send_ping True ws_conn0 (ws_client0 \<lparr> wl_conn := Some ws_conn0, wl_now := 22000 \<rparr>))"
    by (rule ws_pings [OF ws_opened]) (simp_all add: ws_eval)
  from ws_pings [OF this, of _ 44000] have "ws_reach ws0 ws_client0 (ws_client0 \<lparr> wl_now := 44000, wl_conn := Some ws_silent \<rparr>)"
    by (simp add: ws_eval ws_silent_def)
  from ws_after [OF this, of 55000] show ?thesis by (simp add: ws_client0_def)
qed

theorem silent_connection_was_pinged_witness:
  "\<exists>p. cn_pinged ws_silent = Some p \<and> 33000 < p \<and> 55000 < p + PING_INTERVAL"
proof -
  let ?s = "ws_client0 \<lparr> wl_now := 55000, wl_conn := Some ws_silent \<rparr>"
  have "wl_conn ?s = Some ws_silent" "cn_inbox ws_silent = []" "wl_conn (ws_turn ws0 True ws_silent ?s) = None"
    by (simp_all add: ws_silent_def ws_eval)
  from silent_connection_was_pinged [OF ws_loop_starts ws_silent_reached this]
  show ?thesis by (auto simp: ws_silent_def ws_eval)
qed

end
