(* ===== verification/Cli_Update.thy ===== *)
theory Cli_Update
  imports Cli_Daemon File_Moves
begin

text \<open>
  \<open>valv update\<close> (\<open>valv-cli/src/update.rs\<close>): which components are to be updated, the staged and
  verified archives, the swap of the installed binaries with its undo, the restart of the daemon and
  the roll-back when the new daemon does not report its version.  \<open>tar\<close>, the service manager, the
  signature check and \<open>valvd --version\<close> are parameters.
\<close>

section \<open>What to update\<close>

datatype update_plan = AlreadyUpToDate | InstallUpdate

definition plan_update :: "string \<Rightarrow> string \<Rightarrow> bool \<Rightarrow> update_plan" where
  "plan_update current_version latest_version pinned =
     (if \<not> pinned \<and> \<not> is_newer_version latest_version current_version then AlreadyUpToDate else InstallUpdate)"

definition env_pin_is_set :: "string option \<Rightarrow> bool" where
  "env_pin_is_set v = (case v of Some s \<Rightarrow> s \<noteq> [] | None \<Rightarrow> False)"

text \<open>\<open>str::parse\<close> is not used here: a token is a version when it is three runs of digits.\<close>

definition version_token :: "string \<Rightarrow> bool" where
  "version_token token =
     (let parts = split_char CHR ''.'' token in
      length parts = 3 \<and> list_all (\<lambda>p. p \<noteq> [] \<and> list_all is_digit p) parts)"

definition parse_version_output :: "string \<Rightarrow> string option" where
  "parse_version_output t = find version_token (map (trim_start_char CHR ''v'') (words_from [] t))"

text \<open>\<open>output\<close>: what \<open>valvd --version\<close> printed, \<open>None\<close> when it failed.\<close>

definition installed_binary_version :: "string option \<Rightarrow> string option" where
  "installed_binary_version output = (case output of
      Some bytes \<Rightarrow> if valid_utf8 bytes then parse_version_output bytes else None
    | None \<Rightarrow> None)"

datatype managed_install_guard = NoGuard | FullAbort | DaemonManaged

definition classify_managed_install :: "path \<Rightarrow> path option \<Rightarrow> string option \<Rightarrow> managed_install_guard" where
  "classify_managed_install app_bin_dir current_exe_parent registered_valvd_path =
     (if current_exe_parent = Some app_bin_dir then FullAbort
      else (case registered_valvd_path of
          Some registered \<Rightarrow>
            if is_absolute registered \<and> strip_path_prefix (components registered) app_bin_dir \<noteq> None
            then DaemonManaged else NoGuard
        | None \<Rightarrow> NoGuard))"

definition cli_app_managed_bin_dir :: "cli_env \<Rightarrow> error + path" where
  "cli_app_managed_bin_dir e = map_sum id (\<lambda>h. path_join h ''Library/Application Support/Valv/bin'') (home_dir e)"

definition read_registered_valvd_path :: "fs \<Rightarrow> path \<Rightarrow> string option" where
  "read_registered_valvd_path fs plist_path =
     Option.bind (read_to_string fs plist_path) parse_first_program_argument"

definition no_exe :: error where "no_exe = EMsg ''failed to determine current executable path''"

definition check_managed_install_guard :: "cli_env \<Rightarrow> managed_install_guard cio" where
  "check_managed_install_guard e =
     (if ce_os e = ''macos''
      then
        try_op (lift_result (cli_app_managed_bin_dir e)) (\<lambda>app_bin_dir.
        case ce_exe e of
          None \<Rightarrow> fail no_exe
        | Some exe \<Rightarrow>
            try_op (lift_result (launch_agent_plist_path e)) (\<lambda>plist_path.
            reads (\<lambda>s. classify_managed_install app_bin_dir (path_parent exe)
              (read_registered_valvd_path (w_fs (cs_world s)) plist_path))))
      else ret NoGuard)"

section \<open>Staging\<close>

record staged_component =
  st_extract_dir :: path
  st_staged_path :: path
  st_old_version :: string
  st_new_version :: string

definition cli_detect_target :: "string \<Rightarrow> string \<Rightarrow> error + string" where
  "cli_detect_target os arch =
     (if os = ''macos'' \<and> arch = ''aarch64'' then Inr ''aarch64-apple-darwin''
      else if os = ''linux'' \<and> arch = ''x86_64'' then Inr ''x86_64-unknown-linux-gnu''
      else Inl (EMsg (''unsupported platform '' @ os @ ''/'' @ arch
             @ ''; supported targets are macOS arm64 and Linux x86_64'')))"

definition download_bytes :: "env \<Rightarrow> string \<Rightarrow> string io" where
  "download_bytes e url =
     try_op (send e \<lparr> rq_method = GET, rq_url = url, rq_bearer = None, rq_headers = [], rq_body = NoBody \<rparr>)
       (\<lambda>(status, body).
     if \<not> is_success status then fail (EMsg (''failed to download '' @ url @ '': HTTP '' @ string_of_nat status))
     else (case body of BodyBytes bytes \<Rightarrow> ret bytes | _ \<Rightarrow> fail ETransport))"

fun cli_checksum_lines :: "string \<Rightarrow> string list \<Rightarrow> string option" where
  "cli_checksum_lines asset [] = None"
| "cli_checksum_lines asset (line # lines) = (case words_from [] line of
       hash # name # _ \<Rightarrow> if name = asset \<or> name = ''*'' @ asset then Some hash else cli_checksum_lines asset lines
     | _ \<Rightarrow> cli_checksum_lines asset lines)"

definition cli_checksum_for_asset :: "string \<Rightarrow> string \<Rightarrow> string option" where
  "cli_checksum_for_asset sha256sums asset = cli_checksum_lines asset (text_lines sha256sums)"

definition cli_verify_tarball_checksum :: "env \<Rightarrow> string \<Rightarrow> string \<Rightarrow> string \<Rightarrow> error + unit" where
  "cli_verify_tarball_checksum e asset tarball sha256sums =
     (if \<not> valid_utf8 sha256sums then Inl (EMsg ''SHA256SUMS is not valid UTF-8'')
      else (case cli_checksum_for_asset sha256sums asset of
          None \<Rightarrow> Inl (EMsg (''SHA256SUMS does not contain '' @ asset))
        | Some expected \<Rightarrow>
            let actual = env_sha256 e tarball in
            if actual \<noteq> expected
            then Inl (EMsg (''checksum mismatch for '' @ asset @ '': expected '' @ expected @ '', got '' @ actual))
            else Inr ()))"

lemma cli_checksum_same: "cli_checksum_for_asset listing asset = checksum_for_asset listing asset"
proof -
  have "cli_checksum_lines asset ls =
    (case find (\<lambda>l. line_checksum asset l \<noteq> None) ls of None \<Rightarrow> None | Some l \<Rightarrow> line_checksum asset l)" for ls
    by (induction ls) (auto simp: line_checksum_def split: list.split)
  then show ?thesis by (simp add: cli_checksum_for_asset_def checksum_for_asset_def)
qed

lemma cli_verify_same: "cli_verify_tarball_checksum e = verify_tarball_checksum e"
  by (intro ext) (simp add: cli_verify_tarball_checksum_def verify_tarball_checksum_def cli_checksum_same Let_def
      split: option.split)

text \<open>\<open>uuid.simple()\<close> prints no hyphens.  \<open>tar\<close> unpacks an archive into a directory.\<close>

definition extract_tarball :: "env \<Rightarrow> path \<Rightarrow> (path \<Rightarrow> path \<Rightarrow> unit io) \<Rightarrow> string \<Rightarrow> path io" where
  "extract_tarball e temp_dir tar tarball =
     try_op (new_uuid e) (\<lambda>uuid.
     let extract_dir = path_join temp_dir (''valv-update-'' @ filter (\<lambda>c. c \<noteq> CHR ''-'') uuid);
         tarball_path = path_join extract_dir ''download.tar.gz'' in
     try_op (on_fs (fs_create_dir_all extract_dir)) (\<lambda>_.
     try_op (on_fs (fs_write tarball_path tarball 0)) (\<lambda>_.
     try_op (tar tarball_path extract_dir) (\<lambda>_.
     try_op (ignore_result (on_fs (fs_remove_file tarball_path))) (\<lambda>_.
     ret extract_dir)))))"

text \<open>What staging needs from outside: the signature check, the directory for temporary files and \<open>tar\<close>.\<close>

record staging_tools =
  sg_minisign :: "string \<Rightarrow> string \<Rightarrow> bool"
  sg_temp_dir :: path
  sg_tar :: "path \<Rightarrow> path \<Rightarrow> unit io"

definition fetch_component :: "env \<Rightarrow> staging_tools \<Rightarrow> string \<Rightarrow> release_component \<Rightarrow> string \<Rightarrow> string \<Rightarrow> string \<Rightarrow> string io" where
  "fetch_component e tools repo component binary_name version target =
     (let asset = component_asset_name binary_name version target;
          release_base = component_release_base repo component version in
      try_op (download_bytes e (release_base @ ''/'' @ asset)) (\<lambda>tarball_bytes.
      try_op (download_bytes e (release_base @ ''/SHA256SUMS'')) (\<lambda>sha256sums_bytes.
      try_op (download_bytes e (release_base @ ''/SHA256SUMS.minisig'')) (\<lambda>minisig_bytes.
      try_op (lift_result (cli_verify_tarball_checksum e asset tarball_bytes sha256sums_bytes)) (\<lambda>_.
      try_op (lift_result (verify_sha256sums (sg_minisign tools) sha256sums_bytes minisig_bytes)) (\<lambda>_.
      ret tarball_bytes))))))"

definition stage_component ::
    "env \<Rightarrow> staging_tools \<Rightarrow> string \<Rightarrow> release_component \<Rightarrow> string \<Rightarrow> string \<Rightarrow> string \<Rightarrow> string \<Rightarrow> staged_component io" where
  "stage_component e tools repo component binary_name version target old_version =
     try_op (fetch_component e tools repo component binary_name version target) (\<lambda>tarball_bytes.
     try_op (extract_tarball e (sg_temp_dir tools) (sg_tar tools) tarball_bytes) (\<lambda>extract_dir.
     let staged_path = path_join extract_dir binary_name in
     with_state (\<lambda>w.
       if \<not> path_exists (w_fs w) staged_path
       then fail (EMsg (component_asset_name binary_name version target @ '' did not contain '' @ binary_name))
       else ret \<lparr> st_extract_dir = extract_dir, st_staged_path = staged_path,
                  st_old_version = old_version, st_new_version = version \<rparr>)))"

section \<open>The swap\<close>

record swap_backup =
  sb_valv_current :: "path option"
  sb_valv_backup :: "path option"
  sb_valvd_current :: "path option"
  sb_valvd_backup :: "path option"

definition rename_atomic :: "path \<Rightarrow> path \<Rightarrow> unit io" where
  "rename_atomic from_path to_path = on_fs (fs_rename from_path to_path)"

definition cli_restore_binary :: "path \<Rightarrow> path \<Rightarrow> unit io" where
  "cli_restore_binary backup current = ignore_result (rename_atomic backup current)"

definition rollback_optional :: "path option \<Rightarrow> path option \<Rightarrow> unit io" where
  "rollback_optional backup current = (case (backup, current) of
      (Some b, Some c) \<Rightarrow> cli_restore_binary b c | _ \<Rightarrow> ret ())"

text \<open>Failing after an undo.\<close>

definition undo_then_fail :: "unit io \<Rightarrow> error \<Rightarrow> 'a io" where
  "undo_then_fail undo err = try_op undo (\<lambda>_. fail err)"

definition swap_valv :: "path \<Rightarrow> path option \<Rightarrow> (path option \<times> path option) io" where
  "swap_valv install_dir staged_valv = (case staged_valv of
      None \<Rightarrow> ret (None, None)
    | Some staged \<Rightarrow>
        let valv_current = path_join install_dir ''valv''; valv_backup = path_join install_dir ''valv.old'' in
        try_op (rename_atomic valv_current valv_backup) (\<lambda>_.
        match_op (rename_atomic staged valv_current)
          (\<lambda>_. match_op (set_executable valv_current)
             (\<lambda>_. ret (Some valv_current, Some valv_backup))
             (undo_then_fail (cli_restore_binary valv_backup valv_current)))
          (undo_then_fail (cli_restore_binary valv_backup valv_current))))"

definition swap_valvd ::
    "path \<Rightarrow> path option \<Rightarrow> path option \<times> path option \<Rightarrow> (path option \<times> path option) io" where
  "swap_valvd install_dir staged_valvd valv = (case staged_valvd of
      None \<Rightarrow> ret (None, None)
    | Some staged \<Rightarrow>
        let valvd_current = path_join install_dir ''valvd''; valvd_backup = path_join install_dir ''valvd.old'';
            undo_valv = rollback_optional (snd valv) (fst valv);
            undo_both = try_op (cli_restore_binary valvd_backup valvd_current) (\<lambda>_. undo_valv) in
        match_op (rename_atomic valvd_current valvd_backup)
          (\<lambda>_. match_op (rename_atomic staged valvd_current)
             (\<lambda>_. match_op (set_executable valvd_current)
                (\<lambda>_. ret (Some valvd_current, Some valvd_backup))
                (undo_then_fail undo_both))
             (undo_then_fail undo_both))
          (undo_then_fail undo_valv))"

definition swap :: "path \<Rightarrow> path option \<Rightarrow> path option \<Rightarrow> swap_backup io" where
  "swap install_dir staged_valv staged_valvd =
     try_op (swap_valv install_dir staged_valv) (\<lambda>valv.
     try_op (swap_valvd install_dir staged_valvd valv) (\<lambda>valvd.
     ret \<lparr> sb_valv_current = fst valv, sb_valv_backup = snd valv,
           sb_valvd_current = fst valvd, sb_valvd_backup = snd valvd \<rparr>))"

definition rename_back :: "path option \<Rightarrow> path option \<Rightarrow> unit io" where
  "rename_back current backup = (case (current, backup) of
      (Some c, Some b) \<Rightarrow> rename_atomic b c | _ \<Rightarrow> ret ())"

definition rollback :: "swap_backup \<Rightarrow> unit io" where
  "rollback backup =
     try_op (rename_back (sb_valv_current backup) (sb_valv_backup backup)) (\<lambda>_.
     rename_back (sb_valvd_current backup) (sb_valvd_backup backup))"

text \<open>\<open>render\<close> prints an error; the result of the restart is ignored.\<close>

definition handle_failed_restart :: "(error \<Rightarrow> string) \<Rightarrow> swap_backup \<Rightarrow> unit io \<Rightarrow> error \<Rightarrow> error io" where
  "handle_failed_restart render backup restart original_error =
     match_op (rollback backup)
       (\<lambda>_. try_op (ignore_result restart) (\<lambda>_.
            ret (EMsg (''update failed and was rolled back: '' @ render original_error))))
       (\<lambda>rollback_error. try_op (ignore_result restart) (\<lambda>_.
            ret (EMsg (''update failed ('' @ render original_error @ '') AND the rollback also failed (''
              @ render rollback_error @ '') - the installed valv/valvd binaries may be in an inconsistent state; ''
              @ ''reinstall with install.sh''))))"

section \<open>Restart and confirmation\<close>

definition RESTART_POLL_TIMEOUT :: nat where "RESTART_POLL_TIMEOUT = 10000"
definition RESTART_POLL_INTERVAL :: nat where "RESTART_POLL_INTERVAL = 250"

definition daemon_status_matches_version :: "daemon_status \<Rightarrow> string \<Rightarrow> bool" where
  "daemon_status_matches_version status target_version = (dt_version status = target_version)"

text \<open>The status the daemon reports, \<open>None\<close> when any step fails; the reply's status code is not looked at.\<close>

definition reported_status :: "cli_env \<Rightarrow> daemon_status option cio" where
  "reported_status e =
     try_op (catch_error (daemon_client e)) (\<lambda>client.
     if isl client then ret None
     else try_op (cli_send e (local_request ''GET'' ''status'' CNoBody)) (\<lambda>a.
       case a of Answer r \<Rightarrow> ret (as_status (cr_payload r)) | Silent \<Rightarrow> fail ENoFuel | _ \<Rightarrow> ret None))"

definition daemon_reports_version :: "cli_env \<Rightarrow> string \<Rightarrow> bool cio" where
  "daemon_reports_version e target_version =
     try_op (reported_status e) (\<lambda>status. ret (case status of
         Some st \<Rightarrow> daemon_status_matches_version st target_version | None \<Rightarrow> False))"

definition current_daemon_version :: "cli_env \<Rightarrow> string option cio" where
  "current_daemon_version e = try_op (reported_status e) (\<lambda>status. ret (map_option dt_version status))"

primrec poll_version :: "nat \<Rightarrow> cli_env \<Rightarrow> string \<Rightarrow> nat \<Rightarrow> bool cio" where
  "poll_version 0 e target_version deadline = fail ENoFuel"
| "poll_version (Suc fuel) e target_version deadline =
     try_op (daemon_reports_version e target_version) (\<lambda>reported.
     if reported then ret True
     else try_op (now_ms e) (\<lambda>now.
       if deadline \<le> now then ret False else try_op (sleep_ms RESTART_POLL_INTERVAL) (\<lambda>_. poll_version fuel e target_version deadline)))"

definition poll_daemon_version :: "nat \<Rightarrow> cli_env \<Rightarrow> string \<Rightarrow> nat \<Rightarrow> bool cio" where
  "poll_daemon_version fuel e target_version timeout =
     try_op (now_ms e) (\<lambda>now. poll_version fuel e target_version (now + timeout))"

definition restart_and_confirm :: "nat \<Rightarrow> cli_env \<Rightarrow> unit io \<Rightarrow> string \<Rightarrow> unit cio" where
  "restart_and_confirm fuel e restart target_version =
     try_op (in_world restart) (\<lambda>_.
     try_op (poll_daemon_version fuel e target_version RESTART_POLL_TIMEOUT) (\<lambda>confirmed.
     if confirmed then ret ()
     else fail (EMsg (''daemon did not report version '' @ target_version @ '' within ''
            @ string_of_nat (RESTART_POLL_TIMEOUT div 1000) @ ''s''))))"

section \<open>The command\<close>

definition APP_MANAGED_NOTICE :: string where
  "APP_MANAGED_NOTICE = ''valvd is managed by the Valv app. Update the app instead.''"

record update_tools =
  ut_staging :: staging_tools
  ut_restart :: "unit io"
  ut_valvd_output :: "string option"
  ut_cli_version :: string
  ut_cli_pin :: "string option"
  ut_valvd_pin :: "string option"
  ut_repo :: string

definition valvd_plan :: "cli_env \<Rightarrow> update_tools \<Rightarrow> (update_plan \<times> string \<times> string) cio" where
  "valvd_plan e tools =
     try_op (in_world (resolve_latest_version (ce_env e) (ut_repo tools) ValvdRelease (ut_valvd_pin tools))) (\<lambda>latest.
     try_op (current_daemon_version e) (\<lambda>reported.
     let current = (case reported of
           Some version \<Rightarrow> version
         | None \<Rightarrow> (case installed_binary_version (ut_valvd_output tools) of
               Some version \<Rightarrow> version | None \<Rightarrow> ''0.0.0'')) in
     ret (plan_update current latest (env_pin_is_set (ut_valvd_pin tools)), current, latest)))"

definition stage_if :: "update_plan \<Rightarrow> staged_component io \<Rightarrow> staged_component option io" where
  "stage_if plan m = (case plan of
      InstallUpdate \<Rightarrow> try_op m (\<lambda>c. ret (Some c)) | AlreadyUpToDate \<Rightarrow> ret None)"

definition remove_staged :: "staged_component option \<Rightarrow> unit io" where
  "remove_staged c = (case c of
      None \<Rightarrow> ret () | Some s \<Rightarrow> ignore_result (on_fs (fs_remove_dir_all (st_extract_dir s))))"

text \<open>From the staged components on: the swap, the removal of the extracted archives, and the restart
  of an updated daemon, whose failure rolls the swap back.\<close>

definition install_staged ::
    "nat \<Rightarrow> cli_env \<Rightarrow> unit io \<Rightarrow> path \<Rightarrow> staged_component option \<Rightarrow> staged_component option \<Rightarrow> unit cio" where
  "install_staged fuel e restart install_dir cli_staged valvd_staged =
     try_op (in_world (swap install_dir (map_option st_staged_path cli_staged) (map_option st_staged_path valvd_staged)))
       (\<lambda>backup.
     try_op (in_world (remove_staged cli_staged)) (\<lambda>_.
     try_op (in_world (remove_staged valvd_staged)) (\<lambda>_.
     case valvd_staged of
       None \<Rightarrow> ret ()
     | Some c \<Rightarrow>
         match_op (restart_and_confirm fuel e restart (st_new_version c)) ret
           (\<lambda>err. if err = ENoFuel then fail err
              else try_op (in_world (handle_failed_restart (ce_render e) backup restart err)) (\<lambda>err'. fail err')))))"

definition updated_component :: "string \<Rightarrow> staged_component \<Rightarrow> string \<times> json" where
  "updated_component name c =
     (name @ '' '' @ st_old_version c @ '' -> '' @ st_new_version c,
      JObj [(''name'', JStr name), (''from'', JStr (st_old_version c)), (''to'', JStr (st_new_version c))])"

definition report_update ::
    "cli_env \<Rightarrow> bool \<Rightarrow> bool \<Rightarrow> bool \<Rightarrow> staged_component option \<Rightarrow> staged_component option \<Rightarrow> unit cio" where
  "report_update e json daemon_is_app_managed valvd_sibling_present cli_staged valvd_staged =
     (let updated = (case cli_staged of None \<Rightarrow> [] | Some c \<Rightarrow> [updated_component ''valv'' c])
            @ (case valvd_staged of None \<Rightarrow> [] | Some c \<Rightarrow> [updated_component ''valvd'' c]);
          no_valvd_sibling = (\<not> valvd_sibling_present \<and> \<not> daemon_is_app_managed);
          message = ''Updated '' @ intercalate '', '' (map fst updated)
            @ (if no_valvd_sibling \<and> valvd_staged = None \<and> cli_staged \<noteq> None
               then '' (no valvd sibling found; daemon not restarted)'' else []) in
      emit e json (message # (if daemon_is_app_managed \<and> cli_staged \<noteq> None then [APP_MANAGED_NOTICE] else []))
        (JObj [(''result'', JStr ''updated''), (''components'', JArr (map snd updated)),
               (''valvd_restarted'', JBool (valvd_staged \<noteq> None)),
               (''daemon_app_managed'', JBool daemon_is_app_managed)]))"

definition update_with_plans ::
    "nat \<Rightarrow> cli_env \<Rightarrow> update_tools \<Rightarrow> bool \<Rightarrow> path \<Rightarrow> bool \<Rightarrow> bool \<Rightarrow> update_plan \<times> string \<Rightarrow>
     (update_plan \<times> string \<times> string) option \<Rightarrow> unit cio" where
  "update_with_plans fuel e tools json install_dir daemon_is_app_managed valvd_sibling_present cli valvd =
     (let valvd_action = (case valvd of Some (action, _) \<Rightarrow> action | None \<Rightarrow> AlreadyUpToDate) in
      if fst cli = AlreadyUpToDate \<and> valvd_action = AlreadyUpToDate
      then emit e json [''valv is already up to date ('' @ ut_cli_version tools @ '')'']
             (JObj [(''result'', JStr ''up_to_date''), (''version'', JStr (ut_cli_version tools))])
      else
        try_op (lift_result (cli_detect_target (ce_os e) (ce_arch e))) (\<lambda>target.
        try_op (in_world (stage_if (fst cli) (stage_component (ce_env e) (ut_staging tools) (ut_repo tools) CliRelease
          ''valv'' (snd cli) target (ut_cli_version tools)))) (\<lambda>cli_staged.
        try_op (case valvd of
            None \<Rightarrow> ret None
          | Some (action, current, latest) \<Rightarrow>
              in_world (stage_if action (stage_component (ce_env e) (ut_staging tools) (ut_repo tools) ValvdRelease
                ''valvd'' latest target current))) (\<lambda>valvd_staged.
        try_op (install_staged fuel e (ut_restart tools) install_dir cli_staged valvd_staged) (\<lambda>_.
        report_update e json daemon_is_app_managed valvd_sibling_present cli_staged valvd_staged)))))"

definition cmd_update :: "nat \<Rightarrow> cli_env \<Rightarrow> update_tools \<Rightarrow> bool \<Rightarrow> unit cio" where
  "cmd_update fuel e tools json =
     try_op (check_managed_install_guard e) (\<lambda>guard.
     if guard = FullAbort
     then emit e json [APP_MANAGED_NOTICE] (JObj [(''result'', JStr ''app_managed'')])
     else
       let daemon_is_app_managed = (guard = DaemonManaged) in
       case ce_exe e of
         None \<Rightarrow> fail no_exe
       | Some exe \<Rightarrow>
           (case path_parent exe of
              None \<Rightarrow> fail (EMsg ''current executable has no parent directory'')
            | Some install_dir \<Rightarrow> with_state (\<lambda>s0.
                let valvd_sibling_present = path_exists (w_fs (cs_world s0)) (path_join install_dir ''valvd'') in
                try_op (in_world (resolve_latest_version (ce_env e) (ut_repo tools) CliRelease (ut_cli_pin tools)))
                  (\<lambda>latest_cli.
                try_op (if valvd_sibling_present \<and> \<not> daemon_is_app_managed
                        then try_op (valvd_plan e tools) (\<lambda>p. ret (Some p)) else ret None) (\<lambda>valvd.
                update_with_plans fuel e tools json install_dir daemon_is_app_managed valvd_sibling_present
                  (plan_update (ut_cli_version tools) latest_cli (env_pin_is_set (ut_cli_pin tools)), latest_cli) valvd)))))"

end
