(* ===== verification/Cli_Update_Props.thy ===== *)
theory Cli_Update_Props
  imports Cli_Update
begin

text \<open>
  The swap of the installed binaries: a swap that fails has undone itself, a roll-back undoes a swap
  that succeeded, and a daemon that was started in between defeats the roll-back, because it removes
  the backup of its own binary first.
\<close>

section \<open>The installation directory\<close>

definition binary_names :: "string set" where
  "binary_names = {''valv'', ''valv.old'', ''valvd'', ''valvd.old''}"

text \<open>\<open>staged_at fs p s\<close>: the path \<open>p\<close> names the place \<open>s\<close> in an existing directory, with a regular
  file or nothing at it.\<close>

definition staged_at :: "fs \<Rightarrow> path \<Rightarrow> path \<Rightarrow> bool" where
  "staged_at fs p s =
     (p \<noteq> [] \<and> s \<noteq> [] \<and> last p \<noteq> ''..'' \<and> last s = last p \<and> canonicalize fs (butlast p) = Inr (butlast s) \<and>
      fs_entry fs (butlast s) = Some Dir \<and> plain_entry (fs_entry fs s))"

text \<open>\<open>installing dir d staged fs\<close>: the installation directory \<open>dir\<close> is the directory \<open>d\<close>, with
  regular files or nothing under the names of the binaries and their backups, and the staged files
  are regular files elsewhere.\<close>

definition installing :: "path \<Rightarrow> path \<Rightarrow> path set \<Rightarrow> fs \<Rightarrow> bool" where
  "installing dir d staged fs =
     (slots dir d binary_names fs \<and> (\<forall>p \<in> staged. \<exists>s. staged_at fs p s \<and> butlast s \<noteq> d))"

lemma staged_resolves: "staged_at fs p s \<Longrightarrow> resolve_parent fs p = Inr s"
  by (auto simp: staged_at_def resolve_parent_def) (metis append_butlast_last_id)

lemma staged_moved:
  assumes "staged_at fs p s" "moved a b fs fs'" "fs_tree fs" "plain_entry (fs_entry fs a)" "plain_entry (fs_entry fs b)"
    "fs_entry fs (butlast b) = Some Dir"
  shows "staged_at fs' p s"
proof -
  note kept = moved_tree(2) [OF assms(3,2,4-6)]
  have "fs_entry fs (butlast s) = Some Dir" "canonicalize fs (butlast p) = Inr (butlast s)"
    using assms(1) by (simp_all add: staged_at_def)
  then have "canonicalize fs' (butlast p) = Inr (butlast s)" "fs_entry fs' (butlast s) = Some Dir"
    using canonicalize_dirs_kept [OF kept] kept unfolding dirs_kept_def by blast+
  moreover have "plain_entry (fs_entry fs' s)"
    using assms(1,2,4) unfolding moved_def staged_at_def by (auto simp: plain_entry_def)
  ultimately show ?thesis using assms(1) by (simp add: staged_at_def)
qed

lemma installing_moved:
  assumes "installing dir d staged fs" "moved a b fs fs'" "plain_entry (fs_entry fs a)" "plain_entry (fs_entry fs b)"
    "fs_entry fs (butlast b) = Some Dir"
  shows "installing dir d staged fs'"
proof -
  have "fs_tree fs" using assms(1) by (simp add: installing_def slots_def)
  then show ?thesis
    using assms(1) slots_moved [OF _ assms(2-5)] staged_moved [OF _ assms(2) _ assms(3-5)]
    unfolding installing_def by blast
qed

lemma binary_path [simp]: "x \<in> binary_names \<Longrightarrow> path_join dir x = dir @ [x]"
  unfolding binary_names_def by (auto intro!: plain_component)

lemma installing_slot:
  assumes "installing dir d staged fs" "x \<in> binary_names"
  shows "resolve_parent fs (dir @ [x]) = Inr (d @ [x])" "plain_entry (fs_entry fs (d @ [x]))"
    "fs_entry fs d = Some Dir" "fs_tree fs"
  using assms resolve_parent_slot [of dir d binary_names fs x] by (auto simp: installing_def slots_def)

lemma rename_run: "rename_atomic a b w = (case fs_rename a b (w_fs w) of (r, fs) \<Rightarrow> (r, w \<lparr> w_fs := fs \<rparr>))"
  by (simp add: rename_atomic_def on_fs_def)

lemma set_executable_run: "\<exists>r. set_executable p w = (r, w)"
  by (auto simp: set_executable_def run_simps split: sum.split)

text \<open>A rename to the slot \<open>y\<close>, from a slot or from a staged file at the place \<open>a\<close>.\<close>

lemma rename_to_slot:
  assumes inst: "installing dir d staged (w_fs w)" and y: "y \<in> binary_names"
    and a: "resolve_parent (w_fs w) p = Inr a" "a \<noteq> d @ [y]" "plain_entry (fs_entry (w_fs w) a)"
  obtains (failed) e where "rename_atomic p (dir @ [y]) w = (Inl e, w)"
      "fs_entry (w_fs w) a = None \<or> butlast a \<in> set (fs_denied (w_fs w)) \<or> d \<in> set (fs_denied (w_fs w))"
    | (renamed) w' where "rename_atomic p (dir @ [y]) w = (Inr (), w')" "moved a (d @ [y]) (w_fs w) (w_fs w')"
      "fs_entry (w_fs w) a \<noteq> None" "butlast a \<notin> set (fs_denied (w_fs w))" "d \<notin> set (fs_denied (w_fs w))"
      "installing dir d staged (w_fs w')"
proof -
  note slot = installing_slot [OF inst y]
  from rename_plain [OF slot(4) a(1) slot(1) a(2) a(3) slot(2)] slot(3)
  consider (f) e where "fs_rename p (dir @ [y]) (w_fs w) = (Inl e, w_fs w)"
      "fs_entry (w_fs w) a = None \<or> butlast a \<in> set (fs_denied (w_fs w)) \<or> d \<in> set (fs_denied (w_fs w))"
    | (m) fs' where "fs_rename p (dir @ [y]) (w_fs w) = (Inr (), fs')" "moved a (d @ [y]) (w_fs w) fs'"
      "fs_entry (w_fs w) a \<noteq> None" "butlast a \<notin> set (fs_denied (w_fs w))" "d \<notin> set (fs_denied (w_fs w))"
    by auto
  then show thesis
  proof cases
    case f
    then show ?thesis using that(1) [of e] by (simp add: rename_run)
  next
    case m
    have "installing dir d staged fs'"
      using installing_moved [OF inst m(2) a(3) slot(2)] slot(3) by simp
    then show ?thesis using that(2) [of "w \<lparr> w_fs := fs' \<rparr>"] m by (simp add: rename_run)
  qed
qed

section \<open>One binary\<close>

text \<open>\<open>undone\<close>: every place but the backup and the staged file is as it was.  \<open>replaced\<close>: the
  binary's old content is in the backup, the staged file in its place.\<close>

definition undone :: "path \<Rightarrow> path \<Rightarrow> path set \<Rightarrow> string \<Rightarrow> path \<Rightarrow> world \<Rightarrow> world \<Rightarrow> bool" where
  "undone dir d staged xo s w w' =
     (installing dir d staged (w_fs w') \<and> fs_denied (w_fs w') = fs_denied (w_fs w) \<and>
      (\<forall>q. q \<noteq> d @ [xo] \<and> q \<noteq> s \<longrightarrow> fs_entry (w_fs w') q = fs_entry (w_fs w) q))"

definition replaced :: "path \<Rightarrow> path \<Rightarrow> path set \<Rightarrow> string \<Rightarrow> string \<Rightarrow> path \<Rightarrow> world \<Rightarrow> world \<Rightarrow> bool" where
  "replaced dir d staged x xo s w w' =
     (installing dir d staged (w_fs w') \<and> fs_denied (w_fs w') = fs_denied (w_fs w) \<and> d \<notin> set (fs_denied (w_fs w)) \<and>
      fs_entry (w_fs w') (d @ [xo]) = fs_entry (w_fs w) (d @ [x]) \<and> fs_entry (w_fs w) (d @ [x]) \<noteq> None \<and>
      fs_entry (w_fs w') (d @ [x]) = fs_entry (w_fs w) s \<and>
      (\<forall>q. q \<noteq> d @ [x] \<and> q \<noteq> d @ [xo] \<and> q \<noteq> s \<longrightarrow> fs_entry (w_fs w') q = fs_entry (w_fs w) q))"

text \<open>Putting a backup back succeeds wherever there is one.\<close>

lemma restore_run:
  assumes "installing dir d staged (w_fs w)" "x \<in> binary_names" "xo \<in> binary_names" "x \<noteq> xo"
    "fs_entry (w_fs w) (d @ [xo]) \<noteq> None" "d \<notin> set (fs_denied (w_fs w))"
  obtains w' where "rename_atomic (dir @ [xo]) (dir @ [x]) w = (Inr (), w')"
    "cli_restore_binary (dir @ [xo]) (dir @ [x]) w = (Inr (), w')"
    "moved (d @ [xo]) (d @ [x]) (w_fs w) (w_fs w')" "installing dir d staged (w_fs w')"
proof -
  note slot = installing_slot [OF assms(1,3)]
  have ne: "d @ [xo] \<noteq> d @ [x]" using assms(4) by simp
  show thesis
  proof (rule rename_to_slot [OF assms(1,2) slot(1) ne slot(2)])
    fix e
    assume "fs_entry (w_fs w) (d @ [xo]) = None \<or> butlast (d @ [xo]) \<in> set (fs_denied (w_fs w)) \<or> d \<in> set (fs_denied (w_fs w))"
    then show thesis using assms(5,6) by simp
  next
    fix w'
    assume run: "rename_atomic (dir @ [xo]) (dir @ [x]) w = (Inr (), w')"
      and "moved (d @ [xo]) (d @ [x]) (w_fs w) (w_fs w')" "installing dir d staged (w_fs w')"
    moreover from run have "cli_restore_binary (dir @ [xo]) (dir @ [x]) w = (Inr (), w')"
      by (simp add: cli_restore_binary_def ignore_result_def attempt_io_def run_simps)
    ultimately show thesis using that by blast
  qed
qed

lemma replace_run:
  assumes inst: "installing dir d staged (w_fs w)" and x: "x \<in> binary_names" "xo \<in> binary_names" "x \<noteq> xo"
    and s: "p \<in> staged" "staged_at (w_fs w) p s" "butlast s \<noteq> d"
  obtains (no_backup) e where "rename_atomic (dir @ [x]) (dir @ [xo]) w = (Inl e, w)"
    | (no_install) w1 e w2 where "rename_atomic (dir @ [x]) (dir @ [xo]) w = (Inr (), w1)"
      "rename_atomic p (dir @ [x]) w1 = (Inl e, w1)" "cli_restore_binary (dir @ [xo]) (dir @ [x]) w1 = (Inr (), w2)"
      "undone dir d staged xo s w w2"
    | (no_mode) w1 w2 e w3 where "rename_atomic (dir @ [x]) (dir @ [xo]) w = (Inr (), w1)"
      "rename_atomic p (dir @ [x]) w1 = (Inr (), w2)" "set_executable (dir @ [x]) w2 = (Inl e, w2)"
      "cli_restore_binary (dir @ [xo]) (dir @ [x]) w2 = (Inr (), w3)" "undone dir d staged xo s w w3"
    | (installed) w1 w2 where "rename_atomic (dir @ [x]) (dir @ [xo]) w = (Inr (), w1)"
      "rename_atomic p (dir @ [x]) w1 = (Inr (), w2)" "set_executable (dir @ [x]) w2 = (Inr (), w2)"
      "replaced dir d staged x xo s w w2"
proof -
  note slot = installing_slot [OF inst x(1)]
  note slot_o = installing_slot [OF inst x(2)]
  have ne: "d @ [x] \<noteq> d @ [xo]" and off: "\<And>y. s \<noteq> d @ [y]" using x(3) s(3) by auto
  show thesis
  proof (rule rename_to_slot [OF inst x(2) slot(1) ne slot(2)])
    fix e
    assume "rename_atomic (dir @ [x]) (dir @ [xo]) w = (Inl e, w)"
    then show thesis by (rule no_backup)
  next
    fix w1
    assume first: "rename_atomic (dir @ [x]) (dir @ [xo]) w = (Inr (), w1)"
      and m1: "moved (d @ [x]) (d @ [xo]) (w_fs w) (w_fs w1)" and some: "fs_entry (w_fs w) (d @ [x]) \<noteq> None"
      and free: "d \<notin> set (fs_denied (w_fs w))" and inst1: "installing dir d staged (w_fs w1)"
    have backed: "fs_entry (w_fs w1) (d @ [xo]) \<noteq> None" "d \<notin> set (fs_denied (w_fs w1))"
      using m1 some free by (simp_all add: moved_def)
    have s1: "staged_at (w_fs w1) p s"
      using staged_moved [OF s(2) m1 slot(4) slot(2) slot_o(2)] slot(3) by simp
    have plain_s: "plain_entry (fs_entry (w_fs w1) s)" using s1 by (simp add: staged_at_def)
    show thesis
    proof (rule rename_to_slot [OF inst1 x(1) staged_resolves [OF s1] off plain_s])
      fix e
      assume second: "rename_atomic p (dir @ [x]) w1 = (Inl e, w1)"
      obtain w2 where rb: "cli_restore_binary (dir @ [xo]) (dir @ [x]) w1 = (Inr (), w2)"
        "moved (d @ [xo]) (d @ [x]) (w_fs w1) (w_fs w2)" "installing dir d staged (w_fs w2)"
        using restore_run [OF inst1 x backed] by metis
      then have "undone dir d staged xo s w w2" using m1 unfolding undone_def moved_def by auto
      then show thesis using no_install first second rb(1) by blast
    next
      fix w2
      assume second: "rename_atomic p (dir @ [x]) w1 = (Inr (), w2)"
        and m2: "moved s (d @ [x]) (w_fs w1) (w_fs w2)" and inst2: "installing dir d staged (w_fs w2)"
      have still: "fs_entry (w_fs w2) (d @ [xo]) \<noteq> None" "d \<notin> set (fs_denied (w_fs w2))"
        using m2 backed ne off by (auto simp: moved_def)
      obtain r where mode: "set_executable (dir @ [x]) w2 = (r, w2)" using set_executable_run by blast
      show thesis
      proof (cases r)
        case (Inl e)
        obtain w3 where rb: "cli_restore_binary (dir @ [xo]) (dir @ [x]) w2 = (Inr (), w3)"
          "moved (d @ [xo]) (d @ [x]) (w_fs w2) (w_fs w3)" "installing dir d staged (w_fs w3)"
          using restore_run [OF inst2 x still] by metis
        then have "undone dir d staged xo s w w3" using m1 m2 ne off unfolding undone_def moved_def by auto
        then show thesis using no_mode first second mode Inl rb(1) by blast
      next
        case (Inr u)
        have "replaced dir d staged x xo s w w2"
          using m1 m2 ne off [of x] off [of xo] some free inst2 unfolding replaced_def moved_def by auto
        then show thesis using installed first second mode Inr by simp
      qed
    qed
  qed
qed

section \<open>Both binaries\<close>

lemma in_names [simp]:
  "''valv'' \<in> binary_names" "''valv.old'' \<in> binary_names" "''valvd'' \<in> binary_names" "''valvd.old'' \<in> binary_names"
  by (simp_all add: binary_names_def)

text \<open>\<open>binaries_same\<close>: both installed binaries are the ones of \<open>w\<close>.\<close>

definition binaries_same :: "path \<Rightarrow> world \<Rightarrow> world \<Rightarrow> bool" where
  "binaries_same d w w' = (\<forall>x \<in> {''valv'', ''valvd''}. fs_entry (w_fs w') (d @ [x]) = fs_entry (w_fs w) (d @ [x]))"

lemma swap_valv_run:
  assumes inst: "installing dir d staged (w_fs w)" and p: "set_option sv \<subseteq> staged"
  obtains (none) "sv = None" "swap_valv dir sv w = (Inr (None, None), w)"
    | (failed) e w' where "swap_valv dir sv w = (Inl e, w')" "binaries_same d w w'"
    | (done_valv) w' s where "swap_valv dir sv w = (Inr (Some (dir @ [''valv'']), Some (dir @ [''valv.old''])), w')"
      "replaced dir d staged ''valv'' ''valv.old'' s w w'" "butlast s \<noteq> d"
proof (cases sv)
  case None
  then show thesis using none by (simp add: swap_valv_def run_simps)
next
  case (Some p0)
  then obtain s where s: "p0 \<in> staged" "staged_at (w_fs w) p0 s" "butlast s \<noteq> d"
    using p inst unfolding installing_def by auto
  then have off: "\<And>y. s \<noteq> d @ [y] \<and> d @ [y] \<noteq> s" by auto
  note defs = swap_valv_def Some undo_then_fail_def Let_def run_simps
  show thesis
  proof (rule replace_run [OF inst in_names(1,2) _ s])
    show "''valv'' \<noteq> ''valv.old''" by simp
  next
    fix e
    assume "rename_atomic (dir @ [''valv'']) (dir @ [''valv.old'']) w = (Inl e, w)"
    then show thesis using failed [of e w] by (simp add: defs binaries_same_def)
  next
    fix w1 e w2
    assume "rename_atomic (dir @ [''valv'']) (dir @ [''valv.old'']) w = (Inr (), w1)"
      "rename_atomic p0 (dir @ [''valv'']) w1 = (Inl e, w1)"
      "cli_restore_binary (dir @ [''valv.old'']) (dir @ [''valv'']) w1 = (Inr (), w2)"
      "undone dir d staged ''valv.old'' s w w2"
    then show thesis using failed [of e w2] off by (simp add: defs binaries_same_def undone_def)
  next
    fix w1 w2 e w3
    assume "rename_atomic (dir @ [''valv'']) (dir @ [''valv.old'']) w = (Inr (), w1)"
      "rename_atomic p0 (dir @ [''valv'']) w1 = (Inr (), w2)" "set_executable (dir @ [''valv'']) w2 = (Inl e, w2)"
      "cli_restore_binary (dir @ [''valv.old'']) (dir @ [''valv'']) w2 = (Inr (), w3)"
      "undone dir d staged ''valv.old'' s w w3"
    then show thesis using failed [of e w3] off by (simp add: defs binaries_same_def undone_def)
  next
    fix w1 w2
    assume "rename_atomic (dir @ [''valv'']) (dir @ [''valv.old'']) w = (Inr (), w1)"
      "rename_atomic p0 (dir @ [''valv'']) w1 = (Inr (), w2)" "set_executable (dir @ [''valv'']) w2 = (Inr (), w2)"
      "replaced dir d staged ''valv'' ''valv.old'' s w w2"
    then show thesis using done_valv [of w2 s] s(3) by (simp add: defs)
  qed
qed

text \<open>Undoing the swap of \<open>valv\<close> from wherever its backup still is.\<close>

lemma undo_valv_run:
  assumes "replaced dir d staged ''valv'' ''valv.old'' s w w1" "butlast s \<noteq> d" "installing dir d staged (w_fs w2)"
    "fs_denied (w_fs w2) = fs_denied (w_fs w1)" "fs_entry (w_fs w2) (d @ [''valv.old'']) = fs_entry (w_fs w1) (d @ [''valv.old''])"
    "fs_entry (w_fs w2) (d @ [''valvd'']) = fs_entry (w_fs w1) (d @ [''valvd''])"
  obtains w3 where
    "rollback_optional (Some (dir @ [''valv.old''])) (Some (dir @ [''valv''])) w2 = (Inr (), w3)" "binaries_same d w w3"
proof -
  have "fs_entry (w_fs w2) (d @ [''valv.old'']) \<noteq> None" "d \<notin> set (fs_denied (w_fs w2))"
    using assms by (auto simp: replaced_def)
  from restore_run [OF assms(3) in_names(1,2) _ this] obtain w3 where
    r: "cli_restore_binary (dir @ [''valv.old'']) (dir @ [''valv'']) w2 = (Inr (), w3)"
      "moved (d @ [''valv.old'']) (d @ [''valv'']) (w_fs w2) (w_fs w3)" by auto
  have "s \<noteq> d @ [''valvd'']" using assms(2) by auto
  then have "binaries_same d w w3"
    using assms(1,5,6) r(2) unfolding binaries_same_def moved_def replaced_def by auto
  then show thesis using that r(1) by (simp add: rollback_optional_def)
qed

lemma swap_valvd_run:
  assumes inst: "installing dir d staged (w_fs w)" and p: "set_option sd \<subseteq> staged"
    and undo: "\<And>w'. installing dir d staged (w_fs w') \<Longrightarrow> fs_denied (w_fs w') = fs_denied (w_fs w) \<Longrightarrow>
        (\<forall>x \<in> {''valv'', ''valv.old'', ''valvd''}. fs_entry (w_fs w') (d @ [x]) = fs_entry (w_fs w) (d @ [x])) \<Longrightarrow>
        \<exists>w''. rollback_optional (snd valv) (fst valv) w' = (Inr (), w'') \<and> binaries_same d w0 w''"
  obtains (none) "sd = None" "swap_valvd dir sd valv w = (Inr (None, None), w)"
    | (failed) e w' where "swap_valvd dir sd valv w = (Inl e, w')" "binaries_same d w0 w'"
    | (done_valvd) w' s where "swap_valvd dir sd valv w = (Inr (Some (dir @ [''valvd'']), Some (dir @ [''valvd.old''])), w')"
      "replaced dir d staged ''valvd'' ''valvd.old'' s w w'" "butlast s \<noteq> d"
proof (cases sd)
  case None
  then show thesis using none by (simp add: swap_valvd_def run_simps)
next
  case (Some p0)
  then obtain s where s: "p0 \<in> staged" "staged_at (w_fs w) p0 s" "butlast s \<noteq> d"
    using p inst unfolding installing_def by auto
  then have off: "\<And>y. s \<noteq> d @ [y] \<and> d @ [y] \<noteq> s" by auto
  note defs = swap_valvd_def Some undo_then_fail_def Let_def run_simps
  have undone_ok: "\<exists>w''. rollback_optional (snd valv) (fst valv) w' = (Inr (), w'') \<and> binaries_same d w0 w''"
    if "undone dir d staged ''valvd.old'' s w w'" for w'
    using undo [of w'] that off by (simp add: undone_def)
  show thesis
  proof (rule replace_run [OF inst in_names(3,4) _ s])
    show "''valvd'' \<noteq> ''valvd.old''" by simp
  next
    fix e
    assume "rename_atomic (dir @ [''valvd'']) (dir @ [''valvd.old'']) w = (Inl e, w)"
    then show thesis using failed undo [of w] inst by (auto simp: defs)
  next
    fix w1 e w2
    assume "rename_atomic (dir @ [''valvd'']) (dir @ [''valvd.old'']) w = (Inr (), w1)"
      "rename_atomic p0 (dir @ [''valvd'']) w1 = (Inl e, w1)"
      "cli_restore_binary (dir @ [''valvd.old'']) (dir @ [''valvd'']) w1 = (Inr (), w2)"
      "undone dir d staged ''valvd.old'' s w w2"
    then show thesis using failed undone_ok [of w2] by (auto simp: defs)
  next
    fix w1 w2 e w3
    assume "rename_atomic (dir @ [''valvd'']) (dir @ [''valvd.old'']) w = (Inr (), w1)"
      "rename_atomic p0 (dir @ [''valvd'']) w1 = (Inr (), w2)" "set_executable (dir @ [''valvd'']) w2 = (Inl e, w2)"
      "cli_restore_binary (dir @ [''valvd.old'']) (dir @ [''valvd'']) w2 = (Inr (), w3)"
      "undone dir d staged ''valvd.old'' s w w3"
    then show thesis using failed undone_ok [of w3] by (auto simp: defs)
  next
    fix w1 w2
    assume "rename_atomic (dir @ [''valvd'']) (dir @ [''valvd.old'']) w = (Inr (), w1)"
      "rename_atomic p0 (dir @ [''valvd'']) w1 = (Inr (), w2)" "set_executable (dir @ [''valvd'']) w2 = (Inr (), w2)"
      "replaced dir d staged ''valvd'' ''valvd.old'' s w w2"
    then show thesis using done_valvd [of w2 s] s(3) by (simp add: defs)
  qed
qed

text \<open>A swap either undoes itself or ends with every requested binary replaced.\<close>

lemma swap_run:
  assumes inst: "installing dir d (set_option sv \<union> set_option sd) (w_fs w)"
  obtains (failed) e w' where "swap dir sv sd w = (Inl e, w')" "binaries_same d w w'"
    | (done_swap) w1 w2 valv valvd where
      "swap dir sv sd w = (Inr \<lparr> sb_valv_current = fst valv, sb_valv_backup = snd valv,
         sb_valvd_current = fst valvd, sb_valvd_backup = snd valvd \<rparr>, w2)"
      "sv = None \<and> valv = (None, None) \<and> w1 = w \<or> sv \<noteq> None \<and> valv = (Some (dir @ [''valv'']), Some (dir @ [''valv.old''])) \<and>
         (\<exists>s. butlast s \<noteq> d \<and> replaced dir d (set_option sv \<union> set_option sd) ''valv'' ''valv.old'' s w w1)"
      "sd = None \<and> valvd = (None, None) \<and> w2 = w1 \<or> sd \<noteq> None \<and> valvd = (Some (dir @ [''valvd'']), Some (dir @ [''valvd.old''])) \<and>
         (\<exists>s. butlast s \<noteq> d \<and> replaced dir d (set_option sv \<union> set_option sd) ''valvd'' ''valvd.old'' s w1 w2)"
proof -
  let ?st = "set_option sv \<union> set_option sd"
  have sub: "set_option sv \<subseteq> ?st" "set_option sd \<subseteq> ?st" by auto
  show thesis
  proof (rule swap_valv_run [OF inst sub(1)])
    fix e w'
    assume "swap_valv dir sv w = (Inl e, w')" "binaries_same d w w'"
    then show thesis using failed by (simp add: swap_def run_simps)
  next
    assume none: "sv = None" "swap_valv dir sv w = (Inr (None, None), w)"
    show thesis
    proof (rule swap_valvd_run [OF inst sub(2), where valv = "(None, None)" and ?w0.0 = w])
      fix w' :: world
      assume "\<forall>x \<in> {''valv'', ''valv.old'', ''valvd''}. fs_entry (w_fs w') (d @ [x]) = fs_entry (w_fs w) (d @ [x])"
      then show "\<exists>w''. rollback_optional (snd (None, None)) (fst (None, None)) w' = (Inr (), w'') \<and> binaries_same d w w''"
        by (simp add: rollback_optional_def ret_def binaries_same_def)
    next
      assume "sd = None" "swap_valvd dir sd (None, None) w = (Inr (None, None), w)"
      then show thesis using done_swap [of "(None, None)" "(None, None)" w w] none by (simp add: swap_def run_simps)
    next
      fix e w'
      assume "swap_valvd dir sd (None, None) w = (Inl e, w')" "binaries_same d w w'"
      then show thesis using failed none by (simp add: swap_def run_simps)
    next
      fix w' s
      assume "swap_valvd dir sd (None, None) w = (Inr (Some (dir @ [''valvd'']), Some (dir @ [''valvd.old''])), w')"
        "replaced dir d ?st ''valvd'' ''valvd.old'' s w w'" "butlast s \<noteq> d"
      moreover from this have "sd \<noteq> None" by (cases sd) (simp_all add: swap_valvd_def ret_def)
      ultimately show thesis
        using done_swap [of "(None, None)" "(Some (dir @ [''valvd'']), Some (dir @ [''valvd.old'']))" w' w] none
        by (auto simp: swap_def run_simps)
    qed
  next
    fix w1 s
    assume first: "swap_valv dir sv w = (Inr (Some (dir @ [''valv'']), Some (dir @ [''valv.old''])), w1)"
      and rep: "replaced dir d ?st ''valv'' ''valv.old'' s w w1" "butlast s \<noteq> d"
    have inst1: "installing dir d ?st (w_fs w1)" using rep(1) by (simp add: replaced_def)
    have sv: "sv \<noteq> None" using first by (cases sv) (simp_all add: swap_valv_def ret_def)
    show thesis
    proof (rule swap_valvd_run [OF inst1 sub(2), where valv = "(Some (dir @ [''valv'']), Some (dir @ [''valv.old'']))" and ?w0.0 = w])
      fix w' :: world
      assume "installing dir d ?st (w_fs w')" "fs_denied (w_fs w') = fs_denied (w_fs w1)"
        "\<forall>x \<in> {''valv'', ''valv.old'', ''valvd''}. fs_entry (w_fs w') (d @ [x]) = fs_entry (w_fs w1) (d @ [x])"
      with undo_valv_run [OF rep, of w']
      show "\<exists>w''. rollback_optional (snd (Some (dir @ [''valv'']), Some (dir @ [''valv.old''])))
          (fst (Some (dir @ [''valv'']), Some (dir @ [''valv.old'']))) w' = (Inr (), w'') \<and> binaries_same d w w''"
        by auto
    next
      assume "sd = None" "swap_valvd dir sd (Some (dir @ [''valv'']), Some (dir @ [''valv.old''])) w1 = (Inr (None, None), w1)"
      then show thesis
        using done_swap [of "(Some (dir @ [''valv'']), Some (dir @ [''valv.old'']))" "(None, None)" w1 w1] first sv rep
        by (auto simp: swap_def run_simps)
    next
      fix e w'
      assume "swap_valvd dir sd (Some (dir @ [''valv'']), Some (dir @ [''valv.old''])) w1 = (Inl e, w')" "binaries_same d w w'"
      then show thesis using failed first by (simp add: swap_def run_simps)
    next
      fix w2 s'
      assume "swap_valvd dir sd (Some (dir @ [''valv'']), Some (dir @ [''valv.old''])) w1 =
          (Inr (Some (dir @ [''valvd'']), Some (dir @ [''valvd.old''])), w2)"
        and rep': "replaced dir d ?st ''valvd'' ''valvd.old'' s' w1 w2" "butlast s' \<noteq> d"
      moreover from this have "sd \<noteq> None" by (cases sd) (simp_all add: swap_valvd_def ret_def)
      ultimately show thesis
        using done_swap [of "(Some (dir @ [''valv'']), Some (dir @ [''valv.old'']))"
            "(Some (dir @ [''valvd'']), Some (dir @ [''valvd.old'']))" w2 w1] first sv rep
        by (auto simp: swap_def run_simps)
    qed
  qed
qed

section \<open>Properties\<close>

text \<open>C28: When the swap of the binaries fails at any step (backing up, installing or making executable, of
  either binary), both installed binaries are exactly what they were.\<close>

lemma failed_swap_restores:
  assumes "installing dir d (set_option sv \<union> set_option sd) (w_fs w)" "swap dir sv sd w = (Inl e, w')"
  shows "\<forall>x \<in> {''valv'', ''valvd''}. fs_entry (w_fs w') (d @ [x]) = fs_entry (w_fs w) (d @ [x])"
  by (rule swap_run [OF assms(1)]) (use assms(2) in \<open>auto simp: binaries_same_def\<close>)

text \<open>\<open>as_swapped\<close>: the installation directory is still as the swap left it.\<close>

definition as_swapped :: "path \<Rightarrow> path \<Rightarrow> world \<Rightarrow> world \<Rightarrow> bool" where
  "as_swapped dir d w u =
     (installing dir d {} (w_fs u) \<and> fs_denied (w_fs u) = fs_denied (w_fs w) \<and>
      (\<forall>x \<in> binary_names. fs_entry (w_fs u) (d @ [x]) = fs_entry (w_fs w) (d @ [x])))"

text \<open>What a swap leaves for the roll-back: the contents of the backups, and who may be renamed.\<close>

lemma swapped_backups:
  assumes "replaced dir d st x xo s w w'" "as_swapped dir d w' u" "x \<in> binary_names" "xo \<in> binary_names"
  shows "fs_entry (w_fs u) (d @ [xo]) = fs_entry (w_fs w) (d @ [x])" "fs_entry (w_fs w) (d @ [x]) \<noteq> None"
    "d \<notin> set (fs_denied (w_fs u))" "installing dir d {} (w_fs u)"
  using assms by (auto simp: replaced_def as_swapped_def)

lemma replaced_backup:
  assumes "replaced dir d st x xo s w w'"
  shows "installing dir d {} (w_fs w')" "fs_entry (w_fs w') (d @ [xo]) \<noteq> None" "d \<notin> set (fs_denied (w_fs w'))"
proof -
  have "installing dir d st (w_fs w')" using assms unfolding replaced_def by (elim conjE)
  then show "installing dir d {} (w_fs w')" by (simp add: installing_def)
  show "fs_entry (w_fs w') (d @ [xo]) \<noteq> None" "d \<notin> set (fs_denied (w_fs w'))"
    using assms unfolding replaced_def by auto
qed

lemma replaced_others:
  assumes "replaced dir d st x xo s w w'" "butlast s \<noteq> d" "y \<noteq> x" "y \<noteq> xo"
  shows "fs_entry (w_fs w') (d @ [y]) = fs_entry (w_fs w) (d @ [y])"
proof -
  have "d @ [y] \<noteq> s" using assms(2) by auto
  then show ?thesis using assms(1,3,4) by (simp add: replaced_def)
qed

lemma rename_back_run:
  assumes "installing dir d {} (w_fs u)" "x \<in> binary_names" "xo \<in> binary_names" "x \<noteq> xo"
    "fs_entry (w_fs u) (d @ [xo]) = Some n" "d \<notin> set (fs_denied (w_fs u))"
  obtains u' where "rename_back (Some (dir @ [x])) (Some (dir @ [xo])) u = (Inr (), u')"
    "installing dir d {} (w_fs u')" "fs_denied (w_fs u') = fs_denied (w_fs u)" "fs_entry (w_fs u') (d @ [x]) = Some n"
    "\<And>q. q \<noteq> d @ [x] \<Longrightarrow> q \<noteq> d @ [xo] \<Longrightarrow> fs_entry (w_fs u') q = fs_entry (w_fs u) q"
proof -
  have "fs_entry (w_fs u) (d @ [xo]) \<noteq> None" using assms(5) by simp
  from restore_run [OF assms(1-4) this assms(6)] obtain u' where
    "rename_atomic (dir @ [xo]) (dir @ [x]) u = (Inr (), u')" "moved (d @ [xo]) (d @ [x]) (w_fs u) (w_fs u')"
    "installing dir d {} (w_fs u')" by metis
  then show thesis using that [of u'] assms(5) by (simp add: rename_back_def moved_def)
qed

lemma rollback_run:
  assumes inst: "installing dir d (set_option sv \<union> set_option sd) (w_fs w)"
    and swapped: "swap dir sv sd w = (Inr backup, w2)" and u: "as_swapped dir d w2 u"
  obtains u' where "rollback backup u = (Inr (), u')" "binaries_same d w u'"
proof (rule swap_run [OF inst])
  fix e w'
  assume "swap dir sv sd w = (Inl e, w')"
  then show thesis using swapped by simp
next
  fix w1 w2' valv valvd
  assume run: "swap dir sv sd w = (Inr \<lparr> sb_valv_current = fst valv, sb_valv_backup = snd valv,
         sb_valvd_current = fst valvd, sb_valvd_backup = snd valvd \<rparr>, w2')"
    and valv: "sv = None \<and> valv = (None, None) \<and> w1 = w \<or> sv \<noteq> None \<and>
         valv = (Some (dir @ [''valv'']), Some (dir @ [''valv.old''])) \<and>
         (\<exists>s. butlast s \<noteq> d \<and> replaced dir d (set_option sv \<union> set_option sd) ''valv'' ''valv.old'' s w w1)"
    and valvd: "sd = None \<and> valvd = (None, None) \<and> w2' = w1 \<or> sd \<noteq> None \<and>
         valvd = (Some (dir @ [''valvd'']), Some (dir @ [''valvd.old''])) \<and>
         (\<exists>s. butlast s \<noteq> d \<and> replaced dir d (set_option sv \<union> set_option sd) ''valvd'' ''valvd.old'' s w1 w2')"
  have w2: "w2' = w2" and backup: "rollback backup = (\<lambda>u. try_op (rename_back (fst valv) (snd valv)) (\<lambda>_. rename_back (fst valvd) (snd valvd)) u)"
    using run swapped by (auto simp: rollback_def)
  have start: "installing dir d {} (w_fs u)" "fs_denied (w_fs u) = fs_denied (w_fs w2)"
    "\<And>x. x \<in> binary_names \<Longrightarrow> fs_entry (w_fs u) (d @ [x]) = fs_entry (w_fs w2) (d @ [x])"
    using u by (simp_all add: as_swapped_def)
  have kept: "fs_entry (w_fs w2) (d @ [x]) = fs_entry (w_fs w1) (d @ [x])" if "x \<in> {''valv'', ''valv.old''}" for x
    using valvd that w2 by (auto simp: replaced_others)
  have kept1: "fs_entry (w_fs w1) (d @ [''valvd'']) = fs_entry (w_fs w) (d @ [''valvd''])"
    using valv by (auto simp: replaced_others)
  have denied: "fs_denied (w_fs w2) = fs_denied (w_fs w1)"
    using valvd w2 by (auto simp: replaced_def)
  obtain u1 where u1: "rename_back (fst valv) (snd valv) u = (Inr (), u1)" "installing dir d {} (w_fs u1)"
    "fs_denied (w_fs u1) = fs_denied (w_fs u)" "fs_entry (w_fs u1) (d @ [''valv'']) = fs_entry (w_fs w) (d @ [''valv''])"
    "fs_entry (w_fs u1) (d @ [''valvd'']) = fs_entry (w_fs w2) (d @ [''valvd''])"
    "fs_entry (w_fs u1) (d @ [''valvd.old'']) = fs_entry (w_fs w2) (d @ [''valvd.old''])"
  proof (cases "sv = None")
    case True
    then show thesis using that [of u] valv start kept by (auto simp: rename_back_def ret_def)
  next
    case False
    then obtain s where r: "replaced dir d (set_option sv \<union> set_option sd) ''valv'' ''valv.old'' s w w1"
      and v: "valv = (Some (dir @ [''valv'']), Some (dir @ [''valv.old'']))" using valv by auto
    then obtain n where n: "fs_entry (w_fs w) (d @ [''valv'']) = Some n" by (auto simp: replaced_def)
    have "fs_entry (w_fs u) (d @ [''valv.old'']) = Some n" "d \<notin> set (fs_denied (w_fs u))"
      using start kept r n denied by (simp_all add: replaced_def)
    then show thesis
    proof (rule rename_back_run [OF start(1) in_names(1,2), rotated])
      fix u1
      assume "rename_back (Some (dir @ [''valv''])) (Some (dir @ [''valv.old''])) u = (Inr (), u1)"
        "installing dir d {} (w_fs u1)" "fs_denied (w_fs u1) = fs_denied (w_fs u)" "fs_entry (w_fs u1) (d @ [''valv'']) = Some n"
        "\<And>q. q \<noteq> d @ [''valv''] \<Longrightarrow> q \<noteq> d @ [''valv.old''] \<Longrightarrow> fs_entry (w_fs u1) q = fs_entry (w_fs u) q"
      then show thesis using that [of u1] v n start(3) by simp
    qed simp
  qed
  obtain u2 where "rename_back (fst valvd) (snd valvd) u1 = (Inr (), u2)"
    "fs_entry (w_fs u2) (d @ [''valv'']) = fs_entry (w_fs u1) (d @ [''valv''])"
    "fs_entry (w_fs u2) (d @ [''valvd'']) = fs_entry (w_fs w) (d @ [''valvd''])"
  proof (cases "sd = None")
    case True
    then show thesis using that [of u1] valvd u1(5) kept1 w2 by (auto simp: rename_back_def ret_def)
  next
    case False
    then obtain s where r: "replaced dir d (set_option sv \<union> set_option sd) ''valvd'' ''valvd.old'' s w1 w2"
      and v: "valvd = (Some (dir @ [''valvd'']), Some (dir @ [''valvd.old'']))" using valvd w2 by auto
    then obtain n where n: "fs_entry (w_fs w1) (d @ [''valvd'']) = Some n" by (auto simp: replaced_def)
    have "fs_entry (w_fs u1) (d @ [''valvd.old'']) = Some n" "d \<notin> set (fs_denied (w_fs u1))"
      using u1(3,6) r n start(2) by (simp_all add: replaced_def)
    then show thesis
    proof (rule rename_back_run [OF u1(2) in_names(3,4), rotated])
      fix u2
      assume "rename_back (Some (dir @ [''valvd''])) (Some (dir @ [''valvd.old''])) u1 = (Inr (), u2)"
        "fs_entry (w_fs u2) (d @ [''valvd'']) = Some n"
        "\<And>q. q \<noteq> d @ [''valvd''] \<Longrightarrow> q \<noteq> d @ [''valvd.old''] \<Longrightarrow> fs_entry (w_fs u2) q = fs_entry (w_fs u1) q"
      then show thesis using that [of u2] v n kept1 by simp
    qed simp
  qed
  then show thesis using that [of u2] u1 backup by (auto simp: binaries_same_def try_op_def)
qed

text \<open>C29: When the restarted daemon does not come up with the new version and the installation directory is
  as the swap left it, the roll-back succeeds and both binaries are exactly what they were before the
  update, whatever else happened on the disk.\<close>

lemma rollback_restores:
  assumes "installing dir d (set_option sv \<union> set_option sd) (w_fs w)" "swap dir sv sd w = (Inr backup, w2)"
    "as_swapped dir d w2 u" "obeys fs_same restart"
  shows "\<exists>u'. handle_failed_restart render backup restart err u =
      (Inr (EMsg (''update failed and was rolled back: '' @ render err)), u') \<and>
    (\<forall>x \<in> {''valv'', ''valvd''}. fs_entry (w_fs u') (d @ [x]) = fs_entry (w_fs w) (d @ [x]))"
proof (rule rollback_run [OF assms(1-3)])
  fix u1
  assume r: "rollback backup u = (Inr (), u1)" "binaries_same d w u1"
  obtain res u2 where res: "restart u1 = (res, u2)" by fastforce
  then have "w_fs u2 = w_fs u1" using obeys_run [OF assms(4) res] by (simp add: fs_same_def)
  then show ?thesis
    using r res by (simp add: handle_failed_restart_def ignore_result_def attempt_io_def run_simps binaries_same_def)
qed

text \<open>The first thing the restarted daemon does is to remove the backup of its binary.\<close>

lemma stale_backup_removed:
  assumes inst: "installing dir d {} (w_fs w)" and n: "fs_entry (w_fs w) (d @ [''valvd.old'']) \<noteq> None"
    "d \<notin> set (fs_denied (w_fs w))" and run: "remove_stale_backup (dir @ [''valvd'']) w = (Inr (), u)"
  shows "installing dir d {} (w_fs u)" "fs_denied (w_fs u) = fs_denied (w_fs w)"
    "fs_entry (w_fs u) q = (if q = d @ [''valvd.old''] then None else fs_entry (w_fs w) q)"
proof -
  let ?a = "d @ [''valvd.old'']"
  note slot = installing_slot [OF inst in_names(4)]
  have "with_extension (dir @ [''valvd'']) ''old'' = dir @ [''valvd.old'']"
    by (simp add: with_extension_def path_file_name_def file_stem_of_def split_at_dot_def)
  moreover have "fs_remove_file (dir @ [''valvd.old'']) (w_fs w) = (Inr (), drop_tree ?a (w_fs w))"
    using slot n by (auto simp: fs_remove_file_def plain_entry_def split: option.splits fs_node.splits)
  ultimately have u: "u = w \<lparr> w_fs := drop_tree ?a (w_fs w) \<rparr>"
    using run by (simp add: remove_stale_backup_def ignore_result_def attempt_io_def on_fs_def run_simps)
  show "installing dir d {} (w_fs u)"
    using inst slots_dropped [OF _ slot(2)] u by (simp add: installing_def)
  show "fs_denied (w_fs u) = fs_denied (w_fs w)" using u by (simp add: drop_tree_def)
  show "fs_entry (w_fs u) q = (if q = ?a then None else fs_entry (w_fs w) q)"
    using drop_file_entry [OF slot(4) slot(2)] u by simp
qed

lemma installing_mono: "installing dir d st fs \<Longrightarrow> installing dir d {} fs"
  by (simp add: installing_def)

lemma rename_missing:
  assumes "installing dir d st (w_fs w)" "fs_entry (w_fs w) (d @ [''valvd.old'']) = None"
  shows "rename_atomic (dir @ [''valvd.old'']) (dir @ [''valvd'']) w = (Inl (EIo NotFound), w)"
  using installing_slot [OF assms(1) in_names(3)] installing_slot [OF assms(1) in_names(4)] assms(2)
  by (simp add: rename_run fs_rename_def)

text \<open>C30: A daemon that was restarted with its new binary defeats the roll-back: the first thing it does is to
  remove the backup of its own binary, so the roll-back of a failed update puts back \<open>valv\<close> but fails
  for \<open>valvd\<close>, which stays the new one.\<close>

lemma restarted_daemon_defeats_rollback:
  assumes inst: "installing dir d (insert p (set_option sv)) (w_fs w)" and swapped: "swap dir sv (Some p) w = (Inr backup, w2)"
    and reaped: "remove_stale_backup (dir @ [''valvd'']) w2 = (Inr (), u)" and restart: "obeys fs_same restart"
  shows "\<exists>u'. handle_failed_restart render backup restart err u =
      (Inr (EMsg (''update failed ('' @ render err @ '') AND the rollback also failed ('' @ render (EIo NotFound)
         @ '') - the installed valv/valvd binaries may be in an inconsistent state; reinstall with install.sh'')), u') \<and>
    fs_entry (w_fs u') (d @ [''valv'']) = fs_entry (w_fs w) (d @ [''valv'']) \<and>
    fs_entry (w_fs u') (d @ [''valvd'']) = fs_entry (w_fs w2) (d @ [''valvd''])"
proof -
  have inst': "installing dir d (set_option sv \<union> set_option (Some p)) (w_fs w)" using inst by simp
  let ?st = "set_option sv \<union> set_option (Some p)"
  have "\<exists>u1. rollback backup u = (Inl (EIo NotFound), u1) \<and>
      fs_entry (w_fs u1) (d @ [''valv'']) = fs_entry (w_fs w) (d @ [''valv'']) \<and>
      fs_entry (w_fs u1) (d @ [''valvd'']) = fs_entry (w_fs w2) (d @ [''valvd''])"
  proof (rule swap_run [OF inst'])
    fix e w'
    assume "swap dir sv (Some p) w = (Inl e, w')"
    then show ?thesis using swapped by simp
  next
    fix w1 w2' valv valvd
    assume run: "swap dir sv (Some p) w = (Inr \<lparr> sb_valv_current = fst valv, sb_valv_backup = snd valv,
           sb_valvd_current = fst valvd, sb_valvd_backup = snd valvd \<rparr>, w2')"
      and valv: "sv = None \<and> valv = (None, None) \<and> w1 = w \<or> sv \<noteq> None \<and>
           valv = (Some (dir @ [''valv'']), Some (dir @ [''valv.old''])) \<and>
           (\<exists>s. butlast s \<noteq> d \<and> replaced dir d ?st ''valv'' ''valv.old'' s w w1)"
      and "Some p = None \<and> valvd = (None, None) \<and> w2' = w1 \<or> Some p \<noteq> None \<and>
           valvd = (Some (dir @ [''valvd'']), Some (dir @ [''valvd.old''])) \<and>
           (\<exists>s. butlast s \<noteq> d \<and> replaced dir d ?st ''valvd'' ''valvd.old'' s w1 w2')"
    moreover have same: "w2' = w2" using run swapped by simp
    ultimately obtain s where valvd: "valvd = (Some (dir @ [''valvd'']), Some (dir @ [''valvd.old'']))"
        "butlast s \<noteq> d" "replaced dir d ?st ''valvd'' ''valvd.old'' s w1 w2"
      by blast
    have backup: "rollback backup = (\<lambda>u. try_op (rename_back (fst valv) (snd valv)) (\<lambda>_. rename_back (fst valvd) (snd valvd)) u)"
      using run swapped by (auto simp: rollback_def)
    have w2: "installing dir d {} (w_fs w2)" "fs_entry (w_fs w2) (d @ [''valvd.old'']) \<noteq> None" "d \<notin> set (fs_denied (w_fs w2))"
      by (fact replaced_backup [OF valvd(3)])+
    note u = stale_backup_removed [OF w2 reaped]
    have kept: "fs_entry (w_fs w2) (d @ [x]) = fs_entry (w_fs w1) (d @ [x])" if "x \<in> {''valv'', ''valv.old''}" for x
      using that by (intro replaced_others [OF valvd(3,2)]) auto
    obtain u1 where u1: "rename_back (fst valv) (snd valv) u = (Inr (), u1)" "installing dir d {} (w_fs u1)"
      "fs_entry (w_fs u1) (d @ [''valv'']) = fs_entry (w_fs w) (d @ [''valv''])"
      "fs_entry (w_fs u1) (d @ [''valvd'']) = fs_entry (w_fs w2) (d @ [''valvd''])"
      "fs_entry (w_fs u1) (d @ [''valvd.old'']) = None"
    proof (cases "sv = None")
      case True
      then have v: "valv = (None, None)" and w1: "w1 = w" using valv by blast+
      show thesis
      proof (rule that [OF _ u(1)])
        show "rename_back (fst valv) (snd valv) u = (Inr (), u)" unfolding v by (simp add: rename_back_def ret_def)
        show "fs_entry (w_fs u) (d @ [''valv'']) = fs_entry (w_fs w) (d @ [''valv''])"
          unfolding u(3) w1 [symmetric] using kept [of "''valv''"] by simp
      qed (simp_all add: u(3))
    next
      case False
      then obtain s' where r: "replaced dir d ?st ''valv'' ''valv.old'' s' w w1"
        and v: "valv = (Some (dir @ [''valv'']), Some (dir @ [''valv.old'']))" using valv by auto
      then obtain n where n: "fs_entry (w_fs w) (d @ [''valv'']) = Some n" by (auto simp: replaced_def)
      have "fs_entry (w_fs u) (d @ [''valv.old'']) = Some n" "d \<notin> set (fs_denied (w_fs u))"
        using u kept r n w2(3) by (simp_all add: replaced_def)
      then show thesis
      proof (rule rename_back_run [OF u(1) in_names(1,2), rotated])
        fix u1
        assume "rename_back (Some (dir @ [''valv''])) (Some (dir @ [''valv.old''])) u = (Inr (), u1)"
          "installing dir d {} (w_fs u1)" "fs_entry (w_fs u1) (d @ [''valv'']) = Some n"
          "\<And>q. q \<noteq> d @ [''valv''] \<Longrightarrow> q \<noteq> d @ [''valv.old''] \<Longrightarrow> fs_entry (w_fs u1) q = fs_entry (w_fs u) q"
        then show thesis using that [of u1] v n u(3) by simp
      qed simp
    qed
    then show ?thesis
      using backup valvd(1) rename_missing [OF u1(2,5)] by (auto simp: rename_back_def try_op_def)
  qed
  then obtain u1 where u1: "rollback backup u = (Inl (EIo NotFound), u1)"
    "fs_entry (w_fs u1) (d @ [''valv'']) = fs_entry (w_fs w) (d @ [''valv''])"
    "fs_entry (w_fs u1) (d @ [''valvd'']) = fs_entry (w_fs w2) (d @ [''valvd''])" by blast
  obtain res u2 where res: "restart u1 = (res, u2)" by fastforce
  then have "w_fs u2 = w_fs u1" using obeys_run [OF restart res] by (simp add: fs_same_def)
  then show ?thesis
    using u1 res by (simp add: handle_failed_restart_def ignore_result_def attempt_io_def run_simps)
qed

end
