(* ===== verification/Cli_Tables.thy ===== *)
theory Cli_Tables
  imports Cli_State
begin

text \<open>
  Tables and ages (\<open>valv-cli/src/table.rs\<close>, \<open>format.rs\<close>).  The width of a cell is its number of
  Unicode scalar values: the bytes of its UTF-8 text that begin one.
\<close>

section \<open>Tables\<close>

definition starts_char :: "char \<Rightarrow> bool" where
  "starts_char c = (\<not> (128 \<le> (of_char c :: nat) \<and> (of_char c :: nat) < 192))"

definition char_count :: "string \<Rightarrow> nat" where
  "char_count s = length (filter starts_char s)"

definition pad_right :: "nat \<Rightarrow> string \<Rightarrow> string" where
  "pad_right width s = s @ replicate (width - char_count s) CHR '' ''"

text \<open>\<open>write_row\<close>: the cells beyond the row are empty, those beyond the widths are dropped.\<close>

definition cell_at :: "string list \<Rightarrow> nat \<Rightarrow> string" where
  "cell_at row i = (if i < length row then row ! i else [])"

definition write_row :: "string list \<Rightarrow> nat list \<Rightarrow> string" where
  "write_row row widths =
     intercalate ''  '' (map (\<lambda>(i, width). pad_right width (cell_at row i)) (List.enumerate 0 widths)) @ nl"

definition widen_cell :: "nat list \<Rightarrow> nat \<times> string \<Rightarrow> nat list" where
  "widen_cell widths c = (case c of (i, cell) \<Rightarrow>
     if length widths \<le> i then widths else widths[i := max (widths ! i) (char_count cell)])"

definition widen_row :: "string list \<Rightarrow> nat list \<Rightarrow> nat list" where
  "widen_row row widths = foldl widen_cell widths (List.enumerate 0 row)"

definition column_widths :: "string list \<Rightarrow> string list list \<Rightarrow> nat list" where
  "column_widths headers rows = fold widen_row rows (map char_count headers)"

definition table_lines :: "string list \<Rightarrow> string list list \<Rightarrow> string list" where
  "table_lines headers rows =
     (let widths = column_widths headers rows in
      write_row headers widths # write_row (map (\<lambda>width. replicate width CHR ''-'') widths) widths
        # map (\<lambda>row. write_row row widths) rows)"

definition render_table :: "string list \<Rightarrow> string list list \<Rightarrow> string" where
  "render_table headers rows = concat (table_lines headers rows)"

definition print_table :: "string list \<Rightarrow> string list list \<Rightarrow> unit cio" where
  "print_table headers rows = print_line (render_table headers rows)"

section \<open>Ages\<close>

definition plural :: "int \<Rightarrow> string \<Rightarrow> string" where
  "plural count unit_name =
     (if count = 1 then ''1 '' @ unit_name @ '' ago'' else string_of_int count @ '' '' @ unit_name @ ''s ago'')"

definition humanize_duration :: "int \<Rightarrow> string" where
  "humanize_duration elapsed =
     (let seconds = max elapsed 0; minutes = seconds div 60; hours = minutes div 60 in
      if seconds < 60 then plural seconds ''second''
      else if minutes < 60 then plural minutes ''minute''
      else if hours < 24 then plural hours ''hour''
      else plural (hours div 24) ''day'')"

definition age_from_now :: "cli_env \<Rightarrow> string \<Rightarrow> string option" where
  "age_from_now e created_at = map_option humanize_duration (ce_elapsed e created_at)"

section \<open>Every line of a table has the same width\<close>

lemma widen_cell_length [simp]: "length (widen_cell widths c) = length widths"
  by (simp add: widen_cell_def split: prod.split)

lemma widen_row_length [simp]: "length (widen_row row widths) = length widths"
proof -
  have "length (foldl widen_cell ws cs) = length ws" for ws cs by (induction cs arbitrary: ws) auto
  then show ?thesis by (simp add: widen_row_def)
qed

lemma widen_cell_mono: "i < length widths \<Longrightarrow> widths ! i \<le> widen_cell widths c ! i"
  by (auto simp: widen_cell_def nth_list_update split: prod.split)

lemma widen_cells_mono: "i < length widths \<Longrightarrow> widths ! i \<le> foldl widen_cell widths cs ! i"
proof (induction cs arbitrary: widths)
  case (Cons c cs)
  have "widths ! i \<le> widen_cell widths c ! i" by (rule widen_cell_mono [OF Cons.prems])
  also have "\<dots> \<le> foldl widen_cell (widen_cell widths c) cs ! i" using Cons.IH Cons.prems by simp
  finally show ?case by simp
qed simp

lemma widen_cells_fit:
  "(i, cell) \<in> set cs \<Longrightarrow> i < length widths \<Longrightarrow> char_count cell \<le> foldl widen_cell widths cs ! i"
proof (induction cs arbitrary: widths)
  case (Cons c cs)
  show ?case
  proof (cases "c = (i, cell)")
    case True
    have "char_count cell \<le> widen_cell widths (i, cell) ! i" using Cons.prems(2) by (simp add: widen_cell_def)
    then show ?thesis using True widen_cells_mono [of i "widen_cell widths c" cs] Cons.prems(2) by simp
  next
    case False
    then show ?thesis using Cons by simp
  qed
qed simp

lemma widen_row_fit: "i < length row \<Longrightarrow> i < length widths \<Longrightarrow> char_count (row ! i) \<le> widen_row row widths ! i"
  unfolding widen_row_def by (rule widen_cells_fit) (auto simp: in_set_enumerate_eq)

lemma fold_widen_mono: "i < length widths \<Longrightarrow> widths ! i \<le> fold widen_row rows widths ! i"
proof (induction rows arbitrary: widths)
  case (Cons row rows)
  have "widths ! i \<le> widen_row row widths ! i"
    unfolding widen_row_def using Cons.prems by (rule widen_cells_mono)
  also have "\<dots> \<le> fold widen_row rows (widen_row row widths) ! i" using Cons.IH Cons.prems by simp
  finally show ?case by simp
qed simp

lemma fold_widen_fit:
  "row \<in> set rows \<Longrightarrow> i < length row \<Longrightarrow> i < length widths \<Longrightarrow> char_count (row ! i) \<le> fold widen_row rows widths ! i"
proof (induction rows arbitrary: widths)
  case (Cons r rows)
  show ?case
  proof (cases "r = row")
    case True
    then show ?thesis
      using widen_row_fit [OF Cons.prems(2,3)] fold_widen_mono [of i "widen_row row widths" rows] Cons.prems(3) by simp
  next
    case False
    then show ?thesis using Cons by simp
  qed
qed simp

lemma column_widths_length [simp]: "length (column_widths headers rows) = length headers"
proof -
  have "length (fold widen_row rs ws) = length ws" for rs ws by (induction rs arbitrary: ws) auto
  then show ?thesis by (simp add: column_widths_def)
qed

lemma column_fits:
  assumes "i < length headers" "row = headers \<or> row \<in> set rows"
  shows "char_count (cell_at row i) \<le> column_widths headers rows ! i"
proof (cases "i < length row")
  case True
  then show ?thesis
    using assms fold_widen_mono [of i "map char_count headers" rows] fold_widen_fit [of row rows i "map char_count headers"]
    by (auto simp: cell_at_def column_widths_def)
qed (simp add: cell_at_def char_count_def)

lemma char_count_append [simp]: "char_count (s @ t) = char_count s + char_count t"
  by (simp add: char_count_def)

lemma char_count_blank [simp]: "char_count (replicate n CHR '' '') = n" "char_count (replicate n CHR ''-'') = n"
  by (simp_all add: char_count_def starts_char_def)

lemma char_count_pad: "char_count s \<le> width \<Longrightarrow> char_count (pad_right width s) = width"
  by (simp add: pad_right_def)

lemma char_count_intercalate:
  "cs \<noteq> [] \<Longrightarrow> char_count (intercalate sep cs) + char_count sep = sum_list (map (\<lambda>c. char_count c + char_count sep) cs)"
  by (induction sep cs rule: intercalate.induct) (auto simp: char_count_def)

lemma written_cells:
  assumes "length widths \<noteq> 0" "\<And>i. i < length widths \<Longrightarrow> char_count (cell_at row i) \<le> widths ! i"
  shows "char_count (write_row row widths) + 1 = sum_list (map (\<lambda>w. w + 2) widths)"
proof -
  let ?cells = "map (\<lambda>(i, width). pad_right width (cell_at row i)) (List.enumerate 0 widths)"
  have "map char_count ?cells = widths"
  proof (rule nth_equalityI)
    fix i
    assume "i < length (map char_count ?cells)"
    then show "map char_count ?cells ! i = widths ! i" using assms(2) by (simp add: nth_enumerate_eq char_count_pad)
  qed simp
  moreover have "char_count (intercalate ''  '' ?cells) + 2 = sum_list (map (\<lambda>w. w + 2) (map char_count ?cells))"
    using char_count_intercalate [of ?cells "''  ''"] assms(1)
    by (cases widths) (simp_all add: char_count_def [of "''  ''"] starts_char_def comp_def)
  ultimately show ?thesis by (simp add: write_row_def nl_def char_count_def [of "[CHR 0x0A]"] starts_char_def)
qed

text \<open>Every line of a table is equally wide, counted in characters: the sum of the columns' widths and
  the two blanks between them, with the line break; and each cell of a column fits its width.\<close>

lemma table_is_aligned:
  assumes "headers \<noteq> []" "line \<in> set (table_lines headers rows)"
  shows "char_count line + 1 = sum_list (map (\<lambda>width. width + 2) (column_widths headers rows))"
proof -
  let ?widths = "column_widths headers rows"
  obtain row where line: "line = write_row row ?widths"
    and row: "row = headers \<or> row \<in> set rows \<or> row = map (\<lambda>width. replicate width CHR ''-'') ?widths"
    using assms(2) by (auto simp: table_lines_def Let_def)
  have "char_count (cell_at row i) \<le> ?widths ! i" if "i < length ?widths" for i
    using row that column_fits [of i headers row rows] by (auto simp: cell_at_def)
  then show ?thesis unfolding line using assms(1) by (intro written_cells) auto
qed

end
