(* ===== verification/Cli_Grants.thy ===== *)
theory Cli_Grants
  imports Cli_Daemon Cli_Tables
begin

text \<open>
  Sharing (\<open>valv-cli/src/grants.rs\<close>): granting access to a person or a machine, listing who has it,
  and revoking it, with the errors of the server mapped to stable codes and exit codes.
\<close>

section \<open>Errors of the server\<close>

text \<open>The keys of an object come in the order \<open>serde_json\<close> iterates over them.\<close>

definition parse_backend_error :: "cli_env \<Rightarrow> cli_reply \<Rightarrow> string \<times> string" where
  "parse_backend_error e r =
     (let trimmed = trim_ws (cr_text r) in
      case cr_value r of
        None \<Rightarrow> (''backend_error'', trimmed)
      | Some v \<Rightarrow>
          (case Option.bind (json_get v ''error'') json_as_str of
             None \<Rightarrow> (''backend_error'', trimmed)
           | Some code \<Rightarrow>
               let pairs = (case v of JObj kvs \<Rightarrow> kvs | _ \<Rightarrow> []);
                   parts = map (\<lambda>(key, x). key @ '': '' @ (case json_as_str x of Some s \<Rightarrow> s | None \<Rightarrow> ce_to_json e x))
                             (filter (\<lambda>(key, _). key \<noteq> ''error'') pairs) in
               (code, intercalate '', '' (code # parts))))"

definition stable_codes :: "string list" where
  "stable_codes =
     [''access_key_cannot_list_grants'', ''access_key_cannot_issue_keys'', ''access_key_cannot_invite_people'',
      ''access_key_cannot_revoke'', ''access_key_name_taken'', ''folder_not_found'', ''grant_not_found'',
      ''invite_not_found'', ''invite_already_accepted'', ''subscription_inactive'', ''invalid_scope_node_id'',
      ''invalid_invited_email'', ''insufficient_permission'']"

definition stable_backend_code :: "string \<Rightarrow> string" where
  "stable_backend_code code = (if code \<in> set stable_codes then code else ''backend_error'')"

definition exit_code_for_backend_code :: "string \<Rightarrow> nat \<Rightarrow> nat" where
  "exit_code_for_backend_code code status =
     (if code = ''access_key_name_taken'' then EX_FAILURE
      else if starts_with code ''access_key_'' then EX_NOPERM
      else if 500 \<le> status \<and> status < 600 then EX_TEMPFAIL
      else EX_FAILURE)"

definition cli_backend_response :: "cli_env \<Rightarrow> cli_reply \<Rightarrow> cli_reply cio" where
  "cli_backend_response e r =
     (if is_success (cr_status r) then ret r
      else if trim_ws (cr_text r) = []
      then fail_cli (cli_new EX_FAILURE ''backend_error'' (''backend returned '' @ ce_status_text e (cr_status r)))
      else (case parse_backend_error e r of (code, message) \<Rightarrow>
        fail_cli (cli_new (exit_code_for_backend_code code (cr_status r)) (stable_backend_code code) message)))"

definition map_backend_error :: "cli_answer \<Rightarrow> cli_reply cio" where
  "map_backend_error a = (case a of
       Answer r \<Rightarrow> ret r
     | NoConnection t \<Rightarrow> fail_cli (backend_unreachable t)
     | TimedOut t \<Rightarrow> fail_cli (backend_unreachable t)
     | Silent \<Rightarrow> fail ENoFuel
     | Broken \<Rightarrow> fail ETransport)"

definition backend_call :: "cli_env \<Rightarrow> cli_config \<Rightarrow> string \<Rightarrow> string \<Rightarrow> cli_body \<Rightarrow> cli_reply cio" where
  "backend_call e config verb route body =
     try_op (lift_result (config_token config)) (\<lambda>token.
     try_op (cli_send e \<lparr> cq_method = verb, cq_url = api_base (cg_backend_url config) @ route,
                          cq_bearer = Some token, cq_body = body \<rparr>) (\<lambda>a.
     try_op (map_backend_error a) (cli_backend_response e)))"

definition decoded :: "(cli_payload \<Rightarrow> 'a option) \<Rightarrow> cli_reply \<Rightarrow> 'a cio" where
  "decoded decode r = (case decode (cr_payload r) of None \<Rightarrow> fail EDecode | Some x \<Rightarrow> ret x)"

fun as_grants :: "cli_payload \<Rightarrow> grant_entry list option" where
  "as_grants (PGrants gs) = Some gs" | "as_grants _ = None"

fun as_invites :: "cli_payload \<Rightarrow> invite_entry list option" where
  "as_invites (PInvites is) = Some is" | "as_invites _ = None"

fun as_invite_token :: "cli_payload \<Rightarrow> string option" where
  "as_invite_token (PInviteToken t) = Some t" | "as_invite_token _ = None"

fun as_new_grant :: "cli_payload \<Rightarrow> (string \<times> string) option" where
  "as_new_grant (PNewGrant grant_id token) = Some (grant_id, token)" | "as_new_grant _ = None"

definition fetch_folder_grants :: "cli_env \<Rightarrow> cli_config \<Rightarrow> string \<Rightarrow> grant_entry list cio" where
  "fetch_folder_grants e config folder_id =
     try_op (backend_call e config ''GET'' (''/folders/'' @ folder_id @ ''/grants'') CNoBody) (decoded as_grants)"

definition fetch_folder_invites :: "cli_env \<Rightarrow> cli_config \<Rightarrow> string \<Rightarrow> invite_entry list cio" where
  "fetch_folder_invites e config folder_id =
     try_op (backend_call e config ''GET'' (''/folders/'' @ folder_id @ ''/invites'') CNoBody) (decoded as_invites)"

definition fetch_grants :: "cli_env \<Rightarrow> cli_config \<Rightarrow> grant_entry list cio" where
  "fetch_grants e config = try_op (backend_call e config ''GET'' ''/grants'' CNoBody) (decoded as_grants)"

section \<open>Labels\<close>

definition grantee :: "grant_entry \<Rightarrow> string" where
  "grantee g = (case List.map_filter id
       [ge_grantee_email g, ge_name g, ge_device_name g, ge_user_id g, ge_device_id g] of
     [] \<Rightarrow> ''-'' | label # _ \<Rightarrow> label)"

definition permission_label :: "bool \<Rightarrow> string" where
  "permission_label can_write = (if can_write then ''read/write'' else ''read-only'')"

definition grant_display_id :: "string \<Rightarrow> string" where
  "grant_display_id grant_id = ''g_'' @ grant_id"

definition invite_display_id :: "string \<Rightarrow> string" where
  "invite_display_id invite_id = ''i_'' @ invite_id"

definition can_write_of :: "grant_entry \<Rightarrow> bool" where
  "can_write_of g = (ge_can_write g = Some True)"

section \<open>Granting\<close>

record share_args =
  sh_path :: string
  sh_to :: "string option"
  sh_key :: "string option"
  sh_read_only :: bool

definition refuse_if_access_key_cannot_share :: "cli_env \<Rightarrow> share_args \<Rightarrow> unit cio" where
  "refuse_if_access_key_cannot_share e args =
     try_op (probe_credential e) (\<lambda>credential.
     if credential \<noteq> Some CredAccessKey then ret ()
     else if sh_key args \<noteq> None then fail_cli access_key_cannot_issue_keys
     else if sh_to args \<noteq> None then fail_cli access_key_cannot_invite_people
     else ret ())"

definition invite_receipt_message :: "string \<Rightarrow> string \<Rightarrow> string \<Rightarrow> bool \<Rightarrow> string" where
  "invite_receipt_message email folder_label scope can_write =
     ''Invited '' @ email @ '' to '' @ folder_label @ '' ('' @ scope @ '', '' @ permission_label can_write @ '').''"

definition share_with_person :: "cli_env \<Rightarrow> cli_config \<Rightarrow> resolved_target \<Rightarrow> share_args \<Rightarrow> string \<Rightarrow> bool \<Rightarrow> unit cio" where
  "share_with_person e config target args email json =
     (let can_write = (\<not> sh_read_only args) in
      try_op (scope_label e (rt_folder_id target) (rt_scope_node_id target)) (\<lambda>scope.
      try_op (backend_call e config ''POST'' (''/folders/'' @ rt_folder_id target @ ''/invites'')
        (CInvite email (rt_scope_node_id target) can_write)) (\<lambda>response.
      try_op (decoded as_invite_token response) (\<lambda>invite_token.
      let accept_url = api_base (cg_backend_url config) @ ''/invites/'' @ invite_token @ ''/accept'' in
      if json
      then print_line (ce_to_json e (JObj [(''invited_email'', JStr email), (''invite_url'', JStr accept_url)]))
      else
        try_op (catch_error (cli_resolve_mount e (sh_path args))) (\<lambda>m.
        let folder_label = (case m of
              Inr row \<Rightarrow> (case lm_name row of Some name \<Rightarrow> name | None \<Rightarrow> sh_path args) | Inl _ \<Rightarrow> sh_path args) in
        print_lines [invite_receipt_message email folder_label scope can_write, ''Accept link: '' @ accept_url])))))"

definition issue_key :: "cli_env \<Rightarrow> cli_config \<Rightarrow> resolved_target \<Rightarrow> share_args \<Rightarrow> string \<Rightarrow> bool \<Rightarrow> unit cio" where
  "issue_key e config target args name json =
     (let can_write = (\<not> sh_read_only args) in
      try_op (backend_call e config ''POST'' (''/folders/'' @ rt_folder_id target @ ''/grants'')
        (CGrant (rt_scope_node_id target) name True can_write)) (\<lambda>response.
      try_op (decoded as_new_grant response) (\<lambda>(grant_id, token).
      emit e json
        [''Created access key '' @ name @ '' ('' @ grant_id @ '').'', ''One-time token: '' @ token,
         ''Store this token now; it cannot be retrieved again.'']
        (JObj [(''grant_id'', JStr grant_id), (''name'', JStr name), (''token'', JStr token)]))))"

definition cmd_share_grant :: "cli_env \<Rightarrow> share_args \<Rightarrow> bool \<Rightarrow> unit cio" where
  "cmd_share_grant e args json =
     try_op (refuse_if_access_key_cannot_share e args) (\<lambda>_.
     try_op (load_config e) (\<lambda>config.
     try_op (resolve_target_path e (sh_path args)) (\<lambda>target.
     case sh_to args of
       Some email \<Rightarrow> share_with_person e config target args email json
     | None \<Rightarrow> (case sh_key args of
           Some name \<Rightarrow> issue_key e config target args name json
         | None \<Rightarrow> ret ()))))"

section \<open>Listing\<close>

definition share_listing_credential :: "cli_env \<Rightarrow> local_mount \<Rightarrow> cli_config cio" where
  "share_listing_credential e m =
     match_op (load_config e) ret (\<lambda>_.
       try_op (load_backend_url e) (\<lambda>backend_url.
       case lm_mount_token m of
         None \<Rightarrow> fail_cli cli_no_credential
       | Some token \<Rightarrow> ret \<lparr> cg_backend_url = backend_url, cg_device_token = Some token \<rparr>))"

definition is_access_key_listing_refusal :: "error \<Rightarrow> bool" where
  "is_access_key_listing_refusal err = (case err of
       ECli c \<Rightarrow> cl_code c = ''access_key_cannot_list_grants'' | _ \<Rightarrow> False)"

definition fetch_share_listing ::
    "cli_env \<Rightarrow> local_mount \<Rightarrow> (grant_entry list \<times> invite_entry list \<times> bool) cio" where
  "fetch_share_listing e m =
     try_op (share_listing_credential e m) (\<lambda>config.
     match_op (fetch_folder_grants e config (lm_folder_id m))
       (\<lambda>grants. try_op (fetch_folder_invites e config (lm_folder_id m)) (\<lambda>invites. ret (grants, invites, True)))
       (\<lambda>err. if is_access_key_listing_refusal err
          then try_op (fetch_grants e config) (\<lambda>grants.
               ret (filter (\<lambda>g. ge_folder_id g = lm_folder_id m) grants, [], False))
          else fail err))"

record listing_row =
  lr_id :: string
  lr_grantee :: string
  lr_scope :: string
  lr_permission :: string
  lr_pending :: bool

definition grant_row :: "cli_env \<Rightarrow> string \<Rightarrow> grant_entry \<Rightarrow> listing_row list \<Rightarrow> listing_row list cio" where
  "grant_row e folder_id g rows =
     try_op (scope_label e folder_id (ge_scope_node_id g)) (\<lambda>scope.
     ret (rows @ [\<lparr> lr_id = grant_display_id (ge_grant_id g), lr_grantee = grantee g, lr_scope = scope,
                    lr_permission = permission_label (can_write_of g), lr_pending = False \<rparr>]))"

definition invite_row :: "cli_env \<Rightarrow> string \<Rightarrow> invite_entry \<Rightarrow> listing_row list \<Rightarrow> listing_row list cio" where
  "invite_row e folder_id i rows =
     try_op (scope_label e folder_id (iv_scope_node_id i)) (\<lambda>scope.
     ret (rows @ [\<lparr> lr_id = invite_display_id (iv_invite_id i), lr_grantee = iv_invited_email i, lr_scope = scope,
                    lr_permission = permission_label (iv_can_write i), lr_pending = True \<rparr>]))"

definition build_listing_rows :: "cli_env \<Rightarrow> string \<Rightarrow> grant_entry list \<Rightarrow> invite_entry list \<Rightarrow> listing_row list cio" where
  "build_listing_rows e folder_id grants invites =
     try_op (for_each grants (grant_row e folder_id) []) (for_each invites (invite_row e folder_id))"

definition listing_cells :: "listing_row \<Rightarrow> string list" where
  "listing_cells r = [lr_id r, lr_grantee r, lr_scope r, lr_permission r, if lr_pending r then ''pending'' else ''-'']"

definition listing_json :: "listing_row \<Rightarrow> json" where
  "listing_json r = JObj [(''id'', JStr (lr_id r)), (''grantee'', JStr (lr_grantee r)), (''scope'', JStr (lr_scope r)),
     (''permission'', JStr (lr_permission r)), (''pending'', JBool (lr_pending r))]"

definition print_share_listing ::
    "cli_env \<Rightarrow> string \<Rightarrow> string \<Rightarrow> grant_entry list \<Rightarrow> invite_entry list \<Rightarrow> bool \<Rightarrow> bool \<Rightarrow> unit cio" where
  "print_share_listing e path folder_id grants invites json show_hint =
     try_op (build_listing_rows e folder_id grants invites) (\<lambda>rows.
     if json then print_line (ce_to_json e (JArr (map listing_json rows)))
     else
       try_op (if rows = [] then print_line (''Nobody else can reach '' @ path @ ''.'')
               else print_table [''ID'', ''GRANTEE'', ''SCOPE'', ''PERMISSION'', ''STATUS''] (map listing_cells rows)) (\<lambda>_.
       if show_hint
       then print_line (''Add access with: `valv share '' @ path @ '' --to <email>`, or `valv share '' @ path @ '' --key <name>`.'')
       else ret ()))"

definition cmd_share_list :: "cli_env \<Rightarrow> string \<Rightarrow> bool \<Rightarrow> unit cio" where
  "cmd_share_list e path json =
     try_op (cli_resolve_mount e path) (\<lambda>m.
     try_op (fetch_share_listing e m) (\<lambda>(grants, invites, show_hint).
     print_share_listing e path (lm_folder_id m) grants invites json show_hint))"

section \<open>Revoking\<close>

datatype pinned_id = PinnedGrant string | PinnedInvite string

definition parse_pinned_id :: "string \<Rightarrow> error + pinned_id" where
  "parse_pinned_id i =
     (case strip_prefix i ''g_'' of
        Some rest \<Rightarrow> Inr (PinnedGrant rest)
      | None \<Rightarrow> (case strip_prefix i ''i_'' of
            Some rest \<Rightarrow> Inr (PinnedInvite rest)
          | None \<Rightarrow> Inl (ECli (cli_usage ''invalid_id_prefix''
              (i @ '' is not a valid id: expected a g_ (grant) or i_ (invite) id from `valv share <path>`.'')))))"

datatype selector = SelTo string | SelKey string | SelId pinned_id

fun selector_handle :: "selector \<Rightarrow> string" where
  "selector_handle (SelTo email) = email"
| "selector_handle (SelKey name) = name"
| "selector_handle (SelId (PinnedGrant i)) = grant_display_id i"
| "selector_handle (SelId (PinnedInvite i)) = invite_display_id i"

text \<open>\<open>clap\<close> guarantees that one of the three is given; the model answers \<open>ENoFuel\<close> where the code is
  unreachable.\<close>

definition build_selector :: "string option \<Rightarrow> string option \<Rightarrow> string option \<Rightarrow> error + selector" where
  "build_selector to_email key i =
     (case i of
        Some pinned \<Rightarrow> map_sum id SelId (parse_pinned_id pinned)
      | None \<Rightarrow> (case to_email of
            Some email \<Rightarrow> Inr (SelTo email)
          | None \<Rightarrow> (case key of Some name \<Rightarrow> Inr (SelKey name) | None \<Rightarrow> Inl ENoFuel)))"

fun matches_grant :: "grant_entry \<Rightarrow> selector \<Rightarrow> bool" where
  "matches_grant g (SelTo email) = (ge_grantee_email g = Some email)"
| "matches_grant g (SelKey name) = (ge_name g = Some name)"
| "matches_grant g (SelId (PinnedGrant i)) = (ge_grant_id g = i)"
| "matches_grant g (SelId (PinnedInvite _)) = False"

fun matches_invite :: "invite_entry \<Rightarrow> selector \<Rightarrow> bool" where
  "matches_invite v (SelTo email) = (iv_invited_email v = email)"
| "matches_invite v (SelKey _) = False"
| "matches_invite v (SelId (PinnedInvite i)) = (iv_invite_id v = i)"
| "matches_invite v (SelId (PinnedGrant _)) = False"

datatype revocable_target = RevokeGrant grant_entry | RevokeInvite invite_entry

fun target_handle :: "revocable_target \<Rightarrow> string" where
  "target_handle (RevokeGrant g) = grantee g" | "target_handle (RevokeInvite v) = iv_invited_email v"

fun target_scope_node_id :: "revocable_target \<Rightarrow> string" where
  "target_scope_node_id (RevokeGrant g) = ge_scope_node_id g" | "target_scope_node_id (RevokeInvite v) = iv_scope_node_id v"

fun target_can_write :: "revocable_target \<Rightarrow> bool" where
  "target_can_write (RevokeGrant g) = can_write_of g" | "target_can_write (RevokeInvite v) = iv_can_write v"

fun target_created_at :: "revocable_target \<Rightarrow> string option" where
  "target_created_at (RevokeGrant g) = ge_created_at g" | "target_created_at (RevokeInvite v) = Some (iv_created_at v)"

fun target_id :: "revocable_target \<Rightarrow> string" where
  "target_id (RevokeGrant g) = grant_display_id (ge_grant_id g)"
| "target_id (RevokeInvite v) = invite_display_id (iv_invite_id v)"

definition describe_candidate :: "cli_env \<Rightarrow> string \<Rightarrow> revocable_target \<Rightarrow> string list \<Rightarrow> string list cio" where
  "describe_candidate e folder_id t acc =
     try_op (scope_label e folder_id (target_scope_node_id t)) (\<lambda>scope.
     ret (acc @ [target_handle t @ '' ('' @ target_id t @ '', '' @ scope @ '', '' @ permission_label (target_can_write t) @ '')'']))"

definition confirmation_message :: "revocable_target \<Rightarrow> string \<Rightarrow> string \<Rightarrow> string option \<Rightarrow> string" where
  "confirmation_message t folder_label scope age =
     (let age_clause = (case age of Some a \<Rightarrow> '', added '' @ a | None \<Rightarrow> []);
          where_clause = folder_label @ '' ('' @ scope @ '', '' @ permission_label (target_can_write t) @ '')'' in
      case t of
        RevokeGrant _ \<Rightarrow> ''This will revoke '' @ target_handle t @ [CHR 0x27] @ ''s access to '' @ where_clause @ age_clause
          @ ''. This cannot be undone.''
      | RevokeInvite _ \<Rightarrow> ''This will cancel '' @ target_handle t @ [CHR 0x27] @ ''s pending invite to '' @ where_clause
          @ age_clause @ ''.'')"

definition success_message :: "revocable_target \<Rightarrow> string \<Rightarrow> string \<Rightarrow> string" where
  "success_message t folder_label scope =
     (let where_clause = folder_label @ '' ('' @ scope @ '', '' @ permission_label (target_can_write t) @ '').'' in
      case t of
        RevokeGrant _ \<Rightarrow> ''Revoked '' @ target_handle t @ [CHR 0x27] @ ''s access to '' @ where_clause
      | RevokeInvite _ \<Rightarrow> ''Cancelled '' @ target_handle t @ [CHR 0x27] @ ''s pending invite to '' @ where_clause)"

definition delete_grant :: "cli_env \<Rightarrow> cli_config \<Rightarrow> string \<Rightarrow> string \<Rightarrow> unit cio" where
  "delete_grant e config folder_id grant_id =
     try_op (backend_call e config ''DELETE'' (''/folders/'' @ folder_id @ ''/grants/'' @ grant_id) CNoBody) (\<lambda>_. ret ())"

definition cancel_invite :: "cli_env \<Rightarrow> cli_config \<Rightarrow> string \<Rightarrow> string \<Rightarrow> unit cio" where
  "cancel_invite e config folder_id invite_id =
     try_op (backend_call e config ''DELETE'' (''/folders/'' @ folder_id @ ''/invites/'' @ invite_id) CNoBody) (\<lambda>_. ret ())"

definition candidates_of :: "selector \<Rightarrow> grant_entry list \<Rightarrow> invite_entry list \<Rightarrow> revocable_target list" where
  "candidates_of sel grants invites =
     map RevokeGrant (filter (\<lambda>g. matches_grant g sel) grants) @ map RevokeInvite (filter (\<lambda>v. matches_invite v sel) invites)"

definition choose_target :: "cli_env \<Rightarrow> string \<Rightarrow> selector \<Rightarrow> revocable_target list \<Rightarrow> revocable_target cio" where
  "choose_target e folder_id sel candidates = (case candidates of
       [] \<Rightarrow> fail_cli (grant_not_found (selector_handle sel))
     | [t] \<Rightarrow> ret t
     | _ \<Rightarrow> try_op (for_each candidates (describe_candidate e folder_id) []) (\<lambda>described.
            fail_cli (ambiguous_grant_handle (''More than one match: '' @ intercalate ''; '' described))))"

definition revoke_target :: "cli_env \<Rightarrow> cli_config \<Rightarrow> string \<Rightarrow> revocable_target \<Rightarrow> unit cio" where
  "revoke_target e config folder_id t = (case t of
       RevokeGrant g \<Rightarrow> delete_grant e config folder_id (ge_grant_id g)
     | RevokeInvite v \<Rightarrow> cancel_invite e config folder_id (iv_invite_id v))"

definition unshare_success_json :: "revocable_target \<Rightarrow> string \<Rightarrow> json" where
  "unshare_success_json t folder_id =
     JObj [(''id'', JStr (target_id t)), (''folder_id'', JStr folder_id), (''handle'', JStr (target_handle t))]"

text \<open>The rest of \<open>cmd_unshare\<close> once the mount, the selector and the target are known.\<close>

definition unshare_target ::
    "cli_env \<Rightarrow> cli_config \<Rightarrow> string \<Rightarrow> local_mount \<Rightarrow> bool \<Rightarrow> bool \<Rightarrow> revocable_target \<Rightarrow> unit cio" where
  "unshare_target e config path m yes json t =
     try_op (scope_label e (lm_folder_id m) (target_scope_node_id t)) (\<lambda>scope.
     let folder_label = (case lm_name m of Some name \<Rightarrow> name | None \<Rightarrow> path);
         age = Option.bind (target_created_at t) (age_from_now e) in
     try_op (confirm_action e (confirmation_message t folder_label scope age) yes) (\<lambda>_.
     try_op (revoke_target e config (lm_folder_id m) t) (\<lambda>_.
     emit e json [success_message t folder_label scope] (unshare_success_json t (lm_folder_id m)))))"

definition unshare_selected ::
    "cli_env \<Rightarrow> cli_config \<Rightarrow> string \<Rightarrow> local_mount \<Rightarrow> bool \<Rightarrow> bool \<Rightarrow> selector \<Rightarrow> unit cio" where
  "unshare_selected e config path m yes json sel =
     try_op (fetch_folder_grants e config (lm_folder_id m)) (\<lambda>grants.
     try_op (fetch_folder_invites e config (lm_folder_id m)) (\<lambda>invites.
     try_op (choose_target e (lm_folder_id m) sel (candidates_of sel grants invites))
       (unshare_target e config path m yes json)))"

definition cmd_unshare ::
    "cli_env \<Rightarrow> string \<Rightarrow> string option \<Rightarrow> string option \<Rightarrow> string option \<Rightarrow> bool \<Rightarrow> bool \<Rightarrow> unit cio" where
  "cmd_unshare e path to_email key i yes json =
     try_op (probe_credential e) (\<lambda>credential.
     if credential = Some CredAccessKey then fail_cli access_key_cannot_revoke
     else
       try_op (load_config e) (\<lambda>config.
       try_op (cli_resolve_mount e path) (\<lambda>m.
       try_op (lift_result (build_selector to_email key i)) (unshare_selected e config path m yes json))))"

end
