(* ===== verification/Cli_Commands.thy ===== *)
theory Cli_Commands
  imports Cli_Grants
begin

text \<open>
  The commands of \<open>valv-cli/src/app.rs\<close> that talk to the daemon: mounting and unmounting, versions and
  restores, pausing and resuming, and the sync barrier.  Spinners are left out; the texts of JSON are
  \<open>ce_to_json\<close>.  The error of a mount is a text in the daemon's reply, here \<open>ce_render\<close> of the error.
\<close>

definition u64_json :: "nat \<Rightarrow> json" where
  "u64_json n = JInt (int n)"

definition opt_text_json :: "string option \<Rightarrow> json" where
  "opt_text_json v = (case v of None \<Rightarrow> JNull | Some t \<Rightarrow> JStr t)"

section \<open>Mounting\<close>

record mount_args =
  ma_path :: string
  ma_folder :: "string option"
  ma_key :: "string option"
  ma_new :: bool

definition refuse_if_access_key_cannot_mount :: "cli_env \<Rightarrow> mount_args \<Rightarrow> unit cio" where
  "refuse_if_access_key_cannot_mount e args =
     (if ma_key args \<noteq> None then ret ()
      else try_op (fetch_daemon_status e) (\<lambda>status.
        if dt_credential status \<noteq> CredAccessKey then ret ()
        else if ma_new args then fail_cli access_key_cannot_create_folder
        else fail_cli access_key_cannot_mount_folder))"

definition cli_canonical_path :: "cli_env \<Rightarrow> string \<Rightarrow> string cio" where
  "cli_canonical_path e path = with_state (\<lambda>s. lift_result (canonical_path (ce_cwd e) (w_fs (cs_world s)) path))"

definition build_mount_request :: "cli_env \<Rightarrow> mount_args \<Rightarrow> mount_request cio" where
  "build_mount_request e args =
     try_op (cli_canonical_path e (ma_path args)) (\<lambda>path.
     ret \<lparr> mq_path = path, mq_folder_id = ma_folder args, mq_grant_token = ma_key args \<rparr>)"

fun as_mounted :: "cli_payload \<Rightarrow> mount_response option" where
  "as_mounted (PMounted m) = Some m" | "as_mounted _ = None"

definition mount_success_message :: "bool \<Rightarrow> string \<Rightarrow> string \<Rightarrow> string" where
  "mount_success_message created name path =
     (if created then ''Created '' @ quoted name @ '' and mounted it at '' @ path @ ''.''
      else ''Attached '' @ quoted name @ '' at '' @ path @ ''.'')"

definition cmd_mount :: "cli_env \<Rightarrow> mount_args \<Rightarrow> bool \<Rightarrow> unit cio" where
  "cmd_mount e args json =
     try_op (refuse_if_access_key_cannot_mount e args) (\<lambda>_.
     try_op (build_mount_request e args) (\<lambda>rq.
     try_op (daemon_call e ''POST'' ''mount'' (CMount rq)) (\<lambda>response.
     try_op (parse_daemon_json e as_mounted response) (\<lambda>mounted.
     if json
     then print_line (ce_to_json e (JObj [
            (''action'', JStr (if ma_new args then ''created'' else ''attached'')),
            (''folder_id'', JStr (mr_folder_id mounted)), (''path'', JStr (mr_path mounted))]))
     else
       try_op (catch_error (cli_resolve_mount e (mr_path mounted))) (\<lambda>m.
       let name = (case m of Inl _ \<Rightarrow> mr_folder_id mounted
           | Inr row \<Rightarrow> (case lm_name row of Some name \<Rightarrow> name | None \<Rightarrow> mr_folder_id mounted)) in
       print_line (mount_success_message (ma_new args) name (mr_path mounted)))))))"

section \<open>Unmounting\<close>

definition holds_token :: "local_mount \<Rightarrow> bool" where
  "holds_token m = (lm_mount_token m \<noteq> None)"

definition mount_holds_last_credential :: "cli_env \<Rightarrow> local_mount \<Rightarrow> bool cio" where
  "mount_holds_last_credential e m =
     (if \<not> holds_token m then ret False
      else
        try_op (fetch_daemon_status e) (\<lambda>status.
        if dt_credential status = CredAccount then ret False
        else
          try_op (catch_error (list_local_mounts e)) (\<lambda>mounts.
          let all_mounts = (case mounts of Inl _ \<Rightarrow> [] | Inr ms \<Rightarrow> ms) in
          ret (length (filter holds_token all_mounts) \<le> 1))))"

definition last_credential_warning :: "string \<Rightarrow> string" where
  "last_credential_warning path =
     ''Unmounting '' @ path @ '' destroys this machine'' @ [CHR 0x27] @ ''s only Valv credential. ''
     @ ''It cannot be recovered; the folder owner must issue a new one.''"

definition unmount_now :: "cli_env \<Rightarrow> string \<Rightarrow> bool \<Rightarrow> local_mount \<Rightarrow> unit cio" where
  "unmount_now e path json m =
     try_op (daemon_call e ''DELETE'' ''mount'' (CUnmount (lm_folder_id m))) (\<lambda>response.
     try_op (expect_status e 204 response) (\<lambda>_.
     emit e json [''Unmounted '' @ path @ ''.'']
       (JObj [(''folder_id'', JStr (lm_folder_id m)), (''path'', JStr path)])))"

definition cmd_unmount :: "cli_env \<Rightarrow> string \<Rightarrow> bool \<Rightarrow> bool \<Rightarrow> unit cio" where
  "cmd_unmount e path yes json =
     try_op (cli_resolve_mount e path) (\<lambda>m.
     try_op (mount_holds_last_credential e m) (\<lambda>is_last.
     try_op (if is_last then confirm_action e (last_credential_warning path) yes else ret ()) (\<lambda>_.
     unmount_now e path json m)))"

section \<open>Versions and restores\<close>

fun as_versions :: "cli_payload \<Rightarrow> version_entry list option" where
  "as_versions (PVersions vs) = Some vs" | "as_versions _ = None"

definition humanize_bytes :: "cli_env \<Rightarrow> nat \<Rightarrow> string" where
  "humanize_bytes e n = (if n < 1024 then string_of_nat n @ '' B'' else ce_size_text e n)"

definition cli_version_row :: "cli_env \<Rightarrow> version_entry \<Rightarrow> string list" where
  "cli_version_row e v =
     [ve_version_id v,
      case age_from_now e (ve_created_at v) of Some age \<Rightarrow> age | None \<Rightarrow> ve_created_at v,
      humanize_bytes e (ve_size_bytes v), ve_author_device_name v,
      if ve_is_conflict_copy v then ''yes'' else ''no'']"

definition versions_json :: "version_entry list \<Rightarrow> json" where
  "versions_json vs = JArr (map (\<lambda>v. JObj [
     (''version_id'', JStr (ve_version_id v)), (''created_at'', JStr (ve_created_at v)),
     (''size_bytes'', u64_json (ve_size_bytes v)), (''author_device_name'', JStr (ve_author_device_name v)),
     (''is_conflict_copy'', JBool (ve_is_conflict_copy v))]) vs)"

definition cmd_versions :: "cli_env \<Rightarrow> string \<Rightarrow> bool \<Rightarrow> unit cio" where
  "cmd_versions e path json =
     try_op (cli_canonical_path e path) (\<lambda>local_path.
     try_op (daemon_call e ''POST'' ''versions'' (CLocalPath local_path)) (\<lambda>response.
     try_op (parse_daemon_json e as_versions response) (\<lambda>versions.
     if json then print_line (ce_to_json e (versions_json versions))
     else print_table [''VERSION'', ''CREATED'', ''SIZE'', ''AUTHOR'', ''CONFLICT COPY''] (map (cli_version_row e) versions))))"

definition refuse_if_access_key_restore_is_read_only :: "cli_env \<Rightarrow> string \<Rightarrow> unit cio" where
  "refuse_if_access_key_restore_is_read_only e local_path =
     try_op (cli_resolve_mount e local_path) (\<lambda>m.
     if lm_can_write m then ret ()
     else try_op (fetch_daemon_status e) (\<lambda>status.
       if dt_credential status \<noteq> CredAccessKey then ret ()
       else fail_cli (access_key_is_read_only
         (case lm_name m of Some name \<Rightarrow> name | None \<Rightarrow> lm_folder_id m))))"

fun as_restored :: "cli_payload \<Rightarrow> string option" where
  "as_restored (PRestored result) = Some result" | "as_restored _ = None"

text \<open>The parent of a canonical path, which a path string is here; the root has none.\<close>

definition conflict_copy_message :: "string \<Rightarrow> string" where
  "conflict_copy_message local_path =
     (let parent = (case components local_path of [] \<Rightarrow> local_path | c # cs \<Rightarrow> path_string (butlast (c # cs))) in
      ''Another write happened at the same time, so the restore was saved as a new file in '' @ parent
      @ '' instead of overwriting '' @ local_path @ ''.'')"

definition superseded_message :: "string \<Rightarrow> string" where
  "superseded_message local_path =
     local_path @ '' was not restored: a newer write already happened, so nothing changed.''"

definition restore_message :: "string \<Rightarrow> string \<Rightarrow> string \<Rightarrow> string" where
  "restore_message result local_path version_id =
     (if result = ''applied'' then ''Restored '' @ local_path @ '' to version '' @ version_id
      else if result = ''conflict_copy'' then conflict_copy_message local_path
      else if result = ''superseded'' then superseded_message local_path
      else ''Restore result: '' @ result)"

definition cmd_restore :: "cli_env \<Rightarrow> string \<Rightarrow> string \<Rightarrow> bool \<Rightarrow> unit cio" where
  "cmd_restore e path version_id json =
     try_op (cli_canonical_path e path) (\<lambda>local_path.
     try_op (refuse_if_access_key_restore_is_read_only e local_path) (\<lambda>_.
     try_op (daemon_call e ''POST'' ''restore'' (CRestore local_path version_id)) (\<lambda>response.
     try_op (parse_daemon_json e as_restored response) (\<lambda>result.
     emit e json [restore_message result local_path version_id]
       (JObj [(''result'', JStr result), (''path'', JStr local_path), (''version_id'', JStr version_id)])))))"

section \<open>Pausing, resuming and syncing\<close>

definition cmd_pause_resume :: "cli_env \<Rightarrow> string \<Rightarrow> string \<Rightarrow> bool \<Rightarrow> unit cio" where
  "cmd_pause_resume e route message json =
     try_op (daemon_call e ''POST'' route CNoBody) (\<lambda>response.
     try_op (expect_status e 204 response) (\<lambda>_.
     emit e json [message] (JObj [(''action'', JStr route)])))"

fun as_summary :: "cli_payload \<Rightarrow> sync_summary option" where
  "as_summary (PSummary s) = Some s" | "as_summary _ = None"

definition request_sync_pass :: "cli_env \<Rightarrow> string option \<Rightarrow> sync_summary cio" where
  "request_sync_pass e folder_id =
     try_op (daemon_call e ''POST'' ''sync'' (CSync folder_id)) (parse_daemon_json e as_summary)"

definition relevant_mounts :: "daemon_status \<Rightarrow> string option \<Rightarrow> mount_status list" where
  "relevant_mounts status folder_id = filter (\<lambda>m. case folder_id of
      None \<Rightarrow> True | Some f \<Rightarrow> mt_folder_id m = f) (dt_mounts status)"

definition mount_settled :: "mount_status \<Rightarrow> bool" where
  "mount_settled m = (mt_pending_ops m = 0 \<and> mt_error m = None)"

definition SYNC_BARRIER_TIMEOUT :: nat where "SYNC_BARRIER_TIMEOUT = 120000"
definition SYNC_POLL_INTERVAL :: nat where "SYNC_POLL_INTERVAL = 500"

definition failed_mount :: "cli_env \<Rightarrow> daemon_status \<Rightarrow> mount_status list \<Rightarrow> cli_error option" where
  "failed_mount e status mounts =
     (if \<not> dt_backend_connected status then None
      else (case find (\<lambda>m. mt_error m \<noteq> None) mounts of
          None \<Rightarrow> None
        | Some m \<Rightarrow> Some (sync_mount_error (mt_name m) (case mt_error m of Some err \<Rightarrow> ce_render e err | None \<Rightarrow> []))))"

text \<open>The loop of the barrier: \<open>fuel\<close> rounds of a pass, a status, a look at the clock and a sleep.\<close>

primrec sync_barrier :: "nat \<Rightarrow> cli_env \<Rightarrow> string option \<Rightarrow> string \<Rightarrow> nat \<Rightarrow> sync_summary cio" where
  "sync_barrier 0 e folder_id subject deadline = fail ENoFuel"
| "sync_barrier (Suc fuel) e folder_id subject deadline =
     try_op (request_sync_pass e folder_id) (\<lambda>summary.
     try_op (fetch_daemon_status e) (\<lambda>status.
     let mounts = relevant_mounts status folder_id in
     case failed_mount e status mounts of
       Some err \<Rightarrow> fail_cli err
     | None \<Rightarrow>
         if list_all mount_settled mounts then ret summary
         else try_op (now_ms e) (\<lambda>now.
           if deadline \<le> now
           then fail_cli (sync_timed_out (''Timed out waiting for '' @ subject @ '' to settle.''))
           else try_op (sleep_ms SYNC_POLL_INTERVAL) (\<lambda>_. sync_barrier fuel e folder_id subject deadline))))"

definition run_sync_barrier :: "nat \<Rightarrow> cli_env \<Rightarrow> string option \<Rightarrow> string \<Rightarrow> nat \<Rightarrow> sync_summary cio" where
  "run_sync_barrier fuel e folder_id subject timeout =
     try_op (now_ms e) (\<lambda>now. sync_barrier fuel e folder_id subject (now + timeout))"

definition sync_summary_line :: "string \<Rightarrow> sync_summary \<Rightarrow> string" where
  "sync_summary_line subject summary =
     (let parts = (if 0 < sy_creates summary then [string_of_nat (sy_creates summary) @ '' created''] else [])
          @ (if 0 < sy_versions summary then [string_of_nat (sy_versions summary) @ '' updated''] else [])
          @ (if 0 < sy_deletes summary then [string_of_nat (sy_deletes summary) @ '' deleted''] else [])
          @ (if 0 < sy_pulled_ops summary then [string_of_int (sy_pulled_ops summary) @ '' changes received''] else []) in
      if parts = [] then ''Already up to date.''
      else ''Synced '' @ subject @ '': '' @ intercalate '', '' parts @ ''.'')"

definition sync_folder :: "cli_env \<Rightarrow> string option \<Rightarrow> string option cio" where
  "sync_folder e path = (case path of
      None \<Rightarrow> ret None
    | Some p \<Rightarrow> try_op (cli_resolve_mount e p) (\<lambda>m. ret (Some (lm_folder_id m))))"

definition cmd_sync :: "nat \<Rightarrow> cli_env \<Rightarrow> string option \<Rightarrow> bool \<Rightarrow> unit cio" where
  "cmd_sync fuel e path json =
     try_op (sync_folder e path) (\<lambda>folder_id.
     let subject = (case path of Some p \<Rightarrow> p | None \<Rightarrow> ''every mounted folder'') in
     try_op (run_sync_barrier fuel e folder_id subject SYNC_BARRIER_TIMEOUT) (\<lambda>summary.
     emit e json [sync_summary_line subject summary]
       (JObj [(''path'', opt_text_json path), (''creates_submitted'', u64_json (sy_creates summary)),
              (''versions_submitted'', u64_json (sy_versions summary)),
              (''deletes_submitted'', u64_json (sy_deletes summary)), (''pulled_ops'', JInt (sy_pulled_ops summary))])))"

section \<open>The service\<close>

text \<open>\<open>valvd\<close> runs \<open>valvd daemon\<close> with a subcommand and tells whether it succeeded.\<close>

definition run_valvd_daemon_subcommand :: "cli_env \<Rightarrow> (path \<Rightarrow> string \<Rightarrow> bool cio) \<Rightarrow> string \<Rightarrow> unit cio" where
  "run_valvd_daemon_subcommand e valvd subcommand = (case ce_exe e of
      None \<Rightarrow> fail (EMsg ''failed to determine current executable path'')
    | Some exe \<Rightarrow> with_state (\<lambda>s.
        try_op (valvd (cli_resolve_valvd_path (w_fs (cs_world s)) exe) subcommand) (\<lambda>ok.
        if ok then ret ()
        else fail_cli (cli_new 1 ''daemon_command_failed'' (''valvd daemon '' @ subcommand @ '' failed'')))))"

definition print_daemon_command_result :: "cli_env \<Rightarrow> string \<Rightarrow> bool \<Rightarrow> unit cio" where
  "print_daemon_command_result e action json =
     (if json then print_line (ce_to_json e (JObj [(''action'', JStr action)]))
      else eprint_line (''Valv daemon '' @ action @ ''.''))"

definition cmd_daemon_restart ::
    "nat \<Rightarrow> cli_env \<Rightarrow> string option \<Rightarrow> (path \<Rightarrow> string \<Rightarrow> bool cio) \<Rightarrow> bool \<Rightarrow> unit cio" where
  "cmd_daemon_restart fuel e journal valvd json =
     try_op (catch_error (run_valvd_daemon_subcommand e valvd ''uninstall'')) (\<lambda>_.
     try_op (run_valvd_daemon_subcommand e valvd ''install'') (\<lambda>_.
     try_op (wait_for_daemon_socket fuel e journal 10000) (\<lambda>_.
     print_daemon_command_result e ''restarted'' json)))"

definition cmd_daemon_uninstall :: "cli_env \<Rightarrow> (path \<Rightarrow> string \<Rightarrow> bool cio) \<Rightarrow> bool \<Rightarrow> unit cio" where
  "cmd_daemon_uninstall e valvd json =
     try_op (run_valvd_daemon_subcommand e valvd ''uninstall'') (\<lambda>_.
     print_daemon_command_result e ''uninstalled'' json)"

end
