(* ===== verification/Cli_Status.thy ===== *)
theory Cli_Status
  imports Cli_Commands
begin

text \<open>
  \<open>valv status\<close> (\<open>valv-cli/src/app.rs\<close>): the principal, the health of the daemon and the mounted and
  reachable folders, with the daemon's answer or without it.  \<open>ce_status_json\<close> serializes the fields of
  a status.
\<close>

datatype discovery = NotApplicable | Unavailable | Available "grant_entry list"

text \<open>The client of \<open>fetch_reachable_grants\<close> gives up after three seconds, which is a \<open>TimedOut\<close> answer.\<close>

definition fetch_reachable_grants :: "cli_env \<Rightarrow> cli_config \<Rightarrow> discovery cio" where
  "fetch_reachable_grants e config =
     match_op (fetch_grants e config) (\<lambda>grants. ret (Available grants)) (\<lambda>_. ret Unavailable)"

definition fetch_reachable_folders :: "cli_env \<Rightarrow> daemon_status \<Rightarrow> discovery cio" where
  "fetch_reachable_folders e status =
     (if dt_credential status \<noteq> CredAccount then ret NotApplicable
      else match_op (load_config e) (fetch_reachable_grants e) (\<lambda>_. ret Unavailable))"

definition fetch_offline_reachable_folders :: "cli_env \<Rightarrow> discovery cio" where
  "fetch_offline_reachable_folders e =
     match_op (load_config e) (fetch_reachable_grants e) (\<lambda>_. ret NotApplicable)"

section \<open>The principal\<close>

definition offline_device_name_fallback :: "cli_env \<Rightarrow> fs \<Rightarrow> string" where
  "offline_device_name_fallback e fs =
     (case Option.bind (peek_config e fs) cp_device_name of Some name \<Rightarrow> name | None \<Rightarrow> ''this device'')"

definition scope_line :: "principal_scope \<Rightarrow> string" where
  "scope_line s = ''folder-scoped: '' @ sc_folder_name s @ '' (''
     @ (if sc_can_write s then ''read/write'' else ''read-only'') @ '')''"

definition principal_lines :: "cli_env \<Rightarrow> fs \<Rightarrow> credential \<Rightarrow> principal_status option \<Rightarrow> string list" where
  "principal_lines e fs credential p = (case credential of
      CredAccount \<Rightarrow> [''Signed in as '' @ (case Option.bind p pr_email of
          Some email \<Rightarrow> email | None \<Rightarrow> offline_device_name_fallback e fs)]
    | CredAccessKey \<Rightarrow> ''Access key'' # map scope_line (case p of Some q \<Rightarrow> pr_scopes q | None \<Rightarrow> [])
    | CredRejected \<Rightarrow> [''Access key rejected. Ask the folder owner for a new key.'']
    | CredPending \<Rightarrow> [''Verifying this machine'' @ [CHR 0x27] @ ''s credential'' @ ellipsis]
    | CredNone \<Rightarrow> [''Not configured, no key yet''])"

definition has_device_token :: "config_peek \<Rightarrow> bool" where
  "has_device_token peek = (case cp_device_token peek of Some token \<Rightarrow> trim_ws token \<noteq> [] | None \<Rightarrow> False)"

definition legacy_device_token_advisory :: "cli_env \<Rightarrow> fs \<Rightarrow> credential \<Rightarrow> string option" where
  "legacy_device_token_advisory e fs credential =
     (if credential \<noteq> CredAccessKey then None
      else if (case peek_config e fs of Some peek \<Rightarrow> has_device_token peek | None \<Rightarrow> False)
      then Some (''This machine'' @ [CHR 0x27] @ ''s config.toml stores an access key in device_token. Redeem it as a mount ''
        @ ''instead: valv mount <path> --key <token>, then remove device_token from config.toml.'')
      else None)"

definition offline_principal_line :: "cli_env \<Rightarrow> fs \<Rightarrow> local_mount list \<Rightarrow> string" where
  "offline_principal_line e fs mounts = (case peek_config e fs of
      None \<Rightarrow> ''Not configured, no key yet''
    | Some peek \<Rightarrow>
        if has_device_token peek \<or> list_ex holds_token mounts
        then ''A local credential is present, but the daemon is unreachable so its type cannot be verified.''
        else ''Not configured, no key yet'')"

section \<open>Folders\<close>

definition access_label :: "bool \<Rightarrow> string option \<Rightarrow> string" where
  "access_label can_write role =
     (if role = Some ''owner'' then ''owner'' else if can_write then ''read/write'' else ''read-only'')"

definition mount_sync_state :: "mount_status \<Rightarrow> string" where
  "mount_sync_state m =
     (if mt_update_required m then ''update required''
      else if mt_error m \<noteq> None then ''error''
      else if \<not> mt_watcher_alive m then ''watcher down''
      else if mt_syncing m then ''syncing''
      else if 0 < mt_pending_ops m then string_of_nat (mt_pending_ops m) @ '' pending''
      else ''synced'')"

definition name_or_dash :: "string option \<Rightarrow> string" where
  "name_or_dash name = (case name of Some n \<Rightarrow> n | None \<Rightarrow> ''-'')"

text \<open>The grants to folders that are not among the mounted ones.\<close>

definition unmounted_grants :: "string list \<Rightarrow> discovery \<Rightarrow> grant_entry list" where
  "unmounted_grants mounted_ids d = (case d of
      Available grants \<Rightarrow> filter (\<lambda>g. ge_folder_id g \<notin> set mounted_ids) grants | _ \<Rightarrow> [])"

definition build_folder_rows :: "daemon_status \<Rightarrow> discovery \<Rightarrow> string list list" where
  "build_folder_rows status d =
     map (\<lambda>m. [mt_folder_id m, mt_name m, access_label (mt_can_write m) None, mount_sync_state m, mt_path m])
       (dt_mounts status)
     @ map (\<lambda>g. [ge_folder_id g, name_or_dash (ge_folder_name g), access_label (can_write_of g) (ge_role g),
                 ''not mounted'', ''-''])
       (unmounted_grants (map mt_folder_id (dt_mounts status)) d)"

definition mount_state_detail_lines :: "cli_env \<Rightarrow> daemon_status \<Rightarrow> string list" where
  "mount_state_detail_lines e status = List.map_filter (\<lambda>m.
     if mt_update_required m then Some (mt_name m @ '': update required, run `valv update` to fix this.'')
     else map_option (\<lambda>err. mt_name m @ '': '' @ ce_render e err) (mt_error m)) (dt_mounts status)"

definition update_available_line :: "bool option \<Rightarrow> string option \<Rightarrow> string option" where
  "update_available_line update_available latest_version = (case (update_available, latest_version) of
      (Some True, Some v) \<Rightarrow> Some (''A newer version of valv is available ('' @ v @ ''). Run '' @ [CHR 0x27]
        @ ''valv update'' @ [CHR 0x27] @ '' to install it.'')
    | _ \<Rightarrow> None)"

definition UPDATE_REQUIRED_MESSAGE :: string where
  "UPDATE_REQUIRED_MESSAGE = ''Update required. Run `valv update` to fix this.''"

definition DISCOVERY_UNAVAILABLE :: string where
  "DISCOVERY_UNAVAILABLE = ''The reachable-folder list is unavailable: the backend could not be reached.''"

section \<open>JSON\<close>

definition reachable_json :: "grant_entry \<Rightarrow> json" where
  "reachable_json g = JObj [(''folder_id'', JStr (ge_folder_id g)), (''name'', opt_text_json (ge_folder_name g)),
     (''access'', JStr (access_label (can_write_of g) (ge_role g)))]"

definition discovery_fields :: "string list \<Rightarrow> discovery \<Rightarrow> (string \<times> json) list" where
  "discovery_fields mounted_ids d = (case d of
      Available _ \<Rightarrow> [(''reachable_folders'', JArr (map reachable_json (unmounted_grants mounted_ids d)))]
    | Unavailable \<Rightarrow> [(''discovery_unavailable'', JBool True)]
    | NotApplicable \<Rightarrow> [])"

definition online_status_json :: "cli_env \<Rightarrow> daemon_status \<Rightarrow> discovery \<Rightarrow> json" where
  "online_status_json e status d =
     JObj (ce_status_json e status @ discovery_fields (map mt_folder_id (dt_mounts status)) d)"

definition absence_state :: "daemon_absence \<Rightarrow> string \<times> string option" where
  "absence_state reason = (case reason of
      NotConfigured \<Rightarrow> (''not_configured'', None)
    | NotInstalled \<Rightarrow> (''not_installed'', None)
    | InstalledButFailing last_error \<Rightarrow> (''installed_but_failing'', last_error))"

definition offline_status_json ::
    "cli_env \<Rightarrow> daemon_absence \<Rightarrow> string \<Rightarrow> local_mount list \<Rightarrow> discovery \<Rightarrow> json" where
  "offline_status_json e reason principal_summary mounts d = (case absence_state reason of (state, last_error) \<Rightarrow>
     JObj ([(''daemon_state'', JStr state), (''last_error'', opt_text_json last_error),
            (''log_command'', if state = ''installed_but_failing'' then JStr (platform_log_hint (ce_os e)) else JNull),
            (''principal_summary'', JStr principal_summary),
            (''mounts'', JArr (map (\<lambda>m. JObj [(''folder_id'', JStr (lm_folder_id m)),
               (''name'', opt_text_json (lm_name m)), (''path'', JStr (lm_path m))]) mounts))]
       @ discovery_fields (map lm_folder_id mounts) d))"

section \<open>The command\<close>

definition world_fs :: "cli \<Rightarrow> fs" where
  "world_fs s = w_fs (cs_world s)"

definition print_opt :: "string option \<Rightarrow> unit cio" where
  "print_opt l = (case l of None \<Rightarrow> ret () | Some text_line \<Rightarrow> print_line text_line)"

definition print_if :: "bool \<Rightarrow> string \<Rightarrow> unit cio" where
  "print_if b line = (if b then print_line line else ret ())"

definition render_status_online :: "cli_env \<Rightarrow> daemon_status \<Rightarrow> bool \<Rightarrow> unit cio" where
  "render_status_online e status json =
     try_op (fetch_reachable_folders e status) (\<lambda>d.
     if json then print_line (ce_to_json e (online_status_json e status d))
     else
       try_op (with_state (\<lambda>s. print_lines (principal_lines e (world_fs s) (dt_credential status) (dt_principal status)))) (\<lambda>_.
       try_op (with_state (\<lambda>s. print_opt (legacy_device_token_advisory e (world_fs s) (dt_credential status)))) (\<lambda>_.
       try_op (print_line (if dt_paused status then ''Paused''
                           else if dt_backend_connected status then ''Connected'' else ''Disconnected'')) (\<lambda>_.
       try_op (print_table [''FOLDER ID'', ''NAME'', ''ACCESS'', ''STATE'', ''PATH''] (build_folder_rows status d)) (\<lambda>_.
       try_op (print_lines (mount_state_detail_lines e status)) (\<lambda>_.
       try_op (print_if (d = Unavailable) DISCOVERY_UNAVAILABLE) (\<lambda>_.
       try_op (print_opt (update_available_line (dt_update_available status) (dt_latest_version status))) (\<lambda>_.
       print_if (dt_update_required status) UPDATE_REQUIRED_MESSAGE))))))))"

definition daemon_absence_lines :: "cli_env \<Rightarrow> daemon_absence \<Rightarrow> string list" where
  "daemon_absence_lines e reason = (case reason of
      NotConfigured \<Rightarrow>
        [''Daemon: not configured (no config.toml found).'',
         ''Run: valv login, or valv mount <path> --key <token> if you were given an access key.'']
    | NotInstalled \<Rightarrow>
        [''Daemon: not installed (no background service is registered).'',
         ''Run any valv command to install and start it, or run `valv daemon restart`.'']
    | InstalledButFailing last_error \<Rightarrow>
        [''Daemon: installed, but failing to start.'']
        @ (case last_error of Some t \<Rightarrow> [''Last daemon output:'' @ nl @ t] | None \<Rightarrow> [])
        @ [''Inspect it with: '' @ platform_log_hint (ce_os e)])"

definition offline_headers :: "string list" where
  "offline_headers = [''FOLDER ID'', ''NAME'', ''PATH'']"

definition offline_tables :: "local_mount list \<Rightarrow> discovery \<Rightarrow> unit cio" where
  "offline_tables mounts d =
     try_op (print_table offline_headers
       (map (\<lambda>m. [lm_folder_id m, name_or_dash (lm_name m), lm_path m]) mounts)) (\<lambda>_.
     let unmounted_rows = map (\<lambda>g. [ge_folder_id g, name_or_dash (ge_folder_name g), ''not mounted''])
           (unmounted_grants (map lm_folder_id mounts) d) in
     if unmounted_rows = [] then ret () else print_table offline_headers unmounted_rows)"

definition render_status_offline :: "cli_env \<Rightarrow> string option \<Rightarrow> bool \<Rightarrow> unit cio" where
  "render_status_offline e journal json =
     try_op (reads (\<lambda>s. diagnose_daemon_absence e journal (world_fs s))) (\<lambda>reason.
     try_op (catch_error (list_local_mounts e)) (\<lambda>listed.
     let mounts = (case listed of Inl _ \<Rightarrow> [] | Inr ms \<Rightarrow> ms) in
     try_op (reads (\<lambda>s. offline_principal_line e (world_fs s) mounts)) (\<lambda>principal_line.
     try_op (fetch_offline_reachable_folders e) (\<lambda>d.
     if json then print_line (ce_to_json e (offline_status_json e reason principal_line mounts d))
     else
       try_op (print_line principal_line) (\<lambda>_.
       try_op (print_lines (daemon_absence_lines e reason)) (\<lambda>_.
       try_op (offline_tables mounts d) (\<lambda>_.
       print_if (d = Unavailable) DISCOVERY_UNAVAILABLE)))))))"

definition cmd_status :: "cli_env \<Rightarrow> string option \<Rightarrow> bool \<Rightarrow> unit cio" where
  "cmd_status e journal json =
     try_op (probe_status e) (\<lambda>status. case status of
         Some st \<Rightarrow> render_status_online e st json
       | None \<Rightarrow> render_status_offline e journal json)"

end
