(* ===== verification/Cli_Auth.thy ===== *)
theory Cli_Auth
  imports Cli_Daemon
begin

text \<open>
  Signing in (\<open>valv-cli/src/auth.rs\<close>): the login link, the local listener that takes the pairing
  callback of the browser, and the configuration written for the daemon.  The percent-encoding of
  forms and the decoding of bytes that are not UTF-8 are parameters (\<open>ce_form\<close>, \<open>ce_lossy\<close>); what
  reaches the listener within five minutes is a list of connections.
\<close>

record login_args =
  la_web_base_url :: string
  la_backend_url :: string
  la_device_name :: string
  la_open_browser :: bool

record pairing_callback =
  pc_device_id :: string
  pc_device_token :: string

definition query_param :: "cli_env \<Rightarrow> string \<Rightarrow> string \<Rightarrow> string option" where
  "query_param e query key = map_of (ce_form e query) key"

definition parse_callback_request_line :: "cli_env \<Rightarrow> string \<Rightarrow> string \<Rightarrow> error + pairing_callback" where
  "parse_callback_request_line e request_line expected_state =
     (let parts = words_from [] request_line;
          verb = (case parts of w # _ \<Rightarrow> w | [] \<Rightarrow> []);
          target = (case parts of _ # w # _ \<Rightarrow> w | _ \<Rightarrow> []) in
      if verb \<noteq> ''GET'' then Inl (EMsg ''auth callback must use GET'')
      else (case strip_prefix target ''/callback?'' of
          None \<Rightarrow> Inl (EMsg ''auth callback path must be /callback'')
        | Some query \<Rightarrow>
            (case query_param e query ''state'' of
               None \<Rightarrow> Inl (EMsg ''missing state'')
             | Some state \<Rightarrow>
                 if state \<noteq> expected_state then Inl (EMsg ''invalid state'')
                 else (case query_param e query ''device_id'' of
                     None \<Rightarrow> Inl (EMsg ''missing device_id'')
                   | Some device_id \<Rightarrow> (case query_param e query ''device_token'' of
                         None \<Rightarrow> Inl (EMsg ''missing device_token'')
                       | Some device_token \<Rightarrow>
                           Inr \<lparr> pc_device_id = device_id, pc_device_token = device_token \<rparr>)))))"

definition request_line_of :: "cli_env \<Rightarrow> string \<Rightarrow> string" where
  "request_line_of e bytes = (case text_lines (ce_lossy e (take 4096 bytes)) of line # _ \<Rightarrow> line | [] \<Rightarrow> [])"

definition callback_page :: "bool \<Rightarrow> string \<times> string" where
  "callback_page valid =
     (if valid then (''200 OK'', ''<!doctype html><title>Valv signed in</title><p>You can close this tab.</p>'')
      else (''400 Bad Request'',
            ''<!doctype html><title>Valv sign-in failed</title><p>Invalid sign-in callback.</p>''))"

definition callback_response :: "bool \<Rightarrow> string" where
  "callback_response valid = (case callback_page valid of (status, body) \<Rightarrow>
     let crlf = [CHR 0x0D, CHR 0x0A] in
     ''HTTP/1.1 '' @ status @ crlf @ ''Content-Type: text/html; charset=utf-8'' @ crlf
     @ ''Content-Length: '' @ string_of_nat (length body) @ crlf @ ''Connection: close'' @ crlf @ crlf @ body)"

text \<open>A connection: \<open>accept\<close> fails, or it was accepted; then the first \<open>read\<close> fails or gives some bytes,
  and writing the answer fails or not.\<close>

datatype connection = AcceptFails error | Connection "error + string" "error option"

text \<open>What the connections were answered, and how the wait ended: \<open>None\<close>, when no connection ended it in
  time, or an error of the listener or a connection, or the first callback that is valid.\<close>

fun accept_one_callback ::
    "cli_env \<Rightarrow> string \<Rightarrow> connection list \<Rightarrow> string list \<times> (error + pairing_callback) option" where
  "accept_one_callback e expected_state [] = ([], None)"
| "accept_one_callback e expected_state (AcceptFails err # connections) = ([], Some (Inl err))"
| "accept_one_callback e expected_state (Connection (Inl err) written # connections) = ([], Some (Inl err))"
| "accept_one_callback e expected_state (Connection (Inr bytes) (Some err) # connections) = ([], Some (Inl err))"
| "accept_one_callback e expected_state (Connection (Inr bytes) None # connections) =
     (case parse_callback_request_line e (request_line_of e bytes) expected_state of
        Inr callback \<Rightarrow> ([callback_response True], Some (Inr callback))
      | Inl _ \<Rightarrow> (case accept_one_callback e expected_state connections of
            (responses, r) \<Rightarrow> (callback_response False # responses, r)))"

definition login_config :: "string \<Rightarrow> string \<Rightarrow> string \<Rightarrow> string \<Rightarrow> string" where
  "login_config backend_url device_id device_token device_name =
     ''backend_url = '' @ quoted (toml_escape backend_url) @ nl
     @ ''device_id = '' @ quoted (toml_escape device_id) @ nl
     @ ''device_token = '' @ quoted (toml_escape device_token) @ nl
     @ ''device_name = '' @ quoted (toml_escape device_name) @ nl
     @ ''mounts = []'' @ nl"

definition write_config :: "path \<Rightarrow> string \<Rightarrow> string \<Rightarrow> string \<Rightarrow> string \<Rightarrow> unit io" where
  "write_config path backend_url device_id device_token device_name =
     try_op (on_fs (fs_create_dir_all (butlast path))) (\<lambda>_.
     try_op (on_fs (fs_write path (login_config backend_url device_id device_token device_name) 0)) (\<lambda>_.
     set_executable path))"

text \<open>The browser's opener: it ran and succeeded or not, or there is none.\<close>

datatype opener = Opened | OpenFailed string | NoOpener | OpenError error

definition open_browser :: "opener \<Rightarrow> unit cio" where
  "open_browser result = (case result of
       Opened \<Rightarrow> ret ()
     | OpenFailed status \<Rightarrow> fail (EMsg (''failed to open browser: '' @ status))
     | NoOpener \<Rightarrow> print_line ''Could not find a browser opener; copy the URL above.''
     | OpenError err \<Rightarrow> fail err)"

definition pre_callback_message :: "bool \<Rightarrow> string \<Rightarrow> string" where
  "pre_callback_message opened login_url =
     (if opened
      then ''Opening your browser to sign in'' @ ellipsis @ '' If it doesn'' @ [CHR 0x27] @ ''t open, use this link:'' @ nl @ login_url
      else ''Open this URL to sign in:'' @ nl @ login_url)"

definition login_success_message :: "string \<Rightarrow> string" where
  "login_success_message device_name = ''Signed in as this device ('' @ device_name @ '').''"

text \<open>\<open>serialize\<close> is \<open>form_urlencoded::Serializer\<close>, \<open>listener\<close> what binding it gave: its port.\<close>

definition login_url :: "((string \<times> string) list \<Rightarrow> string) \<Rightarrow> login_args \<Rightarrow> nat \<Rightarrow> string \<Rightarrow> string" where
  "login_url serialize args port state =
     trim_end_char CHR ''/'' (la_web_base_url args) @ ''/login?''
     @ serialize [(''device_flow'', ''1''), (''device_name'', la_device_name args),
                  (''redirect_uri'', ''http://127.0.0.1:'' @ string_of_nat port @ ''/callback''), (''state'', state)]"

definition cmd_auth_login ::
    "cli_env \<Rightarrow> ((string \<times> string) list \<Rightarrow> string) \<Rightarrow> opener \<Rightarrow> error + nat \<Rightarrow> connection list \<Rightarrow> login_args \<Rightarrow> bool \<Rightarrow> unit cio" where
  "cmd_auth_login e serialize opener listener connections args json =
     try_op (lift_result listener) (\<lambda>port.
     try_op (in_world (new_uuid (ce_env e))) (\<lambda>uuid.
     let state = filter (\<lambda>c. c \<noteq> CHR ''-'') uuid;
         url = login_url serialize args port state in
     try_op (if la_open_browser args then open_browser opener else ret ()) (\<lambda>_.
     try_op (print_line (pre_callback_message (la_open_browser args) url)) (\<lambda>_.
     case snd (accept_one_callback e state connections) of
       None \<Rightarrow>
         try_op (eprint_line ''Timed out waiting for sign-in. Run `valv login` again.'') (\<lambda>_.
         fail (EMsg ''timed out waiting for sign-in''))
     | Some (Inl err) \<Rightarrow> fail err
     | Some (Inr callback) \<Rightarrow>
         try_op (lift_result (config_path e)) (\<lambda>path.
         try_op (in_world (write_config path (la_backend_url args) (pc_device_id callback) (pc_device_token callback)
           (la_device_name args))) (\<lambda>_.
         emit e json [login_success_message (la_device_name args)]
           (JObj [(''device_id'', JStr (pc_device_id callback))])))))))"

text \<open>The defaults, with the values of the environment variables.\<close>

definition env_or :: "string option \<Rightarrow> string \<Rightarrow> string" where
  "env_or v preset = (case v of Some s \<Rightarrow> s | None \<Rightarrow> preset)"

definition default_web_base_url :: "string option \<Rightarrow> string" where
  "default_web_base_url valv_web_base_url = env_or valv_web_base_url ''https://valvsync.com''"

definition default_backend_url :: "string option \<Rightarrow> string" where
  "default_backend_url valv_backend_url = env_or valv_backend_url ''https://api.valvsync.com''"

definition cli_default_device_name :: "string option \<Rightarrow> string option \<Rightarrow> string" where
  "cli_default_device_name hostname computername = env_or (or_else hostname computername) ''Valv Device''"

section \<open>Properties\<close>

definition our_callback :: "cli_env \<Rightarrow> string \<Rightarrow> string \<Rightarrow> pairing_callback \<Rightarrow> bool" where
  "our_callback e state bytes callback =
     (\<exists>query rest. words_from [] (request_line_of e bytes) = ''GET'' # (''/callback?'' @ query) # rest \<and>
        query_param e query ''state'' = Some state \<and>
        query_param e query ''device_id'' = Some (pc_device_id callback) \<and>
        query_param e query ''device_token'' = Some (pc_device_token callback))"

lemma parsed_callback:
  assumes "parse_callback_request_line e (request_line_of e bytes) state = Inr callback"
  shows "our_callback e state bytes callback"
  using assms unfolding parse_callback_request_line_def our_callback_def Let_def strip_prefix_def
  by (auto simp: starts_with_iff split: if_splits option.splits list.splits)

text \<open>A connection that was received and answered although its request is not a callback of ours.\<close>

definition turned_away :: "cli_env \<Rightarrow> string \<Rightarrow> connection \<Rightarrow> bool" where
  "turned_away e state c =
     (\<exists>bytes. c = Connection (Inr bytes) None \<and> isl (parse_callback_request_line e (request_line_of e bytes) state))"

lemma callback_accepted:
  assumes "snd (accept_one_callback e state connections) = Some (Inr callback)"
  shows "\<exists>before bytes after. connections = before @ Connection (Inr bytes) None # after \<and>
    (\<forall>c \<in> set before. turned_away e state c) \<and> our_callback e state bytes callback"
  using assms
proof (induction e state connections rule: accept_one_callback.induct)
  case (5 e state bytes connections)
  show ?case
  proof (cases "parse_callback_request_line e (request_line_of e bytes) state")
    case (Inr cb)
    then show ?thesis using 5(2) parsed_callback [OF Inr]
      by (intro exI [of _ "[]"] exI [of _ bytes] exI [of _ connections]) auto
  next
    case (Inl err)
    then have "snd (accept_one_callback e state connections) = Some (Inr callback)"
      using 5(2) by (simp split: prod.splits)
    from 5(1) [OF Inl this] obtain before b after where ih: "connections = before @ Connection (Inr b) None # after"
      "\<forall>c \<in> set before. turned_away e state c" "our_callback e state b callback" by blast
    have "turned_away e state (Connection (Inr bytes) None)" using Inl by (simp add: turned_away_def)
    then show ?thesis using ih by (intro exI [of _ "Connection (Inr bytes) None # before"]) auto
  qed
qed simp_all

lemma config_written:
  "write_config path backend_url device_id device_token device_name w = (Inr (), w') \<Longrightarrow>
   holds_text path (login_config backend_url device_id device_token device_name) (w_fs w')"
  by (auto simp: write_config_def on_fs_def set_executable_def with_state_def ret_def fail_def
      elim!: try_op_InrE dest!: fs_write_holds split: prod.splits sum.splits if_splits)

lemma emit_world: "emit e json ls v s = (r, s') \<Longrightarrow> r = Inr () \<and> cs_world s' = cs_world s"
  by (auto simp: emit_def print_line_def print_lines_def writes_def split: if_splits)

text \<open>C37: What a sign-in stores is the credential of its own callback.  Every run of \<open>valv login\<close> either
  fails and leaves the disk as it was, or it waited until the first connection that is a GET of
  /callback with the state of this sign-in, a device and its token, every connection before it having
  been received and turned away; then the disk is what writing the configuration with just that device
  and token leaves, and where the run succeeds the configuration file holds them.\<close>

lemma login_stores_our_callback:
  assumes "cmd_auth_login e serialize opener listener connections args json s = (r, s')"
  shows "isl r \<and> w_fs (cs_world s') = w_fs (cs_world s) \<or>
    (\<exists>uuid w before bytes after callback path.
      new_uuid (ce_env e) (cs_world s) = (Inr uuid, w) \<and>
      connections = before @ Connection (Inr bytes) None # after \<and>
      (\<forall>c \<in> set before. turned_away e (filter (\<lambda>c. c \<noteq> CHR ''-'') uuid) c) \<and>
      our_callback e (filter (\<lambda>c. c \<noteq> CHR ''-'') uuid) bytes callback \<and>
      config_path e = Inr path \<and>
      cs_world s' = snd (write_config path (la_backend_url args) (pc_device_id callback) (pc_device_token callback)
        (la_device_name args) w) \<and>
      (r = Inr () \<longrightarrow> holds_text path (login_config (la_backend_url args) (pc_device_id callback)
        (pc_device_token callback) (la_device_name args)) (w_fs (cs_world s'))))"
proof -
  obtain uuid w where uuid: "new_uuid (ce_env e) (cs_world s) = (Inr uuid, w)" by (simp add: new_uuid_def)
  then have w: "w_fs w = w_fs (cs_world s)" by (auto simp: new_uuid_def)
  let ?state = "filter (\<lambda>c. c \<noteq> CHR ''-'') uuid"
  show ?thesis
  proof (cases "snd (accept_one_callback e ?state connections)")
    case None
    then show ?thesis using assms w
      by (auto simp: cmd_auth_login_def uuid in_world_def Let_def run_simps open_browser_def print_line_def
          eprint_line_def split: sum.splits if_splits opener.splits)
  next
    case (Some x)
    show ?thesis
    proof (cases "\<exists>callback path. x = Inr callback \<and> config_path e = Inr path \<and>
        (\<exists>port. listener = Inr port) \<and> (la_open_browser args \<longrightarrow> opener \<in> {Opened, NoOpener})")
      case False
      then show ?thesis using assms w Some
        by (auto simp: cmd_auth_login_def uuid in_world_def Let_def run_simps open_browser_def print_line_def
            eprint_line_def split: sum.splits if_splits opener.splits)
    next
      case True
      then obtain callback path port where x: "x = Inr callback" "config_path e = Inr path" "listener = Inr port" by blast
      from callback_accepted [OF Some [unfolded x(1)]] obtain before bytes after where c:
        "connections = before @ Connection (Inr bytes) None # after"
        "\<forall>c \<in> set before. turned_away e ?state c" "our_callback e ?state bytes callback" by blast
      obtain r1 w1 where stored: "write_config path (la_backend_url args) (pc_device_id callback)
          (pc_device_token callback) (la_device_name args) w = (r1, w1)" by fastforce
      have "cs_world s' = w1" "r = Inr () \<longrightarrow> r1 = Inr ()"
        using assms True Some x stored
        by (auto simp: cmd_auth_login_def uuid in_world_def Let_def run_simps open_browser_def print_line_def
            dest!: emit_world split: sum.splits if_splits opener.splits prod.splits)
      then show ?thesis using uuid c x(2) stored config_written by (metis snd_conv)
    qed
  qed
qed

text \<open>The configuration a sign-in writes begins with a basic string TOML reads back as the server's
  address, exactly when the address holds no control character; with one, the file does not parse.\<close>

lemma config_round_trip:
  "Option.bind (strip_prefix (login_config backend_url device_id device_token device_name) (''backend_url = '' @ [CHR 0x22])) toml_basic =
     (if list_all toml_char backend_url
      then Some (backend_url, nl @ ''device_id = '' @ quoted (toml_escape device_id) @ nl
        @ ''device_token = '' @ quoted (toml_escape device_token) @ nl
        @ ''device_name = '' @ quoted (toml_escape device_name) @ nl @ ''mounts = []'' @ nl)
      else None)"
  by (simp add: login_config_def quoted_def strip_prefix_def starts_with_def toml_basic_escape)

end
