(* ===== verification/Cli_Main.thy ===== *)
theory Cli_Main
  imports Cli_Status Cli_Auth Cli_Update
begin

text \<open>
  The command line as a whole: the commands and their dispatch (\<open>valv-cli/src/app.rs\<close>), the exit of
  \<open>main.rs\<close>, and the notice about a newer release (\<open>update_notice.rs\<close>).  The parser of arguments is
  \<open>clap\<close>, a parameter: \<open>parsed\<close> is what it makes of them.
\<close>

section \<open>The notice about a newer release\<close>

record cli_tools =
  ct_fuel :: nat
  ct_journal :: "string option"
  ct_install :: "path \<Rightarrow> (string + bool \<times> string) cio"
  ct_valvd :: "path \<Rightarrow> string \<Rightarrow> bool cio"
  ct_update :: update_tools
  ct_web_base_url :: string
  ct_backend_url :: string
  ct_device_name :: string
  ct_serialize :: "(string \<times> string) list \<Rightarrow> string"
  ct_opener :: opener
  ct_listener :: "error + nat"
  ct_connections :: "connection list"
  ct_parse_json :: "string \<Rightarrow> json option"
  ct_no_update_check :: "string option"
  ct_stderr_terminal :: bool
  ct_unix_secs :: "nat \<Rightarrow> nat"

record update_check_state =
  uc_checked_at_unix_secs :: nat
  uc_latest_version :: string

definition CACHE_TTL :: nat where "CACHE_TTL = 24 * 60 * 60"

definition should_skip_notice :: "string option \<Rightarrow> bool \<Rightarrow> bool" where
  "should_skip_notice no_update_check_env stderr_is_tty =
     (if no_update_check_env = Some ''1'' then True else \<not> stderr_is_tty)"

definition cache_is_fresh :: "nat \<Rightarrow> nat \<Rightarrow> nat \<Rightarrow> bool" where
  "cache_is_fresh checked_at_unix_secs now ttl = (now - checked_at_unix_secs < ttl)"

definition dec_update_check_state :: "json \<Rightarrow> update_check_state option" where
  "dec_update_check_state v =
     Option.bind (Option.bind (json_get v ''checked_at_unix_secs'') dec_u64) (\<lambda>checked_at.
     Option.bind (Option.bind (json_get v ''latest_version'') dec_string) (\<lambda>latest.
     Some \<lparr> uc_checked_at_unix_secs = checked_at, uc_latest_version = latest \<rparr>))"

definition read_fresh_cache :: "cli_tools \<Rightarrow> fs \<Rightarrow> path \<Rightarrow> nat \<Rightarrow> update_check_state option" where
  "read_fresh_cache t fs cache_path now =
     Option.bind (Option.bind (read_to_string fs cache_path) (ct_parse_json t)) (\<lambda>v.
     Option.bind (dec_update_check_state v) (\<lambda>state.
     if cache_is_fresh (uc_checked_at_unix_secs state) now CACHE_TTL then Some state else None))"

definition write_cache :: "cli_env \<Rightarrow> path \<Rightarrow> update_check_state \<Rightarrow> unit io" where
  "write_cache e cache_path state =
     match_op (on_fs (fs_create_dir_all (butlast cache_path)))
       (\<lambda>_. ignore_result (on_fs (fs_write cache_path (ce_to_json e (JObj [
          (''checked_at_unix_secs'', JInt (int (uc_checked_at_unix_secs state))),
          (''latest_version'', JStr (uc_latest_version state))])) 0)))
       (\<lambda>_. ret ())"

definition now_unix_secs :: "cli_tools \<Rightarrow> nat cio" where
  "now_unix_secs t s = (Inr (ct_unix_secs t (cs_ticks s)), s \<lparr> cs_ticks := Suc (cs_ticks s) \<rparr>)"

definition daemon_reports_update_required :: "cli_env \<Rightarrow> bool cio" where
  "daemon_reports_update_required e =
     try_op (reported_status e) (\<lambda>status. ret (case status of
         Some st \<Rightarrow> dt_update_required st | None \<Rightarrow> False))"

definition fetch_notice_version :: "cli_env \<Rightarrow> cli_tools \<Rightarrow> path \<Rightarrow> string option cio" where
  "fetch_notice_version e t cache_path =
     match_op (in_world (resolve_latest_version (ce_env e) (ut_repo (ct_update t)) CliRelease (ut_cli_pin (ct_update t))))
       (\<lambda>latest.
        try_op (now_unix_secs t) (\<lambda>now.
        try_op (in_world (write_cache e cache_path \<lparr> uc_checked_at_unix_secs = now, uc_latest_version = latest \<rparr>)) (\<lambda>_.
        ret (Some latest))))
       (\<lambda>_. ret None)"

definition resolve_notice_version :: "cli_env \<Rightarrow> cli_tools \<Rightarrow> bool \<Rightarrow> string option cio" where
  "resolve_notice_version e t bypass_cache = (case local_state_dir e of
      Inl _ \<Rightarrow> ret None
    | Inr dir \<Rightarrow>
        let cache_path = path_join dir ''update-check.json'' in
        if bypass_cache then fetch_notice_version e t cache_path
        else
          try_op (now_unix_secs t) (\<lambda>now. with_state (\<lambda>s.
          case read_fresh_cache t (world_fs s) cache_path now of
            Some cached \<Rightarrow> ret (Some (uc_latest_version cached))
          | None \<Rightarrow> fetch_notice_version e t cache_path)))"

definition maybe_print_update_notice :: "cli_env \<Rightarrow> cli_tools \<Rightarrow> unit cio" where
  "maybe_print_update_notice e t =
     (if should_skip_notice (ct_no_update_check t) (ct_stderr_terminal t) then ret ()
      else
        try_op (daemon_reports_update_required e) (\<lambda>bypass_cache.
        try_op (resolve_notice_version e t bypass_cache) (\<lambda>latest. case latest of
            None \<Rightarrow> ret ()
          | Some v \<Rightarrow>
              if is_newer_version v (ut_cli_version (ct_update t))
              then eprint_line (''A newer version of valv is available ('' @ v @ ''). Run '' @ [CHR 0x27]
                 @ ''valv update'' @ [CHR 0x27] @ '' to install it.'')
              else ret ())))"

section \<open>The commands\<close>

record unshare_args =
  un_path :: string
  un_to :: "string option"
  un_key :: "string option"
  un_id :: "string option"
  un_yes :: bool

datatype daemon_command = Restart | Uninstall

datatype command =
    LoginCmd "string option" "string option" "string option" bool
  | MountCmd mount_args
  | UnmountCmd string bool
  | StatusCmd
  | PauseCmd
  | SyncCmd "string option"
  | ResumeCmd
  | VersionsCmd string
  | RestoreCmd string string
  | ShareCmd share_args
  | UnshareCmd unshare_args
  | DaemonCmd daemon_command
  | UpdateCmd

definition start_daemon_for :: "cli_env \<Rightarrow> cli_tools \<Rightarrow> string option \<Rightarrow> unit cio" where
  "start_daemon_for e t backend_url_override =
     ensure_daemon (ct_fuel t) e (ct_journal t) (ct_install t)
       (env_or backend_url_override (ct_backend_url t)) (ct_device_name t)"

definition cli_login_args :: "cli_tools \<Rightarrow> string option \<Rightarrow> string option \<Rightarrow> string option \<Rightarrow> bool \<Rightarrow> login_args" where
  "cli_login_args t web_base_url backend_url device_name no_open =
     \<lparr> la_web_base_url = env_or web_base_url (ct_web_base_url t),
       la_backend_url = env_or backend_url (ct_backend_url t),
       la_device_name = env_or device_name (ct_device_name t), la_open_browser = (\<not> no_open) \<rparr>"

definition run_command :: "cli_env \<Rightarrow> cli_tools \<Rightarrow> command \<Rightarrow> bool \<Rightarrow> unit cio" where
  "run_command e t command json = (case command of
      LoginCmd web_base_url backend_url device_name no_open \<Rightarrow>
        let args = cli_login_args t web_base_url backend_url device_name no_open in
        try_op (start_daemon_for e t (Some (la_backend_url args))) (\<lambda>_.
        cmd_auth_login e (ct_serialize t) (ct_opener t) (ct_listener t) (ct_connections t) args json)
    | MountCmd args \<Rightarrow> try_op (start_daemon_for e t None) (\<lambda>_. cmd_mount e args json)
    | UnmountCmd path yes \<Rightarrow> try_op (start_daemon_for e t None) (\<lambda>_. cmd_unmount e path yes json)
    | StatusCmd \<Rightarrow> cmd_status e (ct_journal t) json
    | PauseCmd \<Rightarrow> try_op (start_daemon_for e t None) (\<lambda>_. cmd_pause_resume e ''pause'' ''Sync paused.'' json)
    | ResumeCmd \<Rightarrow> try_op (start_daemon_for e t None) (\<lambda>_. cmd_pause_resume e ''resume'' ''Sync resumed.'' json)
    | SyncCmd path \<Rightarrow> try_op (start_daemon_for e t None) (\<lambda>_. cmd_sync (ct_fuel t) e path json)
    | VersionsCmd path \<Rightarrow> try_op (start_daemon_for e t None) (\<lambda>_. cmd_versions e path json)
    | RestoreCmd path version_id \<Rightarrow> try_op (start_daemon_for e t None) (\<lambda>_. cmd_restore e path version_id json)
    | ShareCmd args \<Rightarrow>
        if sh_to args \<noteq> None \<or> sh_key args \<noteq> None then cmd_share_grant e args json
        else cmd_share_list e (sh_path args) json
    | UnshareCmd args \<Rightarrow>
        if json \<and> (un_to args \<noteq> None \<or> un_key args \<noteq> None) then fail_cli handle_requires_pinned_id
        else cmd_unshare e (un_path args) (un_to args) (un_key args) (un_id args) (un_yes args) json
    | DaemonCmd Restart \<Rightarrow> cmd_daemon_restart (ct_fuel t) e (ct_journal t) (ct_valvd t) json
    | DaemonCmd Uninstall \<Rightarrow> cmd_daemon_uninstall e (ct_valvd t) json
    | UpdateCmd \<Rightarrow> cmd_update (ct_fuel t) e (ct_update t) json)"

text \<open>What \<open>clap\<close> answers: help was printed; an error with its text, whether a required argument is
  missing, and whether \<open>--json\<close> is among the arguments; or the command.\<close>

datatype parsed = HelpPrinted | BadUsage string bool bool | Parsed command bool

definition contains_text :: "string \<Rightarrow> string \<Rightarrow> bool" where
  "contains_text t needle = (find_str needle t \<noteq> None)"

definition map_clap_error :: "string \<Rightarrow> bool \<Rightarrow> cli_error" where
  "map_clap_error rendered missing_required_argument =
     (if missing_required_argument \<and> contains_text rendered ''--folder'' \<and> contains_text rendered ''--key''
         \<and> contains_text rendered ''--new''
      then mount_source_required
      else if missing_required_argument \<and> contains_text rendered ''--read-only'' \<and> contains_text rendered ''--to''
         \<and> contains_text rendered ''--key''
      then share_read_only_requires_target
      else cli_usage ''usage_error'' (rev (dropWhile is_ascii_ws (rev rendered))))"

definition run_parsed :: "cli_env \<Rightarrow> cli_tools \<Rightarrow> command \<Rightarrow> bool \<Rightarrow> unit cio" where
  "run_parsed e t command json =
     try_op (run_command e t command json) (\<lambda>_.
     if command = UpdateCmd then ret () else maybe_print_update_notice e t)"

text \<open>\<open>main\<close>: the exit code, and on failure what is reported on standard error.\<close>

definition exit_of :: "cli_env \<Rightarrow> (cli_error \<Rightarrow> string) \<Rightarrow> bool \<Rightarrow> (error + unit) \<times> cli \<Rightarrow> nat \<times> cli" where
  "exit_of e to_json json result = (case result of
      (Inr _, s) \<Rightarrow> (0, s)
    | (Inl err, s) \<Rightarrow> (case report_error (ce_render e) to_json err json of
        (line, code) \<Rightarrow> (code, s \<lparr> cs_err := cs_err s @ [line] \<rparr>)))"

definition cli_main :: "cli_env \<Rightarrow> cli_tools \<Rightarrow> (cli_error \<Rightarrow> string) \<Rightarrow> parsed \<Rightarrow> cli \<Rightarrow> nat \<times> cli" where
  "cli_main e t to_json p s = (case p of
      HelpPrinted \<Rightarrow> (0, s)
    | BadUsage rendered missing json \<Rightarrow> exit_of e to_json json (fail_cli (map_clap_error rendered missing) s)
    | Parsed command json \<Rightarrow> exit_of e to_json json (run_parsed e t command json s))"

end
