(* ===== verification/Cli_Props.thy ===== *)
theory Cli_Props
  imports Cli_Main
begin

text \<open>
  What the commands may send: \<open>sends P\<close> says that a computation adds only requests with \<open>P\<close> to those
  sent.  From it: revoking, unmounting and refusing follow the listing, the credentials and the
  confirmation; and the barrier of \<open>valv sync\<close> ends.
\<close>

section \<open>The requests of a computation\<close>

definition adds :: "(cli_request \<Rightarrow> bool) \<Rightarrow> cli \<Rightarrow> cli \<Rightarrow> bool" where
  "adds P s s' = (\<exists>new. cs_sent s' = cs_sent s @ new \<and> list_all P new)"

interpretation sent_log: state_preorder "adds P" for P
proof
  show "adds P s s" for s by (auto simp: adds_def)
  show "adds P s u" if "adds P s t" "adds P t u" for s t u using that by (auto simp: adds_def)
qed

abbreviation sends :: "(cli_request \<Rightarrow> bool) \<Rightarrow> 'a cio \<Rightarrow> bool" where
  "sends P \<equiv> obeys (adds P)"

named_theorems sends_intros

lemmas [sends_intros] = sent_log.obeys_rules

lemma addsI: "cs_sent s' = cs_sent s \<Longrightarrow> adds P s s'"
  by (simp add: adds_def)

lemma sends_in_world [sends_intros]: "sends P (in_world m)"
  unfolding obeys_def in_world_def by (auto intro!: addsI split: prod.split)

lemma sends_writes:
  assumes "\<And>s. cs_sent (f s) = cs_sent s"
  shows "sends P (writes f)"
  unfolding obeys_def writes_def using assms by (auto intro!: addsI)

lemma sends_print [sends_intros]:
  "sends P (print_line l)" "sends P (print_lines ls)" "sends P (eprint_line l)"
  unfolding print_line_def print_lines_def eprint_line_def by (rule sends_writes, simp)+

lemma sends_now_ms [sends_intros]: "sends P (now_ms e)"
  unfolding obeys_def now_ms_def by (auto intro!: addsI)

lemma sends_sleep_ms [sends_intros]: "sends P (sleep_ms n)"
  unfolding sleep_ms_def by (rule sends_writes, simp)

lemma sends_catch_error [sends_intros]: "sends P m \<Longrightarrow> sends P (catch_error m)"
  unfolding obeys_def catch_error_def by (auto split: prod.split) (metis snd_conv)

lemma sends_cli_send [sends_intros]: "P rq \<Longrightarrow> sends P (cli_send e rq)"
  unfolding obeys_def cli_send_def adds_def by (auto split: prod.split)

lemma sends_fail_cli [sends_intros]: "sends P (fail_cli c)"
  unfolding fail_cli_def by (rule sent_log.obeys_fail)

lemma sends_emit [sends_intros]: "sends P (emit e json ls v)"
  unfolding emit_def by (auto intro: sends_intros)

lemma sends_confirm [sends_intros]: "sends P (confirm_action e prompt yes)"
  unfolding confirm_action_def by (auto intro!: sends_intros)

lemma sends_config [sends_intros]: "sends P (config_text e)" "sends P (load_config e)" "sends P (load_backend_url e)"
  unfolding load_config_def load_backend_url_def config_text_def
  by (auto intro!: sends_intros simp: Let_def split: option.split)

lemma sends_open_db [sends_intros]: "sends P (open_sync_db e)"
  unfolding open_sync_db_def by (auto intro!: sends_intros split: option.split)

lemma sends_covered [sends_intros]:
  "sends P (covered_target e path)" "sends P (cli_resolve_mount e path)" "sends P (list_local_mounts e)"
  "sends P (scope_label e f n)" "sends P (resolve_target_path e path)"
  unfolding cli_resolve_mount_def list_local_mounts_def scope_label_def resolve_target_path_def covered_target_def
  by (auto intro!: sends_intros split: option.split)

lemma sends_daemon_client [sends_intros]: "sends P (daemon_client e)"
  unfolding daemon_client_def by (auto intro!: sends_intros)

lemma sends_answer [sends_intros]: "sends P (map_daemon_error a)" "sends P (map_backend_error a)"
  "sends P (parse_daemon_json e d r)" "sends P (expect_status e n r)" "sends P (cli_backend_response e r)"
  "sends P (decoded dec r)"
  unfolding map_daemon_error_def map_backend_error_def parse_daemon_json_def expect_status_def
    cli_backend_response_def decoded_def
  by (auto intro!: sends_intros split: cli_answer.split option.split prod.split)

lemma sends_daemon_call: "P (local_request verb route body) \<Longrightarrow> sends P (daemon_call e verb route body)"
  unfolding daemon_call_def by (intro sends_intros)

lemma sends_backend_call:
  assumes "\<And>token. P \<lparr> cq_method = verb, cq_url = api_base (cg_backend_url config) @ route, cq_bearer = Some token, cq_body = body \<rparr>"
  shows "sends P (backend_call e config verb route body)"
  unfolding backend_call_def by (intro sends_intros assms)

definition reading :: "cli_request \<Rightarrow> bool" where
  "reading rq = (cq_method rq = ''GET'')"

lemma reading_simps [simp]:
  "reading (local_request verb route body) = (verb = ''GET'')"
  "reading \<lparr> cq_method = verb, cq_url = u, cq_bearer = b, cq_body = body \<rparr> = (verb = ''GET'')"
  by (simp_all add: reading_def local_request_def)

lemma sends_reading [sends_intros]:
  "sends reading (fetch_daemon_status e)" "sends reading (probe_status e)" "sends reading (probe_credential e)"
  "sends reading (fetch_folder_grants e config f)" "sends reading (fetch_folder_invites e config f)"
  "sends reading (fetch_grants e config)"
  unfolding fetch_daemon_status_def probe_credential_def probe_status_def fetch_folder_grants_def
    fetch_folder_invites_def fetch_grants_def
  by (auto intro!: sends_intros sends_daemon_call sends_backend_call split: sum.split cli_answer.split)

lemma sends_choose [sends_intros]: "sends P (choose_target e f sel ts)"
  unfolding choose_target_def describe_candidate_def by (auto intro!: sends_intros split: list.split)

text \<open>A run that only reads adds no request of another method.\<close>

lemma only_reads: "sends reading m \<Longrightarrow> m s = (r, s') \<Longrightarrow> adds reading s s'"
  by (rule obeys_run)

lemma adds_trans: "adds P s t \<Longrightarrow> adds P t u \<Longrightarrow> adds P s u"
  by (rule sent_log.trans)

section \<open>Confirmation\<close>

definition confirmed :: "cli_env \<Rightarrow> bool \<Rightarrow> bool" where
  "confirmed e yes = (yes \<or> ce_terminal e \<and> (\<exists>line. ce_line e = Some line \<and> map ascii_lower (trim_ws line) = ''y''))"

lemma confirm_action_ok:
  assumes "confirm_action e prompt yes s = (Inr u, s')"
  shows "confirmed e yes" "cs_sent s' = cs_sent s" "cs_world s' = cs_world s"
proof -
  have "confirm (ce_terminal e) (ce_line e) yes = Inr ()"
    using assms by (auto simp: confirm_action_def eprint_line_def run_simps split: if_splits)
  then show "confirmed e yes" unfolding confirmed_def by (rule confirm_InrD)
  show "cs_sent s' = cs_sent s" "cs_world s' = cs_world s"
    using assms by (auto simp: confirm_action_def eprint_line_def run_simps split: if_splits)
qed

section \<open>Revoking\<close>

lemma revoke_deletes:
  assumes "revoke_target e config folder_id t s = (r, s')"
  shows "cs_sent s' = cs_sent s \<or> (\<exists>token. cs_sent s' = cs_sent s @
    [\<lparr> cq_method = ''DELETE'',
       cq_url = api_base (cg_backend_url config) @ ''/folders/'' @ folder_id @ (case t of
           RevokeGrant g \<Rightarrow> ''/grants/'' @ ge_grant_id g | RevokeInvite v \<Rightarrow> ''/invites/'' @ iv_invite_id v),
       cq_bearer = Some token, cq_body = CNoBody \<rparr>])"
proof -
  have call: "cs_sent s1 = cs_sent s \<or> (\<exists>token. cs_sent s1 = cs_sent s @
      [\<lparr> cq_method = verb, cq_url = api_base (cg_backend_url config) @ route, cq_bearer = Some token, cq_body = body \<rparr>])"
    if "backend_call e config verb route body s = (x, s1)" for verb route body x s1
  proof -
    have after: "sends (\<lambda>_. False) (try_op (map_backend_error a) (cli_backend_response e))" for a
      by (intro sends_intros)
    have same: "cs_sent u' = cs_sent u" if "try_op (map_backend_error a) (cli_backend_response e) u = (y, u')" for a u y u'
      using obeys_run [OF after that] by (auto simp: adds_def list_all_iff)
    show ?thesis
      using that same unfolding backend_call_def
      by (auto simp: try_op_def [of "lift_result _"] try_op_def [of "cli_send _ _"] lift_result_def cli_send_def
          split: sum.splits prod.splits)
  qed
  have "cs_sent s1 = cs_sent s'" if "backend_call e config ''DELETE'' route CNoBody s = (x, s1)"
    "try_op (backend_call e config ''DELETE'' route CNoBody) (\<lambda>_. ret ()) s = (r, s')" for route x s1
    using that by (auto simp: try_op_def ret_def split: sum.splits)
  then show ?thesis
    using assms call unfolding revoke_target_def delete_grant_def cancel_invite_def
    by (cases t; simp; metis surj_pair)
qed

text \<open>A run that adds more than reads to \<open>s0\<close>'s requests does so after its reading steps.\<close>

lemma loud_try:
  assumes "try_op m f s = (r, s')" "sends reading m" "adds reading s0 s" "\<not> adds reading s0 s'"
  obtains x s1 where "m s = (Inr x, s1)" "f x s1 = (r, s')" "adds reading s0 s1"
  using assms(1)
proof (cases rule: try_op_cases)
  case (err c)
  then show ?thesis using assms(4) adds_trans [OF assms(3) only_reads [OF assms(2)]] by blast
next
  case (ok x s1)
  then show ?thesis using that adds_trans [OF assms(3) only_reads [OF assms(2)]] by blast
qed

definition revocation :: "cli_config \<Rightarrow> string \<Rightarrow> revocable_target \<Rightarrow> cli_request \<Rightarrow> bool" where
  "revocation config folder_id t rq =
     (cq_method rq = ''DELETE'' \<and> cq_url rq = api_base (cg_backend_url config) @ ''/folders/'' @ folder_id @
       (case t of RevokeGrant g \<Rightarrow> ''/grants/'' @ ge_grant_id g | RevokeInvite v \<Rightarrow> ''/invites/'' @ iv_invite_id v))"

lemma unshare_target_loud:
  assumes "unshare_target e config path m yes json t s = (r, s')" "adds reading s0 s" "\<not> adds reading s0 s'"
  shows "confirmed e yes \<and> (\<exists>rq. adds reading s0 (s' \<lparr> cs_sent := butlast (cs_sent s') \<rparr>) \<and>
    cs_sent s' \<noteq> [] \<and> last (cs_sent s') = rq \<and> revocation config (lm_folder_id m) t rq)"
proof -
  from assms(1) [unfolded unshare_target_def Let_def] obtain scope sa where
    a: "try_op (confirm_action e (confirmation_message t (case lm_name m of Some name \<Rightarrow> name | None \<Rightarrow> path) scope
          (Option.bind (target_created_at t) (age_from_now e))) yes) (\<lambda>_.
        try_op (revoke_target e config (lm_folder_id m) t) (\<lambda>_.
        emit e json [success_message t (case lm_name m of Some name \<Rightarrow> name | None \<Rightarrow> path) scope]
          (unshare_success_json t (lm_folder_id m)))) sa = (r, s')" and sa: "adds reading s0 sa"
    by (rule loud_try [OF _ _ assms(2,3)]) (auto intro: sends_intros)
  from loud_try [OF a sends_confirm sa assms(3)] obtain u sb where
    b: "try_op (revoke_target e config (lm_folder_id m) t) (\<lambda>_.
        emit e json [success_message t (case lm_name m of Some name \<Rightarrow> name | None \<Rightarrow> path) scope]
          (unshare_success_json t (lm_folder_id m))) sb = (r, s')" and sb: "adds reading s0 sb" and c: "confirmed e yes"
    using confirm_action_ok(1) by metis
  obtain x sc where d: "revoke_target e config (lm_folder_id m) t sb = (x, sc)" by fastforce
  have same: "cs_sent s' = cs_sent sc"
    using b d obeys_run [OF sends_emit [of "\<lambda>_. False"]] by (cases rule: try_op_cases) (auto simp: adds_def list_all_iff)
  have "cs_sent sc \<noteq> cs_sent sb" using same sb assms(3) by (auto simp: adds_def)
  then obtain rq where "cs_sent s' = cs_sent sb @ [rq]" "revocation config (lm_folder_id m) t rq"
    using revoke_deletes [OF d] same by (auto simp: revocation_def)
  then show ?thesis using c sb by (auto simp: adds_def)
qed

lemma choose_target_ok: "choose_target e f sel ts s = (Inr t, s') \<Longrightarrow> ts = [t]"
  by (auto simp: choose_target_def fail_cli_def run_simps split: list.splits prod.splits sum.splits)

text \<open>C31: Revoking deletes at most one grant or invite on the server.  It is the last request, it was
  confirmed, and it names the only entry of the folder's grants and invites that the handle selects.\<close>

lemma unshare_revokes_the_only_match:
  assumes run: "cmd_unshare e path to_email key i yes json s = (r, s')"
    and rq: "rq \<in> set (drop (length (cs_sent s)) (cs_sent s'))" "cq_method rq \<noteq> ''GET''"
  shows "rq = last (cs_sent s') \<and> confirmed e yes \<and>
    (\<exists>sel config folder_id t grants invites s1 s2 s3.
       build_selector to_email key i = Inr sel \<and>
       fetch_folder_grants e config folder_id s1 = (Inr grants, s2) \<and>
       fetch_folder_invites e config folder_id s2 = (Inr invites, s3) \<and>
       candidates_of sel grants invites = [t] \<and> revocation config folder_id t rq)"
proof -
  have loud: "\<not> adds reading s s'" using rq by (auto simp: adds_def list_all_iff reading_def)
  from run [unfolded cmd_unshare_def] obtain cr sa where
    "(if cr = Some CredAccessKey then fail_cli access_key_cannot_revoke
      else try_op (load_config e) (\<lambda>config. try_op (cli_resolve_mount e path) (\<lambda>m.
        try_op (lift_result (build_selector to_email key i)) (unshare_selected e config path m yes json)))) sa = (r, s')"
    and sa: "adds reading s sa"
    by (rule loud_try [OF _ _ sent_log.refl loud]) (auto intro: sends_intros)
  then have "try_op (load_config e) (\<lambda>config. try_op (cli_resolve_mount e path) (\<lambda>m.
      try_op (lift_result (build_selector to_email key i)) (unshare_selected e config path m yes json))) sa = (r, s')"
    using loud by (auto simp: fail_cli_def fail_def split: if_splits)
  from loud_try [OF this sends_config(2) sa loud] obtain config sb where
    "try_op (cli_resolve_mount e path) (\<lambda>m.
      try_op (lift_result (build_selector to_email key i)) (unshare_selected e config path m yes json)) sb = (r, s')"
    and sb: "adds reading s sb" by metis
  from loud_try [OF this(1) sends_covered(2) sb loud] obtain m sc where
    "try_op (lift_result (build_selector to_email key i)) (unshare_selected e config path m yes json) sc = (r, s')"
    and sc: "adds reading s sc" by metis
  from loud_try [OF this(1) sent_log.obeys_lift sc loud] obtain sel where
    sel: "build_selector to_email key i = Inr sel" and d: "unshare_selected e config path m yes json sel sc = (r, s')"
    by (auto simp: lift_result_def)
  note fetch = sends_reading(4) [of e config "lm_folder_id m"] sends_reading(5) [of e config "lm_folder_id m"]
  from loud_try [OF d [unfolded unshare_selected_def] fetch(1) sc loud] obtain grants sd where
    g: "fetch_folder_grants e config (lm_folder_id m) sc = (Inr grants, sd)" and
    f: "try_op (fetch_folder_invites e config (lm_folder_id m)) (\<lambda>invites.
        try_op (choose_target e (lm_folder_id m) sel (candidates_of sel grants invites))
          (unshare_target e config path m yes json)) sd = (r, s')" and sd: "adds reading s sd" by metis
  from loud_try [OF f fetch(2) sd loud] obtain invites se where
    h: "fetch_folder_invites e config (lm_folder_id m) sd = (Inr invites, se)" and
    k: "try_op (choose_target e (lm_folder_id m) sel (candidates_of sel grants invites))
        (unshare_target e config path m yes json) se = (r, s')" and se: "adds reading s se" by metis
  from loud_try [OF k sends_choose se loud] obtain t sf where
    t: "candidates_of sel grants invites = [t]" and l: "unshare_target e config path m yes json t sf = (r, s')"
    and sf: "adds reading s sf" using choose_target_ok by metis
  from unshare_target_loud [OF l sf loud] have last: "adds reading s (s' \<lparr> cs_sent := butlast (cs_sent s') \<rparr>)"
    "cs_sent s' \<noteq> []" and c: "confirmed e yes" and rv: "revocation config (lm_folder_id m) t (last (cs_sent s'))" by auto
  obtain new where new: "butlast (cs_sent s') = cs_sent s @ new" "list_all reading new" using last(1) by (auto simp: adds_def)
  have "cs_sent s' = cs_sent s @ new @ [last (cs_sent s')]" using new(1) last(2) by (metis append.assoc append_butlast_last_id)
  then have "rq \<in> set (new @ [last (cs_sent s')])" using rq(1) by (metis append_eq_conv_conj)
  then have "rq = last (cs_sent s')" using new(2) rq(2) by (auto simp: list_all_iff reading_def)
  then show ?thesis using c rv sel g h t by blast
qed

end
