(* ===== verification/Cli_Safety.thy ===== *)
theory Cli_Safety
  imports Cli_Props
begin

text \<open>
  Commands that must not do harm: unmounting the last credential, commands an access key may not run,
  and the identifiers of a listing; and the loops that wait for the daemon.
\<close>

section \<open>Unmounting\<close>

definition status_request :: cli_request where
  "status_request = local_request ''GET'' ''status'' CNoBody"

lemma daemon_call_answered:
  assumes "daemon_call e verb route body s = (Inr reply, s')"
  obtains w where "ce_step e (cs_sent s) (local_request verb route body) (cs_world s) = (Answer reply, w)"
    "cs_world s' = w" "cs_sent s' = cs_sent s @ [local_request verb route body]"
  using assms by (auto simp: daemon_call_def daemon_client_def map_daemon_error_def cli_send_def fail_cli_def run_simps
      split: sum.splits if_splits prod.splits cli_answer.splits)

lemma fetch_status_answered:
  assumes "fetch_daemon_status e s = (Inr status, s')"
  obtains reply w where "ce_step e (cs_sent s) status_request (cs_world s) = (Answer reply, w)"
    "is_success (cr_status reply)" "cr_payload reply = PStatus status" "cs_world s' = w"
    "cs_sent s' = cs_sent s @ [status_request]"
proof -
  from assms obtain reply s1 where a: "daemon_call e ''GET'' ''status'' CNoBody s = (Inr reply, s1)"
    and p: "parse_daemon_json e as_status reply s1 = (Inr status, s')"
    unfolding fetch_daemon_status_def by (rule try_op_InrE)
  from p have "is_success (cr_status reply)" "as_status (cr_payload reply) = Some status" "s' = s1"
    by (auto simp: parse_daemon_json_def run_simps split: if_splits option.splits)
  moreover have "cr_payload reply = PStatus status"
    using \<open>as_status (cr_payload reply) = Some status\<close> by (cases "cr_payload reply") auto
  ultimately show ?thesis using that daemon_call_answered [OF a] unfolding status_request_def by metis
qed

lemma resolved_mount:
  assumes "cli_resolve_mount e path s = (Inr m, s')"
  obtains target where
    "resolve_covered_target (ce_home e) (ce_cwd e) (w_fs (cs_world s)) (list_mounts (w_db (cs_world s))) path = Inr (m, target)"
    "s' = s"
  using assms by (auto simp: cli_resolve_mount_def covered_target_def open_sync_db_def run_simps
      split: sum.splits option.splits)

lemma not_last_credential:
  assumes "mount_holds_last_credential e m s = (Inr False, s')" "holds_token m"
  obtains reply w status where "ce_step e (cs_sent s) status_request (cs_world s) = (Answer reply, w)"
    "cr_payload reply = PStatus status"
    "dt_credential status = CredAccount \<or> 1 < length (filter holds_token (list_mounts (w_db w)))"
proof -
  from assms obtain status s1 where a: "fetch_daemon_status e s = (Inr status, s1)" and
    b: "(if dt_credential status = CredAccount then ret False
         else try_op (catch_error (list_local_mounts e)) (\<lambda>mounts.
           let all_mounts = (case mounts of Inl _ \<Rightarrow> [] | Inr ms \<Rightarrow> ms) in
           ret (length (filter holds_token all_mounts) \<le> 1))) s1 = (Inr False, s')"
    unfolding mount_holds_last_credential_def by (auto elim: try_op_InrE)
  from fetch_status_answered [OF a] obtain reply w where r: "ce_step e (cs_sent s) status_request (cs_world s) = (Answer reply, w)"
    "cr_payload reply = PStatus status" "cs_world s1 = w" by metis
  have "dt_credential status = CredAccount \<or> 1 < length (filter holds_token (list_mounts (w_db w)))"
    using b r(3) by (auto simp: list_local_mounts_def open_sync_db_def catch_error_def run_simps
        split: if_splits sum.splits option.splits prod.splits)
  then show ?thesis using that r by blast
qed

text \<open>C32: Unmounting never drops the machine's only credential unasked.  Unless it was confirmed, the
  request to unmount is sent only for a mount without a token of its own, or after the daemon reported
  an account credential or another mount of the database still holds a token.\<close>

lemma unmount_keeps_the_last_credential:
  assumes run: "cmd_unmount e path yes json s = (r, s')"
    and rq: "rq \<in> set (drop (length (cs_sent s)) (cs_sent s'))" "cq_method rq \<noteq> ''GET''"
  shows "\<exists>m target. resolve_covered_target (ce_home e) (ce_cwd e) (w_fs (cs_world s)) (list_mounts (w_db (cs_world s))) path
      = Inr (m, target) \<and> rq = local_request ''DELETE'' ''mount'' (CUnmount (lm_folder_id m)) \<and>
    (confirmed e yes \<or> \<not> holds_token m \<or>
     (\<exists>reply w status. ce_step e (cs_sent s) status_request (cs_world s) = (Answer reply, w) \<and>
        cr_payload reply = PStatus status \<and>
        (dt_credential status = CredAccount \<or> 1 < length (filter holds_token (list_mounts (w_db w))))))"
proof -
  have loud: "\<not> adds reading s s'" using rq by (auto simp: adds_def list_all_iff reading_def)
  obtain m s1 where m: "cli_resolve_mount e path s = (Inr m, s1)" and
    a: "try_op (mount_holds_last_credential e m) (\<lambda>is_last.
     try_op (if is_last then confirm_action e (last_credential_warning path) yes else ret ()) (\<lambda>_.
     unmount_now e path json m)) s1 = (r, s')"
    by (rule loud_try [OF run [unfolded cmd_unmount_def] sends_covered(2) sent_log.refl loud])
  obtain target where target: "resolve_covered_target (ce_home e) (ce_cwd e) (w_fs (cs_world s))
    (list_mounts (w_db (cs_world s))) path = Inr (m, target)" "s1 = s" by (rule resolved_mount [OF m])
  have "sends reading (mount_holds_last_credential e m)"
    unfolding mount_holds_last_credential_def Let_def by (auto intro!: sends_intros)
  then obtain is_last s2 where l: "mount_holds_last_credential e m s = (Inr is_last, s2)" and
    b: "try_op (if is_last then confirm_action e (last_credential_warning path) yes else ret ()) (\<lambda>_.
     unmount_now e path json m) s2 = (r, s')" and s2: "adds reading s s2"
    by (rule loud_try [OF a [unfolded target(2)] _ sent_log.refl loud])
  have "sends reading (if is_last then confirm_action e (last_credential_warning path) yes else ret ())"
    by (auto intro: sends_intros)
  then obtain u s3 where
    c: "(if is_last then confirm_action e (last_credential_warning path) yes else ret ()) s2 = (Inr u, s3)" and
    d: "unmount_now e path json m s3 = (r, s')" and s3: "adds reading s s3"
    by (rule loud_try [OF b _ s2 loud])
  let ?del = "local_request ''DELETE'' ''mount'' (CUnmount (lm_folder_id m))"
  have "sends (\<lambda>q. q = ?del) (unmount_now e path json m)"
    unfolding unmount_now_def by (intro sends_intros sends_daemon_call refl)
  from obeys_run [OF this d] s3 have "rq = ?del"
    using rq by (auto simp: adds_def list_all_iff reading_def)
  moreover have "confirmed e yes" if is_last using c that confirm_action_ok(1) by simp
  moreover have "\<exists>reply w status. ce_step e (cs_sent s) status_request (cs_world s) = (Answer reply, w) \<and>
      cr_payload reply = PStatus status \<and>
      (dt_credential status = CredAccount \<or> 1 < length (filter holds_token (list_mounts (w_db w))))"
    if "\<not> is_last" "holds_token m"
  proof -
    have "mount_holds_last_credential e m s = (Inr False, s2)" using l that(1) by simp
    from not_last_credential [OF this that(2)] show ?thesis by metis
  qed
  ultimately show ?thesis using target(1) by blast
qed

section \<open>What an access key may not do\<close>

definition refused_with_77 :: "cli \<Rightarrow> (error + unit) \<times> cli \<Rightarrow> bool" where
  "refused_with_77 s result = (case result of
      (Inl (ECli c), s') \<Rightarrow> cl_exit_code c = EX_NOPERM \<and> cs_sent s' = cs_sent s @ [status_request] \<and>
        cs_out s' = cs_out s
    | _ \<Rightarrow> False)"

text \<open>C33: With an access key as its credential, a machine can neither share, nor revoke, nor mount without
  a key: each command is refused with exit code 77 after asking the daemon for its status, and sends
  nothing else.\<close>

lemma access_key_is_refused:
  assumes socket: "socket_path e = Inr path" "path_exists (w_fs (cs_world s)) path"
    and key: "ce_step e (cs_sent s) status_request (cs_world s) = (Answer reply, w)" "is_success (cr_status reply)"
      "cr_payload reply = PStatus status" "dt_credential status = CredAccessKey"
  shows "refused_with_77 s (cmd_unshare e p to_email name i yes json s) \<and>
    (sh_to share \<noteq> None \<or> sh_key share \<noteq> None \<longrightarrow> refused_with_77 s (cmd_share_grant e share json s)) \<and>
    (ma_key m = None \<longrightarrow> refused_with_77 s (cmd_mount e m json s))"
proof -
  have call: "cli_send e (local_request ''GET'' ''status'' CNoBody) s = (Inr (Answer reply),
      s \<lparr> cs_world := w, cs_sent := cs_sent s @ [status_request] \<rparr>)"
    using key(1) by (simp add: cli_send_def status_request_def)
  have probe: "probe_credential e s = (Inr (Some CredAccessKey), s \<lparr> cs_world := w, cs_sent := cs_sent s @ [status_request] \<rparr>)"
    using socket key(3,4) call by (simp add: probe_credential_def probe_status_def run_simps)
  have fetch: "fetch_daemon_status e s = (Inr status, s \<lparr> cs_world := w, cs_sent := cs_sent s @ [status_request] \<rparr>)"
    using socket key(2,3) call
    by (simp add: fetch_daemon_status_def daemon_call_def daemon_client_def map_daemon_error_def parse_daemon_json_def run_simps)
  have "refused_with_77 s (cmd_unshare e p to_email name i yes json s)"
    by (simp add: cmd_unshare_def try_op_Inr [of "probe_credential e" s, OF probe] fail_cli_def fail_def refused_with_77_def
        access_key_cannot_revoke_def cli_refused_def cli_new_def with_hint_def)
  moreover have "refused_with_77 s (cmd_share_grant e share json s)" if "sh_to share \<noteq> None \<or> sh_key share \<noteq> None"
    using that by (auto simp: cmd_share_grant_def refuse_if_access_key_cannot_share_def try_op_def [of "try_op _ _"]
        try_op_Inr [of "probe_credential e" s, OF probe] fail_cli_def fail_def refused_with_77_def access_key_cannot_issue_keys_def
        access_key_cannot_invite_people_def cli_refused_def cli_new_def with_hint_def)
  moreover have "refused_with_77 s (cmd_mount e m json s)" if "ma_key m = None"
    using that key(4) by (auto simp: cmd_mount_def refuse_if_access_key_cannot_mount_def try_op_def [of "try_op _ _"]
        try_op_Inr [of "fetch_daemon_status e" s, OF fetch] fail_cli_def fail_def refused_with_77_def access_key_cannot_create_folder_def
        access_key_cannot_mount_folder_def cli_refused_def cli_new_def with_hint_def)
  ultimately show ?thesis by simp
qed

section \<open>Listed identifiers\<close>

lemma for_each_append_rows:
  assumes "\<And>x acc s r s'. body x acc s = (Inr r, s') \<Longrightarrow> \<exists>row. r = acc @ [row] \<and> key row = f x"
  shows "for_each xs body acc s = (Inr rows, s') \<Longrightarrow> \<exists>new. rows = acc @ new \<and> map key new = map f xs"
proof (induction xs arbitrary: acc s)
  case Nil
  then show ?case by (auto simp: run_simps)
next
  case (Cons x xs)
  from Cons.prems obtain r s1 where "body x acc s = (Inr r, s1)" "for_each xs body r s1 = (Inr rows, s')"
    by (auto elim: try_op_InrE)
  then obtain row new where "r = acc @ [row]" "key row = f x" "rows = r @ new" "map key new = map f xs"
    using assms Cons.IH by blast
  then show ?case by (intro exI [of _ "row # new"]) simp
qed

lemma grant_row_id: "grant_row e f g acc s = (Inr r, s') \<Longrightarrow> \<exists>row. r = acc @ [row] \<and> lr_id row = grant_display_id (ge_grant_id g)"
  unfolding grant_row_def by (erule try_op_InrE) (auto simp: run_simps)

lemma invite_row_id: "invite_row e f i acc s = (Inr r, s') \<Longrightarrow> \<exists>row. r = acc @ [row] \<and> lr_id row = invite_display_id (iv_invite_id i)"
  unfolding invite_row_def by (erule try_op_InrE) (auto simp: run_simps)

lemma listing_ids:
  assumes "build_listing_rows e f grants invites s = (Inr rows, s')"
  shows "map lr_id rows = map (grant_display_id \<circ> ge_grant_id) grants @ map (invite_display_id \<circ> iv_invite_id) invites"
proof -
  from assms obtain rows1 s1 where g: "for_each grants (grant_row e f) [] s = (Inr rows1, s1)"
    and i: "for_each invites (invite_row e f) rows1 s1 = (Inr rows, s')"
    unfolding build_listing_rows_def by (rule try_op_InrE)
  show ?thesis
    using for_each_append_rows [where key = lr_id and f = "grant_display_id \<circ> ge_grant_id", OF _ g]
      for_each_append_rows [where key = lr_id and f = "invite_display_id \<circ> iv_invite_id", OF _ i]
      grant_row_id invite_row_id by fastforce
qed

lemma pinned_ids [simp]:
  "parse_pinned_id (grant_display_id i) = Inr (PinnedGrant i)"
  "parse_pinned_id (invite_display_id i) = Inr (PinnedInvite i)"
  by (simp_all add: parse_pinned_id_def grant_display_id_def invite_display_id_def strip_prefix_def starts_with_def)

lemma filter_id_unique:
  "distinct (map key xs) \<Longrightarrow> i < length xs \<Longrightarrow> filter (\<lambda>x. key x = key (xs ! i)) xs = [xs ! i]"
proof (induction xs arbitrary: i)
  case (Cons x xs)
  show ?case
  proof (cases i)
    case 0
    then show ?thesis using Cons.prems(1) by (auto simp: filter_empty_conv) (metis image_eqI)
  next
    case (Suc j)
    then have "key x \<noteq> key (xs ! j)" using Cons.prems by auto
    then show ?thesis using Suc Cons by simp
  qed
qed simp

text \<open>The identifier of each row that \<open>valv share\<close> lists, given to \<open>valv unshare --id\<close>, selects
  exactly the grant or the invite of that row, when the server's ids are distinct.\<close>

lemma listed_id_selects_its_row:
  assumes rows: "build_listing_rows e f grants invites s = (Inr rows, s')"
    and ids: "distinct (map ge_grant_id grants)" "distinct (map iv_invite_id invites)"
    and i: "i < length rows"
  shows "\<exists>sel. build_selector to_email key (Some (lr_id (rows ! i))) = Inr sel \<and>
    candidates_of sel grants invites = [(map RevokeGrant grants @ map RevokeInvite invites) ! i]"
proof -
  note listed = listing_ids [OF rows]
  then have len: "length rows = length grants + length invites" by (metis length_append length_map)
  have id: "lr_id (rows ! i) = (map (grant_display_id \<circ> ge_grant_id) grants @ map (invite_display_id \<circ> iv_invite_id) invites) ! i"
    using listed i by (metis nth_map)
  show ?thesis
  proof (cases "i < length grants")
    case True
    then have "lr_id (rows ! i) = grant_display_id (ge_grant_id (grants ! i))" using id by (simp add: nth_append)
    moreover have "candidates_of (SelId (PinnedGrant (ge_grant_id (grants ! i)))) grants invites = [RevokeGrant (grants ! i)]"
      using filter_id_unique [OF ids(1) True] by (simp add: candidates_of_def)
    ultimately show ?thesis using True by (simp add: build_selector_def nth_append)
  next
    case False
    then have j: "i - length grants < length invites" using i len by simp
    then have "lr_id (rows ! i) = invite_display_id (iv_invite_id (invites ! (i - length grants)))"
      using id False by (simp add: nth_append)
    moreover have "candidates_of (SelId (PinnedInvite (iv_invite_id (invites ! (i - length grants))))) grants invites =
        [RevokeInvite (invites ! (i - length grants))]"
      using filter_id_unique [OF ids(2) j] by (simp add: candidates_of_def)
    ultimately show ?thesis using False j by (simp add: build_selector_def nth_append)
  qed
qed

end
