(* ===== verification/Cli_Waits.thy ===== *)
theory Cli_Waits
  imports Cli_Safety
begin

text \<open>
  The loops of the command line that wait for the daemon until a deadline.  Each round reads the clock
  and sleeps.  All the theorems ask of the clock is that it never goes back (\<open>clock_forward\<close>): that it
  moves on at all is the loops' own sleep.  A request of the barrier has no timeout of its own, so what
  its end needs besides is that the requests are answered in some way (\<open>requests_end\<close>).
\<close>

definition clock_forward :: "cli_env \<Rightarrow> bool" where
  "clock_forward e = (\<forall>n. ce_now e n \<le> ce_now e (Suc n))"

lemma clock_later: "clock_forward e \<Longrightarrow> n \<le> m \<Longrightarrow> ce_now e n \<le> ce_now e m"
  by (auto simp: clock_forward_def intro: lift_Suc_mono_le)

section \<open>Computations that read no clock\<close>

definition same_ticks :: "cli \<Rightarrow> cli \<Rightarrow> bool" where
  "same_ticks s s' = (cs_ticks s' = cs_ticks s \<and> cs_slept s' = cs_slept s)"

interpretation clock: state_preorder same_ticks
  by standard (auto simp: same_ticks_def)

lemma ticks_send: "obeys same_ticks (cli_send e rq)"
  unfolding obeys_def same_ticks_def cli_send_def by (auto split: prod.split)

lemma ticks_daemon_call: "obeys same_ticks (daemon_call e verb route body)"
  unfolding daemon_call_def daemon_client_def map_daemon_error_def
  by (auto intro!: clock.obeys_rules ticks_send simp: fail_cli_def split: cli_answer.split)

lemma ticks_decode: "obeys same_ticks (parse_daemon_json e d r)"
  unfolding parse_daemon_json_def by (auto intro!: clock.obeys_rules split: option.split)

lemma ticks_pass: "obeys same_ticks (request_sync_pass e f)" "obeys same_ticks (fetch_daemon_status e)"
  unfolding request_sync_pass_def fetch_daemon_status_def
  by (intro clock.obeys_try ticks_daemon_call ticks_decode)+

lemma home_answers: "home_dir e \<noteq> Inl ENoFuel"
  by (simp add: home_dir_def no_home_def split: option.split)

lemma socket_path_answers: "socket_path e \<noteq> Inl ENoFuel"
  using home_answers [of e] by (cases "home_dir e") (auto simp: socket_path_def data_dir_def)

definition request_ends :: "cli_env \<Rightarrow> cli_request \<Rightarrow> bool" where
  "request_ends e rq = (\<forall>log w. fst (ce_step e log rq w) \<noteq> Silent)"

lemma answers_daemon_call:
  assumes "request_ends e (local_request verb route body)"
  shows "answers (daemon_call e verb route body)"
proof -
  have "answers (try_op (cli_send e (local_request verb route body)) map_daemon_error)"
    unfolding answers_def
  proof
    fix s :: cli
    obtain a w where a: "ce_step e (cs_sent s) (local_request verb route body) (cs_world s) = (a, w)" by fastforce
    then have "a \<noteq> Silent" using assms by (metis fst_conv request_ends_def)
    then show "fst (try_op (cli_send e (local_request verb route body)) map_daemon_error s) \<noteq> Inl ENoFuel"
      using a by (cases a) (simp_all add: cli_send_def map_daemon_error_def fail_cli_def run_simps)
  qed
  then show ?thesis unfolding daemon_call_def daemon_client_def
    by (auto intro!: answers_rules socket_path_answers simp: fail_cli_def)
qed

lemma answers_decode: "answers (parse_daemon_json e d r)"
  unfolding parse_daemon_json_def by (auto intro!: answers_rules split: option.split)

definition pass_request :: "string option \<Rightarrow> cli_request" where
  "pass_request folder_id = local_request ''POST'' ''sync'' (CSync folder_id)"

definition requests_end :: "cli_env \<Rightarrow> string option \<Rightarrow> bool" where
  "requests_end e folder_id = (request_ends e (pass_request folder_id) \<and> request_ends e status_request)"

lemma answers_pass:
  assumes "requests_end e folder_id"
  shows "answers (request_sync_pass e folder_id)" "answers (fetch_daemon_status e)"
  using assms unfolding request_sync_pass_def fetch_daemon_status_def requests_end_def pass_request_def status_request_def
  by (auto intro!: answers_try answers_daemon_call answers_decode)

section \<open>The barrier of a sync\<close>

definition unsettled :: "cli_env \<Rightarrow> string option \<Rightarrow> daemon_status \<Rightarrow> bool" where
  "unsettled e folder_id status =
     (failed_mount e status (relevant_mounts status folder_id) = None \<and>
      \<not> list_all mount_settled (relevant_mounts status folder_id))"

lemma pass_answered:
  assumes "request_sync_pass e folder_id s = (Inr summary, s')"
  obtains reply where "ce_step e (cs_sent s) (local_request ''POST'' ''sync'' (CSync folder_id)) (cs_world s) = (Answer reply, cs_world s')"
    "cr_payload reply = PSummary summary" "cs_sent s' = cs_sent s @ [local_request ''POST'' ''sync'' (CSync folder_id)]"
proof -
  from assms obtain reply s1 where a: "daemon_call e ''POST'' ''sync'' (CSync folder_id) s = (Inr reply, s1)"
    and p: "parse_daemon_json e as_summary reply s1 = (Inr summary, s')"
    unfolding request_sync_pass_def by (rule try_op_InrE)
  from p have "as_summary (cr_payload reply) = Some summary" "s' = s1"
    by (auto simp: parse_daemon_json_def run_simps split: if_splits option.splits)
  moreover from this(1) have "cr_payload reply = PSummary summary" by (cases "cr_payload reply") auto
  ultimately show ?thesis using that daemon_call_answered [OF a] by metis
qed

lemma barrier_round:
  assumes "sync_barrier (Suc fuel) e folder_id subject deadline s = (r, s')"
  obtains (err) err where "r = Inl err" "requests_end e folder_id \<longrightarrow> err \<noteq> ENoFuel"
    | (settled) summary status s1 where "r = Inr summary" "request_sync_pass e folder_id s = (Inr summary, s1)"
        "fetch_daemon_status e s1 = (Inr status, s')" "list_all mount_settled (relevant_mounts status folder_id)"
    | (again) s2 where "cs_ticks s2 = Suc (cs_ticks s)" "cs_slept s2 = cs_slept s + SYNC_POLL_INTERVAL"
        "ce_now e (cs_ticks s) + cs_slept s < deadline"
        "cs_sent s2 = cs_sent s @ [local_request ''POST'' ''sync'' (CSync folder_id), status_request]"
        "sync_barrier fuel e folder_id subject deadline s2 = (r, s')"
  using assms unfolding sync_barrier.simps(2)
proof (cases rule: try_op_cases)
  case (err c)
  then show ?thesis using that(1) answersD [OF answers_pass(1)] by metis
next
  case (ok summary s1)
  from ok(2) show ?thesis
  proof (cases rule: try_op_cases)
    case (err c)
    then show ?thesis using that(1) answersD [OF answers_pass(2)] by metis
  next
    case inner: (ok status s2)
    have ticks: "cs_ticks s2 = cs_ticks s" "cs_slept s2 = cs_slept s"
      using obeys_run [OF ticks_pass(1) ok(1)] obeys_run [OF ticks_pass(2) inner(1)] by (simp_all add: same_ticks_def)
    have sent: "cs_sent s2 = cs_sent s @ [local_request ''POST'' ''sync'' (CSync folder_id), status_request]"
      by (rule pass_answered [OF ok(1)], rule fetch_status_answered [OF inner(1)]) simp
    show ?thesis
    proof (cases "failed_mount e status (relevant_mounts status folder_id)")
      case (Some c)
      then show ?thesis using inner(2) that(1) by (auto simp: fail_cli_def fail_def Let_def)
    next
      case None
      have tail: "(if list_all mount_settled (relevant_mounts status folder_id) then ret summary
          else try_op (now_ms e) (\<lambda>now. if deadline \<le> now
            then fail_cli (sync_timed_out (''Timed out waiting for '' @ subject @ '' to settle.''))
            else try_op (sleep_ms SYNC_POLL_INTERVAL) (\<lambda>_. sync_barrier fuel e folder_id subject deadline))) s2 = (r, s')"
        using inner(2) None by (simp add: Let_def)
      consider "list_all mount_settled (relevant_mounts status folder_id)"
        | "\<not> list_all mount_settled (relevant_mounts status folder_id)" "deadline \<le> ce_now e (cs_ticks s) + cs_slept s"
        | "\<not> list_all mount_settled (relevant_mounts status folder_id)" "ce_now e (cs_ticks s) + cs_slept s < deadline"
        by linarith
      then show ?thesis
      proof cases
        case 1
        then show ?thesis using tail inner(1) ok(1) that(2) by (auto simp: ret_def)
      next
        case 2
        then show ?thesis using tail ticks that(1) by (auto simp: now_ms_def try_op_def fail_cli_def fail_def)
      next
        case 3
        let ?u = "s2 \<lparr> cs_ticks := Suc (cs_ticks s2), cs_slept := cs_slept s2 + SYNC_POLL_INTERVAL \<rparr>"
        have "sync_barrier fuel e folder_id subject deadline ?u = (r, s')"
          using 3 tail ticks by (simp add: now_ms_def sleep_ms_def writes_def try_op_def)
        then show ?thesis using that(3) [of ?u] ticks sent 3(2) by simp
      qed
    qed
  qed
qed

lemma barrier_answers:
  assumes "clock_forward e" "requests_end e folder_id"
  shows "deadline \<le> ce_now e (cs_ticks s) + cs_slept s + SYNC_POLL_INTERVAL * fuel \<Longrightarrow>
    fst (sync_barrier (Suc fuel) e folder_id subject deadline s) \<noteq> Inl ENoFuel"
proof (induction fuel arbitrary: s)
  case 0
  obtain r s' where run: "sync_barrier (Suc 0) e folder_id subject deadline s = (r, s')" by fastforce
  then have "r \<noteq> Inl ENoFuel"
  proof (cases rule: barrier_round)
    case (again s2)
    then show ?thesis using 0 by simp
  qed (use assms(2) in auto)
  then show ?case using run by (metis fst_conv)
next
  case (Suc fuel)
  obtain r s' where run: "sync_barrier (Suc (Suc fuel)) e folder_id subject deadline s = (r, s')" by fastforce
  then have "r \<noteq> Inl ENoFuel"
  proof (cases rule: barrier_round)
    case (again s2)
    have "ce_now e (cs_ticks s) \<le> ce_now e (cs_ticks s2)" using assms(1) again(1) by (simp add: clock_forward_def)
    then have "deadline \<le> ce_now e (cs_ticks s2) + cs_slept s2 + SYNC_POLL_INTERVAL * fuel"
      using Suc.prems again(2) by simp
    then show ?thesis using Suc.IH again(5) by (metis fst_conv)
  qed (use assms(2) in auto)
  then show ?case using run by (metis fst_conv)
qed

text \<open>C34: The barrier of \<open>valv sync\<close> ends: two rounds more than poll intervals fit into the timeout always
  suffice, whatever the daemon answers and however fast it does, because every round that goes on
  sleeps for the interval.  The clock must not go back, and the two requests of a round must be
  answered, if only by an error: the daemon's client has no timeout.\<close>

lemma sync_barrier_ends:
  assumes "clock_forward e" "requests_end e folder_id" "Suc (timeout div SYNC_POLL_INTERVAL) < fuel"
  shows "fst (run_sync_barrier fuel e folder_id subject timeout s) \<noteq> Inl ENoFuel"
proof -
  let ?s = "s \<lparr> cs_ticks := Suc (cs_ticks s) \<rparr>"
  obtain n where n: "fuel = Suc n" "Suc (timeout div SYNC_POLL_INTERVAL) \<le> n" using assms(3) by (cases fuel) auto
  have "timeout \<le> SYNC_POLL_INTERVAL * n" using n(2) unfolding SYNC_POLL_INTERVAL_def by linarith
  moreover have "ce_now e (cs_ticks s) \<le> ce_now e (cs_ticks ?s)" using assms(1) by (simp add: clock_forward_def)
  ultimately have "ce_now e (cs_ticks s) + cs_slept s + timeout \<le> ce_now e (cs_ticks ?s) + cs_slept ?s + SYNC_POLL_INTERVAL * n"
    by simp
  then show ?thesis
    using barrier_answers [OF assms(1,2), of "ce_now e (cs_ticks s) + cs_slept s + timeout" ?s n subject]
    by (simp add: run_sync_barrier_def now_ms_def try_op_def n(1) del: sync_barrier.simps)
qed

text \<open>The hypothesis on the requests cannot go: the deadline is looked at between requests only, so a
  daemon that takes the request and never answers holds \<open>valv sync\<close> for ever.\<close>

lemma silent_daemon_holds_sync:
  assumes "socket_path e = Inr p" "path_exists (w_fs (cs_world s)) p"
    "fst (ce_step e (cs_sent s) (pass_request folder_id) (cs_world s)) = Silent"
  shows "fst (run_sync_barrier fuel e folder_id subject timeout s) = Inl ENoFuel"
  using assms
  by (cases fuel) (auto simp: run_sync_barrier_def now_ms_def request_sync_pass_def daemon_call_def daemon_client_def
      cli_send_def map_daemon_error_def pass_request_def run_simps split: prod.splits)

text \<open>C35: \<open>valv sync\<close> reports success only for a settled daemon: the last answer before it was a status
  in which no mount in question has pending operations or an error.  The counts it prints are those of
  the last pass alone, however many passes it took.\<close>

lemma sync_reports_a_settled_daemon:
  assumes "run_sync_barrier fuel e folder_id subject timeout s = (Inr summary, s')"
  shows "\<exists>log pass w1 w2 reply1 reply2 status. pass = local_request ''POST'' ''sync'' (CSync folder_id) \<and>
    cs_sent s' = cs_sent s @ log @ [pass, status_request] \<and> set log \<subseteq> {pass, status_request} \<and>
    ce_step e (cs_sent s @ log) pass w1 = (Answer reply1, w2) \<and> cr_payload reply1 = PSummary summary \<and>
    ce_step e (cs_sent s @ log @ [pass]) status_request w2 = (Answer reply2, cs_world s') \<and>
    cr_payload reply2 = PStatus status \<and> list_all mount_settled (relevant_mounts status folder_id)"
proof -
  let ?pass = "local_request ''POST'' ''sync'' (CSync folder_id)"
  have "\<exists>log w1 w2 reply1 reply2 status. cs_sent s' = cs_sent u @ log @ [?pass, status_request] \<and>
    set log \<subseteq> {?pass, status_request} \<and>
    ce_step e (cs_sent u @ log) ?pass w1 = (Answer reply1, w2) \<and> cr_payload reply1 = PSummary summary \<and>
    ce_step e (cs_sent u @ log @ [?pass]) status_request w2 = (Answer reply2, cs_world s') \<and>
    cr_payload reply2 = PStatus status \<and> list_all mount_settled (relevant_mounts status folder_id)"
    if "sync_barrier fuel e folder_id subject deadline u = (Inr summary, s')" for u deadline
    using that
  proof (induction fuel arbitrary: u)
    case 0
    then show ?case by (simp add: fail_def)
  next
    case (Suc fuel)
    from Suc.prems show ?case
    proof (cases rule: barrier_round)
      case (settled summary' status s1)
      obtain reply1 where r1: "ce_step e (cs_sent u) ?pass (cs_world u) = (Answer reply1, cs_world s1)"
        "cr_payload reply1 = PSummary summary'" "cs_sent s1 = cs_sent u @ [?pass]"
        by (rule pass_answered [OF settled(2)])
      obtain reply2 where r2: "ce_step e (cs_sent s1) status_request (cs_world s1) = (Answer reply2, cs_world s')"
        "cr_payload reply2 = PStatus status" "cs_sent s' = cs_sent s1 @ [status_request]"
        by (rule fetch_status_answered [OF settled(3)]) auto
      show ?thesis
        using r1 r2 settled(1,4)
        by (intro exI [of _ "[]"] exI [of _ "cs_world u"] exI [of _ "cs_world s1"] exI [of _ reply1] exI [of _ reply2]
            exI [of _ status]) simp
    next
      case (again s2)
      from Suc.IH [OF again(5)] obtain log w1 w2 reply1 reply2 status where ih:
        "cs_sent s' = cs_sent s2 @ log @ [?pass, status_request]" "set log \<subseteq> {?pass, status_request}"
        "ce_step e (cs_sent s2 @ log) ?pass w1 = (Answer reply1, w2)" "cr_payload reply1 = PSummary summary"
        "ce_step e (cs_sent s2 @ log @ [?pass]) status_request w2 = (Answer reply2, cs_world s')"
        "cr_payload reply2 = PStatus status" "list_all mount_settled (relevant_mounts status folder_id)" by blast
      then show ?thesis
        using again(4)
        by (intro exI [of _ "[?pass, status_request] @ log"] exI [of _ w1] exI [of _ w2] exI [of _ reply1] exI [of _ reply2]
            exI [of _ status]) simp
    qed simp
  qed
  from this [where u = "s \<lparr> cs_ticks := Suc (cs_ticks s) \<rparr>" and deadline = "ce_now e (cs_ticks s) + cs_slept s + timeout"] assms
  show ?thesis by (simp add: run_sync_barrier_def now_ms_def try_op_def)
qed

section \<open>The wait for the socket\<close>

text \<open>Each round of this wait takes two readings, the attempt to connect being the first.\<close>

abbreviation socket_waited :: "cli \<Rightarrow> cli" where
  "socket_waited s \<equiv> s \<lparr> cs_ticks := Suc (Suc (cs_ticks s)), cs_slept := cs_slept s + 200 \<rparr>"

lemma socket_round:
  assumes "socket_path e = Inr path"
  shows "socket_wait (Suc fuel) e journal deadline s =
    (if path_exists (w_fs (cs_world s)) path \<and> ce_socket e (cs_ticks s) then (Inr (), s \<lparr> cs_ticks := Suc (cs_ticks s) \<rparr>)
     else if deadline \<le> ce_now e (Suc (cs_ticks s)) + cs_slept s
     then (Inl (ECli (daemon_failed_to_start (daemon_failure_detail e journal (w_fs (cs_world s))))),
           s \<lparr> cs_ticks := Suc (Suc (cs_ticks s)) \<rparr>)
     else socket_wait fuel e journal deadline (socket_waited s))"
  using assms by (simp add: socket_connects_now_def now_ms_def sleep_ms_def fail_cli_def run_simps)

definition wait_ended :: "cli_env \<Rightarrow> string option \<Rightarrow> cli \<Rightarrow> (error + unit) \<times> cli \<Rightarrow> bool" where
  "wait_ended e journal s result = (\<exists>t n. result = (Inr (), s \<lparr> cs_ticks := t, cs_slept := n \<rparr>) \<or>
     result = (Inl (ECli (daemon_failed_to_start (daemon_failure_detail e journal (w_fs (cs_world s))))),
               s \<lparr> cs_ticks := t, cs_slept := n \<rparr>))"

lemma wait_endedI:
  "wait_ended e journal s (Inr (), s \<lparr> cs_ticks := t \<rparr>)"
  "wait_ended e journal s (Inl (ECli (daemon_failed_to_start (daemon_failure_detail e journal (w_fs (cs_world s))))),
     s \<lparr> cs_ticks := t \<rparr>)"
  unfolding wait_ended_def by (rule exI [of _ t], rule exI [of _ "cs_slept s"], simp)+

lemma wait_ended_later:
  assumes "wait_ended e journal (s \<lparr> cs_ticks := t, cs_slept := n \<rparr>) result"
  shows "wait_ended e journal s result"
  using assms by (auto simp: wait_ended_def)

lemma socket_wait_ends:
  assumes "socket_path e = Inr path" "clock_forward e"
  shows "deadline \<le> ce_now e (Suc (cs_ticks s)) + cs_slept s + 200 * fuel \<Longrightarrow>
    wait_ended e journal s (socket_wait (Suc fuel) e journal deadline s)"
proof (induction fuel arbitrary: s)
  case 0
  then show ?case unfolding socket_round [OF assms(1)] using wait_endedI by simp
next
  case (Suc fuel)
  have "ce_now e (Suc (cs_ticks s)) \<le> ce_now e (Suc (cs_ticks (socket_waited s)))"
    using clock_later [OF assms(2)] by simp
  then have "deadline \<le> ce_now e (Suc (cs_ticks (socket_waited s))) + cs_slept (socket_waited s) + 200 * fuel"
    using Suc.prems by simp
  from wait_ended_later [OF Suc.IH [OF this]] show ?case
    unfolding socket_round [OF assms(1), of "Suc fuel"] using wait_endedI by (simp del: socket_wait.simps)
qed

text \<open>The wait of \<open>ensure_daemon\<close>: either the socket connects or the user is told where to look.\<close>

lemma wait_for_daemon_socket_ends:
  assumes "socket_path e = Inr path" "clock_forward e" "Suc (timeout div 200) < fuel"
  shows "wait_ended e journal s (wait_for_daemon_socket fuel e journal timeout s)"
proof -
  let ?s = "s \<lparr> cs_ticks := Suc (cs_ticks s), cs_slept := cs_slept s \<rparr>"
  obtain n where n: "fuel = Suc n" "Suc (timeout div 200) \<le> n" using assms(3) by (cases fuel) auto
  have "timeout \<le> 200 * n" using n(2) by linarith
  moreover have "ce_now e (cs_ticks s) \<le> ce_now e (Suc (cs_ticks ?s))"
    using clock_later [OF assms(2)] by simp
  ultimately have "ce_now e (cs_ticks s) + cs_slept s + timeout \<le> ce_now e (Suc (cs_ticks ?s)) + cs_slept ?s + 200 * n" by simp
  note run = socket_wait_ends [OF assms(1,2) this, of journal]
  have "wait_for_daemon_socket fuel e journal timeout s =
    socket_wait (Suc n) e journal (ce_now e (cs_ticks s) + cs_slept s + timeout) (s \<lparr> cs_ticks := Suc (cs_ticks s) \<rparr>)"
    by (simp add: wait_for_daemon_socket_def now_ms_def try_op_def n(1) del: socket_wait.simps)
  also have "s \<lparr> cs_ticks := Suc (cs_ticks s) \<rparr> = ?s" by simp
  finally show ?thesis using wait_ended_later [OF run] by (simp only:)
qed

end
