(* ===== verification/Cli_Runs.thy ===== *)
theory Cli_Runs
  imports Daemon_Runs Ws_Runs Cli_Update_Props Cli_Waits
begin

text \<open>
  The theorems about the command line applied to concrete machines: a home directory with a
  configuration and a socket, a daemon and a server that answer from a script, and an installation
  directory with both binaries.
\<close>

section \<open>A machine\<close>

definition cli_fs :: fs where
  "cli_fs = \<lparr> fs_nodes = [([''m''], Dir), ([''h''], Dir), ([''h'', ''.config''], Dir), ([''h'', ''.config'', ''valv''], Dir),
     ([''h'', ''.config'', ''valv'', ''config.toml''], File ''c'' 1),
     ([''h'', ''.local''], Dir), ([''h'', ''.local'', ''share''], Dir), ([''h'', ''.local'', ''share'', ''valv''], Dir),
     ([''h'', ''.local'', ''share'', ''valv'', ''valvd.sock''], Special)], fs_denied = [], fs_faults = [] \<rparr>"

text \<open>The answers in the order of the requests; then the peer is gone.\<close>

definition scripted_cli :: "cli_reply list \<Rightarrow> cli_request list \<Rightarrow> cli_request \<Rightarrow> world \<Rightarrow> cli_answer \<times> world" where
  "scripted_cli script sent rq w =
     (if length sent < length script then Answer (script ! length sent) else NoConnection ''gone'', w)"

definition cli_demo :: "cli_reply list \<Rightarrow> cli_env" where
  "cli_demo script =
     \<lparr> ce_env = offline_env, ce_step = scripted_cli script, ce_now = (\<lambda>n. 500 * n),
       ce_toml = (\<lambda>_. Some \<lparr> tc_backend_url = TomlText ''http://s'', tc_device_token = TomlText ''dev'', tc_device_name = Missing \<rparr>),
       ce_render = (\<lambda>_. ''e''), ce_status_text = (\<lambda>_. ''s''), ce_elapsed = (\<lambda>_. None), ce_size_text = (\<lambda>_. ''z''),
       ce_to_json = (\<lambda>_. ''j''), ce_status_json = (\<lambda>_. []),
       ce_form = (\<lambda>_. [(''state'', ''st''), (''device_id'', ''d''), (''device_token'', ''t'')]), ce_lossy = id,
       ce_os = ''linux'', ce_arch = ''x86_64'', ce_home = Some ''/h'', ce_cwd = [], ce_exe = None, ce_terminal = False,
       ce_line = None, ce_db_error = None, ce_socket = (\<lambda>_. True) \<rparr>"

definition cli_start :: cli where
  "cli_start = \<lparr> cs_world = demo_world (demo_db []) cli_fs, cs_sent = [], cs_out = [], cs_err = [], cs_ticks = 0, cs_slept = 0 \<rparr>"

definition demo_reply :: "cli_payload \<Rightarrow> cli_reply" where
  "demo_reply p = \<lparr> cr_status = 200, cr_text = [], cr_value = None, cr_payload = p \<rparr>"

definition demo_no_content :: cli_reply where
  "demo_no_content = \<lparr> cr_status = 204, cr_text = [], cr_value = None, cr_payload = POther \<rparr>"

definition demo_status :: "credential \<Rightarrow> nat \<Rightarrow> daemon_status" where
  "demo_status credential pending =
     \<lparr> dt_paused = False, dt_backend_connected = True, dt_version = ''1.0.0'', dt_update_required = False,
       dt_mounts = [\<lparr> mt_path = ''/m'', mt_folder_id = ''F'', mt_name = ''F'', mt_scope_node_id = None, mt_grant_id = None,
          mt_can_write = True, mt_syncing = False, mt_pending_ops = pending, mt_last_synced_at = None,
          mt_update_required = False, mt_error = None, mt_watcher_alive = True \<rparr>],
       dt_account = None, dt_latest_version = None, dt_update_available = None, dt_credential = credential,
       dt_principal = None \<rparr>"

definition demo_grant :: "string \<Rightarrow> grant_entry" where
  "demo_grant i = \<lparr> ge_grant_id = i, ge_folder_id = ''F'', ge_scope_node_id = ''r'', ge_role = None, ge_can_read = Some True,
     ge_can_write = Some True, ge_user_id = None, ge_device_id = None, ge_name = Some ''bot'', ge_grantee_email = None,
     ge_device_name = None, ge_created_at = None, ge_created_by_email = None, ge_folder_name = None \<rparr>"

lemma cli_demo_socket: "socket_path (cli_demo script) = Inr [''h'', ''.local'', ''share'', ''valv'', ''valvd.sock'']"
  unfolding cli_demo_def by code_simp

lemma cli_demo_step: "ce_step (cli_demo script) = scripted_cli script"
  by (simp add: cli_demo_def)

lemma last_of_map: "map f xs = ys \<Longrightarrow> ys \<noteq> [] \<Longrightarrow> last xs \<in> set xs \<and> f (last xs) = last ys"
  using last_map [of xs f] by auto

section \<open>Commands\<close>

definition unshare_answers :: "cli_reply list" where
  "unshare_answers = [demo_reply (PStatus (demo_status CredAccount 0)), demo_reply (PGrants [demo_grant ''1'', demo_grant ''2'']),
     demo_reply (PInvites []), demo_no_content]"

theorem unshare_revokes_the_only_match_witness:
  "\<exists>config folder_id t. revocation config folder_id t
     (last (cs_sent (snd (cmd_unshare (cli_demo unshare_answers) ''/m'' None None (Some ''g_2'') True False cli_start))))"
proof -
  let ?run = "cmd_unshare (cli_demo unshare_answers) ''/m'' None None (Some ''g_2'') True False cli_start"
  have sent: "map cq_method (cs_sent (snd ?run)) = [''GET'', ''GET'', ''GET'', ''DELETE'']" by code_simp
  have "cs_sent cli_start = []" by (simp add: cli_start_def)
  then have "last (cs_sent (snd ?run)) \<in> set (drop (length (cs_sent cli_start)) (cs_sent (snd ?run)))"
    "cq_method (last (cs_sent (snd ?run))) \<noteq> ''GET''"
    using last_of_map [OF sent] by simp_all
  from unshare_revokes_the_only_match [OF surjective_pairing this] show ?thesis by blast
qed

definition other_mount :: local_mount where
  "other_mount = demo_mount \<lparr> lm_path := ''/n'', lm_folder_id := ''G'' \<rparr>"

definition two_mounts_start :: cli where
  "two_mounts_start = cli_start \<lparr> cs_world := demo_world (demo_db [] \<lparr> db_mounts := [demo_mount, other_mount] \<rparr>) cli_fs \<rparr>"

theorem unmount_keeps_the_last_credential_witness:
  "\<exists>m :: local_mount. last (cs_sent (snd (cmd_unmount (cli_demo [demo_reply (PStatus (demo_status CredNone 0)), demo_no_content]) ''/m''
     False False two_mounts_start))) = local_request ''DELETE'' ''mount'' (CUnmount (lm_folder_id m))"
proof -
  let ?run = "cmd_unmount (cli_demo [demo_reply (PStatus (demo_status CredNone 0)), demo_no_content]) ''/m''
     False False two_mounts_start"
  have sent: "map cq_method (cs_sent (snd ?run)) = [''GET'', ''DELETE'']" by code_simp
  have "cs_sent two_mounts_start = []" by (simp add: two_mounts_start_def cli_start_def)
  then have "last (cs_sent (snd ?run)) \<in> set (drop (length (cs_sent two_mounts_start)) (cs_sent (snd ?run)))"
    "cq_method (last (cs_sent (snd ?run))) \<noteq> ''GET''"
    using last_of_map [OF sent] by simp_all
  from unmount_keeps_the_last_credential [OF surjective_pairing this] show ?thesis by blast
qed

theorem access_key_is_refused_witness:
  "refused_with_77 cli_start (cmd_unshare (cli_demo [demo_reply (PStatus (demo_status CredAccessKey 0))]) ''/m'' None
     (Some ''bot'') None True False cli_start)"
proof -
  let ?answers = "[demo_reply (PStatus (demo_status CredAccessKey 0))]"
  have "path_exists (w_fs (cs_world cli_start)) [''h'', ''.local'', ''share'', ''valv'', ''valvd.sock'']" by code_simp
  moreover have "ce_step (cli_demo ?answers) (cs_sent cli_start) status_request (cs_world cli_start) =
      (Answer (demo_reply (PStatus (demo_status CredAccessKey 0))), cs_world cli_start)"
    by (simp add: cli_demo_step scripted_cli_def cli_start_def)
  moreover have "is_success (cr_status (demo_reply p))" "cr_payload (demo_reply p) = p" for p
    by (simp_all add: demo_reply_def is_success_def)
  moreover have "dt_credential (demo_status CredAccessKey 0) = CredAccessKey" by (simp add: demo_status_def)
  ultimately show ?thesis
    using access_key_is_refused [OF cli_demo_socket] by blast
qed

theorem listed_id_selects_its_row_witness:
  "\<exists>rows s' sel. build_listing_rows (cli_demo []) ''F'' [demo_grant ''1'', demo_grant ''2''] [] cli_start = (Inr rows, s') \<and>
     build_selector None None (Some (lr_id (rows ! 1))) = Inr sel \<and>
     candidates_of sel [demo_grant ''1'', demo_grant ''2''] [] = [RevokeGrant (demo_grant ''2'')]"
proof -
  let ?run = "build_listing_rows (cli_demo []) ''F'' [demo_grant ''1'', demo_grant ''2''] [] cli_start"
  have "map_sum (\<lambda>_. ()) length (fst ?run) = Inr 2" by code_simp
  then obtain rows where rows: "fst ?run = Inr rows" "length rows = 2" by (cases "fst ?run") auto
  have "distinct (map ge_grant_id [demo_grant ''1'', demo_grant ''2''])" by (simp add: demo_grant_def)
  from listed_id_selects_its_row [OF result_pair [OF rows(1)] this, of 1 None None] show ?thesis
    using rows result_pair [OF rows(1)] by auto
qed

section \<open>Waiting\<close>

lemma demo_clock: "clock_forward (cli_demo script)"
  by (simp add: clock_forward_def cli_demo_def)

lemma demo_requests_end: "requests_end (cli_demo script) folder_id"
  by (simp add: requests_end_def request_ends_def cli_demo_def scripted_cli_def)

theorem sync_barrier_ends_witness:
  "fst (run_sync_barrier 250 (cli_demo []) None ''every mounted folder'' SYNC_BARRIER_TIMEOUT cli_start) \<noteq> Inl ENoFuel"
  by (rule sync_barrier_ends [OF demo_clock demo_requests_end]) (simp add: SYNC_BARRIER_TIMEOUT_def SYNC_POLL_INTERVAL_def)

definition demo_summary :: "nat \<Rightarrow> sync_summary" where
  "demo_summary n = \<lparr> sy_creates = n, sy_versions = 0, sy_deletes = 0, sy_pulled_ops = 0, sy_errors = 0 \<rparr>"

definition sync_answers :: "cli_reply list" where
  "sync_answers = [demo_reply (PSummary (demo_summary 3)), demo_reply (PStatus (demo_status CredAccount 2)),
     demo_reply (PSummary (demo_summary 0)), demo_reply (PStatus (demo_status CredAccount 0))]"

theorem sync_reports_a_settled_daemon_witness:
  "\<exists>s' log. run_sync_barrier 3 (cli_demo sync_answers) None ''all'' 1000 cli_start = (Inr (demo_summary 0), s') \<and>
     cs_sent s' = log @ [local_request ''POST'' ''sync'' (CSync None), status_request]"
proof -
  let ?run = "run_sync_barrier 3 (cli_demo sync_answers) None ''all'' 1000 cli_start"
  have "map_sum (\<lambda>_. ()) sy_creates (fst ?run) = Inr 0" "fst ?run = Inr (demo_summary 0)" by code_simp+
  then have run: "?run = (Inr (demo_summary 0), snd ?run)" by (intro result_pair)
  from sync_reports_a_settled_daemon [OF run] run show ?thesis by (metis append.assoc)
qed

section \<open>Signing in\<close>

definition login_env :: cli_env where
  "login_env = (cli_demo []) \<lparr> ce_form := \<lambda>_. [(''state'', ''id0''), (''device_id'', ''d''), (''device_token'', ''t'')] \<rparr>"

definition demo_args :: login_args where
  "demo_args = \<lparr> la_web_base_url = ''http://w'', la_backend_url = ''http://s'', la_device_name = ''n'', la_open_browser = True \<rparr>"

text \<open>A connection that is no callback, the callback, and an error of the listener that nobody waits for.\<close>

definition demo_login :: "(error + unit) \<times> cli" where
  "demo_login = cmd_auth_login login_env (\<lambda>_. ''q'') Opened (Inr 80)
     [Connection (Inr ''GET /favicon.ico HTTP/1.1'') None, Connection (Inr ''GET /callback?q HTTP/1.1'') None,
      AcceptFails ETransport] demo_args False cli_start"

theorem login_stores_our_callback_witness:
  "fst demo_login = Inr () \<and>
   (\<exists>path. holds_text path (login_config ''http://s'' ''d'' ''t'' ''n'') (w_fs (cs_world (snd demo_login))))"
proof -
  have ok: "fst demo_login = Inr ()" by code_simp
  have "demo_login = (Inr (), snd demo_login)" using ok by (simp add: prod_eq_iff)
  from login_stores_our_callback [OF this [unfolded demo_login_def]]
  obtain state bytes callback path where "our_callback login_env state bytes callback"
    "holds_text path (login_config (la_backend_url demo_args) (pc_device_id callback) (pc_device_token callback)
      (la_device_name demo_args)) (w_fs (cs_world (snd demo_login)))"
    unfolding demo_login_def by auto
  moreover from this(1) have "pc_device_id callback = ''d''" "pc_device_token callback = ''t''"
    by (auto simp: our_callback_def query_param_def login_env_def)
  ultimately show ?thesis using ok by (auto simp: demo_args_def)
qed

section \<open>Paths and tables\<close>

theorem same_mount_chosen_witness:
  "map_option (\<lambda>m. (lm_path m, lm_folder_id m)) (covering_mount_in [demo_mount] ''/m/a'') = Some (''/m'', ''F'')"
proof -
  have "canonical_mount [] cli_fs (lm_path demo_mount)" by code_simp
  then have canonical: "\<forall>m \<in> set [demo_mount]. canonical_mount [] cli_fs (lm_path m)" by simp
  have "set (map (\<lambda>m. (lm_path m, lm_folder_id m)) [demo_mount]) = set (map (\<lambda>m. (ms_path m, ms_folder_id m)) [demo_listed])"
    by (simp add: demo_listed_def initial_mount_state_def)
  from same_mount_chosen [OF this _ canonical, of "''/m/a''"]
  have "map_option (\<lambda>m. (lm_path m, lm_folder_id m)) (covering_mount_in [demo_mount] ''/m/a'') =
    map_option (\<lambda>(m, _). (ms_path m, ms_folder_id m)) (mount_of_path [] cli_fs [demo_listed] (path_parts ''/m/a''))" by simp
  also have "\<dots> = Some (''/m'', ''F'')" by code_simp
  finally show ?thesis .
qed

theorem table_is_aligned_witness:
  "char_count (hd (table_lines [''ID'', ''NAME''] [[''1'', ''alice''], [''22'', ''bob'']])) = 10"
proof -
  let ?h = "[''ID'', ''NAME'']" and ?rows = "[[''1'', ''alice''], [''22'', ''bob'']]"
  have "hd (table_lines ?h ?rows) \<in> set (table_lines ?h ?rows)" by (simp add: table_lines_def Let_def)
  from table_is_aligned [OF _ this] have "char_count (hd (table_lines ?h ?rows)) + 1 = sum_list (map (\<lambda>width. width + 2) (column_widths ?h ?rows))"
    by simp
  moreover have "column_widths ?h ?rows = [2, 5]" by code_simp
  ultimately show ?thesis by simp
qed

section \<open>Updates\<close>

definition install_fs :: "path list \<Rightarrow> fs" where
  "install_fs denied = \<lparr> fs_nodes = [([''b''], Dir), ([''b'', ''valv''], File ''v1'' 1), ([''b'', ''valvd''], File ''d1'' 1),
     ([''t''], Dir), ([''t'', ''valv''], File ''v2'' 2), ([''t'', ''valvd''], File ''d2'' 2)], fs_denied = denied, fs_faults = [] \<rparr>"

definition install_world :: "path list \<Rightarrow> world" where
  "install_world denied = demo_world (demo_db []) (install_fs denied)"

lemma install_ready:
  "installing [''b''] [''b''] {[''t'', ''valv''], [''t'', ''valvd'']} (w_fs (install_world denied))"
proof -
  have "fs_tree (install_fs denied)" by (rule fs_treeI) (simp add: install_fs_def fs_entry_def)
  then have "slots [''b''] [''b''] binary_names (install_fs denied)"
    by (simp add: slots_def binary_names_def install_fs_def fs_entry_def canonicalize_def plain_entry_def)
  moreover have "staged_at (install_fs denied) [''t'', x] [''t'', x]" if "x \<in> {''valv'', ''valvd''}" for x
    using that by (auto simp: staged_at_def install_fs_def fs_entry_def canonicalize_def plain_entry_def)
  ultimately show ?thesis
    unfolding installing_def install_world_def demo_world_def by fastforce
qed

theorem failed_swap_restores_witness:
  "\<exists>e w'. swap [''b''] (Some [''t'', ''valv'']) (Some [''t'', ''gone'']) (install_world []) = (Inl e, w') \<and>
     fs_entry (w_fs w') [''b'', ''valv''] = Some (File ''v1'' 1)"
proof -
  let ?run = "swap [''b''] (Some [''t'', ''valv'']) (Some [''t'', ''gone'']) (install_world [])"
  have fails: "isl (fst ?run)" by code_simp
  then obtain err where err: "fst ?run = Inl err" by (cases "fst ?run") auto
  have gone: "staged_at (install_fs []) [''t'', ''gone''] [''t'', ''gone'']"
    by (simp add: staged_at_def install_fs_def fs_entry_def canonicalize_def plain_entry_def)
  have "installing [''b''] [''b''] (set_option (Some [''t'', ''valv'']) \<union> set_option (Some [''t'', ''gone''])) (w_fs (install_world []))"
    using install_ready [of "[]"] gone unfolding installing_def install_world_def demo_world_def by fastforce
  from failed_swap_restores [OF this result_pair [OF err]]
  have "fs_entry (w_fs (snd ?run)) [''b'', ''valv''] = fs_entry (w_fs (install_world [])) [''b'', ''valv'']" by simp
  moreover have "fs_entry (w_fs (install_world [])) [''b'', ''valv''] = Some (File ''v1'' 1)" by code_simp
  ultimately show ?thesis using result_pair [OF err] by metis
qed

definition swapped_world :: world where
  "swapped_world = snd (swap [''b''] (Some [''t'', ''valv'']) (Some [''t'', ''valvd'']) (install_world []))"

definition demo_backup :: swap_backup where
  "demo_backup = \<lparr> sb_valv_current = Some [''b'', ''valv''], sb_valv_backup = Some [''b'', ''valv.old''],
     sb_valvd_current = Some [''b'', ''valvd''], sb_valvd_backup = Some [''b'', ''valvd.old''] \<rparr>"

lemma swapped_run:
  "swap [''b''] (Some [''t'', ''valv'']) (Some [''t'', ''valvd'']) (install_world []) = (Inr demo_backup, swapped_world)"
  unfolding swapped_world_def by (rule result_pair) code_simp

lemma install_both:
  "installing [''b''] [''b''] (set_option (Some [''t'', ''valv'']) \<union> set_option (Some [''t'', ''valvd''])) (w_fs (install_world []))"
  "installing [''b''] [''b''] (insert [''t'', ''valvd''] (set_option (Some [''t'', ''valv'']))) (w_fs (install_world []))"
  using install_ready [of "[]"] by (simp_all add: insert_commute)

lemma swapped_slots: "as_swapped [''b''] [''b''] swapped_world swapped_world"
proof -
  let ?fs = "w_fs swapped_world"
  have "fs_tree ?fs" by (rule fs_treeI) code_simp
  moreover have "canonicalize ?fs [''b''] = Inr [''b'']" "fs_entry ?fs [''b''] = Some Dir" by code_simp+
  moreover have "list_all (\<lambda>x. plain_entry (fs_entry ?fs [''b'', x])) [''valv'', ''valv.old'', ''valvd'', ''valvd.old'']" by code_simp
  ultimately show ?thesis
    by (simp add: as_swapped_def installing_def slots_def binary_names_def)
qed

lemma fs_same_ret: "obeys fs_same (ret ())"
  by (simp add: obeys_def ret_def fs_same_def)

lemma installed_before:
  "fs_entry (w_fs (install_world [])) [''b'', ''valv''] = Some (File ''v1'' 1)"
  "fs_entry (w_fs (install_world [])) [''b'', ''valvd''] = Some (File ''d1'' 1)"
  by code_simp+

theorem rollback_restores_witness:
  "\<exists>u'. handle_failed_restart (\<lambda>_. ''e'') demo_backup (ret ()) ETransport swapped_world =
      (Inr (EMsg ''update failed and was rolled back: e''), u') \<and> fs_entry (w_fs u') [''b'', ''valvd''] = Some (File ''d1'' 1)"
  using rollback_restores [OF install_both(1) swapped_run swapped_slots fs_same_ret, of "\<lambda>_. ''e''" ETransport]
  by (auto simp: installed_before)

definition reaped_world :: world where
  "reaped_world = snd (remove_stale_backup [''b'', ''valvd''] swapped_world)"

theorem restarted_daemon_defeats_rollback_witness:
  "\<exists>u' msg. handle_failed_restart (\<lambda>_. ''e'') demo_backup (ret ()) ETransport reaped_world = (Inr (EMsg msg), u') \<and>
      fs_entry (w_fs u') [''b'', ''valv''] = Some (File ''v1'' 1) \<and> fs_entry (w_fs u') [''b'', ''valvd''] = Some (File ''d2'' 2)"
proof -
  have reaped: "remove_stale_backup ([''b''] @ [''valvd'']) swapped_world = (Inr (), reaped_world)"
    unfolding reaped_world_def append_Cons append_Nil by (rule result_pair) code_simp
  have "fs_entry (w_fs swapped_world) [''b'', ''valvd''] = Some (File ''d2'' 2)" by code_simp
  then show ?thesis
    using restarted_daemon_defeats_rollback [OF install_both(2) swapped_run reaped fs_same_ret, of "\<lambda>_. ''e''" ETransport]
    by (auto simp: installed_before)
qed

end
