(* ===== verification/Service_Runs.thy ===== *)
theory Service_Runs
  imports Daemon_Process Cli_Runs
begin

text \<open>
  The theorems on the daemon's process and its service applied to a home directory with a
  configuration, service managers that succeed and a daemon that answers at once.
\<close>

section \<open>Installing and removing\<close>

definition service_demo :: service_env where
  "service_demo = \<lparr> se_home = Some ''/h'', se_exe = Inr [''b'', ''valvd''], se_user = None, se_hostname = None,
     se_run = (\<lambda>_ _ fs. (Inr (True, ''0'', ''501''), fs)), se_connect = (\<lambda>_ fs. (Some ''HTTP/1.1 200 OK'', fs)),
     se_reply = (\<lambda>fs. (None, fs)), se_status = (\<lambda>_. None), se_line = (\<lambda>_. Inr ''''), se_now = (\<lambda>n. 200 * n),
     se_mtime = int, se_lossy = id, se_render = (\<lambda>_. ''e'') \<rparr>"

definition service_start :: service where
  "service_start = \<lparr> sv_fs = cli_fs, sv_ran = [], sv_out = [], sv_err = [], sv_lines_read = 0, sv_ticks = 0, sv_slept = 0, sv_heard = [] \<rparr>"

definition mac_cli :: cli_env where "mac_cli = (cli_demo []) \<lparr> ce_os := ''macos'' \<rparr>"

lemma service_demo_keeps: "system_keeps service_demo F"
  by (simp add: system_keeps_def service_demo_def)

lemma service_demo_home: "ce_home mac_cli = se_home service_demo" "ce_os mac_cli = ''macos''"
  by (simp_all add: mac_cli_def cli_demo_def service_demo_def)

definition installed :: service where "installed = snd (install_agent 9 service_demo service_start)"

lemma agent_installed: "install_agent 9 service_demo service_start = (Inr (), installed)"
proof -
  have "fst (install_agent 9 service_demo service_start) = Inr ()" by code_simp
  then show ?thesis by (simp add: installed_def prod_eq_iff)
qed


definition unit_start :: service where
  "unit_start = service_start \<lparr> sv_fs := \<lparr> fs_nodes = [([''h''], Dir), ([''h'', ''.config''], Dir), ([''h'', ''.config'', ''systemd''], Dir),
     ([''h'', ''.config'', ''systemd'', ''user''], Dir), ([''h'', ''.config'', ''systemd'', ''user'', ''valvd.service''], File ''u'' 1)],
     fs_denied = [], fs_faults = [] \<rparr> \<rparr>"

theorem uninstalled_service_is_gone_witness:
  "daemon_service_registered (cli_demo []) (sv_fs unit_start) \<and>
   \<not> daemon_service_registered (cli_demo []) (sv_fs (snd (uninstall_unit service_demo unit_start)))"
proof -
  have registered: "daemon_service_registered (cli_demo []) (sv_fs unit_start)" by code_simp
  have "fst (uninstall_unit service_demo unit_start) = Inr ()" by code_simp
  then have "uninstall_unit service_demo unit_start = (Inr (), snd (uninstall_unit service_demo unit_start))"
    by (simp add: prod_eq_iff)
  moreover have "ce_home (cli_demo []) = se_home service_demo" "ce_os (cli_demo []) = ''linux''"
    by (simp_all add: cli_demo_def service_demo_def)
  ultimately show ?thesis
    using registered uninstalled_service_is_gone [OF _ _ service_demo_keeps] by blast
qed

section \<open>Logs\<close>

definition log_fs :: fs where
  "log_fs = \<lparr> fs_nodes = [([''l''], Dir), ([''l'', ''valvd.log.1''], File ''a'' 5), ([''l'', ''other''], File ''b'' 5),
     ([''l'', ''valvd.log.2''], File ''c'' 900000000000000)], fs_denied = [], fs_faults = [] \<rparr>"

theorem prune_removes_old_logs_only_witness:
  "fs_entry (snd (prune_old_logs 604800000000010 [''l''] log_fs)) [''l'', ''valvd.log.1''] = None \<and>
   fs_entry (snd (prune_old_logs 604800000000010 [''l''] log_fs)) [''l'', ''other''] = Some (File ''b'' 5)"
proof -
  let ?run = "prune_old_logs 604800000000010 [''l''] log_fs"
  have "fst ?run = Inr ()" by code_simp
  then have run: "?run = (Inr (), snd ?run)" by (simp add: prod_eq_iff)
  have tree: "fs_tree log_fs" by (simp add: fs_tree_def log_fs_def fs_entry_def)
  have dir: "canonicalize log_fs [''l''] = Inr [''l'']" "fs_entry log_fs [''l''] = Some Dir" by code_simp+
  note pruned = prune_removes_old_logs_only [OF run tree dir]
  have "old_log [''l''] (log_cutoff 604800000000010) log_fs [''l'', ''valvd.log.1'']"
    "\<not> old_log [''l''] (log_cutoff 604800000000010) log_fs [''l'', ''other'']"
    "fs_entry log_fs [''l'', ''other''] = Some (File ''b'' 5)"
    by code_simp+
  then show ?thesis using pruned [of "[''l'', ''valvd.log.1'']"] pruned [of "[''l'', ''other'']"] by simp
qed

section \<open>The end of a daemon\<close>

definition demo_raw :: raw_config where
  "demo_raw = \<lparr> rc_backend_url = Some ''http://s'', rc_device_id = None, rc_device_token = Some ''t'', rc_device_name = None,
     rc_mounts = [] \<rparr>"

text \<open>A file stands where the directories of the port file would be, so the port is not advertised.\<close>

definition process_fs :: fs where
  "process_fs = put_entry [''h'', ''Library''] (File [] 0) cli_fs"

definition stopped_run :: "(error + unit) \<times> daemon option" where
  "stopped_run = run_daemon offline_env service_demo (\<lambda>_. Some demo_raw) [] 0 (Some 80)
     (\<lambda>_. ret (ShutdownSignal (Inr ()))) (demo_world (demo_db []) process_fs)"

theorem ended_daemon_leaves_nothing_witness:
  "\<exists>d. stopped_run = (Inr (), Some d) \<and>
     \<not> path_exists (w_fs (dm_world d)) [''h'', ''.local'', ''share'', ''valv'', ''valvd.sock'']"
proof -
  have "case stopped_run of (Inr _, Some _) \<Rightarrow> True | _ \<Rightarrow> False" by code_simp
  then obtain d where d: "stopped_run = (Inr (), Some d)"
    by (auto split: prod.splits sum.splits option.splits)
  have "daemon_socket_path service_demo = Inr [''h'', ''.local'', ''share'', ''valv'', ''valvd.sock'']" by code_simp
  from ended_daemon_leaves_nothing [OF d [unfolded stopped_run_def] this] d show ?thesis by blast
qed

end
