(* ===== verification/Spec2Isabelle.thy ===== *)
theory Spec2Isabelle
  imports Service_Runs
begin

text \<open>
  Valv keeps local directories in step with folders on a server.  The Rust crates under \<open>src/crates\<close>
  are the client: \<open>valv-sync\<close> (the sync engine and the local mirror), \<open>valvd\<close> (the daemon) and
  \<open>valv-cli\<close> (the command line).  This library models all three as state-passing functions and step
  relations, and proves what makes them correct.

  How the parts interact.  The mirror is a SQLite database of nodes, versions, uploaded chunks and
  mounts.  A push compares a mounted directory with the mirror and submits operations; a pull applies
  the server's op log to the mirror and then to the disk; the watcher pushes single paths as they
  change.  A reply the client does not understand halts the mount until the program is updated.  The
  daemon runs a loop for each mount, which decides between a pull and a full sync and restarts the
  watcher, and serves requests for its status, for mounts, for paths and versions and for the macOS
  file provider; all of them share the mirror and the list of mounts.  The command line asks the daemon
  over its socket and the server over HTTP, reads the same mirror and configuration, installs the
  daemon and updates both binaries.

  Theories, in the order of their imports:
  \<^item> \<open>Valv_Prelude\<close>, \<open>Json\<close>, \<open>Keyed_Table\<close>, \<open>Errors\<close>: strings, JSON values and serde's field rules,
    keyed tables (the locales \<open>keyed_table\<close> and \<open>deletable_table\<close>), and fallible computations with
    \<open>?\<close> as \<open>try_op\<close>; \<open>obeys R m\<close> states a frame condition of a computation, and the locale
    \<open>state_preorder\<close> carries it through the combinators.
  \<^item> \<open>Protocol\<close> (\<open>protocol/sync.rs\<close>, \<open>protocol/http.rs\<close>): wire types and the decoding of replies.
  \<^item> \<open>Mirror\<close>, \<open>Op_Log\<close> (\<open>persistence/\<close>): the tables with their queries and invariants, one op-log
    entry, a tree snapshot; an entry as a refinement of its meaning on maps (\<open>entry_meaning\<close>),
    idempotence, convergence of a replay.
  \<^item> \<open>File_System\<close>: the part of \<open>std::path\<close> and \<open>std::fs\<close> the sources use, with symbolic links,
    \<open>..\<close>, permissions, and devices that take a part of a write or fail to flush it (\<open>fs_faults\<close>).
    \<open>World\<close>: mirror, disk, requests sent, halt flag and clocks; the server
    is an arbitrary function of the requests, SHA-256, FastCDC, UUIDs and clocks are parameters.
  \<^item> \<open>Chunk_Transfer\<close> (\<open>chunking/\<close>, \<open>storage/\<close>): chunking, upload and download of chunks.
  \<^item> \<open>Delta_Pull\<close>, \<open>Op_Submit\<close>, \<open>Local_Push\<close> with \<open>Local_Push_Props\<close> (\<open>sync_engine/\<close>): the pull loop
    and its cursor, submissions and conflict copies, the push with its two walks and the halt flag.
  \<^item> \<open>Watch\<close> (\<open>watch/mod.rs\<close>): event handling, and the watch task as the step relation \<open>watch_step\<close>.
  \<^item> \<open>Materialize\<close> with \<open>Materialize_Props\<close>, \<open>Atomic_Write\<close>, \<open>Materialize_Safety\<close>
    (\<open>valvd/src/tasks.rs\<close>): paths of nodes, pulled operations on disk, verified downloads, atomic
    writes (write, flush, rename, and the removal of the temporary file on every error), the sweeps
    that clean up and materialise a mount.  \<open>Materialize_Safety\<close> rests on \<open>Atomic_Write\<close>.
  \<^item> \<open>Daemon\<close> with \<open>Daemon_Props\<close>, \<open>Daemon_Theorems\<close> (\<open>main.rs\<close>, \<open>tasks.rs\<close>): the record
    \<open>daemon\<close> for \<open>DaemonState\<close>, pulls and full syncs with their bookkeeping (active syncs, health,
    credentials, errors); the locales \<open>field_outside_pass\<close> and \<open>field_outside_sync\<close> carry the frame
    of a field of a mount through every operation of a pass.
  \<^item> \<open>Releases\<close>, \<open>Self_Update\<close>, \<open>Control\<close> with \<open>Control_Props\<close> (\<open>update.rs\<close>, \<open>self_update.rs\<close>,
    \<open>control.rs\<close>): versions as a linear order, the release listing, verified self-updates, the
    status, pause and resume, and the polls.
  \<^item> \<open>Sync_Loop\<close> with \<open>Sync_Loop_Props\<close> (\<open>sync_loop\<close> in \<open>tasks.rs\<close>): the loop of a mount as the step
    relation \<open>loop_step\<close>; the watcher's supervision and the dirty mark by rule induction.  A watcher's
    death and the loop's handling of it are two steps, so a dead watcher whose handle the loop still
    holds is a state of the model.
  \<^item> \<open>Ws_Client\<close> (\<open>sync_engine/ws_client.rs\<close>): the websocket's address, and its connections, pings and
    deadlines as the step relation \<open>ws_step\<close>.
  \<^item> \<open>Path_Resolution\<close> with \<open>Path_Props\<close> (\<open>path_resolution.rs\<close>, \<open>nodes.rs\<close>): local paths to nodes and
    back.  \<open>Mounts\<close> with \<open>Mounts_Props\<close> (\<open>mounts.rs\<close>, \<open>config.rs\<close>, the start in \<open>main.rs\<close>): mounting,
    unmounting, the persisted and the configured mounts, and the daemon at work as \<open>daemon_run\<close>.
  \<^item> \<open>File_Provider\<close>, \<open>Restore\<close> with \<open>File_Provider_Props\<close> (\<open>fp.rs\<close>, \<open>restore.rs\<close>): the handlers of the
    file provider, version history and restores.
  \<^item> \<open>Text_Ops\<close>, \<open>Service_Files\<close> (\<open>launchd.rs\<close>, \<open>systemd.rs\<close>, \<open>config.rs\<close>): the texts the daemon writes
    for the service managers and their escaping, with the command line's reader of the launch agent.
  \<^item> \<open>Cli_Errors\<close>, \<open>Cli_State\<close>, \<open>Cli_Paths\<close>, \<open>Cli_Daemon\<close>, \<open>Cli_Tables\<close> (\<open>valv-cli/src/error.rs\<close>, \<open>config.rs\<close>,
    \<open>paths.rs\<close>, \<open>daemon.rs\<close>, \<open>table.rs\<close>, \<open>format.rs\<close>): errors with their exit codes; the record \<open>cli\<close> of
    what a command changes and \<open>cli_env\<close> of what it is given; the mount that covers a path; the
    daemon's client, its start and the diagnosis of its absence; tables.
  \<^item> \<open>Cli_Grants\<close>, \<open>Cli_Auth\<close>, \<open>Cli_Commands\<close>, \<open>Cli_Status\<close>, \<open>Cli_Main\<close> (\<open>grants.rs\<close>, \<open>auth.rs\<close>, \<open>app.rs\<close>,
    \<open>update_notice.rs\<close>, \<open>main.rs\<close>): the commands and their dispatch.  \<open>Cli_Props\<close>, \<open>Cli_Safety\<close>: what a
    command may send (\<open>sends P\<close>, an instance of \<open>state_preorder\<close>), hence that revoking and unmounting
    follow the listing, the credentials and the confirmation.  \<open>Cli_Waits\<close>: the loops that wait end.
    \<open>Cli_Auth\<close> lets the listener, a read and the answer of the pairing callback fail.
  \<^item> \<open>File_Moves\<close>, \<open>Cli_Update\<close> with \<open>Cli_Update_Props\<close> (\<open>valv-cli/src/update.rs\<close>): renames of files, staging
    and the swap of both binaries with its undo and its roll-back.
  \<^item> \<open>Service_Install\<close> with \<open>Service_Props\<close> (\<open>launchd.rs\<close>, \<open>systemd.rs\<close>, \<open>config.rs\<close>), \<open>Daemon_Process\<close>
    (\<open>main.rs\<close>, \<open>config.rs\<close>): installing and removing the service, with the programs run in their order;
    the daemon's process from its start to its end, its sockets and its old logs.
  \<^item> \<open>Concrete_Runs\<close>, \<open>Daemon_Runs\<close>, \<open>Ws_Runs\<close>, \<open>Cli_Runs\<close>, \<open>Service_Runs\<close>: the theorems applied to concrete mirrors, file systems,
    servers, daemons and command lines.

  Bounds.  Loops of the program without a bound take rounds, and \<open>ENoFuel\<close> is the answer when they
  run out.  \<open>pull_delta_terminates\<close> gives rounds that suffice for a pull against a bounded log,
  \<open>sweep_visits_the_tree\<close> shows that the number of rows is enough for a sweep.  The walk up the
  parents of a node gets two rounds more than there are rows: more are needed only on a cycle, and
  \<open>parent_cycle_never_ends\<close> shows that then the program's loop does not end at all.  The loops of the
  command line that wait until a deadline get a round for each sleep that fits into it and two more
  (\<open>sync_barrier_ends\<close>, \<open>wait_for_daemon_socket_ends\<close>), and so does the installer's wait
  (\<open>wait_for_daemon_ends\<close>).  Their sleeps are part of the model (\<open>sleep_ms\<close>, \<open>service_sleep\<close>): the clock
  shows what was slept beside a part that is only taken not to go back.  A request that is never
  answered (\<open>Silent\<close>) makes a client without a timeout wait for ever, which is \<open>ENoFuel\<close> too; the
  installer's probes are taken to come to an end.

  Machine integers.  \<open>i64\<close> sequence numbers are \<open>int\<close> and \<open>u64\<close> sizes \<open>nat\<close>; the places where a
  width matters have it written out: SQLite's refusal of sizes from \<open>2 ^ 63\<close>, the wrapping cast of
  modification times, and the ranges serde accepts.

  Concurrency.  A pass of a mount holds its lock, so it is one step; \<open>watch_step\<close>, \<open>loop_step\<close>,
  \<open>ws_step\<close> and \<open>daemon_run\<close> interleave such steps with events, marks, pauses and requests.  A field shared through
  an \<open>Arc\<close> (the halt flag, the rejection, the watcher's liveness) is a field of the listed mount, and a
  store through a clone is \<open>through_arc\<close>.  Times are milliseconds on the loop's own clock.

  Not modelled.  The sockets below the websocket client and the daemon's listeners, the router, SQLite's
  own failures and migrations, the texts of TOML and JSON, jitter, the abortion of running tasks, logging,
  spinners and the parser of arguments.  \<open>launchctl\<close>, \<open>systemctl\<close>, \<open>tar\<close>, the browser and the signature
  scheme are parameters.  The server, the contracts, the macOS client and the tests are outside the Rust
  crates; the server is a parameter.
\<close>

end
